(* ===== verification/Prelude.thy ===== *)
theory Prelude
  imports Main "HOL-Library.Signed_Division"
begin

text \<open>
  Shared vocabulary of the development: the result type of fallible Rust code, the
  machine-integer operations the sources use (saturating, checked and clamped arithmetic on
  \<open>u32\<close>, \<open>u64\<close> and \<open>i64\<close>, written out over \<^typ>\<open>nat\<close> and \<^typ>\<open>int\<close>), the string functions
  of the standard library (strings are ASCII, a list of \<^typ>\<open>char\<close>), and the generic lemmas on
  lists, maps and runs the components share.  The locale \<open>one_shot\<close> is the contract of every
  store of single-use handles in the engine (re-authentication tokens, send proposals, pending
  signing requests, backup challenges).
\<close>

named_theorems machine_arith \<open>definitions of the bounded arithmetic operations\<close>
named_theorems result_simps \<open>case analysis on results\<close>

section \<open>Results\<close>

type_synonym ('e, 'a) result = "'e + 'a"

fun is_ok :: "('e, 'a) result \<Rightarrow> bool" where
  "is_ok (Inl _) = False"
| "is_ok (Inr _) = True"

fun bind_result :: "('e, 'a) result \<Rightarrow> ('a \<Rightarrow> ('e, 'b) result) \<Rightarrow> ('e, 'b) result" where
  "bind_result (Inl e) f = Inl e"
| "bind_result (Inr a) f = f a"

definition guard_or :: "bool \<Rightarrow> 'e \<Rightarrow> ('e, unit) result" where
  "guard_or b e = (if b then Inr () else Inl e)"

fun ok_or :: "'a option \<Rightarrow> 'e \<Rightarrow> ('e, 'a) result" where
  "ok_or None e = Inl e"
| "ok_or (Some a) e = Inr a"

fun map_err :: "('e \<Rightarrow> 'f) \<Rightarrow> ('e, 'a) result \<Rightarrow> ('f, 'a) result" where
  "map_err f (Inl e) = Inl (f e)"
| "map_err f (Inr a) = Inr a"

lemma bind_result_ok [result_simps]:
  "bind_result r f = Inr b \<longleftrightarrow> (\<exists>a. r = Inr a \<and> f a = Inr b)"
  by (cases r) auto

lemma bind_result_err [result_simps]:
  "bind_result r f = Inl e \<longleftrightarrow> r = Inl e \<or> (\<exists>a. r = Inr a \<and> f a = Inl e)"
  by (cases r) auto

lemma guard_or_ok [result_simps, simp]: "guard_or b e = Inr u \<longleftrightarrow> b"
  by (simp add: guard_or_def)

lemma guard_or_err [result_simps, simp]: "guard_or b e = Inl e' \<longleftrightarrow> \<not> b \<and> e' = e"
  by (auto simp add: guard_or_def)

lemma ok_or_ok [result_simps, simp]: "ok_or x e = Inr a \<longleftrightarrow> x = Some a"
  by (cases x) auto

lemma ok_or_err [result_simps, simp]: "ok_or x e = Inl e' \<longleftrightarrow> x = None \<and> e' = e"
  by (cases x) auto

lemma map_err_ok [result_simps, simp]: "map_err f r = Inr a \<longleftrightarrow> r = Inr a"
  by (cases r) auto

lemma map_err_err [result_simps, simp]: "map_err f r = Inl e \<longleftrightarrow> (\<exists>e'. r = Inl e' \<and> e = f e')"
  by (cases r) auto

lemma is_ok_iff: "is_ok r \<longleftrightarrow> (\<exists>a. r = Inr a)"
  by (cases r) auto

section \<open>Machine integers\<close>

definition u32_max :: nat where "u32_max = 4294967295"
definition u64_max :: nat where "u64_max = 18446744073709551615"
definition i64_max :: int where "i64_max = 9223372036854775807"
definition i64_min :: int where "i64_min = - 9223372036854775808"

lemmas int_limits = u32_max_def u64_max_def i64_max_def i64_min_def

definition clamp_i64 :: "int \<Rightarrow> int" where
  "clamp_i64 x = max i64_min (min i64_max x)"

definition sat_add_i64 :: "int \<Rightarrow> int \<Rightarrow> int" where
  "sat_add_i64 a b = clamp_i64 (a + b)"

definition sat_sub_i64 :: "int \<Rightarrow> int \<Rightarrow> int" where
  "sat_sub_i64 a b = clamp_i64 (a - b)"

definition sat_add_u32 :: "nat \<Rightarrow> nat \<Rightarrow> nat" where
  "sat_add_u32 a b = min u32_max (a + b)"

definition sat_add_u64 :: "nat \<Rightarrow> nat \<Rightarrow> nat" where
  "sat_add_u64 a b = min u64_max (a + b)"

definition sat_mul_u64 :: "nat \<Rightarrow> nat \<Rightarrow> nat" where
  "sat_mul_u64 a b = min u64_max (a * b)"

definition checked_add_u64 :: "nat \<Rightarrow> nat \<Rightarrow> nat option" where
  "checked_add_u64 a b = (if a + b \<le> u64_max then Some (a + b) else None)"

definition checked_mul_u64 :: "nat \<Rightarrow> nat \<Rightarrow> nat option" where
  "checked_mul_u64 a b = (if a * b \<le> u64_max then Some (a * b) else None)"

lemmas [machine_arith] =
  clamp_i64_def sat_add_i64_def sat_sub_i64_def sat_add_u32_def sat_add_u64_def sat_mul_u64_def
  checked_add_u64_def checked_mul_u64_def

lemma clamp_i64_id [simp]: "i64_min \<le> x \<Longrightarrow> x \<le> i64_max \<Longrightarrow> clamp_i64 x = x"
  by (simp add: clamp_i64_def)

lemma clamp_i64_mono: "x \<le> y \<Longrightarrow> clamp_i64 x \<le> clamp_i64 y"
  by (simp add: clamp_i64_def)

lemma sat_add_u32_le [simp]: "sat_add_u32 a b \<le> u32_max"
  by (simp add: sat_add_u32_def)

lemma sat_add_u32_ge: "a \<le> u32_max \<Longrightarrow> a \<le> sat_add_u32 a b"
  by (simp add: sat_add_u32_def)

lemma sat_add_u32_id [simp]: "a + b \<le> u32_max \<Longrightarrow> sat_add_u32 a b = a + b"
  by (simp add: sat_add_u32_def)

section \<open>Strings\<close>

fun str_contains :: "string \<Rightarrow> string \<Rightarrow> bool" where
  "str_contains [] needle = (needle = [])"
| "str_contains (c # s) needle = (take (length needle) (c # s) = needle \<or> str_contains s needle)"

definition char_lower :: "char \<Rightarrow> char" where
  "char_lower c = (let n = (of_char c :: nat) in if 65 \<le> n \<and> n \<le> 90 then char_of (n + 32) else c)"

definition to_lowercase :: "string \<Rightarrow> string" where
  "to_lowercase s = map char_lower s"

lemma str_contains_iff: "str_contains s needle \<longleftrightarrow> (\<exists>a b. s = a @ needle @ b)"
proof (induction s)
  case (Cons c s)
  show ?case
  proof
    assume "str_contains (c # s) needle"
    then consider "take (length needle) (c # s) = needle" | "str_contains s needle" by auto
    then show "\<exists>a b. c # s = a @ needle @ b"
    proof cases
      case 1
      then have "c # s = [] @ needle @ drop (length needle) (c # s)"
        by (metis append_Nil append_take_drop_id)
      then show ?thesis by blast
    next
      case 2
      then obtain a b where "s = a @ needle @ b" using Cons.IH by blast
      then have "c # s = (c # a) @ needle @ b" by simp
      then show ?thesis by blast
    qed
  next
    assume "\<exists>a b. c # s = a @ needle @ b"
    then obtain a b where *: "c # s = a @ needle @ b" by blast
    show "str_contains (c # s) needle"
    proof (cases a)
      case Nil
      then have "take (length needle) (c # s) = needle" using * by simp
      then show ?thesis by simp
    next
      case (Cons d a')
      then have "s = a' @ needle @ b" using * by simp
      then show ?thesis using Cons.IH by auto
    qed
  qed
qed auto

lemma str_contains_append [simp]: "str_contains (a @ needle @ b) needle"
  by (auto simp: str_contains_iff)

lemma char_lower_idem [simp]: "char_lower (char_lower c) = char_lower c"
proof -
  have "(of_char (char_of (n + 32 :: nat) :: char) :: nat) = n + 32" if "n \<le> 90" for n
    using that by simp
  then show ?thesis by (auto simp: char_lower_def Let_def)
qed

lemma to_lowercase_idem [simp]: "to_lowercase (to_lowercase s) = to_lowercase s"
  by (simp add: to_lowercase_def)

lemma to_lowercase_append: "to_lowercase (a @ b) = to_lowercase a @ to_lowercase b"
  by (simp add: to_lowercase_def)

section \<open>Lists\<close>

lemma find_some_in: "find P xs = Some x \<Longrightarrow> x \<in> set xs \<and> P x"
  by (induction xs) (auto split: if_splits)

section \<open>Runs of operations\<close>

text \<open>
  The state after a sequence of operations, and how many of them satisfy a predicate in the
  state in which they run.
\<close>

primrec run_ops :: "('op \<Rightarrow> 's \<Rightarrow> 's) \<Rightarrow> 'op list \<Rightarrow> 's \<Rightarrow> 's" where
  "run_ops step [] s = s"
| "run_ops step (op # ops) s = run_ops step ops (step op s)"

primrec count_ops :: "('op \<Rightarrow> 's \<Rightarrow> 's) \<Rightarrow> ('op \<Rightarrow> 's \<Rightarrow> bool) \<Rightarrow> 'op list \<Rightarrow> 's \<Rightarrow> nat" where
  "count_ops step P [] s = 0"
| "count_ops step P (op # ops) s = (if P op s then 1 else 0) + count_ops step P ops (step op s)"

lemma run_ops_append [simp]: "run_ops step (a @ b) s = run_ops step b (run_ops step a s)"
  by (induction a arbitrary: s) auto

lemma run_ops_invariant:
  assumes "\<And>op s. I s \<Longrightarrow> I (step op s)" and "I s"
  shows "I (run_ops step ops s)"
  using assms(2) by (induction ops arbitrary: s) (auto intro: assms(1))

section \<open>Single-use handles\<close>

text \<open>
  A store hands out keys and later grants an operation against a key.  The contract says when a
  key is live, that only a live key is granted, that a grant kills the key and that nothing but
  minting revives it.  Over every sequence of operations the grants of a key are then bounded
  by its mints.
\<close>

locale one_shot =
  fixes apply_op :: "'op \<Rightarrow> 's \<Rightarrow> 's"
    and grants :: "'k \<Rightarrow> 'op \<Rightarrow> 's \<Rightarrow> bool"
    and mints :: "'k \<Rightarrow> 'op \<Rightarrow> 's \<Rightarrow> bool"
    and live :: "'s \<Rightarrow> 'k \<Rightarrow> bool"
  assumes grant_live: "grants k op s \<Longrightarrow> live s k"
    and grant_kills: "grants k op s \<Longrightarrow> \<not> live (apply_op op s) k"
    and dead_stays: "\<not> live s k \<Longrightarrow> \<not> mints k op s \<Longrightarrow> \<not> live (apply_op op s) k"
    and grant_no_mint: "grants k op s \<Longrightarrow> \<not> mints k op s"
begin

lemma grants_bounded:
  "count_ops apply_op (grants k) ops s
     \<le> count_ops apply_op (mints k) ops s + (if live s k then 1 else 0)"
proof (induction ops arbitrary: s)
  case (Cons op ops)
  note IH = Cons.IH[of "apply_op op s"]
  show ?case
    using IH grant_live[of k op s] grant_kills[of k op s] dead_stays[of s k op]
      grant_no_mint[of k op s]
    by (cases "grants k op s"; cases "mints k op s"; cases "live s k") (auto split: if_splits)
qed simp

lemma at_most_one_grant:
  "count_ops apply_op (mints k) ops s = 0 \<Longrightarrow> count_ops apply_op (grants k) ops s \<le> 1"
  using grants_bounded[of k ops s] by (simp split: if_splits)

lemma dead_never_granted:
  "count_ops apply_op (mints k) ops s = 0 \<Longrightarrow> \<not> live s k \<Longrightarrow> count_ops apply_op (grants k) ops s = 0"
  using grants_bounded[of k ops s] by simp

end

section \<open>Keyed tables\<close>

text \<open>
  The contract between a metadata table and the services that use it: a successful write is what
  the next read of its key returns, and it touches no other key.
\<close>

primrec put_all :: "('k \<Rightarrow> 'v \<Rightarrow> 's \<Rightarrow> ('e, 's) result) \<Rightarrow> ('k \<times> 'v) list \<Rightarrow> 's \<Rightarrow> ('e, 's) result" where
  "put_all put [] s = Inr s"
| "put_all put (kv # kvs) s = bind_result (put (fst kv) (snd kv) s) (put_all put kvs)"

locale kv_table =
  fixes get :: "'s \<Rightarrow> 'k \<Rightarrow> 'v option"
    and put :: "'k \<Rightarrow> 'v \<Rightarrow> 's \<Rightarrow> ('e, 's) result"
  assumes get_put: "put k v s = Inr s' \<Longrightarrow> get s' k = Some v"
    and get_put_other: "put k v s = Inr s' \<Longrightarrow> k' \<noteq> k \<Longrightarrow> get s' k' = get s k'"
begin

lemma last_write_wins:
  "put_all put kvs s = Inr s' \<Longrightarrow>
     get s' k = (case map_of (rev kvs) k of Some v \<Rightarrow> Some v | None \<Rightarrow> get s k)"
proof (induction kvs arbitrary: s)
  case (Cons kv kvs)
  obtain s1 where s1: "put (fst kv) (snd kv) s = Inr s1" "put_all put kvs s1 = Inr s'"
    using Cons.prems by (auto simp: bind_result_ok)
  have "get s1 k = (if k = fst kv then Some (snd kv) else get s k)"
    using get_put[OF s1(1)] get_put_other[OF s1(1)] by auto
  then show ?case
    using Cons.IH[OF s1(2)] by (simp add: map_add_def split: option.splits)
qed simp

end

end
