(* ===== verification/Core_Types.thy ===== *)
theory Core_Types
  imports Decimal
begin

text \<open>
  The domain types of \<open>zbag-core\<close> the engine works on, with the names of the sources: networks,
  wallet, account and server records, job progress with its constructors, swap states, the Tor
  and sync states, the stable error codes of the IPC contract, and the error values of the
  engine (an \<open>anyhow\<close> error is its chain of causes, outermost first).  A UUID is represented by its
  canonical text, a \<open>SystemTime\<close> by its nanoseconds since the epoch, and a Unix timestamp in
  milliseconds by an \<^typ>\<open>int\<close> (\<open>i64\<close>).
\<close>

type_synonym uuid = string
type_synonym system_time = int
type_synonym unix_ms = int

definition secs :: "nat \<Rightarrow> int" where "secs n = int n * 1000000000"

definition millis :: "nat \<Rightarrow> int" where "millis n = int n * 1000000"

section \<open>Wallets, accounts and servers\<close>

datatype network = Mainnet | Testnet

datatype wallet_type = SoftwareWallet | WatchOnlyWallet

datatype account_type = SoftwareAccount | WatchOnlyAccount | HardwareSigner

datatype reauth_purpose = Spend | ViewSeedPhrase

record wallet_info =
  wi_id :: uuid
  wi_name :: string
  wi_wallet_type :: wallet_type
  wi_network :: network
  wi_remember_unlock_enabled :: bool
  wi_created_at :: unix_ms
  wi_last_opened_at :: "unix_ms option"

record account_info =
  ai_id :: nat
  ai_name :: string
  ai_account_type :: account_type

record server_info =
  si_id :: uuid
  si_name :: string
  si_grpc_url :: string
  si_network :: network
  si_is_default :: bool
  si_last_success_at :: "unix_ms option"
  si_validation_error :: "string option"

section \<open>Jobs\<close>

datatype job_type = JobSend | JobShield

datatype job_state = JobQueued | JobRunning | JobCompleted | JobFailed | JobCancelled

datatype job_phase = PhasePreparing | PhaseProving | PhaseBroadcasting | PhaseDone

record job_progress =
  jp_job_id :: string
  jp_job_type :: job_type
  jp_state :: job_state
  jp_phase :: job_phase
  jp_percent :: "nat option"
  jp_txid :: "string option"
  jp_error :: "string option"
  jp_can_cancel :: bool

definition job_queued :: "string \<Rightarrow> job_type \<Rightarrow> job_progress" where
  "job_queued i t = \<lparr>jp_job_id = i, jp_job_type = t, jp_state = JobQueued, jp_phase = PhasePreparing,
     jp_percent = Some 0, jp_txid = None, jp_error = None, jp_can_cancel = True\<rparr>"

definition job_proving :: "string \<Rightarrow> job_type \<Rightarrow> nat option \<Rightarrow> job_progress" where
  "job_proving i t p = \<lparr>jp_job_id = i, jp_job_type = t, jp_state = JobRunning, jp_phase = PhaseProving,
     jp_percent = p, jp_txid = None, jp_error = None, jp_can_cancel = True\<rparr>"

definition job_broadcasting :: "string \<Rightarrow> job_type \<Rightarrow> string \<Rightarrow> job_progress" where
  "job_broadcasting i t x = \<lparr>jp_job_id = i, jp_job_type = t, jp_state = JobRunning,
     jp_phase = PhaseBroadcasting, jp_percent = Some 90, jp_txid = Some x, jp_error = None,
     jp_can_cancel = False\<rparr>"

definition job_completed :: "string \<Rightarrow> job_type \<Rightarrow> string \<Rightarrow> job_progress" where
  "job_completed i t x = \<lparr>jp_job_id = i, jp_job_type = t, jp_state = JobCompleted, jp_phase = PhaseDone,
     jp_percent = Some 100, jp_txid = Some x, jp_error = None, jp_can_cancel = False\<rparr>"

definition job_failed :: "string \<Rightarrow> job_type \<Rightarrow> string \<Rightarrow> string option \<Rightarrow> job_progress" where
  "job_failed i t e x = \<lparr>jp_job_id = i, jp_job_type = t, jp_state = JobFailed, jp_phase = PhaseDone,
     jp_percent = None, jp_txid = x, jp_error = Some e, jp_can_cancel = False\<rparr>"

definition job_cancelled :: "string \<Rightarrow> job_type \<Rightarrow> job_progress" where
  "job_cancelled i t = \<lparr>jp_job_id = i, jp_job_type = t, jp_state = JobCancelled, jp_phase = PhaseDone,
     jp_percent = None, jp_txid = None, jp_error = None, jp_can_cancel = False\<rparr>"

lemmas job_progress_ctors =
  job_queued_def job_proving_def job_broadcasting_def job_completed_def job_failed_def job_cancelled_def

section \<open>Swaps, Tor, synchronisation\<close>

datatype swap_type = ToZec | FromZec

datatype swap_mode = ExactInput | ExactOutput

datatype swap_state = Draft | AwaitingDeposit | SwPending | Confirming | SwCompleted | Refunded | SwFailed

datatype tor_status = TorOff | TorConnecting | TorOn | TorError

record tor_state =
  ts_enabled :: bool
  ts_status :: tor_status
  ts_last_error :: "string option"

datatype sync_phase = SyIdle | SyPreparing | SyDownloading | SyScanning | SyEnhancing | SyCatchingUp
  | SyOffline | SyError

record sync_progress =
  sp_phase :: sync_phase
  sp_scan_frontier_height :: nat
  sp_wallet_tip_height :: nat
  sp_progress_percent :: nat
  sp_eta_seconds :: "nat option"
  sp_retry_in_seconds :: "nat option"
  sp_error_message :: "string option"

datatype lock_status = Locked | Unlocked

datatype backup_action = BackupRequired | BackupComplete

datatype sync_status = Synced | Syncing nat | StOffline nat | StError string

datatype shield_action = ShieldNone | ShieldAvailable string | ShieldInProgress

datatype privacy_posture = Optimal | NeedsAction

record wallet_status =
  ws_lock_status :: lock_status
  ws_backup_status :: backup_action
  ws_sync_status :: sync_status
  ws_shield_status :: shield_action
  ws_privacy_posture :: privacy_posture

datatype recipient_kind = RkOrchard | RkSapling | RkTransparent

datatype transaction_status = TxPending | TxConfirmed | TxExpired | TxFailed

section \<open>Error codes\<close>

datatype (plugins only: code) error_code =
    WALLET_NOT_FOUND | WALLET_LOCKED | WALLET_ALREADY_EXISTS | INVALID_SEED_PHRASE | BACKUP_REQUIRED
  | BACKUP_CHALLENGE_INVALID | BACKUP_CHALLENGE_EXPIRED | INVALID_WALLET_PASSWORD | REAUTH_REQUIRED
  | REAUTH_TOKEN_INVALID | REAUTH_TOKEN_EXPIRED | BACKUP_CHALLENGE_TOO_MANY_ATTEMPTS
  | ACCOUNT_NOT_FOUND | WATCH_ONLY_CANNOT_SPEND
  | INSUFFICIENT_FUNDS | INVALID_RECIPIENT | TRANSPARENT_SPEND_BLOCKED | TRANSACTION_FAILED
  | MEMO_TOO_LONG | PROPOSAL_NOT_FOUND | PROPOSAL_EXPIRED | QUEUED_BROADCAST_NOT_FOUND
  | QUEUED_BROADCAST_EXPIRED | PRIVACY_ACK_REQUIRED | MEMO_NOT_ALLOWED | JOB_NOT_FOUND
  | SYNC_IN_PROGRESS | SERVER_UNAVAILABLE | SYNC_FAILED | SYNC_CHAIN_TIP_FAILED
  | SYNC_CACHE_INIT_FAILED | SYNC_DB_INIT_FAILED | SYNC_WALLET_DB_FAILED | SYNC_CHAIN_UPDATE_FAILED
  | SYNC_SCAN_FAILED | SYNC_TREE_STATE_FAILED | SYNC_BLOCK_CACHE_FAILED
  | INVALID_UFVK | INVALID_PCZT | SIGNING_FAILED
  | QUOTE_EXPIRED | SWAP_FAILED | INVALID_ASSET | SWAP_UNSUPPORTED_NETWORK
  | TOR_NOT_READY | TOR_CONNECTION_FAILED
  | EXCHANGE_RATE_DISABLED | EXCHANGE_RATE_FETCH_FAILED | EXCHANGE_RATE_RATE_LIMITED
  | EXCHANGE_RATE_PRIVACY_ACK_REQUIRED
  | WATCH_ONLY_NO_SEED | WATCH_ONLY_NO_BACKUP | WATCH_ONLY_CANNOT_SHIELD
  | INVALID_REQUEST | INTERNAL_ERROR | SCHEMA_VERSION_MISMATCH

primrec error_code_text :: "error_code \<Rightarrow> string" where
  "error_code_text WALLET_NOT_FOUND = ''E1001''"
| "error_code_text WALLET_LOCKED = ''E1002''"
| "error_code_text WALLET_ALREADY_EXISTS = ''E1003''"
| "error_code_text INVALID_SEED_PHRASE = ''E1004''"
| "error_code_text BACKUP_REQUIRED = ''E1005''"
| "error_code_text BACKUP_CHALLENGE_INVALID = ''E1006''"
| "error_code_text BACKUP_CHALLENGE_EXPIRED = ''E1007''"
| "error_code_text INVALID_WALLET_PASSWORD = ''E1008''"
| "error_code_text REAUTH_REQUIRED = ''E1009''"
| "error_code_text REAUTH_TOKEN_INVALID = ''E1010''"
| "error_code_text REAUTH_TOKEN_EXPIRED = ''E1011''"
| "error_code_text BACKUP_CHALLENGE_TOO_MANY_ATTEMPTS = ''E1012''"
| "error_code_text ACCOUNT_NOT_FOUND = ''E2001''"
| "error_code_text WATCH_ONLY_CANNOT_SPEND = ''E2002''"
| "error_code_text INSUFFICIENT_FUNDS = ''E3001''"
| "error_code_text INVALID_RECIPIENT = ''E3002''"
| "error_code_text TRANSPARENT_SPEND_BLOCKED = ''E3003''"
| "error_code_text TRANSACTION_FAILED = ''E3004''"
| "error_code_text MEMO_TOO_LONG = ''E3005''"
| "error_code_text PROPOSAL_NOT_FOUND = ''E3006''"
| "error_code_text PROPOSAL_EXPIRED = ''E3007''"
| "error_code_text QUEUED_BROADCAST_NOT_FOUND = ''E3008''"
| "error_code_text QUEUED_BROADCAST_EXPIRED = ''E3009''"
| "error_code_text PRIVACY_ACK_REQUIRED = ''E3010''"
| "error_code_text MEMO_NOT_ALLOWED = ''E3011''"
| "error_code_text JOB_NOT_FOUND = ''E3012''"
| "error_code_text SYNC_IN_PROGRESS = ''E4001''"
| "error_code_text SERVER_UNAVAILABLE = ''E4002''"
| "error_code_text SYNC_FAILED = ''E4003''"
| "error_code_text SYNC_CHAIN_TIP_FAILED = ''E4004''"
| "error_code_text SYNC_CACHE_INIT_FAILED = ''E4005''"
| "error_code_text SYNC_DB_INIT_FAILED = ''E4006''"
| "error_code_text SYNC_WALLET_DB_FAILED = ''E4007''"
| "error_code_text SYNC_CHAIN_UPDATE_FAILED = ''E4008''"
| "error_code_text SYNC_SCAN_FAILED = ''E4009''"
| "error_code_text SYNC_TREE_STATE_FAILED = ''E4010''"
| "error_code_text SYNC_BLOCK_CACHE_FAILED = ''E4011''"
| "error_code_text INVALID_UFVK = ''E5001''"
| "error_code_text INVALID_PCZT = ''E5002''"
| "error_code_text SIGNING_FAILED = ''E5003''"
| "error_code_text QUOTE_EXPIRED = ''E6001''"
| "error_code_text SWAP_FAILED = ''E6002''"
| "error_code_text INVALID_ASSET = ''E6003''"
| "error_code_text SWAP_UNSUPPORTED_NETWORK = ''E6004''"
| "error_code_text TOR_NOT_READY = ''E7001''"
| "error_code_text TOR_CONNECTION_FAILED = ''E7002''"
| "error_code_text EXCHANGE_RATE_DISABLED = ''E8001''"
| "error_code_text EXCHANGE_RATE_FETCH_FAILED = ''E8002''"
| "error_code_text EXCHANGE_RATE_RATE_LIMITED = ''E8003''"
| "error_code_text EXCHANGE_RATE_PRIVACY_ACK_REQUIRED = ''E8004''"
| "error_code_text WATCH_ONLY_NO_SEED = ''E9010''"
| "error_code_text WATCH_ONLY_NO_BACKUP = ''E9011''"
| "error_code_text WATCH_ONLY_CANNOT_SHIELD = ''E9012''"
| "error_code_text INVALID_REQUEST = ''E9001''"
| "error_code_text INTERNAL_ERROR = ''E9002''"
| "error_code_text SCHEMA_VERSION_MISMATCH = ''E9003''"

section \<open>Engine errors\<close>

datatype cause = IpcCause error_code string | MsgCause string

type_synonym engine_error = "cause list"

definition ipc_err :: "error_code \<Rightarrow> string \<Rightarrow> engine_error" where
  "ipc_err code message = [IpcCause code message]"

definition msg_err :: "string \<Rightarrow> engine_error" where
  "msg_err message = [MsgCause message]"

definition with_context :: "string \<Rightarrow> engine_error \<Rightarrow> engine_error" where
  "with_context message e = MsgCause message # e"

fun find_engine_ipc_error :: "engine_error \<Rightarrow> (error_code \<times> string) option" where
  "find_engine_ipc_error [] = None"
| "find_engine_ipc_error (IpcCause c m # e) = Some (c, m)"
| "find_engine_ipc_error (MsgCause m # e) = find_engine_ipc_error e"

fun cause_text :: "cause \<Rightarrow> string" where
  "cause_text (IpcCause c m) = error_code_text c @ '': '' @ m"
| "cause_text (MsgCause m) = m"

fun error_text :: "engine_error \<Rightarrow> string" where
  "error_text [] = []"
| "error_text (c # e) = cause_text c"

text \<open>The alternate format \<open>{err:#}\<close> of an \<open>anyhow\<close> error joins the chain with colons.\<close>

fun error_chain_text :: "engine_error \<Rightarrow> string" where
  "error_chain_text [] = []"
| "error_chain_text [c] = cause_text c"
| "error_chain_text (c # e) = cause_text c @ '': '' @ error_chain_text e"

definition to_unix_ms :: "system_time \<Rightarrow> (engine_error, unix_ms) result" where
  "to_unix_ms t =
     (if t < 0 then Inl (ipc_err INTERNAL_ERROR ''time went backwards'')
      else if t div 1000000 > i64_max then Inl (ipc_err INTERNAL_ERROR ''timestamp overflow'')
      else Inr (t div 1000000))"

lemma find_engine_ipc_error_ipc_err [simp]: "find_engine_ipc_error (ipc_err c m) = Some (c, m)"
  by (simp add: ipc_err_def)

lemma find_engine_ipc_error_context [simp]:
  "find_engine_ipc_error (with_context m e) = find_engine_ipc_error e"
  by (simp add: with_context_def)

definition SCHEMA_VERSION :: nat where "SCHEMA_VERSION = 1"

definition ensure_schema_version :: "nat \<Rightarrow> (error_code \<times> string, unit) result" where
  "ensure_schema_version v =
     (if v \<noteq> SCHEMA_VERSION
      then Inl (SCHEMA_VERSION_MISMATCH,
                ''schema_version mismatch: expected '' @ show_nat SCHEMA_VERSION @ '', got '' @ show_nat v)
      else Inr ())"

end
