(* ===== verification/App_Db.thy ===== *)
theory App_Db
  imports Core_Types "HOL-Library.Char_ord" "HOL-Library.List_Lexorder" "HOL-Library.Product_Lexorder"
begin

text \<open>
  The app metadata database: \<open>crates/zbag-engine/src/db\<close> (schema, migrations and the per-table
  modules).  A table is the list of its rows in insertion order; text columns keep the text the
  code writes and parses.  The operations are the SQL statements of the sources, with the primary
  keys, the foreign keys (switched on by every connection), the partial unique index on the default
  server and the conversion errors as error values.  A query with \<open>ORDER BY\<close> is a stable sort.
\<close>

section \<open>Rows and tables\<close>

datatype sql_error = UniqueViolation | ForeignKeyViolation | QueryReturnedNoRows | ConversionFailure

record wallet_row =
  w_id :: uuid
  w_name :: string
  w_directory_path :: string
  w_wallet_type :: string
  w_network :: string
  w_remember_unlock_enabled :: int
  w_created_at :: int
  w_last_opened_at :: "int option"

record account_row =
  a_wallet_id :: uuid
  a_account_id :: nat
  a_name :: string
  a_account_type :: string
  a_created_at :: int

record backup_row =
  b_wallet_id :: uuid
  b_backup_required :: int
  b_backup_completed_at :: "int option"
  b_verification_method :: "string option"

record server_row =
  s_id :: uuid
  s_name :: string
  s_grpc_url :: string
  s_network :: string
  s_is_default :: int
  s_last_success_at :: "int option"
  s_created_at :: int

record tor_row =
  t_enabled :: int
  t_status :: string
  t_last_error :: "string option"
  t_updated_at :: int

record rotation_row =
  r_wallet_id :: uuid
  r_account_id :: nat
  r_diversifier_index :: int
  r_created_at :: int

record fiat_row =
  f_enabled :: int
  f_currency :: string
  f_privacy_acknowledged :: int
  f_updated_at :: int

record swap_info =
  sw_id :: uuid
  sw_remote_id :: "string option"
  sw_swap_type :: swap_type
  sw_input_asset :: string
  sw_input_amount :: string
  sw_output_asset :: string
  sw_output_amount :: "string option"
  sw_deposit_address :: "string option"
  sw_deposit_memo :: "string option"
  sw_destination_address :: "string option"
  sw_refund_address :: "string option"
  sw_state :: swap_state
  sw_deadline :: "int option"
  sw_last_error :: "string option"
  sw_created_at :: int
  sw_updated_at :: int

record swap_row =
  x_wallet_id :: uuid
  x_swap_type :: string
  x_state :: string
  x_info :: swap_info

record kdf_params =
  kdf_algorithm :: string
  kdf_version :: nat
  kdf_memory_mib :: nat
  kdf_iterations :: nat
  kdf_parallelism :: nat
  kdf_salt_b64 :: string

record aead_params =
  aead_scheme :: string
  aead_version :: nat
  aead_nonce_b64 :: string

record wallet_encryption_meta =
  we_kdf :: kdf_params
  we_aead :: aead_params
  we_wrapped_dek_b64 :: string

record wallet_encryption_row =
  e_wallet_id :: uuid
  e_kdf :: kdf_params
  e_wrapped_dek :: string
  e_aead_scheme :: string
  e_aead_version :: nat
  e_aead_nonce :: "string option"

record app_db =
  db_wallets :: "wallet_row list"
  db_accounts :: "account_row list"
  db_wallet_encryption :: "wallet_encryption_row list"
  db_backup_status :: "backup_row list"
  db_servers :: "server_row list"
  db_tor :: "tor_row option"
  db_swaps :: "swap_row list"
  db_rotation :: "rotation_row list"
  db_fiat :: "fiat_row option"
  db_migrations :: "int list"

section \<open>Text columns\<close>

fun network_text :: "network \<Rightarrow> string" where
  "network_text Mainnet = ''Mainnet''"
| "network_text Testnet = ''Testnet''"

definition parse_network :: "string \<Rightarrow> network" where
  "parse_network s = (if s = ''Mainnet'' then Mainnet else if s = ''Testnet'' then Testnet else Testnet)"

fun wallet_type_text :: "wallet_type \<Rightarrow> string" where
  "wallet_type_text SoftwareWallet = ''Software''"
| "wallet_type_text WatchOnlyWallet = ''WatchOnly''"

definition parse_wallet_type :: "string \<Rightarrow> wallet_type" where
  "parse_wallet_type s = (if s = ''Software'' then SoftwareWallet
     else if s = ''WatchOnly'' then WatchOnlyWallet else SoftwareWallet)"

fun account_type_text :: "account_type \<Rightarrow> string" where
  "account_type_text SoftwareAccount = ''Software''"
| "account_type_text WatchOnlyAccount = ''WatchOnly''"
| "account_type_text HardwareSigner = ''HardwareSigner''"

definition parse_account_type :: "string \<Rightarrow> account_type" where
  "parse_account_type s = (if s = ''Software'' then SoftwareAccount
     else if s = ''WatchOnly'' then WatchOnlyAccount
     else if s = ''HardwareSigner'' then HardwareSigner else SoftwareAccount)"

fun tor_status_text :: "tor_status \<Rightarrow> string" where
  "tor_status_text TorOff = ''Off''"
| "tor_status_text TorConnecting = ''Connecting''"
| "tor_status_text TorOn = ''On''"
| "tor_status_text TorError = ''Error''"

definition parse_tor_status :: "string \<Rightarrow> tor_status" where
  "parse_tor_status s = (if s = ''Off'' then TorOff else if s = ''Connecting'' then TorConnecting
     else if s = ''On'' then TorOn else if s = ''Error'' then TorError else TorOff)"

fun swap_type_text :: "swap_type \<Rightarrow> string" where
  "swap_type_text ToZec = ''ToZec''"
| "swap_type_text FromZec = ''FromZec''"

definition parse_swap_type :: "string \<Rightarrow> swap_type" where
  "parse_swap_type s = (if s = ''ToZec'' then ToZec else if s = ''FromZec'' then FromZec else ToZec)"

fun swap_state_text :: "swap_state \<Rightarrow> string" where
  "swap_state_text Draft = ''Draft''"
| "swap_state_text AwaitingDeposit = ''AwaitingDeposit''"
| "swap_state_text SwPending = ''Pending''"
| "swap_state_text Confirming = ''Confirming''"
| "swap_state_text SwCompleted = ''Completed''"
| "swap_state_text Refunded = ''Refunded''"
| "swap_state_text SwFailed = ''Failed''"

definition parse_swap_state :: "string \<Rightarrow> swap_state" where
  "parse_swap_state s = (if s = ''Draft'' then Draft else if s = ''AwaitingDeposit'' then AwaitingDeposit
     else if s = ''Pending'' then SwPending else if s = ''Confirming'' then Confirming
     else if s = ''Completed'' then SwCompleted else if s = ''Refunded'' then Refunded
     else if s = ''Failed'' then SwFailed else SwPending)"

datatype fiat_currency = USD | EUR | GBP | CHF | CAD | AUD | JPY

fun fiat_code :: "fiat_currency \<Rightarrow> string" where
  "fiat_code USD = ''USD''" | "fiat_code EUR = ''EUR''" | "fiat_code GBP = ''GBP''"
| "fiat_code CHF = ''CHF''" | "fiat_code CAD = ''CAD''" | "fiat_code AUD = ''AUD''"
| "fiat_code JPY = ''JPY''"

definition parse_fiat_currency :: "string \<Rightarrow> fiat_currency" where
  "parse_fiat_currency s = (if s = ''USD'' then USD else if s = ''EUR'' then EUR else if s = ''GBP'' then GBP
     else if s = ''CHF'' then CHF else if s = ''CAD'' then CAD else if s = ''AUD'' then AUD
     else if s = ''JPY'' then JPY else USD)"

record fiat_settings =
  fs_enabled :: bool
  fs_currency :: fiat_currency
  fs_privacy_acknowledged :: bool

definition sql_bool :: "bool \<Rightarrow> int" where "sql_bool b = (if b then 1 else 0)"

definition as_u32 :: "nat \<Rightarrow> nat" where "as_u32 n = n mod 2 ^ 32"

section \<open>Statements\<close>

text \<open>\<open>INSERT ... ON CONFLICT DO UPDATE\<close> on a list of rows: update the rows of the key, or append.\<close>

definition upsert_rows :: "('r \<Rightarrow> bool) \<Rightarrow> ('r \<Rightarrow> 'r) \<Rightarrow> 'r \<Rightarrow> 'r list \<Rightarrow> 'r list" where
  "upsert_rows is_key upd new rows =
     (if list_ex is_key rows then map (\<lambda>r. if is_key r then upd r else r) rows else rows @ [new])"

definition wallet_exists :: "app_db \<Rightarrow> uuid \<Rightarrow> bool" where
  "wallet_exists db wid = list_ex (\<lambda>r. w_id r = wid) (db_wallets db)"

subsection \<open>wallets\<close>

definition insert_wallet :: "wallet_info \<Rightarrow> string \<Rightarrow> app_db \<Rightarrow> (sql_error, app_db) result" where
  "insert_wallet w directory_path db =
     (if wallet_exists db (wi_id w) then Inl UniqueViolation
      else Inr (db\<lparr>db_wallets := db_wallets db @
        [\<lparr>w_id = wi_id w, w_name = wi_name w, w_directory_path = directory_path,
          w_wallet_type = wallet_type_text (wi_wallet_type w), w_network = network_text (wi_network w),
          w_remember_unlock_enabled = sql_bool (wi_remember_unlock_enabled w),
          w_created_at = wi_created_at w, w_last_opened_at = wi_last_opened_at w\<rparr>]\<rparr>))"

definition wallet_of_row :: "wallet_row \<Rightarrow> wallet_info" where
  "wallet_of_row r = \<lparr>wi_id = w_id r, wi_name = w_name r, wi_wallet_type = parse_wallet_type (w_wallet_type r),
     wi_network = parse_network (w_network r), wi_remember_unlock_enabled = (w_remember_unlock_enabled r \<noteq> 0),
     wi_created_at = w_created_at r, wi_last_opened_at = w_last_opened_at r\<rparr>"

definition get_wallet :: "app_db \<Rightarrow> uuid \<Rightarrow> (wallet_info \<times> string) option" where
  "get_wallet db wid =
     map_option (\<lambda>r. (wallet_of_row r, w_directory_path r)) (find (\<lambda>r. w_id r = wid) (db_wallets db))"

definition list_wallets :: "app_db \<Rightarrow> wallet_info list" where
  "list_wallets db = map wallet_of_row (sort_key (\<lambda>r. - w_created_at r) (db_wallets db))"

definition update_last_opened_at :: "uuid \<Rightarrow> int \<Rightarrow> app_db \<Rightarrow> app_db" where
  "update_last_opened_at wid t db = db\<lparr>db_wallets :=
     map (\<lambda>r. if w_id r = wid then r\<lparr>w_last_opened_at := Some t\<rparr> else r) (db_wallets db)\<rparr>"

definition set_remember_unlock_enabled :: "uuid \<Rightarrow> bool \<Rightarrow> app_db \<Rightarrow> app_db" where
  "set_remember_unlock_enabled wid b db = db\<lparr>db_wallets :=
     map (\<lambda>r. if w_id r = wid then r\<lparr>w_remember_unlock_enabled := sql_bool b\<rparr> else r) (db_wallets db)\<rparr>"

subsection \<open>accounts\<close>

definition upsert_account :: "uuid \<Rightarrow> account_info \<Rightarrow> int \<Rightarrow> app_db \<Rightarrow> (sql_error, app_db) result" where
  "upsert_account wid a created_at db =
     (if \<not> wallet_exists db wid then Inl ForeignKeyViolation
      else Inr (db\<lparr>db_accounts := upsert_rows
        (\<lambda>r. a_wallet_id r = wid \<and> a_account_id r = ai_id a)
        (\<lambda>r. r\<lparr>a_name := ai_name a, a_account_type := account_type_text (ai_account_type a)\<rparr>)
        \<lparr>a_wallet_id = wid, a_account_id = ai_id a, a_name = ai_name a,
         a_account_type = account_type_text (ai_account_type a), a_created_at = created_at\<rparr>
        (db_accounts db)\<rparr>))"

definition account_of_row :: "account_row \<Rightarrow> account_info" where
  "account_of_row r = \<lparr>ai_id = as_u32 (a_account_id r), ai_name = a_name r,
     ai_account_type = parse_account_type (a_account_type r)\<rparr>"

definition list_accounts :: "app_db \<Rightarrow> uuid \<Rightarrow> account_info list" where
  "list_accounts db wid =
     map account_of_row (sort_key a_account_id (filter (\<lambda>r. a_wallet_id r = wid) (db_accounts db)))"

definition get_account :: "app_db \<Rightarrow> uuid \<Rightarrow> nat \<Rightarrow> account_info option" where
  "get_account db wid aid =
     map_option account_of_row (find (\<lambda>r. a_wallet_id r = wid \<and> a_account_id r = aid) (db_accounts db))"

subsection \<open>backup_status\<close>

definition set_backup_required :: "uuid \<Rightarrow> bool \<Rightarrow> app_db \<Rightarrow> (sql_error, app_db) result" where
  "set_backup_required wid required db =
     (if \<not> wallet_exists db wid then Inl ForeignKeyViolation
      else Inr (db\<lparr>db_backup_status := upsert_rows (\<lambda>r. b_wallet_id r = wid)
        (\<lambda>r. r\<lparr>b_backup_required := sql_bool required\<rparr>)
        \<lparr>b_wallet_id = wid, b_backup_required = sql_bool required, b_backup_completed_at = None,
         b_verification_method = None\<rparr> (db_backup_status db)\<rparr>))"

definition mark_backup_complete :: "uuid \<Rightarrow> int \<Rightarrow> string \<Rightarrow> app_db \<Rightarrow> (sql_error, app_db) result" where
  "mark_backup_complete wid completed_at verification_method db =
     (if \<not> wallet_exists db wid then Inl ForeignKeyViolation
      else Inr (db\<lparr>db_backup_status := upsert_rows (\<lambda>r. b_wallet_id r = wid)
        (\<lambda>r. r\<lparr>b_backup_required := 0, b_backup_completed_at := Some completed_at,
               b_verification_method := Some verification_method\<rparr>)
        \<lparr>b_wallet_id = wid, b_backup_required = 0, b_backup_completed_at = Some completed_at,
         b_verification_method = Some verification_method\<rparr> (db_backup_status db)\<rparr>))"

definition get_backup_required :: "app_db \<Rightarrow> uuid \<Rightarrow> bool option" where
  "get_backup_required db wid =
     map_option (\<lambda>r. b_backup_required r \<noteq> 0) (find (\<lambda>r. b_wallet_id r = wid) (db_backup_status db))"

subsection \<open>servers\<close>

definition default_conflict :: "server_row list \<Rightarrow> string \<Rightarrow> int \<Rightarrow> bool" where
  "default_conflict rows network is_default =
     (is_default = 1 \<and> list_ex (\<lambda>r. s_network r = network \<and> s_is_default r = 1) rows)"

definition insert_server_row :: "server_row \<Rightarrow> server_row list \<Rightarrow> (sql_error, server_row list) result" where
  "insert_server_row new rows =
     (if list_ex (\<lambda>r. s_id r = s_id new) rows then Inl UniqueViolation
      else if default_conflict rows (s_network new) (s_is_default new) then Inl UniqueViolation
      else Inr (rows @ [new]))"

definition insert_server :: "server_info \<Rightarrow> int \<Rightarrow> app_db \<Rightarrow> (sql_error, app_db) result" where
  "insert_server s created_at db =
     bind_result (insert_server_row
       \<lparr>s_id = si_id s, s_name = si_name s, s_grpc_url = si_grpc_url s, s_network = network_text (si_network s),
        s_is_default = sql_bool (si_is_default s), s_last_success_at = si_last_success_at s,
        s_created_at = created_at\<rparr> (db_servers db))
       (\<lambda>rows. Inr (db\<lparr>db_servers := rows\<rparr>))"

definition server_of_row :: "server_row \<Rightarrow> server_info" where
  "server_of_row r = \<lparr>si_id = s_id r, si_name = s_name r, si_grpc_url = s_grpc_url r,
     si_network = parse_network (s_network r), si_is_default = (s_is_default r \<noteq> 0),
     si_last_success_at = s_last_success_at r, si_validation_error = None\<rparr>"

definition get_server :: "app_db \<Rightarrow> uuid \<Rightarrow> server_info option" where
  "get_server db sid = map_option server_of_row (find (\<lambda>r. s_id r = sid) (db_servers db))"

definition list_servers :: "app_db \<Rightarrow> server_info list" where
  "list_servers db = map server_of_row
     (sort_key (\<lambda>r. (s_network r, - s_is_default r, s_created_at r)) (db_servers db))"

definition set_default_server :: "uuid \<Rightarrow> app_db \<Rightarrow> (sql_error, app_db) result" where
  "set_default_server sid db =
     (case find (\<lambda>r. s_id r = sid) (db_servers db) of
        None \<Rightarrow> Inl QueryReturnedNoRows
      | Some row \<Rightarrow>
          let network = s_network row;
              cleared = map (\<lambda>r. if s_network r = network then r\<lparr>s_is_default := 0\<rparr> else r) (db_servers db);
              set1 = map (\<lambda>r. if s_id r = sid then r\<lparr>s_is_default := 1\<rparr> else r) cleared
          in Inr (db\<lparr>db_servers := set1\<rparr>))"

definition update_last_success_at :: "uuid \<Rightarrow> int \<Rightarrow> app_db \<Rightarrow> app_db" where
  "update_last_success_at sid t db = db\<lparr>db_servers :=
     map (\<lambda>r. if s_id r = sid then r\<lparr>s_last_success_at := Some t\<rparr> else r) (db_servers db)\<rparr>"

subsection \<open>tor_settings and fiat_settings\<close>

definition get_tor_state :: "app_db \<Rightarrow> tor_state" where
  "get_tor_state db =
     (case db_tor db of
        None \<Rightarrow> \<lparr>ts_enabled = False, ts_status = TorOff, ts_last_error = None\<rparr>
      | Some r \<Rightarrow> \<lparr>ts_enabled = (t_enabled r \<noteq> 0), ts_status = parse_tor_status (t_status r),
                   ts_last_error = t_last_error r\<rparr>)"

definition upsert_tor_state :: "tor_state \<Rightarrow> int \<Rightarrow> app_db \<Rightarrow> app_db" where
  "upsert_tor_state st now_ms db = db\<lparr>db_tor := Some
     \<lparr>t_enabled = sql_bool (ts_enabled st), t_status = tor_status_text (ts_status st),
      t_last_error = ts_last_error st, t_updated_at = now_ms\<rparr>\<rparr>"

definition get_fiat_settings :: "app_db \<Rightarrow> fiat_settings" where
  "get_fiat_settings db =
     (case db_fiat db of
        None \<Rightarrow> \<lparr>fs_enabled = False, fs_currency = USD, fs_privacy_acknowledged = False\<rparr>
      | Some r \<Rightarrow> \<lparr>fs_enabled = (f_enabled r \<noteq> 0), fs_currency = parse_fiat_currency (f_currency r),
                   fs_privacy_acknowledged = (f_privacy_acknowledged r \<noteq> 0)\<rparr>)"

definition upsert_fiat_settings :: "fiat_settings \<Rightarrow> int \<Rightarrow> app_db \<Rightarrow> app_db" where
  "upsert_fiat_settings st now_ms db = db\<lparr>db_fiat := Some
     \<lparr>f_enabled = sql_bool (fs_enabled st), f_currency = fiat_code (fs_currency st),
      f_privacy_acknowledged = sql_bool (fs_privacy_acknowledged st), f_updated_at = now_ms\<rparr>\<rparr>"

subsection \<open>receive_rotation\<close>

definition get_next_diversifier_index :: "app_db \<Rightarrow> uuid \<Rightarrow> nat \<Rightarrow> (sql_error, nat option) result" where
  "get_next_diversifier_index db wid aid =
     (case find (\<lambda>r. r_wallet_id r = wid \<and> r_account_id r = aid) (db_rotation db) of
        None \<Rightarrow> Inr None
      | Some r \<Rightarrow> if r_diversifier_index r < 0 then Inl ConversionFailure
                  else Inr (Some (nat (r_diversifier_index r))))"

definition set_next_diversifier_index :: "uuid \<Rightarrow> nat \<Rightarrow> nat \<Rightarrow> int \<Rightarrow> app_db \<Rightarrow> (sql_error, app_db) result" where
  "set_next_diversifier_index wid aid next now_ms db =
     (if int next > i64_max then Inl ConversionFailure
      else if \<not> wallet_exists db wid then Inl ForeignKeyViolation
      else Inr (db\<lparr>db_rotation := upsert_rows (\<lambda>r. r_wallet_id r = wid \<and> r_account_id r = aid)
        (\<lambda>r. r\<lparr>r_diversifier_index := int next, r_created_at := now_ms\<rparr>)
        \<lparr>r_wallet_id = wid, r_account_id = aid, r_diversifier_index = int next, r_created_at = now_ms\<rparr>
        (db_rotation db)\<rparr>))"

subsection \<open>wallet_encryption\<close>

definition insert_wallet_encryption :: "uuid \<Rightarrow> wallet_encryption_meta \<Rightarrow> app_db \<Rightarrow> (sql_error, app_db) result" where
  "insert_wallet_encryption wid m db =
     (if list_ex (\<lambda>r. e_wallet_id r = wid) (db_wallet_encryption db) then Inl UniqueViolation
      else if \<not> wallet_exists db wid then Inl ForeignKeyViolation
      else Inr (db\<lparr>db_wallet_encryption := db_wallet_encryption db @
        [\<lparr>e_wallet_id = wid, e_kdf = we_kdf m, e_wrapped_dek = we_wrapped_dek_b64 m,
          e_aead_scheme = aead_scheme (we_aead m), e_aead_version = aead_version (we_aead m),
          e_aead_nonce = Some (aead_nonce_b64 (we_aead m))\<rparr>]\<rparr>))"

definition get_wallet_encryption :: "app_db \<Rightarrow> uuid \<Rightarrow> wallet_encryption_meta option" where
  "get_wallet_encryption db wid =
     (case find (\<lambda>r. e_wallet_id r = wid) (db_wallet_encryption db) of
        None \<Rightarrow> None
      | Some r \<Rightarrow>
          (case e_aead_nonce r of
             None \<Rightarrow> None
           | Some nonce \<Rightarrow> Some
               \<lparr>we_kdf = (e_kdf r)\<lparr>kdf_version := as_u32 (kdf_version (e_kdf r)),
                   kdf_memory_mib := as_u32 (kdf_memory_mib (e_kdf r)),
                   kdf_iterations := as_u32 (kdf_iterations (e_kdf r)),
                   kdf_parallelism := as_u32 (kdf_parallelism (e_kdf r))\<rparr>,
                we_aead = \<lparr>aead_scheme = e_aead_scheme r, aead_version = as_u32 (e_aead_version r),
                           aead_nonce_b64 = nonce\<rparr>,
                we_wrapped_dek_b64 = e_wrapped_dek r\<rparr>))"

subsection \<open>swaps\<close>

definition insert_swap :: "uuid \<Rightarrow> swap_info \<Rightarrow> app_db \<Rightarrow> (sql_error, app_db) result" where
  "insert_swap wid sw db =
     (if list_ex (\<lambda>r. sw_id (x_info r) = sw_id sw) (db_swaps db) then Inl UniqueViolation
      else if \<not> wallet_exists db wid then Inl ForeignKeyViolation
      else Inr (db\<lparr>db_swaps := db_swaps db @
        [\<lparr>x_wallet_id = wid, x_swap_type = swap_type_text (sw_swap_type sw),
          x_state = swap_state_text (sw_state sw), x_info = sw\<rparr>]\<rparr>))"

definition swap_of_row :: "swap_row \<Rightarrow> swap_info" where
  "swap_of_row r = (x_info r)\<lparr>sw_swap_type := parse_swap_type (x_swap_type r),
                              sw_state := parse_swap_state (x_state r)\<rparr>"

definition get_swap :: "app_db \<Rightarrow> uuid \<Rightarrow> (uuid \<times> swap_info) option" where
  "get_swap db sid =
     map_option (\<lambda>r. (x_wallet_id r, swap_of_row r)) (find (\<lambda>r. sw_id (x_info r) = sid) (db_swaps db))"

definition list_swaps_for_wallet :: "app_db \<Rightarrow> uuid \<Rightarrow> swap_info list" where
  "list_swaps_for_wallet db wid =
     map swap_of_row (sort_key (\<lambda>r. - sw_created_at (x_info r))
       (filter (\<lambda>r. x_wallet_id r = wid) (db_swaps db)))"

definition pollable_row :: "int \<Rightarrow> swap_row \<Rightarrow> bool" where
  "pollable_row now_ms r =
     (sw_deposit_address (x_info r) \<noteq> None \<and>
      (x_state r \<in> {''Pending'', ''Confirming''} \<or>
       (x_state r \<in> {''Draft'', ''AwaitingDeposit''} \<and>
        (case sw_deadline (x_info r) of None \<Rightarrow> True | Some dl \<Rightarrow> dl > now_ms))))"

definition list_pollable_swaps_for_wallet :: "int \<Rightarrow> app_db \<Rightarrow> uuid \<Rightarrow> swap_info list" where
  "list_pollable_swaps_for_wallet now_ms db wid =
     map swap_of_row (sort_key (\<lambda>r. - sw_created_at (x_info r))
       (filter (\<lambda>r. x_wallet_id r = wid \<and> pollable_row now_ms r) (db_swaps db)))"

text \<open>The update leaves \<open>created_at\<close> (and the id) of the row as they were.\<close>

definition update_swap :: "uuid \<Rightarrow> swap_info \<Rightarrow> app_db \<Rightarrow> (sql_error, app_db) result" where
  "update_swap wid sw db =
     (if list_ex (\<lambda>r. sw_id (x_info r) = sw_id sw) (db_swaps db) \<and> \<not> wallet_exists db wid
      then Inl ForeignKeyViolation
      else Inr (db\<lparr>db_swaps := map (\<lambda>r. if sw_id (x_info r) = sw_id sw
        then r\<lparr>x_wallet_id := wid, x_swap_type := swap_type_text (sw_swap_type sw),
               x_state := swap_state_text (sw_state sw),
               x_info := sw\<lparr>sw_created_at := sw_created_at (x_info r)\<rparr>\<rparr>
        else r) (db_swaps db)\<rparr>))"

section \<open>Lemmas\<close>

named_theorems column_roundtrip \<open>text columns read back as they were written\<close>

lemma parse_network_text [simp, column_roundtrip]: "parse_network (network_text n) = n"
  by (cases n) (simp_all add: parse_network_def)

lemma network_text_inj [simp]: "network_text n = network_text n' \<longleftrightarrow> n = n'"
  by (cases n; cases n') simp_all

lemma parse_wallet_type_text [simp, column_roundtrip]: "parse_wallet_type (wallet_type_text t) = t"
  by (cases t) (simp_all add: parse_wallet_type_def)

lemma parse_account_type_text [simp, column_roundtrip]: "parse_account_type (account_type_text t) = t"
  by (cases t) (simp_all add: parse_account_type_def)

lemma parse_tor_status_text [simp, column_roundtrip]: "parse_tor_status (tor_status_text t) = t"
  by (cases t) (simp_all add: parse_tor_status_def)

lemma parse_swap_type_text [simp, column_roundtrip]: "parse_swap_type (swap_type_text t) = t"
  by (cases t) (simp_all add: parse_swap_type_def)

lemma parse_swap_state_text [simp, column_roundtrip]: "parse_swap_state (swap_state_text t) = t"
  by (cases t) (simp_all add: parse_swap_state_def)

lemma parse_fiat_code [simp, column_roundtrip]: "parse_fiat_currency (fiat_code c) = c"
  by (cases c) (simp_all add: parse_fiat_currency_def)

lemma sql_bool_nonzero [simp]: "(sql_bool b \<noteq> 0) = b" "sql_bool b = 0 \<longleftrightarrow> \<not> b" "sql_bool b = 1 \<longleftrightarrow> b"
  by (simp_all add: sql_bool_def)

lemma as_u32_id [simp]: "n \<le> u32_max \<Longrightarrow> as_u32 n = n"
  by (simp add: as_u32_def u32_max_def)

lemma find_append: "find P (xs @ ys) = (case find P xs of None \<Rightarrow> find P ys | Some x \<Rightarrow> Some x)"
  by (induction xs) auto

lemma find_none_list_ex: "find P xs = None \<longleftrightarrow> \<not> list_ex P xs"
  by (auto simp: find_None_iff list_ex_iff)

lemma find_map_same:
  assumes "\<And>r. P (upd r) = P r"
  shows "find P (map (\<lambda>r. if P r then upd r else r) xs) = map_option upd (find P xs)"
  by (induction xs) (auto simp: assms)

lemma find_upsert_same:
  assumes "\<And>r. P (upd r) = P r" and "P new"
  shows "find P (upsert_rows P upd new rows) = Some (case find P rows of None \<Rightarrow> new | Some r \<Rightarrow> upd r)"
proof (cases "list_ex P rows")
  case True
  then obtain r where "find P rows = Some r" using find_none_list_ex by fastforce
  then show ?thesis using True by (simp add: upsert_rows_def find_map_same[of P upd, OF assms(1)])
next
  case False
  then have "find P rows = None" by (simp add: find_none_list_ex)
  then show ?thesis using False assms(2) by (simp add: upsert_rows_def find_append)
qed

lemma find_upsert_other:
  assumes "\<And>r. P r \<Longrightarrow> \<not> Q r" and "\<And>r. P (upd r) = P r" and "\<And>r. P r \<Longrightarrow> \<not> Q (upd r)" and "\<not> Q new"
  shows "find Q (upsert_rows P upd new rows) = find Q rows"
proof (cases "list_ex P rows")
  case True
  have "find Q (map (\<lambda>r. if P r then upd r else r) xs) = find Q xs" for xs
    by (induction xs) (auto simp: assms(1,3))
  then show ?thesis using True by (simp add: upsert_rows_def)
next
  case False
  then show ?thesis using assms(4) by (simp add: upsert_rows_def find_append split: option.splits)
qed

lemma wallet_exists_update [simp]:
  "wallet_exists (db\<lparr>db_accounts := x1\<rparr>) = wallet_exists db"
  "wallet_exists (db\<lparr>db_backup_status := x2\<rparr>) = wallet_exists db"
  "wallet_exists (db\<lparr>db_servers := x3\<rparr>) = wallet_exists db"
  "wallet_exists (db\<lparr>db_wallet_encryption := x4\<rparr>) = wallet_exists db"
  "wallet_exists (db\<lparr>db_swaps := x5\<rparr>) = wallet_exists db"
  "wallet_exists (db\<lparr>db_rotation := x6\<rparr>) = wallet_exists db"
  by (rule ext, simp add: wallet_exists_def)+

section \<open>The tables as keyed stores\<close>

definition account_entry :: "app_db \<Rightarrow> uuid \<times> nat \<Rightarrow> (string \<times> account_type) option" where
  "account_entry db = (\<lambda>(wid, aid). map_option (\<lambda>a. (ai_name a, ai_account_type a)) (get_account db wid aid))"

definition put_account_entry :: "int \<Rightarrow> uuid \<times> nat \<Rightarrow> string \<times> account_type \<Rightarrow> app_db \<Rightarrow> (sql_error, app_db) result" where
  "put_account_entry now_ms = (\<lambda>(wid, aid) (n, t). upsert_account wid \<lparr>ai_id = aid, ai_name = n, ai_account_type = t\<rparr> now_ms)"

interpretation accounts: kv_table account_entry "put_account_entry now_ms" for now_ms
proof
  fix k v db db' k'
  assume put: "put_account_entry now_ms k v db = Inr db'"
  obtain wid aid where k: "k = (wid, aid)" by fastforce
  obtain n t where v: "v = (n, t)" by fastforce
  show "account_entry db' k = Some v"
    using put unfolding k v
    by (auto simp: account_entry_def put_account_entry_def upsert_account_def get_account_def account_of_row_def
        find_upsert_same split: if_splits option.splits)
  assume other: "k' \<noteq> k"
  obtain wid' aid' where k': "k' = (wid', aid')" by fastforce
  have "find (\<lambda>r. a_wallet_id r = wid' \<and> a_account_id r = aid') (db_accounts db')
      = find (\<lambda>r. a_wallet_id r = wid' \<and> a_account_id r = aid') (db_accounts db)"
    using put other unfolding k v k'
    by (auto simp: put_account_entry_def upsert_account_def split: if_splits intro!: find_upsert_other)
  then show "account_entry db' k' = account_entry db k'"
    by (simp add: account_entry_def get_account_def k')
qed

interpretation backup: kv_table get_backup_required set_backup_required
proof
  fix k v db db' k'
  assume put: "set_backup_required k v db = Inr db'"
  show "get_backup_required db' k = Some v"
    using put by (auto simp: set_backup_required_def get_backup_required_def find_upsert_same
        split: if_splits option.splits)
  assume other: "k' \<noteq> k"
  have "find (\<lambda>r. b_wallet_id r = k') (db_backup_status db') = find (\<lambda>r. b_wallet_id r = k') (db_backup_status db)"
    using put other by (auto simp: set_backup_required_def split: if_splits intro!: find_upsert_other)
  then show "get_backup_required db' k' = get_backup_required db k'"
    by (simp add: get_backup_required_def)
qed

definition diversifier_entry :: "app_db \<Rightarrow> uuid \<times> nat \<Rightarrow> nat option" where
  "diversifier_entry db = (\<lambda>(wid, aid). case get_next_diversifier_index db wid aid of Inr i \<Rightarrow> i | Inl _ \<Rightarrow> None)"

definition put_diversifier_entry :: "int \<Rightarrow> uuid \<times> nat \<Rightarrow> nat \<Rightarrow> app_db \<Rightarrow> (sql_error, app_db) result" where
  "put_diversifier_entry now_ms = (\<lambda>(wid, aid) i. set_next_diversifier_index wid aid i now_ms)"

interpretation rotation: kv_table diversifier_entry "put_diversifier_entry now_ms" for now_ms
proof
  fix k v db db' k'
  assume put: "put_diversifier_entry now_ms k v db = Inr db'"
  obtain wid aid where k: "k = (wid, aid)" by fastforce
  show "diversifier_entry db' k = Some v"
    using put unfolding k
    by (auto simp: diversifier_entry_def put_diversifier_entry_def set_next_diversifier_index_def
        get_next_diversifier_index_def find_upsert_same split: if_splits option.splits)
  assume other: "k' \<noteq> k"
  obtain wid' aid' where k': "k' = (wid', aid')" by fastforce
  have "find (\<lambda>r. r_wallet_id r = wid' \<and> r_account_id r = aid') (db_rotation db')
      = find (\<lambda>r. r_wallet_id r = wid' \<and> r_account_id r = aid') (db_rotation db)"
    using put other unfolding k k'
    by (auto simp: put_diversifier_entry_def set_next_diversifier_index_def split: if_splits
        intro!: find_upsert_other)
  then show "diversifier_entry db' k' = diversifier_entry db k'"
    by (simp add: diversifier_entry_def get_next_diversifier_index_def k')
qed

section \<open>Servers\<close>

definition servers_wf :: "server_row list \<Rightarrow> bool" where
  "servers_wf rows \<longleftrightarrow> distinct (map s_id rows) \<and> (\<forall>r \<in> set rows. s_is_default r \<in> {0, 1})
     \<and> (\<forall>r \<in> set rows. s_network r \<in> {''Mainnet'', ''Testnet''})
     \<and> (\<forall>r \<in> set rows. \<forall>r' \<in> set rows.
          s_is_default r = 1 \<longrightarrow> s_is_default r' = 1 \<longrightarrow> s_network r = s_network r' \<longrightarrow> r = r')"

lemma insert_server_row_wf:
  assumes "servers_wf rows" and "s_is_default new \<in> {0, 1} \<and> s_network new \<in> {''Mainnet'', ''Testnet''}"
    and "insert_server_row new rows = Inr rows'"
  shows "servers_wf rows'"
proof -
  have r: "rows' = rows @ [new]" and n: "\<forall>r \<in> set rows. s_id r \<noteq> s_id new"
    and c: "\<not> default_conflict rows (s_network new) (s_is_default new)"
    using assms(3) by (auto simp: insert_server_row_def list_ex_iff split: if_splits)
  have "s_is_default new = 1 \<Longrightarrow> r \<in> set rows \<Longrightarrow> s_is_default r = 1 \<Longrightarrow> s_network r \<noteq> s_network new" for r
    using c by (auto simp: default_conflict_def list_ex_iff)
  then show ?thesis
    using assms(1,2) n unfolding r servers_wf_def by (auto simp: image_iff)
qed

text \<open>The two updates of \<open>set_default_server\<close> on one row.\<close>

definition flag_default :: "uuid \<Rightarrow> string \<Rightarrow> server_row \<Rightarrow> server_row" where
  "flag_default sid net r = (if s_id r = sid then r\<lparr>s_is_default := 1\<rparr>
     else if s_network r = net then r\<lparr>s_is_default := 0\<rparr> else r)"

lemma flag_default_fields [simp]:
  "s_id (flag_default sid net r) = s_id r"
  "s_network (flag_default sid net r) = s_network r"
  "s_is_default (flag_default sid net r) =
     (if s_id r = sid then 1 else if s_network r = net then 0 else s_is_default r)"
  by (simp_all add: flag_default_def)

lemma flag_default_other: "s_id r \<noteq> sid \<Longrightarrow> s_network r \<noteq> net \<Longrightarrow> flag_default sid net r = r"
  by (simp add: flag_default_def)

lemma set_default_server_rows:
  assumes "set_default_server sid db = Inr db'"
  obtains row where "row \<in> set (db_servers db)" "s_id row = sid"
    "db' = db\<lparr>db_servers := map (flag_default sid (s_network row)) (db_servers db)\<rparr>"
proof -
  obtain row where f: "find (\<lambda>r. s_id r = sid) (db_servers db) = Some row"
    using assms by (auto simp: set_default_server_def split: option.splits)
  have "row \<in> set (db_servers db)" "s_id row = sid"
    using f by (auto simp: find_Some_iff)
  moreover have "db' = db\<lparr>db_servers := map (flag_default sid (s_network row)) (db_servers db)\<rparr>"
    using assms f by (auto simp: set_default_server_def Let_def comp_def flag_default_def)
  ultimately show thesis by (rule that)
qed

lemma servers_wf_id_inj: "servers_wf rows \<Longrightarrow> r \<in> set rows \<Longrightarrow> r' \<in> set rows \<Longrightarrow> s_id r = s_id r' \<Longrightarrow> r = r'"
  by (auto simp: servers_wf_def distinct_map inj_on_def)

lemma servers_wf_one:
  "servers_wf rows \<Longrightarrow> r \<in> set rows \<Longrightarrow> r' \<in> set rows \<Longrightarrow> s_is_default r = 1 \<Longrightarrow> s_is_default r' = 1
     \<Longrightarrow> s_network r = s_network r' \<Longrightarrow> r = r'"
  unfolding servers_wf_def by blast

lemma servers_wf_flag: "servers_wf rows \<Longrightarrow> r \<in> set rows \<Longrightarrow> s_is_default r = 0 \<or> s_is_default r = 1"
  unfolding servers_wf_def by blast

lemma servers_wf_mapI:
  assumes wf: "servers_wf rows"
    and f: "\<And>r. s_id (f r) = s_id r" "\<And>r. s_network (f r) = s_network r"
    and flags: "\<And>r. r \<in> set rows \<Longrightarrow> s_is_default (f r) \<in> {0, 1}"
    and one: "\<And>r r'. r \<in> set rows \<Longrightarrow> r' \<in> set rows \<Longrightarrow> s_is_default (f r) = 1 \<Longrightarrow> s_is_default (f r') = 1
                \<Longrightarrow> s_network r = s_network r' \<Longrightarrow> r = r'"
  shows "servers_wf (map f rows)"
  unfolding servers_wf_def
proof (intro conjI ballI impI)
  show "distinct (map s_id (map f rows))" using wf by (simp add: servers_wf_def comp_def f)
  fix q
  assume "q \<in> set (map f rows)"
  then obtain r where r: "r \<in> set rows" "q = f r" by auto
  show "s_is_default q \<in> {0, 1}" using flags[OF r(1)] r(2) by simp
  show "s_network q \<in> {''Mainnet'', ''Testnet''}" using wf r f(2) unfolding servers_wf_def by auto
  fix q'
  assume "q' \<in> set (map f rows)" and d: "s_is_default q = 1" "s_is_default q' = 1" "s_network q = s_network q'"
  then obtain r' where r': "r' \<in> set rows" "q' = f r'" by auto
  have "r = r'" using one[OF r(1) r'(1)] d f(2) unfolding r(2) r'(2) by simp
  then show "q = q'" by (simp add: r(2) r'(2))
qed

lemma flag_default_wf:
  assumes "servers_wf rows" and row: "row \<in> set rows" "s_id row = sid"
  shows "servers_wf (map (flag_default sid (s_network row)) rows)"
proof -
  let ?f = "flag_default sid (s_network row)"
  have uniq: "r \<in> set rows \<Longrightarrow> s_id r = sid \<Longrightarrow> r = row" for r
    using servers_wf_id_inj[OF assms(1)] row by blast
  show ?thesis
  proof (rule servers_wf_mapI[OF assms(1)])
    show "s_is_default (?f r) \<in> {0, 1}" if "r \<in> set rows" for r
      using that assms(1) by (auto simp: servers_wf_def)
    show "r = r'" if "r \<in> set rows" "r' \<in> set rows" "s_is_default (?f r) = 1" "s_is_default (?f r') = 1"
      "s_network r = s_network r'" for r r'
    proof -
      consider "s_id r = sid \<and> s_id r' = sid" | "s_id r \<noteq> sid \<and> s_id r' \<noteq> sid"
        | "s_id r = sid \<and> s_id r' \<noteq> sid" | "s_id r \<noteq> sid \<and> s_id r' = sid" by blast
      then show ?thesis
      proof cases
        case 1
        then show ?thesis using uniq[OF that(1)] uniq[OF that(2)] by (elim conjE) (rule trans, assumption, rule sym)
      next
        case 2
        then have "s_is_default r = 1" "s_is_default r' = 1" using that(3,4) by (simp_all split: if_splits)
        then show ?thesis by (rule servers_wf_one[OF assms(1) that(1,2) _ _ that(5)])
      next
        case 3
        then have "s_network r' = s_network row" using uniq[OF that(1)] that(5) by simp
        then show ?thesis using that(4) 3 by simp
      next
        case 4
        then have "s_network r = s_network row" using uniq[OF that(2)] that(5) by simp
        then show ?thesis using that(3) 4 by simp
      qed
    qed
  qed simp_all
qed

lemma set_default_server_wf:
  assumes "servers_wf (db_servers db)" and "set_default_server sid db = Inr db'"
  shows "servers_wf (db_servers db')"
  by (rule set_default_server_rows[OF assms(2)]) (simp add: flag_default_wf[OF assms(1)])

lemma network_text_cases [simp]: "network_text n = ''Mainnet'' \<or> network_text n = ''Testnet''"
  by (cases n) simp_all

lemma sql_bool_cases [simp]: "sql_bool b = 0 \<or> sql_bool b = 1"
  by (simp add: sql_bool_def)

lemma insert_server_wf:
  assumes "servers_wf (db_servers db)" and "insert_server sv t db = Inr db'"
  shows "servers_wf (db_servers db')"
proof -
  obtain new rows where "insert_server_row new (db_servers db) = Inr rows" "db' = db\<lparr>db_servers := rows\<rparr>"
    "s_is_default new = sql_bool (si_is_default sv)" "s_network new = network_text (si_network sv)"
    using assms(2) by (auto simp: insert_server_def bind_result_ok)
  then show ?thesis using insert_server_row_wf[OF assms(1), of new rows] by simp
qed

lemma servers_wf_map_same_flag:
  assumes "servers_wf rows" and "\<And>r. s_id (f r) = s_id r" "\<And>r. s_network (f r) = s_network r"
    "\<And>r. s_is_default (f r) = s_is_default r"
  shows "servers_wf (map f rows)"
  by (rule servers_wf_mapI[OF assms(1-3)])
    (auto simp only: assms(4) insert_iff dest: servers_wf_flag[OF assms(1)] intro: servers_wf_one[OF assms(1)])

lemma update_last_success_at_wf:
  "servers_wf (db_servers db) \<Longrightarrow> servers_wf (db_servers (update_last_success_at sid t db))"
  unfolding update_last_success_at_def by simp (erule servers_wf_map_same_flag, simp_all)

datatype server_op = InsertServer server_info int | SetDefaultServer uuid | TouchServer uuid int

fun server_step :: "server_op \<Rightarrow> app_db \<Rightarrow> app_db" where
  "server_step (InsertServer sv t) db = (case insert_server sv t db of Inr db' \<Rightarrow> db' | Inl _ \<Rightarrow> db)"
| "server_step (SetDefaultServer sid) db = (case set_default_server sid db of Inr db' \<Rightarrow> db' | Inl _ \<Rightarrow> db)"
| "server_step (TouchServer sid t) db = update_last_success_at sid t db"

lemma server_step_wf: "servers_wf (db_servers db) \<Longrightarrow> servers_wf (db_servers (server_step op db))"
  by (cases op) (auto intro: insert_server_wf set_default_server_wf update_last_success_at_wf split: sum.splits)

lemma list_servers_set: "set (list_servers db) = server_of_row ` set (db_servers db)"
  by (simp add: list_servers_def)

section \<open>Properties\<close>

lemma server_of_row_fields [simp]:
  "si_network (server_of_row r) = parse_network (s_network r)" "si_id (server_of_row r) = s_id r"
  "si_is_default (server_of_row r) \<longleftrightarrow> s_is_default r \<noteq> 0"
  by (simp_all add: server_of_row_def)

lemma servers_wf_network_inj:
  assumes "servers_wf rows" "r \<in> set rows" "r' \<in> set rows"
  shows "parse_network (s_network r) = parse_network (s_network r') \<longleftrightarrow> s_network r = s_network r'"
proof -
  have "s_network r \<in> {''Mainnet'', ''Testnet''}" "s_network r' \<in> {''Mainnet'', ''Testnet''}"
    using assms unfolding servers_wf_def by blast+
  then show ?thesis by (auto simp: parse_network_def)
qed

text \<open>What flagging a row as the default does to the servers a caller sees.\<close>

lemma flag_default_own_network:
  assumes "servers_wf rows" "row \<in> set rows" "s_id row = sid"
    and "sv \<in> (\<lambda>r. server_of_row (flag_default sid (s_network row) r)) ` set rows" "si_network sv = parse_network (s_network row)"
  shows "si_is_default sv = (si_id sv = sid)"
proof -
  obtain r where r: "r \<in> set rows" "sv = server_of_row (flag_default sid (s_network row) r)" using assms(4) by blast
  then have "s_network r = s_network row" using assms(5) servers_wf_network_inj[OF assms(1) r(1) assms(2)] by simp
  then show ?thesis by (simp add: r(2))
qed

lemma flag_default_other_network:
  assumes "servers_wf rows" "row \<in> set rows" "s_id row = sid" "si_network sv \<noteq> parse_network (s_network row)"
  shows "sv \<in> (\<lambda>r. server_of_row (flag_default sid (s_network row) r)) ` set rows \<longleftrightarrow> sv \<in> server_of_row ` set rows"
proof -
  have "server_of_row (flag_default sid (s_network row) r) = server_of_row r"
    if "r \<in> set rows" "parse_network (s_network r) \<noteq> parse_network (s_network row)" for r
    using that servers_wf_id_inj[OF assms(1)] assms(2,3) flag_default_other by metis
  then show ?thesis using assms(4) by (auto simp: image_iff) metis
qed

text \<open>Whatever sequence of server insertions, changes of the default and success stamps runs
  (each failing statement leaving the table as it was), server ids stay unique and each network keeps
  at most one default server; and when the default is set to a server, then that server, and no other one
  of its network, is listed as default, while the servers of the other network are listed as
  before.\<close>

theorem default_server_unique:
  assumes "servers_wf (db_servers db)"
  shows "servers_wf (db_servers (run_ops server_step ops db))
       \<and> (\<forall>sid db'. set_default_server sid (run_ops server_step ops db) = Inr db' \<longrightarrow>
            (\<exists>net. (\<forall>sv \<in> set (list_servers db'). si_network sv = net \<longrightarrow> si_is_default sv = (si_id sv = sid))
                 \<and> (\<exists>sv \<in> set (list_servers db'). si_id sv = sid \<and> si_network sv = net)
                 \<and> (\<forall>sv. si_network sv \<noteq> net \<longrightarrow>
                      sv \<in> set (list_servers db') \<longleftrightarrow> sv \<in> set (list_servers (run_ops server_step ops db)))))"
proof (intro conjI allI impI)
  let ?db = "run_ops server_step ops db"
  show wf: "servers_wf (db_servers ?db)"
    by (rule run_ops_invariant[where I = "\<lambda>db. servers_wf (db_servers db)"]) (auto intro: server_step_wf assms)
  fix sid db'
  assume d: "set_default_server sid ?db = Inr db'"
  obtain row where row: "row \<in> set (db_servers ?db)" "s_id row = sid"
    "db' = ?db\<lparr>db_servers := map (flag_default sid (s_network row)) (db_servers ?db)\<rparr>"
    using set_default_server_rows[OF d] .
  let ?net = "parse_network (s_network row)"
  have seen: "set (list_servers db') = (\<lambda>r. server_of_row (flag_default sid (s_network row) r)) ` set (db_servers ?db)"
    by (simp add: list_servers_set row(3) image_image)
  show "\<exists>net. (\<forall>sv \<in> set (list_servers db'). si_network sv = net \<longrightarrow> si_is_default sv = (si_id sv = sid))
                 \<and> (\<exists>sv \<in> set (list_servers db'). si_id sv = sid \<and> si_network sv = net)
                 \<and> (\<forall>sv. si_network sv \<noteq> net \<longrightarrow>
                      sv \<in> set (list_servers db') \<longleftrightarrow> sv \<in> set (list_servers ?db))"
    unfolding seen list_servers_set[of ?db]
    using flag_default_own_network[OF wf row(1,2)] flag_default_other_network[OF wf row(1,2)] row(1,2)
    by (intro exI[of _ ?net] conjI ballI allI impI) auto
qed

definition demo_db :: app_db where
  "demo_db = \<lparr>db_wallets = [], db_accounts = [], db_wallet_encryption = [], db_backup_status = [],
     db_servers = [\<lparr>s_id = ''1'', s_name = ''a'', s_grpc_url = ''https://a'', s_network = ''Mainnet'',
                    s_is_default = 1, s_last_success_at = None, s_created_at = 0\<rparr>,
                   \<lparr>s_id = ''2'', s_name = ''b'', s_grpc_url = ''https://b'', s_network = ''Mainnet'',
                    s_is_default = 0, s_last_success_at = None, s_created_at = 1\<rparr>],
     db_tor = None, db_swaps = [], db_rotation = [], db_fiat = None, db_migrations = [1, 2, 3]\<rparr>"

theorem default_server_unique_witness:
  "servers_wf (db_servers demo_db)
   \<and> servers_wf (db_servers (run_ops server_step [SetDefaultServer ''2'', TouchServer ''1'' 5] demo_db))"
proof -
  have wf: "servers_wf (db_servers demo_db)" by (simp add: demo_db_def servers_wf_def)
  show ?thesis using default_server_unique[OF wf] wf by blast
qed

end
