(* ===== verification/Migrations.thy ===== *)
theory Migrations
  imports App_Db
begin

text \<open>
  \<open>crates/zbag-engine/src/db/migrations.rs\<close>: the versioned migrations of the app metadata database,
  their seeds, and the file-level snapshot and rollback around them.  A migration is the list of its
  statements, each with the context it reports; any statement may fail (an argument says which),
  and then the statements before it have taken effect.
\<close>

section \<open>Model\<close>

definition LATEST_VERSION :: int where "LATEST_VERSION = 3"

type_synonym statement = "string \<times> (app_db \<Rightarrow> app_db)"

fun run_statements :: "(string \<Rightarrow> bool) \<Rightarrow> statement list \<Rightarrow> app_db \<Rightarrow> (engine_error, unit) result \<times> app_db" where
  "run_statements fails [] db = (Inr (), db)"
| "run_statements fails ((ctx, f) # ss) db =
     (if fails ctx then (Inl (with_context ctx (msg_err ''sql error'')), db) else run_statements fails ss (f db))"

definition insert_or_ignore_server :: "server_row \<Rightarrow> app_db \<Rightarrow> app_db" where
  "insert_or_ignore_server new db =
     (case insert_server_row new (db_servers db) of Inl _ \<Rightarrow> db | Inr rows \<Rightarrow> db\<lparr>db_servers := rows\<rparr>)"

definition seed_server :: "int \<Rightarrow> string \<Rightarrow> string \<Rightarrow> string \<Rightarrow> string \<Rightarrow> int \<Rightarrow> app_db \<Rightarrow> app_db" where
  "seed_server now_ms sid name url network is_default =
     insert_or_ignore_server \<lparr>s_id = sid, s_name = name, s_grpc_url = url, s_network = network,
       s_is_default = is_default, s_last_success_at = None, s_created_at = now_ms\<rparr>"

definition seed_servers_v1 :: "int \<Rightarrow> statement list" where
  "seed_servers_v1 now_ms =
     [(''failed to seed mainnet default server'',
         seed_server now_ms ''00000000-0000-0000-0000-000000000001'' ''zec.rocks'' ''https://zec.rocks'' ''Mainnet'' 1),
      (''failed to seed mainnet server https://na.zec.rocks'',
         seed_server now_ms ''00000000-0000-0000-0000-000000000003'' ''na.zec.rocks'' ''https://na.zec.rocks'' ''Mainnet'' 0),
      (''failed to seed mainnet server https://eu.zec.rocks'',
         seed_server now_ms ''00000000-0000-0000-0000-000000000004'' ''eu.zec.rocks'' ''https://eu.zec.rocks'' ''Mainnet'' 0),
      (''failed to seed mainnet server https://sa.zec.rocks'',
         seed_server now_ms ''00000000-0000-0000-0000-000000000005'' ''sa.zec.rocks'' ''https://sa.zec.rocks'' ''Mainnet'' 0),
      (''failed to seed testnet default server'',
         seed_server now_ms ''00000000-0000-0000-0000-000000000006'' ''testnet.zec.rocks'' ''https://testnet.zec.rocks'' ''Testnet'' 1)]"

definition seed_tor_settings_v1 :: "int \<Rightarrow> statement list" where
  "seed_tor_settings_v1 now_ms =
     [(''failed to seed tor_settings'', \<lambda>db. case db_tor db of Some _ \<Rightarrow> db
         | None \<Rightarrow> db\<lparr>db_tor := Some \<lparr>t_enabled = 0, t_status = ''Off'', t_last_error = None, t_updated_at = now_ms\<rparr>\<rparr>)]"

text \<open>\<open>CREATE TABLE IF NOT EXISTS\<close> does not change the rows of a table.\<close>

definition apply_v1 :: "int \<Rightarrow> statement list" where
  "apply_v1 now_ms = (''failed to apply initial schema'', id) # seed_servers_v1 now_ms @ seed_tor_settings_v1 now_ms"

definition seed_fiat_settings_v2 :: "int \<Rightarrow> statement list" where
  "seed_fiat_settings_v2 now_ms =
     [(''failed to seed fiat_settings'', \<lambda>db. case db_fiat db of Some _ \<Rightarrow> db
         | None \<Rightarrow> db\<lparr>db_fiat := Some \<lparr>f_enabled = 0, f_currency = ''USD'', f_privacy_acknowledged = 0, f_updated_at = now_ms\<rparr>\<rparr>)]"

definition apply_v2 :: "int \<Rightarrow> statement list" where
  "apply_v2 now_ms = (''failed to create fiat_settings table'', id) # seed_fiat_settings_v2 now_ms"

definition rename_server :: "string \<Rightarrow> string \<Rightarrow> string \<Rightarrow> string \<Rightarrow> string \<Rightarrow> app_db \<Rightarrow> app_db" where
  "rename_server sid old_name old_url name url db = db\<lparr>db_servers :=
     map (\<lambda>r. if s_id r = sid \<and> s_name r = old_name \<and> s_grpc_url r = old_url
              then r\<lparr>s_name := name, s_grpc_url := url\<rparr> else r) (db_servers db)\<rparr>"

definition apply_v3 :: "statement list" where
  "apply_v3 =
     [(''failed to update seeded mainnet lightwalletd endpoint'',
         rename_server ''00000000-0000-0000-0000-000000000001'' ''lwd.zec.pro'' ''https://lwd.zec.pro''
           ''zec.rocks'' ''https://zec.rocks''),
      (''failed to remove duplicate seeded zec.rocks endpoint'',
         \<lambda>db. db\<lparr>db_servers := filter (\<lambda>r. \<not> (s_id r = ''00000000-0000-0000-0000-000000000002''
                \<and> s_name r = ''zec.rocks'' \<and> s_grpc_url r = ''https://zec.rocks'' \<and> s_is_default r = 0)) (db_servers db)\<rparr>),
      (''failed to update seeded testnet lightwalletd endpoint'',
         rename_server ''00000000-0000-0000-0000-000000000006'' ''lwd.testnet.zec.pro'' ''https://lwd.testnet.zec.pro''
           ''testnet.zec.rocks'' ''https://testnet.zec.rocks'')]"

definition current_version :: "app_db \<Rightarrow> int" where
  "current_version db = foldr max (db_migrations db) 0"

definition record_version :: "int \<Rightarrow> statement list" where
  "record_version v = [(''failed to record migration version '' @ show_nat (nat v),
     \<lambda>db. db\<lparr>db_migrations := db_migrations db @ [v]\<rparr>)]"

definition apply_migrations :: "(string \<Rightarrow> bool) \<Rightarrow> int \<Rightarrow> app_db \<Rightarrow> (engine_error, unit) result \<times> app_db" where
  "apply_migrations fails now_ms db =
     (if fails ''failed to ensure _app_migrations table'' \<or> fails ''failed to query current migration version''
      then (Inl (msg_err ''failed to query current migration version''), db)
      else let v = current_version db in
      if v > LATEST_VERSION
      then (Inl (msg_err (''app metadata db version '' @ show_nat (nat v) @ '' is newer than supported '' @ show_nat (nat LATEST_VERSION))), db)
      else run_statements fails
        ((if v < 1 then apply_v1 now_ms @ record_version 1 else []) @
         (if v < 2 then apply_v2 now_ms @ record_version 2 else []) @
         (if v < 3 then apply_v3 @ record_version 3 else [])) db)"

text \<open>A database file is absent or holds a database; the file operations around the migration may
  fail.  Opening a connection creates the file.\<close>

record file_env =
  fe_snapshot_ok :: bool
  fe_snapshot_perm_ok :: bool
  fe_open_ok :: bool
  fe_restore_ok :: bool

definition migrate_with_rollback :: "file_env \<Rightarrow> (string \<Rightarrow> bool) \<Rightarrow> int \<Rightarrow> app_db \<Rightarrow> app_db option
    \<Rightarrow> (engine_error, unit) result \<times> app_db option" where
  "migrate_with_rollback fe fails now_ms empty_db file =
     (let existed = (file \<noteq> None) in
      if existed \<and> \<not> fe_snapshot_ok fe then (Inl (msg_err ''failed to create pre-migration snapshot''), file)
      else if existed \<and> \<not> fe_snapshot_perm_ok fe
      then (Inl (msg_err ''failed to set permissions on pre-migration snapshot''), file)
      else
      let (r, file') =
        (if \<not> fe_open_ok fe then (Inl (msg_err ''failed to open app metadata db''), file)
         else let (r, db') = apply_migrations fails now_ms (case file of Some db \<Rightarrow> db | None \<Rightarrow> empty_db)
              in (r, Some db'))
      in case r of
           Inr _ \<Rightarrow> (Inr (), file')
         | Inl e \<Rightarrow>
             if existed then
               (if fe_restore_ok fe then (Inl e, file)
                else (Inl (msg_err (error_text e @ [CHR 0x0A] @ ''failed to restore pre-migration snapshot'')), file'))
             else (Inl e, file'))"

section \<open>Lemmas\<close>

definition statement_keeps :: "(app_db \<Rightarrow> bool) \<Rightarrow> statement \<Rightarrow> bool" where
  "statement_keeps I st \<longleftrightarrow> (\<forall>db. I db \<longrightarrow> I (snd st db))"

lemma run_statements_keeps:
  "\<forall>st \<in> set ss. statement_keeps I st \<Longrightarrow> I db \<Longrightarrow> I (snd (run_statements fails ss db))"
  by (induction ss arbitrary: db) (auto simp: statement_keeps_def)

lemma run_statements_ok:
  "fst (run_statements fails ss db) = Inr () \<Longrightarrow> snd (run_statements fails ss db) = fold snd ss db"
  by (induction ss arbitrary: db) (auto split: if_splits)

lemma run_statements_append_db:
  "fold snd (as @ bs) db = fold snd bs (fold snd as db)"
  by simp

text \<open>Everything but the seeded tables is left alone.\<close>

definition user_tables :: "app_db \<Rightarrow> wallet_row list \<times> account_row list \<times> wallet_encryption_row list
    \<times> backup_row list \<times> swap_row list \<times> rotation_row list" where
  "user_tables db = (db_wallets db, db_accounts db, db_wallet_encryption db, db_backup_status db,
     db_swaps db, db_rotation db)"

lemma seed_keeps_user: "user_tables (seed_server n i nm u net d db) = user_tables db"
  by (simp add: seed_server_def insert_or_ignore_server_def user_tables_def split: sum.splits)

lemma seed_keeps_wf:
  "servers_wf (db_servers db) \<Longrightarrow> d \<in> {0, 1} \<Longrightarrow> net \<in> {''Mainnet'', ''Testnet''} \<Longrightarrow>
     servers_wf (db_servers (seed_server n i nm u net d db))"
  unfolding seed_server_def insert_or_ignore_server_def
  by (simp split: sum.splits) (metis insert_server_row_wf insertCI server_row.select_convs(4,5))

lemma servers_wf_filter: "servers_wf rows \<Longrightarrow> servers_wf (filter P rows)"
  unfolding servers_wf_def by (auto simp: distinct_map_filter)

lemma rename_keeps_wf:
  "servers_wf (db_servers db) \<Longrightarrow> servers_wf (db_servers (rename_server i o1 o2 n u db))"
  unfolding rename_server_def by simp (erule servers_wf_map_same_flag, simp_all)

definition migration_inv :: "app_db \<Rightarrow> app_db \<Rightarrow> bool" where
  "migration_inv db0 db \<longleftrightarrow> servers_wf (db_servers db) \<and> user_tables db = user_tables db0"

lemma v1_keeps: "\<forall>st \<in> set (apply_v1 now_ms). statement_keeps (migration_inv db0) st"
  by (auto simp: apply_v1_def seed_servers_v1_def seed_tor_settings_v1_def statement_keeps_def migration_inv_def
      seed_keeps_user seed_keeps_wf split: option.splits) (simp_all add: user_tables_def)

lemma v2_keeps: "\<forall>st \<in> set (apply_v2 now_ms). statement_keeps (migration_inv db0) st"
  by (auto simp: apply_v2_def seed_fiat_settings_v2_def statement_keeps_def migration_inv_def
      split: option.splits) (simp_all add: user_tables_def)

lemma v3_keeps: "\<forall>st \<in> set apply_v3. statement_keeps (migration_inv db0) st"
  by (auto simp: apply_v3_def statement_keeps_def migration_inv_def rename_keeps_wf servers_wf_filter)
    (simp_all add: user_tables_def rename_server_def)

lemma record_keeps: "\<forall>st \<in> set (record_version v). statement_keeps (migration_inv db0) st"
  by (auto simp: record_version_def statement_keeps_def migration_inv_def user_tables_def)

lemma apply_migrations_keeps:
  assumes "servers_wf (db_servers db)"
  shows "migration_inv db (snd (apply_migrations fails now_ms db))"
proof -
  have "migration_inv db db" using assms by (simp add: migration_inv_def)
  moreover have "\<forall>st \<in> set ((if v < 1 then apply_v1 now_ms @ record_version 1 else []) @
         (if v < 2 then apply_v2 now_ms @ record_version 2 else []) @
         (if v < 3 then apply_v3 @ record_version 3 else [])). statement_keeps (migration_inv db) st" for v :: int
    using v1_keeps v2_keeps v3_keeps record_keeps by auto
  ultimately show ?thesis
    using run_statements_keeps[where I = "migration_inv db"] by (simp add: apply_migrations_def Let_def)
qed

lemma fold_keeps: "\<forall>st \<in> set ss. statement_keeps I st \<Longrightarrow> I db \<Longrightarrow> I (fold snd ss db)"
  by (induction ss arbitrary: db) (auto simp: statement_keeps_def)

definition migs :: "int list \<Rightarrow> app_db \<Rightarrow> bool" where "migs m db \<longleftrightarrow> db_migrations db = m"

lemma seed_migs: "db_migrations (seed_server n i nm u net d db) = db_migrations db"
  by (simp add: seed_server_def insert_or_ignore_server_def split: sum.splits)

lemma migs_keeps:
  "\<forall>st \<in> set (apply_v1 now_ms). statement_keeps (migs m) st"
  "\<forall>st \<in> set (apply_v2 now_ms). statement_keeps (migs m) st"
  "\<forall>st \<in> set apply_v3. statement_keeps (migs m) st"
  by (auto simp: apply_v1_def apply_v2_def apply_v3_def seed_servers_v1_def seed_tor_settings_v1_def
      seed_fiat_settings_v2_def statement_keeps_def migs_def seed_migs rename_server_def split: option.splits)

lemma migs_fold:
  "db_migrations (fold snd (apply_v1 now_ms) db) = db_migrations db"
  "db_migrations (fold snd (apply_v2 now_ms) db) = db_migrations db"
  "db_migrations (fold snd apply_v3 db) = db_migrations db"
  using fold_keeps[OF migs_keeps(1), of "db_migrations db"] fold_keeps[OF migs_keeps(2), of "db_migrations db"]
    fold_keeps[OF migs_keeps(3), of "db_migrations db"] by (simp_all add: migs_def)

lemma record_migs: "db_migrations (fold snd (record_version v) db) = db_migrations db @ [v]"
  by (simp add: record_version_def)

lemma foldr_max_base: "0 \<le> b \<Longrightarrow> foldr max ms (b::int) = max (foldr max ms 0) b"
  by (induction ms) auto

lemma apply_migrations_ok:
  assumes "fst (apply_migrations fails now_ms db) = Inr ()"
  shows "current_version (snd (apply_migrations fails now_ms db)) = LATEST_VERSION"
    and "current_version db = LATEST_VERSION \<Longrightarrow> snd (apply_migrations fails now_ms db) = db"
proof -
  let ?v = "current_version db"
  let ?ss = "(if ?v < 1 then apply_v1 now_ms @ record_version 1 else []) @
         (if ?v < 2 then apply_v2 now_ms @ record_version 2 else []) @
         (if ?v < 3 then apply_v3 @ record_version 3 else [])"
  have le: "?v \<le> 3" and run: "apply_migrations fails now_ms db = run_statements fails ?ss db"
    using assms by (auto simp: apply_migrations_def Let_def LATEST_VERSION_def split: if_splits)
  have db': "snd (apply_migrations fails now_ms db) = fold snd ?ss db"
    using assms run_statements_ok[of fails ?ss db] unfolding run by simp
  show "current_version (snd (apply_migrations fails now_ms db)) = LATEST_VERSION"
    unfolding db' using le
    by (simp add: current_version_def LATEST_VERSION_def migs_fold record_migs foldr_max_base[of 3] foldr_max_base[of 2] foldr_max_base[of 1])
  show "current_version db = LATEST_VERSION \<Longrightarrow> snd (apply_migrations fails now_ms db) = db"
    unfolding db' by (simp add: LATEST_VERSION_def)
qed

section \<open>Properties\<close>

text \<open>C35: Opening the metadata database is safe.  When the migration of an existing file fails at any
  statement and the snapshot can be restored, the file is what it was before; when it
  succeeds, the file is at the latest version; in both cases a well-formed server table stays
  well-formed and the wallets, accounts, keys, backup flags, swaps and rotation rows are
  untouched; and a file already at the latest version is not changed.\<close>

theorem migration_safe:
  assumes "migrate_with_rollback fe fails now_ms empty_db (Some db) = (r, file')" and "servers_wf (db_servers db)"
  shows "(r \<noteq> Inr () \<and> fe_restore_ok fe \<longrightarrow> file' = Some db)
       \<and> (r = Inr () \<longrightarrow> (\<exists>db'. file' = Some db' \<and> current_version db' = LATEST_VERSION))
       \<and> (\<exists>db'. file' = Some db' \<and> servers_wf (db_servers db') \<and> user_tables db' = user_tables db)
       \<and> (r = Inr () \<and> current_version db = LATEST_VERSION \<longrightarrow> file' = Some db)"
proof -
  obtain q db' where m: "apply_migrations fails now_ms db = (q, db')" by fastforce
  have inv: "servers_wf (db_servers db')" "user_tables db' = user_tables db"
    using apply_migrations_keeps[OF assms(2), of fails now_ms] m by (simp_all add: migration_inv_def)
  have ok: "q = Inr () \<Longrightarrow> current_version db' = LATEST_VERSION"
    "q = Inr () \<Longrightarrow> current_version db = LATEST_VERSION \<Longrightarrow> db' = db"
    using apply_migrations_ok[of fails now_ms db] m by simp_all
  show ?thesis
    using assms(1) inv ok assms(2) by (auto simp: migrate_with_rollback_def m split: if_splits sum.splits)
qed

theorem migration_safe_witness:
  "\<exists>file'. migrate_with_rollback \<lparr>fe_snapshot_ok = True, fe_snapshot_perm_ok = True, fe_open_ok = True, fe_restore_ok = True\<rparr>
       (\<lambda>c. c = ''failed to seed tor_settings'') 7 demo_db (Some (demo_db\<lparr>db_migrations := []\<rparr>)) = (file')
     \<and> fst file' \<noteq> Inr () \<and> snd file' = Some (demo_db\<lparr>db_migrations := []\<rparr>)"
proof -
  let ?fe = "\<lparr>fe_snapshot_ok = True, fe_snapshot_perm_ok = True, fe_open_ok = True, fe_restore_ok = True\<rparr>"
  let ?db = "demo_db\<lparr>db_migrations := []\<rparr>"
  obtain r file' where m: "migrate_with_rollback ?fe (\<lambda>c. c = ''failed to seed tor_settings'') 7 demo_db (Some ?db) = (r, file')"
    by fastforce
  have "fst (apply_migrations (\<lambda>c. c = ''failed to seed tor_settings'') 7 ?db) \<noteq> Inr ()"
    by (simp add: apply_migrations_def current_version_def LATEST_VERSION_def apply_v1_def seed_servers_v1_def
        seed_tor_settings_v1_def)
  then have r: "r \<noteq> Inr ()" using m by (auto simp: migrate_with_rollback_def split: prod.splits sum.splits)
  have wf: "servers_wf (db_servers ?db)" by (simp add: demo_db_def servers_wf_def)
  show ?thesis using migration_safe[OF m wf] r m by simp
qed

end
