(* ===== verification/Broadcast.thy ===== *)
theory Broadcast
  imports Core_Types Complex_Main
begin

text \<open>
  \<open>crates/zbag-engine/src/broadcast.rs\<close>: the classification of broadcast errors, the retry
  schedule with jitter, the retry budgets and the timeout around a send.  Messages are ASCII.
  Durations are seconds (the schedule) or milliseconds (the jittered delay); the floating-point
  arithmetic of the jitter is exact rational arithmetic, and the value drawn from the random
  generator is an argument.
\<close>

section \<open>Model\<close>

definition SEND_TRANSACTION_TIMEOUT_SECS :: nat where "SEND_TRANSACTION_TIMEOUT_SECS = 45"
definition FAILOVER_TRANSPORT_FAILURE_THRESHOLD :: nat where "FAILOVER_TRANSPORT_FAILURE_THRESHOLD = 2"
definition MAX_TOTAL_BROADCAST_RETRY_ATTEMPTS :: nat where "MAX_TOTAL_BROADCAST_RETRY_ATTEMPTS = 7"
definition MAX_UNKNOWN_BROADCAST_RETRY_ATTEMPTS :: nat where "MAX_UNKNOWN_BROADCAST_RETRY_ATTEMPTS = 3"
definition RETRY_SCHEDULE_SECS :: "nat list" where "RETRY_SCHEDULE_SECS = [5, 15, 45, 120, 300, 900, 1800]"
definition RETRY_JITTER_RATIO :: rat where "RETRY_JITTER_RATIO = 1 / 5"

datatype broadcast_error_class = TransientTransport | TransientServer | Terminal | Unknown

definition contains_any :: "string \<Rightarrow> string list \<Rightarrow> bool" where
  "contains_any s needles = list_ex (str_contains s) needles"

definition is_benign_duplicate_relay_message_lowercase :: "string \<Rightarrow> bool" where
  "is_benign_duplicate_relay_message_lowercase lower =
     contains_any lower [''already in mempool'', ''already known'', ''txn-already-in-mempool'']"

definition is_benign_duplicate_relay_message :: "string \<Rightarrow> bool" where
  "is_benign_duplicate_relay_message message =
     is_benign_duplicate_relay_message_lowercase (to_lowercase message)"

definition is_effective_success_broadcast_error :: "string \<Rightarrow> bool" where
  "is_effective_success_broadcast_error message = is_benign_duplicate_relay_message message"

definition classify_broadcast_error_message :: "string \<Rightarrow> broadcast_error_class" where
  "classify_broadcast_error_message message =
     (let lower = to_lowercase message in
      if is_benign_duplicate_relay_message_lowercase lower then TransientServer
      else if contains_any lower [''broadcast rejected'', ''non-mandatory-script-verify-flag'',
                ''bad-txns'', ''already spent'', ''double spend'', ''txn-mempool-conflict''] then Terminal
      else if contains_any lower [''failed to connect'', ''connection'', ''transport'', ''timed out'',
                ''timeout'', ''deadline exceeded'', ''unavailable'', ''broken pipe'', ''reset by peer'',
                ''refused'', ''dns'', ''h2''] then TransientTransport
      else if contains_any lower [''resource exhausted'', ''temporarily'', ''try again'',
                ''sendtransaction rpc failed'', ''rpc failed'', ''internal''] then TransientServer
      else Unknown)"

definition is_retryable_broadcast_error_class :: "broadcast_error_class \<Rightarrow> bool" where
  "is_retryable_broadcast_error_class c = (c \<in> {TransientTransport, TransientServer, Unknown})"

definition retry_backoff_base :: "nat \<Rightarrow> nat" where
  "retry_backoff_base attempt_count =
     (if attempt_count < length RETRY_SCHEDULE_SECS then RETRY_SCHEDULE_SECS ! attempt_count
      else last RETRY_SCHEDULE_SECS)"

definition retry_backoff_with_jitter :: "nat \<Rightarrow> rat \<Rightarrow> nat" where
  "retry_backoff_with_jitter attempt_count offset_ms =
     (let base_ms = rat_of_nat (retry_backoff_base attempt_count * 1000)
      in nat (round (max 1 (base_ms + offset_ms))))"

definition retry_jitter_ms :: "nat \<Rightarrow> rat" where
  "retry_jitter_ms attempt_count = rat_of_nat (retry_backoff_base attempt_count * 1000) * RETRY_JITTER_RATIO"

definition should_trigger_failover :: "nat \<Rightarrow> bool" where
  "should_trigger_failover transport_failure_streak =
     (transport_failure_streak \<ge> FAILOVER_TRANSPORT_FAILURE_THRESHOLD)"

definition retry_budget_terminal_reason :: "broadcast_error_class \<Rightarrow> nat \<Rightarrow> string option" where
  "retry_budget_terminal_reason class attempt_count =
     (if class = Unknown \<and> attempt_count \<ge> MAX_UNKNOWN_BROADCAST_RETRY_ATTEMPTS
      then Some ''unknown broadcast retry budget exhausted''
      else if attempt_count \<ge> MAX_TOTAL_BROADCAST_RETRY_ATTEMPTS
      then Some ''broadcast retry budget exhausted''
      else None)"

text \<open>A future is the moment (milliseconds from now) at which it is ready and its output, or none.\<close>

definition send_with_timeout_for :: "nat \<Rightarrow> (nat \<times> (engine_error, unit) result) option \<Rightarrow> (engine_error, unit) result" where
  "send_with_timeout_for timeout_secs send_future =
     (case send_future of
        Some (ready_ms, r) \<Rightarrow> if ready_ms \<le> timeout_secs * 1000 then r
          else Inl (msg_err (''send transaction timed out after '' @ show_nat timeout_secs @ ''s''))
      | None \<Rightarrow> Inl (msg_err (''send transaction timed out after '' @ show_nat timeout_secs @ ''s'')))"

definition send_with_timeout :: "(nat \<times> (engine_error, unit) result) option \<Rightarrow> (engine_error, unit) result" where
  "send_with_timeout send_future = send_with_timeout_for SEND_TRANSACTION_TIMEOUT_SECS send_future"

section \<open>Lemmas\<close>

lemmas broadcast_consts = SEND_TRANSACTION_TIMEOUT_SECS_def FAILOVER_TRANSPORT_FAILURE_THRESHOLD_def
  MAX_TOTAL_BROADCAST_RETRY_ATTEMPTS_def MAX_UNKNOWN_BROADCAST_RETRY_ATTEMPTS_def
  RETRY_SCHEDULE_SECS_def RETRY_JITTER_RATIO_def

definition retry_budget :: "broadcast_error_class \<Rightarrow> nat" where
  "retry_budget c = (if c = Unknown then MAX_UNKNOWN_BROADCAST_RETRY_ATTEMPTS
                     else MAX_TOTAL_BROADCAST_RETRY_ATTEMPTS)"

lemma retry_budget_none_iff: "retry_budget_terminal_reason c n = None \<longleftrightarrow> n < retry_budget c"
  by (auto simp: retry_budget_terminal_reason_def retry_budget_def broadcast_consts)

lemma retry_budget_le: "retry_budget c \<le> MAX_TOTAL_BROADCAST_RETRY_ATTEMPTS"
  by (simp add: retry_budget_def broadcast_consts)

lemma not_retryable_iff: "\<not> is_retryable_broadcast_error_class c \<longleftrightarrow> c = Terminal"
  by (cases c) (auto simp: is_retryable_broadcast_error_class_def)

lemma contains_any_iff: "contains_any s ns \<longleftrightarrow> (\<exists>n\<in>set ns. \<exists>a b. s = a @ n @ b)"
  by (simp add: contains_any_def list_ex_iff str_contains_iff)

lemma classify_benign:
  "is_effective_success_broadcast_error m \<Longrightarrow> classify_broadcast_error_message m = TransientServer"
  by (simp add: classify_broadcast_error_message_def is_effective_success_broadcast_error_def
      is_benign_duplicate_relay_message_def)

lemma classify_lowercase:
  "classify_broadcast_error_message (to_lowercase m) = classify_broadcast_error_message m"
  by (simp add: classify_broadcast_error_message_def)

lemma schedule_bounds: "s \<in> set RETRY_SCHEDULE_SECS \<Longrightarrow> 5 \<le> s \<and> s \<le> 1800"
  by (auto simp: RETRY_SCHEDULE_SECS_def)

lemma retry_backoff_base_bounds: "5 \<le> retry_backoff_base n \<and> retry_backoff_base n \<le> 1800"
proof (cases "n < length RETRY_SCHEDULE_SECS")
  case True
  then show ?thesis using schedule_bounds[of "RETRY_SCHEDULE_SECS ! n"]
    by (simp add: retry_backoff_base_def)
next
  case False
  then show ?thesis by (simp add: retry_backoff_base_def RETRY_SCHEDULE_SECS_def)
qed

lemma sorted_schedule: "sorted RETRY_SCHEDULE_SECS"
  by (simp add: RETRY_SCHEDULE_SECS_def)

lemma retry_backoff_base_mono: "m \<le> n \<Longrightarrow> retry_backoff_base m \<le> retry_backoff_base n"
proof (cases "n < length RETRY_SCHEDULE_SECS")
  case True
  assume "m \<le> n"
  with True show ?thesis
    using sorted_nth_mono[OF sorted_schedule, of m n] by (simp add: retry_backoff_base_def)
next
  case False
  then show ?thesis using retry_backoff_base_bounds[of m]
    by (simp add: retry_backoff_base_def[of n]) (simp add: RETRY_SCHEDULE_SECS_def)
qed

lemma round_between:
  fixes x :: rat
  assumes "rat_of_nat a \<le> x" and "x \<le> rat_of_nat b"
  shows "a \<le> nat (round x) \<and> nat (round x) \<le> b"
proof -
  have "round (rat_of_nat a) \<le> round x" "round x \<le> round (rat_of_nat b)"
    using round_mono[OF assms(1)] round_mono[OF assms(2)] by simp_all
  then have "int a \<le> round x" "round x \<le> int b" by simp_all
  then show ?thesis by linarith
qed

lemma classify_timeout_text:
  "str_contains (to_lowercase m) ''timed out'' \<Longrightarrow> classify_broadcast_error_message m \<in> {TransientServer, Terminal, TransientTransport}"
  by (simp add: classify_broadcast_error_message_def Let_def contains_any_def)

section \<open>Properties\<close>

text \<open>The retry delay drawn for attempt n lies within twenty percent of the schedule entry of n,
  so between 4 seconds and 36 minutes, for every offset the random generator may draw.\<close>

theorem retry_delay_bounds:
  assumes "- retry_jitter_ms n \<le> off" and "off \<le> retry_jitter_ms n"
  shows "800 * retry_backoff_base n \<le> retry_backoff_with_jitter n off
       \<and> retry_backoff_with_jitter n off \<le> 1200 * retry_backoff_base n
       \<and> 4000 \<le> retry_backoff_with_jitter n off \<and> retry_backoff_with_jitter n off \<le> 2160000"
proof -
  let ?b = "retry_backoff_base n"
  have b: "5 \<le> ?b" "?b \<le> 1800" using retry_backoff_base_bounds by auto
  have lo: "rat_of_nat (800 * ?b) \<le> max 1 (rat_of_nat (?b * 1000) + off)"
    using assms(1) by (simp add: retry_jitter_ms_def RETRY_JITTER_RATIO_def)
  have "1 \<le> 1200 * ?b" using b by linarith
  then have "(1::rat) \<le> rat_of_nat (1200 * ?b)" by (metis of_nat_1 of_nat_le_iff)
  then have hi: "max 1 (rat_of_nat (?b * 1000) + off) \<le> rat_of_nat (1200 * ?b)"
    using assms(2) by (simp add: retry_jitter_ms_def RETRY_JITTER_RATIO_def)
  show ?thesis using round_between[OF lo hi] b by (simp add: retry_backoff_with_jitter_def)
qed

theorem retry_delay_bounds_witness:
  "- retry_jitter_ms 2 \<le> 100 \<and> 100 \<le> retry_jitter_ms 2
   \<and> 800 * retry_backoff_base 2 \<le> retry_backoff_with_jitter 2 100
   \<and> retry_backoff_with_jitter 2 100 \<le> 1200 * retry_backoff_base 2"
proof -
  have h: "- retry_jitter_ms 2 \<le> 100" "100 \<le> retry_jitter_ms 2"
    by (simp_all add: retry_jitter_ms_def retry_backoff_base_def broadcast_consts)
  show ?thesis using retry_delay_bounds[OF h] h by simp
qed

end
