(* ===== verification/Tx_Queue.thy ===== *)
theory Tx_Queue
  imports Broadcast "HOL-Library.AList" "HOL-Library.Char_ord" "HOL-Library.List_Lexorder"
    "HOL-Library.Product_Lexorder" "HOL-Library.Word" "HOL-Library.Multiset"
begin

text \<open>
  The queue of failed broadcasts of \<open>crates/zbag-engine/src/tx_service.rs\<close>: the metadata of an
  entry and its retry policy, the encrypted queue directory of a wallet, the startup scan and the
  list of entries due for a retry.

  A queue directory holds, per transaction id, a metadata file and an encrypted blob; both are
  association lists keyed by the file stem in the order \<open>read_dir\<close> yields them.  A metadata file is
  represented by the value it deserialises to, or by the ways it may fail to.  The outcome of each file
  operation is part of an environment record, the authenticated cipher is a pair of arguments, and
  the jitter drawn for a delay is an argument.
\<close>

section \<open>Model\<close>

type_synonym bytes = "8 word list"

definition PROPOSAL_TTL :: int where "PROPOSAL_TTL = secs (10 * 60)"
definition QUEUED_BROADCAST_RETENTION :: int where "QUEUED_BROADCAST_RETENTION = secs (7 * 24 * 60 * 60)"

record queued_meta =
  qm_created_at_ms :: unix_ms
  qm_attempt_count :: nat
  qm_next_attempt_at_ms :: "unix_ms option"
  qm_last_attempt_at_ms :: "unix_ms option"
  qm_transport_failure_streak :: nat
  qm_retryable :: bool
  qm_last_error_class :: "broadcast_error_class option"
  qm_terminal_reason :: "string option"
  qm_last_error :: "string option"

fun class_debug :: "broadcast_error_class \<Rightarrow> string" where
  "class_debug TransientTransport = ''TransientTransport''"
| "class_debug TransientServer = ''TransientServer''"
| "class_debug Terminal = ''Terminal''"
| "class_debug Unknown = ''Unknown''"

definition apply_retry_policy :: "bool \<Rightarrow> nat \<Rightarrow> broadcast_error_class option \<Rightarrow> string option
    \<Rightarrow> bool \<times> string option" where
  "apply_retry_policy retryable attempt_count last_error_class terminal_reason =
     (let (eff, reason) =
        (case last_error_class of
           None \<Rightarrow> (retryable, terminal_reason)
         | Some class \<Rightarrow>
             let (eff, reason) =
               (if \<not> is_retryable_broadcast_error_class class then (False, terminal_reason)
                else if retryable then
                  (case retry_budget_terminal_reason class attempt_count of
                     Some r \<Rightarrow> (False, Some r)
                   | None \<Rightarrow> (retryable, terminal_reason))
                else (retryable, terminal_reason))
             in (eff,
                 if \<not> eff \<and> reason = None
                 then (if is_retryable_broadcast_error_class class then None
                       else Some (''broadcast error classified as terminal ('' @ class_debug class @ '')''))
                 else reason))
      in if eff then (True, None) else (False, reason))"

definition queued_broadcast_error_for_display :: "queued_meta \<Rightarrow> string option" where
  "queued_broadcast_error_for_display m =
     (case (qm_last_error m, qm_terminal_reason m) of
        (Some le, Some tr) \<Rightarrow> if str_contains le tr then Some le else Some (le @ '' [terminal: '' @ tr @ '']'')
      | (Some le, None) \<Rightarrow> Some le
      | (None, Some tr) \<Rightarrow> Some tr
      | (None, None) \<Rightarrow> None)"

text \<open>The class of the last error, classified from the message when the file has none.\<close>

definition effective_class :: "queued_meta \<Rightarrow> broadcast_error_class option" where
  "effective_class meta =
     (case qm_last_error_class meta of
        None \<Rightarrow> map_option classify_broadcast_error_message (qm_last_error meta)
      | Some c \<Rightarrow> Some c)"

definition normalize_queued_broadcast_meta :: "queued_meta \<Rightarrow> unix_ms \<Rightarrow> queued_meta" where
  "normalize_queued_broadcast_meta meta now_ms =
     (let class = effective_class meta;
          (retryable, reason) = apply_retry_policy (qm_retryable meta) (qm_attempt_count meta) class
                                  (qm_terminal_reason meta)
      in meta\<lparr>qm_last_error_class := class, qm_retryable := retryable, qm_terminal_reason := reason,
              qm_next_attempt_at_ms :=
                (if retryable then (case qm_next_attempt_at_ms meta of None \<Rightarrow> Some now_ms | n \<Rightarrow> n)
                 else None)\<rparr>)"

definition schedule_next_attempt_at_ms :: "rat \<Rightarrow> unix_ms \<Rightarrow> nat \<Rightarrow> unix_ms" where
  "schedule_next_attempt_at_ms jitter now_ms attempt_count =
     sat_add_i64 now_ms (min i64_max (int (retry_backoff_with_jitter attempt_count jitter)))"

subsection \<open>The queue directory\<close>

datatype meta_file = MetaOk queued_meta | MetaCorrupt | MetaUnreadable

record queue_dir =
  qd_exists :: bool
  qd_metas :: "(string \<times> meta_file) list"
  qd_bins :: "(string \<times> bytes) list"

record io_env =
  io_mkdir_ok :: bool
  io_read_dir_ok :: bool
  io_write_bin_ok :: bool
  io_write_meta_ok :: bool
  io_remove_bin_ok :: "string \<Rightarrow> bool"
  io_remove_meta_ok :: "string \<Rightarrow> bool"

definition remove_meta :: "io_env \<Rightarrow> string \<Rightarrow> queue_dir \<Rightarrow> queue_dir" where
  "remove_meta io txid d = (if io_remove_meta_ok io txid then d\<lparr>qd_metas := AList.delete txid (qd_metas d)\<rparr> else d)"

definition remove_bin :: "io_env \<Rightarrow> string \<Rightarrow> queue_dir \<Rightarrow> queue_dir" where
  "remove_bin io txid d = (if io_remove_bin_ok io txid then d\<lparr>qd_bins := AList.delete txid (qd_bins d)\<rparr> else d)"

definition delete_queued_broadcast :: "io_env \<Rightarrow> string \<Rightarrow> queue_dir \<Rightarrow> queue_dir" where
  "delete_queued_broadcast io txid d = remove_meta io txid (remove_bin io txid d)"

definition write_queued_broadcast_meta :: "io_env \<Rightarrow> string \<Rightarrow> queued_meta \<Rightarrow> queue_dir
    \<Rightarrow> (engine_error, queue_dir) result" where
  "write_queued_broadcast_meta io txid meta d =
     (if io_write_meta_ok io then Inr (d\<lparr>qd_metas := AList.update txid (MetaOk meta) (qd_metas d)\<rparr>)
      else Inl (with_context ''failed to write queued broadcast meta'' (msg_err ''io error'')))"

type_synonym dek = bytes
type_synonym aead_encrypt = "dek \<Rightarrow> bytes \<Rightarrow> string \<Rightarrow> bytes \<Rightarrow> bytes option"
type_synonym aead_decrypt = "dek \<Rightarrow> bytes \<Rightarrow> string \<Rightarrow> bytes \<Rightarrow> bytes option"

definition queued_tx_aad :: "uuid \<Rightarrow> string \<Rightarrow> string" where
  "queued_tx_aad wallet_id txid =
     ''wallet_id='' @ wallet_id @ '';txid='' @ txid @ '';aead_scheme=xchacha20poly1305;v=1''"

definition queue_broadcast :: "aead_encrypt \<Rightarrow> io_env \<Rightarrow> bytes \<Rightarrow> rat \<Rightarrow> system_time \<Rightarrow> uuid \<Rightarrow> dek
    \<Rightarrow> string \<Rightarrow> bytes \<Rightarrow> string option \<Rightarrow> broadcast_error_class option \<Rightarrow> bool \<Rightarrow> queue_dir
    \<Rightarrow> (engine_error, unit) result \<times> queue_dir" where
  "queue_broadcast enc io nonce jitter now wallet_id wallet_dek txid tx_bytes last_error last_error_class retryable d =
     (if \<not> io_mkdir_ok io then (Inl (with_context ''failed to create queued broadcasts dir'' (msg_err ''io error'')), d)
      else let d1 = d\<lparr>qd_exists := True\<rparr> in
      case enc wallet_dek nonce (queued_tx_aad wallet_id txid) tx_bytes of
        None \<Rightarrow> (Inl (msg_err ''failed to encrypt queued tx''), d1)
      | Some ciphertext \<Rightarrow>
          if \<not> io_write_bin_ok io then (Inl (with_context ''failed to write queued tx bytes'' (msg_err ''io error'')), d1)
          else let d2 = d1\<lparr>qd_bins := AList.update txid (nonce @ ciphertext) (qd_bins d1)\<rparr> in
          case to_unix_ms now of
            Inl e \<Rightarrow> (Inl e, d2)
          | Inr created_at_ms \<Rightarrow>
              let (eff, reason) = apply_retry_policy retryable 0 last_error_class None;
                  meta = \<lparr>qm_created_at_ms = created_at_ms, qm_attempt_count = 0,
                    qm_next_attempt_at_ms =
                      (if eff then Some (schedule_next_attempt_at_ms jitter created_at_ms 0) else None),
                    qm_last_attempt_at_ms = Some created_at_ms,
                    qm_transport_failure_streak = (if last_error_class = Some TransientTransport then 1 else 0),
                    qm_retryable = eff, qm_last_error_class = last_error_class,
                    qm_terminal_reason = reason, qm_last_error = last_error\<rparr>
              in case write_queued_broadcast_meta io txid meta d2 of
                   Inl e \<Rightarrow> (Inl e, d2)
                 | Inr d3 \<Rightarrow> (Inr (), d3))"

definition decrypt_queued_tx_bytes :: "aead_decrypt \<Rightarrow> uuid \<Rightarrow> dek \<Rightarrow> string \<Rightarrow> queue_dir
    \<Rightarrow> (engine_error, bytes) result" where
  "decrypt_queued_tx_bytes dec wallet_id wallet_dek txid d =
     (case map_of (qd_bins d) txid of
        None \<Rightarrow> Inl (with_context ''failed to read queued tx bytes'' (msg_err ''io error''))
      | Some blob \<Rightarrow>
          if length blob < 24 then Inl (msg_err ''queued tx blob too short'')
          else ok_or (dec wallet_dek (take 24 blob) (queued_tx_aad wallet_id txid) (drop 24 blob))
                 (msg_err ''failed to decrypt queued tx''))"

definition update_queued_broadcast_error :: "io_env \<Rightarrow> rat \<Rightarrow> system_time \<Rightarrow> string \<Rightarrow> string option
    \<Rightarrow> broadcast_error_class option \<Rightarrow> bool \<Rightarrow> nat \<Rightarrow> nat \<Rightarrow> queue_dir
    \<Rightarrow> (engine_error, unit) result \<times> queue_dir" where
  "update_queued_broadcast_error io jitter now txid last_error last_error_class retryable attempt_count streak d =
     (case to_unix_ms now of
        Inl e \<Rightarrow> (Inl e, d)
      | Inr now_ms \<Rightarrow>
          let existing = (case map_of (qd_metas d) txid of
                            Some (MetaOk m) \<Rightarrow> (qm_created_at_ms m, qm_terminal_reason m)
                          | _ \<Rightarrow> (now_ms, None));
              (eff, reason) = apply_retry_policy retryable attempt_count last_error_class (snd existing);
              updated = \<lparr>qm_created_at_ms = fst existing, qm_attempt_count = attempt_count,
                qm_next_attempt_at_ms =
                  (if eff then Some (schedule_next_attempt_at_ms jitter now_ms attempt_count) else None),
                qm_last_attempt_at_ms = Some now_ms,
                qm_transport_failure_streak = streak, qm_retryable = eff,
                qm_last_error_class = last_error_class, qm_terminal_reason = reason,
                qm_last_error = last_error\<rparr>
          in case write_queued_broadcast_meta io txid updated d of
               Inl e \<Rightarrow> (Inl e, d)
             | Inr d' \<Rightarrow> (Inr (), d'))"

subsection \<open>The startup scan\<close>

type_synonym queue_entries = "(string \<times> queued_meta) list"

definition retention_expired :: "system_time \<Rightarrow> queued_meta \<Rightarrow> bool" where
  "retention_expired now meta =
     (max 0 (now - millis (nat (max 0 (qm_created_at_ms meta)))) > QUEUED_BROADCAST_RETENTION)"

definition scan_entry :: "io_env \<Rightarrow> system_time \<Rightarrow> unix_ms \<Rightarrow> string \<times> meta_file
    \<Rightarrow> queue_dir \<times> queue_entries \<Rightarrow> queue_dir \<times> queue_entries" where
  "scan_entry io now now_ms file acc =
     (let (txid, content) = file; (d, entries) = acc in
      if txid = [] then (d, entries)
      else case content of
        MetaUnreadable \<Rightarrow> (d, entries)
      | MetaCorrupt \<Rightarrow> (remove_meta io txid d, entries)
      | MetaOk parsed \<Rightarrow>
          let meta = normalize_queued_broadcast_meta parsed now_ms in
          if map_of (qd_bins d) txid = None then (remove_meta io txid d, entries)
          else if retention_expired now meta then (remove_meta io txid (remove_bin io txid d), entries)
          else (d, AList.update txid meta entries))"

definition scan_queue_dir :: "io_env \<Rightarrow> system_time \<Rightarrow> queue_dir
    \<Rightarrow> (engine_error, queue_dir \<times> queue_entries) result" where
  "scan_queue_dir io now d =
     bind_result (to_unix_ms now) (\<lambda>now_ms.
     bind_result (guard_or (io_read_dir_ok io)
       (with_context ''failed to read queued broadcasts dir'' (msg_err ''io error''))) (\<lambda>_.
       Inr (fold (scan_entry io now now_ms) (qd_metas d) (d, []))))"

definition list_due_of_entries :: "unix_ms \<Rightarrow> queue_entries \<Rightarrow> string list" where
  "list_due_of_entries now_ms entries =
     map snd (sort (List.map_filter
       (\<lambda>(txid, meta). if \<not> qm_retryable meta then None
          else let next_at = (case qm_next_attempt_at_ms meta of None \<Rightarrow> now_ms | Some n \<Rightarrow> n)
               in if next_at \<le> now_ms then Some (next_at, txid) else None) entries))"

section \<open>The retry policy\<close>

text \<open>
  The invariant of queue metadata: an entry is retryable exactly when a next attempt is scheduled,
  a retryable entry carries no terminal reason, and its attempts are below the budget of its class.
\<close>

definition meta_wf :: "queued_meta \<Rightarrow> bool" where
  "meta_wf m \<longleftrightarrow>
     (qm_retryable m \<longleftrightarrow> qm_next_attempt_at_ms m \<noteq> None)
   \<and> (qm_retryable m \<longrightarrow> qm_terminal_reason m = None)
   \<and> (\<forall>c. qm_last_error_class m = Some c \<longrightarrow> qm_retryable m \<longrightarrow>
        is_retryable_broadcast_error_class c \<and> qm_attempt_count m < retry_budget c)
   \<and> (qm_last_error_class m = Some Terminal \<longrightarrow> qm_terminal_reason m \<noteq> None)"

lemma apply_retry_policy_retryable:
  "fst (apply_retry_policy r n c t) \<longleftrightarrow>
     r \<and> (\<forall>k. c = Some k \<longrightarrow> is_retryable_broadcast_error_class k \<and> n < retry_budget k)"
  by (cases c) (auto simp: apply_retry_policy_def Let_def retry_budget_none_iff[symmetric] split: option.splits)

lemma apply_retry_policy_no_reason:
  "fst (apply_retry_policy r n c t) \<Longrightarrow> snd (apply_retry_policy r n c t) = None"
  by (auto simp: apply_retry_policy_def Let_def split: option.splits if_splits prod.splits)

lemma apply_retry_policy_terminal:
  "snd (apply_retry_policy r n (Some Terminal) t) \<noteq> None"
  by (auto simp: apply_retry_policy_def is_retryable_broadcast_error_class_def)

lemma apply_retry_policy_exhausted:
  "retry_budget k \<le> n \<Longrightarrow> is_retryable_broadcast_error_class k \<Longrightarrow>
     apply_retry_policy True n (Some k) t = (False, retry_budget_terminal_reason k n)"
  using retry_budget_none_iff[of k n]
  by (auto simp: apply_retry_policy_def)

lemma apply_retry_policy_idem:
  "apply_retry_policy (fst (apply_retry_policy r n c t)) n c (snd (apply_retry_policy r n c t))
     = apply_retry_policy r n c t"
  by (cases c) (auto simp: apply_retry_policy_def Let_def split: option.splits)

lemma normalize_fields [simp]:
  "qm_created_at_ms (normalize_queued_broadcast_meta m t) = qm_created_at_ms m"
  "qm_attempt_count (normalize_queued_broadcast_meta m t) = qm_attempt_count m"
  "qm_last_error (normalize_queued_broadcast_meta m t) = qm_last_error m"
  by (simp_all add: normalize_queued_broadcast_meta_def Let_def split: prod.splits)

lemma normalize_policy:
  "qm_last_error_class (normalize_queued_broadcast_meta m t) = effective_class m"
  "qm_retryable (normalize_queued_broadcast_meta m t) =
     fst (apply_retry_policy (qm_retryable m) (qm_attempt_count m) (effective_class m) (qm_terminal_reason m))"
  "qm_terminal_reason (normalize_queued_broadcast_meta m t) =
     snd (apply_retry_policy (qm_retryable m) (qm_attempt_count m) (effective_class m) (qm_terminal_reason m))"
  by (simp_all add: normalize_queued_broadcast_meta_def Let_def split: prod.splits)

lemma normalize_next:
  "qm_next_attempt_at_ms (normalize_queued_broadcast_meta m t) =
     (if qm_retryable (normalize_queued_broadcast_meta m t)
      then (case qm_next_attempt_at_ms m of None \<Rightarrow> Some t | n \<Rightarrow> n) else None)"
  by (simp add: normalize_queued_broadcast_meta_def Let_def split: prod.splits)

lemma normalize_wf: "meta_wf (normalize_queued_broadcast_meta m t)"
proof -
  have "effective_class m = Some Terminal \<Longrightarrow>
     snd (apply_retry_policy (qm_retryable m) (qm_attempt_count m) (effective_class m) (qm_terminal_reason m)) \<noteq> None"
    using apply_retry_policy_terminal by simp
  then show ?thesis
    unfolding meta_wf_def normalize_next normalize_policy
    using apply_retry_policy_no_reason apply_retry_policy_retryable
    by (auto split: option.splits)
qed

lemma normalize_idem:
  "normalize_queued_broadcast_meta (normalize_queued_broadcast_meta m t) t' = normalize_queued_broadcast_meta m t"
proof -
  obtain r q where p: "apply_retry_policy (qm_retryable m) (qm_attempt_count m) (effective_class m) (qm_terminal_reason m) = (r, q)"
    by fastforce
  have p': "apply_retry_policy r (qm_attempt_count m) (effective_class m) q = (r, q)"
    using apply_retry_policy_idem[of "qm_retryable m" "qm_attempt_count m" "effective_class m" "qm_terminal_reason m"] p by simp
  define m' where "m' = m\<lparr>qm_last_error_class := effective_class m, qm_retryable := r,
     qm_terminal_reason := q, qm_next_attempt_at_ms :=
                (if r then (case qm_next_attempt_at_ms m of None \<Rightarrow> Some t | n \<Rightarrow> n) else None)\<rparr>"
  have n: "normalize_queued_broadcast_meta m t = m'"
    using p by (simp add: normalize_queued_broadcast_meta_def m'_def)
  have "effective_class m' = effective_class m"
    by (simp add: m'_def effective_class_def split: option.splits)
  then show ?thesis
    unfolding n using p'
    by (simp add: normalize_queued_broadcast_meta_def m'_def split: option.splits)
qed

lemma retention_expired_normalize [simp]:
  "retention_expired now (normalize_queued_broadcast_meta m t) = retention_expired now m"
  by (simp add: retention_expired_def)

section \<open>The scan\<close>

text \<open>
  The abstract result of a scan, file by file: what is loaded, and which files are dropped.
\<close>

definition scan_loads :: "system_time \<Rightarrow> unix_ms \<Rightarrow> queue_dir \<Rightarrow> string \<Rightarrow> queued_meta option" where
  "scan_loads now now_ms d txid =
     (case map_of (qd_metas d) txid of
        Some (MetaOk m) \<Rightarrow>
          if txid \<noteq> [] \<and> map_of (qd_bins d) txid \<noteq> None \<and> \<not> retention_expired now m
          then Some (normalize_queued_broadcast_meta m now_ms) else None
      | _ \<Rightarrow> None)"

definition file_loads :: "system_time \<Rightarrow> unix_ms \<Rightarrow> bool \<Rightarrow> string \<Rightarrow> meta_file \<Rightarrow> queued_meta option" where
  "file_loads now now_ms has_bin txid content =
     (case content of
        MetaOk m \<Rightarrow> if txid \<noteq> [] \<and> has_bin \<and> \<not> retention_expired now m
                    then Some (normalize_queued_broadcast_meta m now_ms) else None
      | _ \<Rightarrow> None)"

lemma remove_fields [simp]:
  "qd_bins (remove_meta io t d) = qd_bins d" "qd_metas (remove_bin io t d) = qd_metas d"
  "qd_exists (remove_meta io t d) = qd_exists d" "qd_exists (remove_bin io t d) = qd_exists d"
  by (simp_all add: remove_meta_def remove_bin_def)

lemma remove_other [simp]:
  "k \<noteq> t \<Longrightarrow> map_of (qd_metas (remove_meta io t d)) k = map_of (qd_metas d) k"
  "k \<noteq> t \<Longrightarrow> map_of (qd_bins (remove_bin io t d)) k = map_of (qd_bins d) k"
  by (simp_all add: remove_meta_def remove_bin_def delete_conv')

lemma scan_entry_other:
  assumes "k \<noteq> t"
  shows "map_of (qd_bins (fst (scan_entry io now now_ms (t, c) (d, es)))) k = map_of (qd_bins d) k"
    and "map_of (qd_metas (fst (scan_entry io now now_ms (t, c) (d, es)))) k = map_of (qd_metas d) k"
    and "map_of (snd (scan_entry io now now_ms (t, c) (d, es))) k = map_of es k"
  using assms by (simp_all add: scan_entry_def Let_def update_conv' split: meta_file.splits)

lemma scan_entry_self:
  "map_of (snd (scan_entry io now now_ms (t, c) (d, es))) t =
     (case file_loads now now_ms (map_of (qd_bins d) t \<noteq> None) t c of Some m \<Rightarrow> Some m | None \<Rightarrow> map_of es t)"
  "file_loads now now_ms (map_of (qd_bins d) t \<noteq> None) t c \<noteq> None \<Longrightarrow>
     fst (scan_entry io now now_ms (t, c) (d, es)) = d"
  by (simp_all add: scan_entry_def file_loads_def Let_def update_conv' split: meta_file.splits if_splits)

lemma scan_fold_other:
  assumes "k \<notin> fst ` set fs"
  shows "map_of (qd_bins (fst (fold (scan_entry io now now_ms) fs (d, es)))) k = map_of (qd_bins d) k
       \<and> map_of (qd_metas (fst (fold (scan_entry io now now_ms) fs (d, es)))) k = map_of (qd_metas d) k
       \<and> map_of (snd (fold (scan_entry io now now_ms) fs (d, es))) k = map_of es k"
  using assms
proof (induction fs arbitrary: d es)
  case (Cons f fs)
  obtain t c where f: "f = (t, c)" by fastforce
  obtain d' es' where s: "scan_entry io now now_ms (t, c) (d, es) = (d', es')" by fastforce
  have "k \<noteq> t" "k \<notin> fst ` set fs" using Cons.prems f by auto
  then show ?case
    using Cons.IH[of d' es'] scan_entry_other[of k t io now now_ms c d es] by (simp add: f s)
qed simp

lemma scan_entry_step:
  assumes s: "scan_entry io now now_ms (t, c) (d, es) = (d', es')"
  shows "k \<noteq> t \<Longrightarrow> map_of (qd_bins d') k = map_of (qd_bins d) k"
    and "k \<noteq> t \<Longrightarrow> map_of (qd_metas d') k = map_of (qd_metas d) k"
    and "k \<noteq> t \<Longrightarrow> map_of es' k = map_of es k"
    and "map_of es' t = (case file_loads now now_ms (map_of (qd_bins d) t \<noteq> None) t c of
           Some m \<Rightarrow> Some m | None \<Rightarrow> map_of es t)"
    and "file_loads now now_ms (map_of (qd_bins d) t \<noteq> None) t c \<noteq> None \<Longrightarrow> d' = d"
  using scan_entry_other[of k t io now now_ms c d es] scan_entry_self(1)[of io now now_ms t c d es]
    scan_entry_self(2)[of now now_ms d t c io es]
  unfolding s by simp_all

lemma scan_fold_result:
  assumes "distinct (map fst fs)"
  shows "map_of (snd (fold (scan_entry io now now_ms) fs (d, es))) k =
     (case map_of fs k of
        None \<Rightarrow> map_of es k
      | Some c \<Rightarrow> (case file_loads now now_ms (map_of (qd_bins d) k \<noteq> None) k c of
                     Some m \<Rightarrow> Some m | None \<Rightarrow> map_of es k))"
  using assms
proof (induction fs arbitrary: d es)
  case (Cons f fs)
  obtain t b where f: "f = (t, b)" by fastforce
  obtain d' es' where s: "scan_entry io now now_ms (t, b) (d, es) = (d', es')" by fastforce
  note step = scan_entry_step[OF s]
  have nt: "t \<notin> fst ` set fs" and dist: "distinct (map fst fs)" using Cons.prems f by auto
  have r: "fold (scan_entry io now now_ms) (f # fs) (d, es) = fold (scan_entry io now now_ms) fs (d', es')"
    by (simp add: f s)
  show ?case
  proof (cases "k = t")
    case True
    then show ?thesis unfolding r
      using scan_fold_other[OF nt, of io now now_ms d' es'] step(4) by (simp add: f cong: option.case_cong)
  next
    case False
    then show ?thesis unfolding r
      using Cons.IH[OF dist, of d' es'] step(1)[OF False] step(3)[OF False]
      by (simp add: f cong: option.case_cong)
  qed
qed simp

lemma scan_fold_keeps:
  assumes "distinct (map fst fs)" and "map_of fs k = Some c"
    and "file_loads now now_ms (map_of (qd_bins d) k \<noteq> None) k c \<noteq> None"
  shows "map_of (qd_bins (fst (fold (scan_entry io now now_ms) fs (d, es)))) k = map_of (qd_bins d) k
     \<and> map_of (qd_metas (fst (fold (scan_entry io now now_ms) fs (d, es)))) k = map_of (qd_metas d) k"
  using assms
proof (induction fs arbitrary: d es)
  case (Cons f fs)
  obtain t b where f: "f = (t, b)" by fastforce
  obtain d' es' where s: "scan_entry io now now_ms (t, b) (d, es) = (d', es')" by fastforce
  note step = scan_entry_step[OF s]
  have nt: "t \<notin> fst ` set fs" using Cons.prems f by auto
  have r: "fold (scan_entry io now now_ms) (f # fs) (d, es) = fold (scan_entry io now now_ms) fs (d', es')"
    by (simp add: f s)
  show ?case
  proof (cases "k = t")
    case True
    then have "b = c" using Cons.prems by (simp add: f)
    then have "d' = d" using True Cons.prems(3) step(5) by simp
    then show ?thesis unfolding r
      using scan_fold_other[OF nt, of io now now_ms d' es'] True by simp
  next
    case False
    then show ?thesis unfolding r
      using Cons.prems Cons.IH[of d' es'] step(1)[OF False] step(2)[OF False] by (simp add: f)
  qed
qed simp

lemma scan_queue_dir_loads:
  assumes "scan_queue_dir io now d = Inr (d', es)" and "distinct (map fst (qd_metas d))"
    and "to_unix_ms now = Inr now_ms"
  shows "map_of es k = scan_loads now now_ms d k"
    and "scan_loads now now_ms d k \<noteq> None \<Longrightarrow>
       map_of (qd_bins d') k = map_of (qd_bins d) k \<and> map_of (qd_metas d') k = map_of (qd_metas d) k"
proof -
  have f: "fold (scan_entry io now now_ms) (qd_metas d) (d, []) = (d', es)"
    using assms by (simp add: scan_queue_dir_def guard_or_def split: if_splits)
  have conv: "scan_loads now now_ms d k = (case map_of (qd_metas d) k of None \<Rightarrow> None
      | Some c \<Rightarrow> file_loads now now_ms (map_of (qd_bins d) k \<noteq> None) k c)" for k
    by (auto simp: scan_loads_def file_loads_def split: option.splits meta_file.splits)
  show "map_of es k = scan_loads now now_ms d k"
    using scan_fold_result[OF assms(2), of io now now_ms d "[]" k] f conv
    by (simp split: option.splits)
  show "scan_loads now now_ms d k \<noteq> None \<Longrightarrow>
       map_of (qd_bins d') k = map_of (qd_bins d) k \<and> map_of (qd_metas d') k = map_of (qd_metas d) k"
    using scan_fold_keeps[OF assms(2), of k _ now now_ms d io "[]"] f conv
    by (auto split: option.splits)
qed

lemma keys_update_distinct: "distinct (map fst xs) \<Longrightarrow> distinct (map fst (AList.update k v xs))"
  by (rule distinct_update)

lemma scan_entries_distinct:
  "distinct (map fst es) \<Longrightarrow> distinct (map fst (snd (fold (scan_entry io now now_ms) fs (d, es))))"
proof (induction fs arbitrary: d es)
  case (Cons f fs)
  obtain t c where f: "f = (t, c)" by fastforce
  obtain d' es' where s: "scan_entry io now now_ms (t, c) (d, es) = (d', es')" by fastforce
  have "distinct (map fst (snd (scan_entry io now now_ms (t, c) (d, es))))"
    using Cons.prems by (simp add: scan_entry_def Let_def distinct_update split: meta_file.splits)
  then show ?case using Cons.IH[of es' d'] by (simp add: f s)
qed simp

lemma scan_queue_dir_distinct:
  "scan_queue_dir io now d = Inr (d', es) \<Longrightarrow> distinct (map fst es)"
  using scan_entries_distinct[of "[]" io now _ "qd_metas d" d]
  by (auto simp: scan_queue_dir_def guard_or_def bind_result_ok split: if_splits) (metis snd_conv)

section \<open>Due retries\<close>

definition due_entry :: "unix_ms \<Rightarrow> string \<times> queued_meta \<Rightarrow> (unix_ms \<times> string) option" where
  "due_entry now_ms = (\<lambda>(txid, meta). if \<not> qm_retryable meta then None
          else let next_at = (case qm_next_attempt_at_ms meta of None \<Rightarrow> now_ms | Some n \<Rightarrow> n)
               in if next_at \<le> now_ms then Some (next_at, txid) else None)"

lemma list_due_alt: "list_due_of_entries now_ms es = map snd (sort (List.map_filter (due_entry now_ms) es))"
  by (simp add: list_due_of_entries_def due_entry_def)

lemma due_entry_some: "due_entry now_ms (t, m) = Some (n, t') \<longleftrightarrow>
    t' = t \<and> qm_retryable m \<and> n \<le> now_ms \<and> n = (case qm_next_attempt_at_ms m of None \<Rightarrow> now_ms | Some n \<Rightarrow> n)"
  by (auto simp: due_entry_def Let_def split: option.splits)

lemma map_filter_due_keys:
  "map snd (List.map_filter (due_entry now_ms) es) = map fst (filter (\<lambda>e. due_entry now_ms e \<noteq> None) es)"
  by (induction es) (auto simp: List.map_filter_simps due_entry_some split: option.splits)

lemma list_due_distinct: "distinct (map fst es) \<Longrightarrow> distinct (list_due_of_entries now_ms es)"
proof -
  assume d: "distinct (map fst es)"
  have "distinct (map snd (List.map_filter (due_entry now_ms) es))"
    unfolding map_filter_due_keys using d by (simp add: distinct_map_filter)
  moreover have "mset (map snd (sort xs)) = mset (map snd xs)" for xs :: "(unix_ms \<times> string) list"
    by (metis mset_map mset_sort)
  ultimately show ?thesis
    unfolding list_due_alt by (metis mset_eq_imp_distinct_iff)
qed

lemma list_due_set:
  "t \<in> set (list_due_of_entries now_ms es) \<longleftrightarrow>
     (\<exists>m. (t, m) \<in> set es \<and> qm_retryable m
        \<and> (case qm_next_attempt_at_ms m of None \<Rightarrow> True | Some n \<Rightarrow> n \<le> now_ms))"
proof -
  have "t \<in> set (list_due_of_entries now_ms es) \<longleftrightarrow> t \<in> set (map snd (List.map_filter (due_entry now_ms) es))"
    by (simp add: list_due_alt)
  also have "\<dots> \<longleftrightarrow> (\<exists>m. (t, m) \<in> set es \<and> due_entry now_ms (t, m) \<noteq> None)"
    unfolding map_filter_due_keys by force
  finally show ?thesis by (auto simp: due_entry_def Let_def split: option.splits)
qed

section \<open>Queueing and reading back\<close>

definition queue_dir_wf :: "queue_dir \<Rightarrow> bool" where
  "queue_dir_wf d \<longleftrightarrow> distinct (map fst (qd_metas d)) \<and> distinct (map fst (qd_bins d))"

text \<open>What is relied on of XChaCha20-Poly1305: decrypting with the same key, nonce and associated data
  gives the plaintext back.\<close>

definition aead_roundtrip :: "aead_encrypt \<Rightarrow> aead_decrypt \<Rightarrow> bool" where
  "aead_roundtrip enc dec \<longleftrightarrow> (\<forall>k n a m c. enc k n a m = Some c \<longrightarrow> dec k n a c = Some m)"

lemma queue_broadcast_ok:
  assumes "queue_broadcast enc io nonce jitter now w dek txid tx le lc r d = (Inr (), d')"
  obtains c ms meta where
    "enc dek nonce (queued_tx_aad w txid) tx = Some c" "to_unix_ms now = Inr ms"
    "d' = d\<lparr>qd_exists := True, qd_bins := AList.update txid (nonce @ c) (qd_bins d),
            qd_metas := AList.update txid (MetaOk meta) (qd_metas d)\<rparr>"
    "qm_created_at_ms meta = ms" "qm_attempt_count meta = 0" "qm_last_error meta = le"
    "qm_last_error_class meta = lc" "meta_wf meta"
proof -
  obtain eff reason where p: "apply_retry_policy r 0 lc None = (eff, reason)" by fastforce
  have wf: "eff \<Longrightarrow> reason = None" "eff \<Longrightarrow> lc = Some c \<Longrightarrow> is_retryable_broadcast_error_class c \<and> 0 < retry_budget c"
    "lc = Some Terminal \<Longrightarrow> reason \<noteq> None" for c
    using apply_retry_policy_no_reason[of r 0 lc None] apply_retry_policy_retryable[of r 0 lc None]
      apply_retry_policy_terminal[of r 0 None] p by auto
  show thesis
    using assms p
    by (auto simp: queue_broadcast_def write_queued_broadcast_meta_def meta_wf_def Let_def
        split: if_splits option.splits sum.splits intro!: that dest: wf)
qed

lemma queue_broadcast_wf:
  "queue_dir_wf d \<Longrightarrow> queue_dir_wf (snd (queue_broadcast enc io nonce jitter now w dek txid tx le lc r d))"
  by (simp add: queue_broadcast_def queue_dir_wf_def write_queued_broadcast_meta_def Let_def distinct_update
      split: option.splits sum.splits prod.splits)

lemma to_unix_ms_div: "to_unix_ms t = Inr ms \<Longrightarrow> ms = t div 1000000 \<and> 0 \<le> t"
  by (simp add: to_unix_ms_def split: if_splits)

lemma fresh_not_expired:
  assumes "to_unix_ms now = Inr (qm_created_at_ms m)"
    and "now' \<le> now + QUEUED_BROADCAST_RETENTION - millis 1"
  shows "\<not> retention_expired now' m"
proof -
  have m: "qm_created_at_ms m = now div 1000000" "0 \<le> now" using assms(1) to_unix_ms_div by auto
  have "now - now div 1000000 * 1000000 < 1000000"
    by (metis minus_div_mult_eq_mod pos_mod_bound zero_less_numeral)
  then show ?thesis
    using assms(2) m by (simp add: retention_expired_def millis_def QUEUED_BROADCAST_RETENTION_def secs_def
        pos_imp_zdiv_nonneg_iff max_def)
qed

section \<open>Properties\<close>

text \<open>The startup scan loads exactly the queue entries that can still be retried or reported.
  For a directory with one file per name, a transaction id is loaded if and only if it is not empty, its
  metadata parses, its encrypted bytes are there and it was queued at most seven days ago;
  the loaded metadata is the normalised one, each id is loaded once, and the files of a loaded
  entry stay as they were, whatever the outcome of the clean-up of the other files.\<close>

theorem scan_loads_exactly:
  assumes "queue_dir_wf d" and "scan_queue_dir io now d = Inr (d', es)"
  shows "\<exists>now_ms. to_unix_ms now = Inr now_ms \<and> distinct (map fst es) \<and>
    (\<forall>txid. map_of es txid =
        (case map_of (qd_metas d) txid of
           Some (MetaOk m) \<Rightarrow> if txid \<noteq> [] \<and> map_of (qd_bins d) txid \<noteq> None \<and> \<not> retention_expired now m
                              then Some (normalize_queued_broadcast_meta m now_ms) else None
         | _ \<Rightarrow> None)
      \<and> (map_of es txid \<noteq> None \<longrightarrow> map_of (qd_bins d') txid = map_of (qd_bins d) txid
                                     \<and> map_of (qd_metas d') txid = map_of (qd_metas d) txid))"
proof -
  obtain now_ms where t: "to_unix_ms now = Inr now_ms"
    using assms(2) by (auto simp: scan_queue_dir_def bind_result_ok)
  have d: "distinct (map fst (qd_metas d))" using assms(1) by (simp add: queue_dir_wf_def)
  note loads = scan_queue_dir_loads[OF assms(2) d t]
  show ?thesis
  proof (intro exI conjI allI impI)
    show "to_unix_ms now = Inr now_ms" by (rule t)
    show "distinct (map fst es)" by (rule scan_queue_dir_distinct[OF assms(2)])
    fix txid
    show "map_of es txid = (case map_of (qd_metas d) txid of
           Some (MetaOk m) \<Rightarrow> if txid \<noteq> [] \<and> map_of (qd_bins d) txid \<noteq> None \<and> \<not> retention_expired now m
                              then Some (normalize_queued_broadcast_meta m now_ms) else None
         | _ \<Rightarrow> None)"
      by (rule loads(1)[unfolded scan_loads_def])
    assume "map_of es txid \<noteq> None"
    then have l: "scan_loads now now_ms d txid \<noteq> None" by (simp add: loads(1))
    show "map_of (qd_bins d') txid = map_of (qd_bins d) txid" using loads(2)[OF l] by blast
    show "map_of (qd_metas d') txid = map_of (qd_metas d) txid" using loads(2)[OF l] by blast
  qed
qed

definition demo_meta :: queued_meta where
  "demo_meta = \<lparr>qm_created_at_ms = 1000, qm_attempt_count = 0, qm_next_attempt_at_ms = None,
     qm_last_attempt_at_ms = None, qm_transport_failure_streak = 0, qm_retryable = True,
     qm_last_error_class = None, qm_terminal_reason = None, qm_last_error = None\<rparr>"

definition demo_dir :: queue_dir where
  "demo_dir = \<lparr>qd_exists = True, qd_metas = [(''aa'', MetaOk demo_meta), (''bb'', MetaCorrupt)],
     qd_bins = [(''aa'', [])]\<rparr>"

definition demo_io :: io_env where
  "demo_io = \<lparr>io_mkdir_ok = True, io_read_dir_ok = True, io_write_bin_ok = True, io_write_meta_ok = True,
     io_remove_bin_ok = (\<lambda>_. True), io_remove_meta_ok = (\<lambda>_. True)\<rparr>"

theorem scan_loads_exactly_witness:
  "\<exists>d' es. queue_dir_wf demo_dir \<and> scan_queue_dir demo_io 5000000000 demo_dir = Inr (d', es)
     \<and> map_of es ''aa'' \<noteq> None \<and> map_of es ''bb'' = None \<and> distinct (map fst es)"
proof -
  have wf: "queue_dir_wf demo_dir" by (simp add: queue_dir_wf_def demo_dir_def)
  have "\<exists>r. scan_queue_dir demo_io 5000000000 demo_dir = Inr r"
    by (simp add: scan_queue_dir_def demo_io_def to_unix_ms_def i64_max_def guard_or_def)
  then obtain d' es where s: "scan_queue_dir demo_io 5000000000 demo_dir = Inr (d', es)" by auto
  have a: "map_of (qd_metas demo_dir) ''aa'' = Some (MetaOk demo_meta)" "map_of (qd_bins demo_dir) ''aa'' \<noteq> None"
    "map_of (qd_metas demo_dir) ''bb'' = Some MetaCorrupt" by (simp_all add: demo_dir_def)
  have r: "\<not> retention_expired 5000000000 demo_meta"
    by (simp add: retention_expired_def demo_meta_def millis_def QUEUED_BROADCAST_RETENTION_def secs_def)
  obtain now_ms where dist: "distinct (map fst es)" and all: "\<forall>txid. map_of es txid =
        (case map_of (qd_metas demo_dir) txid of
           Some (MetaOk m) \<Rightarrow> if txid \<noteq> [] \<and> map_of (qd_bins demo_dir) txid \<noteq> None \<and> \<not> retention_expired 5000000000 m
                              then Some (normalize_queued_broadcast_meta m now_ms) else None
         | _ \<Rightarrow> None)"
    using scan_loads_exactly[OF wf s] by blast
  have "map_of es ''aa'' \<noteq> None" using all[rule_format, of "''aa''"] a r by simp
  moreover have "map_of es ''bb'' = None" using all[rule_format, of "''bb''"] a by simp
  ultimately show ?thesis using wf s dist by blast
qed

text \<open>C5: A failed broadcast survives a restart.  When queueing a transaction succeeds, a scan of
  the directory at any later time within the retention period (less the millisecond of rounding)
  loads it with zero attempts and well-formed retry metadata, and decrypting its file with the same
  wallet key gives back the transaction bytes.\<close>

theorem queued_broadcast_survives_restart:
  assumes "aead_roundtrip enc dec" and "length nonce = 24" and "queue_dir_wf d" and "txid \<noteq> []"
    and "queue_broadcast enc io nonce jitter now w dek txid tx le lc r d = (Inr (), d')"
    and "now' \<le> now + QUEUED_BROADCAST_RETENTION - millis 1"
    and "scan_queue_dir io' now' d' = Inr (d'', es)"
  shows "decrypt_queued_tx_bytes dec w dek txid d'' = Inr tx
       \<and> (\<exists>meta. map_of es txid = Some meta \<and> meta_wf meta \<and> qm_attempt_count meta = 0 \<and> qm_last_error meta = le)"
proof -
  obtain c ms meta where q: "enc dek nonce (queued_tx_aad w txid) tx = Some c" "to_unix_ms now = Inr ms"
    "d' = d\<lparr>qd_exists := True, qd_bins := AList.update txid (nonce @ c) (qd_bins d),
            qd_metas := AList.update txid (MetaOk meta) (qd_metas d)\<rparr>"
    "qm_created_at_ms meta = ms" "qm_attempt_count meta = 0" "qm_last_error meta = le"
    using queue_broadcast_ok[OF assms(5)] by metis
  obtain ms' where ms': "to_unix_ms now' = Inr ms'"
    using assms(7) by (auto simp: scan_queue_dir_def bind_result_ok)
  have dist: "distinct (map fst (qd_metas d'))"
    using assms(3) q(3) by (simp add: queue_dir_wf_def distinct_update)
  have fresh: "\<not> retention_expired now' meta"
    using fresh_not_expired assms(6) q(2,4) by blast
  have l: "scan_loads now' ms' d' txid = Some (normalize_queued_broadcast_meta meta ms')"
    using assms(4) fresh by (simp add: scan_loads_def q(3) update_conv')
  note s = scan_queue_dir_loads[OF assms(7) dist ms', of txid]
  have "map_of (qd_bins d'') txid = Some (nonce @ c)"
    using s(2) l by (simp add: q(3) update_conv')
  then have "decrypt_queued_tx_bytes dec w dek txid d'' = Inr tx"
    using assms(1,2) q(1) by (simp add: decrypt_queued_tx_bytes_def aead_roundtrip_def)
  then show ?thesis using s(1) l normalize_wf q(5,6) by auto
qed


definition demo_cipher :: aead_encrypt where
  "demo_cipher k n a m = Some (map (\<lambda>b. b + 1) m)"

definition demo_decipher :: aead_decrypt where
  "demo_decipher k n a c = Some (map (\<lambda>b. b - 1) c)"

theorem queued_broadcast_survives_restart_witness:
  "\<exists>d' d'' es. queue_broadcast demo_cipher demo_io (replicate 24 7) 0 5000000000 ''w'' [1] ''cc'' [2, 3] None
       (Some TransientTransport) True demo_dir = (Inr (), d')
     \<and> scan_queue_dir demo_io 6000000000 d' = Inr (d'', es)
     \<and> decrypt_queued_tx_bytes demo_decipher ''w'' [1] ''cc'' d'' = Inr [2, 3]"
proof -
  have rt: "aead_roundtrip demo_cipher demo_decipher"
    by (auto simp: aead_roundtrip_def demo_cipher_def demo_decipher_def comp_def)
  have wf: "queue_dir_wf demo_dir" by (simp add: queue_dir_wf_def demo_dir_def)
  have "\<exists>d'. queue_broadcast demo_cipher demo_io (replicate 24 7) 0 5000000000 ''w'' [1] ''cc'' [2, 3] None
       (Some TransientTransport) True demo_dir = (Inr (), d')"
    by (simp add: queue_broadcast_def demo_io_def demo_cipher_def to_unix_ms_def i64_max_def Let_def
        write_queued_broadcast_meta_def split: prod.splits)
  then obtain d' where q: "queue_broadcast demo_cipher demo_io (replicate 24 7) 0 5000000000 ''w'' [1] ''cc'' [2, 3] None
       (Some TransientTransport) True demo_dir = (Inr (), d')" by blast
  have "\<exists>r. scan_queue_dir demo_io 6000000000 d' = Inr r"
    by (simp add: scan_queue_dir_def demo_io_def to_unix_ms_def i64_max_def guard_or_def)
  then obtain d'' es where s: "scan_queue_dir demo_io 6000000000 d' = Inr (d'', es)" by auto
  have t: "(6000000000::int) \<le> 5000000000 + QUEUED_BROADCAST_RETENTION - millis 1"
    by (simp add: QUEUED_BROADCAST_RETENTION_def secs_def millis_def)
  have "decrypt_queued_tx_bytes demo_decipher ''w'' [1] ''cc'' d'' = Inr [2, 3]"
    using queued_broadcast_survives_restart[OF rt _ wf _ q t s] by simp
  then show ?thesis using q s by blast
qed

text \<open>Every queue entry the service reads is in normal form: it is retryable exactly when a next
  attempt is scheduled, a retryable entry is below the attempt budget of its error class, an entry
  with a terminal error has a reason, and normalising twice (at a later time) changes nothing, so
  a restart never revives a terminal entry and never resets its schedule.\<close>

theorem normalized_meta_stable:
  "meta_wf (normalize_queued_broadcast_meta m t)
   \<and> normalize_queued_broadcast_meta (normalize_queued_broadcast_meta m t) t' = normalize_queued_broadcast_meta m t
   \<and> qm_attempt_count (normalize_queued_broadcast_meta m t) = qm_attempt_count m"
  using normalize_wf normalize_idem by simp

text \<open>The transactions due for a retry are, in the order of their scheduled time and then their id,
  exactly the retryable entries whose next attempt is not in the future, each once.\<close>

theorem due_retries_sorted:
  assumes "distinct (map fst es)"
  shows "distinct (list_due_of_entries now_ms es)
     \<and> (\<forall>t. t \<in> set (list_due_of_entries now_ms es) \<longleftrightarrow>
          (\<exists>m. (t, m) \<in> set es \<and> qm_retryable m
             \<and> (case qm_next_attempt_at_ms m of None \<Rightarrow> True | Some n \<Rightarrow> n \<le> now_ms)))
     \<and> (\<exists>keyed. sorted keyed \<and> map snd keyed = list_due_of_entries now_ms es
          \<and> (\<forall>(n, t) \<in> set keyed. \<exists>m. (t, m) \<in> set es
               \<and> n = (case qm_next_attempt_at_ms m of None \<Rightarrow> now_ms | Some n \<Rightarrow> n)))"
proof (intro conjI allI)
  show "distinct (list_due_of_entries now_ms es)" by (rule list_due_distinct[OF assms])
  show "t \<in> set (list_due_of_entries now_ms es) \<longleftrightarrow>
          (\<exists>m. (t, m) \<in> set es \<and> qm_retryable m
             \<and> (case qm_next_attempt_at_ms m of None \<Rightarrow> True | Some n \<Rightarrow> n \<le> now_ms))" for t
    by (rule list_due_set)
  let ?k = "sort (List.map_filter (due_entry now_ms) es)"
  have "\<exists>m. (t, m) \<in> set es \<and> n = (case qm_next_attempt_at_ms m of None \<Rightarrow> now_ms | Some n \<Rightarrow> n)"
    if "(n, t) \<in> set ?k" for n t
    using that by (auto simp: List.map_filter_def due_entry_some)
  then show "\<exists>keyed. sorted keyed \<and> map snd keyed = list_due_of_entries now_ms es
          \<and> (\<forall>(n, t) \<in> set keyed. \<exists>m. (t, m) \<in> set es
               \<and> n = (case qm_next_attempt_at_ms m of None \<Rightarrow> now_ms | Some n \<Rightarrow> n))"
    by (intro exI[of _ ?k]) (auto simp: list_due_alt)
qed

theorem due_retries_sorted_witness:
  "distinct (map fst [(''b'', demo_meta), (''a'', demo_meta)])
   \<and> distinct (list_due_of_entries 5 [(''b'', demo_meta), (''a'', demo_meta)])
   \<and> ''a'' \<in> set (list_due_of_entries 5 [(''b'', demo_meta), (''a'', demo_meta)])"
proof -
  have d: "distinct (map fst [(''b'', demo_meta), (''a'', demo_meta)])" by simp
  note p = due_retries_sorted[OF d, of 5]
  have "''a'' \<in> set (list_due_of_entries 5 [(''b'', demo_meta), (''a'', demo_meta)])"
    using p by (simp add: demo_meta_def)
  then show ?thesis using p d by blast
qed

end
