(* ===== verification/Key_Encryption.thy ===== *)
theory Key_Encryption
  imports App_Db Tx_Queue
begin

text \<open>
  Protection of the wallet secrets: \<open>crates/zbag-engine/src/encryption.rs\<close> (the data key wrapped under a key derived
  from the password) and the encrypted mnemonic of \<open>wallet_manager.rs\<close>.  Base64, the Argon2id hash and
  XChaCha20-Poly1305 are third-party code and parameters of the model.
\<close>

section \<open>Model\<close>

record crypto =
  cx_decode_salt :: "string \<Rightarrow> (string, bytes) result"
  cx_b64_decode :: "string \<Rightarrow> bytes option"
  cx_b64_encode :: "bytes \<Rightarrow> string"
  cx_argon2id :: "nat \<Rightarrow> nat \<Rightarrow> nat \<Rightarrow> string \<Rightarrow> bytes \<Rightarrow> (string, bytes) result"
  cx_encrypt :: aead_encrypt
  cx_decrypt :: aead_decrypt

definition KDF_ALGORITHM :: string where "KDF_ALGORITHM = ''argon2id''"
definition KDF_VERSION :: nat where "KDF_VERSION = 1"
definition KDF_MEMORY_MIB :: nat where "KDF_MEMORY_MIB = 64"
definition KDF_ITERATIONS :: nat where "KDF_ITERATIONS = 3"
definition KDF_PARALLELISM :: nat where "KDF_PARALLELISM = 1"
definition AEAD_SCHEME :: string where "AEAD_SCHEME = ''xchacha20poly1305''"
definition AEAD_VERSION :: nat where "AEAD_VERSION = 1"
definition AEAD_NONCE_LEN_BYTES :: nat where "AEAD_NONCE_LEN_BYTES = 24"
definition DEK_LEN_BYTES :: nat where "DEK_LEN_BYTES = 32"
definition WRAPPED_DEK_LEN_BYTES :: nat where "WRAPPED_DEK_LEN_BYTES = DEK_LEN_BYTES + 16"

lemmas encryption_consts = KDF_ALGORITHM_def KDF_VERSION_def KDF_MEMORY_MIB_def KDF_ITERATIONS_def KDF_PARALLELISM_def
  AEAD_SCHEME_def AEAD_VERSION_def AEAD_NONCE_LEN_BYTES_def DEK_LEN_BYTES_def WRAPPED_DEK_LEN_BYTES_def

definition validate_and_decode_kdf_salt :: "crypto \<Rightarrow> kdf_params \<Rightarrow> (engine_error, bytes) result" where
  "validate_and_decode_kdf_salt cx kdf =
     bind_result (guard_or (kdf_algorithm kdf = KDF_ALGORITHM) (msg_err (''unsupported KDF algorithm: '' @ kdf_algorithm kdf))) (\<lambda>_.
     bind_result (guard_or (kdf_version kdf = KDF_VERSION) (msg_err (''unsupported KDF version: '' @ show_nat (kdf_version kdf)))) (\<lambda>_.
     bind_result (guard_or (1 \<le> kdf_memory_mib kdf \<and> kdf_memory_mib kdf \<le> 256)
       (msg_err (''KDF memory_mib out of bounds: '' @ show_nat (kdf_memory_mib kdf) @ '' (valid: 1-256)''))) (\<lambda>_.
     bind_result (guard_or (1 \<le> kdf_iterations kdf \<and> kdf_iterations kdf \<le> 100)
       (msg_err (''KDF iterations out of bounds: '' @ show_nat (kdf_iterations kdf) @ '' (valid: 1-100)''))) (\<lambda>_.
     bind_result (guard_or (1 \<le> kdf_parallelism kdf \<and> kdf_parallelism kdf \<le> 16)
       (msg_err (''KDF parallelism out of bounds: '' @ show_nat (kdf_parallelism kdf) @ '' (valid: 1-16)''))) (\<lambda>_.
     bind_result (map_err (\<lambda>e. msg_err (''invalid KDF salt: '' @ e)) (cx_decode_salt cx (kdf_salt_b64 kdf))) (\<lambda>salt.
     bind_result (guard_or (8 \<le> length salt)
       (msg_err (''invalid KDF salt length: '' @ show_nat (length salt) @ '' (min: 8)''))) (\<lambda>_. Inr salt)))))))"

text \<open>\<open>decode_slice\<close> into a buffer of \<open>n\<close> bytes, which must be filled.\<close>

definition decode_exact :: "crypto \<Rightarrow> string \<Rightarrow> nat \<Rightarrow> string \<Rightarrow> (engine_error, bytes) result" where
  "decode_exact cx what n s =
     (case cx_b64_decode cx s of
        None \<Rightarrow> Inl (msg_err (''invalid '' @ what @ '' base64''))
      | Some b \<Rightarrow>
          if length b > n then Inl (msg_err (''invalid '' @ what @ '' length: > '' @ show_nat n))
          else if length b \<noteq> n then Inl (msg_err (''invalid '' @ what @ '' length: '' @ show_nat (length b)))
          else Inr b)"

definition validate_and_decode_aead_nonce :: "crypto \<Rightarrow> aead_params \<Rightarrow> (engine_error, bytes) result" where
  "validate_and_decode_aead_nonce cx aead =
     bind_result (guard_or (aead_scheme aead = AEAD_SCHEME) (msg_err (''unsupported AEAD scheme: '' @ aead_scheme aead))) (\<lambda>_.
     bind_result (guard_or (aead_version aead = AEAD_VERSION) (msg_err (''unsupported AEAD version: '' @ show_nat (aead_version aead)))) (\<lambda>_.
     decode_exact cx ''AEAD nonce'' AEAD_NONCE_LEN_BYTES (aead_nonce_b64 aead)))"

definition derive_kek :: "crypto \<Rightarrow> string \<Rightarrow> kdf_params \<Rightarrow> bytes \<Rightarrow> (engine_error, bytes) result" where
  "derive_kek cx password kdf salt =
     bind_result (guard_or (kdf_memory_mib kdf * 1024 \<le> u32_max) (msg_err ''KDF memory overflow'')) (\<lambda>_.
     map_err (\<lambda>e. msg_err (''failed to derive KEK: '' @ e))
       (cx_argon2id cx (kdf_memory_mib kdf * 1024) (kdf_iterations kdf) (kdf_parallelism kdf) password salt))"

fun network_debug :: "network \<Rightarrow> string" where
  "network_debug Mainnet = ''Mainnet''"
| "network_debug Testnet = ''Testnet''"

definition aead_aad :: "uuid \<Rightarrow> network \<Rightarrow> aead_params \<Rightarrow> string" where
  "aead_aad wallet_id network aead =
     ''wallet_id='' @ wallet_id @ '';network='' @ network_debug network @ '';aead_scheme='' @ aead_scheme aead
       @ '';aead_version='' @ show_nat (aead_version aead)"

definition wrap_dek :: "crypto \<Rightarrow> uuid \<Rightarrow> network \<Rightarrow> string \<Rightarrow> kdf_params \<Rightarrow> aead_params \<Rightarrow> dek \<Rightarrow> (engine_error, string) result" where
  "wrap_dek cx wallet_id network password kdf aead dek =
     bind_result (validate_and_decode_kdf_salt cx kdf) (\<lambda>salt.
     bind_result (validate_and_decode_aead_nonce cx aead) (\<lambda>nonce.
     bind_result (derive_kek cx password kdf salt) (\<lambda>kek.
     bind_result (ok_or (cx_encrypt cx kek nonce (aead_aad wallet_id network aead) dek) (msg_err ''failed to wrap DEK'')) (\<lambda>ciphertext.
     Inr (cx_b64_encode cx ciphertext)))))"

definition unwrap_dek :: "crypto \<Rightarrow> uuid \<Rightarrow> network \<Rightarrow> string \<Rightarrow> kdf_params \<Rightarrow> aead_params \<Rightarrow> string \<Rightarrow> (engine_error, dek) result" where
  "unwrap_dek cx wallet_id network password kdf aead wrapped_dek_b64 =
     bind_result (validate_and_decode_kdf_salt cx kdf) (\<lambda>salt.
     bind_result (validate_and_decode_aead_nonce cx aead) (\<lambda>nonce.
     bind_result (derive_kek cx password kdf salt) (\<lambda>kek.
     bind_result (decode_exact cx ''wrapped DEK'' WRAPPED_DEK_LEN_BYTES wrapped_dek_b64) (\<lambda>ciphertext.
     bind_result (ok_or (cx_decrypt cx kek nonce (aead_aad wallet_id network aead) ciphertext) (msg_err ''failed to unwrap DEK'')) (\<lambda>plaintext.
     bind_result (guard_or (length plaintext = DEK_LEN_BYTES)
       (msg_err (''invalid DEK length: '' @ show_nat (length plaintext)))) (\<lambda>_. Inr plaintext))))))"

definition default_kdf_params :: "string \<Rightarrow> kdf_params" where
  "default_kdf_params salt_b64 = \<lparr>kdf_algorithm = KDF_ALGORITHM, kdf_version = KDF_VERSION, kdf_memory_mib = KDF_MEMORY_MIB,
     kdf_iterations = KDF_ITERATIONS, kdf_parallelism = KDF_PARALLELISM, kdf_salt_b64 = salt_b64\<rparr>"

definition default_aead_params :: "string \<Rightarrow> aead_params" where
  "default_aead_params nonce_b64 = \<lparr>aead_scheme = AEAD_SCHEME, aead_version = AEAD_VERSION, aead_nonce_b64 = nonce_b64\<rparr>"

section \<open>The mnemonic\<close>

definition mnemonic_aad :: "uuid \<Rightarrow> network \<Rightarrow> string" where
  "mnemonic_aad wallet_id network =
     ''wallet_id='' @ wallet_id @ '';network='' @ network_debug network @ '';purpose=mnemonic;scheme=xchacha20poly1305;version=1''"

definition encrypt_mnemonic :: "crypto \<Rightarrow> bytes \<Rightarrow> uuid \<Rightarrow> network \<Rightarrow> dek \<Rightarrow> bytes \<Rightarrow> (engine_error, bytes) result" where
  "encrypt_mnemonic cx nonce wallet_id network dek plaintext =
     bind_result (ok_or (cx_encrypt cx dek nonce (mnemonic_aad wallet_id network) plaintext) (msg_err ''failed to encrypt mnemonic'')) (\<lambda>ct.
     Inr (1 # nonce @ ct))"

definition decrypt_mnemonic_bytes :: "crypto \<Rightarrow> uuid \<Rightarrow> network \<Rightarrow> dek \<Rightarrow> bytes \<Rightarrow> (engine_error, bytes) result" where
  "decrypt_mnemonic_bytes cx wallet_id network dek bytes =
     (if length bytes < 1 + 24 + 16 then Inl (msg_err ''encrypted mnemonic is too short'')
      else if hd bytes \<noteq> 1 then Inl (msg_err (''unsupported encrypted mnemonic version: '' @ show_nat (unat (hd bytes))))
      else ok_or (cx_decrypt cx dek (take 24 (drop 1 bytes)) (mnemonic_aad wallet_id network) (drop 25 bytes))
             (msg_err ''failed to decrypt mnemonic''))"

section \<open>Lemmas\<close>

text \<open>What is relied on of the ciphers: XChaCha20-Poly1305 appends a 16-byte tag, base64 round-trips.\<close>

definition crypto_ok :: "crypto \<Rightarrow> bool" where
  "crypto_ok cx \<longleftrightarrow> aead_roundtrip (cx_encrypt cx) (cx_decrypt cx)
     \<and> (\<forall>k n a m c. cx_encrypt cx k n a m = Some c \<longrightarrow> length c = length m + 16)
     \<and> (\<forall>b. cx_b64_decode cx (cx_b64_encode cx b) = Some b)"

lemma decode_exact_ok: "decode_exact cx what n s = Inr b \<longleftrightarrow> cx_b64_decode cx s = Some b \<and> length b = n"
  by (auto simp: decode_exact_def split: option.splits)

lemma kdf_salt_ok:
  "validate_and_decode_kdf_salt cx kdf = Inr salt \<Longrightarrow>
     kdf_algorithm kdf = ''argon2id'' \<and> kdf_version kdf = 1 \<and> kdf_memory_mib kdf \<in> {1..256} \<and> kdf_iterations kdf \<in> {1..100}
   \<and> kdf_parallelism kdf \<in> {1..16} \<and> 8 \<le> length salt"
  by (auto simp: validate_and_decode_kdf_salt_def bind_result_ok KDF_ALGORITHM_def KDF_VERSION_def)

lemma aead_nonce_ok:
  "validate_and_decode_aead_nonce cx aead = Inr nonce \<Longrightarrow>
     aead_scheme aead = ''xchacha20poly1305'' \<and> aead_version aead = 1 \<and> length nonce = 24"
  by (auto simp: validate_and_decode_aead_nonce_def bind_result_ok decode_exact_ok AEAD_SCHEME_def AEAD_VERSION_def
      AEAD_NONCE_LEN_BYTES_def)

lemma network_debug_inj [simp]: "network_debug n = network_debug n' \<longleftrightarrow> n = n'"
  by (cases n; cases n') simp_all

lemma wrap_dek_ok:
  assumes "wrap_dek cx w net pw kdf aead dek = Inr wrapped"
  obtains salt nonce kek ct where "validate_and_decode_kdf_salt cx kdf = Inr salt" "validate_and_decode_aead_nonce cx aead = Inr nonce"
    "derive_kek cx pw kdf salt = Inr kek" "cx_encrypt cx kek nonce (aead_aad w net aead) dek = Some ct" "wrapped = cx_b64_encode cx ct"
  using assms by (auto simp: wrap_dek_def bind_result_ok)

lemma wrap_unwrap:
  assumes "crypto_ok cx" and "length dek = 32" and "wrap_dek cx w net pw kdf aead dek = Inr wrapped"
  shows "unwrap_dek cx w net pw kdf aead wrapped = Inr dek"
proof -
  obtain salt nonce kek ct where k: "validate_and_decode_kdf_salt cx kdf = Inr salt" "validate_and_decode_aead_nonce cx aead = Inr nonce"
    "derive_kek cx pw kdf salt = Inr kek" "cx_encrypt cx kek nonce (aead_aad w net aead) dek = Some ct" "wrapped = cx_b64_encode cx ct"
    using wrap_dek_ok[OF assms(3)] .
  have "length ct = 48" "cx_b64_decode cx wrapped = Some ct" "cx_decrypt cx kek nonce (aead_aad w net aead) ct = Some dek"
    using assms(1,2) k(4,5) by (auto simp: crypto_ok_def aead_roundtrip_def)
  then show ?thesis
    using k(1-3) assms(2) by (simp add: unwrap_dek_def decode_exact_def encryption_consts guard_or_def)
qed

lemma mnemonic_roundtrip:
  assumes "crypto_ok cx" and "length nonce = 24" and "encrypt_mnemonic cx nonce w net dek plaintext = Inr bytes"
  shows "decrypt_mnemonic_bytes cx w net dek bytes = Inr plaintext"
proof -
  obtain ct where ct: "cx_encrypt cx dek nonce (mnemonic_aad w net) plaintext = Some ct" "bytes = 1 # nonce @ ct"
    using assms(3) by (auto simp: encrypt_mnemonic_def bind_result_ok)
  have "length ct = length plaintext + 16" "cx_decrypt cx dek nonce (mnemonic_aad w net) ct = Some plaintext"
    using assms(1) ct(1) by (auto simp: crypto_ok_def aead_roundtrip_def)
  moreover have "drop 25 bytes = ct" using ct(2) assms(2) by simp
  ultimately show ?thesis using ct(2) assms(2) by (simp add: decrypt_mnemonic_bytes_def)
qed

section \<open>Properties\<close>

text \<open>The wallet secrets can be read back.  For ciphers that decrypt what they encrypted, the data key
  wrapped under a password unwraps with the same password, wallet and network, for every supported parameter
  set, and an encrypted mnemonic decrypts under the data key to the words that were stored.\<close>

theorem wallet_secrets_roundtrip:
  assumes "crypto_ok cx" and "length dek = 32" and "length nonce = 24"
    and "wrap_dek cx w net pw kdf aead dek = Inr wrapped" and "encrypt_mnemonic cx nonce w net dek words = Inr stored"
  shows "bind_result (unwrap_dek cx w net pw kdf aead wrapped) (\<lambda>k. decrypt_mnemonic_bytes cx w net k stored) = Inr words"
  using wrap_unwrap[OF assms(1,2,4)] mnemonic_roundtrip[OF assms(1,3,5)] by simp

definition demo_crypto :: crypto where
  "demo_crypto = \<lparr>cx_decode_salt = (\<lambda>_. Inr (replicate 16 7)), cx_b64_decode = (\<lambda>s. Some (map (word_of_nat \<circ> of_char) s)),
     cx_b64_encode = map (char_of \<circ> unat), cx_argon2id = (\<lambda>_ _ _ pw salt. Inr (replicate 32 (word_of_nat (length pw)))),
     cx_encrypt = (\<lambda>k n a m. Some (m @ replicate 16 0)), cx_decrypt = (\<lambda>k n a c. Some (take (length c - 16) c))\<rparr>"

lemma byte_char: "word_of_nat (of_char (char_of (unat b))) = (b :: 8 word)"
proof -
  have "unat b < 256" using unsigned_less[of b, where ?'a = nat] by simp
  then show ?thesis by simp
qed

lemma demo_crypto_ok: "crypto_ok demo_crypto"
  by (auto simp: crypto_ok_def demo_crypto_def aead_roundtrip_def comp_def byte_char intro!: map_idI simp del: of_char_of)

theorem wallet_secrets_roundtrip_witness:
  "\<exists>wrapped stored.
     bind_result (unwrap_dek demo_crypto ''w'' Mainnet ''pw'' (default_kdf_params ''s'') (default_aead_params (replicate 24 CHR ''n'')) wrapped)
       (\<lambda>k. decrypt_mnemonic_bytes demo_crypto ''w'' Mainnet k stored) = Inr [1, 2]"
proof -
  let ?kdf = "default_kdf_params ''s''" and ?aead = "default_aead_params (replicate 24 CHR ''n'')"
  obtain wrapped where w: "wrap_dek demo_crypto ''w'' Mainnet ''pw'' ?kdf ?aead (replicate 32 9) = Inr wrapped"
    by (simp add: wrap_dek_def validate_and_decode_kdf_salt_def validate_and_decode_aead_nonce_def derive_kek_def decode_exact_def
        default_kdf_params_def default_aead_params_def encryption_consts guard_or_def demo_crypto_def u32_max_def)
  obtain stored where s: "encrypt_mnemonic demo_crypto (replicate 24 0) ''w'' Mainnet (replicate 32 9) [1, 2] = Inr stored"
    by (simp add: encrypt_mnemonic_def demo_crypto_def)
  show ?thesis using wallet_secrets_roundtrip[OF demo_crypto_ok _ _ w s] by auto
qed

text \<open>Only supported, bounded key parameters are ever used, and a wrapped key is bound to its wallet and network.
  When unwrapping succeeds, the stored parameters name Argon2id version 1 with at most 256 MiB, 100 iterations and 16 lanes
  (so a tampered database cannot exhaust memory and the KiB product cannot overflow), a salt of at least 8
  bytes, a 24-byte nonce, and the key has 32 bytes; and the associated data of two wallets (of ids of equal length) or
  two networks are never the same.\<close>

theorem unwrap_parameters_bounded:
  assumes "unwrap_dek cx w net pw kdf aead wrapped = Inr dek"
  shows "kdf_algorithm kdf = ''argon2id'' \<and> kdf_version kdf = 1 \<and> kdf_memory_mib kdf \<in> {1..256} \<and> kdf_memory_mib kdf * 1024 \<le> u32_max
     \<and> kdf_iterations kdf \<in> {1..100} \<and> kdf_parallelism kdf \<in> {1..16}
     \<and> aead_scheme aead = ''xchacha20poly1305'' \<and> aead_version aead = 1 \<and> length dek = 32
     \<and> (\<forall>w' net'. length w' = length w \<and> aead_aad w' net' aead = aead_aad w net aead \<longrightarrow> w' = w \<and> net' = net)"
proof -
  obtain salt nonce where k: "validate_and_decode_kdf_salt cx kdf = Inr salt" "validate_and_decode_aead_nonce cx aead = Inr nonce"
    "length dek = 32"
    using assms by (auto simp: unwrap_dek_def bind_result_ok DEK_LEN_BYTES_def)
  have "w' = w \<and> net' = net" if "length w' = length w" "aead_aad w' net' aead = aead_aad w net aead" for w' net'
    using that by (simp add: aead_aad_def)
  then show ?thesis
    using kdf_salt_ok[OF k(1)] aead_nonce_ok[OF k(2)] k(3) by (auto simp: u32_max_def)
qed

theorem unwrap_parameters_bounded_witness:
  "kdf_memory_mib (default_kdf_params ''s'') \<in> {1..256}"
proof -
  let ?aead = "default_aead_params (replicate 24 CHR ''n'')"
  have "\<exists>dek. unwrap_dek demo_crypto ''w'' Mainnet ''pw'' (default_kdf_params ''s'') ?aead (replicate 48 CHR ''n'') = Inr dek"
    by (simp add: unwrap_dek_def validate_and_decode_kdf_salt_def validate_and_decode_aead_nonce_def derive_kek_def decode_exact_def
        default_kdf_params_def default_aead_params_def encryption_consts guard_or_def demo_crypto_def u32_max_def)
  then show ?thesis using unwrap_parameters_bounded by blast
qed

end
