(* ===== verification/Reauth.thy ===== *)
theory Reauth
  imports Core_Types
begin

text \<open>
  \<open>crates/zbag-engine/src/reauth.rs\<close>: short-lived, single-use re-authentication tokens bound to a
  wallet and a purpose.  The clock and the fresh token text are arguments of the operations.
\<close>

section \<open>Model\<close>

record token_record =
  tr_wallet_id :: uuid
  tr_purpose :: reauth_purpose
  tr_expires_at :: system_time
  tr_used :: bool

datatype reauth_error = ReauthInvalid | ReauthExpired

type_synonym reauth_manager = "string \<rightharpoonup> token_record"

definition reauth_new :: reauth_manager where "reauth_new = Map.empty"

definition reauth_issue :: "string \<Rightarrow> system_time \<Rightarrow> uuid \<Rightarrow> reauth_purpose \<Rightarrow> reauth_manager
    \<Rightarrow> (string \<times> system_time) \<times> reauth_manager" where
  "reauth_issue token issued_at wallet_id purpose tokens =
     (let expires_at = issued_at + secs 120
      in ((token, expires_at),
          tokens(token \<mapsto> \<lparr>tr_wallet_id = wallet_id, tr_purpose = purpose,
                           tr_expires_at = expires_at, tr_used = False\<rparr>)))"

definition validate_and_consume :: "system_time \<Rightarrow> string \<Rightarrow> uuid \<Rightarrow> reauth_purpose \<Rightarrow> reauth_manager
    \<Rightarrow> (reauth_error, unit) result \<times> reauth_manager" where
  "validate_and_consume now token wallet_id purpose tokens =
     (case tokens token of
        None \<Rightarrow> (Inl ReauthInvalid, tokens)
      | Some r \<Rightarrow>
          if tr_used r then (Inl ReauthInvalid, tokens)
          else if tr_wallet_id r \<noteq> wallet_id \<or> tr_purpose r \<noteq> purpose then (Inl ReauthInvalid, tokens)
          else if now > tr_expires_at r then (Inl ReauthExpired, tokens)
          else (Inr (), tokens(token \<mapsto> r\<lparr>tr_used := True\<rparr>)))"

section \<open>Tokens as single-use handles\<close>

datatype reauth_op =
    IssueToken string system_time uuid reauth_purpose
  | ConsumeToken system_time string uuid reauth_purpose

fun reauth_step :: "reauth_op \<Rightarrow> reauth_manager \<Rightarrow> reauth_manager" where
  "reauth_step (IssueToken token t w p) s = snd (reauth_issue token t w p s)"
| "reauth_step (ConsumeToken now token w p) s = snd (validate_and_consume now token w p s)"

fun consumes_token :: "string \<Rightarrow> reauth_op \<Rightarrow> reauth_manager \<Rightarrow> bool" where
  "consumes_token k (IssueToken _ _ _ _) s = False"
| "consumes_token k (ConsumeToken now token w p) s =
     (token = k \<and> is_ok (fst (validate_and_consume now token w p s)))"

fun issues_token :: "string \<Rightarrow> reauth_op \<Rightarrow> reauth_manager \<Rightarrow> bool" where
  "issues_token k (IssueToken token _ _ _) s = (token = k)"
| "issues_token k (ConsumeToken _ _ _ _) s = False"

definition token_live :: "reauth_manager \<Rightarrow> string \<Rightarrow> bool" where
  "token_live s k = (\<exists>r. s k = Some r \<and> \<not> tr_used r)"

lemma validate_ok_iff:
  "fst (validate_and_consume now token w p s) = Inr () \<longleftrightarrow>
     (\<exists>r. s token = Some r \<and> \<not> tr_used r \<and> tr_wallet_id r = w \<and> tr_purpose r = p \<and> now \<le> tr_expires_at r)"
  by (auto simp: validate_and_consume_def split: option.splits)

lemma validate_ok_state:
  "fst (validate_and_consume now token w p s) = Inr () \<Longrightarrow>
     snd (validate_and_consume now token w p s) = s(token \<mapsto> (the (s token))\<lparr>tr_used := True\<rparr>)"
  by (auto simp: validate_and_consume_def split: option.splits if_splits)

lemma validate_err_state:
  "fst (validate_and_consume now token w p s) = Inl e \<Longrightarrow> snd (validate_and_consume now token w p s) = s"
  by (auto simp: validate_and_consume_def split: option.splits if_splits)

lemma validate_cases:
  obtains (ok) "fst (validate_and_consume now token w p s) = Inr ()"
  | (err) e where "fst (validate_and_consume now token w p s) = Inl e"
  by (cases "fst (validate_and_consume now token w p s)") auto

interpretation rt: one_shot reauth_step consumes_token issues_token token_live
proof
  fix k op s
  show "consumes_token k op s \<Longrightarrow> token_live s k"
    by (cases op) (auto simp: token_live_def validate_ok_iff is_ok_iff)
  show "consumes_token k op s \<Longrightarrow> \<not> token_live (reauth_step op s) k"
    by (cases op) (auto simp: token_live_def is_ok_iff validate_ok_state)
  show "\<not> token_live s k \<Longrightarrow> \<not> issues_token k op s \<Longrightarrow> \<not> token_live (reauth_step op s) k"
  proof (cases op)
    case (ConsumeToken now token w p)
    assume "\<not> token_live s k" "\<not> issues_token k op s"
    then show ?thesis using ConsumeToken
      by (cases rule: validate_cases[of now token w p s])
        (auto simp: token_live_def validate_ok_state validate_err_state)
  qed (auto simp: token_live_def reauth_issue_def Let_def)
  show "consumes_token k op s \<Longrightarrow> \<not> issues_token k op s"
    by (cases op) auto
qed

section \<open>Properties\<close>

text \<open>In every sequence of issue and consume calls on the token table in which the token text k
  is issued at most once and which starts from the empty table, at most one consume of k succeeds:
  a re-authentication token authorises one operation.\<close>

theorem reauth_single_use:
  assumes "count_ops reauth_step (issues_token k) ops reauth_new \<le> 1"
  shows "count_ops reauth_step (consumes_token k) ops reauth_new \<le> 1"
  using assms rt.grants_bounded[of k ops reauth_new]
  by (simp add: token_live_def reauth_new_def)

theorem reauth_single_use_witness:
  "count_ops reauth_step (issues_token ''t'')
     [IssueToken ''t'' 0 ''w'' Spend, ConsumeToken 5 ''t'' ''w'' Spend, ConsumeToken 6 ''t'' ''w'' Spend] reauth_new = 1
   \<and> count_ops reauth_step (consumes_token ''t'')
     [IssueToken ''t'' 0 ''w'' Spend, ConsumeToken 5 ''t'' ''w'' Spend, ConsumeToken 6 ''t'' ''w'' Spend] reauth_new \<le> 1"
proof -
  have "count_ops reauth_step (issues_token ''t'')
     [IssueToken ''t'' 0 ''w'' Spend, ConsumeToken 5 ''t'' ''w'' Spend, ConsumeToken 6 ''t'' ''w'' Spend] reauth_new = 1"
    by simp
  then show ?thesis
    using reauth_single_use[of "''t''" "[IssueToken ''t'' 0 ''w'' Spend, ConsumeToken 5 ''t'' ''w'' Spend,
      ConsumeToken 6 ''t'' ''w'' Spend]"] by simp
qed

text \<open>A token issued at time t for a wallet and a purpose is accepted exactly for that wallet,
  that purpose and at times up to two minutes after t; in that window every other wallet or purpose gets
  the invalid error, later the right wallet and purpose get the expired error, and a rejected
  attempt leaves the table as it was, so it cannot burn the token.\<close>

theorem reauth_token_scope:
  assumes "s' = snd (reauth_issue token t w p s)"
  shows "fst (validate_and_consume now token w' p' s') =
           (if w' \<noteq> w \<or> p' \<noteq> p then Inl ReauthInvalid
            else if now \<le> t + secs 120 then Inr () else Inl ReauthExpired)
       \<and> (\<not> is_ok (fst (validate_and_consume now token w' p' s')) \<longrightarrow>
            snd (validate_and_consume now token w' p' s') = s')
       \<and> (\<forall>other. other \<noteq> token \<longrightarrow> s' other = s other)"
  using assms by (auto simp: reauth_issue_def validate_and_consume_def Let_def)

theorem reauth_token_scope_witness:
  "fst (validate_and_consume 7 ''t'' ''v'' Spend (snd (reauth_issue ''t'' 0 ''w'' Spend reauth_new))) = Inl ReauthInvalid
   \<and> fst (validate_and_consume 7 ''t'' ''w'' Spend (snd (reauth_issue ''t'' 0 ''w'' Spend reauth_new))) = Inr ()"
  using reauth_token_scope[OF refl, of 7 "''t''" "''v''" Spend 0 "''w''" Spend reauth_new]
    reauth_token_scope[OF refl, of 7 "''t''" "''w''" Spend 0 "''w''" Spend reauth_new]
  by (simp add: secs_def)

end
