(* ===== verification/Server_Endpoint.thy ===== *)
theory Server_Endpoint
  imports App_Db
begin

text \<open>
  \<open>crates/zbag-engine/src/grpc_url.rs\<close>, \<open>server_resolver.rs\<close> and \<open>account_key_source.rs\<close>: the
  validation of lightwalletd endpoint URLs, the choice of the endpoint of a network, and the tag by
  which an imported account is found again.  The URL parser is the \<open>url\<close> crate: an argument that
  gives the parsed parts or a parse error.
\<close>

section \<open>Model\<close>

datatype grpc_url_policy = Release | Debug

definition policy_from_build :: "bool \<Rightarrow> grpc_url_policy" where
  "policy_from_build debug_assertions = (if debug_assertions then Debug else Release)"

datatype url_host = Domain string | Ipv4 "nat list" | Ipv6 "nat list"

datatype url_parse_error = EmptyHost | RelativeUrlWithoutBase | OtherUrlError string

record parsed_url =
  u_scheme :: string
  u_username :: string
  u_password :: "string option"
  u_host :: "url_host option"
  u_port :: "nat option"
  u_query :: "string option"
  u_fragment :: "string option"

type_synonym url_parser = "string \<Rightarrow> (url_parse_error, parsed_url) result"

fun after_first :: "string \<Rightarrow> string \<Rightarrow> string option" where
  "after_first needle [] = (if needle = [] then Some [] else None)"
| "after_first needle (c # s) =
     (if take (length needle) (c # s) = needle then Some (drop (length needle) (c # s)) else after_first needle s)"

text \<open>IPv4 addresses are their four octets, IPv6 addresses their eight segments.\<close>

definition ipv4_is_loopback :: "nat list \<Rightarrow> bool" where
  "ipv4_is_loopback octets = (take 1 octets = [127])"

definition ipv6_is_loopback :: "nat list \<Rightarrow> bool" where
  "ipv6_is_loopback segs = (segs = [0, 0, 0, 0, 0, 0, 0, 1])"

definition to_ipv4_mapped :: "nat list \<Rightarrow> nat list option" where
  "to_ipv4_mapped segs =
     (if length segs = 8 \<and> take 6 segs = [0, 0, 0, 0, 0, 65535]
      then Some [segs ! 6 div 256, segs ! 6 mod 256, segs ! 7 div 256, segs ! 7 mod 256] else None)"

fun host_is_localhost :: "url_host option \<Rightarrow> bool" where
  "host_is_localhost (Some (Domain d)) = (to_lowercase d = ''localhost'')"
| "host_is_localhost (Some (Ipv4 ip)) = ipv4_is_loopback ip"
| "host_is_localhost (Some (Ipv6 ip)) =
     (ipv6_is_loopback ip \<or> (case to_ipv4_mapped ip of Some v4 \<Rightarrow> ipv4_is_loopback v4 | None \<Rightarrow> False))"
| "host_is_localhost None = False"

fun url_error :: "url_parse_error \<Rightarrow> engine_error" where
  "url_error EmptyHost = ipc_err INVALID_REQUEST ''invalid gRPC URL: missing host''"
| "url_error RelativeUrlWithoutBase =
     ipc_err INVALID_REQUEST ''invalid gRPC URL: expected absolute URL like https://example.com''"
| "url_error (OtherUrlError e) = ipc_err INVALID_REQUEST (''invalid gRPC URL: '' @ e)"

definition scheme_allowed :: "grpc_url_policy \<Rightarrow> parsed_url \<Rightarrow> bool" where
  "scheme_allowed policy p =
     (case policy of
        Release \<Rightarrow> u_scheme p = ''https''
      | Debug \<Rightarrow> u_scheme p = ''https'' \<or> (u_scheme p = ''http'' \<and> host_is_localhost (u_host p)))"

definition validate_grpc_url_with_policy :: "url_parser \<Rightarrow> string \<Rightarrow> grpc_url_policy \<Rightarrow> (engine_error, unit) result" where
  "validate_grpc_url_with_policy parse raw policy =
     (let url = trim raw in
      bind_result (ok_or (after_first ''://'' url)
        (ipc_err INVALID_REQUEST ''invalid gRPC URL: expected absolute URL like https://example.com'')) (\<lambda>after_scheme.
      bind_result (guard_or (\<not> (after_scheme = [] \<or> take 1 after_scheme = ''/''))
        (ipc_err INVALID_REQUEST ''invalid gRPC URL: missing host'')) (\<lambda>_.
      bind_result (map_err url_error (parse url)) (\<lambda>p.
      bind_result (guard_or (u_username p = [] \<and> u_password p = None)
        (ipc_err INVALID_REQUEST ''invalid gRPC URL: username/password not allowed'')) (\<lambda>_.
      bind_result (guard_or (u_query p = None)
        (ipc_err INVALID_REQUEST ''invalid gRPC URL: query parameters not allowed'')) (\<lambda>_.
      bind_result (guard_or (u_fragment p = None)
        (ipc_err INVALID_REQUEST ''invalid gRPC URL: fragments not allowed'')) (\<lambda>_.
      bind_result (guard_or (u_port p \<noteq> Some 0)
        (ipc_err INVALID_REQUEST ''invalid gRPC URL: port 0 is not allowed'')) (\<lambda>_.
      guard_or (scheme_allowed policy p)
        (ipc_err INVALID_REQUEST (if policy = Release
           then ''invalid gRPC URL: only HTTPS URLs are allowed for gRPC servers''
           else ''invalid gRPC URL: only HTTPS URLs (or HTTP loopback URLs for development) are allowed''))))))))))"

definition validate_grpc_url :: "url_parser \<Rightarrow> bool \<Rightarrow> string \<Rightarrow> (engine_error, unit) result" where
  "validate_grpc_url parse debug_assertions url =
     validate_grpc_url_with_policy parse url (policy_from_build debug_assertions)"

definition resolve_grpc_url_with_dev_override :: "url_parser \<Rightarrow> bool \<Rightarrow> app_db \<Rightarrow> network \<Rightarrow> string option
    \<Rightarrow> (engine_error, string) result" where
  "resolve_grpc_url_with_dev_override parse debug_assertions db network dev_override =
     (let override_url = (if debug_assertions then map_option trim dev_override else None) in
      case override_url of
        Some (c # cs) \<Rightarrow>
          bind_result (map_err (with_context ''invalid ZBAG_GRPC_URL'') (validate_grpc_url parse debug_assertions (c # cs)))
            (\<lambda>_. Inr (c # cs))
      | _ \<Rightarrow>
          bind_result (ok_or (find (\<lambda>s. si_network s = network \<and> si_is_default s) (list_servers db))
            (msg_err ''no default server configured for network'')) (\<lambda>server.
          bind_result (map_err (with_context (''invalid gRPC URL for default '' @ network_text network @ '' server '' @ [CHR 0x27] @ si_name server @ [CHR 0x27] @ '' ('' @ si_id server @ '')''))
            (validate_grpc_url parse debug_assertions (si_grpc_url server)))
            (\<lambda>_. Inr (si_grpc_url server))))"

definition resolve_grpc_url :: "url_parser \<Rightarrow> bool \<Rightarrow> app_db \<Rightarrow> network \<Rightarrow> string option \<Rightarrow> (engine_error, string) result" where
  "resolve_grpc_url parse debug_assertions db network env_var =
     resolve_grpc_url_with_dev_override parse debug_assertions db network (if debug_assertions then env_var else None)"

definition ACCOUNT_ID_KEY_SOURCE_PREFIX :: string where
  "ACCOUNT_ID_KEY_SOURCE_PREFIX = ''zbag-account-id:''"

definition key_source_for_account_id :: "nat \<Rightarrow> string" where
  "key_source_for_account_id account_id = ACCOUNT_ID_KEY_SOURCE_PREFIX @ show_nat account_id"

definition parse_account_id_from_key_source :: "string \<Rightarrow> nat option" where
  "parse_account_id_from_key_source key_source =
     (let p = ACCOUNT_ID_KEY_SOURCE_PREFIX in
      if take (length p) key_source = p then parse_uint u32_max (drop (length p) key_source) else None)"

section \<open>Lemmas\<close>

lemma validate_ok_parts:
  assumes "validate_grpc_url_with_policy parse raw policy = Inr ()"
  obtains p where "parse (trim raw) = Inr p" "u_username p = []" "u_password p = None" "u_query p = None"
    "u_fragment p = None" "u_port p \<noteq> Some 0" "scheme_allowed policy p"
  using assms by (auto simp: validate_grpc_url_with_policy_def Let_def bind_result_ok)

lemma resolve_release:
  assumes "resolve_grpc_url parse False db network env_var = Inr url"
  obtains s where "s \<in> set (list_servers db)" "si_network s = network" "si_is_default s" "si_grpc_url s = url"
    "validate_grpc_url_with_policy parse url Release = Inr ()"
  using assms
  by (auto simp: resolve_grpc_url_def resolve_grpc_url_with_dev_override_def bind_result_ok
      validate_grpc_url_def policy_from_build_def dest: find_some_in)

section \<open>Properties\<close>

text \<open>A release build only ever talks to the configured default server of the wallet's network
  over HTTPS: the resolver ignores the development override, and a URL it returns is that of a server
  row that is the default of the requested network, and parses to an https URL with no credentials, query
  or fragment and a port other than zero.\<close>

theorem release_endpoint_is_https_default:
  assumes "resolve_grpc_url parse False db network env_var = Inr url"
  shows "\<exists>s p. s \<in> set (list_servers db) \<and> si_network s = network \<and> si_is_default s \<and> si_grpc_url s = url
     \<and> parse (trim url) = Inr p \<and> u_scheme p = ''https'' \<and> u_username p = [] \<and> u_password p = None
     \<and> u_query p = None \<and> u_fragment p = None \<and> u_port p \<noteq> Some 0
     \<and> resolve_grpc_url parse False db network other_env = Inr url"
proof -
  obtain s where s: "s \<in> set (list_servers db)" "si_network s = network" "si_is_default s" "si_grpc_url s = url"
    "validate_grpc_url_with_policy parse url Release = Inr ()" using resolve_release[OF assms] .
  obtain p where p: "parse (trim url) = Inr p" "u_username p = []" "u_password p = None" "u_query p = None"
    "u_fragment p = None" "u_port p \<noteq> Some 0" "scheme_allowed Release p" using validate_ok_parts[OF s(5)] .
  have "resolve_grpc_url parse False db network other_env = Inr url"
    using assms by (simp add: resolve_grpc_url_def)
  then show ?thesis using s p by (auto simp: scheme_allowed_def)
qed

definition demo_url_parser :: url_parser where
  "demo_url_parser u = Inr \<lparr>u_scheme = takeWhile (\<lambda>c. c \<noteq> CHR '':'') u, u_username = [], u_password = None,
     u_host = None, u_port = None, u_query = None, u_fragment = None\<rparr>"

theorem release_endpoint_is_https_default_witness:
  "resolve_grpc_url demo_url_parser False demo_db Mainnet (Some ''http://evil'') = Inr ''https://a''
   \<and> resolve_grpc_url demo_url_parser False demo_db Mainnet None = Inr ''https://a''"
proof -
  have "resolve_grpc_url demo_url_parser False demo_db Mainnet (Some ''http://evil'') = Inr ''https://a''"
    by code_simp
  then show ?thesis using release_endpoint_is_https_default[of _ _ _ _ _ None] by blast
qed

text \<open>The key-source tag written for an imported account parses back to the account's id, for
  every 32-bit id, and only tags with the prefix parse.\<close>

theorem key_source_roundtrip:
  assumes "n \<le> u32_max"
  shows "parse_account_id_from_key_source (key_source_for_account_id n) = Some n
     \<and> (\<forall>s m. parse_account_id_from_key_source s = Some m \<longrightarrow>
          m \<le> u32_max \<and> (\<exists>r. s = ACCOUNT_ID_KEY_SOURCE_PREFIX @ r))"
  using assms
  by (auto simp: parse_account_id_from_key_source_def key_source_for_account_id_def Let_def parse_uint_show
      dest: parse_uint_le split: if_splits) (metis append_take_drop_id)

theorem key_source_roundtrip_witness:
  "parse_account_id_from_key_source (key_source_for_account_id 42) = Some 42"
  using key_source_roundtrip[of 42] by (simp add: u32_max_def)

end
