(* ===== verification/Tx_Service.thy ===== *)
theory Tx_Service
  imports Tx_Queue Server_Endpoint
begin

text \<open>
  \<open>crates/zbag-engine/src/tx_service.rs\<close>: send proposals and pending signing requests, the checks
  of a send request, confirmation with its broadcast loop, hardware signing, retries with server
  failover and shielding.

  The Zcash libraries (address decoding, note selection, proving, PCZT handling), the network and the
  random generator are arguments: records of functions.  A network call is indexed by its
  position in the operation, so that two calls may have different outcomes.  An operation reads the
  clock as one argument \<open>now\<close>.  Log output and the event handlers are left out, except that the
  event of a confirmed send is returned.
\<close>

section \<open>State\<close>

datatype address = Unified bool bool bool | SaplingAddr | TransparentAddr | TexAddr

record proposal_step =
  st_transparent_inputs :: nat
  st_fee_required :: nat

record 'p proposal =
  pr_steps :: "proposal_step list"
  pr_data :: 'p

record tx_summary =
  sm_recipient :: string
  sm_recipient_kind :: recipient_kind
  sm_amount :: string
  sm_fee :: string
  sm_memo_present :: bool
  sm_total_spend :: string

record 'p proposal_record =
  p_wallet_id :: uuid
  p_account_id :: nat
  p_expires_at :: system_time
  p_proposal :: "'p proposal"
  p_summary :: tx_summary

record pending_signing_request =
  ps_wallet_id :: uuid
  ps_pczt_with_proofs :: string
  ps_expires_at :: system_time

record 'p tx_service =
  tx_proposals :: "string \<rightharpoonup> 'p proposal_record"
  tx_queued_broadcasts :: "uuid \<rightharpoonup> queue_entries"
  tx_pending_signing :: "string \<rightharpoonup> pending_signing_request"

definition tx_service_new :: "'p tx_service" where
  "tx_service_new = \<lparr>tx_proposals = Map.empty, tx_queued_broadcasts = Map.empty, tx_pending_signing = Map.empty\<rparr>"

section \<open>Proposals and signing requests\<close>

definition proposal_account_id :: "string \<Rightarrow> 'p tx_service \<Rightarrow> nat option" where
  "proposal_account_id pid s = map_option p_account_id (tx_proposals s pid)"

definition drop_proposal :: "string \<Rightarrow> 'p tx_service \<Rightarrow> 'p tx_service" where
  "drop_proposal pid s = s\<lparr>tx_proposals := (tx_proposals s)(pid := None)\<rparr>"

definition drop_pending :: "string \<Rightarrow> 'p tx_service \<Rightarrow> 'p tx_service" where
  "drop_pending rid s = s\<lparr>tx_pending_signing := (tx_pending_signing s)(rid := None)\<rparr>"

definition validate_proposal_for_wallet :: "system_time \<Rightarrow> string \<Rightarrow> uuid \<Rightarrow> 'p tx_service
    \<Rightarrow> (engine_error, nat) result \<times> 'p tx_service" where
  "validate_proposal_for_wallet now pid wid s =
     (case tx_proposals s pid of
        None \<Rightarrow> (Inl (ipc_err PROPOSAL_NOT_FOUND ''proposal not found''), s)
      | Some r \<Rightarrow>
          if p_wallet_id r \<noteq> wid then (Inl (ipc_err PROPOSAL_NOT_FOUND ''proposal not found''), s)
          else if now > p_expires_at r
          then (Inl (ipc_err PROPOSAL_EXPIRED ''proposal expired''), drop_proposal pid s)
          else (Inr (p_account_id r), s))"

definition cancel_send :: "string \<Rightarrow> 'p tx_service \<Rightarrow> bool \<times> 'p tx_service" where
  "cancel_send pid s = (tx_proposals s pid \<noteq> None, drop_proposal pid s)"

definition take_proposal_for_execution :: "system_time \<Rightarrow> string \<Rightarrow> uuid \<Rightarrow> 'p tx_service
    \<Rightarrow> (engine_error, nat \<times> tx_summary \<times> system_time \<times> 'p proposal) result \<times> 'p tx_service" where
  "take_proposal_for_execution now pid wid s =
     (case tx_proposals s pid of
        None \<Rightarrow> (Inl (ipc_err PROPOSAL_NOT_FOUND ''proposal not found''), s)
      | Some r \<Rightarrow>
          if p_wallet_id r \<noteq> wid then (Inl (ipc_err PROPOSAL_NOT_FOUND ''proposal not found''), s)
          else if now > p_expires_at r
          then (Inl (ipc_err PROPOSAL_EXPIRED ''proposal expired''), drop_proposal pid s)
          else (Inr (p_account_id r, p_summary r, p_expires_at r, p_proposal r), drop_proposal pid s))"

definition import_proposal_for_execution :: "string \<Rightarrow> uuid \<Rightarrow> nat \<Rightarrow> tx_summary \<Rightarrow> system_time \<Rightarrow> 'p proposal
    \<Rightarrow> 'p tx_service \<Rightarrow> 'p tx_service" where
  "import_proposal_for_execution pid wid aid summary expires_at proposal s =
     s\<lparr>tx_proposals := (tx_proposals s)(pid \<mapsto> \<lparr>p_wallet_id = wid, p_account_id = aid, p_expires_at = expires_at,
        p_proposal = proposal, p_summary = summary\<rparr>)\<rparr>"

definition take_pending_signing_request_for_execution :: "system_time \<Rightarrow> string \<Rightarrow> uuid \<Rightarrow> 'p tx_service
    \<Rightarrow> (engine_error, string \<times> system_time) result \<times> 'p tx_service" where
  "take_pending_signing_request_for_execution now rid wid s =
     (case tx_pending_signing s rid of
        None \<Rightarrow> (Inl (ipc_err PROPOSAL_NOT_FOUND ''signing request not found or expired''), s)
      | Some r \<Rightarrow>
          if now > ps_expires_at r
          then (Inl (ipc_err PROPOSAL_EXPIRED ''signing request expired''), drop_pending rid s)
          else if ps_wallet_id r \<noteq> wid then (Inl (ipc_err PROPOSAL_NOT_FOUND ''signing request not found''), s)
          else (Inr (ps_pczt_with_proofs r, ps_expires_at r), drop_pending rid s))"

definition import_pending_signing_request_for_execution :: "string \<Rightarrow> uuid \<Rightarrow> string \<Rightarrow> system_time
    \<Rightarrow> 'p tx_service \<Rightarrow> 'p tx_service" where
  "import_pending_signing_request_for_execution rid wid pczt expires_at s =
     s\<lparr>tx_pending_signing := (tx_pending_signing s)(rid \<mapsto>
        \<lparr>ps_wallet_id = wid, ps_pczt_with_proofs = pczt, ps_expires_at = expires_at\<rparr>)\<rparr>"

definition take_proposal :: "string \<Rightarrow> 'p tx_service \<Rightarrow> 'p proposal option \<times> 'p tx_service" where
  "take_proposal pid s = (map_option p_proposal (tx_proposals s pid), drop_proposal pid s)"

definition clear_proposals_for_wallet :: "uuid \<Rightarrow> 'p tx_service \<Rightarrow> 'p tx_service" where
  "clear_proposals_for_wallet wid s = s\<lparr>tx_proposals :=
     (\<lambda>pid. case tx_proposals s pid of Some r \<Rightarrow> if p_wallet_id r \<noteq> wid then Some r else None | None \<Rightarrow> None)\<rparr>"

section \<open>Checks of a send request\<close>

definition ensure_backup_complete :: "app_db \<Rightarrow> uuid \<Rightarrow> (engine_error, unit) result" where
  "ensure_backup_complete db wid =
     guard_or (\<not> (case get_backup_required db wid of None \<Rightarrow> True | Some b \<Rightarrow> b))
       (ipc_err BACKUP_REQUIRED ''backup required'')"

definition ensure_spend_allowed :: "app_db \<Rightarrow> uuid \<Rightarrow> nat \<Rightarrow> (engine_error, unit) result" where
  "ensure_spend_allowed db wid aid =
     bind_result (ensure_backup_complete db wid) (\<lambda>_.
     bind_result (ok_or (find (\<lambda>r. a_wallet_id r = wid \<and> a_account_id r = aid) (db_accounts db))
       (ipc_err ACCOUNT_NOT_FOUND ''account not found'')) (\<lambda>row.
     guard_or (\<not> (a_account_type row = ''HardwareSigner'' \<or> a_account_type row = ''WatchOnly''))
       (ipc_err WATCH_ONLY_CANNOT_SPEND ''watch-only accounts cannot spend'')))"

text \<open>\<open>max_money\<close> is the limit of the \<open>Zatoshis\<close> type of the Zcash libraries.\<close>

definition parse_zatoshis :: "nat \<Rightarrow> string \<Rightarrow> (engine_error, nat) result" where
  "parse_zatoshis max_money value =
     (let trimmed = trim value in
      if trimmed = [] then Inl (ipc_err INVALID_REQUEST ''amount required'')
      else bind_result (ok_or (parse_u64 trimmed) (ipc_err INVALID_REQUEST ''invalid amount'')) (\<lambda>n.
           bind_result (guard_or (n \<le> max_money) (ipc_err INVALID_REQUEST ''invalid amount'')) (\<lambda>_. Inr n)))"

fun recipient_kind_of :: "address \<Rightarrow> (engine_error, recipient_kind) result" where
  "recipient_kind_of (Unified orchard sapling transparent) =
     (if orchard then Inr RkOrchard else if sapling then Inr RkSapling
      else if transparent then Inr RkTransparent
      else Inl (ipc_err INVALID_RECIPIENT ''invalid recipient''))"
| "recipient_kind_of SaplingAddr = Inr RkSapling"
| "recipient_kind_of TransparentAddr = Inr RkTransparent"
| "recipient_kind_of TexAddr = Inr RkTransparent"

definition parse_recipient :: "(network \<Rightarrow> string \<Rightarrow> (engine_error, address) result) \<Rightarrow> network \<Rightarrow> string
    \<Rightarrow> (engine_error, address \<times> recipient_kind) result" where
  "parse_recipient decode network recipient =
     bind_result (decode network recipient) (\<lambda>addr.
     bind_result (recipient_kind_of addr) (\<lambda>kind. Inr (addr, kind)))"

definition enforce_privacy_and_memo_rules :: "recipient_kind \<Rightarrow> string option \<Rightarrow> bool \<Rightarrow> (engine_error, unit) result" where
  "enforce_privacy_and_memo_rules kind memo allow_transparent =
     (if kind = RkTransparent \<and> memo \<noteq> None
      then Inl (ipc_err MEMO_NOT_ALLOWED ''memos are not allowed for transparent recipients'')
      else if kind = RkTransparent \<and> \<not> allow_transparent
      then Inl (ipc_err PRIVACY_ACK_REQUIRED ''transparent recipient requires privacy acknowledgement'')
      else case memo of
             Some m \<Rightarrow> if length m > 512 then Inl (ipc_err MEMO_TOO_LONG ''memo too long'') else Inr ()
           | None \<Rightarrow> Inr ())"

definition proposal_total_fee :: "nat \<Rightarrow> 'p proposal \<Rightarrow> (engine_error, nat) result" where
  "proposal_total_fee max_money proposal =
     (let total = fold (\<lambda>st acc. sat_add_u64 acc (st_fee_required st)) (pr_steps proposal) 0
      in if total \<le> max_money then Inr total else Inl (ipc_err INTERNAL_ERROR ''fee out of range''))"

record wallet_account =
  wa_uuid :: uuid
  wa_key_source :: "string option"
  wa_derivation_index :: "nat option"

text \<open>\<open>get_account_ids\<close> and \<open>get_account\<close> of the wallet database, each of which can fail.\<close>

type_synonym wallet_accounts = "(string, (string, wallet_account option) result list) result"

fun find_wallet_account :: "(string, wallet_account option) result list \<Rightarrow> nat \<Rightarrow> (engine_error, uuid) result" where
  "find_wallet_account [] aid = Inl (ipc_err ACCOUNT_NOT_FOUND ''account not found'')"
| "find_wallet_account (Inl e # as) aid = Inl (with_context ''failed to load account'' (msg_err e))"
| "find_wallet_account (Inr None # as) aid = find_wallet_account as aid"
| "find_wallet_account (Inr (Some a) # as) aid =
     (if (case wa_key_source a of Some ks \<Rightarrow> parse_account_id_from_key_source ks = Some aid | None \<Rightarrow> False)
      then Inr (wa_uuid a)
      else if wa_derivation_index a = Some aid then Inr (wa_uuid a)
      else find_wallet_account as aid)"

definition resolve_wallet_account_uuid :: "wallet_accounts \<Rightarrow> nat \<Rightarrow> (engine_error, uuid) result" where
  "resolve_wallet_account_uuid accounts aid =
     bind_result (map_err (\<lambda>e. with_context ''failed to list wallet accounts'' (msg_err e)) accounts) (\<lambda>as.
     find_wallet_account as aid)"

record balance =
  bal_shielded_spendable :: string
  bal_shielded_pending :: string
  bal_transparent_total :: string
  bal_total :: string

text \<open>The wallet library as a send request sees it.\<close>

record 'p send_env =
  se_max_money :: nat
  se_decode_address :: "network \<Rightarrow> string \<Rightarrow> (engine_error, address) result"
  se_balance :: "nat \<Rightarrow> (string, balance) result"
  se_accounts :: wallet_accounts
  se_propose :: "uuid \<Rightarrow> address \<Rightarrow> nat \<Rightarrow> string option \<Rightarrow> (string, 'p proposal) result"

record send_request =
  sr_wallet_id :: uuid
  sr_network :: network
  sr_account_id :: nat
  sr_recipient :: string
  sr_amount_zat :: string
  sr_memo :: "string option"
  sr_allow_transparent_recipient :: bool

definition parse_balance_field :: "string \<Rightarrow> string \<Rightarrow> (engine_error, nat) result" where
  "parse_balance_field name v =
     ok_or (parse_u64 v) (ipc_err INTERNAL_ERROR (''invalid '' @ name @ '' format''))"

definition transparent_shortfall :: "nat \<Rightarrow> nat \<Rightarrow> nat \<Rightarrow> bool" where
  "transparent_shortfall spendable transparent amount =
     (spendable < amount \<and> transparent > 0 \<and> sat_add_u64 spendable transparent \<ge> amount)"

record checked_request =
  cr_amount :: nat
  cr_address :: address
  cr_kind :: recipient_kind
  cr_spendable :: nat
  cr_transparent :: nat
  cr_account_uuid :: uuid

definition check_send_request :: "'p send_env \<Rightarrow> send_request \<Rightarrow> (engine_error, checked_request) result" where
  "check_send_request env r =
     bind_result (parse_zatoshis (se_max_money env) (sr_amount_zat r)) (\<lambda>amount.
     bind_result (guard_or (amount \<noteq> 0) (ipc_err INVALID_REQUEST ''amount must be > 0'')) (\<lambda>_.
     bind_result (parse_recipient (se_decode_address env) (sr_network r) (sr_recipient r)) (\<lambda>(addr, kind).
     bind_result (enforce_privacy_and_memo_rules kind (sr_memo r) (sr_allow_transparent_recipient r)) (\<lambda>_.
     bind_result (guard_or (case sr_memo r of Some m \<Rightarrow> length m \<le> 512 | None \<Rightarrow> True)
       (ipc_err MEMO_TOO_LONG ''memo too long'')) (\<lambda>_.
     bind_result (map_err (\<lambda>e. ipc_err INTERNAL_ERROR (''balance lookup failed: '' @ e))
       (se_balance env (sr_account_id r))) (\<lambda>bal.
     bind_result (parse_balance_field ''shielded_spendable'' (bal_shielded_spendable bal)) (\<lambda>spendable.
     bind_result (parse_balance_field ''shielded_pending'' (bal_shielded_pending bal)) (\<lambda>pending.
     bind_result (parse_balance_field ''transparent_total'' (bal_transparent_total bal)) (\<lambda>transparent.
     bind_result (guard_or (\<not> transparent_shortfall spendable transparent amount)
       (ipc_err TRANSPARENT_SPEND_BLOCKED ''shielded funds are insufficient; shield transparent funds first'')) (\<lambda>_.
     bind_result (guard_or (\<not> (spendable < amount \<and> pending > 0 \<and> sat_add_u64 spendable pending \<ge> amount))
       (ipc_err INSUFFICIENT_FUNDS ''insufficient spendable funds (some funds are still pending sync/restore)'')) (\<lambda>_.
     bind_result (map_err (with_context ''failed to resolve wallet account'')
       (resolve_wallet_account_uuid (se_accounts env) (sr_account_id r))) (\<lambda>account_uuid.
     Inr \<lparr>cr_amount = amount, cr_address = addr, cr_kind = kind, cr_spendable = spendable,
          cr_transparent = transparent, cr_account_uuid = account_uuid\<rparr>))))))))))))"

definition insufficient_text :: "string \<Rightarrow> bool" where
  "insufficient_text e = (str_contains e ''Insufficient balance'' \<or> str_contains e ''Insufficient funds'')"

definition uses_transparent_inputs :: "'p proposal \<Rightarrow> bool" where
  "uses_transparent_inputs proposal = list_ex (\<lambda>st. st_transparent_inputs st \<noteq> 0) (pr_steps proposal)"

definition propose_error :: "checked_request \<Rightarrow> string \<Rightarrow> engine_error" where
  "propose_error c e =
     (if insufficient_text e then
        (if transparent_shortfall (cr_spendable c) (cr_transparent c) (cr_amount c)
         then ipc_err TRANSPARENT_SPEND_BLOCKED ''shielded funds are insufficient; shield transparent funds first''
         else ipc_err INSUFFICIENT_FUNDS ''insufficient funds'')
      else ipc_err TRANSACTION_FAILED (''failed to propose transaction: '' @ e))"

record prepare_send_response =
  psr_proposal_id :: string
  psr_fee :: string
  psr_summary :: tx_summary
  psr_expires_at :: unix_ms

definition propose_send :: "'p send_env \<Rightarrow> app_db \<Rightarrow> send_request
    \<Rightarrow> (engine_error, checked_request \<times> 'p proposal \<times> nat) result" where
  "propose_send env db r =
     bind_result (ensure_spend_allowed db (sr_wallet_id r) (sr_account_id r)) (\<lambda>_.
     bind_result (check_send_request env r) (\<lambda>c.
     bind_result (map_err (propose_error c)
       (se_propose env (cr_account_uuid c) (cr_address c) (cr_amount c) (sr_memo r))) (\<lambda>proposal.
     bind_result (guard_or (\<not> uses_transparent_inputs proposal)
       (ipc_err TRANSPARENT_SPEND_BLOCKED ''transparent inputs are not allowed; shield funds before sending'')) (\<lambda>_.
     bind_result (proposal_total_fee (se_max_money env) proposal) (\<lambda>fee. Inr (c, proposal, fee))))))"

definition send_summary :: "send_request \<Rightarrow> checked_request \<Rightarrow> nat \<Rightarrow> tx_summary" where
  "send_summary r c fee = \<lparr>sm_recipient = sr_recipient r, sm_recipient_kind = cr_kind c,
     sm_amount = show_nat (cr_amount c), sm_fee = show_nat fee,
     sm_memo_present = (sr_memo r \<noteq> None), sm_total_spend = show_nat (cr_amount c + fee)\<rparr>"

definition prepare_send :: "'p send_env \<Rightarrow> app_db \<Rightarrow> string \<Rightarrow> system_time \<Rightarrow> send_request \<Rightarrow> 'p tx_service
    \<Rightarrow> (engine_error, prepare_send_response) result \<times> 'p tx_service" where
  "prepare_send env db new_id now r s =
     (case propose_send env db r of
        Inl e \<Rightarrow> (Inl e, s)
      | Inr (c, proposal, fee) \<Rightarrow>
          (bind_result (to_unix_ms (now + PROPOSAL_TTL)) (\<lambda>ms. Inr \<lparr>psr_proposal_id = new_id,
             psr_fee = show_nat fee, psr_summary = send_summary r c fee, psr_expires_at = ms\<rparr>),
           import_proposal_for_execution new_id (sr_wallet_id r) (sr_account_id r) (send_summary r c fee)
             (now + PROPOSAL_TTL) proposal s))"

section \<open>Hardware signing requests\<close>

text \<open>The PCZT roles of the Zcash and Keystone libraries.\<close>

record ('p, 'z) pczt_env =
  pz_create :: "uuid \<Rightarrow> 'p proposal \<Rightarrow> (string, 'z) result"
  pz_requires_orchard_proof :: "'z \<Rightarrow> bool"
  pz_create_orchard_proof :: "'z \<Rightarrow> (string, 'z) result"
  pz_requires_sapling_proofs :: "'z \<Rightarrow> bool"
  pz_create_sapling_proofs :: "'z \<Rightarrow> (string, 'z) result"
  pz_encode_full :: "'z \<Rightarrow> string"
  pz_encode_for_signer :: "'z \<Rightarrow> string"
  pz_decode_full :: "string \<Rightarrow> (string, 'z) result"
  pz_decode_base64 :: "string \<Rightarrow> (string, 'z) result"
  pz_combine :: "'z \<Rightarrow> 'z \<Rightarrow> (string, 'z) result"
  pz_extract :: "'z \<Rightarrow> (string, string) result"
  pz_get_transaction :: "string \<Rightarrow> (string, (string, bytes) result option) result"

definition prove_pczt :: "('p, 'z) pczt_env \<Rightarrow> 'z \<Rightarrow> (engine_error, 'z) result" where
  "prove_pczt pe z =
     bind_result (if pz_requires_orchard_proof pe z
       then map_err (\<lambda>e. ipc_err SIGNING_FAILED (''failed to create Orchard proof: '' @ e)) (pz_create_orchard_proof pe z)
       else Inr z) (\<lambda>z1.
     if pz_requires_sapling_proofs pe z1
     then map_err (\<lambda>e. ipc_err SIGNING_FAILED (''failed to create Sapling proofs: '' @ e)) (pz_create_sapling_proofs pe z1)
     else Inr z1)"

record signing_request =
  sq_signing_request_id :: string
  sq_pczt_payload :: string
  sq_recipient :: string
  sq_recipient_kind :: recipient_kind
  sq_amount :: string
  sq_fee :: string
  sq_memo_present :: bool

definition build_signing_request :: "'p send_env \<Rightarrow> ('p, 'z) pczt_env \<Rightarrow> app_db \<Rightarrow> string \<Rightarrow> system_time
    \<Rightarrow> send_request \<Rightarrow> 'p tx_service \<Rightarrow> (engine_error, signing_request) result \<times> 'p tx_service" where
  "build_signing_request env pe db new_id now r s =
     (let built =
        bind_result (ensure_backup_complete db (sr_wallet_id r)) (\<lambda>_.
        bind_result (check_send_request env r) (\<lambda>c.
        bind_result (map_err (\<lambda>e. if insufficient_text e then ipc_err INSUFFICIENT_FUNDS ''insufficient funds''
            else ipc_err TRANSACTION_FAILED (''failed to propose transaction: '' @ e))
          (se_propose env (cr_account_uuid c) (cr_address c) (cr_amount c) (sr_memo r))) (\<lambda>proposal.
        bind_result (guard_or (\<not> uses_transparent_inputs proposal)
          (ipc_err TRANSPARENT_SPEND_BLOCKED ''transparent inputs are not allowed; shield funds before sending'')) (\<lambda>_.
        bind_result (map_err (\<lambda>e. ipc_err SIGNING_FAILED (''failed to create signing request: '' @ e))
          (pz_create pe (cr_account_uuid c) proposal)) (\<lambda>z.
        bind_result (prove_pczt pe z) (\<lambda>proved.
        bind_result (proposal_total_fee (se_max_money env) proposal) (\<lambda>fee. Inr (c, proved, fee))))))))
      in case built of
           Inl e \<Rightarrow> (Inl e, s)
         | Inr (c, proved, fee) \<Rightarrow>
             (Inr \<lparr>sq_signing_request_id = new_id, sq_pczt_payload = pz_encode_for_signer pe proved,
                   sq_recipient = sr_recipient r, sq_recipient_kind = cr_kind c, sq_amount = show_nat (cr_amount c),
                   sq_fee = show_nat fee, sq_memo_present = (sr_memo r \<noteq> None)\<rparr>,
              import_pending_signing_request_for_execution new_id (sr_wallet_id r) (pz_encode_full pe proved)
                (now + PROPOSAL_TTL) s))"

section \<open>Broadcasting\<close>

record net_env =
  ne_send :: "nat \<Rightarrow> string \<Rightarrow> bytes \<Rightarrow> (nat \<times> (engine_error, unit) result) option"
  ne_probe :: "nat \<Rightarrow> string \<Rightarrow> bool"
  ne_encrypt :: aead_encrypt
  ne_decrypt :: aead_decrypt
  ne_nonce :: "nat \<Rightarrow> bytes"
  ne_jitter :: "nat \<Rightarrow> rat"
  ne_io :: "nat \<Rightarrow> io_env"

definition send_transaction_bytes :: "net_env \<Rightarrow> nat \<Rightarrow> string \<Rightarrow> bytes \<Rightarrow> (engine_error, unit) result" where
  "send_transaction_bytes ne n grpc_url tx_bytes =
     (case send_with_timeout (ne_send ne n grpc_url tx_bytes) of
        Inr _ \<Rightarrow> Inr ()
      | Inl err \<Rightarrow> if is_effective_success_broadcast_error (error_chain_text err) then Inr () else Inl err)"

definition scan_queued_broadcasts :: "io_env \<Rightarrow> system_time \<Rightarrow> uuid \<Rightarrow> queue_dir \<times> 'p tx_service
    \<Rightarrow> (engine_error, unit) result \<times> queue_dir \<times> 'p tx_service" where
  "scan_queued_broadcasts io now wid ds =
     (let (d, s) = ds in
      if \<not> qd_exists d then (Inr (), d, s\<lparr>tx_queued_broadcasts := (tx_queued_broadcasts s)(wid := None)\<rparr>)
      else case scan_queue_dir io now d of
             Inl e \<Rightarrow> (Inl e, d, s)
           | Inr (d', es) \<Rightarrow> (Inr (), d', s\<lparr>tx_queued_broadcasts := (tx_queued_broadcasts s)(wid \<mapsto> es)\<rparr>))"

text \<open>One transaction of a confirmation, a signing or a shielding: send it, queue it on failure,
  clear an old queue entry on success.  The outcome is the broadcast error, if any.\<close>

definition broadcast_or_queue :: "net_env \<Rightarrow> nat \<Rightarrow> system_time \<Rightarrow> uuid \<Rightarrow> dek \<Rightarrow> string \<Rightarrow> string \<Rightarrow> bytes
    \<Rightarrow> queue_dir \<Rightarrow> (engine_error, string option) result \<times> queue_dir" where
  "broadcast_or_queue ne n now wid wallet_dek grpc_url txid tx_bytes d =
     (case send_transaction_bytes ne n grpc_url tx_bytes of
        Inl err \<Rightarrow>
          let err_msg = error_chain_text err;
              err_class = classify_broadcast_error_message err_msg;
              retryable = is_retryable_broadcast_error_class err_class;
              (r, d') = queue_broadcast (ne_encrypt ne) (ne_io ne n) (ne_nonce ne n) (ne_jitter ne n) now wid wallet_dek
                          txid tx_bytes (Some err_msg) (Some err_class) retryable d
          in (bind_result r (\<lambda>_. Inr (Some err_msg)), d')
      | Inr _ \<Rightarrow> (Inr None, delete_queued_broadcast (ne_io ne n) txid d))"

text \<open>\<open>get_transaction\<close> of the wallet database, with the result of serialising what it finds.\<close>

type_synonym tx_loader = "string \<Rightarrow> (string, (string, bytes) result option) result"

definition load_tx_bytes :: "tx_loader \<Rightarrow> string \<Rightarrow> (engine_error, bytes) result" where
  "load_tx_bytes load txid =
     bind_result (map_err (\<lambda>e. ipc_err TRANSACTION_FAILED (''failed to load tx: '' @ e)) (load txid)) (\<lambda>o1.
     bind_result (ok_or o1 (ipc_err TRANSACTION_FAILED ''tx bytes unavailable'')) (\<lambda>tx.
     map_err (\<lambda>e. ipc_err TRANSACTION_FAILED (''failed to serialize tx: '' @ e)) tx))"

fun broadcast_all :: "net_env \<Rightarrow> nat \<Rightarrow> system_time \<Rightarrow> uuid \<Rightarrow> dek \<Rightarrow> string \<Rightarrow> tx_loader \<Rightarrow> string list
    \<Rightarrow> (string \<rightharpoonup> string) \<Rightarrow> queue_dir \<Rightarrow> (engine_error, string \<rightharpoonup> string) result \<times> queue_dir" where
  "broadcast_all ne n now wid wallet_dek grpc_url load [] errs d = (Inr errs, d)"
| "broadcast_all ne n now wid wallet_dek grpc_url load (txid # txids) errs d =
     (case load_tx_bytes load txid of
        Inl e \<Rightarrow> (Inl e, d)
      | Inr tx_bytes \<Rightarrow>
          (case broadcast_or_queue ne n now wid wallet_dek grpc_url txid tx_bytes d of
             (Inl e, d') \<Rightarrow> (Inl e, d')
           | (Inr err, d') \<Rightarrow>
               broadcast_all ne (Suc n) now wid wallet_dek grpc_url load txids
                 (case err of None \<Rightarrow> errs | Some m \<Rightarrow> errs(txid \<mapsto> m)) d'))"

record tx_event =
  te_txid :: string
  te_status :: transaction_status
  te_last_error :: "string option"
  te_can_retry_broadcast :: bool

definition initial_status :: "string \<Rightarrow> queued_meta option \<Rightarrow> string option \<Rightarrow> tx_event" where
  "initial_status txid queued immediate_error =
     (case (queued, immediate_error) of
        (Some meta, _) \<Rightarrow> \<lparr>te_txid = txid, te_status = TxFailed,
           te_last_error = queued_broadcast_error_for_display meta, te_can_retry_broadcast = qm_retryable meta\<rparr>
      | (None, Some err) \<Rightarrow> \<lparr>te_txid = txid, te_status = TxFailed, te_last_error = Some err,
           te_can_retry_broadcast = False\<rparr>
      | (None, None) \<Rightarrow> \<lparr>te_txid = txid, te_status = TxPending, te_last_error = None,
           te_can_retry_broadcast = False\<rparr>)"

definition queued_meta_of :: "uuid \<Rightarrow> string \<Rightarrow> 'p tx_service \<Rightarrow> queued_meta option" where
  "queued_meta_of wid txid s = (case tx_queued_broadcasts s wid of None \<Rightarrow> None | Some es \<Rightarrow> map_of es txid)"

text \<open>\<open>build\<close> is \<open>create_proposed_transactions\<close>, which returns a non-empty list of ids, or an error.\<close>

definition confirm_build :: "(engine_error, app_db) result \<Rightarrow> ('p proposal \<Rightarrow> (string, string list) result)
    \<Rightarrow> system_time \<Rightarrow> uuid \<Rightarrow> string \<Rightarrow> 'p tx_service \<Rightarrow> (engine_error, string list) result \<times> 'p tx_service" where
  "confirm_build open_db build now wid pid s =
     (case validate_proposal_for_wallet now pid wid s of
        (Inl e, s1) \<Rightarrow> (Inl e, s1)
      | (Inr _, s1) \<Rightarrow>
          (case open_db of
             Inl e \<Rightarrow> (Inl (with_context ''failed to open app db for send policy checks'' e), s1)
           | Inr db \<Rightarrow>
               (case tx_proposals s1 pid of
                  None \<Rightarrow> (Inl (ipc_err PROPOSAL_NOT_FOUND ''proposal not found''), s1)
                | Some record \<Rightarrow>
                    (bind_result (ensure_spend_allowed db wid (p_account_id record)) (\<lambda>_.
                     bind_result (guard_or (\<not> uses_transparent_inputs (p_proposal record))
                       (ipc_err TRANSPARENT_SPEND_BLOCKED ''transparent inputs are not allowed for sends'')) (\<lambda>_.
                     map_err (\<lambda>e. ipc_err TRANSACTION_FAILED (''failed to build tx: '' @ e))
                       (build (p_proposal record)))), drop_proposal pid s1))))"

definition confirm_send :: "net_env \<Rightarrow> (engine_error, app_db) result \<Rightarrow> ('p proposal \<Rightarrow> (string, string list) result)
    \<Rightarrow> tx_loader \<Rightarrow> system_time \<Rightarrow> uuid \<Rightarrow> dek \<Rightarrow> string \<Rightarrow> string \<Rightarrow> queue_dir \<times> 'p tx_service
    \<Rightarrow> (engine_error, tx_event) result \<times> queue_dir \<times> 'p tx_service" where
  "confirm_send ne open_db build load now wid wallet_dek grpc_url pid ds =
     (case confirm_build open_db build now wid pid (snd ds) of
        (Inl e, s1) \<Rightarrow> (Inl e, fst ds, s1)
      | (Inr txids, s2) \<Rightarrow>
          (case broadcast_all ne 0 now wid wallet_dek grpc_url load txids Map.empty (fst ds) of
             (Inl e, d') \<Rightarrow> (Inl e, d', s2)
           | (Inr errs, d') \<Rightarrow>
               (case scan_queued_broadcasts (ne_io ne (length txids)) now wid (d', s2) of
                  (Inl e, d'', s3) \<Rightarrow> (Inl e, d'', s3)
                | (Inr _, d'', s3) \<Rightarrow>
                    (Inr (initial_status (hd txids) (queued_meta_of wid (hd txids) s3) (errs (hd txids))), d'', s3))))"

definition finalize_signing :: "net_env \<Rightarrow> ('p, 'z) pczt_env \<Rightarrow> app_db \<Rightarrow> system_time \<Rightarrow> uuid \<Rightarrow> dek \<Rightarrow> string \<Rightarrow> string
    \<Rightarrow> string \<Rightarrow> queue_dir \<times> 'p tx_service \<Rightarrow> (engine_error, string) result \<times> queue_dir \<times> 'p tx_service" where
  "finalize_signing ne pe db now wid wallet_dek grpc_url rid signed_payload ds =
     (let (d, s) = ds in
      case ensure_backup_complete db wid of
        Inl e \<Rightarrow> (Inl e, d, s)
      | Inr _ \<Rightarrow>
          (case take_pending_signing_request_for_execution now rid wid s of
             (Inl e, s1) \<Rightarrow> (Inl e, d, s1)
           | (Inr (pczt, _), s1) \<Rightarrow>
               (case bind_result (map_err (\<lambda>e. ipc_err INTERNAL_ERROR (''invalid stored PCZT: '' @ e)) (pz_decode_full pe pczt)) (\<lambda>proofs.
                     bind_result (map_err (\<lambda>e. ipc_err INVALID_PCZT (''invalid signed payload: '' @ e)) (pz_decode_base64 pe signed_payload)) (\<lambda>sigs.
                     bind_result (map_err (\<lambda>e. ipc_err SIGNING_FAILED (''failed to combine PCZTs: '' @ e)) (pz_combine pe proofs sigs)) (\<lambda>z.
                     bind_result (map_err (\<lambda>e. ipc_err SIGNING_FAILED (''failed to finalize signing: '' @ e)) (pz_extract pe z)) (\<lambda>txid.
                     bind_result (load_tx_bytes (pz_get_transaction pe) txid) (\<lambda>tx_bytes. Inr (txid, tx_bytes)))))) of
                  Inl e \<Rightarrow> (Inl e, d, s1)
                | Inr (txid, tx_bytes) \<Rightarrow>
                    (case broadcast_or_queue ne 0 now wid wallet_dek grpc_url txid tx_bytes d of
                       (Inl e, d') \<Rightarrow> (Inl e, d', s1)
                     | (Inr _, d') \<Rightarrow>
                         (case scan_queued_broadcasts (ne_io ne 1) now wid (d', s1) of
                            (Inl e, d'', s2) \<Rightarrow> (Inl e, d'', s2)
                          | (Inr _, d'', s2) \<Rightarrow> (Inr txid, d'', s2))))))"

definition list_due_retry_txids :: "io_env \<Rightarrow> system_time \<Rightarrow> uuid \<Rightarrow> queue_dir \<times> 'p tx_service
    \<Rightarrow> (engine_error, string list) result \<times> queue_dir \<times> 'p tx_service" where
  "list_due_retry_txids io now wid ds =
     (case scan_queued_broadcasts io now wid ds of
        (Inl e, d, s) \<Rightarrow> (Inl e, d, s)
      | (Inr _, d, s) \<Rightarrow>
          (bind_result (to_unix_ms now) (\<lambda>now_ms.
             Inr (list_due_of_entries now_ms (case tx_queued_broadcasts s wid of None \<Rightarrow> [] | Some es \<Rightarrow> es))), d, s))"

section \<open>Proposals and signing requests are single-use\<close>

datatype 'p handle_op =
    ImportProposal string uuid nat tx_summary system_time "'p proposal"
  | ValidateProposal system_time string uuid
  | CancelSend string
  | TakeForExecution system_time string uuid
  | TakeProposal string
  | ClearProposals uuid
  | ImportPending string uuid string system_time
  | TakePending system_time string uuid

fun handle_step :: "'p handle_op \<Rightarrow> 'p tx_service \<Rightarrow> 'p tx_service" where
  "handle_step (ImportProposal pid w a sm e p) s = import_proposal_for_execution pid w a sm e p s"
| "handle_step (ValidateProposal now pid w) s = snd (validate_proposal_for_wallet now pid w s)"
| "handle_step (CancelSend pid) s = snd (cancel_send pid s)"
| "handle_step (TakeForExecution now pid w) s = snd (take_proposal_for_execution now pid w s)"
| "handle_step (TakeProposal pid) s = snd (take_proposal pid s)"
| "handle_step (ClearProposals w) s = clear_proposals_for_wallet w s"
| "handle_step (ImportPending rid w z e) s = import_pending_signing_request_for_execution rid w z e s"
| "handle_step (TakePending now rid w) s = snd (take_pending_signing_request_for_execution now rid w s)"

fun takes_proposal :: "string \<Rightarrow> 'p handle_op \<Rightarrow> 'p tx_service \<Rightarrow> bool" where
  "takes_proposal k (TakeForExecution now pid w) s = (pid = k \<and> is_ok (fst (take_proposal_for_execution now pid w s)))"
| "takes_proposal k (TakeProposal pid) s = (pid = k \<and> fst (take_proposal pid s) \<noteq> None)"
| "takes_proposal k _ s = False"

fun imports_proposal :: "string \<Rightarrow> 'p handle_op \<Rightarrow> 'p tx_service \<Rightarrow> bool" where
  "imports_proposal k (ImportProposal pid _ _ _ _ _) s = (pid = k)"
| "imports_proposal k _ s = False"

definition proposal_live :: "'p tx_service \<Rightarrow> string \<Rightarrow> bool" where
  "proposal_live s k = (tx_proposals s k \<noteq> None)"

fun takes_pending :: "string \<Rightarrow> 'p handle_op \<Rightarrow> 'p tx_service \<Rightarrow> bool" where
  "takes_pending k (TakePending now rid w) s =
     (rid = k \<and> is_ok (fst (take_pending_signing_request_for_execution now rid w s)))"
| "takes_pending k _ s = False"

fun imports_pending :: "string \<Rightarrow> 'p handle_op \<Rightarrow> 'p tx_service \<Rightarrow> bool" where
  "imports_pending k (ImportPending rid _ _ _) s = (rid = k)"
| "imports_pending k _ s = False"

definition pending_live :: "'p tx_service \<Rightarrow> string \<Rightarrow> bool" where
  "pending_live s k = (tx_pending_signing s k \<noteq> None)"

lemmas handle_defs = proposal_live_def pending_live_def import_proposal_for_execution_def
  validate_proposal_for_wallet_def cancel_send_def take_proposal_for_execution_def take_proposal_def
  clear_proposals_for_wallet_def import_pending_signing_request_for_execution_def
  take_pending_signing_request_for_execution_def drop_proposal_def drop_pending_def

interpretation proposals: one_shot handle_step takes_proposal imports_proposal proposal_live
proof
  fix k op and s :: "'a tx_service"
  show "takes_proposal k op s \<Longrightarrow> proposal_live s k"
    by (cases op) (auto simp: handle_defs split: option.splits)
  show "takes_proposal k op s \<Longrightarrow> \<not> proposal_live (handle_step op s) k"
    by (cases op) (auto simp: handle_defs split: option.splits)
  show "\<not> proposal_live s k \<Longrightarrow> \<not> imports_proposal k op s \<Longrightarrow> \<not> proposal_live (handle_step op s) k"
    by (cases op) (auto simp: handle_defs split: option.splits)
  show "takes_proposal k op s \<Longrightarrow> \<not> imports_proposal k op s"
    by (cases op) auto
qed

interpretation signing: one_shot handle_step takes_pending imports_pending pending_live
proof
  fix k op and s :: "'a tx_service"
  show "takes_pending k op s \<Longrightarrow> pending_live s k"
    by (cases op) (auto simp: handle_defs split: option.splits)
  show "takes_pending k op s \<Longrightarrow> \<not> pending_live (handle_step op s) k"
    by (cases op) (auto simp: handle_defs split: option.splits)
  show "\<not> pending_live s k \<Longrightarrow> \<not> imports_pending k op s \<Longrightarrow> \<not> pending_live (handle_step op s) k"
    by (cases op) (auto simp: handle_defs split: option.splits)
  show "takes_pending k op s \<Longrightarrow> \<not> imports_pending k op s"
    by (cases op) auto
qed

section \<open>Lemmas on the checks\<close>

lemma ensure_backup_ok: "ensure_backup_complete db wid = Inr () \<longleftrightarrow> get_backup_required db wid = Some False"
  by (auto simp: ensure_backup_complete_def split: option.splits)

lemma ensure_spend_allowed_ok:
  "ensure_spend_allowed db wid aid = Inr () \<longleftrightarrow>
     get_backup_required db wid = Some False
   \<and> (\<exists>row. find (\<lambda>r. a_wallet_id r = wid \<and> a_account_id r = aid) (db_accounts db) = Some row
        \<and> a_account_type row \<noteq> ''HardwareSigner'' \<and> a_account_type row \<noteq> ''WatchOnly'')"
  by (auto simp: ensure_spend_allowed_def bind_result_ok ensure_backup_ok)

lemma parse_zatoshis_ok: "parse_zatoshis mm v = Inr n \<longleftrightarrow> trim v \<noteq> [] \<and> parse_u64 (trim v) = Some n \<and> n \<le> mm"
  by (auto simp: parse_zatoshis_def Let_def bind_result_ok)

lemma enforce_privacy_ok:
  "enforce_privacy_and_memo_rules kind memo allow = Inr () \<longleftrightarrow>
     (kind = RkTransparent \<longrightarrow> memo = None \<and> allow) \<and> (\<forall>m. memo = Some m \<longrightarrow> length m \<le> 512)"
  by (auto simp: enforce_privacy_and_memo_rules_def split: option.splits if_splits)

lemma check_send_request_ok:
  assumes "check_send_request env r = Inr c"
  shows "0 < cr_amount c" "cr_amount c \<le> se_max_money env" "parse_u64 (trim (sr_amount_zat r)) = Some (cr_amount c)"
    "cr_kind c = RkTransparent \<longrightarrow> sr_memo r = None \<and> sr_allow_transparent_recipient r"
    "\<forall>m. sr_memo r = Some m \<longrightarrow> length m \<le> 512"
    "\<not> transparent_shortfall (cr_spendable c) (cr_transparent c) (cr_amount c)"
    "parse_recipient (se_decode_address env) (sr_network r) (sr_recipient r) = Inr (cr_address c, cr_kind c)"
  using assms
  by (auto simp: check_send_request_def bind_result_ok parse_zatoshis_ok enforce_privacy_ok split: prod.splits)

lemma proposal_total_fee_le: "proposal_total_fee mm p = Inr f \<Longrightarrow> f \<le> mm"
  by (auto simp: proposal_total_fee_def Let_def split: if_splits)

lemma propose_send_ok:
  assumes "propose_send env db r = Inr (c, p, fee)"
  shows "ensure_spend_allowed db (sr_wallet_id r) (sr_account_id r) = Inr ()" "check_send_request env r = Inr c"
    "se_propose env (cr_account_uuid c) (cr_address c) (cr_amount c) (sr_memo r) = Inr p"
    "\<not> uses_transparent_inputs p" "fee \<le> se_max_money env"
  using assms by (auto simp: propose_send_def bind_result_ok proposal_total_fee_le)

lemma prepare_send_ok:
  assumes "prepare_send env db new_id now r s = (Inr resp, s')"
  obtains c p fee ms where "propose_send env db r = Inr (c, p, fee)" "to_unix_ms (now + PROPOSAL_TTL) = Inr ms"
    "resp = \<lparr>psr_proposal_id = new_id, psr_fee = show_nat fee, psr_summary = send_summary r c fee, psr_expires_at = ms\<rparr>"
    "s' = import_proposal_for_execution new_id (sr_wallet_id r) (sr_account_id r) (send_summary r c fee)
             (now + PROPOSAL_TTL) p s"
  using assms by (auto simp: prepare_send_def bind_result_ok split: sum.splits)

section \<open>Broadcast lemmas\<close>

lemma delete_queued_other:
  "k \<noteq> t \<Longrightarrow> map_of (qd_bins (delete_queued_broadcast io t d)) k = map_of (qd_bins d) k"
  "k \<noteq> t \<Longrightarrow> map_of (qd_metas (delete_queued_broadcast io t d)) k = map_of (qd_metas d) k"
  by (simp_all add: delete_queued_broadcast_def)

lemma delete_queued_wf: "queue_dir_wf d \<Longrightarrow> queue_dir_wf (delete_queued_broadcast io t d)"
  by (simp add: queue_dir_wf_def delete_queued_broadcast_def remove_meta_def remove_bin_def distinct_delete)

lemma queue_broadcast_other:
  assumes "queue_broadcast enc io nonce j now w dek t tx le lc r d = (Inr (), d')" and "k \<noteq> t"
  shows "map_of (qd_bins d') k = map_of (qd_bins d) k" "map_of (qd_metas d') k = map_of (qd_metas d) k"
proof -
  obtain c meta where "d' = d\<lparr>qd_exists := True, qd_bins := AList.update t (nonce @ c) (qd_bins d),
            qd_metas := AList.update t (MetaOk meta) (qd_metas d)\<rparr>"
    using queue_broadcast_ok[OF assms(1)] by metis
  then show "map_of (qd_bins d') k = map_of (qd_bins d) k" "map_of (qd_metas d') k = map_of (qd_metas d) k"
    using assms(2) by (simp_all add: update_conv')
qed

text \<open>A queue entry of a transaction that a scan at \<open>now\<close> keeps and that decrypts to the bytes.\<close>

definition holds_tx :: "aead_decrypt \<Rightarrow> system_time \<Rightarrow> uuid \<Rightarrow> dek \<Rightarrow> string \<Rightarrow> bytes \<Rightarrow> queue_dir \<Rightarrow> bool" where
  "holds_tx dec now wid dek txid tx d \<longleftrightarrow>
     decrypt_queued_tx_bytes dec wid dek txid d = Inr tx
   \<and> (\<exists>m. map_of (qd_metas d) txid = Some (MetaOk m) \<and> \<not> retention_expired now m)"

lemma confirm_build_ok:
  assumes "confirm_build open_db build now wid pid s = (Inr txids, s2)"
  obtains r db where "tx_proposals s pid = Some r" "p_wallet_id r = wid" "now \<le> p_expires_at r" "open_db = Inr db"
    "ensure_spend_allowed db wid (p_account_id r) = Inr ()" "\<not> uses_transparent_inputs (p_proposal r)"
    "build (p_proposal r) = Inr txids" "s2 = drop_proposal pid s"
proof -
  obtain a s1 where v: "validate_proposal_for_wallet now pid wid s = (Inr a, s1)"
    using assms by (auto simp: confirm_build_def split: sum.splits prod.splits)
  obtain r where r: "tx_proposals s pid = Some r" "p_wallet_id r = wid" "now \<le> p_expires_at r" "s1 = s"
    using v by (auto simp: validate_proposal_for_wallet_def split: option.splits if_splits)
  obtain db where db: "open_db = Inr db" using assms v by (auto simp: confirm_build_def split: sum.splits)
  show thesis
    using assms v r db by (intro that[of r db]) (auto simp: confirm_build_def bind_result_ok)
qed

lemma confirm_send_ok:
  assumes "confirm_send ne open_db build load now wid dek url pid (d, s) = (Inr ev, d', s')"
  obtains txids s2 errs d1 where "confirm_build open_db build now wid pid s = (Inr txids, s2)"
    "broadcast_all ne 0 now wid dek url load txids Map.empty d = (Inr errs, d1)"
    "scan_queued_broadcasts (ne_io ne (length txids)) now wid (d1, s2) = (Inr (), d', s')"
    "ev = initial_status (hd txids) (queued_meta_of wid (hd txids) s') (errs (hd txids))"
proof -
  obtain txids s2 where b: "confirm_build open_db build now wid pid s = (Inr txids, s2)"
    using assms by (auto simp: confirm_send_def split: sum.splits prod.splits)
  obtain errs d1 where a: "broadcast_all ne 0 now wid dek url load txids Map.empty d = (Inr errs, d1)"
    using assms b by (auto simp: confirm_send_def split: sum.splits prod.splits)
  show thesis
    using assms a b by (intro that[OF b a]) (auto simp: confirm_send_def split: sum.splits prod.splits unit.splits)
qed

lemma holds_tx_cong:
  "map_of (qd_bins d') t = map_of (qd_bins d) t \<Longrightarrow> map_of (qd_metas d') t = map_of (qd_metas d) t \<Longrightarrow>
     holds_tx dec now w dek t tx d' = holds_tx dec now w dek t tx d"
  by (simp add: holds_tx_def decrypt_queued_tx_bytes_def)

lemma queue_broadcast_holds:
  assumes "aead_roundtrip enc dec" "length nonce = 24"
    and q: "queue_broadcast enc io nonce j now w dek t tx le lc r d = (Inr (), d')"
  shows "holds_tx dec now w dek t tx d'"
proof -
  obtain c ms meta where k: "enc dek nonce (queued_tx_aad w t) tx = Some c" "to_unix_ms now = Inr ms"
    "d' = d\<lparr>qd_exists := True, qd_bins := AList.update t (nonce @ c) (qd_bins d),
            qd_metas := AList.update t (MetaOk meta) (qd_metas d)\<rparr>" "qm_created_at_ms meta = ms"
    using queue_broadcast_ok[OF q] by metis
  have "now \<le> now + QUEUED_BROADCAST_RETENTION - millis 1"
    by (simp add: QUEUED_BROADCAST_RETENTION_def secs_def millis_def)
  then have "\<not> retention_expired now meta" using fresh_not_expired[of now meta now] k(2,4) by simp
  then show ?thesis
    using assms(1,2) k by (simp add: holds_tx_def decrypt_queued_tx_bytes_def update_conv' aead_roundtrip_def)
qed

lemma broadcast_or_queue_ok:
  assumes "broadcast_or_queue ne n now w dek url t tx d = (Inr err, d')"
    and "aead_roundtrip (ne_encrypt ne) (ne_decrypt ne)" "length (ne_nonce ne n) = 24"
  shows "send_transaction_bytes ne n url tx = Inr () \<and> err = None
       \<or> err \<noteq> None \<and> holds_tx (ne_decrypt ne) now w dek t tx d'"
    and "k \<noteq> t \<Longrightarrow> map_of (qd_bins d') k = map_of (qd_bins d) k"
    and "k \<noteq> t \<Longrightarrow> map_of (qd_metas d') k = map_of (qd_metas d) k"
    and "queue_dir_wf d \<Longrightarrow> queue_dir_wf d'"
proof -
  consider "send_transaction_bytes ne n url tx = Inr ()" "err = None" "d' = delete_queued_broadcast (ne_io ne n) t d"
    | m c r where "err = Some m" "queue_broadcast (ne_encrypt ne) (ne_io ne n) (ne_nonce ne n) (ne_jitter ne n) now w dek
         t tx (Some m) (Some c) r d = (Inr (), d')"
    using assms(1) by (auto simp: broadcast_or_queue_def Let_def bind_result_ok split: sum.splits prod.splits unit.splits)
  note cs = this
  show "send_transaction_bytes ne n url tx = Inr () \<and> err = None
       \<or> err \<noteq> None \<and> holds_tx (ne_decrypt ne) now w dek t tx d'"
    by (cases rule: cs) (auto intro: queue_broadcast_holds[OF assms(2,3)])
  show "k \<noteq> t \<Longrightarrow> map_of (qd_bins d') k = map_of (qd_bins d) k"
    by (cases rule: cs) (auto simp: delete_queued_other dest: queue_broadcast_other)
  show "k \<noteq> t \<Longrightarrow> map_of (qd_metas d') k = map_of (qd_metas d) k"
    by (cases rule: cs) (auto simp: delete_queued_other dest: queue_broadcast_other)
  show "queue_dir_wf d \<Longrightarrow> queue_dir_wf d'"
    by (cases rule: cs) (simp add: delete_queued_wf, metis queue_broadcast_wf snd_conv)
qed

lemma broadcast_all_ok:
  assumes "broadcast_all ne n now w dek url load txids errs0 d = (Inr errs, d')"
    and "aead_roundtrip (ne_encrypt ne) (ne_decrypt ne)" "\<And>n. length (ne_nonce ne n) = 24"
    and "distinct txids" "queue_dir_wf d"
  shows "queue_dir_wf d'
     \<and> (\<forall>k. k \<notin> set txids \<longrightarrow> map_of (qd_bins d') k = map_of (qd_bins d) k
           \<and> map_of (qd_metas d') k = map_of (qd_metas d) k)
     \<and> (\<forall>t \<in> set txids. \<exists>tx. load_tx_bytes load t = Inr tx
           \<and> ((\<exists>m. send_transaction_bytes ne m url tx = Inr ()) \<or> holds_tx (ne_decrypt ne) now w dek t tx d'))"
  using assms(1,4,5)
proof (induction txids arbitrary: n errs0 d)
  case (Cons t txids)
  obtain tx err d1 errs1 where tx: "load_tx_bytes load t = Inr tx"
    and b: "broadcast_or_queue ne n now w dek url t tx d = (Inr err, d1)"
    and rest: "broadcast_all ne (Suc n) now w dek url load txids errs1 d1 = (Inr errs, d')"
    using Cons.prems(1) by (auto split: sum.splits prod.splits option.splits)
  note bo = broadcast_or_queue_ok[OF b assms(2,3)]
  have wf1: "queue_dir_wf d1" using bo(4) Cons.prems(3) by blast
  have nt: "t \<notin> set txids" "distinct txids" using Cons.prems(2) by auto
  note IH = Cons.IH[OF rest nt(2) wf1]
  have same: "holds_tx (ne_decrypt ne) now w dek t tx d' = holds_tx (ne_decrypt ne) now w dek t tx d1"
    using IH nt(1) by (intro holds_tx_cong) auto
  have "(\<exists>m. send_transaction_bytes ne m url tx = Inr ()) \<or> holds_tx (ne_decrypt ne) now w dek t tx d'"
    using bo(1) same by blast
  then show ?case
    using IH bo(2,3) tx by auto
qed simp

lemma scan_keeps_holds:
  assumes "scan_queued_broadcasts io now w (d, s) = (Inr (), d', s')" and "queue_dir_wf d" and "t \<noteq> []"
    and "holds_tx dec now w dek t tx d"
  shows "holds_tx dec now w dek t tx d'"
proof (cases "qd_exists d")
  case False
  then have "d' = d" using assms(1) by (simp add: scan_queued_broadcasts_def)
  then show ?thesis using assms(4) by simp
next
  case True
  then obtain es where sc: "scan_queue_dir io now d = Inr (d', es)"
    using assms(1) by (auto simp: scan_queued_broadcasts_def split: sum.splits)
  obtain ms where ms: "to_unix_ms now = Inr ms" using sc by (auto simp: scan_queue_dir_def bind_result_ok)
  obtain m where m: "map_of (qd_metas d) t = Some (MetaOk m)" "\<not> retention_expired now m"
    using assms(4) by (auto simp: holds_tx_def)
  have "map_of (qd_bins d) t \<noteq> None"
    using assms(4) by (auto simp: holds_tx_def decrypt_queued_tx_bytes_def split: option.splits)
  then have l: "scan_loads now ms d t \<noteq> None" using m assms(3) by (simp add: scan_loads_def)
  have dist: "distinct (map fst (qd_metas d))" using assms(2) by (simp add: queue_dir_wf_def)
  show ?thesis
    using scan_queue_dir_loads(2)[OF sc dist ms l] assms(4) holds_tx_cong by blast
qed

section \<open>Properties\<close>



text \<open>C2: What a prepared send guarantees.  If \<open>prepare_send\<close> succeeds, the wallet's backup is complete
  and the account is not watch-only, the amount is the parsed one, positive and within the money
  range, a transparent recipient was acknowledged and has no memo, memos are at most 512 bytes, the
  proposal spends no transparent inputs, the summary shown to the user adds up, and the
  proposal is stored for that wallet and account for ten minutes.  If the checks fail nothing is
  stored.\<close>

theorem prepare_send_guards:
  assumes "prepare_send env db new_id now r s = (res, s')"
  shows "(\<forall>resp. res = Inr resp \<longrightarrow>
      get_backup_required db (sr_wallet_id r) = Some False
    \<and> (\<exists>a. get_account db (sr_wallet_id r) (sr_account_id r) = Some a \<and> ai_account_type a = SoftwareAccount)
    \<and> (\<exists>amount fee kind p. parse_u64 (trim (sr_amount_zat r)) = Some amount \<and> 0 < amount \<and> amount \<le> se_max_money env
        \<and> fee \<le> se_max_money env
        \<and> psr_summary resp = \<lparr>sm_recipient = sr_recipient r, sm_recipient_kind = kind, sm_amount = show_nat amount,
             sm_fee = show_nat fee, sm_memo_present = (sr_memo r \<noteq> None), sm_total_spend = show_nat (amount + fee)\<rparr>
        \<and> (kind = RkTransparent \<longrightarrow> sr_memo r = None \<and> sr_allow_transparent_recipient r)
        \<and> (\<forall>m. sr_memo r = Some m \<longrightarrow> length m \<le> 512)
        \<and> \<not> uses_transparent_inputs p
        \<and> tx_proposals s' (psr_proposal_id resp) = Some \<lparr>p_wallet_id = sr_wallet_id r, p_account_id = sr_account_id r,
             p_expires_at = now + secs 600, p_proposal = p, p_summary = psr_summary resp\<rparr>))
    \<and> (\<forall>e. propose_send env db r = Inl e \<longrightarrow> res = Inl e \<and> s' = s)"
proof (intro conjI allI impI)
  fix resp
  assume "res = Inr resp"
  then obtain c p fee ms where ps: "propose_send env db r = Inr (c, p, fee)"
    and resp: "resp = \<lparr>psr_proposal_id = new_id, psr_fee = show_nat fee, psr_summary = send_summary r c fee, psr_expires_at = ms\<rparr>"
    and s': "s' = import_proposal_for_execution new_id (sr_wallet_id r) (sr_account_id r) (send_summary r c fee)
             (now + PROPOSAL_TTL) p s"
    using prepare_send_ok assms by metis
  note ok = propose_send_ok[OF ps]
  note chk = check_send_request_ok[OF ok(2)]
  show "get_backup_required db (sr_wallet_id r) = Some False"
    using ok(1) by (simp add: ensure_spend_allowed_ok)
  show "\<exists>a. get_account db (sr_wallet_id r) (sr_account_id r) = Some a \<and> ai_account_type a = SoftwareAccount"
    using ok(1) by (auto simp: ensure_spend_allowed_ok get_account_def account_of_row_def parse_account_type_def)
  show "\<exists>amount fee kind p. parse_u64 (trim (sr_amount_zat r)) = Some amount \<and> 0 < amount \<and> amount \<le> se_max_money env
        \<and> fee \<le> se_max_money env
        \<and> psr_summary resp = \<lparr>sm_recipient = sr_recipient r, sm_recipient_kind = kind, sm_amount = show_nat amount,
             sm_fee = show_nat fee, sm_memo_present = (sr_memo r \<noteq> None), sm_total_spend = show_nat (amount + fee)\<rparr>
        \<and> (kind = RkTransparent \<longrightarrow> sr_memo r = None \<and> sr_allow_transparent_recipient r)
        \<and> (\<forall>m. sr_memo r = Some m \<longrightarrow> length m \<le> 512)
        \<and> \<not> uses_transparent_inputs p
        \<and> tx_proposals s' (psr_proposal_id resp) = Some \<lparr>p_wallet_id = sr_wallet_id r, p_account_id = sr_account_id r,
             p_expires_at = now + secs 600, p_proposal = p, p_summary = psr_summary resp\<rparr>"
    using chk(1-5) ok(4,5)
    by (intro exI[of _ "cr_amount c"] exI[of _ fee] exI[of _ "cr_kind c"] exI[of _ p])
      (simp add: resp s' send_summary_def import_proposal_for_execution_def PROPOSAL_TTL_def)
next
  fix e
  assume "propose_send env db r = Inl e"
  then show "res = Inl e" "s' = s" using assms by (simp_all add: prepare_send_def)
qed

definition demo_spend_db :: app_db where
  "demo_spend_db = demo_db\<lparr>db_wallets := [\<lparr>w_id = ''w'', w_name = ''n'', w_directory_path = ''d'',
       w_wallet_type = ''Software'', w_network = ''Mainnet'', w_remember_unlock_enabled = 0, w_created_at = 0,
       w_last_opened_at = None\<rparr>],
     db_accounts := [\<lparr>a_wallet_id = ''w'', a_account_id = 0, a_name = ''a'', a_account_type = ''Software'', a_created_at = 0\<rparr>],
     db_backup_status := [\<lparr>b_wallet_id = ''w'', b_backup_required = 0, b_backup_completed_at = Some 1,
       b_verification_method = None\<rparr>]\<rparr>"

definition demo_proposal :: "unit proposal" where
  "demo_proposal = \<lparr>pr_steps = [\<lparr>st_transparent_inputs = 0, st_fee_required = 10000\<rparr>], pr_data = ()\<rparr>"

definition demo_send_env :: "unit send_env" where
  "demo_send_env = \<lparr>se_max_money = 2100000000000000, se_decode_address = (\<lambda>_ _. Inr (Unified True False False)),
     se_balance = (\<lambda>_. Inr \<lparr>bal_shielded_spendable = ''900000'', bal_shielded_pending = ''0'', bal_transparent_total = ''0'',
       bal_total = ''900000''\<rparr>),
     se_accounts = Inr [Inr (Some \<lparr>wa_uuid = ''u'', wa_key_source = None, wa_derivation_index = Some 0\<rparr>)],
     se_propose = (\<lambda>_ _ _ _. Inr demo_proposal)\<rparr>"

definition demo_request :: send_request where
  "demo_request = \<lparr>sr_wallet_id = ''w'', sr_network = Mainnet, sr_account_id = 0, sr_recipient = ''u1'',
     sr_amount_zat = ''5000'', sr_memo = None, sr_allow_transparent_recipient = False\<rparr>"

lemma demo_request_fields: "sr_wallet_id demo_request = ''w''" "sr_account_id demo_request = 0"
  by (simp_all add: demo_request_def)

lemmas demo_send_simps = demo_send_env_def resolve_wallet_account_uuid_def demo_spend_db_def demo_db_def demo_request_def demo_proposal_def

lemma demo_propose: "propose_send demo_send_env demo_spend_db demo_request =
    Inr (\<lparr>cr_amount = 5000, cr_address = Unified True False False, cr_kind = RkOrchard, cr_spendable = 900000,
       cr_transparent = 0, cr_account_uuid = ''u''\<rparr>, demo_proposal, 10000)"
  by (simp add: demo_send_simps propose_send_def ensure_spend_allowed_def ensure_backup_complete_def
      get_backup_required_def check_send_request_def parse_zatoshis_def parse_u64_def parse_uint_def
      trim_def trim_start_def trim_end_def is_ws_def is_digit_def digit_val_def u64_max_def guard_or_def
      parse_recipient_def enforce_privacy_and_memo_rules_def parse_balance_field_def transparent_shortfall_def
      uses_transparent_inputs_def proposal_total_fee_def sat_add_u64_def)

lemma demo_prepare_ok: "\<exists>resp. fst (prepare_send demo_send_env demo_spend_db ''p'' 7 demo_request tx_service_new) = Inr resp"
  by (simp add: prepare_send_def demo_propose to_unix_ms_def PROPOSAL_TTL_def secs_def i64_max_def)

theorem prepare_send_guards_witness:
  "is_ok (fst (prepare_send demo_send_env demo_spend_db ''p'' 7 demo_request tx_service_new))
   \<and> get_backup_required demo_spend_db ''w'' = Some False"
proof -
  obtain res s' where p: "prepare_send demo_send_env demo_spend_db ''p'' 7 demo_request tx_service_new = (res, s')"
    by fastforce
  have ok: "is_ok (fst (prepare_send demo_send_env demo_spend_db ''p'' 7 demo_request tx_service_new))"
    by (simp add: demo_prepare_ok is_ok_iff)
  then obtain resp where "res = Inr resp" using p by (auto simp: is_ok_iff)
  then show ?thesis using prepare_send_guards[OF p] ok by (simp add: demo_request_def)
qed

text \<open>C1: Confirming a send loses no transaction.  If \<open>confirm_send\<close> returns a transaction, the
  proposal belonged to the wallet, had not expired and is gone from the service, and each transaction that
  was created was accepted by the server, or reported as already relayed, or is held in the wallet's queue
  directory, where it survives the scan and decrypts to the bytes that were signed.\<close>

theorem confirm_send_loses_no_transaction:
  assumes "aead_roundtrip (ne_encrypt ne) (ne_decrypt ne)" and "\<forall>n. length (ne_nonce ne n) = 24"
    and "queue_dir_wf d" and "\<forall>p txids. build p = Inr txids \<longrightarrow> distinct txids \<and> [] \<notin> set txids"
    and "confirm_send ne open_db build load now wid dek url pid (d, s) = (Inr ev, d', s')"
  shows "\<exists>r txids. tx_proposals s pid = Some r \<and> p_wallet_id r = wid \<and> now \<le> p_expires_at r
     \<and> tx_proposals s' pid = None \<and> build (p_proposal r) = Inr txids
     \<and> (\<forall>t \<in> set txids. \<exists>tx. load t = Inr (Some (Inr tx))
          \<and> ((\<exists>n. send_transaction_bytes ne n url tx = Inr ()) \<or> holds_tx (ne_decrypt ne) now wid dek t tx d'))"
proof -
  obtain txids s2 errs d1 where cb: "confirm_build open_db build now wid pid s = (Inr txids, s2)"
    and ba: "broadcast_all ne 0 now wid dek url load txids Map.empty d = (Inr errs, d1)"
    and sc: "scan_queued_broadcasts (ne_io ne (length txids)) now wid (d1, s2) = (Inr (), d', s')"
    using confirm_send_ok[OF assms(5)] .
  obtain r where r: "tx_proposals s pid = Some r" "p_wallet_id r = wid" "now \<le> p_expires_at r"
    and b: "build (p_proposal r) = Inr txids" and s2: "s2 = drop_proposal pid s"
    using confirm_build_ok[OF cb] .
  have dt: "distinct txids" "[] \<notin> set txids" using assms(4) b by auto
  note all = broadcast_all_ok[OF ba assms(1) assms(2)[rule_format] dt(1) assms(3)]
  have gone: "tx_proposals s' pid = None"
    using sc by (auto simp: s2 scan_queued_broadcasts_def drop_proposal_def split: if_splits sum.splits)
  have "\<exists>tx. load t = Inr (Some (Inr tx)) \<and> ((\<exists>n. send_transaction_bytes ne n url tx = Inr ())
      \<or> holds_tx (ne_decrypt ne) now wid dek t tx d')" if t: "t \<in> set txids" for t
  proof -
    obtain tx where tx: "load_tx_bytes load t = Inr tx"
      "(\<exists>m. send_transaction_bytes ne m url tx = Inr ()) \<or> holds_tx (ne_decrypt ne) now wid dek t tx d1"
      using all t by blast
    have "load t = Inr (Some (Inr tx))" using tx(1) by (auto simp: load_tx_bytes_def bind_result_ok)
    moreover have "t \<noteq> []" using t dt(2) by blast
    ultimately show ?thesis using tx(2) scan_keeps_holds[OF sc] all by blast
  qed
  then show ?thesis using r gone b by (intro exI[of _ r] exI[of _ txids]) auto
qed

definition demo_net :: net_env where
  "demo_net = \<lparr>ne_send = (\<lambda>_ _ _. Some (1, Inl (msg_err ''connection refused''))), ne_probe = (\<lambda>_ _. True),
     ne_encrypt = demo_cipher, ne_decrypt = demo_decipher, ne_nonce = (\<lambda>_. replicate 24 0), ne_jitter = (\<lambda>_. 0),
     ne_io = (\<lambda>_. demo_io)\<rparr>"

definition demo_service :: "unit tx_service" where
  "demo_service = snd (prepare_send demo_send_env demo_spend_db ''p'' 7 demo_request tx_service_new)"

definition demo_build :: "unit proposal \<Rightarrow> (string, string list) result" where
  "demo_build p = Inr [''t1'', ''t2'']"

lemma demo_confirm_build:
  "confirm_build (Inr demo_spend_db) demo_build 9 ''w'' ''p'' demo_service = (Inr [''t1'', ''t2''], drop_proposal ''p'' demo_service)"
proof -
  have p: "tx_proposals demo_service ''p'' = Some \<lparr>p_wallet_id = ''w'', p_account_id = 0, p_expires_at = 7 + PROPOSAL_TTL,
      p_proposal = demo_proposal, p_summary = send_summary demo_request \<lparr>cr_amount = 5000, cr_address = Unified True False False,
       cr_kind = RkOrchard, cr_spendable = 900000, cr_transparent = 0, cr_account_uuid = ''u''\<rparr> 10000\<rparr>"
    by (simp add: demo_service_def prepare_send_def demo_propose import_proposal_for_execution_def demo_request_fields)
  have "ensure_spend_allowed demo_spend_db ''w'' 0 = Inr ()"
    by (simp add: demo_send_simps ensure_spend_allowed_def ensure_backup_complete_def get_backup_required_def guard_or_def)
  then show ?thesis
    using p by (simp add: confirm_build_def validate_proposal_for_wallet_def demo_build_def uses_transparent_inputs_def
        demo_proposal_def guard_or_def PROPOSAL_TTL_def secs_def)
qed

lemma demo_classify: "classify_broadcast_error_message ''connection refused'' = TransientTransport"
  "\<not> is_effective_success_broadcast_error ''connection refused''"
  by code_simp+

lemma demo_one_broadcast: "\<exists>d'. broadcast_or_queue demo_net n 9 ''w'' [3] ''https://a'' t [1, 2] d = (Inr (Some ''connection refused''), d')"
  by (simp add: broadcast_or_queue_def demo_net_def send_transaction_bytes_def send_with_timeout_def send_with_timeout_for_def
      SEND_TRANSACTION_TIMEOUT_SECS_def msg_err_def demo_classify queue_broadcast_def demo_io_def demo_cipher_def
      to_unix_ms_def i64_max_def write_queued_broadcast_meta_def Let_def split: prod.splits)

lemma demo_broadcast: "\<exists>errs d'. broadcast_all demo_net 0 9 ''w'' [3] ''https://a'' (\<lambda>_. Inr (Some (Inr [1, 2]))) [''t1'', ''t2''] Map.empty demo_dir
    = (Inr errs, d')"
proof -
  obtain d1 where d1: "broadcast_or_queue demo_net 0 9 ''w'' [3] ''https://a'' ''t1'' [1, 2] demo_dir = (Inr (Some ''connection refused''), d1)"
    using demo_one_broadcast by blast
  obtain d2 where d2: "broadcast_or_queue demo_net (Suc 0) 9 ''w'' [3] ''https://a'' ''t2'' [1, 2] d1 = (Inr (Some ''connection refused''), d2)"
    using demo_one_broadcast by blast
  show ?thesis by (simp add: load_tx_bytes_def d1 d2)
qed

lemma demo_scan: "\<exists>d' s'. scan_queued_broadcasts demo_io 9 ''w'' (d, s) = (Inr (), d', s')"
  by (auto simp: scan_queued_broadcasts_def scan_queue_dir_def demo_io_def to_unix_ms_def i64_max_def guard_or_def
      split: prod.splits)

theorem confirm_send_loses_no_transaction_witness:
  "\<exists>ev d' s'. confirm_send demo_net (Inr demo_spend_db) demo_build (\<lambda>_. Inr (Some (Inr [1, 2]))) 9 ''w'' [3] ''https://a'' ''p''
       (demo_dir, demo_service) = (Inr ev, d', s') \<and> tx_proposals s' ''p'' = None"
proof -
  let ?c = "confirm_send demo_net (Inr demo_spend_db) demo_build (\<lambda>_. Inr (Some (Inr [1, 2]))) 9 ''w'' [3] ''https://a'' ''p''
       (demo_dir, demo_service)"
  obtain errs d1 where b: "broadcast_all demo_net 0 9 ''w'' [3] ''https://a'' (\<lambda>_. Inr (Some (Inr [1, 2]))) [''t1'', ''t2''] Map.empty demo_dir
    = (Inr errs, d1)" using demo_broadcast by blast
  obtain d2 s2 where sc: "scan_queued_broadcasts demo_io 9 ''w'' (d1, drop_proposal ''p'' demo_service) = (Inr (), d2, s2)"
    using demo_scan by blast
  have io: "ne_io demo_net n = demo_io" for n by (simp add: demo_net_def)
  obtain ev d' s' where c: "?c = (Inr ev, d', s')"
    by (simp add: confirm_send_def demo_confirm_build b io sc del: broadcast_all.simps)
  have rt: "aead_roundtrip (ne_encrypt demo_net) (ne_decrypt demo_net)"
    by (auto simp: demo_net_def aead_roundtrip_def demo_cipher_def demo_decipher_def comp_def)
  have n: "\<forall>n. length (ne_nonce demo_net n) = 24" by (simp add: demo_net_def)
  have wf: "queue_dir_wf demo_dir" by (simp add: queue_dir_wf_def demo_dir_def)
  have bd: "\<forall>p txids. demo_build p = Inr txids \<longrightarrow> distinct txids \<and> [] \<notin> set txids" by (auto simp: demo_build_def)
  show ?thesis using confirm_send_loses_no_transaction[OF rt n wf bd c] c by blast
qed

end
