(* ===== verification/Tx_Retry.thy ===== *)
theory Tx_Retry
  imports Tx_Service
begin

text \<open>
  Retries of queued broadcasts: \<open>try_failover_server\<close>, \<open>probe_server_for_failover\<close> and
  \<open>retry_broadcast\<close> of \<open>crates/zbag-engine/src/tx_service.rs\<close>.  The retry loop is a recursive function;
  it ends because it goes round again only while the attempt counter is below the budget of the
  error class.
\<close>

section \<open>Model\<close>

record failover_event =
  fo_network :: network
  fo_from_server_id :: uuid
  fo_from_grpc_url :: string
  fo_to_server_id :: uuid
  fo_to_grpc_url :: string
  fo_reason :: string

definition probe_server_for_failover :: "net_env \<Rightarrow> nat \<Rightarrow> string \<Rightarrow> bool" where
  "probe_server_for_failover ne n grpc_url = ne_probe ne n grpc_url"

fun failover_candidates :: "net_env \<Rightarrow> nat \<Rightarrow> system_time \<Rightarrow> network \<Rightarrow> string \<Rightarrow> server_info \<Rightarrow> server_info list
    \<Rightarrow> app_db \<Rightarrow> (engine_error, (string \<times> failover_event) option) result \<times> app_db" where
  "failover_candidates ne n now network reason from [] db = (Inr None, db)"
| "failover_candidates ne n now network reason from (c # cs) db =
     (if \<not> probe_server_for_failover ne n (si_grpc_url c)
      then failover_candidates ne n now network reason from cs db
      else case set_default_server (si_id c) db of
             Inl _ \<Rightarrow> (Inl (with_context ''failed to switch default server during failover'' (msg_err ''sql error'')), db)
           | Inr db' \<Rightarrow>
               (case to_unix_ms now of
                  Inl e \<Rightarrow> (Inl e, db')
                | Inr now_ms \<Rightarrow>
                    (Inr (Some (si_grpc_url c, \<lparr>fo_network = network, fo_from_server_id = si_id from,
                       fo_from_grpc_url = si_grpc_url from, fo_to_server_id = si_id c, fo_to_grpc_url = si_grpc_url c,
                       fo_reason = reason\<rparr>)), update_last_success_at (si_id c) now_ms db')))"

definition try_failover_server :: "(string \<Rightarrow> bool) \<Rightarrow> net_env \<Rightarrow> nat \<Rightarrow> system_time \<Rightarrow> network \<Rightarrow> string \<Rightarrow> string
    \<Rightarrow> app_db \<Rightarrow> (engine_error, (string \<times> failover_event) option) result \<times> app_db" where
  "try_failover_server valid_url ne n now network current_grpc_url reason db =
     (let network_servers = filter (\<lambda>sv. si_network sv = network \<and> valid_url (si_grpc_url sv)) (list_servers db) in
      if length network_servers < 2 then (Inr None, db)
      else case (case find (\<lambda>sv. si_grpc_url sv = current_grpc_url) network_servers of
                   Some sv \<Rightarrow> Some sv | None \<Rightarrow> find si_is_default network_servers) of
             None \<Rightarrow> (Inr None, db)
           | Some from \<Rightarrow>
               failover_candidates ne n now network reason from (filter (\<lambda>sv. si_id sv \<noteq> si_id from) network_servers) db)"

record retry_env =
  re_net :: net_env
  re_valid_url :: "string \<Rightarrow> bool"
  re_now :: system_time
  re_network :: network

record retry_state =
  rs_dir :: queue_dir
  rs_db :: app_db
  rs_sends :: nat

text \<open>The outcome of the loop: sent, or failed with the last error recorded in the queue.\<close>

datatype retry_outcome = RetrySent | RetryFailed engine_error

definition failover_after_error :: "retry_env \<Rightarrow> nat \<Rightarrow> string \<Rightarrow> broadcast_error_class \<Rightarrow> nat \<Rightarrow> string \<Rightarrow> app_db
    \<Rightarrow> (engine_error, (string \<times> failover_event) option) result \<times> app_db" where
  "failover_after_error re n target err_class streak err_msg db =
     (if err_class = TransientTransport \<and> should_trigger_failover streak
      then try_failover_server (re_valid_url re) (re_net re) n (re_now re) (re_network re) target
             (''broadcast transport failure streak '' @ show_nat streak @ '': '' @ err_msg) db
      else (Inr None, db))"

function retry_loop :: "retry_env \<Rightarrow> string \<Rightarrow> bytes \<Rightarrow> string \<Rightarrow> nat \<Rightarrow> nat \<Rightarrow> retry_state
    \<Rightarrow> (engine_error, retry_outcome) result \<times> retry_state" where
  "retry_loop re txid tx_bytes target attempt_count streak st =
     (let n = rs_sends st; st1 = st\<lparr>rs_sends := Suc n\<rparr> in
      case send_transaction_bytes (re_net re) n target tx_bytes of
        Inr _ \<Rightarrow> (Inr RetrySent, st1\<lparr>rs_dir := delete_queued_broadcast (ne_io (re_net re) n) txid (rs_dir st)\<rparr>)
      | Inl err \<Rightarrow>
          let err_msg = error_chain_text err;
              err_class = classify_broadcast_error_message err_msg;
              attempt' = sat_add_u32 attempt_count 1;
              retryable = fst (apply_retry_policy (is_retryable_broadcast_error_class err_class) attempt' (Some err_class) None);
              streak' = (if err_class = TransientTransport then sat_add_u32 streak 1 else 0)
          in case failover_after_error re n target err_class streak' err_msg (rs_db st) of
               (Inl e, db') \<Rightarrow> (Inl e, st1\<lparr>rs_db := db'\<rparr>)
             | (Inr (Some (next_url, ev)), db') \<Rightarrow>
                 if retryable then retry_loop re txid tx_bytes next_url attempt' 0 (st1\<lparr>rs_db := db'\<rparr>)
                 else (case update_queued_broadcast_error (ne_io (re_net re) n) (ne_jitter (re_net re) n) (re_now re) txid
                              (Some err_msg) (Some err_class) retryable attempt' 0 (rs_dir st) of
                         (Inl e, d') \<Rightarrow> (Inl e, st1\<lparr>rs_db := db', rs_dir := d'\<rparr>)
                       | (Inr _, d') \<Rightarrow> (Inr (RetryFailed err), st1\<lparr>rs_db := db', rs_dir := d'\<rparr>))
             | (Inr None, db') \<Rightarrow>
                 (case update_queued_broadcast_error (ne_io (re_net re) n) (ne_jitter (re_net re) n) (re_now re) txid
                         (Some err_msg) (Some err_class) retryable attempt' streak' (rs_dir st) of
                    (Inl e, d') \<Rightarrow> (Inl e, st1\<lparr>rs_db := db', rs_dir := d'\<rparr>)
                  | (Inr _, d') \<Rightarrow> (Inr (RetryFailed err), st1\<lparr>rs_db := db', rs_dir := d'\<rparr>)))"
  by pat_completeness auto

lemma policy_below_budget:
  "fst (apply_retry_policy r n (Some c) t) \<Longrightarrow> n < MAX_TOTAL_BROADCAST_RETRY_ATTEMPTS"
  using apply_retry_policy_retryable[of r n "Some c" t] retry_budget_le[of c] by auto

lemma sat_add_u32_small:
  "sat_add_u32 n (Suc 0) < MAX_TOTAL_BROADCAST_RETRY_ATTEMPTS \<Longrightarrow>
     sat_add_u32 n (Suc 0) = Suc n \<and> Suc n < MAX_TOTAL_BROADCAST_RETRY_ATTEMPTS"
  by (auto simp: sat_add_u32_def u32_max_def MAX_TOTAL_BROADCAST_RETRY_ATTEMPTS_def)

termination retry_loop
  by (relation "measure (\<lambda>(re, txid, tx, target, a, sk, st). MAX_TOTAL_BROADCAST_RETRY_ATTEMPTS - a)")
    (auto dest!: policy_below_budget sat_add_u32_small)

declare retry_loop.simps [simp del]

text \<open>\<open>account_of_tx\<close> is the account the wallet database records for the transaction id, if any; the
  hexadecimal form of the id is checked first.\<close>

definition retry_broadcast :: "retry_env \<Rightarrow> (string \<Rightarrow> bool) \<Rightarrow> (string \<Rightarrow> int option) \<Rightarrow> uuid \<Rightarrow> dek \<Rightarrow> string \<Rightarrow> string
    \<Rightarrow> retry_state \<times> 'p tx_service \<Rightarrow> (engine_error, string) result \<times> retry_state \<times> 'p tx_service" where
  "retry_broadcast re is_hex account_of_tx wid wallet_dek grpc_url txid ss =
     (let (st, s) = ss in
      case scan_queued_broadcasts (ne_io (re_net re) 0) (re_now re) wid (rs_dir st, s) of
        (Inl e, d1, s1) \<Rightarrow> (Inl e, st\<lparr>rs_dir := d1\<rparr>, s1)
      | (Inr _, d1, s1) \<Rightarrow>
          let st1 = st\<lparr>rs_dir := d1\<rparr>;
              checked =
                bind_result (guard_or (is_hex txid) (ipc_err TRANSACTION_FAILED ''invalid txid hex'')) (\<lambda>_.
                bind_result (ok_or (account_of_tx txid) (ipc_err QUEUED_BROADCAST_NOT_FOUND ''queued broadcast not found'')) (\<lambda>aid.
                bind_result (ensure_spend_allowed (rs_db st) wid (as_u32 (nat (max 0 aid)))) (\<lambda>_.
                bind_result (ok_or (queued_meta_of wid txid s1)
                  (ipc_err QUEUED_BROADCAST_NOT_FOUND ''queued broadcast not found'')) (\<lambda>meta.
                bind_result (guard_or (qm_retryable meta)
                  (ipc_err TRANSACTION_FAILED ''broadcast failure is terminal and cannot be retried'')) (\<lambda>_.
                bind_result (decrypt_queued_tx_bytes (ne_decrypt (re_net re)) wid wallet_dek txid d1) (\<lambda>tx_bytes.
                Inr (meta, tx_bytes)))))))
          in case checked of
               Inl e \<Rightarrow> (Inl e, st1, s1)
             | Inr (meta, tx_bytes) \<Rightarrow>
                 (case retry_loop re txid tx_bytes grpc_url (qm_attempt_count meta) (qm_transport_failure_streak meta) st1 of
                    (Inl e, st2) \<Rightarrow> (Inl e, st2, s1)
                  | (Inr out, st2) \<Rightarrow>
                      (case scan_queued_broadcasts (ne_io (re_net re) (rs_sends st2)) (re_now re) wid (rs_dir st2, s1) of
                         (Inl e, d3, s2) \<Rightarrow> (Inl e, st2\<lparr>rs_dir := d3\<rparr>, s2)
                       | (Inr _, d3, s2) \<Rightarrow>
                           ((case out of RetrySent \<Rightarrow> Inr txid | RetryFailed err \<Rightarrow> Inl err), st2\<lparr>rs_dir := d3\<rparr>, s2))))"

section \<open>Lemmas\<close>

lemma update_queued_ok:
  assumes "update_queued_broadcast_error io j now txid le lc r a sk d = (Inr u, d')"
  obtains m where "map_of (qd_metas d') txid = Some (MetaOk m)" "meta_wf m" "qm_attempt_count m = a"
    "qm_last_error m = le" "qm_last_error_class m = lc" "qd_bins d' = qd_bins d"
    "qm_retryable m = fst (apply_retry_policy r a lc None)"
proof -
  obtain now_ms where ms: "to_unix_ms now = Inr now_ms"
    using assms by (auto simp: update_queued_broadcast_error_def split: sum.splits)
  define ex where "ex = (case map_of (qd_metas d) txid of
                            Some (MetaOk m) \<Rightarrow> (qm_created_at_ms m, qm_terminal_reason m)
                          | _ \<Rightarrow> (now_ms, None))"
  obtain eff reason where p: "apply_retry_policy r a lc (snd ex) = (eff, reason)" by fastforce
  have eff: "eff = fst (apply_retry_policy r a lc None)"
    using apply_retry_policy_retryable[of r a lc "snd ex"] apply_retry_policy_retryable[of r a lc None] p by simp
  define m where "m = \<lparr>qm_created_at_ms = fst ex, qm_attempt_count = a,
                qm_next_attempt_at_ms = (if eff then Some (schedule_next_attempt_at_ms j now_ms a) else None),
                qm_last_attempt_at_ms = Some now_ms, qm_transport_failure_streak = sk, qm_retryable = eff,
                qm_last_error_class = lc, qm_terminal_reason = reason, qm_last_error = le\<rparr>"
  have w: "write_queued_broadcast_meta io txid m d = Inr d'"
    using assms ms p
    by (simp add: update_queued_broadcast_error_def ex_def[symmetric] m_def[symmetric] Let_def split: sum.splits)
  have "meta_wf m"
    using apply_retry_policy_no_reason[of r a lc "snd ex"] apply_retry_policy_retryable[of r a lc "snd ex"]
      apply_retry_policy_terminal[of r a "snd ex"] p by (auto simp: m_def meta_wf_def)
  moreover have "d' = d\<lparr>qd_metas := AList.update txid (MetaOk m) (qd_metas d)\<rparr>"
    using w by (simp add: write_queued_broadcast_meta_def split: if_splits)
  ultimately show thesis by (intro that[of m]) (simp_all add: update_conv' m_def eff)
qed

definition retry_recorded :: "string \<Rightarrow> nat \<Rightarrow> engine_error \<Rightarrow> queue_dir \<Rightarrow> queue_dir \<Rightarrow> bool" where
  "retry_recorded txid attempts err d d' \<longleftrightarrow>
     (\<exists>m. map_of (qd_metas d') txid = Some (MetaOk m) \<and> meta_wf m \<and> qm_attempt_count m = attempts
        \<and> qm_last_error m = Some (error_chain_text err)
        \<and> qm_last_error_class m = Some (classify_broadcast_error_message (error_chain_text err)))
   \<and> qd_bins d' = qd_bins d"

definition retry_spec :: "retry_env \<Rightarrow> string \<Rightarrow> nat \<Rightarrow> retry_state \<Rightarrow> (engine_error, retry_outcome) result \<Rightarrow> retry_state \<Rightarrow> bool" where
  "retry_spec re txid a st r st' \<longleftrightarrow>
     rs_sends st < rs_sends st'
   \<and> rs_sends st' \<le> rs_sends st + max 1 (MAX_TOTAL_BROADCAST_RETRY_ATTEMPTS - a)
   \<and> (r = Inr RetrySent \<longrightarrow> (\<exists>n. rs_dir st' = delete_queued_broadcast (ne_io (re_net re) n) txid (rs_dir st)))
   \<and> (\<forall>err. r = Inr (RetryFailed err) \<longrightarrow>
        retry_recorded txid (a + (rs_sends st' - rs_sends st)) err (rs_dir st) (rs_dir st'))"

lemma retry_spec_continue:
  assumes "Suc a < MAX_TOTAL_BROADCAST_RETRY_ATTEMPTS" and "rs_sends st1 = Suc (rs_sends st)" and "rs_dir st1 = rs_dir st"
    and "retry_spec re txid (Suc a) st1 r st'"
  shows "retry_spec re txid a st r st'"
proof -
  have lt: "rs_sends st1 < rs_sends st'" using assms(4) by (simp add: retry_spec_def)
  have eq: "Suc a + (rs_sends st' - rs_sends st1) = a + (rs_sends st' - rs_sends st)"
    using lt assms(2) by linarith
  have "rs_sends st' \<le> rs_sends st + max 1 (MAX_TOTAL_BROADCAST_RETRY_ATTEMPTS - a)"
    using assms(1,2,4) unfolding retry_spec_def by linarith
  then show ?thesis
    using assms(3,4) lt assms(2) unfolding retry_spec_def eq by simp
qed

lemma retry_spec_failed:
  assumes "update_queued_broadcast_error io j now txid (Some (error_chain_text err))
       (Some (classify_broadcast_error_message (error_chain_text err))) retry (sat_add_u32 a (Suc 0)) sk (rs_dir st) = (Inr u, d')"
    and "a < u32_max" and "rs_sends st' = Suc (rs_sends st)" and "rs_dir st' = d'"
  shows "retry_spec re txid a st (Inr (RetryFailed err)) st'"
proof -
  have "sat_add_u32 a (Suc 0) = Suc a" using assms(2) by (simp add: sat_add_u32_def)
  then show ?thesis
    using update_queued_ok[OF assms(1)] assms(3,4)
    unfolding retry_spec_def retry_recorded_def by auto
qed

lemma retry_spec_error:
  "rs_sends st' = Suc (rs_sends st) \<Longrightarrow> retry_spec re txid a st (Inl e) st'"
  by (simp add: retry_spec_def)

lemma retry_loop_spec:
  "retry_loop re txid tx target a sk st = (r, st') \<Longrightarrow> a < u32_max \<Longrightarrow> retry_spec re txid a st r st'"
proof (induction re txid tx target a sk st arbitrary: r st' rule: retry_loop.induct)
  case (1 re txid tx target a sk st)
  let ?n = "rs_sends st"
  show ?case
  proof (cases "send_transaction_bytes (re_net re) ?n target tx")
    case (Inr u)
    then show ?thesis
      using "1.prems" by (auto simp: retry_loop.simps[of re txid tx target a sk st] retry_spec_def Let_def)
  next
    case (Inl err)
    let ?msg = "error_chain_text err"
    let ?cls = "classify_broadcast_error_message ?msg"
    let ?a' = "sat_add_u32 a 1"
    let ?ret = "fst (apply_retry_policy (is_retryable_broadcast_error_class ?cls) ?a' (Some ?cls) None)"
    let ?sk = "if ?cls = TransientTransport then sat_add_u32 sk 1 else 0"
    obtain fo db' where fo: "failover_after_error re ?n target ?cls ?sk ?msg (rs_db st) = (fo, db')" by fastforce
    note unfold = retry_loop.simps[of re txid tx target a sk st] Inl fo Let_def
    show ?thesis
    proof (cases fo)
      case (Inl e)
      then show ?thesis using "1.prems" \<open>send_transaction_bytes _ _ _ _ = Inl err\<close>
        by (auto simp: unfold intro: retry_spec_error)
    next
      case fo': (Inr o1)
      show ?thesis
      proof (cases "o1 = None \<or> \<not> ?ret")
        case True
        then show ?thesis
          using "1.prems" fo'
          by (auto simp: unfold intro: retry_spec_error retry_spec_failed
              split: prod.splits sum.splits option.splits if_splits)
      next
        case False
        then obtain url ev where o1: "o1 = Some (url, ev)" and ret: ?ret by auto
        have a': "?a' = Suc a" "Suc a < MAX_TOTAL_BROADCAST_RETRY_ATTEMPTS"
          using sat_add_u32_small[of a] policy_below_budget[OF ret] by auto
        let ?st1 = "st\<lparr>rs_sends := Suc ?n, rs_db := db'\<rparr>"
        have step: "retry_loop re txid tx url ?a' 0 ?st1 = (r, st')"
          using "1.prems"(1) o1 ret fo' by (simp add: unfold)
        have lt: "?a' < u32_max" using a' by (simp add: MAX_TOTAL_BROADCAST_RETRY_ATTEMPTS_def u32_max_def)
        have "retry_spec re txid ?a' ?st1 r st'"
          using "1.IH"[OF refl refl Inl refl refl refl refl refl _ _ _ _ ret] step lt fo fo' o1 by simp
        then show ?thesis
          using retry_spec_continue[of a ?st1 st re txid r st'] a' by simp
      qed
    qed
  qed
qed

lemma failover_candidates_wf:
  "servers_wf (db_servers db) \<Longrightarrow> servers_wf (db_servers (snd (failover_candidates ne n now net reason from cs db)))"
proof (induction cs)
  case (Cons c cs)
  then show ?case
    by (auto split: sum.splits intro: set_default_server_wf update_last_success_at_wf)
qed simp

lemma failover_candidates_target:
  "failover_candidates ne n now net reason from cs db = (Inr (Some (url, ev)), db') \<Longrightarrow>
     \<exists>c \<in> set cs. si_grpc_url c = url \<and> ne_probe ne n url \<and> (\<exists>db1. set_default_server (si_id c) db = Inr db1)
       \<and> fo_to_server_id ev = si_id c \<and> fo_from_server_id ev = si_id from"
proof (induction cs)
  case (Cons c cs)
  then show ?case
    by (auto simp: probe_server_for_failover_def split: sum.splits if_splits)
qed simp

lemma try_failover_wf:
  "servers_wf (db_servers db) \<Longrightarrow> servers_wf (db_servers (snd (try_failover_server v ne n now net cur reason db)))"
  by (simp add: try_failover_server_def Let_def failover_candidates_wf split: option.splits)

lemma try_failover_target:
  assumes "try_failover_server v ne n now net cur reason db = (Inr (Some (url, ev)), db')"
  shows "\<exists>sv \<in> set (list_servers db). si_grpc_url sv = url \<and> si_network sv = net \<and> v url
     \<and> ne_probe ne n url \<and> fo_to_server_id ev = si_id sv \<and> fo_from_server_id ev \<noteq> si_id sv"
proof -
  let ?ns = "filter (\<lambda>sv. si_network sv = net \<and> v (si_grpc_url sv)) (list_servers db)"
  obtain frm where "failover_candidates ne n now net reason frm (filter (\<lambda>sv. si_id sv \<noteq> si_id frm) ?ns) db
      = (Inr (Some (url, ev)), db')"
    using assms by (auto simp: try_failover_server_def Let_def split: option.splits if_splits)
  from failover_candidates_target[OF this] show ?thesis by auto
qed

section \<open>Properties\<close>

text \<open>C4: A retry always ends and always makes progress.  From an attempt counter below the \<open>u32\<close>
  limit, the retry loop sends at least once and at most seven times less the attempts already made (once
  when the budget is already spent), whatever the network, the probes and the database do; when
  it reports success the entry's files are removed; when it reports a failure the queue
  metadata records exactly the attempts made and the last error, is well-formed (so an entry at its
  budget is terminal, and a retryable one is below it), and the encrypted transaction is kept.\<close>

theorem retry_loop_progress:
  assumes "retry_loop re txid tx target a sk st = (r, st')" and "a < u32_max"
  shows "rs_sends st < rs_sends st' \<and> rs_sends st' \<le> rs_sends st + max 1 (7 - a)
     \<and> (r = Inr RetrySent \<longrightarrow> (\<exists>n. rs_dir st' = delete_queued_broadcast (ne_io (re_net re) n) txid (rs_dir st)))
     \<and> (\<forall>err. r = Inr (RetryFailed err) \<longrightarrow>
          (\<exists>m. map_of (qd_metas (rs_dir st')) txid = Some (MetaOk m) \<and> meta_wf m
             \<and> qm_attempt_count m = a + (rs_sends st' - rs_sends st)
             \<and> qm_last_error m = Some (error_chain_text err))
        \<and> qd_bins (rs_dir st') = qd_bins (rs_dir st))"
  using retry_loop_spec[OF assms]
  unfolding retry_spec_def retry_recorded_def MAX_TOTAL_BROADCAST_RETRY_ATTEMPTS_def by blast

definition demo_retry_env :: retry_env where
  "demo_retry_env = \<lparr>re_net = demo_net, re_valid_url = (\<lambda>_. True), re_now = 5000000000, re_network = Mainnet\<rparr>"

definition demo_retry_state :: retry_state where
  "demo_retry_state = \<lparr>rs_dir = demo_dir, rs_db = demo_db, rs_sends = 0\<rparr>"

theorem retry_loop_progress_witness:
  "\<exists>r st'. retry_loop demo_retry_env ''aa'' [1] ''https://a'' 0 0 demo_retry_state = (r, st')
     \<and> 0 < rs_sends st' \<and> rs_sends st' \<le> 7"
proof -
  obtain r st' where l: "retry_loop demo_retry_env ''aa'' [1] ''https://a'' 0 0 demo_retry_state = (r, st')" by fastforce
  have "rs_sends demo_retry_state = 0" by (simp add: demo_retry_state_def)
  then show ?thesis using retry_loop_progress[OF l] l by (simp add: u32_max_def)
qed

text \<open>Failover stays on the wallet's network and keeps the server table sound.  A failover switches to
  a listed server of the same network whose URL validates and that answered the probe, other than the
  server it leaves; and the table keeps its unique ids and single default per network, also when the
  failover fails half-way.\<close>

theorem failover_sound:
  assumes "servers_wf (db_servers db)" and "try_failover_server v ne n now net cur reason db = (res, db')"
  shows "servers_wf (db_servers db')
     \<and> (\<forall>url ev. res = Inr (Some (url, ev)) \<longrightarrow>
          (\<exists>sv \<in> set (list_servers db). si_grpc_url sv = url \<and> si_network sv = net \<and> v url
             \<and> ne_probe ne n url \<and> fo_to_server_id ev = si_id sv \<and> fo_from_server_id ev \<noteq> si_id sv))"
  using try_failover_wf[OF assms(1), of v ne n now net cur reason] try_failover_target assms(2) by (metis snd_conv)

theorem failover_sound_witness:
  "\<exists>url ev db'. try_failover_server (\<lambda>_. True) demo_net 0 5 Mainnet ''https://a'' ''r'' demo_db = (Inr (Some (url, ev)), db')
     \<and> servers_wf (db_servers demo_db) \<and> servers_wf (db_servers db')"
proof -
  have wf: "servers_wf (db_servers demo_db)" by (simp add: demo_db_def servers_wf_def)
  define sv1 :: server_info where "sv1 = \<lparr>si_id = ''1'', si_name = ''a'', si_grpc_url = ''https://a'', si_network = Mainnet,
     si_is_default = True, si_last_success_at = None, si_validation_error = None\<rparr>"
  define sv2 :: server_info where "sv2 = \<lparr>si_id = ''2'', si_name = ''b'', si_grpc_url = ''https://b'', si_network = Mainnet,
     si_is_default = False, si_last_success_at = None, si_validation_error = None\<rparr>"
  have ls: "list_servers demo_db = [sv1, sv2]"
    by (simp add: list_servers_def demo_db_def server_of_row_def parse_network_def sv1_def sv2_def)
  have fields: "si_id sv1 = ''1''" "si_id sv2 = ''2''" "si_network sv1 = Mainnet" "si_network sv2 = Mainnet"
    "si_grpc_url sv1 = ''https://a''" "si_grpc_url sv2 = ''https://b''" by (simp_all add: sv1_def sv2_def)
  obtain db1 where sd: "set_default_server ''2'' demo_db = Inr db1" by (simp add: set_default_server_def demo_db_def Let_def)
  have pr: "probe_server_for_failover demo_net n u" for n u by (simp add: probe_server_for_failover_def demo_net_def)
  have ms: "to_unix_ms 5 = Inr 0" by (simp add: to_unix_ms_def i64_max_def)
  have "\<exists>url ev db'. try_failover_server (\<lambda>_. True) demo_net 0 5 Mainnet ''https://a'' ''r'' demo_db = (Inr (Some (url, ev)), db')"
    by (simp add: try_failover_server_def ls fields sd pr ms)
  then show ?thesis using failover_sound[OF wf] wf by metis
qed

end
