(* ===== verification/Tx_Shield.thy ===== *)
theory Tx_Shield
  imports Tx_Service "HOL-Library.Sublist"
begin

text \<open>
  Shielding of transparent funds, \<open>shield_funds\<close> of \<open>crates/zbag-engine/src/tx_service.rs\<close>.  The spendable
  transparent outputs are cut into batches of at most 200, from each batch the inputs the fee
  strategy calls dust are dropped until a balance is found, and each batch becomes one proposal whose
  transactions are broadcast or queued.  The dust loop asks a third-party fee strategy and could run for ever
  if that strategy called outputs dust it was not given; not returning is the value \<open>None\<close>.
\<close>

section \<open>Model\<close>

definition MAX_SHIELDING_INPUTS_PER_TX :: nat where "MAX_SHIELDING_INPUTS_PER_TX = 200"

record utxo =
  ux_outpoint :: string
  ux_value :: nat

text \<open>The outcome of \<open>compute_balance\<close>: the required fee, or the errors the loop tells apart.\<close>

datatype balance_outcome =
    BalanceOk nat
  | DustInputs "string list"
  | NotEnough nat nat
  | BalanceError string

text \<open>Rust's \<open>chunks\<close>.\<close>

fun chunks :: "nat \<Rightarrow> 'a list \<Rightarrow> 'a list list" where
  "chunks n xs = (if n = 0 \<or> xs = [] then [] else take n xs # chunks n (drop n xs))"

declare chunks.simps [simp del]

text \<open>The dust loop.  \<open>Inl\<close> holds the outcome that ends the whole operation; \<open>Inr None\<close> is a batch in which
  everything was dust.\<close>

partial_function (option) select_inputs :: "(utxo list \<Rightarrow> balance_outcome) \<Rightarrow> utxo list
    \<Rightarrow> (balance_outcome, (utxo list \<times> nat) option) result option" where
  "select_inputs compute_balance input_selection =
     (case compute_balance input_selection of
        BalanceOk fee \<Rightarrow> Some (Inr (Some (input_selection, fee)))
      | DustInputs exclusions \<Rightarrow>
          (let kept = filter (\<lambda>i. ux_outpoint i \<notin> set exclusions) input_selection in
           if kept = [] then Some (Inr None) else select_inputs compute_balance kept)
      | NotEnough available required \<Rightarrow> Some (Inl (NotEnough available required))
      | BalanceError e \<Rightarrow> Some (Inl (BalanceError e)))"

record 'q shield_env =
  sh_accounts :: wallet_accounts
  sh_receivers :: "uuid \<Rightarrow> (string, string list) result"
  sh_chain_height :: "(string, nat option) result"
  sh_outputs :: "string \<Rightarrow> nat \<Rightarrow> (string, utxo list) result"
  sh_wallet_meta :: "utxo list \<Rightarrow> (string, unit) result"
  sh_compute_balance :: "utxo list \<Rightarrow> balance_outcome"
  sh_single_step :: "utxo list \<Rightarrow> nat \<Rightarrow> (string, 'q) result"
  sh_create :: "'q \<Rightarrow> (string, string list) result"
  sh_load :: tx_loader

fun list_transparent_outputs :: "(string \<Rightarrow> nat \<Rightarrow> (string, utxo list) result) \<Rightarrow> nat \<Rightarrow> string list
    \<Rightarrow> (engine_error, utxo list) result" where
  "list_transparent_outputs outputs target [] = Inr []"
| "list_transparent_outputs outputs target (addr # addrs) =
     bind_result (map_err (\<lambda>e. with_context ''failed to list transparent outputs'' (msg_err e)) (outputs addr target)) (\<lambda>us.
     bind_result (list_transparent_outputs outputs target addrs) (\<lambda>rest. Inr (us @ rest)))"

definition shield_inputs :: "'q shield_env \<Rightarrow> (engine_error, app_db) result \<Rightarrow> uuid \<Rightarrow> nat \<Rightarrow> (engine_error, utxo list) result" where
  "shield_inputs env open_db wid aid =
     bind_result (map_err (with_context ''failed to open app db for shield policy checks'') open_db) (\<lambda>db.
     bind_result (ensure_spend_allowed db wid aid) (\<lambda>_.
     bind_result (map_err (with_context ''failed to resolve wallet account'')
       (resolve_wallet_account_uuid (sh_accounts env) aid)) (\<lambda>account.
     bind_result (map_err (\<lambda>e. with_context ''failed to list transparent receivers'' (msg_err e)) (sh_receivers env account)) (\<lambda>addrs.
     bind_result (map_err (\<lambda>e. with_context ''failed to read chain height'' (msg_err e)) (sh_chain_height env)) (\<lambda>h.
     bind_result (ok_or h (ipc_err TRANSACTION_FAILED ''must scan blocks first'')) (\<lambda>tip.
     bind_result (list_transparent_outputs (sh_outputs env) (tip + 1) addrs) (\<lambda>inputs.
     bind_result (guard_or (inputs \<noteq> []) (ipc_err INSUFFICIENT_FUNDS ''no transparent funds to shield'')) (\<lambda>_.
     Inr inputs))))))))"

fun balance_failure :: "balance_outcome \<Rightarrow> engine_error" where
  "balance_failure (BalanceError e) = ipc_err TRANSACTION_FAILED (''failed to compute shielding balance: '' @ e)"
| "balance_failure _ = ipc_err INSUFFICIENT_FUNDS ''insufficient transparent balance to cover shielding fee''"

text \<open>The proposal of a batch: \<open>Inr None\<close> skips the batch, otherwise the inputs, the fee and the transactions made.\<close>

definition shield_batch_txids :: "'q shield_env \<Rightarrow> utxo list
    \<Rightarrow> (engine_error, (utxo list \<times> nat \<times> string list) option) result option" where
  "shield_batch_txids env batch =
     (if batch = [] then Some (Inr None)
      else case sh_wallet_meta env batch of
        Inl e \<Rightarrow> Some (Inl (with_context ''failed to load wallet metadata for shielding'' (msg_err e)))
      | Inr _ \<Rightarrow>
          (case select_inputs (sh_compute_balance env) batch of
             None \<Rightarrow> None
           | Some (Inl b) \<Rightarrow> Some (Inl (balance_failure b))
           | Some (Inr None) \<Rightarrow> Some (Inr None)
           | Some (Inr (Some (inputs, fee))) \<Rightarrow> Some (
               bind_result (map_err (\<lambda>e. ipc_err TRANSACTION_FAILED (''invalid shielding proposal: '' @ e))
                 (sh_single_step env inputs fee)) (\<lambda>proposal.
               bind_result (map_err (\<lambda>e. ipc_err TRANSACTION_FAILED (''failed to build shielding tx: '' @ e))
                 (sh_create env proposal)) (\<lambda>txids. Inr (Some (inputs, fee, txids)))))))"

record shield_event =
  sv_event :: tx_event
  sv_value :: nat
  sv_fee :: nat

record 'p shield_state =
  ss_sends :: nat
  ss_primary :: "(string \<times> nat) option"
  ss_errors :: "string \<rightharpoonup> string"
  ss_events :: "shield_event list"
  ss_dir :: queue_dir
  ss_service :: "'p tx_service"

definition total_value :: "utxo list \<Rightarrow> nat" where
  "total_value inputs = fold (\<lambda>i acc. sat_add_u64 acc (ux_value i)) inputs 0"

text \<open>One transaction of a batch.\<close>

definition shield_tx :: "net_env \<Rightarrow> tx_loader \<Rightarrow> system_time \<Rightarrow> uuid \<Rightarrow> dek \<Rightarrow> string \<Rightarrow> utxo list \<Rightarrow> nat \<Rightarrow> string
    \<Rightarrow> 'p shield_state \<Rightarrow> (engine_error, unit) result \<times> 'p shield_state" where
  "shield_tx ne load now wid wallet_dek grpc_url inputs fee txid st =
     (case load_tx_bytes load txid of
        Inl e \<Rightarrow> (Inl e, st)
      | Inr tx_bytes \<Rightarrow>
          (case broadcast_or_queue ne (ss_sends st) now wid wallet_dek grpc_url txid tx_bytes (ss_dir st) of
             (Inl e, d') \<Rightarrow> (Inl e, st\<lparr>ss_dir := d', ss_sends := Suc (ss_sends st)\<rparr>)
           | (Inr err, d') \<Rightarrow>
               let st1 = st\<lparr>ss_dir := d', ss_sends := Suc (ss_sends st),
                            ss_errors := (case err of None \<Rightarrow> ss_errors st | Some m \<Rightarrow> (ss_errors st)(txid \<mapsto> m)),
                            ss_primary := (case ss_primary st of None \<Rightarrow> Some (txid, fee) | p \<Rightarrow> p)\<rparr>
               in (case scan_queued_broadcasts (ne_io ne (ss_sends st)) now wid (d', ss_service st) of
                     (Inl e, d'', s') \<Rightarrow> (Inl e, st1\<lparr>ss_dir := d'', ss_service := s'\<rparr>)
                   | (Inr _, d'', s') \<Rightarrow>
                       (Inr (), st1\<lparr>ss_dir := d'', ss_service := s', ss_events := ss_events st @
                          [\<lparr>sv_event = initial_status txid (queued_meta_of wid txid s') (ss_errors st1 txid),
                            sv_value = total_value inputs - fee, sv_fee = fee\<rparr>]\<rparr>))))"

fun shield_txs :: "net_env \<Rightarrow> tx_loader \<Rightarrow> system_time \<Rightarrow> uuid \<Rightarrow> dek \<Rightarrow> string \<Rightarrow> utxo list \<Rightarrow> nat \<Rightarrow> string list
    \<Rightarrow> 'p shield_state \<Rightarrow> (engine_error, unit) result \<times> 'p shield_state" where
  "shield_txs ne load now wid wallet_dek grpc_url inputs fee [] st = (Inr (), st)"
| "shield_txs ne load now wid wallet_dek grpc_url inputs fee (txid # txids) st =
     (case shield_tx ne load now wid wallet_dek grpc_url inputs fee txid st of
        (Inl e, st') \<Rightarrow> (Inl e, st')
      | (Inr _, st') \<Rightarrow> shield_txs ne load now wid wallet_dek grpc_url inputs fee txids st')"

fun shield_batches :: "'q shield_env \<Rightarrow> net_env \<Rightarrow> system_time \<Rightarrow> uuid \<Rightarrow> dek \<Rightarrow> string \<Rightarrow> utxo list list
    \<Rightarrow> 'p shield_state \<Rightarrow> ((engine_error, unit) result \<times> 'p shield_state) option" where
  "shield_batches env ne now wid wallet_dek grpc_url [] st = Some (Inr (), st)"
| "shield_batches env ne now wid wallet_dek grpc_url (batch # batches) st =
     (case shield_batch_txids env batch of
        None \<Rightarrow> None
      | Some (Inl e) \<Rightarrow> Some (Inl e, st)
      | Some (Inr None) \<Rightarrow> shield_batches env ne now wid wallet_dek grpc_url batches st
      | Some (Inr (Some (inputs, fee, txids))) \<Rightarrow>
          (case shield_txs ne (sh_load env) now wid wallet_dek grpc_url inputs fee txids st of
             (Inl e, st') \<Rightarrow> Some (Inl e, st')
           | (Inr _, st') \<Rightarrow> shield_batches env ne now wid wallet_dek grpc_url batches st'))"

definition shield_funds :: "'q shield_env \<Rightarrow> net_env \<Rightarrow> (engine_error, app_db) result \<Rightarrow> system_time \<Rightarrow> uuid \<Rightarrow> dek \<Rightarrow> string
    \<Rightarrow> nat \<Rightarrow> queue_dir \<times> 'p tx_service \<Rightarrow> ((engine_error, string \<times> string) result \<times> 'p shield_state) option" where
  "shield_funds env ne open_db now wid wallet_dek grpc_url aid ds =
     (let st0 = \<lparr>ss_sends = 0, ss_primary = None, ss_errors = Map.empty, ss_events = [], ss_dir = fst ds, ss_service = snd ds\<rparr>
      in case shield_inputs env open_db wid aid of
           Inl e \<Rightarrow> Some (Inl e, st0)
         | Inr inputs \<Rightarrow>
             (case shield_batches env ne now wid wallet_dek grpc_url (chunks MAX_SHIELDING_INPUTS_PER_TX inputs) st0 of
                None \<Rightarrow> None
              | Some (Inl e, st) \<Rightarrow> Some (Inl e, st)
              | Some (Inr _, st) \<Rightarrow>
                  Some (case ss_primary st of
                          None \<Rightarrow> Inl (ipc_err INSUFFICIENT_FUNDS ''no transparent funds to shield'')
                        | Some (txid, fee) \<Rightarrow> Inr (txid, show_nat fee), st)))"

section \<open>Batches and the dust loop\<close>

lemma chunks_none: "n = 0 \<or> xs = [] \<Longrightarrow> chunks n xs = []"
  by (subst chunks.simps) simp

lemma chunks_more: "0 < n \<Longrightarrow> xs \<noteq> [] \<Longrightarrow> chunks n xs = take n xs # chunks n (drop n xs)"
  by (subst chunks.simps) simp

lemma chunks_concat: "0 < n \<Longrightarrow> concat (chunks n xs) = xs"
proof (induction n xs rule: chunks.induct)
  case (1 n xs)
  then show ?case by (cases "xs = []") (simp add: chunks_none, subst chunks_more, simp_all)
qed

lemma chunks_sizes: "0 < n \<Longrightarrow> \<forall>b \<in> set (chunks n xs). b \<noteq> [] \<and> length b \<le> n"
proof (induction n xs rule: chunks.induct)
  case (1 n xs)
  then show ?case by (cases "xs = []") (simp add: chunks_none, subst chunks_more, simp_all)
qed

text \<open>What the loop relies on: the fee strategy calls dust only inputs it was given.\<close>

definition names_own_dust :: "(utxo list \<Rightarrow> balance_outcome) \<Rightarrow> bool" where
  "names_own_dust compute_balance \<longleftrightarrow>
     (\<forall>sel ex. compute_balance sel = DustInputs ex \<longrightarrow> (\<exists>i \<in> set sel. ux_outpoint i \<in> set ex))"

lemma select_inputs_returns:
  assumes "names_own_dust compute_balance"
  shows "\<exists>r. select_inputs compute_balance sel = Some r
     \<and> (\<forall>inputs fee. r = Inr (Some (inputs, fee)) \<longrightarrow>
          compute_balance inputs = BalanceOk fee \<and> subseq inputs sel \<and> (sel \<noteq> [] \<longrightarrow> inputs \<noteq> []))"
proof (induction "length sel" arbitrary: sel rule: less_induct)
  case less
  show ?case
  proof (cases "compute_balance sel")
    case (DustInputs ex)
    define kept where "kept = filter (\<lambda>i. ux_outpoint i \<notin> set ex) sel"
    obtain i where "i \<in> set sel" "ux_outpoint i \<in> set ex"
      using assms DustInputs unfolding names_own_dust_def by blast
    then have "length kept < length sel"
      unfolding kept_def by (intro length_filter_less[of i]) auto
    note IH = less[OF this]
    have sub: "subseq kept sel" by (simp add: kept_def)
    have "select_inputs compute_balance sel =
        (if kept = [] then Some (Inr None) else select_inputs compute_balance kept)"
      by (subst select_inputs.simps) (simp add: DustInputs kept_def Let_def)
    then show ?thesis using IH sub by (cases "kept = []") (auto dest: subseq_order.trans)
  qed (subst select_inputs.simps, simp)+
qed

section \<open>Every transaction is accounted for\<close>

lemma queue_broadcast_others:
  "k \<noteq> t \<Longrightarrow> map_of (qd_bins (snd (queue_broadcast enc io nonce j now w dek t tx le lc r d))) k = map_of (qd_bins d) k"
  "k \<noteq> t \<Longrightarrow> map_of (qd_metas (snd (queue_broadcast enc io nonce j now w dek t tx le lc r d))) k = map_of (qd_metas d) k"
  by (simp_all add: queue_broadcast_def write_queued_broadcast_meta_def Let_def update_conv'
      split: option.splits sum.splits prod.splits)

lemma broadcast_or_queue_others:
  assumes "broadcast_or_queue ne n now w dek url t tx d = (r, d')" and "k \<noteq> t"
  shows "holds_tx dec now w dek k x d' = holds_tx dec now w dek k x d"
proof (rule holds_tx_cong)
  consider "d' = delete_queued_broadcast (ne_io ne n) t d"
    | m c b where "d' = snd (queue_broadcast (ne_encrypt ne) (ne_io ne n) (ne_nonce ne n) (ne_jitter ne n) now w dek
         t tx m c b d)"
    using assms(1) by (auto simp: broadcast_or_queue_def Let_def split: sum.splits prod.splits) (metis snd_conv)
  note cs = this
  show "map_of (qd_bins d') k = map_of (qd_bins d) k"
    by (cases rule: cs) (simp_all add: delete_queued_other queue_broadcast_others assms(2))
  show "map_of (qd_metas d') k = map_of (qd_metas d) k"
    by (cases rule: cs) (simp_all add: delete_queued_other queue_broadcast_others assms(2))
qed

lemma broadcast_or_queue_wf:
  assumes "broadcast_or_queue ne n now w dek url t tx d = (r, d')" and "queue_dir_wf d"
  shows "queue_dir_wf d'"
  using assms by (auto simp: broadcast_or_queue_def Let_def delete_queued_wf split: sum.splits prod.splits)
    (metis queue_broadcast_wf snd_conv)

lemma scan_entry_wf: "queue_dir_wf (fst acc) \<Longrightarrow> queue_dir_wf (fst (scan_entry io now ms f acc))"
  by (auto simp: scan_entry_def queue_dir_wf_def Let_def remove_meta_def remove_bin_def distinct_delete
      split: prod.splits meta_file.splits)

lemma scan_wf:
  assumes "scan_queued_broadcasts io now w (d, s) = (r, d', s')" and "queue_dir_wf d"
  shows "queue_dir_wf d'"
proof -
  have "queue_dir_wf (fst (fold (scan_entry io now ms) fs acc))" if "queue_dir_wf (fst acc)" for ms fs acc
    using that by (induction fs arbitrary: acc) (simp_all add: scan_entry_wf)
  note this[of "(d, [])", simplified, OF assms(2)]
  then show ?thesis
    using assms by (auto simp: scan_queued_broadcasts_def scan_queue_dir_def bind_result_ok split: if_splits sum.splits)
      (metis fst_conv)
qed

definition event_txids :: "'p shield_state \<Rightarrow> string list" where
  "event_txids st = map (te_txid \<circ> sv_event) (ss_events st)"

definition tx_safe :: "net_env \<Rightarrow> tx_loader \<Rightarrow> system_time \<Rightarrow> uuid \<Rightarrow> dek \<Rightarrow> string \<Rightarrow> queue_dir \<Rightarrow> string \<Rightarrow> bool" where
  "tx_safe ne load now wid dek url d t \<longleftrightarrow>
     (\<exists>tx. load t = Inr (Some (Inr tx))
         \<and> ((\<exists>n. send_transaction_bytes ne n url tx = Inr ()) \<or> holds_tx (ne_decrypt ne) now wid dek t tx d))"

definition shield_inv :: "net_env \<Rightarrow> tx_loader \<Rightarrow> system_time \<Rightarrow> uuid \<Rightarrow> dek \<Rightarrow> string \<Rightarrow> 'p shield_state \<Rightarrow> bool" where
  "shield_inv ne load now wid dek url st \<longleftrightarrow>
     queue_dir_wf (ss_dir st) \<and> (\<forall>t \<in> set (event_txids st). t \<noteq> [] \<and> tx_safe ne load now wid dek url (ss_dir st) t)"

definition primary_ok :: "'p shield_state \<Rightarrow> bool" where
  "primary_ok st \<longleftrightarrow> map_option fst (ss_primary st) = (case event_txids st of [] \<Rightarrow> None | t # _ \<Rightarrow> Some t)"

lemma tx_safe_mono:
  "tx_safe ne load now w dek url d t \<Longrightarrow>
   (\<And>tx. holds_tx (ne_decrypt ne) now w dek t tx d \<Longrightarrow> holds_tx (ne_decrypt ne) now w dek t tx d') \<Longrightarrow>
   tx_safe ne load now w dek url d' t"
  unfolding tx_safe_def by blast

lemma scan_fails_same:
  "scan_queued_broadcasts io now w (d, s) = (Inl e, d', s') \<Longrightarrow> d' = d \<and> s' = s"
  by (auto simp: scan_queued_broadcasts_def split: if_splits sum.splits)

lemma initial_status_txid [simp]: "te_txid (initial_status t q e) = t"
  by (simp add: initial_status_def split: option.splits)

lemma shield_tx_step:
  assumes "shield_tx ne load now w dek url inputs fee t st = (r, st')"
    and "aead_roundtrip (ne_encrypt ne) (ne_decrypt ne)" and "\<forall>n. length (ne_nonce ne n) = 24"
    and "shield_inv ne load now w dek url st" and "t \<noteq> []" and "t \<notin> set (event_txids st)"
  shows "shield_inv ne load now w dek url st'
     \<and> event_txids st' = event_txids st @ (if r = Inr () then [t] else [])
     \<and> (r = Inr () \<and> primary_ok st \<longrightarrow> primary_ok st')"
proof (cases "load_tx_bytes load t")
  case (Inl e)
  then show ?thesis using assms by (auto simp: shield_tx_def)
next
  case (Inr tx)
  obtain q d1 where b: "broadcast_or_queue ne (ss_sends st) now w dek url t tx (ss_dir st) = (q, d1)" by fastforce
  have wf: "queue_dir_wf (ss_dir st)" and old: "\<forall>k \<in> set (event_txids st). k \<noteq> [] \<and> tx_safe ne load now w dek url (ss_dir st) k"
    using assms(4) by (auto simp: shield_inv_def)
  have wf1: "queue_dir_wf d1" by (rule broadcast_or_queue_wf[OF b wf])
  have old1: "tx_safe ne load now w dek url d1 k" if "k \<in> set (event_txids st)" for k
    using old that assms(6) broadcast_or_queue_others[OF b, of k] by (metis tx_safe_mono)
  show ?thesis
  proof (cases q)
    case (Inl e)
    then have "r = Inl e" "st' = st\<lparr>ss_dir := d1, ss_sends := Suc (ss_sends st)\<rparr>"
      using assms(1) Inr b by (simp_all add: shield_tx_def)
    then show ?thesis using wf1 old old1 by (simp add: shield_inv_def event_txids_def)
  next
    case (Inr err)
    note q = this
    have safe: "tx_safe ne load now w dek url d1 t"
      using broadcast_or_queue_ok(1)[OF b[unfolded q] assms(2) assms(3)[rule_format]] \<open>load_tx_bytes load t = Inr tx\<close>
      by (auto simp: tx_safe_def load_tx_bytes_def bind_result_ok)
    obtain sr d2 s2 where sc: "scan_queued_broadcasts (ne_io ne (ss_sends st)) now w (d1, ss_service st) = (sr, d2, s2)"
      by (metis prod_cases3)
    have wf2: "queue_dir_wf d2" by (rule scan_wf[OF sc wf1])
    have keep: "tx_safe ne load now w dek url d2 k" if "tx_safe ne load now w dek url d1 k" "k \<noteq> []" for k
    proof (cases sr)
      case (Inl e)
      then show ?thesis using that scan_fails_same sc by metis
    next
      case (Inr u)
      then show ?thesis using that sc scan_keeps_holds wf1 by (metis tx_safe_mono old.unit.exhaust)
    qed
    show ?thesis
      using assms(1,5) Inr q b sc \<open>load_tx_bytes load t = Inr tx\<close> wf2 old old1 safe keep
      by (cases sr) (auto simp: shield_tx_def shield_inv_def event_txids_def primary_ok_def Let_def
          split: option.splits list.splits)
  qed
qed

lemma shield_txs_step:
  assumes "shield_txs ne load now w dek url inputs fee ts st = (r, st')"
    and "aead_roundtrip (ne_encrypt ne) (ne_decrypt ne)" and "\<forall>n. length (ne_nonce ne n) = 24"
    and "shield_inv ne load now w dek url st" and "[] \<notin> set ts" and "distinct (event_txids st @ ts)"
  shows "shield_inv ne load now w dek url st'
     \<and> (\<exists>us. event_txids st' = event_txids st @ us \<and> prefix us ts \<and> (r = Inr () \<longrightarrow> us = ts))
     \<and> (r = Inr () \<and> primary_ok st \<longrightarrow> primary_ok st')"
  using assms(1,4,5,6)
proof (induction ts arbitrary: st)
  case (Cons t ts)
  obtain q st1 where q: "shield_tx ne load now w dek url inputs fee t st = (q, st1)" by fastforce
  note step = shield_tx_step[OF q assms(2,3) Cons.prems(2)]
  show ?case
  proof (cases q)
    case (Inl e)
    then show ?thesis using Cons.prems q step by auto
  next
    case (Inr u)
    then have rest: "shield_txs ne load now w dek url inputs fee ts st1 = (r, st')"
      and ev: "event_txids st1 = event_txids st @ [t]" and inv: "shield_inv ne load now w dek url st1"
      and p: "primary_ok st \<longrightarrow> primary_ok st1"
      using Cons.prems q step by auto
    have d: "distinct (event_txids st1 @ ts)" "[] \<notin> set ts" using Cons.prems ev by auto
    note IH = Cons.IH[OF rest inv d(2) d(1)]
    then obtain us where us: "event_txids st' = event_txids st1 @ us" "prefix us ts" "r = Inr () \<longrightarrow> us = ts" by blast
    show ?thesis
      using IH p us ev by (intro conjI exI[of _ "t # us"]) auto
  qed
qed simp

definition created_txids :: "'q shield_env \<Rightarrow> utxo list list \<Rightarrow> string list" where
  "created_txids env batches = concat (map (\<lambda>b. case shield_batch_txids env b of
     Some (Inr (Some (_, _, txids))) \<Rightarrow> txids | _ \<Rightarrow> []) batches)"

lemma shield_batch_returns: "names_own_dust (sh_compute_balance env) \<Longrightarrow> shield_batch_txids env b \<noteq> None"
  using select_inputs_returns[of "sh_compute_balance env" b]
  by (auto simp: shield_batch_txids_def split: sum.splits option.splits)

lemma shield_batches_step:
  assumes "names_own_dust (sh_compute_balance env)"
    and "aead_roundtrip (ne_encrypt ne) (ne_decrypt ne)" and "\<forall>n. length (ne_nonce ne n) = 24"
    and "shield_inv ne (sh_load env) now w dek url st" and "[] \<notin> set (created_txids env bs)"
    and "distinct (event_txids st @ created_txids env bs)"
  shows "\<exists>r st' us. shield_batches env ne now w dek url bs st = Some (r, st')
     \<and> shield_inv ne (sh_load env) now w dek url st'
     \<and> event_txids st' = event_txids st @ us \<and> prefix us (created_txids env bs) \<and> (r = Inr () \<longrightarrow> us = created_txids env bs)
     \<and> (r = Inr () \<and> primary_ok st \<longrightarrow> primary_ok st')"
  using assms(4-)
proof (induction bs arbitrary: st)
  case Nil
  then show ?case by (auto simp: created_txids_def)
next
  case (Cons b bs)
  obtain q where q: "shield_batch_txids env b = Some q" using shield_batch_returns[OF assms(1)] by blast
  consider e where "q = Inl e" | "q = Inr None" | i fee ts where "q = Inr (Some (i, fee, ts))"
    by (metis sum.exhaust option.exhaust prod_cases3)
  then show ?case
  proof cases
    case 1
    then show ?thesis using q Cons.prems by (intro exI[of _ "Inl e"] exI[of _ st] exI[of _ "[]"]) simp
  next
    case 2
    then have c: "created_txids env (b # bs) = created_txids env bs" using q by (simp add: created_txids_def)
    show ?thesis using Cons.IH[OF Cons.prems(1) Cons.prems(2,3)[unfolded c]] q 2 c by simp
  next
    case 3
    then have c: "created_txids env (b # bs) = ts @ created_txids env bs" using q by (simp add: created_txids_def)
    obtain r st1 where tx: "shield_txs ne (sh_load env) now w dek url i fee ts st = (r, st1)" by fastforce
    have d: "distinct (event_txids st @ ts)" "[] \<notin> set ts" using Cons.prems(2,3) c by auto
    obtain us where s: "shield_inv ne (sh_load env) now w dek url st1" "event_txids st1 = event_txids st @ us"
      "prefix us ts" "r = Inr () \<longrightarrow> us = ts" "r = Inr () \<and> primary_ok st \<longrightarrow> primary_ok st1"
      using shield_txs_step[OF tx assms(2,3) Cons.prems(1) d(2,1)] by blast
    show ?thesis
    proof (cases r)
      case (Inl e)
      then show ?thesis using q 3 tx s c by (intro exI[of _ r] exI[of _ st1] exI[of _ us]) (auto simp: prefix_def)
    next
      case (Inr u)
      have d1: "distinct (event_txids st1 @ created_txids env bs)" "[] \<notin> set (created_txids env bs)"
        using Cons.prems(2,3) c s(2,4) Inr by auto
      obtain r' st' us' where IH: "shield_batches env ne now w dek url bs st1 = Some (r', st')"
        "shield_inv ne (sh_load env) now w dek url st'" "event_txids st' = event_txids st1 @ us'"
        "prefix us' (created_txids env bs)" "r' = Inr () \<longrightarrow> us' = created_txids env bs"
        "r' = Inr () \<and> primary_ok st1 \<longrightarrow> primary_ok st'"
        using Cons.IH[OF s(1) d1(2,1)] by blast
      show ?thesis
        using q 3 tx s c Inr IH by (intro exI[of _ r'] exI[of _ st'] exI[of _ "us @ us'"]) auto
    qed
  qed
qed

section \<open>Properties\<close>

text \<open>Shielding batches are sound and the dust loop ends.  The batches are, in order, exactly the
  spendable transparent outputs, none empty and none larger than 200; when the fee strategy calls
  dust only inputs it was given, the loop returns on every batch, and what it selects is a non-empty
  part of the batch, in order, whose fee the strategy accepted.\<close>

theorem shielding_batches_sound:
  assumes "names_own_dust compute_balance"
  shows "concat (chunks MAX_SHIELDING_INPUTS_PER_TX inputs) = inputs
     \<and> (\<forall>b \<in> set (chunks MAX_SHIELDING_INPUTS_PER_TX inputs). b \<noteq> [] \<and> length b \<le> 200
          \<and> (\<exists>r. select_inputs compute_balance b = Some r
              \<and> (\<forall>sel fee. r = Inr (Some (sel, fee)) \<longrightarrow>
                   sel \<noteq> [] \<and> subseq sel b \<and> compute_balance sel = BalanceOk fee)))"
  using chunks_concat[of MAX_SHIELDING_INPUTS_PER_TX inputs] chunks_sizes[of MAX_SHIELDING_INPUTS_PER_TX inputs]
    select_inputs_returns[OF assms] by (auto simp: MAX_SHIELDING_INPUTS_PER_TX_def) metis

definition demo_balance :: "utxo list \<Rightarrow> balance_outcome" where
  "demo_balance sel = (case filter (\<lambda>i. ux_value i < 5000) sel of
     [] \<Rightarrow> BalanceOk 10000 | dust \<Rightarrow> DustInputs (map ux_outpoint dust))"

lemma filter_head: "filter P xs = y # ys \<Longrightarrow> y \<in> set xs"
  by (metis filter_is_subset list.set_intros(1) subset_code(1))

lemma demo_balance_dust: "names_own_dust demo_balance"
  by (auto simp: names_own_dust_def demo_balance_def split: list.splits dest: filter_head)

definition demo_utxos :: "utxo list" where
  "demo_utxos = [\<lparr>ux_outpoint = ''o1'', ux_value = 100\<rparr>, \<lparr>ux_outpoint = ''o2'', ux_value = 70000\<rparr>]"

lemma demo_chunks: "chunks MAX_SHIELDING_INPUTS_PER_TX demo_utxos = [demo_utxos]"
  by (subst chunks_more) (simp_all add: MAX_SHIELDING_INPUTS_PER_TX_def demo_utxos_def chunks_none)

lemma demo_select: "select_inputs demo_balance demo_utxos = Some (Inr (Some ([\<lparr>ux_outpoint = ''o2'', ux_value = 70000\<rparr>], 10000)))"
  by (subst select_inputs.simps, simp add: demo_balance_def demo_utxos_def, subst select_inputs.simps, simp add: demo_balance_def)

theorem shielding_batches_sound_witness:
  "concat (chunks MAX_SHIELDING_INPUTS_PER_TX demo_utxos) = demo_utxos
   \<and> subseq [\<lparr>ux_outpoint = ''o2'', ux_value = 70000\<rparr>] demo_utxos"
  using shielding_batches_sound[OF demo_balance_dust, of demo_utxos] by (auto simp: demo_chunks demo_select)

text \<open>C31: Shielding always ends and accounts for every transaction it announces.  When the fee
  strategy calls dust only inputs it was given and the created transactions have distinct ids, \<open>shield_funds\<close>
  returns; whatever the outcome, also when a later batch fails, each transaction
  announced so far was accepted by the server or is held, decryptable, in the queue; and on success
  all transactions of all batches were announced, in order, and the id returned is the first one.\<close>

theorem shield_funds_accounts:
  assumes "names_own_dust (sh_compute_balance env)"
    and "aead_roundtrip (ne_encrypt ne) (ne_decrypt ne)" and "\<forall>n. length (ne_nonce ne n) = 24" and "queue_dir_wf d"
    and "\<forall>inputs. shield_inputs env open_db w aid = Inr inputs \<longrightarrow>
           distinct (created_txids env (chunks MAX_SHIELDING_INPUTS_PER_TX inputs))
         \<and> [] \<notin> set (created_txids env (chunks MAX_SHIELDING_INPUTS_PER_TX inputs))"
  shows "\<exists>r st'. shield_funds env ne open_db now w dek url aid (d, s) = Some (r, st')
     \<and> (\<forall>t \<in> set (event_txids st'). tx_safe ne (sh_load env) now w dek url (ss_dir st') t)
     \<and> (\<forall>txid fee. r = Inr (txid, fee) \<longrightarrow>
          (\<exists>inputs ts. shield_inputs env open_db w aid = Inr inputs
             \<and> created_txids env (chunks MAX_SHIELDING_INPUTS_PER_TX inputs) = txid # ts \<and> event_txids st' = txid # ts))"
proof -
  define st0 where "st0 = \<lparr>ss_sends = 0, ss_primary = None, ss_errors = Map.empty, ss_events = [], ss_dir = d, ss_service = s\<rparr>"
  have st0: "event_txids st0 = []" "primary_ok st0" "shield_inv ne (sh_load env) now w dek url st0"
    using assms(4) by (simp_all add: st0_def event_txids_def primary_ok_def shield_inv_def)
  show ?thesis
  proof (cases "shield_inputs env open_db w aid")
    case (Inl e)
    then show ?thesis using st0(1) by (simp add: shield_funds_def Let_def st0_def)
  next
    case (Inr inputs)
    define bs where "bs = chunks MAX_SHIELDING_INPUTS_PER_TX inputs"
    have d: "[] \<notin> set (created_txids env bs)" "distinct (event_txids st0 @ created_txids env bs)"
      using assms(5) Inr st0(1) by (simp_all add: bs_def)
    obtain r st' us where b: "shield_batches env ne now w dek url bs st0 = Some (r, st')"
      "shield_inv ne (sh_load env) now w dek url st'" "event_txids st' = us" "r = Inr () \<longrightarrow> us = created_txids env bs"
      "r = Inr () \<longrightarrow> primary_ok st'"
      using shield_batches_step[OF assms(1-3) st0(3) d] st0(1,2) by auto
    have f: "shield_funds env ne open_db now w dek url aid (d, s) = Some
        (case r of Inl e \<Rightarrow> Inl e | Inr _ \<Rightarrow> (case ss_primary st' of
            None \<Rightarrow> Inl (ipc_err INSUFFICIENT_FUNDS ''no transparent funds to shield'')
          | Some (txid, fee) \<Rightarrow> Inr (txid, show_nat fee)), st')"
      using b(1) Inr by (cases r) (simp_all add: shield_funds_def Let_def st0_def bs_def)
    show ?thesis
      using f Inr b(2-5)
      by (cases r; cases us) (auto simp: shield_inv_def primary_ok_def bs_def split: option.splits list.splits)
  qed
qed

definition demo_shield_env :: "unit shield_env" where
  "demo_shield_env = \<lparr>sh_accounts = se_accounts demo_send_env, sh_receivers = (\<lambda>_. Inr [''addr'']), sh_chain_height = Inr (Some 900),
     sh_outputs = (\<lambda>_ _. Inr demo_utxos), sh_wallet_meta = (\<lambda>_. Inr ()), sh_compute_balance = demo_balance,
     sh_single_step = (\<lambda>_ _. Inr ()), sh_create = (\<lambda>_. Inr [''t1'']), sh_load = (\<lambda>_. Inr (Some (Inr [1, 2])))\<rparr>"

lemma demo_shield_inputs: "shield_inputs demo_shield_env (Inr demo_spend_db) ''w'' 0 = Inr demo_utxos"
  by (simp add: shield_inputs_def demo_shield_env_def demo_send_simps ensure_spend_allowed_def ensure_backup_complete_def
      get_backup_required_def guard_or_def demo_utxos_def)

lemma demo_created: "created_txids demo_shield_env [demo_utxos] = [''t1'']"
proof -
  have "demo_utxos \<noteq> []" by (simp add: demo_utxos_def)
  then show ?thesis by (simp add: created_txids_def shield_batch_txids_def demo_shield_env_def demo_select)
qed

theorem shield_funds_accounts_witness:
  "\<exists>r st'. shield_funds demo_shield_env demo_net (Inr demo_spend_db) 9 ''w'' [3] ''https://a'' 0 (demo_dir, demo_service) = Some (r, st')"
proof -
  have dust: "names_own_dust (sh_compute_balance demo_shield_env)" by (simp add: demo_shield_env_def demo_balance_dust)
  have rt: "aead_roundtrip (ne_encrypt demo_net) (ne_decrypt demo_net)"
    by (auto simp: demo_net_def aead_roundtrip_def demo_cipher_def demo_decipher_def comp_def)
  have n: "\<forall>n. length (ne_nonce demo_net n) = 24" by (simp add: demo_net_def)
  have wf: "queue_dir_wf demo_dir" by (simp add: queue_dir_wf_def demo_dir_def)
  have ids: "\<forall>inputs. shield_inputs demo_shield_env (Inr demo_spend_db) ''w'' 0 = Inr inputs \<longrightarrow>
      distinct (created_txids demo_shield_env (chunks MAX_SHIELDING_INPUTS_PER_TX inputs))
    \<and> [] \<notin> set (created_txids demo_shield_env (chunks MAX_SHIELDING_INPUTS_PER_TX inputs))"
    by (auto simp: demo_shield_inputs demo_chunks demo_created)
  show ?thesis using shield_funds_accounts[OF dust rt n wf ids] by blast
qed

end
