(* ===== verification/Job_Service.thy ===== *)
theory Job_Service
  imports Tx_Shield
begin

text \<open>
  Background jobs, \<open>crates/zbag-engine/src/job_service.rs\<close>: the tables of jobs and progress reports, cancellation,
  and the send and shield jobs as tasks that interleave with the callers.  A task is a program counter; each
  step is one access to the shared state (a lock of the tables, a read of the cancellation channel, a broadcast).
  The part of a job inside \<open>spawn_blocking\<close> goes on after the task is aborted; the asynchronous part ends
  at its next suspension point.
\<close>

section \<open>Tables\<close>

definition is_terminal :: "job_progress \<Rightarrow> bool" where
  "is_terminal p \<longleftrightarrow> jp_state p \<in> {JobCompleted, JobFailed, JobCancelled}"

record job_acc =
  ja_primary :: "string option"
  ja_error :: "string option"
  ja_can_retry :: bool

datatype job_result = JrErr string | JrPanic string | JrBuilt "string list" | JrShielded string "string option" bool

datatype 'q job_pc =
    PcStart | PcChecked | PcOpening | PcBlocking
  | PcSendProving | PcSendBuilding | PcSendBuilt "string list"
  | PcShieldInputs | PcShieldBatches "utxo list list" job_acc
  | PcShieldCreate 'q "utxo list list" job_acc | PcShieldBuild 'q "utxo list list" job_acc
  | PcShieldTxs "string list" "utxo list list" job_acc | PcShieldSend string bytes "string list" "utxo list list" job_acc
  | PcReturned job_result | PcResumed job_result
  | PcBroadcast "string list" string "string option" bool
  | PcDone

text \<open>A task with the channel and handle of its \<open>JobEntry\<close>; \<open>jk_stored\<close> says that the entry went into the table.\<close>

record 'q job_task =
  jk_type :: job_type
  jk_wallet :: uuid
  jk_pc :: "'q job_pc"
  jk_cancel :: bool
  jk_aborted :: bool
  jk_stored :: bool

record 'q job_world =
  jw_jobs :: "string \<rightharpoonup> uuid"
  jw_progress :: "string \<rightharpoonup> job_progress"
  jw_tasks :: "string \<rightharpoonup> 'q job_task"
  jw_dir :: queue_dir
  jw_sent :: "(string \<times> string) list"

definition job_service_new :: "queue_dir \<Rightarrow> 'q job_world" where
  "job_service_new d = \<lparr>jw_jobs = Map.empty, jw_progress = Map.empty, jw_tasks = Map.empty, jw_dir = d, jw_sent = []\<rparr>"

definition job_get_progress :: "string \<Rightarrow> 'q job_world \<Rightarrow> job_progress option" where
  "job_get_progress jid w = jw_progress w jid"

definition cancel_entry :: "string \<Rightarrow> 'q job_world \<Rightarrow> bool \<times> 'q job_world" where
  "cancel_entry jid w =
     (case jw_jobs w jid of
        None \<Rightarrow> (False, w)
      | Some _ \<Rightarrow>
          (True, w\<lparr>jw_jobs := (jw_jobs w)(jid := None),
                   jw_progress := (jw_progress w)(jid := map_option (\<lambda>p. job_cancelled jid (jp_job_type p)) (jw_progress w jid)),
                   jw_tasks := (jw_tasks w)(jid := map_option (\<lambda>t. t\<lparr>jk_cancel := True, jk_aborted := True\<rparr>) (jw_tasks w jid))\<rparr>))"

definition cancel_job :: "string \<Rightarrow> 'q job_world \<Rightarrow> bool \<times> 'q job_world" where
  "cancel_job jid w =
     (case jw_progress w jid of
        Some p \<Rightarrow> if is_terminal p then (True, w) else if \<not> jp_can_cancel p then (False, w) else cancel_entry jid w
      | None \<Rightarrow> cancel_entry jid w)"

definition clear_finished_jobs :: "uuid \<Rightarrow> 'q job_world \<Rightarrow> 'q job_world" where
  "clear_finished_jobs wid w =
     (let to_remove = (\<lambda>jid. case jw_progress w jid of
            Some p \<Rightarrow> is_terminal p \<and> (case jw_jobs w jid of None \<Rightarrow> True | Some e \<Rightarrow> e = wid)
          | None \<Rightarrow> False)
      in w\<lparr>jw_jobs := (\<lambda>jid. if to_remove jid then None else jw_jobs w jid),
           jw_progress := (\<lambda>jid. if to_remove jid then None else jw_progress w jid)\<rparr>)"

definition list_jobs :: "uuid \<Rightarrow> string list \<Rightarrow> 'q job_world \<Rightarrow> job_progress list" where
  "list_jobs wid order w = List.map_filter (jw_progress w) (filter (\<lambda>jid. jw_jobs w jid = Some wid) order)"

text \<open>Starting a job: the progress and the task, then (a separate locked section) the entry.  Job ids are fresh UUIDs.\<close>

definition start_job :: "string \<Rightarrow> job_type \<Rightarrow> uuid \<Rightarrow> 'q job_world \<Rightarrow> 'q job_world" where
  "start_job jid ty wid w =
     (if jw_tasks w jid = None \<and> jw_progress w jid = None \<and> jw_jobs w jid = None then
        w\<lparr>jw_progress := (jw_progress w)(jid \<mapsto> job_queued jid ty),
          jw_tasks := (jw_tasks w)(jid \<mapsto> \<lparr>jk_type = ty, jk_wallet = wid, jk_pc = PcStart, jk_cancel = False,
                                           jk_aborted = False, jk_stored = False\<rparr>)\<rparr>
      else w)"

definition store_job_entry :: "string \<Rightarrow> 'q job_world \<Rightarrow> 'q job_world" where
  "store_job_entry jid w =
     (case jw_tasks w jid of
        None \<Rightarrow> w
      | Some t \<Rightarrow> if jk_stored t then w
                  else w\<lparr>jw_jobs := (jw_jobs w)(jid \<mapsto> jk_wallet t), jw_tasks := (jw_tasks w)(jid \<mapsto> t\<lparr>jk_stored := True\<rparr>)\<rparr>)"

section \<open>Broadcasting from a job\<close>

definition classify_job_broadcast_failure :: "string \<Rightarrow> (broadcast_error_class \<times> bool) option" where
  "classify_job_broadcast_failure error_message =
     (if is_effective_success_broadcast_error error_message then None
      else let err_class = classify_broadcast_error_message error_message
           in Some (err_class, is_retryable_broadcast_error_class err_class))"

definition queue_broadcast_for_retry :: "aead_encrypt \<Rightarrow> io_env \<Rightarrow> bytes \<Rightarrow> rat \<Rightarrow> unix_ms \<Rightarrow> uuid \<Rightarrow> dek \<Rightarrow> string
    \<Rightarrow> string option \<Rightarrow> broadcast_error_class option \<Rightarrow> bool \<Rightarrow> bytes \<Rightarrow> queue_dir \<Rightarrow> (engine_error, unit) result \<times> queue_dir" where
  "queue_broadcast_for_retry enc io nonce jitter now_ms wallet_id wallet_dek txid last_error last_error_class retryable tx_bytes d =
     (if \<not> io_mkdir_ok io then (Inl (msg_err ''io error''), d)
      else let d1 = d\<lparr>qd_exists := True\<rparr> in
      case enc wallet_dek nonce (queued_tx_aad wallet_id txid) tx_bytes of
        None \<Rightarrow> (Inl (msg_err ''failed to encrypt queued tx''), d1)
      | Some ciphertext \<Rightarrow>
          if \<not> io_write_bin_ok io then (Inl (msg_err ''io error''), d1)
          else let d2 = d1\<lparr>qd_bins := AList.update txid (nonce @ ciphertext) (qd_bins d1)\<rparr>;
                   meta = \<lparr>qm_created_at_ms = now_ms, qm_attempt_count = 0,
                     qm_next_attempt_at_ms = (if retryable then Some (schedule_next_attempt_at_ms jitter now_ms 0) else None),
                     qm_last_attempt_at_ms = Some now_ms,
                     qm_transport_failure_streak = (if last_error_class = Some TransientTransport then 1 else 0),
                     qm_retryable = retryable, qm_last_error_class = last_error_class,
                     qm_terminal_reason = None, qm_last_error = last_error\<rparr>
               in if io_write_meta_ok io then (Inr (), d2\<lparr>qd_metas := AList.update txid (MetaOk meta) (qd_metas d2)\<rparr>)
                  else (Inl (msg_err ''io error''), d2))"

record 'q job_env =
  je_open_wallet_db :: "string \<Rightarrow> (engine_error, unit) result"
  je_runtime :: bool
  je_account_id :: nat
  je_build :: "string \<Rightarrow> (string, (string, string list) result) result"
  je_load :: tx_loader
  je_shield :: "'q shield_env"
  je_net :: net_env
  je_grpc_url :: string
  je_dek :: dek
  je_now_ms :: "nat \<Rightarrow> unix_ms"

text \<open>Sending one transaction and queueing it on failure: the error and whether it can be retried, or \<open>None\<close> when it
  was sent or already relayed.  A failure to write the queue files is only logged.\<close>

definition job_broadcast :: "'q job_env \<Rightarrow> uuid \<Rightarrow> nat \<Rightarrow> string \<Rightarrow> bytes \<Rightarrow> queue_dir \<Rightarrow> (string \<times> bool) option \<times> queue_dir" where
  "job_broadcast env wid n txid tx_bytes d =
     (let ne = je_net env in
      case send_with_timeout (ne_send ne n (je_grpc_url env) tx_bytes) of
        Inr _ \<Rightarrow> (None, d)
      | Inl e \<Rightarrow>
          let err_msg = error_chain_text e in
          case classify_job_broadcast_failure err_msg of
            None \<Rightarrow> (None, d)
          | Some (err_class, retryable) \<Rightarrow>
              (Some (err_msg, retryable),
               snd (queue_broadcast_for_retry (ne_encrypt ne) (ne_io ne n) (ne_nonce ne n) (ne_jitter ne n) (je_now_ms env n) wid
                      (je_dek env) txid (Some err_msg) (Some err_class) retryable tx_bytes d)))"

section \<open>The tasks\<close>

definition set_pc :: "string \<Rightarrow> 'q job_pc \<Rightarrow> 'q job_world \<Rightarrow> 'q job_world" where
  "set_pc jid pc w = w\<lparr>jw_tasks := (jw_tasks w)(jid := map_option (\<lambda>t. t\<lparr>jk_pc := pc\<rparr>) (jw_tasks w jid))\<rparr>"

definition note_progress :: "string \<Rightarrow> job_progress \<Rightarrow> 'q job_world \<Rightarrow> 'q job_world" where
  "note_progress jid p w = w\<lparr>jw_progress := (jw_progress w)(jid \<mapsto> p)\<rparr>"

definition emit_progress :: "string \<Rightarrow> job_progress \<Rightarrow> 'q job_world \<Rightarrow> 'q job_world" where
  "emit_progress jid p w =
     (let w1 = note_progress jid p w in if is_terminal p then w1\<lparr>jw_jobs := (jw_jobs w1)(jid := None)\<rparr> else w1)"

definition finish_job :: "string \<Rightarrow> job_progress \<Rightarrow> 'q job_world \<Rightarrow> 'q job_world" where
  "finish_job jid p w = set_pc jid PcDone (emit_progress jid p w)"

definition load_job_tx :: "tx_loader \<Rightarrow> string \<Rightarrow> (string, bytes) result" where
  "load_job_tx load txid =
     (case load txid of
        Inl e \<Rightarrow> Inl (''failed to load tx: '' @ e)
      | Inr None \<Rightarrow> Inl ''tx bytes unavailable''
      | Inr (Some (Inl e)) \<Rightarrow> Inl (''failed to serialize tx: '' @ e)
      | Inr (Some (Inr tx)) \<Rightarrow> Inr tx)"

fun job_find_account :: "(string, wallet_account option) result list \<Rightarrow> nat \<Rightarrow> uuid option" where
  "job_find_account [] aid = None"
| "job_find_account (Inr (Some a) # as) aid =
     (if (case wa_key_source a of Some ks \<Rightarrow> parse_account_id_from_key_source ks = Some aid | None \<Rightarrow> False)
      then Some (wa_uuid a)
      else if wa_derivation_index a = Some aid then Some (wa_uuid a)
      else job_find_account as aid)"
| "job_find_account (_ # as) aid = job_find_account as aid"

fun job_outputs :: "(string \<Rightarrow> nat \<Rightarrow> (string, utxo list) result) \<Rightarrow> nat \<Rightarrow> string list \<Rightarrow> (string, utxo list) result" where
  "job_outputs outputs target [] = Inr []"
| "job_outputs outputs target (addr # addrs) =
     bind_result (map_err (\<lambda>e. ''failed to list transparent outputs: '' @ e) (outputs addr target)) (\<lambda>us.
     bind_result (job_outputs outputs target addrs) (\<lambda>rest. Inr (us @ rest)))"

definition job_shield_inputs :: "'q job_env \<Rightarrow> (string, utxo list) result" where
  "job_shield_inputs env =
     (let sh = je_shield env in
      bind_result (map_err (\<lambda>e. ''failed to list accounts: '' @ e) (sh_accounts sh)) (\<lambda>as.
      bind_result (ok_or (job_find_account as (je_account_id env)) ''account not found'') (\<lambda>account.
      bind_result (map_err (\<lambda>e. ''failed to list transparent receivers: '' @ e) (sh_receivers sh account)) (\<lambda>addrs.
      bind_result (map_err (\<lambda>e. ''failed to read chain height: '' @ e) (sh_chain_height sh)) (\<lambda>h.
      bind_result (ok_or h ''must scan blocks first'') (\<lambda>tip.
      bind_result (job_outputs (sh_outputs sh) (tip + 1) addrs) (\<lambda>inputs.
      bind_result (guard_or (inputs \<noteq> []) ''no transparent funds to shield'') (\<lambda>_. Inr inputs))))))))"

text \<open>The proposal of one batch; \<open>None\<close> when the dust loop does not return.\<close>

definition job_shield_batch :: "'q job_env \<Rightarrow> utxo list \<Rightarrow> (string, 'q option) result option" where
  "job_shield_batch env batch =
     (let sh = je_shield env in
      case sh_wallet_meta sh batch of
        Inl e \<Rightarrow> Some (Inl (''failed to load wallet metadata: '' @ e))
      | Inr _ \<Rightarrow>
          (case select_inputs (sh_compute_balance sh) batch of
             None \<Rightarrow> None
           | Some (Inl (BalanceError e)) \<Rightarrow> Some (Inl (''failed to compute shielding balance: '' @ e))
           | Some (Inl _) \<Rightarrow> Some (Inl ''insufficient transparent balance to cover shielding fee'')
           | Some (Inr None) \<Rightarrow> Some (Inr None)
           | Some (Inr (Some (inputs, fee))) \<Rightarrow>
               Some (map_err (\<lambda>e. ''invalid shielding proposal: '' @ e) (bind_result (sh_single_step sh inputs fee) (\<lambda>q. Inr (Some q))))))"

definition outcome_progress :: "string \<Rightarrow> job_type \<Rightarrow> string \<Rightarrow> string option \<Rightarrow> job_progress" where
  "outcome_progress jid ty primary err =
     (case err of Some e \<Rightarrow> job_failed jid ty e (Some primary) | None \<Rightarrow> job_completed jid ty primary)"

text \<open>The asynchronous part up to \<open>spawn_blocking\<close>, shared by \<open>run_send_job\<close> and \<open>run_shield_job\<close>.\<close>

fun prologue_step :: "'q job_env \<Rightarrow> string \<Rightarrow> 'q job_task \<Rightarrow> 'q job_pc \<Rightarrow> 'q job_world \<Rightarrow> 'q job_world" where
  "prologue_step env jid t PcStart w =
     (if jk_aborted t then set_pc jid PcDone w
      else if jk_cancel t then finish_job jid (job_cancelled jid (jk_type t)) w
      else set_pc jid PcChecked w)"
| "prologue_step env jid t PcChecked w = set_pc jid PcOpening (emit_progress jid (job_proving jid (jk_type t) (Some 10)) w)"
| "prologue_step env jid t PcOpening w =
     (case je_open_wallet_db env jid of
        Inl e \<Rightarrow> finish_job jid (job_failed jid (jk_type t) (''failed to open wallet: '' @ error_text e) None) w
      | Inr _ \<Rightarrow>
          if jk_type t = JobShield \<and> \<not> je_runtime env
          then finish_job jid (job_failed jid (jk_type t) ''internal error: tokio runtime unavailable'' None) w
          else set_pc jid PcBlocking w)"
| "prologue_step env jid t _ w = w"

text \<open>The blocking closure of \<open>run_send_job\<close>.\<close>

fun send_closure_step :: "'q job_env \<Rightarrow> string \<Rightarrow> 'q job_task \<Rightarrow> 'q job_pc \<Rightarrow> 'q job_world \<Rightarrow> 'q job_world" where
  "send_closure_step env jid t PcBlocking w =
     set_pc jid (if jk_cancel t then PcReturned (JrErr ''cancelled'') else PcSendProving) w"
| "send_closure_step env jid t PcSendProving w =
     set_pc jid PcSendBuilding (note_progress jid (job_proving jid JobSend (Some 50)) w)"
| "send_closure_step env jid t PcSendBuilding w =
     set_pc jid (case je_build env jid of
        Inl panic \<Rightarrow> PcReturned (JrPanic panic)
      | Inr (Inl e) \<Rightarrow> PcReturned (JrErr (''failed to build tx: '' @ e))
      | Inr (Inr txids) \<Rightarrow> PcSendBuilt txids) w"
| "send_closure_step env jid t (PcSendBuilt txids) w =
     set_pc jid (PcReturned (if jk_cancel t then JrErr ''cancelled'' else JrBuilt txids)) w"
| "send_closure_step env jid t _ w = w"

text \<open>\<open>shield_funds_blocking\<close>.\<close>

fun shield_closure_step :: "'q job_env \<Rightarrow> string \<Rightarrow> 'q job_task \<Rightarrow> 'q job_pc \<Rightarrow> 'q job_world \<Rightarrow> 'q job_world" where
  "shield_closure_step env jid t PcBlocking w =
     set_pc jid (if jk_cancel t then PcReturned (JrErr ''cancelled'') else PcShieldInputs) w"
| "shield_closure_step env jid t PcShieldInputs w =
     (case job_shield_inputs env of
        Inl e \<Rightarrow> set_pc jid (PcReturned (JrErr e)) w
      | Inr inputs \<Rightarrow>
          set_pc jid (PcShieldBatches (chunks MAX_SHIELDING_INPUTS_PER_TX inputs) \<lparr>ja_primary = None, ja_error = None, ja_can_retry = False\<rparr>)
            (note_progress jid (job_proving jid JobShield (Some 30)) w))"
| "shield_closure_step env jid t (PcShieldBatches [] acc) w =
     set_pc jid (PcReturned (case ja_primary acc of
        None \<Rightarrow> JrErr ''no transparent funds to shield''
      | Some primary \<Rightarrow> JrShielded primary (ja_error acc) (ja_can_retry acc))) w"
| "shield_closure_step env jid t (PcShieldBatches (batch # bs) acc) w =
     (if jk_cancel t then set_pc jid (PcReturned (JrErr ''cancelled'')) w
      else if batch = [] then set_pc jid (PcShieldBatches bs acc) w
      else case job_shield_batch env batch of
             None \<Rightarrow> w
           | Some (Inl e) \<Rightarrow> set_pc jid (PcReturned (JrErr e)) w
           | Some (Inr None) \<Rightarrow> set_pc jid (PcShieldBatches bs acc) w
           | Some (Inr (Some q)) \<Rightarrow> set_pc jid (PcShieldCreate q bs acc) w)"
| "shield_closure_step env jid t (PcShieldCreate q bs acc) w =
     set_pc jid (PcShieldBuild q bs acc) (note_progress jid (job_proving jid JobShield (Some 60)) w)"
| "shield_closure_step env jid t (PcShieldBuild q bs acc) w =
     set_pc jid (case sh_create (je_shield env) q of
        Inl e \<Rightarrow> PcReturned (JrErr (''failed to build shielding tx: '' @ e))
      | Inr txids \<Rightarrow> PcShieldTxs txids bs acc) w"
| "shield_closure_step env jid t (PcShieldTxs [] bs acc) w = set_pc jid (PcShieldBatches bs acc) w"
| "shield_closure_step env jid t (PcShieldTxs (txid # txids) bs acc) w =
     (let acc' = acc\<lparr>ja_primary := (case ja_primary acc of None \<Rightarrow> Some txid | p \<Rightarrow> p)\<rparr> in
      case load_job_tx (je_load env) txid of
        Inl e \<Rightarrow> set_pc jid (PcReturned (JrErr e)) w
      | Inr tx_bytes \<Rightarrow>
          set_pc jid (PcShieldSend txid tx_bytes txids bs acc') (note_progress jid (job_broadcasting jid JobShield txid) w))"
| "shield_closure_step env jid t (PcShieldSend txid tx_bytes txids bs acc) w =
     (case job_broadcast env (jk_wallet t) (length (jw_sent w)) txid tx_bytes (jw_dir w) of
        (out, d') \<Rightarrow>
          set_pc jid (PcShieldTxs txids bs (case out of
              None \<Rightarrow> acc
            | Some (e, retryable) \<Rightarrow> acc\<lparr>ja_can_retry := (ja_can_retry acc \<or> retryable),
                 ja_error := (case ja_error acc of None \<Rightarrow> Some e | x \<Rightarrow> x)\<rparr>))
            (w\<lparr>jw_dir := d', jw_sent := jw_sent w @ [(jid, txid)]\<rparr>))"
| "shield_closure_step env jid t _ w = w"

text \<open>The asynchronous part after \<open>spawn_blocking\<close>.  An aborted task is dropped when it would be resumed, and in the
  broadcast loop at the first await, after the request may have left.\<close>

fun epilogue_step :: "'q job_env \<Rightarrow> string \<Rightarrow> 'q job_task \<Rightarrow> 'q job_pc \<Rightarrow> 'q job_world \<Rightarrow> 'q job_world" where
  "epilogue_step env jid t (PcReturned r) w = set_pc jid (if jk_aborted t then PcDone else PcResumed r) w"
| "epilogue_step env jid t (PcResumed (JrErr e)) w =
     finish_job jid (if e = ''cancelled'' then job_cancelled jid (jk_type t) else job_failed jid (jk_type t) e None) w"
| "epilogue_step env jid t (PcResumed (JrPanic e)) w =
     finish_job jid (job_failed jid (jk_type t) (''task panicked: '' @ e) None) w"
| "epilogue_step env jid t (PcResumed (JrShielded primary err retry)) w =
     finish_job jid (outcome_progress jid (jk_type t) primary err) w"
| "epilogue_step env jid t (PcResumed (JrBuilt txids)) w =
     set_pc jid (PcBroadcast txids (hd txids) None False) (emit_progress jid (job_broadcasting jid (jk_type t) (hd txids)) w)"
| "epilogue_step env jid t (PcBroadcast [] primary err retry) w = finish_job jid (outcome_progress jid (jk_type t) primary err) w"
| "epilogue_step env jid t (PcBroadcast (txid # txids) primary err retry) w =
     (case load_job_tx (je_load env) txid of
        Inl e \<Rightarrow> set_pc jid (PcBroadcast [] primary (Some e) retry) w
      | Inr tx_bytes \<Rightarrow>
          if jk_aborted t then set_pc jid PcDone (w\<lparr>jw_sent := jw_sent w @ [(jid, txid)]\<rparr>)
          else (case job_broadcast env (jk_wallet t) (length (jw_sent w)) txid tx_bytes (jw_dir w) of
             (out, d') \<Rightarrow>
               set_pc jid (PcBroadcast txids primary (case out of None \<Rightarrow> err | Some (e, _) \<Rightarrow> Some e)
                   (retry \<or> (case out of None \<Rightarrow> False | Some (_, r) \<Rightarrow> r)))
                 (w\<lparr>jw_dir := d', jw_sent := jw_sent w @ [(jid, txid)]\<rparr>)))"
| "epilogue_step env jid t _ w = w"

definition in_prologue :: "'q job_pc \<Rightarrow> bool" where
  "in_prologue pc \<longleftrightarrow> pc \<in> {PcStart, PcChecked, PcOpening}"

definition in_epilogue :: "'q job_pc \<Rightarrow> bool" where
  "in_epilogue pc = (case pc of PcReturned _ \<Rightarrow> True | PcResumed _ \<Rightarrow> True | PcBroadcast _ _ _ _ \<Rightarrow> True | PcDone \<Rightarrow> True | _ \<Rightarrow> False)"

definition job_step :: "'q job_env \<Rightarrow> string \<Rightarrow> 'q job_world \<Rightarrow> 'q job_world" where
  "job_step env jid w =
     (case jw_tasks w jid of
        None \<Rightarrow> w
      | Some t \<Rightarrow>
          if in_prologue (jk_pc t) then prologue_step env jid t (jk_pc t) w
          else if in_epilogue (jk_pc t) then epilogue_step env jid t (jk_pc t) w
          else if jk_type t = JobSend then send_closure_step env jid t (jk_pc t) w
          else shield_closure_step env jid t (jk_pc t) w)"

section \<open>Interleavings\<close>

datatype job_op = StartJob string job_type uuid | StoreEntry string | CancelJob string | ClearFinished uuid | TaskStep string

fun job_apply :: "'q job_env \<Rightarrow> job_op \<Rightarrow> 'q job_world \<Rightarrow> 'q job_world" where
  "job_apply env (StartJob jid ty wid) w = start_job jid ty wid w"
| "job_apply env (StoreEntry jid) w = store_job_entry jid w"
| "job_apply env (CancelJob jid) w = snd (cancel_job jid w)"
| "job_apply env (ClearFinished wid) w = clear_finished_jobs wid w"
| "job_apply env (TaskStep jid) w = job_step env jid w"

inductive job_reachable :: "'q job_env \<Rightarrow> queue_dir \<Rightarrow> 'q job_world \<Rightarrow> bool" for env d where
  init: "job_reachable env d (job_service_new d)"
| step: "job_reachable env d w \<Longrightarrow> job_reachable env d (job_apply env a w)"

section \<open>Invariant\<close>

definition sent_by :: "string \<Rightarrow> 'q job_world \<Rightarrow> string list" where
  "sent_by jid w = map snd (filter (\<lambda>x. fst x = jid) (jw_sent w))"

fun is_broadcast :: "'q job_pc \<Rightarrow> bool" where
  "is_broadcast (PcBroadcast _ _ _ _) = True"
| "is_broadcast _ = False"

text \<open>A job in its broadcast loop reports progress that cannot be cancelled; terminal progress belongs to a finished
  or cancelled task; a send job has sent nothing before its broadcast loop.\<close>

definition task_ok :: "'q job_task \<Rightarrow> job_progress option \<Rightarrow> string list \<Rightarrow> bool" where
  "task_ok t p sent \<longleftrightarrow>
     (is_broadcast (jk_pc t) \<longrightarrow> (\<exists>q. p = Some q \<and> \<not> is_terminal q \<and> \<not> jp_can_cancel q))
   \<and> ((\<exists>q. p = Some q \<and> is_terminal q) \<longrightarrow> jk_pc t = PcDone \<or> jk_cancel t \<and> jk_aborted t)
   \<and> (jk_type t = JobSend \<and> \<not> is_broadcast (jk_pc t) \<and> jk_pc t \<noteq> PcDone \<longrightarrow> sent = [])"

fun view_ok :: "'q job_task option \<Rightarrow> job_progress option \<Rightarrow> string list \<Rightarrow> bool" where
  "view_ok None p sent \<longleftrightarrow> p = None \<and> sent = []"
| "view_ok (Some t) p sent \<longleftrightarrow> task_ok t p sent"

definition job_inv :: "'q job_world \<Rightarrow> bool" where
  "job_inv w \<longleftrightarrow> (\<forall>jid. view_ok (jw_tasks w jid) (jw_progress w jid) (sent_by jid w))"

lemma job_fields [simp]:
  "jw_tasks (note_progress j p w) = jw_tasks w" "jw_sent (note_progress j p w) = jw_sent w"
  "jw_progress (note_progress j p w) = (jw_progress w)(j \<mapsto> p)" "jw_jobs (note_progress j p w) = jw_jobs w"
  "jw_tasks (emit_progress j p w) = jw_tasks w" "jw_sent (emit_progress j p w) = jw_sent w"
  "jw_progress (emit_progress j p w) = (jw_progress w)(j \<mapsto> p)"
  "jw_sent (set_pc j pc w) = jw_sent w" "jw_progress (set_pc j pc w) = jw_progress w" "jw_jobs (set_pc j pc w) = jw_jobs w"
  "jw_tasks (set_pc j pc w) k = (if k = j then map_option (\<lambda>t. t\<lparr>jk_pc := pc\<rparr>) (jw_tasks w j) else jw_tasks w k)"
  by (simp_all add: note_progress_def emit_progress_def set_pc_def Let_def)

lemma finish_fields [simp]:
  "jw_sent (finish_job j p w) = jw_sent w" "jw_progress (finish_job j p w) = (jw_progress w)(j \<mapsto> p)"
  "jw_tasks (finish_job j p w) k = (if k = j then map_option (\<lambda>t. t\<lparr>jk_pc := PcDone\<rparr>) (jw_tasks w j) else jw_tasks w k)"
  by (simp_all add: finish_job_def)

lemma sent_by_simps [simp]:
  "sent_by k (note_progress j p w) = sent_by k w" "sent_by k (emit_progress j p w) = sent_by k w"
  "sent_by k (finish_job j p w) = sent_by k w" "sent_by k (set_pc j pc w) = sent_by k w"
  by (simp_all add: sent_by_def)

lemma sent_by_snoc [simp]:
  "sent_by k (w\<lparr>jw_sent := jw_sent w @ [(j, x)]\<rparr>) = sent_by k w @ (if k = j then [x] else [])"
  "sent_by k (w\<lparr>jw_dir := d, jw_sent := jw_sent w @ [(j, x)]\<rparr>) = sent_by k w @ (if k = j then [x] else [])"
  by (simp_all add: sent_by_def)

lemma terminal_simps [simp]:
  "\<not> is_terminal (job_queued i t)" "\<not> is_terminal (job_proving i t x)" "\<not> is_terminal (job_broadcasting i t y)"
  "is_terminal (job_completed i t y)" "is_terminal (job_failed i t e z)" "is_terminal (job_cancelled i t)"
  "\<not> jp_can_cancel (job_broadcasting i t y)"
  by (simp_all add: is_terminal_def job_progress_ctors)

lemma terminal_outcome [simp]: "is_terminal (outcome_progress i t y e)"
  by (simp add: outcome_progress_def split: option.splits)

lemma prologue_frame:
  "k \<noteq> j \<Longrightarrow> jw_tasks (prologue_step env j t pc w) k = jw_tasks w k
     \<and> jw_progress (prologue_step env j t pc w) k = jw_progress w k"
  "sent_by k (prologue_step env j t pc w) = sent_by k w"
  by (cases pc; simp split: sum.splits)+

lemma send_closure_frame:
  "k \<noteq> j \<Longrightarrow> jw_tasks (send_closure_step env j t pc w) k = jw_tasks w k
     \<and> jw_progress (send_closure_step env j t pc w) k = jw_progress w k"
  "sent_by k (send_closure_step env j t pc w) = sent_by k w"
  by (cases pc; simp split: sum.splits)+

lemma shield_closure_frame:
  "k \<noteq> j \<Longrightarrow> jw_tasks (shield_closure_step env j t pc w) k = jw_tasks w k
     \<and> jw_progress (shield_closure_step env j t pc w) k = jw_progress w k
     \<and> sent_by k (shield_closure_step env j t pc w) = sent_by k w"
  by (cases "(env, j, t, pc, w)" rule: shield_closure_step.cases)
    (simp_all add: Let_def split: sum.splits option.splits prod.splits)

lemma epilogue_frame:
  "k \<noteq> j \<Longrightarrow> jw_tasks (epilogue_step env j t pc w) k = jw_tasks w k
     \<and> jw_progress (epilogue_step env j t pc w) k = jw_progress w k
     \<and> sent_by k (epilogue_step env j t pc w) = sent_by k w"
  by (cases "(env, j, t, pc, w)" rule: epilogue_step.cases)
    (simp_all split: sum.splits option.splits prod.splits)

lemma job_step_frame:
  "k \<noteq> j \<Longrightarrow> jw_tasks (job_step env j w) k = jw_tasks w k \<and> jw_progress (job_step env j w) k = jw_progress w k
     \<and> sent_by k (job_step env j w) = sent_by k w"
  by (simp add: job_step_def prologue_frame send_closure_frame shield_closure_frame epilogue_frame split: option.splits)

text \<open>What a step of a task does to the task itself: only its program counter moves, and the invariant stays.\<close>

definition own_step :: "string \<Rightarrow> 'q job_task \<Rightarrow> 'q job_world \<Rightarrow> bool" where
  "own_step j t w' \<longleftrightarrow> (\<exists>pc. jw_tasks w' j = Some (t\<lparr>jk_pc := pc\<rparr>) \<and> task_ok (t\<lparr>jk_pc := pc\<rparr>) (jw_progress w' j) (sent_by j w'))"

lemma own_step_stay: "jw_tasks w j = Some t \<Longrightarrow> task_ok t (jw_progress w j) (sent_by j w) \<Longrightarrow> own_step j t w"
  unfolding own_step_def by (rule exI[of _ "jk_pc t"]) simp

definition quiet :: "'q job_pc \<Rightarrow> bool" where
  "quiet pc \<longleftrightarrow> \<not> is_broadcast pc \<and> pc \<noteq> PcDone"

lemma quiet_simps [simp]:
  "quiet PcStart" "quiet PcChecked" "quiet PcOpening" "quiet PcBlocking" "quiet PcSendProving" "quiet PcSendBuilding"
  "quiet (PcSendBuilt ts)" "quiet PcShieldInputs" "quiet (PcShieldBatches bs a)" "quiet (PcShieldCreate q bs a)"
  "quiet (PcShieldBuild q bs a)" "quiet (PcShieldTxs ts bs a)" "quiet (PcShieldSend x b ts bs a)" "quiet (PcReturned r)"
  "quiet (PcResumed r)"
  by (simp_all add: quiet_def)

lemma quiet_if [simp]: "quiet (if c then a else b) = (if c then quiet a else quiet b)"
  by simp

lemma own_stepI:
  "jw_tasks w' j = Some (t\<lparr>jk_pc := pc\<rparr>) \<Longrightarrow> task_ok (t\<lparr>jk_pc := pc\<rparr>) (jw_progress w' j) (sent_by j w') \<Longrightarrow> own_step j t w'"
  unfolding own_step_def by blast

lemma own_done: "jw_tasks w j = Some t \<Longrightarrow> own_step j t (set_pc j PcDone w)"
  by (auto simp: own_step_def task_ok_def)

lemma own_finish: "jw_tasks w j = Some t \<Longrightarrow> own_step j t (finish_job j p w)"
  by (auto simp: own_step_def task_ok_def)

lemma own_quiet:
  assumes "jw_tasks w j = Some t" and "task_ok t (jw_progress w j) (sent_by j w)" and "quiet (jk_pc t)"
  shows "quiet pc \<Longrightarrow> own_step j t (set_pc j pc w)"
    and "quiet pc \<Longrightarrow> \<not> is_terminal p \<Longrightarrow> own_step j t (set_pc j pc (note_progress j p w))"
    and "quiet pc \<Longrightarrow> \<not> is_terminal p \<Longrightarrow> own_step j t (set_pc j pc (emit_progress j p w))"
    and "\<not> is_terminal p \<Longrightarrow> \<not> jp_can_cancel p \<Longrightarrow> own_step j t (set_pc j (PcBroadcast ts x e r) (emit_progress j p w))"
    and "quiet pc \<Longrightarrow> jk_type t = JobShield \<Longrightarrow>
           own_step j t (set_pc j pc (w\<lparr>jw_dir := d, jw_sent := jw_sent w @ [(j, x)]\<rparr>))"
  using assms by (auto simp: own_step_def task_ok_def quiet_def)

lemma own_broadcast:
  assumes "jw_tasks w j = Some t" and "task_ok t (jw_progress w j) (sent_by j w)" and "is_broadcast (jk_pc t)"
  shows "own_step j t (set_pc j (PcBroadcast ts x e r) w)"
    and "own_step j t (set_pc j (PcBroadcast ts x e r) (w\<lparr>jw_dir := d, jw_sent := jw_sent w @ [(j, y)]\<rparr>))"
    and "own_step j t (set_pc j PcDone (w\<lparr>jw_sent := jw_sent w @ [(j, y)]\<rparr>))"
  using assms by - (rule own_stepI[where pc = "PcBroadcast ts x e r"] own_stepI[where pc = PcDone], simp, force simp: task_ok_def)+

lemma prologue_own:
  assumes "jw_tasks w j = Some t" and "task_ok t (jw_progress w j) (sent_by j w)" and "in_prologue (jk_pc t)"
  shows "own_step j t (prologue_step env j t (jk_pc t) w)"
  using assms(3) own_quiet[OF assms(1,2)] own_done[OF assms(1)] own_finish[OF assms(1)] unfolding in_prologue_def
  by (cases "jk_pc t") (simp_all split: sum.splits)

lemma send_closure_own:
  assumes "jw_tasks w j = Some t" and "task_ok t (jw_progress w j) (sent_by j w)" and "quiet (jk_pc t)"
  shows "own_step j t (send_closure_step env j t pc w)"
  using own_quiet[OF assms] own_step_stay[OF assms(1,2)]
  by (cases pc) (simp_all split: sum.splits)

lemma shield_closure_own:
  assumes "jw_tasks w j = Some t" and "task_ok t (jw_progress w j) (sent_by j w)" and "quiet (jk_pc t)"
    and "jk_type t = JobShield"
  shows "own_step j t (shield_closure_step env j t pc w)"
  using own_quiet[OF assms(1-3)] own_step_stay[OF assms(1,2)] assms(4)
  by (cases "(env, j, t, pc, w)" rule: shield_closure_step.cases)
    (simp_all add: Let_def split: sum.splits option.splits prod.splits)

lemma epilogue_own:
  assumes "jw_tasks w j = Some t" and "task_ok t (jw_progress w j) (sent_by j w)" and "pc = jk_pc t"
  shows "own_step j t (epilogue_step env j t pc w)"
proof (cases "quiet pc")
  case True
  then show ?thesis
    using own_quiet[OF assms(1,2)] own_done[OF assms(1)] own_finish[OF assms(1)] own_step_stay[OF assms(1,2)] assms(3)
    by (cases "(env, j, t, pc, w)" rule: epilogue_step.cases) (simp_all add: quiet_def)
next
  case False
  then show ?thesis
    using own_broadcast[OF assms(1,2)] own_finish[OF assms(1)] own_step_stay[OF assms(1,2)] assms(3)
    by (cases "(env, j, t, pc, w)" rule: epilogue_step.cases) (simp_all split: sum.splits prod.splits)
qed

lemma job_step_own:
  assumes "jw_tasks w j = Some t" and "task_ok t (jw_progress w j) (sent_by j w)"
  shows "own_step j t (job_step env j w)"
proof -
  have "jk_type t = JobSend \<or> jk_type t = JobShield" by (cases "jk_type t") simp_all
  moreover have "\<not> in_epilogue (jk_pc t) \<Longrightarrow> quiet (jk_pc t)" by (cases "jk_pc t") (simp_all add: in_epilogue_def)
  ultimately show ?thesis
    using prologue_own[OF assms] send_closure_own[OF assms] shield_closure_own[OF assms] epilogue_own[OF assms refl] assms(1)
    by (simp add: job_step_def) metis
qed

lemma job_inv_step:
  assumes "job_inv w"
  shows "job_inv (job_step env j w)"
  unfolding job_inv_def
proof
  fix k
  have old: "view_ok (jw_tasks w i) (jw_progress w i) (sent_by i w)" for i using assms by (simp add: job_inv_def)
  show "view_ok (jw_tasks (job_step env j w) k) (jw_progress (job_step env j w) k) (sent_by k (job_step env j w))"
  proof (cases "k = j")
    case True
    show ?thesis
    proof (cases "jw_tasks w j")
      case None
      then show ?thesis using old[of j] True by (simp add: job_step_def)
    next
      case (Some t)
      then have "own_step j t (job_step env j w)" using job_step_own old[of j] by simp
      then show ?thesis using True by (auto simp: own_step_def)
    qed
  next
    case False
    then show ?thesis using job_step_frame[of k j env w] old[of k] by simp
  qed
qed

lemma task_ok_cancel:
  "task_ok t (Some p) s \<Longrightarrow> jp_can_cancel p \<Longrightarrow> \<not> is_terminal p \<Longrightarrow>
     task_ok (t\<lparr>jk_cancel := True, jk_aborted := True\<rparr>) (Some q) s"
  by (auto simp: task_ok_def)

lemma task_ok_cancel_none: "task_ok t None s \<Longrightarrow> task_ok (t\<lparr>jk_cancel := True, jk_aborted := True\<rparr>) None s"
  by (auto simp: task_ok_def)

lemma sent_by_other [simp]:
  "sent_by k (w\<lparr>jw_jobs := a\<rparr>) = sent_by k w" "sent_by k (w\<lparr>jw_progress := b\<rparr>) = sent_by k w"
  "sent_by k (w\<lparr>jw_tasks := c\<rparr>) = sent_by k w"
  by (simp_all add: sent_by_def)

lemma job_inv_cancel_entry:
  assumes "job_inv w" and "\<forall>p. jw_progress w j = Some p \<longrightarrow> jp_can_cancel p \<and> \<not> is_terminal p"
  shows "job_inv (snd (cancel_entry j w))"
  unfolding job_inv_def
proof
  fix k
  have old: "view_ok (jw_tasks w k) (jw_progress w k) (sent_by k w)" using assms(1) by (simp add: job_inv_def)
  show "view_ok (jw_tasks (snd (cancel_entry j w)) k) (jw_progress (snd (cancel_entry j w)) k) (sent_by k (snd (cancel_entry j w)))"
    using old assms(2)
    by (cases "jw_progress w j"; cases "jw_tasks w j")
      (auto simp: cancel_entry_def split: option.splits intro: task_ok_cancel task_ok_cancel_none)
qed

lemma job_inv_cancel: "job_inv w \<Longrightarrow> job_inv (snd (cancel_job j w))"
  by (auto simp: cancel_job_def job_inv_cancel_entry split: option.splits)

lemma task_ok_cleared: "task_ok t (Some p) s \<Longrightarrow> is_terminal p \<Longrightarrow> task_ok t None s"
  by (auto simp: task_ok_def)

lemma job_inv_clear:
  assumes "job_inv w"
  shows "job_inv (clear_finished_jobs wid w)"
  unfolding job_inv_def
proof
  fix k
  have old: "view_ok (jw_tasks w k) (jw_progress w k) (sent_by k w)" using assms by (simp add: job_inv_def)
  show "view_ok (jw_tasks (clear_finished_jobs wid w) k) (jw_progress (clear_finished_jobs wid w) k)
      (sent_by k (clear_finished_jobs wid w))"
    using old by (cases "jw_tasks w k") (auto simp: clear_finished_jobs_def Let_def split: option.splits intro: task_ok_cleared)
qed

lemma job_inv_start:
  assumes "job_inv w"
  shows "job_inv (start_job j ty wid w)"
proof -
  have "jw_tasks w j = None \<Longrightarrow> sent_by j w = []" using assms by (metis job_inv_def view_ok.simps(1))
  then show ?thesis using assms by (simp add: job_inv_def start_job_def task_ok_def)
qed

lemma job_inv_store:
  assumes "job_inv w"
  shows "job_inv (store_job_entry j w)"
proof -
  have "task_ok t (jw_progress w j) (sent_by j w)" if "jw_tasks w j = Some t" for t
    using assms that by (metis job_inv_def view_ok.simps(2))
  then show ?thesis using assms by (auto simp: job_inv_def store_job_entry_def task_ok_def split: option.splits)
qed

lemma job_inv_apply: "job_inv w \<Longrightarrow> job_inv (job_apply env a w)"
  by (cases a) (simp_all add: job_inv_start job_inv_store job_inv_cancel job_inv_clear job_inv_step)

lemma job_reachable_inv: "job_reachable env d w \<Longrightarrow> job_inv w"
  by (induction rule: job_reachable.induct) (simp add: job_inv_def job_service_new_def sent_by_def, rule job_inv_apply)

section \<open>Cancelled send jobs\<close>

text \<open>A cancelled send job that has not been resumed after its closure.\<close>

definition dead_send :: "string \<Rightarrow> 'q job_world \<Rightarrow> bool" where
  "dead_send jid w \<longleftrightarrow> (\<exists>t. jw_tasks w jid = Some t \<and> jk_type t = JobSend \<and> \<not> is_broadcast (jk_pc t)
     \<and> (jk_pc t = PcDone \<or> (\<forall>r. jk_pc t \<noteq> PcResumed r) \<and> jk_cancel t \<and> jk_aborted t))"

lemma dead_send_step:
  assumes "dead_send jid w"
  shows "dead_send jid (job_step env jid w) \<and> sent_by jid (job_step env jid w) = sent_by jid w"
proof -
  obtain t where t: "jw_tasks w jid = Some t" "jk_type t = JobSend" "\<not> is_broadcast (jk_pc t)"
    "jk_pc t = PcDone \<or> (\<forall>r. jk_pc t \<noteq> PcResumed r) \<and> jk_cancel t \<and> jk_aborted t"
    using assms by (auto simp: dead_send_def)
  show ?thesis
    using t by (cases "jk_pc t")
      (auto simp: dead_send_def job_step_def in_prologue_def in_epilogue_def split: sum.splits)
qed

lemma dead_send_apply:
  assumes "dead_send jid w"
  shows "dead_send jid (job_apply env a w) \<and> sent_by jid (job_apply env a w) = sent_by jid w"
proof (cases a)
  case (TaskStep j)
  then show ?thesis
    using dead_send_step[OF assms] job_step_frame[of jid j env w] assms
    by (cases "j = jid") (auto simp: dead_send_def)
qed (use assms in \<open>auto simp: dead_send_def start_job_def store_job_entry_def cancel_job_def cancel_entry_def
      clear_finished_jobs_def Let_def split: option.splits\<close>)

lemma dead_send_run: "dead_send jid w \<Longrightarrow> sent_by jid (run_ops (job_apply env) ops w) = sent_by jid w"
proof (induction ops arbitrary: w)
  case (Cons a ops)
  then show ?case using dead_send_apply[OF Cons.prems, of env a] by (simp add: Cons.IH)
qed simp

section \<open>Jobs end\<close>

text \<open>A rank that every step of a task lowers, in lexicographic order.\<close>

fun pc_rank :: "'q job_pc \<Rightarrow> nat \<times> nat \<times> nat \<times> nat" where
  "pc_rank PcStart = (10, 0, 0, 0)"
| "pc_rank PcChecked = (9, 0, 0, 0)"
| "pc_rank PcOpening = (8, 0, 0, 0)"
| "pc_rank PcBlocking = (7, 0, 0, 0)"
| "pc_rank PcSendProving = (6, 0, 0, 0)"
| "pc_rank PcSendBuilding = (5, 0, 0, 0)"
| "pc_rank (PcSendBuilt _) = (4, 0, 0, 0)"
| "pc_rank PcShieldInputs = (6, 0, 0, 0)"
| "pc_rank (PcShieldBatches bs _) = (5, length bs, 0, 0)"
| "pc_rank (PcShieldCreate _ bs _) = (5, length bs, 3, 0)"
| "pc_rank (PcShieldBuild _ bs _) = (5, length bs, 2, 0)"
| "pc_rank (PcShieldTxs ts bs _) = (5, length bs, 1, 2 * length ts)"
| "pc_rank (PcShieldSend _ _ ts bs _) = (5, length bs, 1, 2 * length ts + 1)"
| "pc_rank (PcReturned _) = (3, 0, 0, 0)"
| "pc_rank (PcResumed _) = (2, 0, 0, 0)"
| "pc_rank (PcBroadcast ts _ _ _) = (1, length ts, 0, 0)"
| "pc_rank PcDone = (0, 0, 0, 0)"

definition rank_less :: "('q job_pc \<times> 'q job_pc) set" where
  "rank_less = inv_image (less_than <*lex*> less_than <*lex*> less_than <*lex*> less_than) pc_rank"

lemma wf_rank_less: "wf rank_less"
  unfolding rank_less_def by (intro wf_inv_image wf_lex_prod wf_less_than)

fun pc_fits :: "job_type \<Rightarrow> 'q job_pc \<Rightarrow> bool" where
  "pc_fits ty PcSendProving \<longleftrightarrow> ty = JobSend"
| "pc_fits ty PcSendBuilding \<longleftrightarrow> ty = JobSend"
| "pc_fits ty (PcSendBuilt _) \<longleftrightarrow> ty = JobSend"
| "pc_fits ty PcShieldInputs \<longleftrightarrow> ty = JobShield"
| "pc_fits ty (PcShieldBatches _ _) \<longleftrightarrow> ty = JobShield"
| "pc_fits ty (PcShieldCreate _ _ _) \<longleftrightarrow> ty = JobShield"
| "pc_fits ty (PcShieldBuild _ _ _) \<longleftrightarrow> ty = JobShield"
| "pc_fits ty (PcShieldTxs _ _ _) \<longleftrightarrow> ty = JobShield"
| "pc_fits ty (PcShieldSend _ _ _ _ _) \<longleftrightarrow> ty = JobShield"
| "pc_fits ty _ \<longleftrightarrow> True"

text \<open>A step of the task: it moves on, and when it is done without having been aborted its last report is terminal.\<close>

definition moves_on :: "string \<Rightarrow> 'q job_task \<Rightarrow> 'q job_world \<Rightarrow> bool" where
  "moves_on j t w' \<longleftrightarrow> (\<exists>pc. jw_tasks w' j = Some (t\<lparr>jk_pc := pc\<rparr>) \<and> (pc, jk_pc t) \<in> rank_less \<and> pc_fits (jk_type t) pc
     \<and> (pc = PcDone \<and> \<not> jk_aborted t \<longrightarrow> (\<exists>p. jw_progress w' j = Some p \<and> is_terminal p)))"

lemma moves_set_pc:
  "jw_tasks w j = Some t \<Longrightarrow> (pc, jk_pc t) \<in> rank_less \<Longrightarrow> pc_fits (jk_type t) pc \<Longrightarrow> pc \<noteq> PcDone \<Longrightarrow> moves_on j t (set_pc j pc w)"
  unfolding moves_on_def by (rule exI[of _ pc]) simp

lemma moves_aborted:
  "jw_tasks w j = Some t \<Longrightarrow> (PcDone, jk_pc t) \<in> rank_less \<Longrightarrow> jk_aborted t \<Longrightarrow> moves_on j t (set_pc j PcDone w)"
  unfolding moves_on_def by (rule exI[of _ PcDone]) simp

lemma moves_finish:
  "jw_tasks w j = Some t \<Longrightarrow> (PcDone, jk_pc t) \<in> rank_less \<Longrightarrow> is_terminal p \<Longrightarrow> moves_on j t (finish_job j p w)"
  unfolding moves_on_def by (rule exI[of _ PcDone]) simp

lemmas moves = moves_set_pc moves_aborted moves_finish rank_less_def

lemma job_shield_batch_returns: "names_own_dust (sh_compute_balance (je_shield env)) \<Longrightarrow> job_shield_batch env b \<noteq> None"
  using select_inputs_returns[of "sh_compute_balance (je_shield env)" b]
  by (auto simp: job_shield_batch_def Let_def split: sum.splits option.splits balance_outcome.splits)

lemma prologue_moves:
  assumes "jw_tasks w j = Some t" and "in_prologue (jk_pc t)"
  shows "moves_on j t (prologue_step env j t (jk_pc t) w)"
  using assms unfolding in_prologue_def
  by (cases "jk_pc t") (simp_all add: moves split: sum.splits)

lemma send_closure_moves:
  assumes "jw_tasks w j = Some t" and "quiet (jk_pc t)" and "\<not> in_prologue (jk_pc t)" "\<not> in_epilogue (jk_pc t)"
    and "pc_fits JobSend (jk_pc t)" and "jk_type t = JobSend"
  shows "moves_on j t (send_closure_step env j t (jk_pc t) w)"
  using assms unfolding in_prologue_def in_epilogue_def
  by (cases "jk_pc t") (simp_all add: moves split: sum.splits)

lemma shield_closure_moves:
  assumes "jw_tasks w j = Some t" and "\<not> in_prologue pc" "\<not> in_epilogue pc"
    and "pc_fits JobShield pc" and "jk_type t = JobShield" and "pc = jk_pc t"
  shows "moves_on j t (shield_closure_step env j t pc w)
     \<or> shield_closure_step env j t pc w = w \<and> (\<exists>b. job_shield_batch env b = None)"
  using assms unfolding in_prologue_def in_epilogue_def
  by (cases "(env, j, t, pc, w)" rule: shield_closure_step.cases)
    (auto simp: moves Let_def split: sum.splits option.splits prod.splits)

lemma epilogue_moves:
  assumes "jw_tasks w j = Some t" and "in_epilogue pc" and "pc \<noteq> PcDone" and "pc = jk_pc t"
  shows "moves_on j t (epilogue_step env j t pc w)"
  using assms unfolding in_epilogue_def
  by (cases "(env, j, t, pc, w)" rule: epilogue_step.cases) (simp_all add: moves split: sum.splits prod.splits)

lemma job_step_moves:
  assumes "jw_tasks w j = Some t" and "jk_pc t \<noteq> PcDone" and "pc_fits (jk_type t) (jk_pc t)"
  shows "moves_on j t (job_step env j w) \<or> job_step env j w = w \<and> (\<exists>b. job_shield_batch env b = None)"
proof (cases "in_prologue (jk_pc t) \<or> in_epilogue (jk_pc t)")
  case True
  then show ?thesis
    using assms(1,2) prologue_moves[OF assms(1)] epilogue_moves[OF assms(1) _ assms(2) refl] by (auto simp: job_step_def)
next
  case False
  moreover have "quiet (jk_pc t)" using False by (cases "jk_pc t") (simp_all add: in_epilogue_def)
  ultimately show ?thesis
    using assms send_closure_moves[OF assms(1)] shield_closure_moves[OF assms(1) _ _ _ _ refl]
    by (cases "jk_type t") (simp_all add: job_step_def)
qed

lemma job_runs_to_end:
  assumes "jw_tasks w j = Some t" and "jk_pc t \<noteq> PcDone" and "pc_fits (jk_type t) (jk_pc t)"
    and "names_own_dust (sh_compute_balance (je_shield env))"
  shows "\<exists>n. let w' = run_ops (job_apply env) (replicate n (TaskStep j)) w in
           (\<exists>t'. jw_tasks w' j = Some t' \<and> jk_pc t' = PcDone)
         \<and> (\<not> jk_aborted t \<longrightarrow> (\<exists>p. jw_progress w' j = Some p \<and> is_terminal p))"
  using assms(1-3)
proof (induction "jk_pc t" arbitrary: t w rule: wf_induct_rule[OF wf_rank_less])
  case (1 t)
  obtain pc where pc: "jw_tasks (job_step env j w) j = Some (t\<lparr>jk_pc := pc\<rparr>)" "(pc, jk_pc t) \<in> rank_less" "pc_fits (jk_type t) pc"
    "pc = PcDone \<and> \<not> jk_aborted t \<longrightarrow> (\<exists>p. jw_progress (job_step env j w) j = Some p \<and> is_terminal p)"
    using job_step_moves[OF 1(2-4), of env] job_shield_batch_returns[OF assms(4)] unfolding moves_on_def by blast
  show ?case
  proof (cases "pc = PcDone")
    case True
    then show ?thesis using pc by (intro exI[of _ 1]) (simp add: Let_def)
  next
    case False
    obtain n where "let w' = run_ops (job_apply env) (replicate n (TaskStep j)) (job_step env j w) in
           (\<exists>t'. jw_tasks w' j = Some t' \<and> jk_pc t' = PcDone)
         \<and> (\<not> jk_aborted t \<longrightarrow> (\<exists>p. jw_progress w' j = Some p \<and> is_terminal p))"
      using 1(1)[of "t\<lparr>jk_pc := pc\<rparr>" "job_step env j w"] pc False by auto
    then show ?thesis by (intro exI[of _ "Suc n"]) simp
  qed
qed

text \<open>The program counter of a reachable task fits its type.\<close>

definition fits_inv :: "'q job_world \<Rightarrow> bool" where
  "fits_inv w \<longleftrightarrow> (\<forall>j t. jw_tasks w j = Some t \<longrightarrow> pc_fits (jk_type t) (jk_pc t))"

lemma fits_step:
  assumes "fits_inv w"
  shows "fits_inv (job_step env j w)"
  unfolding fits_inv_def
proof (intro allI impI)
  fix k t'
  assume t': "jw_tasks (job_step env j w) k = Some t'"
  show "pc_fits (jk_type t') (jk_pc t')"
  proof (cases "k = j")
    case False
    then show ?thesis using job_step_frame[of k j env w] t' assms by (simp add: fits_inv_def)
  next
    case True
    show ?thesis
    proof (cases "jw_tasks w j")
      case None
      then show ?thesis using t' True by (simp add: job_step_def)
    next
      case (Some t)
      then have f: "pc_fits (jk_type t) (jk_pc t)" using assms by (simp add: fits_inv_def)
      show ?thesis
      proof (cases "jk_pc t = PcDone")
        case True
        then have "job_step env j w = w" using Some by (simp add: job_step_def in_prologue_def in_epilogue_def)
        then show ?thesis using t' \<open>k = j\<close> Some f by simp
      next
        case False
        then show ?thesis
          using job_step_moves[OF Some False f, of env] t' \<open>k = j\<close> Some f by (auto simp: moves_on_def)
      qed
    qed
  qed
qed

lemma fits_apply:
  assumes "fits_inv w"
  shows "fits_inv (job_apply env a w)"
proof (cases a)
  case (TaskStep j)
  then show ?thesis using fits_step[OF assms] by simp
qed (use assms in \<open>auto simp: fits_inv_def start_job_def store_job_entry_def cancel_job_def
      cancel_entry_def clear_finished_jobs_def Let_def split: option.splits if_splits\<close>)

lemma job_reachable_fits: "job_reachable env d w \<Longrightarrow> fits_inv w"
  by (induction rule: job_reachable.induct) (simp add: fits_inv_def job_service_new_def, rule fits_apply)

section \<open>Queue files\<close>

lemma first_policy:
  "apply_retry_policy (is_retryable_broadcast_error_class c) 0 (Some c) None =
     (is_retryable_broadcast_error_class c, if is_retryable_broadcast_error_class c then None
        else Some (''broadcast error classified as terminal ('' @ class_debug c @ '')''))"
  by (cases c) (simp_all add: apply_retry_policy_def is_retryable_broadcast_error_class_def retry_budget_terminal_reason_def
      MAX_TOTAL_BROADCAST_RETRY_ATTEMPTS_def MAX_UNKNOWN_BROADCAST_RETRY_ATTEMPTS_def)

lemma second_policy:
  "\<not> is_retryable_broadcast_error_class c \<Longrightarrow> apply_retry_policy False 0 (Some c) (Some r) = (False, Some r)"
  by (simp add: apply_retry_policy_def)

lemma normalize_first_policy:
  "normalize_queued_broadcast_meta \<lparr>qm_created_at_ms = a, qm_attempt_count = 0,
       qm_next_attempt_at_ms = (if is_retryable_broadcast_error_class c then Some n else None),
       qm_last_attempt_at_ms = l, qm_transport_failure_streak = k, qm_retryable = is_retryable_broadcast_error_class c,
       qm_last_error_class = Some c, qm_terminal_reason = None, qm_last_error = e\<rparr> t
   = normalize_queued_broadcast_meta \<lparr>qm_created_at_ms = a, qm_attempt_count = 0,
       qm_next_attempt_at_ms = (if is_retryable_broadcast_error_class c then Some n else None),
       qm_last_attempt_at_ms = l, qm_transport_failure_streak = k, qm_retryable = is_retryable_broadcast_error_class c,
       qm_last_error_class = Some c, qm_terminal_reason = (if is_retryable_broadcast_error_class c then None
        else Some (''broadcast error classified as terminal ('' @ class_debug c @ '')'')), qm_last_error = e\<rparr> t"
  using first_policy[of c] second_policy[of c]
  by (cases "is_retryable_broadcast_error_class c") (simp_all add: normalize_queued_broadcast_meta_def effective_class_def)

section \<open>Properties\<close>

text \<open>C6: A cancelled send job broadcasts nothing more.  In every reachable interleaving, when \<open>cancel_job\<close> returns true
  for a send job whose task is not just resuming after its closure, then no continuation of any length,
  with whatever other jobs and calls, broadcasts another transaction of that job; and if the job had not finished
  it has broadcast none at all.\<close>

theorem cancelled_send_never_broadcasts:
  assumes "job_reachable env d w" and "jw_tasks w jid = Some t" and "jk_type t = JobSend"
    and "\<forall>r. jk_pc t \<noteq> PcResumed r" and "cancel_job jid w = (True, w')"
  shows "sent_by jid (run_ops (job_apply env) ops w') = sent_by jid w
       \<and> (jk_pc t \<noteq> PcDone \<longrightarrow> sent_by jid w = [])"
proof -
  have ok: "task_ok t (jw_progress w jid) (sent_by jid w)"
    using job_reachable_inv[OF assms(1)] assms(2) by (metis job_inv_def view_ok.simps(2))
  have nb: "\<not> is_broadcast (jk_pc t)" using ok assms(5) by (auto simp: task_ok_def cancel_job_def)
  have "dead_send jid w' \<and> sent_by jid w' = sent_by jid w"
    using assms(2-5) ok nb
    by (auto simp: cancel_job_def cancel_entry_def dead_send_def task_ok_def split: option.splits if_splits)
  then show ?thesis using dead_send_run[of jid w' env ops] ok nb assms(3) by (auto simp: task_ok_def)
qed

definition demo_job_env :: "unit job_env" where
  "demo_job_env = \<lparr>je_open_wallet_db = (\<lambda>_. Inr ()), je_runtime = True, je_account_id = 0, je_build = (\<lambda>_. Inr (Inr [''t1''])),
     je_load = (\<lambda>_. Inr (Some (Inr [1, 2]))), je_shield = demo_shield_env, je_net = demo_net, je_grpc_url = ''https://a'',
     je_dek = [3], je_now_ms = (\<lambda>_. 9)\<rparr>"

lemma job_reachable_run: "job_reachable env d w \<Longrightarrow> job_reachable env d (run_ops (job_apply env) ops w)"
  by (induction ops arbitrary: w) (simp_all add: job_reachable.step)

definition demo_proving :: "unit job_world" where
  "demo_proving = run_ops (job_apply demo_job_env)
     [StartJob ''j'' JobSend ''w'', StoreEntry ''j'', TaskStep ''j'', TaskStep ''j'', TaskStep ''j'', TaskStep ''j''] (job_service_new demo_dir)"

lemmas demo_job_simps = job_service_new_def start_job_def store_job_entry_def job_step_def in_prologue_def in_epilogue_def
  set_pc_def emit_progress_def note_progress_def Let_def

lemma demo_proving_state: "jw_tasks demo_proving ''j'' = Some \<lparr>jk_type = JobSend, jk_wallet = ''w'', jk_pc = PcSendProving,
    jk_cancel = False, jk_aborted = False, jk_stored = True\<rparr>"
  "jw_progress demo_proving ''j'' = Some (job_proving ''j'' JobSend (Some 10))" "jw_jobs demo_proving ''j'' = Some ''w''"
  by (simp_all add: demo_proving_def demo_job_simps demo_job_env_def)

theorem cancelled_send_never_broadcasts_witness:
  "fst (cancel_job ''j'' demo_proving)
   \<and> sent_by ''j'' (run_ops (job_apply demo_job_env) (replicate 9 (TaskStep ''j'')) (snd (cancel_job ''j'' demo_proving))) = []"
proof -
  have r: "job_reachable demo_job_env demo_dir demo_proving"
    unfolding demo_proving_def by (rule job_reachable_run) (rule job_reachable.init)
  have c: "cancel_job ''j'' demo_proving = (True, snd (cancel_job ''j'' demo_proving))"
    by (simp add: cancel_job_def cancel_entry_def demo_proving_state job_proving_def is_terminal_def)
  have f: "fst (cancel_job ''j'' demo_proving)" using c by (rule ssubst) simp
  let ?t = "\<lparr>jk_type = JobSend, jk_wallet = ''w'', jk_pc = PcSendProving :: unit job_pc, jk_cancel = False, jk_aborted = False, jk_stored = True\<rparr>"
  have t: "jk_type ?t = JobSend" "\<forall>r. jk_pc ?t \<noteq> PcResumed r" "jk_pc ?t \<noteq> PcDone" by simp_all
  note cancelled_send_never_broadcasts[OF r demo_proving_state(1) t(1,2) c, of "replicate 9 (TaskStep ''j'')"]
  then show ?thesis using f t(3) by metis
qed

text \<open>C7: Every job ends and reports how.  From every reachable state, a job that is left to run on its own
  (when the fee strategy calls dust only inputs it was given) reaches its end after finitely many steps, and
  unless it was cancelled its last progress report is Completed, Failed or Cancelled.\<close>

theorem job_always_finishes:
  assumes "job_reachable env d w" and "jw_tasks w jid = Some t" and "jk_pc t \<noteq> PcDone"
    and "names_own_dust (sh_compute_balance (je_shield env))"
  shows "\<exists>n. let w' = run_ops (job_apply env) (replicate n (TaskStep jid)) w in
           (\<exists>t'. jw_tasks w' jid = Some t' \<and> jk_pc t' = PcDone)
         \<and> (\<not> jk_aborted t \<longrightarrow> (\<exists>p. jw_progress w' jid = Some p \<and> is_terminal p))"
proof -
  have "pc_fits (jk_type t) (jk_pc t)" using job_reachable_fits[OF assms(1)] assms(2) by (simp add: fits_inv_def)
  then show ?thesis using job_runs_to_end[OF assms(2,3) _ assms(4)] by blast
qed

theorem job_always_finishes_witness:
  "\<exists>n. \<exists>t'. jw_tasks (run_ops (job_apply demo_job_env) (replicate n (TaskStep ''j'')) demo_proving) ''j'' = Some t' \<and> jk_pc t' = PcDone"
proof -
  have r: "job_reachable demo_job_env demo_dir demo_proving"
    unfolding demo_proving_def by (rule job_reachable_run) (rule job_reachable.init)
  have dust: "names_own_dust (sh_compute_balance (je_shield demo_job_env))"
    by (simp add: demo_job_env_def demo_shield_env_def demo_balance_dust)
  show ?thesis using job_always_finishes[OF r demo_proving_state(1) _ dust] by (auto simp: Let_def)
qed

text \<open>A queue file written by a job is the one the transaction service would write.  For the same transaction,
  error, nonce, jitter and time, both leave the same encrypted bytes, and the metadata they write are
  loaded as the same entry by every later scan.\<close>

theorem job_queue_matches_service:
  assumes "queue_broadcast enc io nonce j now w dek txid tx (Some m) (Some c) (is_retryable_broadcast_error_class c) d = (Inr (), d1)"
    and "to_unix_ms now = Inr ms"
  shows "\<exists>d2 meta1 meta2.
      queue_broadcast_for_retry enc io nonce j ms w dek txid (Some m) (Some c) (is_retryable_broadcast_error_class c) tx d = (Inr (), d2)
    \<and> qd_bins d2 = qd_bins d1 \<and> qd_exists d2 = qd_exists d1
    \<and> map_of (qd_metas d1) txid = Some (MetaOk meta1) \<and> map_of (qd_metas d2) txid = Some (MetaOk meta2)
    \<and> (\<forall>t. normalize_queued_broadcast_meta meta2 t = normalize_queued_broadcast_meta meta1 t)"
proof -
  obtain ct where k: "io_mkdir_ok io" "enc dek nonce (queued_tx_aad w txid) tx = Some ct" "io_write_bin_ok io" "io_write_meta_ok io"
    using assms by (auto simp: queue_broadcast_def write_queued_broadcast_meta_def Let_def split: option.splits if_splits prod.splits)
  define r where "r = is_retryable_broadcast_error_class c"
  define reason where "reason = (if r then None else Some (''broadcast error classified as terminal ('' @ class_debug c @ '')''))"
  define meta where "meta x = \<lparr>qm_created_at_ms = ms, qm_attempt_count = 0,
       qm_next_attempt_at_ms = (if r then Some (schedule_next_attempt_at_ms j ms 0) else None), qm_last_attempt_at_ms = Some ms,
       qm_transport_failure_streak = (if Some c = Some TransientTransport then 1 else 0), qm_retryable = r,
       qm_last_error_class = Some c, qm_terminal_reason = x, qm_last_error = Some m\<rparr>" for x
  define put where "put x = d\<lparr>qd_exists := True, qd_bins := AList.update txid (nonce @ ct) (qd_bins d),
       qd_metas := AList.update txid (MetaOk x) (qd_metas d)\<rparr>" for x
  have "queue_broadcast enc io nonce j now w dek txid tx (Some m) (Some c) r d = (Inr (), put (meta reason))"
    using assms(2) k first_policy[of c, folded r_def]
    by (simp add: queue_broadcast_def write_queued_broadcast_meta_def Let_def put_def meta_def reason_def split del: if_split)
  then have d1: "d1 = put (meta reason)" using assms(1) by (simp add: r_def)
  have d2: "queue_broadcast_for_retry enc io nonce j ms w dek txid (Some m) (Some c) r tx d = (Inr (), put (meta None))"
    using k by (simp add: queue_broadcast_for_retry_def Let_def put_def meta_def)
  have n: "normalize_queued_broadcast_meta (meta None) t = normalize_queued_broadcast_meta (meta reason) t" for t
    unfolding meta_def reason_def r_def by (rule normalize_first_policy)
  have p: "map_of (qd_metas (put x)) txid = Some (MetaOk x)" "qd_bins (put x) = qd_bins (put y)" "qd_exists (put x) = qd_exists (put y)" for x y
    by (simp_all add: put_def update_conv')
  show ?thesis
    unfolding r_def[symmetric] d1
    by (intro exI[of _ "put (meta None)"] exI[of _ "meta reason"] exI[of _ "meta None"] conjI d2 p allI n)
qed

theorem job_queue_matches_service_witness:
  "\<exists>d2. queue_broadcast_for_retry demo_cipher demo_io (replicate 24 0) 0 1 ''w'' [3] ''t1'' (Some ''connection refused'')
      (Some TransientTransport) True [1, 2] demo_dir = (Inr (), d2)"
proof -
  have q: "\<exists>d1. queue_broadcast demo_cipher demo_io (replicate 24 0) 0 1000000 ''w'' [3] ''t1'' [1, 2] (Some ''connection refused'')
      (Some TransientTransport) (is_retryable_broadcast_error_class TransientTransport) demo_dir = (Inr (), d1)"
    by (simp add: queue_broadcast_def demo_io_def demo_cipher_def to_unix_ms_def i64_max_def write_queued_broadcast_meta_def Let_def
        split: prod.splits)
  then obtain d1 where d1: "queue_broadcast demo_cipher demo_io (replicate 24 0) 0 1000000 ''w'' [3] ''t1'' [1, 2] (Some ''connection refused'')
      (Some TransientTransport) (is_retryable_broadcast_error_class TransientTransport) demo_dir = (Inr (), d1)" by blast
  have ms: "to_unix_ms 1000000 = Inr 1" by (simp add: to_unix_ms_def i64_max_def)
  have r: "is_retryable_broadcast_error_class TransientTransport" by (simp add: is_retryable_broadcast_error_class_def)
  show ?thesis using job_queue_matches_service[OF d1 ms] r by auto
qed

lemma race_overwrites:
  "let w1 = run_ops (job_apply env) [StartJob jid ty wid, StoreEntry jid, TaskStep jid] (job_service_new d);
       (ok, w2) = cancel_job jid w1;
       w3 = job_step env jid w2
   in ok \<and> jw_progress w2 jid = Some (job_cancelled jid ty)
    \<and> jw_progress w3 jid = Some (job_proving jid ty (Some 10)) \<and> jw_jobs w3 jid = None \<and> \<not> fst (cancel_job jid w3)"
  by (simp add: demo_job_simps cancel_job_def cancel_entry_def is_terminal_def job_progress_ctors)

lemma demo_job_inputs: "job_shield_inputs demo_job_env = Inr demo_utxos"
  by (simp add: job_shield_inputs_def demo_job_env_def demo_shield_env_def demo_send_env_def demo_utxos_def guard_or_def Let_def)

lemma demo_job_batch: "job_shield_batch demo_job_env demo_utxos = Some (Inr (Some ()))" "demo_utxos \<noteq> []"
  by (simp_all add: job_shield_batch_def demo_job_env_def demo_shield_env_def demo_select Let_def) (simp add: demo_utxos_def)

definition demo_shielding :: "unit job_world" where
  "demo_shielding = run_ops (job_apply demo_job_env) ([StartJob ''j'' JobShield ''w'', StoreEntry ''j''] @ replicate 6 (TaskStep ''j''))
     (job_service_new demo_dir)"

abbreviation demo_acc :: job_acc where
  "demo_acc \<equiv> \<lparr>ja_primary = None, ja_error = None, ja_can_retry = False\<rparr>"

lemma demo_shielding_state: "demo_shielding = \<lparr>jw_jobs = [''j'' \<mapsto> ''w''], jw_progress = [''j'' \<mapsto> job_proving ''j'' JobShield (Some 30)],
    jw_tasks = [''j'' \<mapsto> \<lparr>jk_type = JobShield, jk_wallet = ''w'', jk_pc = PcShieldCreate () [] demo_acc, jk_cancel = False,
       jk_aborted = False, jk_stored = True\<rparr>], jw_dir = demo_dir, jw_sent = []\<rparr>"
proof -
  have r: "replicate 6 x = [x, x, x, x, x, x]" for x :: job_op by (simp add: numeral_eq_Suc)
  have e: "je_open_wallet_db demo_job_env = (\<lambda>_. Inr ())" "je_runtime demo_job_env" by (simp_all add: demo_job_env_def)
  show ?thesis
    unfolding demo_shielding_def r
    by (simp add: demo_job_simps e demo_job_inputs demo_chunks demo_job_batch is_terminal_def job_proving_def)
qed

lemma demo_job_broadcast: "\<exists>d'. job_broadcast demo_job_env wid n txid [1, 2] d = (Some (''connection refused'', True), d')"
  by (simp add: job_broadcast_def demo_job_env_def demo_net_def send_with_timeout_def send_with_timeout_for_def
      SEND_TRANSACTION_TIMEOUT_SECS_def msg_err_def classify_job_broadcast_failure_def demo_classify
      is_retryable_broadcast_error_class_def Let_def)

lemma race_shield_broadcasts:
  "let (ok, w2) = cancel_job ''j'' demo_shielding;
       w3 = run_ops (job_apply demo_job_env) (replicate 8 (TaskStep ''j'')) w2
   in ok \<and> sent_by ''j'' w2 = [] \<and> jw_progress w2 ''j'' = Some (job_cancelled ''j'' JobShield)
    \<and> sent_by ''j'' w3 = [''t1''] \<and> jw_progress w3 ''j'' = Some (job_broadcasting ''j'' JobShield ''t1'')
    \<and> map_option jk_pc (jw_tasks w3 ''j'') = Some PcDone"
proof -
  have r: "replicate 8 x = [x, x, x, x, x, x, x, x]" for x :: job_op by (simp add: numeral_eq_Suc)
  have e: "sh_create (je_shield demo_job_env) () = Inr [''t1'']" "je_load demo_job_env = (\<lambda>_. Inr (Some (Inr [1, 2])))"
    by (simp_all add: demo_job_env_def demo_shield_env_def)
  obtain d' where b: "job_broadcast demo_job_env ''w'' 0 ''t1'' [1, 2] demo_dir = (Some (''connection refused'', True), d')"
    using demo_job_broadcast by blast
  define task where "task pc c = \<lparr>jk_type = JobShield, jk_wallet = ''w'', jk_pc = pc :: unit job_pc, jk_cancel = c, jk_aborted = c,
      jk_stored = True\<rparr>" for pc c
  define w2 where "w2 = \<lparr>jw_jobs = Map.empty, jw_progress = [''j'' \<mapsto> job_cancelled ''j'' JobShield],
      jw_tasks = [''j'' \<mapsto> task (PcShieldCreate () [] demo_acc) True], jw_dir = demo_dir, jw_sent = []\<rparr>"
  have c: "cancel_job ''j'' demo_shielding = (True, w2)"
    by (simp add: demo_shielding_state w2_def task_def cancel_job_def cancel_entry_def is_terminal_def job_proving_def)
  have w3: "run_ops (job_apply demo_job_env) (replicate 8 (TaskStep ''j'')) w2 =
     \<lparr>jw_jobs = Map.empty, jw_progress = [''j'' \<mapsto> job_broadcasting ''j'' JobShield ''t1''], jw_tasks = [''j'' \<mapsto> task PcDone True],
      jw_dir = d', jw_sent = [(''j'', ''t1'')]\<rparr>"
    unfolding r w2_def by (simp add: demo_job_simps e load_job_tx_def b task_def)
  show ?thesis unfolding c Let_def case_prod_conv w3 by (simp add: w2_def sent_by_def task_def)
qed

text \<open>A cancelled job can go on reporting, and a cancelled shield job can still broadcast.  First, when the cancel
  falls between the task's first check and its first report, the report overwrites the Cancelled progress that the
  caller was promised, the job is no longer listed, and a second cancel is refused.  Second, when a shield job is
  cancelled while its first transaction is being built, it is reported Cancelled, yet afterwards it
  broadcasts the transaction and its progress stays at Broadcasting for ever.\<close>

theorem cancel_races:
  "(let w1 = run_ops (job_apply env) [StartJob jid ty wid, StoreEntry jid, TaskStep jid] (job_service_new d);
        (ok, w2) = cancel_job jid w1;
        w3 = job_step env jid w2
    in ok \<and> jw_progress w2 jid = Some (job_cancelled jid ty)
     \<and> jw_progress w3 jid = Some (job_proving jid ty (Some 10)) \<and> jw_jobs w3 jid = None \<and> \<not> fst (cancel_job jid w3))
 \<and> (let (ok, w2) = cancel_job ''j'' demo_shielding;
        w3 = run_ops (job_apply demo_job_env) (replicate 8 (TaskStep ''j'')) w2
    in ok \<and> sent_by ''j'' w2 = [] \<and> jw_progress w2 ''j'' = Some (job_cancelled ''j'' JobShield)
     \<and> sent_by ''j'' w3 = [''t1''] \<and> jw_progress w3 ''j'' = Some (job_broadcasting ''j'' JobShield ''t1'')
     \<and> map_option jk_pc (jw_tasks w3 ''j'') = Some PcDone)"
  by (rule conjI[OF race_overwrites race_shield_broadcasts])

text \<open>Clearing the finished jobs of one wallet clears the finished jobs of every wallet.  A finished job that
  reported through its task is no longer in the job table, so the wallet test never applies to it: its
  report is removed by a call for any wallet, while unfinished jobs and finished jobs still in the table of
  another wallet stay.\<close>

theorem clear_finished_ignores_wallet:
  "jw_progress (clear_finished_jobs wid (finish_job jid (job_completed jid ty txid) w)) jid = None
   \<and> jw_progress (clear_finished_jobs wid w) jid =
       (case jw_progress w jid of
          None \<Rightarrow> None
        | Some p \<Rightarrow> if is_terminal p \<and> jw_jobs w jid \<in> {None, Some wid} then None else Some p)"
  by (auto simp: clear_finished_jobs_def finish_job_def emit_progress_def Let_def split: option.splits)

end
