(* ===== verification/Wallet_Manager.thy ===== *)
theory Wallet_Manager
  imports Key_Encryption Reauth Tx_Retry Job_Service
begin

text \<open>
  The wallet manager, \<open>crates/zbag-engine/src/wallet_manager.rs\<close>: the active wallet and its lock state, opening the encrypted
  wallet database with a snapshot, unlocking, re-authentication, the seed phrase, backup challenges and the
  status shown to the user.  \<open>Wallet_Create\<close> adds the creation of wallets and accounts, \<open>Wallet_Tx\<close> the entry
  points that prepare and run transactions.

  The transaction service the callers pass in, the encrypted mnemonics of the key store, the wallet files and the
  queue directories are fields of the one state record.  The clock, the random values, failures of the file system
  and the third-party libraries are arguments.  Strings are ASCII, so UTF-8 is the identity on them.
\<close>

section \<open>State\<close>

record active_wallet =
  aw_wallet :: wallet_info
  aw_dir :: string
  aw_lock :: lock_status
  aw_dek :: "dek option"
  aw_db :: bool

record backup_challenge =
  bc_id :: string
  bc_indices :: "nat list"
  bc_expires_at :: unix_ms
  bc_failed_attempts :: nat

record wallet_files =
  wf_db :: "bytes option"
  wf_snapshot :: "bytes option"

record ('p, 'q) wallet_manager =
  wm_app_db :: app_db
  wm_active :: "active_wallet option"
  wm_reauth :: reauth_manager
  wm_jobs :: "'q job_world"
  wm_challenges :: "uuid \<rightharpoonup> backup_challenge"
  wm_balances :: "((uuid \<times> nat) \<times> balance) list"
  wm_sync_status :: "uuid \<rightharpoonup> sync_status"
  wm_stop_requested :: "uuid set"
  wm_last_emitted :: "uuid \<rightharpoonup> wallet_status"
  wm_events :: "wallet_status list"
  wm_tx :: "'p tx_service"
  wm_mnemonics :: "uuid \<times> network \<rightharpoonup> bytes"
  wm_files :: "string \<Rightarrow> wallet_files"
  wm_queues :: "string \<Rightarrow> queue_dir"

definition wallet_manager_new :: "app_db \<Rightarrow> 'p tx_service \<Rightarrow> (uuid \<times> network \<rightharpoonup> bytes) \<Rightarrow> (string \<Rightarrow> wallet_files)
    \<Rightarrow> (string \<Rightarrow> queue_dir) \<Rightarrow> queue_dir \<Rightarrow> ('p, 'q) wallet_manager" where
  "wallet_manager_new db tx mnemonics files queues d = \<lparr>wm_app_db = db, wm_active = None, wm_reauth = reauth_new,
     wm_jobs = job_service_new d, wm_challenges = Map.empty, wm_balances = [], wm_sync_status = Map.empty,
     wm_stop_requested = {}, wm_last_emitted = Map.empty, wm_events = [], wm_tx = tx, wm_mnemonics = mnemonics,
     wm_files = files, wm_queues = queues\<rparr>"

text \<open>The BIP-39 library, a mnemonic being its list of words, and the derivation of spending keys.\<close>

record mnemonic_lib =
  ml_from_entropy :: "bytes \<Rightarrow> (string, string list) result"
  ml_parse :: "string \<Rightarrow> string list option"
  ml_to_seed :: "string list \<Rightarrow> bytes"
  ml_spending_key :: "network \<Rightarrow> bytes \<Rightarrow> nat \<Rightarrow> (string, string) result"

text \<open>Opening a wallet database: the outcomes of the file operations, and what opening, migrating and validating the
  SQLCipher file under a key does to its contents.\<close>

record db_open_env =
  do_dir_exists :: bool
  do_secure_dir_ok :: bool
  do_copy_ok :: bool
  do_permissions_ok :: bool
  do_migrate :: "dek \<Rightarrow> bool \<Rightarrow> bytes option \<Rightarrow> (engine_error, unit) result \<times> bytes option"
  do_restore_ok :: bool
  do_remove_ok :: bool

record wallet_env =
  wv_crypto :: crypto
  wv_mnemonics :: mnemonic_lib
  wv_root :: string
  wv_now :: system_time
  wv_now_ms :: unix_ms
  wv_io :: io_env
  wv_open_db :: db_open_env
  wv_store_ok :: bool
  wv_read_ok :: bool
  wv_summary :: "(engine_error, nat list option) result"
  wv_url_parser :: url_parser
  wv_debug :: bool
  wv_env_url :: "string option"

fun network_dir_name :: "network \<Rightarrow> string" where
  "network_dir_name Mainnet = ''mainnet''"
| "network_dir_name Testnet = ''testnet''"

definition wallet_dir :: "string \<Rightarrow> uuid \<Rightarrow> network \<Rightarrow> string" where
  "wallet_dir base wid net = base @ ''/'' @ network_dir_name net @ ''/'' @ wid"

section \<open>Access to the unlocked wallet\<close>

abbreviation wallet_locked :: engine_error where
  "wallet_locked \<equiv> ipc_err WALLET_LOCKED ''wallet locked''"

definition require_unlocked_wallet_snapshot :: "uuid \<Rightarrow> ('p, 'q) wallet_manager \<Rightarrow> (engine_error, wallet_info \<times> dek) result" where
  "require_unlocked_wallet_snapshot wid m =
     (case wm_active m of
        None \<Rightarrow> Inl wallet_locked
      | Some a \<Rightarrow>
          if wi_id (aw_wallet a) \<noteq> wid then Inl (ipc_err WALLET_NOT_FOUND ''wallet not found'')
          else if aw_lock a \<noteq> Unlocked then Inl wallet_locked
          else case aw_dek a of None \<Rightarrow> Inl wallet_locked | Some k \<Rightarrow> Inr (aw_wallet a, k))"

definition require_unlocked_wallet_db :: "uuid \<Rightarrow> ('p, 'q) wallet_manager \<Rightarrow> (engine_error, wallet_info) result" where
  "require_unlocked_wallet_db wid m =
     (case wm_active m of
        None \<Rightarrow> Inl wallet_locked
      | Some a \<Rightarrow>
          if wi_id (aw_wallet a) \<noteq> wid then Inl (ipc_err WALLET_NOT_FOUND ''wallet not found'')
          else if aw_lock a \<noteq> Unlocked then Inl wallet_locked
          else if aw_db a then Inr (aw_wallet a) else Inl wallet_locked)"

definition require_active_unlocked_wallet_db :: "('p, 'q) wallet_manager \<Rightarrow> (engine_error, wallet_info) result" where
  "require_active_unlocked_wallet_db m =
     (case wm_active m of
        None \<Rightarrow> Inl wallet_locked
      | Some a \<Rightarrow> if aw_lock a \<noteq> Unlocked then Inl wallet_locked
                  else if aw_db a then Inr (aw_wallet a) else Inl wallet_locked)"

definition unlocked_wallet_dek :: "uuid \<Rightarrow> ('p, 'q) wallet_manager \<Rightarrow> (engine_error, dek) result" where
  "unlocked_wallet_dek wid m =
     (case wm_active m of
        None \<Rightarrow> Inl wallet_locked
      | Some a \<Rightarrow>
          if wi_id (aw_wallet a) \<noteq> wid then Inl (ipc_err WALLET_NOT_FOUND ''wallet not found'')
          else if aw_lock a \<noteq> Unlocked then Inl wallet_locked
          else ok_or (aw_dek a) wallet_locked)"

section \<open>Wallet status\<close>

definition cached_transparent_total_zat :: "uuid \<Rightarrow> ('p, 'q) wallet_manager \<Rightarrow> nat option" where
  "cached_transparent_total_zat wid m =
     (case filter (\<lambda>((w, _), _). w = wid) (wm_balances m) of
        [] \<Rightarrow> None
      | bs \<Rightarrow> Some (fold (\<lambda>(_, b) total. sat_add_u64 total (case parse_u64 (bal_transparent_total b) of None \<Rightarrow> 0 | Some v \<Rightarrow> v)) bs 0))"

definition transparent_total_from_wallet_db :: "wallet_env \<Rightarrow> uuid \<Rightarrow> ('p, 'q) wallet_manager \<Rightarrow> (engine_error, nat) result" where
  "transparent_total_from_wallet_db env wid m =
     (case require_unlocked_wallet_db wid m of
        Inl _ \<Rightarrow> Inr 0
      | Inr _ \<Rightarrow>
          bind_result (map_err (with_context ''failed to compute wallet summary'') (wv_summary env)) (\<lambda>summary.
          Inr (case summary of None \<Rightarrow> 0 | Some totals \<Rightarrow> fold (\<lambda>v total. sat_add_u64 total v) totals 0)))"

definition compute_wallet_status :: "wallet_env \<Rightarrow> uuid \<Rightarrow> ('p, 'q) wallet_manager \<Rightarrow> (engine_error, wallet_status) result" where
  "compute_wallet_status env wid m =
     (case get_wallet (wm_app_db m) wid of
        None \<Rightarrow> Inl (ipc_err WALLET_NOT_FOUND ''wallet not found'')
      | Some (wallet, _) \<Rightarrow>
          let lock = (case wm_active m of Some a \<Rightarrow> if wi_id (aw_wallet a) = wid then aw_lock a else Locked | None \<Rightarrow> Locked);
              backup_required = (case get_backup_required (wm_app_db m) (wi_id wallet) of None \<Rightarrow> True | Some b \<Rightarrow> b);
              sync = (case wm_sync_status m wid of None \<Rightarrow> Synced | Some st \<Rightarrow> st);
              total = (case cached_transparent_total_zat wid m of
                         Some v \<Rightarrow> v
                       | None \<Rightarrow> (case transparent_total_from_wallet_db env wid m of Inr v \<Rightarrow> v | Inl _ \<Rightarrow> 0))
          in Inr \<lparr>ws_lock_status = lock,
                  ws_backup_status = (if backup_required then BackupRequired else BackupComplete),
                  ws_sync_status = sync,
                  ws_shield_status = (if total > 0 then ShieldAvailable (show_nat total) else ShieldNone),
                  ws_privacy_posture = (if backup_required \<or> total > 0 then NeedsAction else Optimal)\<rparr>)"

definition maybe_emit_wallet_status :: "wallet_env \<Rightarrow> uuid \<Rightarrow> ('p, 'q) wallet_manager \<Rightarrow> ('p, 'q) wallet_manager" where
  "maybe_emit_wallet_status env wid m =
     (case compute_wallet_status env wid m of
        Inl _ \<Rightarrow> m
      | Inr status \<Rightarrow>
          if wm_last_emitted m wid = Some status then m
          else m\<lparr>wm_last_emitted := (wm_last_emitted m)(wid \<mapsto> status), wm_events := wm_events m @ [status]\<rparr>)"

definition POLL_INTERVAL_SECS :: nat where "POLL_INTERVAL_SECS = 20"

definition sync_status_of_progress :: "sync_progress \<Rightarrow> sync_status" where
  "sync_status_of_progress p =
     (case sp_phase p of
        SyIdle \<Rightarrow> Synced
      | SyOffline \<Rightarrow> StOffline (case sp_retry_in_seconds p of None \<Rightarrow> POLL_INTERVAL_SECS | Some n \<Rightarrow> n)
      | SyCatchingUp \<Rightarrow>
          if sp_wallet_tip_height p > 0 \<and> sp_scan_frontier_height p \<ge> sp_wallet_tip_height p then Synced
          else Syncing (sp_progress_percent p)
      | SyError \<Rightarrow> StError (case sp_error_message p of None \<Rightarrow> ''Sync failed due to local error'' | Some e \<Rightarrow> e)
      | _ \<Rightarrow> Syncing (sp_progress_percent p))"

definition observe_sync_progress :: "wallet_env \<Rightarrow> uuid \<Rightarrow> sync_progress \<Rightarrow> ('p, 'q) wallet_manager \<Rightarrow> ('p, 'q) wallet_manager" where
  "observe_sync_progress env wid p m =
     (let next_status = sync_status_of_progress p;
          stop = (if sp_phase p = SyIdle \<or> sp_phase p = SyCatchingUp \<and> next_status = Synced
                  then wm_stop_requested m - {wid} else wm_stop_requested m)
      in maybe_emit_wallet_status env wid (m\<lparr>wm_stop_requested := stop, wm_sync_status := (wm_sync_status m)(wid \<mapsto> next_status)\<rparr>))"

definition observe_sync_stop_requested :: "uuid \<Rightarrow> ('p, 'q) wallet_manager \<Rightarrow> ('p, 'q) wallet_manager" where
  "observe_sync_stop_requested wid m = m\<lparr>wm_stop_requested := insert wid (wm_stop_requested m)\<rparr>"

definition observe_balance_changed :: "wallet_env \<Rightarrow> uuid \<Rightarrow> nat \<Rightarrow> balance \<Rightarrow> ('p, 'q) wallet_manager \<Rightarrow> ('p, 'q) wallet_manager" where
  "observe_balance_changed env wid aid b m =
     maybe_emit_wallet_status env wid (m\<lparr>wm_balances := AList.update (wid, aid) b (wm_balances m)\<rparr>)"

section \<open>Opening the wallet database\<close>

definition open_wallet_db_with_dek :: "db_open_env \<Rightarrow> dek \<Rightarrow> bool \<Rightarrow> wallet_files \<Rightarrow> (engine_error, unit) result \<times> wallet_files" where
  "open_wallet_db_with_dek oe dek create_if_missing f =
     (let existed = (wf_db f \<noteq> None);
          f1 = (if existed then f\<lparr>wf_snapshot := wf_db f\<rparr> else f) in
      if (create_if_missing \<or> do_dir_exists oe) \<and> \<not> do_secure_dir_ok oe
      then (Inl (with_context ''failed to ensure wallet directory permissions'' (msg_err ''io error'')), f)
      else if existed \<and> \<not> do_copy_ok oe
      then (Inl (with_context ''failed to create pre-migration snapshot'' (msg_err ''io error'')), f)
      else if existed \<and> \<not> do_permissions_ok oe
      then (Inl (with_context ''failed to set permissions on pre-migration snapshot'' (msg_err ''io error'')), f1)
      else case do_migrate oe dek create_if_missing (wf_db f) of
             (Inr _, db) \<Rightarrow>
               (Inr (), f1\<lparr>wf_db := db, wf_snapshot := (if existed \<and> do_remove_ok oe then None else wf_snapshot f1)\<rparr>)
           | (Inl err, db) \<Rightarrow>
               if \<not> existed then (Inl err, f1\<lparr>wf_db := db\<rparr>)
               else ((if do_restore_ok oe then Inl err
                      else Inl (msg_err (error_text err @ [CHR 10] @ ''failed to restore pre-migration snapshot''))),
                     f1\<lparr>wf_db := (if do_restore_ok oe then wf_db f else db),
                        wf_snapshot := (if do_remove_ok oe then None else wf_snapshot f1)\<rparr>))"

section \<open>Loading, unlocking and locking\<close>

abbreviation wallet_not_found :: engine_error where
  "wallet_not_found \<equiv> ipc_err WALLET_NOT_FOUND ''wallet not found''"

text \<open>The end of every operation that activates a wallet: scan its broadcast queue and report the status.\<close>

definition activate_wallet :: "wallet_env \<Rightarrow> active_wallet \<Rightarrow> ('p, 'q) wallet_manager \<Rightarrow> (engine_error, unit) result \<times> ('p, 'q) wallet_manager" where
  "activate_wallet env a m =
     (let m1 = m\<lparr>wm_active := Some a\<rparr>;
          wid = wi_id (aw_wallet a);
          (r, d, s) = scan_queued_broadcasts (wv_io env) (wv_now env) wid (wm_queues m1 (aw_dir a), wm_tx m1);
          m2 = m1\<lparr>wm_tx := s, wm_queues := (wm_queues m1)(aw_dir a := d)\<rparr>
      in case r of
           Inl e \<Rightarrow> (Inl (with_context ''failed to scan queued broadcasts'' e), m2)
         | Inr _ \<Rightarrow> (Inr (), maybe_emit_wallet_status env wid m2))"

definition load_wallet :: "wallet_env \<Rightarrow> uuid \<Rightarrow> ('p, 'q) wallet_manager
    \<Rightarrow> (engine_error, wallet_info \<times> lock_status) result \<times> ('p, 'q) wallet_manager" where
  "load_wallet env wid m =
     (case get_wallet (wm_app_db m) wid of
        None \<Rightarrow> (Inl wallet_not_found, m)
      | Some (wallet, dir) \<Rightarrow>
          if dir \<noteq> wallet_dir (wv_root env) (wi_id wallet) (wi_network wallet)
          then (Inl (ipc_err INVALID_REQUEST ''wallet directory does not match network''), m)
          else
            let m1 = m\<lparr>wm_app_db := update_last_opened_at wid (wv_now_ms env) (wm_app_db m)\<rparr>;
                load_locked =
                  (case activate_wallet env \<lparr>aw_wallet = wallet, aw_dir = dir, aw_lock = Locked, aw_dek = None, aw_db = False\<rparr> m1 of
                     (Inl e, m2) \<Rightarrow> (Inl e, m2)
                   | (Inr _, m2) \<Rightarrow> (Inr (wallet, Locked), m2))
            in case wm_active m1 of
                 Some a \<Rightarrow>
                   if wi_id (aw_wallet a) = wid \<and> aw_lock a = Unlocked \<and> aw_dek a \<noteq> None \<and> aw_db a
                   then (Inr (wallet, Unlocked), m1\<lparr>wm_active := Some (a\<lparr>aw_wallet := wallet\<rparr>)\<rparr>)
                   else load_locked
               | None \<Rightarrow> load_locked)"

text \<open>The password check of \<open>unlock_wallet\<close> and \<open>reauth_wallet\<close>: the stored key unwraps under the password.\<close>

definition unwrap_stored_dek :: "wallet_env \<Rightarrow> wallet_info \<Rightarrow> uuid \<Rightarrow> string \<Rightarrow> app_db \<Rightarrow> (engine_error, dek) result" where
  "unwrap_stored_dek env wallet wid password db =
     bind_result (ok_or (get_wallet_encryption db wid) (ipc_err INTERNAL_ERROR ''wallet encryption metadata not found'')) (\<lambda>meta.
     map_err (\<lambda>_. ipc_err INVALID_WALLET_PASSWORD ''invalid wallet password'')
       (unwrap_dek (wv_crypto env) wid (wi_network wallet) password (we_kdf meta) (we_aead meta) (we_wrapped_dek_b64 meta)))"

definition unlock_wallet :: "wallet_env \<Rightarrow> uuid \<Rightarrow> string \<Rightarrow> ('p, 'q) wallet_manager
    \<Rightarrow> (engine_error, lock_status) result \<times> ('p, 'q) wallet_manager" where
  "unlock_wallet env wid password m =
     (case get_wallet (wm_app_db m) wid of
        None \<Rightarrow> (Inl wallet_not_found, m)
      | Some (wallet, dir) \<Rightarrow>
          if dir \<noteq> wallet_dir (wv_root env) (wi_id wallet) (wi_network wallet)
          then (Inl (ipc_err INVALID_REQUEST ''wallet directory does not match network''), m)
          else case unwrap_stored_dek env wallet wid password (wm_app_db m) of
                 Inl e \<Rightarrow> (Inl e, m)
               | Inr dek \<Rightarrow>
                   (case open_wallet_db_with_dek (wv_open_db env) dek False (wm_files m dir) of
                      (Inl e, f) \<Rightarrow> (Inl (with_context ''failed to open wallet db'' e), m\<lparr>wm_files := (wm_files m)(dir := f)\<rparr>)
                    | (Inr _, f) \<Rightarrow>
                        (case activate_wallet env \<lparr>aw_wallet = wallet, aw_dir = dir, aw_lock = Unlocked, aw_dek = Some dek, aw_db = True\<rparr>
                                (m\<lparr>wm_files := (wm_files m)(dir := f),
                                   wm_app_db := set_remember_unlock_enabled wid False (wm_app_db m)\<rparr>) of
                           (Inl e, m2) \<Rightarrow> (Inl e, m2)
                         | (Inr _, m2) \<Rightarrow> (Inr Unlocked, m2))))"

definition lock_wallet :: "wallet_env \<Rightarrow> uuid \<Rightarrow> ('p, 'q) wallet_manager \<Rightarrow> lock_status \<times> ('p, 'q) wallet_manager" where
  "lock_wallet env wid m =
     (case wm_active m of
        None \<Rightarrow> (Locked, m)
      | Some a \<Rightarrow>
          if wi_id (aw_wallet a) \<noteq> wid then (aw_lock a, m)
          else (Locked, maybe_emit_wallet_status env wid
                  (m\<lparr>wm_active := Some (a\<lparr>aw_db := False, aw_dek := None, aw_lock := Locked\<rparr>)\<rparr>)))"

definition logout_wallet :: "uuid \<Rightarrow> ('p, 'q) wallet_manager \<Rightarrow> (engine_error, unit) result \<times> ('p, 'q) wallet_manager" where
  "logout_wallet wid m =
     (case wm_active m of
        None \<Rightarrow> (Inl (ipc_err WALLET_NOT_FOUND ''no active wallet''), m)
      | Some a \<Rightarrow>
          if wi_id (aw_wallet a) \<noteq> wid then (Inl (ipc_err WALLET_NOT_FOUND ''wallet not active''), m)
          else (Inr (), m\<lparr>wm_active := None,
                  wm_balances := filter (\<lambda>((w, _), _). w \<noteq> wid) (wm_balances m),
                  wm_sync_status := (wm_sync_status m)(wid := None),
                  wm_stop_requested := wm_stop_requested m - {wid},
                  wm_last_emitted := (wm_last_emitted m)(wid := None),
                  wm_challenges := (wm_challenges m)(wid := None),
                  wm_jobs := clear_finished_jobs wid (wm_jobs m),
                  wm_tx := clear_proposals_for_wallet wid (wm_tx m)\<rparr>))"

section \<open>Re-authentication\<close>

definition reauth_wallet :: "wallet_env \<Rightarrow> string \<Rightarrow> uuid \<Rightarrow> string \<Rightarrow> reauth_purpose \<Rightarrow> ('p, 'q) wallet_manager
    \<Rightarrow> (engine_error, string \<times> system_time) result \<times> ('p, 'q) wallet_manager" where
  "reauth_wallet env new_token wid password purpose m =
     (case bind_result (guard_or (password \<noteq> []) (ipc_err INVALID_REQUEST ''password required'')) (\<lambda>_.
           bind_result (ok_or (get_wallet (wm_app_db m) wid) wallet_not_found) (\<lambda>(wallet, _).
           unwrap_stored_dek env wallet wid password (wm_app_db m))) of
        Inl e \<Rightarrow> (Inl e, m)
      | Inr _ \<Rightarrow>
          let (tok, tokens) = reauth_issue new_token (wv_now env) wid purpose (wm_reauth m)
          in (Inr tok, m\<lparr>wm_reauth := tokens\<rparr>))"

fun reauth_failure :: "reauth_error \<Rightarrow> engine_error" where
  "reauth_failure ReauthInvalid = ipc_err REAUTH_TOKEN_INVALID ''reauth token invalid''"
| "reauth_failure ReauthExpired = ipc_err REAUTH_TOKEN_EXPIRED ''reauth token expired''"

definition consume_reauth_token :: "wallet_env \<Rightarrow> uuid \<Rightarrow> string \<Rightarrow> reauth_purpose \<Rightarrow> ('p, 'q) wallet_manager
    \<Rightarrow> (engine_error, unit) result \<times> ('p, 'q) wallet_manager" where
  "consume_reauth_token env wid token purpose m =
     (let (r, tokens) = validate_and_consume (wv_now env) token wid purpose (wm_reauth m)
      in (map_err reauth_failure r, m\<lparr>wm_reauth := tokens\<rparr>))"

section \<open>The seed phrase\<close>

definition as_bytes :: "string \<Rightarrow> bytes" where "as_bytes s = map (word_of_nat \<circ> of_char) s"

definition from_utf8 :: "bytes \<Rightarrow> string option" where
  "from_utf8 bs = (if list_all (\<lambda>b. unat b < 128) bs then Some (map (char_of \<circ> unat) bs) else None)"

fun split_whitespace_from :: "string \<Rightarrow> string \<Rightarrow> string list" where
  "split_whitespace_from cur [] = (if cur = [] then [] else [cur])"
| "split_whitespace_from cur (c # cs) =
     (if is_ws c then (if cur = [] then split_whitespace_from [] cs else cur # split_whitespace_from [] cs)
      else split_whitespace_from (cur @ [c]) cs)"

definition split_whitespace :: "string \<Rightarrow> string list" where
  "split_whitespace s = split_whitespace_from [] s"

definition load_encrypted_mnemonic :: "wallet_env \<Rightarrow> uuid \<Rightarrow> network \<Rightarrow> ('p, 'q) wallet_manager \<Rightarrow> (engine_error, bytes option) result" where
  "load_encrypted_mnemonic env wid net m =
     (if wv_read_ok env then Inr (wm_mnemonics m (wid, net)) else Inl (with_context ''failed to read'' (msg_err ''io error'')))"

definition decrypt_mnemonic :: "wallet_env \<Rightarrow> uuid \<Rightarrow> network \<Rightarrow> dek \<Rightarrow> ('p, 'q) wallet_manager \<Rightarrow> (engine_error, string) result" where
  "decrypt_mnemonic env wid net dek m =
     bind_result (map_err (with_context ''failed to read encrypted mnemonic'') (load_encrypted_mnemonic env wid net m)) (\<lambda>stored.
     bind_result (ok_or stored (ipc_err INTERNAL_ERROR ''mnemonic not found'')) (\<lambda>bytes.
     bind_result (map_err (with_context ''failed to decrypt mnemonic'') (decrypt_mnemonic_bytes (wv_crypto env) wid net dek bytes)) (\<lambda>plain.
     ok_or (from_utf8 plain) (ipc_err INTERNAL_ERROR ''mnemonic plaintext is not valid UTF-8''))))"

definition active_watch_only :: "uuid \<Rightarrow> ('p, 'q) wallet_manager \<Rightarrow> bool" where
  "active_watch_only wid m =
     (case wm_active m of None \<Rightarrow> False | Some a \<Rightarrow> wi_id (aw_wallet a) = wid \<and> wi_wallet_type (aw_wallet a) = WatchOnlyWallet)"

definition view_seed_phrase :: "wallet_env \<Rightarrow> uuid \<Rightarrow> string \<Rightarrow> ('p, 'q) wallet_manager
    \<Rightarrow> (engine_error, string list) result \<times> ('p, 'q) wallet_manager" where
  "view_seed_phrase env wid token m =
     (if active_watch_only wid m then (Inl (ipc_err WATCH_ONLY_NO_SEED ''cannot view seed phrase for watch-only wallet''), m)
      else case consume_reauth_token env wid token ViewSeedPhrase m of
             (Inl e, m1) \<Rightarrow> (Inl e, m1)
           | (Inr _, m1) \<Rightarrow>
               (bind_result (require_unlocked_wallet_snapshot wid m1) (\<lambda>(wallet, dek).
                bind_result (map_err (with_context ''failed to decrypt mnemonic'')
                  (decrypt_mnemonic env (wi_id wallet) (wi_network wallet) dek m1)) (\<lambda>phrase.
                Inr (split_whitespace phrase))), m1))"

text \<open>A ZIP-32 account index is below \<open>2^31\<close>.\<close>

definition derive_unified_spending_key :: "wallet_env \<Rightarrow> uuid \<Rightarrow> nat \<Rightarrow> ('p, 'q) wallet_manager \<Rightarrow> (engine_error, string) result" where
  "derive_unified_spending_key env wid account_id m =
     bind_result (require_unlocked_wallet_snapshot wid m) (\<lambda>(wallet, dek).
     bind_result (map_err (with_context ''failed to decrypt mnemonic'') (decrypt_mnemonic env (wi_id wallet) (wi_network wallet) dek m)) (\<lambda>phrase.
     bind_result (ok_or (ml_parse (wv_mnemonics env) (trim phrase)) (ipc_err INTERNAL_ERROR ''invalid stored mnemonic'')) (\<lambda>mn.
     bind_result (guard_or (account_id < 2 ^ 31) (ipc_err INVALID_REQUEST ''invalid account_id'')) (\<lambda>_.
     map_err (\<lambda>e. ipc_err INTERNAL_ERROR (''failed to derive spending key: '' @ e))
       (ml_spending_key (wv_mnemonics env) (wi_network wallet) (ml_to_seed (wv_mnemonics env) mn) account_id)))))"

section \<open>Backup challenges\<close>

text \<open>\<open>pool\<close> is the shuffled list of the word positions.\<close>

definition issue_backup_challenge :: "wallet_env \<Rightarrow> string \<Rightarrow> nat list \<Rightarrow> uuid \<Rightarrow> ('p, 'q) wallet_manager
    \<Rightarrow> (engine_error, backup_challenge) result \<times> ('p, 'q) wallet_manager" where
  "issue_backup_challenge env new_id pool wid m =
     (case get_wallet (wm_app_db m) wid of
        None \<Rightarrow> (Inl wallet_not_found, m)
      | Some _ \<Rightarrow>
          let c = \<lparr>bc_id = new_id, bc_indices = sort (take 4 pool), bc_expires_at = wv_now_ms env + 10 * 60 * 1000, bc_failed_attempts = 0\<rparr>
          in (Inr c, m\<lparr>wm_challenges := (wm_challenges m)(wid \<mapsto> c)\<rparr>))"

definition get_backup_challenge :: "wallet_env \<Rightarrow> string \<Rightarrow> nat list \<Rightarrow> uuid \<Rightarrow> ('p, 'q) wallet_manager
    \<Rightarrow> (engine_error, backup_challenge) result \<times> ('p, 'q) wallet_manager" where
  "get_backup_challenge env new_id pool wid m =
     (if active_watch_only wid m then (Inl (ipc_err WATCH_ONLY_NO_BACKUP ''no backup required for watch-only wallet''), m)
      else issue_backup_challenge env new_id pool wid m)"

definition backup_words_match :: "string list \<Rightarrow> nat list \<Rightarrow> (nat \<rightharpoonup> string) \<Rightarrow> bool" where
  "backup_words_match words indices answers =
     list_all (\<lambda>i. 1 \<le> i \<and> i - 1 < length words \<and>
       (case answers i of None \<Rightarrow> False | Some a \<Rightarrow> to_lowercase (trim a) = to_lowercase (words ! (i - 1)))) indices"

definition challenge_invalid :: engine_error where
  "challenge_invalid = ipc_err BACKUP_CHALLENGE_INVALID ''backup challenge invalid''"

definition challenge_exhausted :: engine_error where
  "challenge_exhausted = ipc_err BACKUP_CHALLENGE_TOO_MANY_ATTEMPTS ''too many failed attempts''"

definition drop_challenge :: "uuid \<Rightarrow> ('p, 'q) wallet_manager \<Rightarrow> ('p, 'q) wallet_manager" where
  "drop_challenge wid m = m\<lparr>wm_challenges := (wm_challenges m)(wid := None)\<rparr>"

text \<open>The stored words against the answers; a stored phrase that is not 24 words is an internal error.\<close>

definition check_backup_words :: "wallet_env \<Rightarrow> uuid \<Rightarrow> nat list \<Rightarrow> (nat \<rightharpoonup> string) \<Rightarrow> ('p, 'q) wallet_manager \<Rightarrow> (engine_error, bool) result" where
  "check_backup_words env wid indices answers m =
     bind_result (require_unlocked_wallet_snapshot wid m) (\<lambda>(wallet, dek).
     bind_result (map_err (with_context ''failed to decrypt mnemonic'') (decrypt_mnemonic env (wi_id wallet) (wi_network wallet) dek m)) (\<lambda>phrase.
     let words = split_whitespace phrase in
     if length words \<noteq> 24 then Inl (ipc_err INTERNAL_ERROR ''invalid stored mnemonic'')
     else Inr (backup_words_match words indices answers)))"

definition verify_backup :: "wallet_env \<Rightarrow> uuid \<Rightarrow> string \<Rightarrow> (nat \<rightharpoonup> string) \<Rightarrow> ('p, 'q) wallet_manager
    \<Rightarrow> (engine_error, unit) result \<times> ('p, 'q) wallet_manager" where
  "verify_backup env wid cid answers m =
     (if active_watch_only wid m then (Inl (ipc_err WATCH_ONLY_NO_BACKUP ''no backup required for watch-only wallet''), m)
      else case wm_challenges m wid of
        None \<Rightarrow> (Inl challenge_invalid, m)
      | Some c \<Rightarrow>
          if bc_id c \<noteq> cid then (Inl challenge_invalid, m)
          else if wv_now_ms env > bc_expires_at c
          then (Inl (ipc_err BACKUP_CHALLENGE_EXPIRED ''backup challenge expired''), drop_challenge wid m)
          else if bc_failed_attempts c \<ge> 5 then (Inl challenge_exhausted, drop_challenge wid m)
          else case check_backup_words env wid (bc_indices c) answers m of
                 Inl e \<Rightarrow> (Inl e, m)
               | Inr True \<Rightarrow>
                   (case mark_backup_complete wid (wv_now_ms env) ''challenge'' (wm_app_db m) of
                      Inl _ \<Rightarrow> (Inl (msg_err ''sql error''), m)
                    | Inr db \<Rightarrow> (Inr (), maybe_emit_wallet_status env wid (drop_challenge wid (m\<lparr>wm_app_db := db\<rparr>))))
               | Inr False \<Rightarrow>
                   let attempts = min 255 (bc_failed_attempts c + 1) in
                   if attempts \<ge> 5 then (Inl challenge_exhausted, drop_challenge wid m)
                   else (Inl challenge_invalid, m\<lparr>wm_challenges := (wm_challenges m)(wid \<mapsto> c\<lparr>bc_failed_attempts := attempts\<rparr>)\<rparr>))"

section \<open>Queries\<close>

definition is_active_wallet_unlocked :: "uuid \<Rightarrow> ('p, 'q) wallet_manager \<Rightarrow> bool" where
  "is_active_wallet_unlocked wid m =
     (case wm_active m of None \<Rightarrow> False | Some a \<Rightarrow> wi_id (aw_wallet a) = wid \<and> aw_lock a = Unlocked)"

definition ensure_server_network_matches_active_wallet :: "network \<Rightarrow> ('p, 'q) wallet_manager \<Rightarrow> (engine_error, unit) result" where
  "ensure_server_network_matches_active_wallet net m =
     (case wm_active m of
        None \<Rightarrow> Inr ()
      | Some a \<Rightarrow> guard_or (wi_network (aw_wallet a) = net) (ipc_err INVALID_REQUEST ''server network mismatch''))"

section \<open>Frame lemmas\<close>

named_theorems wm_frame \<open>which fields an operation of the wallet manager leaves alone\<close>

lemma maybe_emit_frame [simp, wm_frame]:
  "wm_app_db (maybe_emit_wallet_status env wid m) = wm_app_db m" "wm_active (maybe_emit_wallet_status env wid m) = wm_active m"
  "wm_reauth (maybe_emit_wallet_status env wid m) = wm_reauth m" "wm_jobs (maybe_emit_wallet_status env wid m) = wm_jobs m"
  "wm_challenges (maybe_emit_wallet_status env wid m) = wm_challenges m" "wm_tx (maybe_emit_wallet_status env wid m) = wm_tx m"
  "wm_mnemonics (maybe_emit_wallet_status env wid m) = wm_mnemonics m" "wm_files (maybe_emit_wallet_status env wid m) = wm_files m"
  by (simp_all add: maybe_emit_wallet_status_def split: sum.splits)

lemma activate_frame [simp, wm_frame]:
  "wm_app_db (snd (activate_wallet env a m)) = wm_app_db m" "wm_active (snd (activate_wallet env a m)) = Some a"
  "wm_reauth (snd (activate_wallet env a m)) = wm_reauth m" "wm_challenges (snd (activate_wallet env a m)) = wm_challenges m"
  "wm_mnemonics (snd (activate_wallet env a m)) = wm_mnemonics m" "wm_files (snd (activate_wallet env a m)) = wm_files m"
  by (simp_all add: activate_wallet_def Let_def split: sum.splits prod.splits)

lemma consume_frame [simp, wm_frame]:
  "wm_app_db (snd (consume_reauth_token env wid t p m)) = wm_app_db m" "wm_active (snd (consume_reauth_token env wid t p m)) = wm_active m"
  "wm_mnemonics (snd (consume_reauth_token env wid t p m)) = wm_mnemonics m" "wm_tx (snd (consume_reauth_token env wid t p m)) = wm_tx m"
  "wm_challenges (snd (consume_reauth_token env wid t p m)) = wm_challenges m"
  "wm_jobs (snd (consume_reauth_token env wid t p m)) = wm_jobs m" "wm_queues (snd (consume_reauth_token env wid t p m)) = wm_queues m"
  by (simp_all add: consume_reauth_token_def split: prod.splits)

lemma consume_ok_iff:
  "fst (consume_reauth_token env wid t p m) = Inr u \<longleftrightarrow> fst (validate_and_consume (wv_now env) t wid p (wm_reauth m)) = Inr ()"
  by (simp add: consume_reauth_token_def split: prod.splits)

lemma consume_reauth_state:
  "wm_reauth (snd (consume_reauth_token env wid t p m)) = snd (validate_and_consume (wv_now env) t wid p (wm_reauth m))"
  by (simp add: consume_reauth_token_def split: prod.splits)

text \<open>The queue of a wallet can be scanned when the clock is sane and the directory readable.\<close>

lemma scan_ok:
  "to_unix_ms now = Inr ms \<Longrightarrow> io_read_dir_ok io \<Longrightarrow> fst (scan_queued_broadcasts io now wid ds) = Inr ()"
  by (simp add: scan_queued_broadcasts_def scan_queue_dir_def guard_or_def split: prod.splits)

lemma activate_ok:
  assumes "to_unix_ms (wv_now env) = Inr ms" and "io_read_dir_ok (wv_io env)"
  shows "fst (activate_wallet env a m) = Inr ()"
proof -
  let ?ds = "(wm_queues m (aw_dir a), wm_tx m)"
  obtain d s where "scan_queued_broadcasts (wv_io env) (wv_now env) (wi_id (aw_wallet a)) ?ds = (Inr (), d, s)"
    using scan_ok[OF assms, of "wi_id (aw_wallet a)" ?ds] by (metis prod.collapse)
  then show ?thesis by (simp add: activate_wallet_def Let_def)
qed

end
