(* ===== verification/Addresses.thy ===== *)
theory Addresses
  imports Wallet_Manager
begin

text \<open>
  \<open>crates/zbag-engine/src/address_service.rs\<close> and \<open>balance.rs\<close>: receive addresses with the rotation of shielded diversifiers, and
  account balances.  The queries of the wallet database are fields of \<open>address_env\<close>; each call may see other answers.
\<close>

section \<open>Model\<close>

datatype address_type = ShieldedOnly | Transparent

record address_info =
  di_encoded :: string
  di_address_type :: address_type
  di_diversifier_index :: string

text \<open>\<open>ax_existing\<close>: the diversifier indices of the listed addresses.  \<open>ax_derive uuid sapling i\<close>: \<open>get_address_for_index\<close> for an Orchard
  address with or without a Sapling receiver; \<open>None\<close> when the index has no valid diversifier.  \<open>ax_receivers n\<close>: the transparent
  receivers with their index, before and after an address was forced.\<close>

record address_env =
  ax_accounts :: wallet_accounts
  ax_existing :: "uuid \<Rightarrow> (string, nat list) result"
  ax_derive :: "uuid \<Rightarrow> bool \<Rightarrow> nat \<Rightarrow> (string, string option) result"
  ax_receivers :: "bool \<Rightarrow> uuid \<Rightarrow> (string, (string \<times> nat option) list) result"
  ax_force :: "uuid \<Rightarrow> (string, unit) result"
  ax_now_ms :: unix_ms

fun max_existing :: "nat list \<Rightarrow> nat option \<Rightarrow> (engine_error, nat option) result" where
  "max_existing [] best = Inr best"
| "max_existing (d # ds) best =
     (if d > u64_max then Inl (ipc_err INTERNAL_ERROR ''diversifier index out of range'')
      else max_existing ds (Some (case best of None \<Rightarrow> d | Some b \<Rightarrow> max b d)))"

fun try_candidates :: "nat \<Rightarrow> (nat \<Rightarrow> (string, string option) result) \<Rightarrow> nat \<Rightarrow> (engine_error, nat \<times> string) result" where
  "try_candidates 0 derive candidate = Inl (ipc_err INTERNAL_ERROR ''unable to derive receive address'')"
| "try_candidates (Suc n) derive candidate =
     (case derive candidate of
        Inl e \<Rightarrow> Inl (with_context ''failed to derive receive address'' (msg_err e))
      | Inr (Some ua) \<Rightarrow> Inr (candidate, ua)
      | Inr None \<Rightarrow>
          (case checked_add_u64 candidate 1 of
             None \<Rightarrow> Inl (ipc_err INTERNAL_ERROR ''diversifier index overflow'')
           | Some c \<Rightarrow> try_candidates n derive c))"

definition next_index :: "nat option \<Rightarrow> nat option \<Rightarrow> nat" where
  "next_index stored_next existing =
     (let min_next = (case existing of None \<Rightarrow> 0 | Some d \<Rightarrow> sat_add_u64 d 1);
          next_di = (case stored_next of None \<Rightarrow> min_next | Some d \<Rightarrow> d)
      in if next_di < min_next then min_next else next_di)"

definition shielded_address :: "address_env \<Rightarrow> uuid \<Rightarrow> uuid \<Rightarrow> bool \<Rightarrow> nat \<Rightarrow> app_db \<Rightarrow> (engine_error, address_info) result \<times> app_db" where
  "shielded_address ax wid account is_hardware_signer aid db =
     (case bind_result (map_err (\<lambda>e. with_context ''failed to list wallet addresses'' (msg_err e)) (ax_existing ax account)) (\<lambda>ds.
           bind_result (max_existing ds None) (\<lambda>existing.
           bind_result (map_err (\<lambda>_. with_context ''failed to load receive rotation state'' (msg_err ''sql error''))
             (get_next_diversifier_index db wid aid)) (\<lambda>stored_next.
           try_candidates 1000 (ax_derive ax account (\<not> is_hardware_signer)) (next_index stored_next existing)))) of
        Inl e \<Rightarrow> (Inl e, db)
      | Inr (candidate, ua) \<Rightarrow>
          (case set_next_diversifier_index wid aid (sat_add_u64 candidate 1) (ax_now_ms ax) db of
             Inl _ \<Rightarrow> (Inl (with_context ''failed to update receive rotation state'' (msg_err ''sql error'')), db)
           | Inr db' \<Rightarrow> (Inr \<lparr>di_encoded = ua, di_address_type = ShieldedOnly, di_diversifier_index = show_nat candidate\<rparr>, db')))"

text \<open>\<open>min_by_key\<close> on the receivers: the first with the least index, a receiver without index coming last.\<close>

definition receiver_key :: "string \<times> nat option \<Rightarrow> nat" where
  "receiver_key r = (case snd r of None \<Rightarrow> u32_max | Some i \<Rightarrow> i)"

definition transparent_address :: "address_env \<Rightarrow> uuid \<Rightarrow> (engine_error, address_info) result" where
  "transparent_address ax account =
     (let list = (\<lambda>forced. map_err (\<lambda>e. with_context ''failed to list transparent receivers'' (msg_err e)) (ax_receivers ax forced account)) in
      bind_result (list False) (\<lambda>rs.
      bind_result (if rs \<noteq> [] then Inr rs
        else bind_result (map_err (\<lambda>e. with_context ''failed to derive an address with transparent receiver'' (msg_err e)) (ax_force ax account)) (\<lambda>_.
             list True)) (\<lambda>receivers.
      case receivers of
        [] \<Rightarrow> Inl (ipc_err INTERNAL_ERROR ''no transparent receiver available'')
      | r0 # rs0 \<Rightarrow>
          let (addr, index) = fold (\<lambda>x best. if receiver_key x < receiver_key best then x else best) rs0 r0
          in Inr \<lparr>di_encoded = addr, di_address_type = Transparent,
                  di_diversifier_index = show_nat (case index of None \<Rightarrow> 0 | Some i \<Rightarrow> i)\<rparr>)))"

definition get_receive_address :: "address_env \<Rightarrow> uuid \<Rightarrow> nat \<Rightarrow> address_type \<Rightarrow> app_db \<Rightarrow> (engine_error, address_info) result \<times> app_db" where
  "get_receive_address ax wid aid ty db =
     (case resolve_wallet_account_uuid (ax_accounts ax) aid of
        Inl e \<Rightarrow> (Inl e, db)
      | Inr account \<Rightarrow>
          let is_hardware_signer = (case get_account db wid aid of None \<Rightarrow> False | Some a \<Rightarrow> ai_account_type a = HardwareSigner) in
          (case ty of
             ShieldedOnly \<Rightarrow> shielded_address ax wid account is_hardware_signer aid db
           | Transparent \<Rightarrow> (transparent_address ax account, db)))"

definition wm_get_receive_address :: "address_env \<Rightarrow> nat \<Rightarrow> address_type \<Rightarrow> ('p, 'q) wallet_manager
    \<Rightarrow> (engine_error, address_info) result \<times> ('p, 'q) wallet_manager" where
  "wm_get_receive_address ax aid ty m =
     (case require_active_unlocked_wallet_db m of
        Inl e \<Rightarrow> (Inl e, m)
      | Inr wallet \<Rightarrow>
          let (r, db) = get_receive_address ax (wi_id wallet) aid ty (wm_app_db m) in (r, m\<lparr>wm_app_db := db\<rparr>))"

section \<open>Balances\<close>

text \<open>The balance the wallet library reports for an account, in zatoshis; the sums stay below the supply.\<close>

record account_balance =
  ab_spendable :: nat
  ab_change_pending :: nat
  ab_value_pending :: nat
  ab_uneconomic :: nat
  ab_unshielded_total :: nat
  ab_total :: nat

definition get_balance :: "wallet_accounts \<Rightarrow> (string, (uuid \<rightharpoonup> account_balance) option) result \<Rightarrow> nat \<Rightarrow> (engine_error, balance) result" where
  "get_balance accounts summary aid =
     bind_result (resolve_wallet_account_uuid accounts aid) (\<lambda>account.
     bind_result (map_err (\<lambda>e. with_context ''failed to compute wallet summary'' (msg_err e)) summary) (\<lambda>s.
     let b = (case s of None \<Rightarrow> None | Some f \<Rightarrow> f account);
         zero = \<lparr>ab_spendable = 0, ab_change_pending = 0, ab_value_pending = 0, ab_uneconomic = 0, ab_unshielded_total = 0, ab_total = 0\<rparr>;
         ab = (case b of None \<Rightarrow> zero | Some x \<Rightarrow> x)
     in Inr \<lparr>bal_shielded_spendable = show_nat (ab_spendable ab),
              bal_shielded_pending = show_nat (ab_change_pending ab + ab_value_pending ab + ab_uneconomic ab),
              bal_transparent_total = show_nat (ab_unshielded_total ab),
              bal_total = show_nat (ab_total ab)\<rparr>))"

section \<open>Lemmas\<close>

lemma max_existing_ok: "max_existing ds best = Inr r \<Longrightarrow> (\<forall>d \<in> set ds. \<exists>x. r = Some x \<and> d \<le> x \<and> d \<le> u64_max) \<and> (\<forall>b. best = Some b \<longrightarrow> (\<exists>x. r = Some x \<and> b \<le> x))"
proof (induction ds best rule: max_existing.induct)
  case (2 d ds best)
  then show ?case by (fastforce split: if_splits option.splits)
qed simp

lemma try_candidates_ok: "try_candidates n derive c = Inr (i, ua) \<Longrightarrow> c \<le> i \<and> derive i = Inr (Some ua) \<and> i < c + n"
proof (induction n arbitrary: c)
  case (Suc n)
  then show ?case
    by (fastforce simp: checked_add_u64_def split: sum.splits option.splits if_splits dest!: Suc.IH)
qed simp

lemma next_index_ge: "stored = Some s \<Longrightarrow> s \<le> next_index stored existing" "existing = Some e \<Longrightarrow> sat_add_u64 e 1 \<le> next_index stored existing"
  by (auto simp: next_index_def Let_def split: option.splits)

text \<open>What a successful shielded call returns and stores.\<close>

lemma shielded_ok:
  assumes "shielded_address ax wid account hw aid db = (Inr info, db')"
  obtains i ds where "di_diversifier_index info = show_nat i" "diversifier_entry db' (wid, aid) = Some (i + 1)" "int (i + 1) \<le> i64_max"
    "\<forall>s. diversifier_entry db (wid, aid) = Some s \<longrightarrow> s \<le> i" "ax_existing ax account = Inr ds" "\<forall>d \<in> set ds. d < i"
    "put_diversifier_entry (ax_now_ms ax) (wid, aid) (i + 1) db = Inr db'" "ax_derive ax account (\<not> hw) i = Inr (Some (di_encoded info))"
proof -
  obtain ds existing stored i ua where s: "ax_existing ax account = Inr ds" "max_existing ds None = Inr existing"
    "get_next_diversifier_index db wid aid = Inr stored" "try_candidates 1000 (ax_derive ax account (\<not> hw)) (next_index stored existing) = Inr (i, ua)"
    "set_next_diversifier_index wid aid (sat_add_u64 i 1) (ax_now_ms ax) db = Inr db'"
    "info = \<lparr>di_encoded = ua, di_address_type = ShieldedOnly, di_diversifier_index = show_nat i\<rparr>"
    using assms by (auto simp: shielded_address_def bind_result_ok split: sum.splits prod.splits)
  have "int (sat_add_u64 i 1) \<le> i64_max" using s(5) by (simp add: set_next_diversifier_index_def split: if_splits)
  then have i: "sat_add_u64 i 1 = i + 1" "int (i + 1) \<le> i64_max" by (auto simp: sat_add_u64_def i64_max_def u64_max_def min_def split: if_splits)
  have put: "put_diversifier_entry (ax_now_ms ax) (wid, aid) (i + 1) db = Inr db'" using s(5) i(1) by (simp add: put_diversifier_entry_def)
  have low: "s \<le> i" if "diversifier_entry db (wid, aid) = Some s" for s
    using that s(3) next_index_ge(1)[of stored s existing] try_candidates_ok[OF s(4)] by (auto simp: diversifier_entry_def)
  have fresh: "d < i" if d: "d \<in> set ds" for d
  proof -
    obtain x where x: "existing = Some x" "d \<le> x" "d \<le> u64_max" using max_existing_ok[OF s(2)] d by blast
    then have "sat_add_u64 x 1 \<le> i" using next_index_ge(2)[OF x(1), of stored] try_candidates_ok[OF s(4)] by linarith
    then show ?thesis using x i(2) by (auto simp: sat_add_u64_def i64_max_def u64_max_def min_def split: if_splits)
  qed
  show thesis
    by (rule that[of i ds]) (use s put low fresh i(2) rotation.get_put[OF put] try_candidates_ok[OF s(4)] in auto)
qed

section \<open>Runs of calls\<close>

record address_call =
  ac_env :: address_env
  ac_wallet :: uuid
  ac_account :: nat
  ac_type :: address_type

definition call_address :: "address_call \<Rightarrow> app_db \<Rightarrow> (engine_error, address_info) result \<times> app_db" where
  "call_address c db = get_receive_address (ac_env c) (ac_wallet c) (ac_account c) (ac_type c) db"

definition issued_index :: "uuid \<Rightarrow> nat \<Rightarrow> address_call \<Rightarrow> app_db \<Rightarrow> nat list" where
  "issued_index wid aid c db =
     (if ac_wallet c = wid \<and> ac_account c = aid \<and> ac_type c = ShieldedOnly
      then (case fst (call_address c db) of
              Inl _ \<Rightarrow> []
            | Inr info \<Rightarrow> (case parse_u64 (di_diversifier_index info) of None \<Rightarrow> [] | Some i \<Rightarrow> [i]))
      else [])"

primrec issued_indices :: "uuid \<Rightarrow> nat \<Rightarrow> address_call list \<Rightarrow> app_db \<Rightarrow> nat list" where
  "issued_indices wid aid [] db = []"
| "issued_indices wid aid (c # cs) db = issued_index wid aid c db @ issued_indices wid aid cs (snd (call_address c db))"

definition rotation_floor :: "uuid \<Rightarrow> nat \<Rightarrow> app_db \<Rightarrow> nat" where
  "rotation_floor wid aid db = (case diversifier_entry db (wid, aid) of None \<Rightarrow> 0 | Some s \<Rightarrow> s)"

lemma shielded_err: "shielded_address ax wid account hw aid db = (Inl e, db') \<Longrightarrow> db' = db"
  by (auto simp: shielded_address_def split: sum.splits)

text \<open>A call either leaves the database alone, or is a successful shielded one.\<close>

lemma call_cases:
  obtains (same) "snd (call_address c db) = db" "issued_index wid aid c db = []"
  | (shielded) account hw info where "shielded_address (ac_env c) (ac_wallet c) account hw (ac_account c) db = (Inr info, snd (call_address c db))"
      "ac_type c = ShieldedOnly" "fst (call_address c db) = Inr info"
proof (cases "resolve_wallet_account_uuid (ax_accounts (ac_env c)) (ac_account c)")
  case (Inl e)
  then show thesis by (intro same) (auto simp: call_address_def get_receive_address_def issued_index_def)
next
  case (Inr account)
  define hw where "hw = (case get_account db (ac_wallet c) (ac_account c) of None \<Rightarrow> False | Some a \<Rightarrow> ai_account_type a = HardwareSigner)"
  show thesis
  proof (cases "ac_type c")
    case Transparent
    then show thesis using Inr by (intro same) (auto simp: call_address_def get_receive_address_def issued_index_def)
  next
    case ShieldedOnly
    then have c: "call_address c db = shielded_address (ac_env c) (ac_wallet c) account hw (ac_account c) db"
      using Inr by (simp add: call_address_def get_receive_address_def hw_def)
    obtain r db' where r: "shielded_address (ac_env c) (ac_wallet c) account hw (ac_account c) db = (r, db')" by fastforce
    show thesis
    proof (cases r)
      case (Inl e)
      then show thesis using c r shielded_err by (intro same) (auto simp: issued_index_def)
    next
      case (Inr info)
      then show thesis using c r ShieldedOnly by (intro shielded) auto
    qed
  qed
qed

lemma call_floor:
  "rotation_floor wid aid db \<le> rotation_floor wid aid (snd (call_address c db))
   \<and> (\<forall>i \<in> set (issued_index wid aid c db). rotation_floor wid aid db \<le> i \<and> i < rotation_floor wid aid (snd (call_address c db)))
   \<and> length (issued_index wid aid c db) \<le> 1"
proof (cases rule: call_cases[of c db wid aid])
  case same
  then show ?thesis by simp
next
  case (shielded account hw info)
  obtain i where i: "di_diversifier_index info = show_nat i" "diversifier_entry (snd (call_address c db)) (ac_wallet c, ac_account c) = Some (i + 1)"
    "int (i + 1) \<le> i64_max" "\<forall>s. diversifier_entry db (ac_wallet c, ac_account c) = Some s \<longrightarrow> s \<le> i"
    "put_diversifier_entry (ax_now_ms (ac_env c)) (ac_wallet c, ac_account c) (i + 1) db = Inr (snd (call_address c db))"
    using shielded_ok[OF shielded(1)] by metis
  show ?thesis
  proof (cases "(wid, aid) = (ac_wallet c, ac_account c)")
    case True
    have "i \<le> u64_max" using i(3) by (simp add: i64_max_def u64_max_def)
    then have "issued_index wid aid c db = [i]" using True shielded(2,3) i(1) by (simp add: issued_index_def)
    moreover have "rotation_floor wid aid db \<le> i" using True i(4) by (auto simp: rotation_floor_def split: option.splits)
    ultimately show ?thesis using True i(2) by (simp add: rotation_floor_def)
  next
    case False
    have "rotation_floor wid aid (snd (call_address c db)) = rotation_floor wid aid db"
      using rotation.get_put_other[OF i(5) False] by (simp add: rotation_floor_def)
    moreover have "issued_index wid aid c db = []" using False by (auto simp: issued_index_def)
    ultimately show ?thesis by simp
  qed
qed

lemma issued_sorted:
  "sorted_wrt (<) (issued_indices wid aid cs db) \<and> (\<forall>i \<in> set (issued_indices wid aid cs db). rotation_floor wid aid db \<le> i)"
proof (induction cs arbitrary: db)
  case (Cons c cs)
  note f = call_floor[of wid aid db c] and IH = Cons.IH[of "snd (call_address c db)"]
  consider "issued_index wid aid c db = []" | i where "issued_index wid aid c db = [i]"
    using f by (cases "issued_index wid aid c db") auto
  then show ?case
  proof cases
    case 1
    then show ?thesis using f IH by (auto intro: le_trans)
  next
    case (2 i)
    then show ?thesis using f IH by (auto intro: le_trans less_le_trans)
  qed
qed simp

section \<open>Properties\<close>

text \<open>C17: A shielded receive address is never handed out twice.  Over every sequence of requests, for any wallets, accounts and address types,
  with any failures in between, the diversifier indices returned for the shielded addresses of one account strictly increase;
  and each of them is larger than every index the wallet database lists and is the index the returned address was derived for, for a
  hardware account without a Sapling receiver.\<close>

theorem receive_addresses_never_repeat:
  assumes "get_receive_address ax wid aid ShieldedOnly db = (Inr info, db')"
  shows "sorted_wrt (<) (issued_indices w a calls start)
     \<and> (\<exists>account ds i. resolve_wallet_account_uuid (ax_accounts ax) aid = Inr account \<and> ax_existing ax account = Inr ds
          \<and> di_diversifier_index info = show_nat i \<and> (\<forall>d \<in> set ds. d < i)
          \<and> ax_derive ax account (\<not> (case get_account db wid aid of None \<Rightarrow> False | Some x \<Rightarrow> ai_account_type x = HardwareSigner)) i
              = Inr (Some (di_encoded info)))"
proof -
  let ?hw = "case get_account db wid aid of None \<Rightarrow> False | Some x \<Rightarrow> ai_account_type x = HardwareSigner"
  obtain account where a: "resolve_wallet_account_uuid (ax_accounts ax) aid = Inr account"
    "shielded_address ax wid account ?hw aid db = (Inr info, db')"
    using assms by (auto simp: get_receive_address_def split: sum.splits)
  obtain i ds where "di_diversifier_index info = show_nat i" "ax_existing ax account = Inr ds" "\<forall>d \<in> set ds. d < i"
    "ax_derive ax account (\<not> ?hw) i = Inr (Some (di_encoded info))"
    using shielded_ok[OF a(2)] by metis
  then show ?thesis using issued_sorted[of w a calls start] a(1) by blast
qed

definition demo_address_env :: address_env where
  "demo_address_env = \<lparr>ax_accounts = Inr [Inr (Some \<lparr>wa_uuid = ''u'', wa_key_source = None, wa_derivation_index = Some 0\<rparr>)],
     ax_existing = (\<lambda>_. Inr [0, 4]), ax_derive = (\<lambda>_ _ i. Inr (if i = 5 then None else Some ''u1x'')), ax_receivers = (\<lambda>_ _. Inr []),
     ax_force = (\<lambda>_. Inr ()), ax_now_ms = 1\<rparr>"

lemma demo_receive: "\<exists>db'. get_receive_address demo_address_env ''w'' 0 ShieldedOnly demo_spend_db
    = (Inr \<lparr>di_encoded = ''u1x'', di_address_type = ShieldedOnly, di_diversifier_index = ''6''\<rparr>, db')"
proof -
  have "try_candidates (Suc (Suc n)) (\<lambda>i. Inr (if i = 5 then None else Some ''u1x'')) 5 = Inr (6, ''u1x'')" for n
    by (simp add: checked_add_u64_def u64_max_def)
  from this[of 998] have "try_candidates 1000 (\<lambda>i. Inr (if i = 5 then None else Some ''u1x'')) 5 = Inr (6, ''u1x'')" by simp
  moreover have "show_nat 6 = ''6''" by code_simp
  ultimately show ?thesis
    by (simp add: get_receive_address_def demo_address_env_def resolve_wallet_account_uuid_def shielded_address_def get_account_def demo_spend_db_def demo_db_def
        account_of_row_def parse_account_type_def get_next_diversifier_index_def next_index_def sat_add_u64_def u64_max_def set_next_diversifier_index_def
        i64_max_def wallet_exists_def digit_char_def)
qed

theorem receive_addresses_never_repeat_witness:
  "\<exists>i. ''6'' = show_nat i \<and> 4 < i"
proof -
  obtain db' where d: "get_receive_address demo_address_env ''w'' 0 ShieldedOnly demo_spend_db
    = (Inr \<lparr>di_encoded = ''u1x'', di_address_type = ShieldedOnly, di_diversifier_index = ''6''\<rparr>, db')" using demo_receive by blast
  from receive_addresses_never_repeat[OF d, of "''w''" 0 "[]" demo_spend_db] show ?thesis
    by (auto simp: demo_address_env_def)
qed

end
