(* ===== verification/Birthday.thy ===== *)
theory Birthday
  imports Core_Types
begin

text \<open>
  \<open>crates/zbag-engine/src/birthday.rs\<close>: the height from which a restored wallet scans, estimated
  from a date.  Dates are \<open>i64\<close> milliseconds, kept at their width by the saturating operations.
\<close>

section \<open>Model\<close>

definition AVERAGE_BLOCK_TIME_MS :: int where "AVERAGE_BLOCK_TIME_MS = 75000"
definition SAFETY_MARGIN_BLOCKS :: int where "SAFETY_MARGIN_BLOCKS = 300"
definition MAINNET_GENESIS_MS :: int where "MAINNET_GENESIS_MS = 1477612800000"
definition TESTNET_GENESIS_MS :: int where "TESTNET_GENESIS_MS = 1477612800000"

definition MAINNET_CHECKPOINTS :: "(int \<times> int) list" where
  "MAINNET_CHECKPOINTS = [(MAINNET_GENESIS_MS, 0), (1546300800000, 419200),
     (1609459200000, 1046400), (1654041600000, 1687104)]"

definition partition_point :: "('a \<Rightarrow> bool) \<Rightarrow> 'a list \<Rightarrow> nat" where
  "partition_point p xs = length (takeWhile p xs)"

definition clamp_u32 :: "int \<Rightarrow> nat" where
  "clamp_u32 x = nat (max 0 (min (int u32_max) x))"

definition estimate_from_checkpoints :: "(int \<times> int) list \<Rightarrow> int \<Rightarrow> nat" where
  "estimate_from_checkpoints checkpoints birthday_date_ms =
     (if checkpoints = [] then 0
      else if birthday_date_ms \<le> fst (checkpoints ! 0) then 0
      else let idx = partition_point (\<lambda>(ts, _). ts \<le> birthday_date_ms) checkpoints;
               (base_ts, base_height) = checkpoints ! (idx - 1);
               delta_ms = sat_sub_i64 birthday_date_ms base_ts;
               estimated = sat_add_i64 base_height (delta_ms sdiv AVERAGE_BLOCK_TIME_MS);
               estimated_with_margin = sat_sub_i64 estimated SAFETY_MARGIN_BLOCKS
           in clamp_u32 estimated_with_margin)"

definition estimate_linear :: "int \<Rightarrow> int \<Rightarrow> nat" where
  "estimate_linear genesis_ms birthday_date_ms =
     (if birthday_date_ms \<le> genesis_ms then 0
      else let delta_ms = sat_sub_i64 birthday_date_ms genesis_ms;
               estimated = delta_ms sdiv AVERAGE_BLOCK_TIME_MS;
               estimated_with_margin = sat_sub_i64 estimated SAFETY_MARGIN_BLOCKS
           in clamp_u32 estimated_with_margin)"

fun estimate_birthday_height :: "network \<Rightarrow> int \<Rightarrow> nat" where
  "estimate_birthday_height Mainnet d = estimate_from_checkpoints MAINNET_CHECKPOINTS d"
| "estimate_birthday_height Testnet d = estimate_linear TESTNET_GENESIS_MS d"

section \<open>Lemmas\<close>

lemmas birthday_consts = AVERAGE_BLOCK_TIME_MS_def SAFETY_MARGIN_BLOCKS_def MAINNET_GENESIS_MS_def
  TESTNET_GENESIS_MS_def MAINNET_CHECKPOINTS_def

lemma sdiv_pos: "0 \<le> a \<Longrightarrow> 0 < b \<Longrightarrow> a sdiv b = a div (b::int)"
  by (cases "a = 0") (simp_all add: signed_divide_int_def sgn_if)

lemma clamp_u32_mono: "x \<le> y \<Longrightarrow> clamp_u32 x \<le> clamp_u32 y"
  unfolding clamp_u32_def by (intro nat_mono) simp

text \<open>From a checkpoint on, the estimate is the checkpoint's height plus one block per 75 seconds,
  less the margin, clamped to \<open>u32\<close>.\<close>

definition segment_estimate :: "int \<Rightarrow> int \<Rightarrow> int \<Rightarrow> nat" where
  "segment_estimate base_ts base_height d = clamp_u32 (base_height + (d - base_ts) div 75000 - 300)"

lemma saturation_free:
  assumes "0 \<le> base_ts" "base_ts \<le> d" "d \<le> i64_max" "0 \<le> h" "h \<le> int u32_max"
  shows "clamp_u32 (sat_sub_i64 (sat_add_i64 h (sat_sub_i64 d base_ts sdiv 75000)) 300)
           = segment_estimate base_ts h d"
proof -
  have q: "0 \<le> (d - base_ts) div 75000" "(d - base_ts) div 75000 \<le> 200000000000000"
    using assms by (auto simp: i64_max_def)
  have "sat_sub_i64 d base_ts = d - base_ts"
    using assms by (simp add: sat_sub_i64_def clamp_i64_def int_limits)
  then show ?thesis
    using q assms by (simp add: sdiv_pos segment_estimate_def machine_arith int_limits)
qed

lemma segment_estimate_mono: "d \<le> d' \<Longrightarrow> segment_estimate b h d \<le> segment_estimate b h d'"
  unfolding segment_estimate_def by (rule clamp_u32_mono) (simp add: zdiv_mono1)

lemma mainnet_segments:
  assumes "d \<le> i64_max"
  shows "estimate_birthday_height Mainnet d =
    (if d \<le> 1477612800000 then 0
     else if d < 1546300800000 then segment_estimate 1477612800000 0 d
     else if d < 1609459200000 then segment_estimate 1546300800000 419200 d
     else if d < 1654041600000 then segment_estimate 1609459200000 1046400 d
     else segment_estimate 1654041600000 1687104 d)"
  using assms saturation_free[of _ d]
  by (simp add: estimate_from_checkpoints_def birthday_consts partition_point_def int_limits)

lemma testnet_segment:
  assumes "d \<le> i64_max"
  shows "estimate_birthday_height Testnet d =
    (if d \<le> 1477612800000 then 0 else segment_estimate 1477612800000 0 d)"
proof -
  have "sat_add_i64 0 x = x" if "0 \<le> x" "x \<le> i64_max" for x
    using that by (simp add: machine_arith int_limits)
  moreover have "0 \<le> sat_sub_i64 d 1477612800000 sdiv 75000 \<and> sat_sub_i64 d 1477612800000 sdiv 75000 \<le> i64_max"
    if "d > 1477612800000"
  proof -
    have "sat_sub_i64 d 1477612800000 = d - 1477612800000"
      using that assms by (simp add: machine_arith int_limits)
    moreover have "0 \<le> (d - 1477612800000) div 75000" "(d - 1477612800000) div 75000 \<le> i64_max"
      using that assms by (auto simp: int_limits)
    ultimately show ?thesis using that by (simp add: sdiv_pos)
  qed
  ultimately have "d > 1477612800000 \<Longrightarrow> sat_add_i64 0 (sat_sub_i64 d 1477612800000 sdiv 75000)
      = sat_sub_i64 d 1477612800000 sdiv 75000" by simp
  then show ?thesis
    using assms saturation_free[of 1477612800000 d 0]
    by (auto simp add: estimate_linear_def birthday_consts u32_max_def)
qed

section \<open>Properties\<close>

text \<open>Between two checkpoints the estimate is monotone in the date: for dates with no mainnet
  checkpoint after the first and up to the second, a later date never gives an earlier scan start, on
  both networks, up to the end of the \<open>i64\<close> range.\<close>

theorem birthday_monotone_between_checkpoints:
  assumes "d \<le> d'" and "d' \<le> i64_max"
    and "\<forall>(ts, h) \<in> set MAINNET_CHECKPOINTS. \<not> (d < ts \<and> ts \<le> d')"
  shows "estimate_birthday_height Mainnet d \<le> estimate_birthday_height Mainnet d'
       \<and> estimate_birthday_height Testnet d \<le> estimate_birthday_height Testnet d'"
proof -
  have seg: "\<not> (d < 1477612800000 \<and> 1477612800000 \<le> d')" "\<not> (d < 1546300800000 \<and> 1546300800000 \<le> d')"
    "\<not> (d < 1609459200000 \<and> 1609459200000 \<le> d')" "\<not> (d < 1654041600000 \<and> 1654041600000 \<le> d')"
    using assms(3) by (simp_all add: birthday_consts)
  have d: "d \<le> i64_max" using assms by linarith
  note mono = segment_estimate_mono[OF assms(1)]
  show ?thesis
    using seg mono assms(1) unfolding mainnet_segments[OF d] mainnet_segments[OF assms(2)]
      testnet_segment[OF d] testnet_segment[OF assms(2)] by auto
qed

theorem birthday_monotone_between_checkpoints_witness:
  "estimate_birthday_height Mainnet 1700000000000 \<le> estimate_birthday_height Mainnet 1710000000000"
  using birthday_monotone_between_checkpoints[of 1700000000000 1710000000000]
  by (simp add: birthday_consts i64_max_def)

text \<open>The mainnet estimate is not monotone across checkpoints.  A wallet whose first transaction
  is one millisecond before 2021-01-01 is scanned from height 1261011, 214911 blocks later than a
  wallet of the next millisecond, and one just before 2019-01-01 from 915539 instead of 418900: before
  the checkpoint the extrapolation at 75 seconds per block overshoots the height the checkpoint itself
  records, so the estimate is not the conservative one the comment promises.\<close>

theorem birthday_overshoots_checkpoints:
  "estimate_birthday_height Mainnet 1609459199999 = 1261011
   \<and> estimate_birthday_height Mainnet 1609459200000 = 1046100
   \<and> estimate_birthday_height Mainnet 1546300799999 = 915539
   \<and> estimate_birthday_height Mainnet 1546300800000 = 418900"
  by (simp add: mainnet_segments i64_max_def segment_estimate_def clamp_u32_def u32_max_def
      del: estimate_birthday_height.simps)

end
