(* ===== verification/Wallet_Create.thy ===== *)
theory Wallet_Create
  imports Wallet_Manager Birthday
begin

text \<open>
  Creation, restoring and import of wallets and accounts, \<open>create_wallet\<close>, \<open>restore_wallet\<close>, \<open>create_keystone_wallet\<close> and
  \<open>import_ufvk\<close> of \<open>crates/zbag-engine/src/wallet_manager.rs\<close> with \<open>crates/zbag-keystone/src/ufvk.rs\<close>.  Every
  statement commits on its own, so an operation that fails half-way returns the state it has reached.
  The random values of an operation are the fields of \<open>wallet_fresh\<close>.
\<close>

section \<open>Steps with an error\<close>

definition bind_se :: "('e, 'a) result \<times> 's \<Rightarrow> ('a \<Rightarrow> 's \<Rightarrow> ('e, 'b) result \<times> 's) \<Rightarrow> ('e, 'b) result \<times> 's" where
  "bind_se x f = (case x of (Inl e, s) \<Rightarrow> (Inl e, s) | (Inr a, s) \<Rightarrow> f a s)"

lemma bind_se_ok [result_simps]: "bind_se x f = (Inr b, t) \<longleftrightarrow> (\<exists>a s. x = (Inr a, s) \<and> f a s = (Inr b, t))"
  by (auto simp: bind_se_def split: prod.splits sum.splits)

lemma bind_se_simps [simp]: "bind_se (Inl e, s) f = (Inl e, s)" "bind_se (Inr a, s) f = f a s"
  by (simp_all add: bind_se_def)

lemma bind_se_pair: "bind_se x f = (case fst x of Inl e \<Rightarrow> (Inl e, snd x) | Inr a \<Rightarrow> f a (snd x))"
  by (simp add: bind_se_def split: prod.splits sum.splits)

section \<open>Model\<close>

record wallet_fresh =
  wr_id :: uuid
  wr_entropy :: bytes
  wr_dek :: dek
  wr_salt_b64 :: string
  wr_nonce_b64 :: string
  wr_mnemonic_nonce :: bytes
  wr_challenge_id :: string
  wr_pool :: "nat list"

text \<open>The wallet library and the file system as the creation of a wallet sees them.\<close>

record 'u create_env =
  ce_mkdir_ok :: bool
  ce_sapling_activation :: "network \<Rightarrow> nat"
  ce_create_account :: "string \<Rightarrow> bytes \<Rightarrow> nat \<Rightarrow> (string, unit) result"
  ce_update_chain_tip :: "nat \<Rightarrow> (string, unit) result"
  ce_decode_ufvk :: "network \<Rightarrow> string \<Rightarrow> (string, 'u) result"
  ce_hex_decode :: "string \<Rightarrow> (string, bytes) result"
  ce_import_ufvk :: "string \<Rightarrow> 'u \<Rightarrow> nat \<Rightarrow> (bytes \<times> nat) option \<Rightarrow> string \<Rightarrow> (string, unit) result"

definition check_name_and_password :: "string \<Rightarrow> string \<Rightarrow> (engine_error, unit) result" where
  "check_name_and_password name password =
     bind_result (guard_or (trim name \<noteq> []) (ipc_err INVALID_REQUEST ''wallet name must not be empty'')) (\<lambda>_.
     bind_result (guard_or (length name \<le> 50) (ipc_err INVALID_REQUEST ''wallet name must be at most 50 characters'')) (\<lambda>_.
     guard_or (password \<noteq> []) (ipc_err INVALID_REQUEST ''password required'')))"

definition new_wallet_info :: "wallet_env \<Rightarrow> wallet_fresh \<Rightarrow> string \<Rightarrow> wallet_type \<Rightarrow> network \<Rightarrow> wallet_info" where
  "new_wallet_info env fr name ty net = \<lparr>wi_id = wr_id fr, wi_name = name, wi_wallet_type = ty, wi_network = net,
     wi_remember_unlock_enabled = False, wi_created_at = wv_now_ms env, wi_last_opened_at = None\<rparr>"

definition sql_step :: "(app_db \<Rightarrow> (sql_error, app_db) result) \<Rightarrow> ('p, 'q) wallet_manager \<Rightarrow> (engine_error, unit) result \<times> ('p, 'q) wallet_manager" where
  "sql_step f m = (case f (wm_app_db m) of Inl _ \<Rightarrow> (Inl (msg_err ''sql error''), m) | Inr db \<Rightarrow> (Inr (), m\<lparr>wm_app_db := db\<rparr>))"

definition result_step :: "(engine_error, 'a) result \<Rightarrow> 's \<Rightarrow> (engine_error, 'a) result \<times> 's" where
  "result_step r m = (r, m)"

text \<open>The directory, the wallet row, the backup row and the wrapped key of a new wallet.\<close>

definition register_wallet :: "wallet_env \<Rightarrow> 'u create_env \<Rightarrow> wallet_fresh \<Rightarrow> wallet_info \<Rightarrow> (app_db \<Rightarrow> (sql_error, app_db) result)
    \<Rightarrow> string \<Rightarrow> ('p, 'q) wallet_manager \<Rightarrow> (engine_error, unit) result \<times> ('p, 'q) wallet_manager" where
  "register_wallet env ce fr wallet record_backup password m =
     (let dir = wallet_dir (wv_root env) (wi_id wallet) (wi_network wallet);
          kdf = default_kdf_params (wr_salt_b64 fr);
          aead = default_aead_params (wr_nonce_b64 fr) in
      bind_se (result_step (guard_or (ce_mkdir_ok ce)
        (with_context (''failed to create wallet directory: '' @ dir) (msg_err ''io error''))) m) (\<lambda>_ m0.
      bind_se (sql_step (insert_wallet wallet dir) m0) (\<lambda>_ m1.
      bind_se (sql_step record_backup m1) (\<lambda>_ m2.
      bind_se (result_step (wrap_dek (wv_crypto env) (wi_id wallet) (wi_network wallet) password kdf aead (wr_dek fr)) m2) (\<lambda>wrapped m3.
      sql_step (insert_wallet_encryption (wi_id wallet) \<lparr>we_kdf = kdf, we_aead = aead, we_wrapped_dek_b64 = wrapped\<rparr>) m3)))))"

definition open_new_wallet_db :: "wallet_env \<Rightarrow> dek \<Rightarrow> string \<Rightarrow> ('p, 'q) wallet_manager \<Rightarrow> (engine_error, unit) result \<times> ('p, 'q) wallet_manager" where
  "open_new_wallet_db env dek dir m =
     (let (r, f) = open_wallet_db_with_dek (wv_open_db env) dek True (wm_files m dir)
      in (map_err (with_context ''failed to initialize encrypted wallet db'') r, m\<lparr>wm_files := (wm_files m)(dir := f)\<rparr>))"

text \<open>The account birthday is given by the height before it; its own height is one more.\<close>

definition create_seed_account :: "'u create_env \<Rightarrow> string \<Rightarrow> bytes \<Rightarrow> nat \<Rightarrow> (engine_error, unit) result" where
  "create_seed_account ce name seed birthday_height =
     bind_result (map_err (\<lambda>e. with_context ''failed to create wallet account'' (msg_err e))
       (ce_create_account ce name seed (birthday_height - 1))) (\<lambda>_.
     map_err (\<lambda>e. with_context ''failed to set initial chain tip'' (msg_err e)) (ce_update_chain_tip ce (birthday_height - 1 + 1)))"

definition store_encrypted_mnemonic :: "wallet_env \<Rightarrow> uuid \<Rightarrow> network \<Rightarrow> bytes \<Rightarrow> ('p, 'q) wallet_manager
    \<Rightarrow> (engine_error, unit) result \<times> ('p, 'q) wallet_manager" where
  "store_encrypted_mnemonic env wid net bytes m =
     (if wv_store_ok env then (Inr (), m\<lparr>wm_mnemonics := (wm_mnemonics m)((wid, net) \<mapsto> bytes)\<rparr>)
      else (Inl (with_context ''failed to store encrypted mnemonic'' (msg_err ''io error'')), m))"

fun join_words :: "string list \<Rightarrow> string" where
  "join_words [] = []"
| "join_words [w] = w"
| "join_words (w # ws) = w @ '' '' @ join_words ws"

definition encrypt_new_mnemonic :: "wallet_env \<Rightarrow> wallet_fresh \<Rightarrow> wallet_info \<Rightarrow> string list \<Rightarrow> (engine_error, bytes) result" where
  "encrypt_new_mnemonic env fr wallet words =
     map_err (with_context ''failed to encrypt mnemonic'')
       (encrypt_mnemonic (wv_crypto env) (wr_mnemonic_nonce fr) (wi_id wallet) (wi_network wallet) (wr_dek fr) (as_bytes (join_words words)))"

definition insert_first_account :: "wallet_env \<Rightarrow> wallet_info \<Rightarrow> account_type \<Rightarrow> ('p, 'q) wallet_manager
    \<Rightarrow> (engine_error, unit) result \<times> ('p, 'q) wallet_manager" where
  "insert_first_account env wallet ty m =
     (let (r, m') = sql_step (upsert_account (wi_id wallet) \<lparr>ai_id = 0, ai_name = wi_name wallet, ai_account_type = ty\<rparr> (wv_now_ms env)) m
      in (map_err (with_context ''failed to insert account metadata'') r, m'))"

definition unlocked_wallet :: "wallet_env \<Rightarrow> wallet_info \<Rightarrow> dek \<Rightarrow> active_wallet" where
  "unlocked_wallet env wallet dek = \<lparr>aw_wallet = wallet, aw_dir = wallet_dir (wv_root env) (wi_id wallet) (wi_network wallet),
     aw_lock = Unlocked, aw_dek = Some dek, aw_db = True\<rparr>"

section \<open>Software wallets\<close>

definition create_wallet :: "wallet_env \<Rightarrow> 'u create_env \<Rightarrow> wallet_fresh \<Rightarrow> string \<Rightarrow> network \<Rightarrow> string \<Rightarrow> nat option \<Rightarrow> ('p, 'q) wallet_manager
    \<Rightarrow> (engine_error, wallet_info \<times> string list \<times> backup_challenge) result \<times> ('p, 'q) wallet_manager" where
  "create_wallet env ce fr name net password birthday_height m =
     (let wallet = new_wallet_info env fr name SoftwareWallet net;
          dir = wallet_dir (wv_root env) (wi_id wallet) net;
          activation = ce_sapling_activation ce net;
          birthday = max (case birthday_height of None \<Rightarrow> activation | Some h \<Rightarrow> h) activation in
      bind_se (result_step (check_name_and_password name password) m) (\<lambda>_ m0.
      bind_se (result_step (map_err (\<lambda>e. ipc_err INTERNAL_ERROR (''failed to generate mnemonic: '' @ e))
        (ml_from_entropy (wv_mnemonics env) (wr_entropy fr))) m0) (\<lambda>words m1.
      bind_se (result_step (guard_or (length words = 24) (ipc_err INTERNAL_ERROR ''mnemonic must be 24 words'')) m1) (\<lambda>_ m2.
      bind_se (register_wallet env ce fr wallet (set_backup_required (wi_id wallet) True) password m2) (\<lambda>_ m3.
      bind_se (open_new_wallet_db env (wr_dek fr) dir m3) (\<lambda>_ m4.
      bind_se (result_step (create_seed_account ce name (ml_to_seed (wv_mnemonics env) words) birthday) m4) (\<lambda>_ m5.
      bind_se (result_step (encrypt_new_mnemonic env fr wallet words) m5) (\<lambda>encrypted m6.
      bind_se (store_encrypted_mnemonic env (wi_id wallet) net encrypted m6) (\<lambda>_ m7.
      bind_se (insert_first_account env wallet SoftwareAccount m7) (\<lambda>_ m8.
      bind_se (issue_backup_challenge env (wr_challenge_id fr) (wr_pool fr) (wi_id wallet) m8) (\<lambda>challenge m9.
      bind_se (activate_wallet env (unlocked_wallet env wallet (wr_dek fr)) m9) (\<lambda>_ m10.
      (Inr (wallet, words, challenge), m10)))))))))))))"

definition restore_wallet :: "wallet_env \<Rightarrow> 'u create_env \<Rightarrow> wallet_fresh \<Rightarrow> string \<Rightarrow> network \<Rightarrow> string \<Rightarrow> string \<Rightarrow> int option
    \<Rightarrow> ('p, 'q) wallet_manager \<Rightarrow> (engine_error, wallet_info \<times> nat) result \<times> ('p, 'q) wallet_manager" where
  "restore_wallet env ce fr name net password seed_phrase birthday_date_ms m =
     (let wallet = new_wallet_info env fr name SoftwareWallet net;
          dir = wallet_dir (wv_root env) (wi_id wallet) net;
          activation = ce_sapling_activation ce net;
          birthday = max (case birthday_date_ms of None \<Rightarrow> activation | Some ms \<Rightarrow> estimate_birthday_height net ms) activation in
      bind_se (result_step (check_name_and_password name password) m) (\<lambda>_ m0.
      bind_se (result_step (ok_or (ml_parse (wv_mnemonics env) (trim seed_phrase)) (ipc_err INVALID_SEED_PHRASE ''invalid seed phrase'')) m0) (\<lambda>words m1.
      bind_se (result_step (guard_or (length words = 24) (ipc_err INVALID_SEED_PHRASE ''seed phrase must be 24 words'')) m1) (\<lambda>_ m2.
      bind_se (register_wallet env ce fr wallet (mark_backup_complete (wi_id wallet) (wv_now_ms env) ''restore_seed_phrase'') password m2) (\<lambda>_ m3.
      bind_se (result_step (encrypt_new_mnemonic env fr wallet words) m3) (\<lambda>encrypted m4.
      bind_se (open_new_wallet_db env (wr_dek fr) dir m4) (\<lambda>_ m5.
      bind_se (result_step (create_seed_account ce name (ml_to_seed (wv_mnemonics env) words) birthday) m5) (\<lambda>_ m6.
      bind_se (store_encrypted_mnemonic env (wi_id wallet) net encrypted m6) (\<lambda>_ m7.
      bind_se (insert_first_account env wallet SoftwareAccount m7) (\<lambda>_ m8.
      bind_se (activate_wallet env (unlocked_wallet env wallet (wr_dek fr)) m8) (\<lambda>_ m9.
      (Inr (wallet, birthday), m9))))))))))))"

section \<open>Hardware accounts\<close>

definition parse_ufvk :: "(network \<Rightarrow> string \<Rightarrow> (string, 'u) result) \<Rightarrow> string \<Rightarrow> (string, network \<times> 'u) result" where
  "parse_ufvk decode encoding =
     (case decode Mainnet encoding of
        Inr u \<Rightarrow> Inr (Mainnet, u)
      | Inl _ \<Rightarrow> (case decode Testnet encoding of Inr u \<Rightarrow> Inr (Testnet, u) | Inl e \<Rightarrow> Inl e))"

definition checked_ufvk :: "'u create_env \<Rightarrow> network \<Rightarrow> string \<Rightarrow> (engine_error, 'u) result" where
  "checked_ufvk ce net ufvk =
     bind_result (map_err (ipc_err INVALID_UFVK) (parse_ufvk (ce_decode_ufvk ce) ufvk)) (\<lambda>(parsed_net, u).
     bind_result (guard_or (parsed_net = net) (ipc_err INVALID_UFVK ''UFVK network mismatch'')) (\<lambda>_. Inr u))"

definition account_derivation :: "(string \<Rightarrow> (string, bytes) result) \<Rightarrow> string option \<Rightarrow> nat option \<Rightarrow> (engine_error, (bytes \<times> nat) option) result" where
  "account_derivation hex_decode seed_fingerprint zip32_account_index =
     (case (seed_fingerprint, zip32_account_index) of
        (Some fp_hex, Some idx) \<Rightarrow>
          bind_result (map_err (\<lambda>e. ipc_err INVALID_REQUEST (''invalid seed_fingerprint hex: '' @ e)) (hex_decode fp_hex)) (\<lambda>fp.
          bind_result (guard_or (length fp = 32) (ipc_err INVALID_REQUEST ''seed_fingerprint must be 32 bytes'')) (\<lambda>_.
          bind_result (guard_or (idx < 2 ^ 31) (ipc_err INVALID_REQUEST ''invalid zip32_account_index'')) (\<lambda>_.
          Inr (Some (fp, idx)))))
      | _ \<Rightarrow> Inr None)"

definition create_keystone_wallet :: "wallet_env \<Rightarrow> 'u create_env \<Rightarrow> wallet_fresh \<Rightarrow> string \<Rightarrow> network \<Rightarrow> string \<Rightarrow> string \<Rightarrow> nat option
    \<Rightarrow> string option \<Rightarrow> nat option \<Rightarrow> ('p, 'q) wallet_manager
    \<Rightarrow> (engine_error, wallet_info \<times> account_info) result \<times> ('p, 'q) wallet_manager" where
  "create_keystone_wallet env ce fr name net password ufvk birthday_height seed_fingerprint zip32_account_index m =
     (let wallet = new_wallet_info env fr name WatchOnlyWallet net;
          dir = wallet_dir (wv_root env) (wi_id wallet) net;
          activation = ce_sapling_activation ce net;
          birthday = max (case birthday_height of None \<Rightarrow> activation | Some h \<Rightarrow> h) activation in
      bind_se (result_step (check_name_and_password name password) m) (\<lambda>_ m0.
      bind_se (result_step (checked_ufvk ce net ufvk) m0) (\<lambda>u m1.
      bind_se (register_wallet env ce fr wallet (mark_backup_complete (wi_id wallet) (wv_now_ms env) ''keystone_only'') password m1) (\<lambda>_ m2.
      bind_se (open_new_wallet_db env (wr_dek fr) dir m2) (\<lambda>_ m3.
      bind_se (result_step (account_derivation (ce_hex_decode ce) seed_fingerprint zip32_account_index) m3) (\<lambda>derivation m4.
      bind_se (result_step (map_err (\<lambda>e. with_context ''failed to import UFVK into wallet db'' (msg_err e))
        (ce_import_ufvk ce name u (birthday - 1) derivation (key_source_for_account_id 0))) m4) (\<lambda>_ m5.
      bind_se (result_step (map_err (\<lambda>e. with_context ''failed to set initial chain tip'' (msg_err e))
        (ce_update_chain_tip ce (birthday - 1 + 1))) m5) (\<lambda>_ m6.
      bind_se (insert_first_account env wallet HardwareSigner m6) (\<lambda>_ m7.
      bind_se (activate_wallet env (unlocked_wallet env wallet (wr_dek fr)) m7) (\<lambda>_ m8.
      (Inr (wallet, \<lparr>ai_id = 0, ai_name = name, ai_account_type = HardwareSigner\<rparr>), m8)))))))))))"

text \<open>The ids an account of the wallet database occupies: the tagged key source and the derivation index.\<close>

definition account_used_ids :: "wallet_account \<Rightarrow> nat list" where
  "account_used_ids a =
     (case wa_key_source a of None \<Rightarrow> [] | Some ks \<Rightarrow> (case parse_account_id_from_key_source ks of None \<Rightarrow> [] | Some i \<Rightarrow> [i]))
     @ (case wa_derivation_index a of None \<Rightarrow> [] | Some i \<Rightarrow> [i])"

fun load_accounts :: "(string, wallet_account option) result list \<Rightarrow> (engine_error, wallet_account list) result" where
  "load_accounts [] = Inr []"
| "load_accounts (Inl e # as) = Inl (with_context ''failed to load wallet account'' (msg_err e))"
| "load_accounts (Inr None # as) = load_accounts as"
| "load_accounts (Inr (Some a) # as) = bind_result (load_accounts as) (\<lambda>xs. Inr (a # xs))"

definition list_db_accounts :: "wallet_accounts \<Rightarrow> (engine_error, wallet_account list) result" where
  "list_db_accounts accounts =
     bind_result (map_err (\<lambda>e. with_context ''failed to list wallet accounts'' (msg_err e)) accounts) load_accounts"

definition account_index :: "wallet_account \<Rightarrow> nat option" where
  "account_index a =
     (case (case wa_key_source a of None \<Rightarrow> None | Some ks \<Rightarrow> parse_account_id_from_key_source ks) of
        Some i \<Rightarrow> Some i
      | None \<Rightarrow> wa_derivation_index a)"

definition list_wallet_db_account_ids :: "wallet_accounts \<Rightarrow> uuid \<Rightarrow> ('p, 'q) wallet_manager \<Rightarrow> (engine_error, nat list) result" where
  "list_wallet_db_account_ids accounts wid m =
     bind_result (require_unlocked_wallet_db wid m) (\<lambda>_.
     bind_result (list_db_accounts accounts) (\<lambda>as.
     Inr (remdups_adj (sort (List.map_filter account_index as)))))"

definition next_account_id :: "wallet_account list \<Rightarrow> nat" where
  "next_account_id as = sat_add_u32 (fold max (concat (map account_used_ids as)) 0) 1"

definition import_ufvk :: "wallet_env \<Rightarrow> 'u create_env \<Rightarrow> wallet_accounts \<Rightarrow> uuid \<Rightarrow> string \<Rightarrow> string \<Rightarrow> string option \<Rightarrow> nat option
    \<Rightarrow> ('p, 'q) wallet_manager \<Rightarrow> (engine_error, account_info) result \<times> ('p, 'q) wallet_manager" where
  "import_ufvk env ce accounts wid ufvk raw_name seed_fingerprint zip32_account_index m =
     (let name = trim raw_name in
      bind_se (result_step (guard_or (name \<noteq> []) (ipc_err INVALID_REQUEST ''account name required'')) m) (\<lambda>_ m0.
      bind_se (result_step (require_unlocked_wallet_db wid m0) m0) (\<lambda>wallet m1.
      bind_se (result_step (checked_ufvk ce (wi_network wallet) ufvk) m1) (\<lambda>u m2.
      bind_se (result_step (list_db_accounts accounts) m2) (\<lambda>as m3.
      bind_se (result_step (account_derivation (ce_hex_decode ce) seed_fingerprint zip32_account_index) m3) (\<lambda>derivation m4.
      bind_se (result_step (map_err (\<lambda>e. with_context ''failed to import UFVK into wallet db'' (msg_err e))
        (ce_import_ufvk ce name u (ce_sapling_activation ce (wi_network wallet) - 1) derivation
          (key_source_for_account_id (next_account_id as)))) m4) (\<lambda>_ m5.
      let account = \<lparr>ai_id = next_account_id as, ai_name = name, ai_account_type = HardwareSigner\<rparr>;
          (r, m6) = sql_step (upsert_account wid account (wv_now_ms env)) m5
      in (bind_result (map_err (with_context ''failed to insert account metadata'') r) (\<lambda>_. Inr account), m6))))))))"

section \<open>Lemmas\<close>

definition plain_word :: "string \<Rightarrow> bool" where
  "plain_word w \<longleftrightarrow> w \<noteq> [] \<and> list_all (\<lambda>c. \<not> is_ws c \<and> (of_char c :: nat) < 128) w"

lemma split_from_word: "list_all (\<lambda>c. \<not> is_ws c) w \<Longrightarrow> split_whitespace_from cur (w @ s) = split_whitespace_from (cur @ w) s"
  by (induction w arbitrary: cur) auto

lemma split_join_words: "list_all plain_word ws \<Longrightarrow> split_whitespace (join_words ws) = ws"
proof (induction ws rule: join_words.induct)
  case (2 w)
  then show ?case using split_from_word[of w "[]" "[]"] by (simp add: split_whitespace_def plain_word_def list_all_iff)
next
  case (3 w v ws)
  have "is_ws CHR '' ''" by (simp add: is_ws_def)
  then show ?case
    using 3 split_from_word[of w "[]" "'' '' @ join_words (v # ws)"] by (simp add: split_whitespace_def plain_word_def list_all_iff)
qed (simp add: split_whitespace_def)

lemma join_words_ascii: "list_all plain_word ws \<Longrightarrow> list_all (\<lambda>c. (of_char c :: nat) < 128) (join_words ws)"
  by (induction ws rule: join_words.induct) (auto simp: plain_word_def list_all_iff)

lemma utf8_ascii: "list_all (\<lambda>c. (of_char c :: nat) < 128) s \<Longrightarrow> from_utf8 (as_bytes s) = Some s"
proof -
  assume s: "list_all (\<lambda>c. (of_char c :: nat) < 128) s"
  have u: "unat (word_of_nat (of_char c) :: 8 word) = of_char c" for c :: char
    by (simp add: unat_of_nat take_bit_eq_mod)
  show ?thesis using s by (simp add: from_utf8_def as_bytes_def list_all_iff u comp_def map_idI)
qed

lemma sql_step_ok: "sql_step f m = (Inr u, m') \<longleftrightarrow> (\<exists>db. f (wm_app_db m) = Inr db \<and> m' = m\<lparr>wm_app_db := db\<rparr>)"
  by (auto simp: sql_step_def split: sum.splits)

lemma result_step_ok: "result_step r m = (Inr a, m') \<longleftrightarrow> r = Inr a \<and> m' = m"
  by (auto simp: result_step_def)

text \<open>The rows a wallet's secrets are read from, and the statements that leave them alone.\<close>

definition key_rows :: "app_db \<Rightarrow> wallet_row list \<times> wallet_encryption_row list" where
  "key_rows db = (db_wallets db, db_wallet_encryption db)"

lemma key_rows_kept:
  "upsert_account w a t db = Inr db' \<Longrightarrow> key_rows db' = key_rows db"
  "set_backup_required w b db = Inr db' \<Longrightarrow> key_rows db' = key_rows db"
  "mark_backup_complete w t v db = Inr db' \<Longrightarrow> key_rows db' = key_rows db"
  by (auto simp: key_rows_def upsert_account_def set_backup_required_def mark_backup_complete_def split: if_splits)

lemma get_wallet_rows: "key_rows db = key_rows db' \<Longrightarrow> get_wallet db w = get_wallet db' w"
  by (simp add: get_wallet_def key_rows_def)

lemma unwrap_rows: "key_rows db = key_rows db' \<Longrightarrow> unwrap_stored_dek env wl w pw db = unwrap_stored_dek env wl w pw db'"
  by (simp add: unwrap_stored_dek_def get_wallet_encryption_def key_rows_def)

lemma insert_wallet_get:
  "insert_wallet wl dir db = Inr db' \<Longrightarrow> get_wallet db' (wi_id wl) = Some (wl, dir) \<and> db_wallet_encryption db' = db_wallet_encryption db"
  by (auto simp: insert_wallet_def wallet_exists_def get_wallet_def find_append simp flip: find_none_list_ex
      simp add: wallet_of_row_def split: if_splits)

lemma insert_encryption_get:
  assumes "insert_wallet_encryption w \<lparr>we_kdf = default_kdf_params salt, we_aead = default_aead_params nonce, we_wrapped_dek_b64 = wrapped\<rparr> db = Inr db'"
  shows "get_wallet_encryption db' w = Some \<lparr>we_kdf = default_kdf_params salt, we_aead = default_aead_params nonce, we_wrapped_dek_b64 = wrapped\<rparr>"
    and "db_wallets db' = db_wallets db"
proof -
  have "find (\<lambda>r. e_wallet_id r = w) (db_wallet_encryption db) = None"
    using assms by (simp add: insert_wallet_encryption_def find_none_list_ex split: if_splits)
  then show "get_wallet_encryption db' w = Some \<lparr>we_kdf = default_kdf_params salt, we_aead = default_aead_params nonce, we_wrapped_dek_b64 = wrapped\<rparr>"
    using assms
    by (auto simp: insert_wallet_encryption_def get_wallet_encryption_def find_append default_kdf_params_def default_aead_params_def
        encryption_consts u32_max_def split: if_splits)
  show "db_wallets db' = db_wallets db" using assms by (auto simp: insert_wallet_encryption_def split: if_splits)
qed

lemma register_wallet_ok:
  assumes reg: "register_wallet env ce fr wl backup pw m = (Inr u, m')"
    and bk: "\<And>db db'. backup db = Inr db' \<Longrightarrow> key_rows db' = key_rows db"
    and cx: "crypto_ok (wv_crypto env)" "length (wr_dek fr) = 32"
  shows "get_wallet (wm_app_db m') (wi_id wl) = Some (wl, wallet_dir (wv_root env) (wi_id wl) (wi_network wl))"
    and "unwrap_stored_dek env wl (wi_id wl) pw (wm_app_db m') = Inr (wr_dek fr)"
proof -
  let ?dir = "wallet_dir (wv_root env) (wi_id wl) (wi_network wl)"
  let ?kdf = "default_kdf_params (wr_salt_b64 fr)" and ?aead = "default_aead_params (wr_nonce_b64 fr)"
  obtain db1 db2 db3 wrapped where s: "insert_wallet wl ?dir (wm_app_db m) = Inr db1" "backup db1 = Inr db2"
    "wrap_dek (wv_crypto env) (wi_id wl) (wi_network wl) pw ?kdf ?aead (wr_dek fr) = Inr wrapped"
    "insert_wallet_encryption (wi_id wl) \<lparr>we_kdf = ?kdf, we_aead = ?aead, we_wrapped_dek_b64 = wrapped\<rparr> db2 = Inr db3"
    "wm_app_db m' = db3"
    using reg by (auto simp: register_wallet_def Let_def bind_se_ok sql_step_ok result_step_ok)
  have "get_wallet db2 (wi_id wl) = Some (wl, ?dir)"
    using insert_wallet_get[OF s(1)] get_wallet_rows[OF bk[OF s(2)]] by simp
  then show "get_wallet (wm_app_db m') (wi_id wl) = Some (wl, ?dir)"
    using insert_encryption_get(2)[OF s(4)] s(5) by (simp add: get_wallet_def)
  show "unwrap_stored_dek env wl (wi_id wl) pw (wm_app_db m') = Inr (wr_dek fr)"
    using insert_encryption_get(1)[OF s(4)] wrap_unwrap[OF cx s(3)] s(5) by (simp add: unwrap_stored_dek_def)
qed

text \<open>A wallet whose secrets can be read back: its row, its key under the password, its phrase under the key.\<close>

definition has_secrets :: "wallet_env \<Rightarrow> wallet_info \<Rightarrow> string \<Rightarrow> dek \<Rightarrow> string list \<Rightarrow> ('p, 'q) wallet_manager \<Rightarrow> bool" where
  "has_secrets env wl pw dek words m \<longleftrightarrow>
     get_wallet (wm_app_db m) (wi_id wl) = Some (wl, wallet_dir (wv_root env) (wi_id wl) (wi_network wl))
   \<and> unwrap_stored_dek env wl (wi_id wl) pw (wm_app_db m) = Inr dek
   \<and> (\<exists>b. wm_mnemonics m (wi_id wl, wi_network wl) = Some b
        \<and> decrypt_mnemonic_bytes (wv_crypto env) (wi_id wl) (wi_network wl) dek b = Inr (as_bytes (join_words words)))"

lemma has_secrets_cong:
  "key_rows (wm_app_db m) = key_rows (wm_app_db m') \<Longrightarrow> wm_mnemonics m = wm_mnemonics m' \<Longrightarrow>
     has_secrets env wl pw dek words m \<longleftrightarrow> has_secrets env wl pw dek words m'"
  using get_wallet_rows[of "wm_app_db m" "wm_app_db m'"] unwrap_rows[of "wm_app_db m" "wm_app_db m'"] by (simp add: has_secrets_def)

lemma has_secretsI:
  assumes "register_wallet env ce fr wl backup pw m = (Inr u, m3)" "\<And>db db'. backup db = Inr db' \<Longrightarrow> key_rows db' = key_rows db"
    and "crypto_ok (wv_crypto env)" "length (wr_dek fr) = 32" "length (wr_mnemonic_nonce fr) = 24"
    and "encrypt_new_mnemonic env fr wl words = Inr b" "wm_mnemonics m' (wi_id wl, wi_network wl) = Some b"
    and "key_rows (wm_app_db m') = key_rows (wm_app_db m3)"
  shows "has_secrets env wl pw (wr_dek fr) words m'"
  using register_wallet_ok[OF assms(1,2,3,4)] get_wallet_rows[OF assms(8)] unwrap_rows[OF assms(8)]
    mnemonic_roundtrip[OF assms(3,5)] assms(6,7) by (auto simp: has_secrets_def encrypt_new_mnemonic_def)

lemmas wallet_steps = bind_se_ok sql_step_ok result_step_ok

lemma open_new_frame:
  "open_new_wallet_db env dek dir m = (r, m') \<Longrightarrow> wm_app_db m' = wm_app_db m \<and> wm_mnemonics m' = wm_mnemonics m"
  by (auto simp: open_new_wallet_db_def split: prod.splits)

lemma insert_first_frame:
  "insert_first_account env wl ty m = (r, m') \<Longrightarrow> key_rows (wm_app_db m') = key_rows (wm_app_db m) \<and> wm_mnemonics m' = wm_mnemonics m"
  by (auto simp: insert_first_account_def sql_step_def key_rows_kept split: prod.splits sum.splits)

lemma issue_challenge_frame:
  "issue_backup_challenge env i pool w m = (r, m') \<Longrightarrow> wm_app_db m' = wm_app_db m \<and> wm_mnemonics m' = wm_mnemonics m"
  by (auto simp: issue_backup_challenge_def Let_def split: option.splits)

lemma activate_frame_pair:
  "activate_wallet env a m = (r, m') \<Longrightarrow> wm_app_db m' = wm_app_db m \<and> wm_mnemonics m' = wm_mnemonics m \<and> wm_active m' = Some a
     \<and> wm_reauth m' = wm_reauth m"
  using activate_frame[of env a m] by auto

lemma store_mnemonic_ok:
  "store_encrypted_mnemonic env w net b m = (Inr u, m') \<Longrightarrow> wm_mnemonics m' (w, net) = Some b \<and> wm_app_db m' = wm_app_db m"
  by (auto simp: store_encrypted_mnemonic_def split: if_splits)

lemma create_wallet_secrets:
  assumes "create_wallet env ce fr name net pw bh m = (Inr (wl, words, ch), m')"
    and "crypto_ok (wv_crypto env)" "length (wr_dek fr) = 32" "length (wr_mnemonic_nonce fr) = 24"
  shows "has_secrets env wl pw (wr_dek fr) words m'" and "wl = new_wallet_info env fr name SoftwareWallet net" and "length words = 24"
    and "pw \<noteq> []" and "wm_active m' = Some (unlocked_wallet env wl (wr_dek fr))"
proof -
  let ?wl = "new_wallet_info env fr name SoftwareWallet net"
  let ?dir = "wallet_dir (wv_root env) (wi_id ?wl) net"
  obtain m3 m4 m6 m7 m8 enc where s:
    "check_name_and_password name pw = Inr ()" "length words = 24"
    "register_wallet env ce fr ?wl (set_backup_required (wi_id ?wl) True) pw m = (Inr (), m3)"
    "open_new_wallet_db env (wr_dek fr) ?dir m3 = (Inr (), m4)"
    "encrypt_new_mnemonic env fr ?wl words = Inr enc"
    "store_encrypted_mnemonic env (wi_id ?wl) net enc m4 = (Inr (), m6)"
    "insert_first_account env ?wl SoftwareAccount m6 = (Inr (), m7)"
    "issue_backup_challenge env (wr_challenge_id fr) (wr_pool fr) (wi_id ?wl) m7 = (Inr ch, m8)"
    "activate_wallet env (unlocked_wallet env ?wl (wr_dek fr)) m8 = (Inr (), m')" "wl = ?wl"
    using assms(1) by (auto simp: create_wallet_def Let_def wallet_steps)
  have "wm_mnemonics m' (wi_id ?wl, wi_network ?wl) = Some enc" "key_rows (wm_app_db m') = key_rows (wm_app_db m3)"
    using open_new_frame[OF s(4)] store_mnemonic_ok[OF s(6)] insert_first_frame[OF s(7)] issue_challenge_frame[OF s(8)]
      activate_frame_pair[OF s(9)] by (simp_all add: new_wallet_info_def)
  then show "has_secrets env wl pw (wr_dek fr) words m'"
    using has_secretsI[OF s(3) key_rows_kept(2) assms(2,3,4) s(5)] s(10) by simp
  show "wl = ?wl" "length words = 24" using s(2,10) by simp_all
  show "pw \<noteq> []" using s(1) by (auto simp: check_name_and_password_def bind_result_ok)
  show "wm_active m' = Some (unlocked_wallet env wl (wr_dek fr))" using activate_frame_pair[OF s(9)] s(10) by simp
qed

text \<open>Storage that works: the files can be read, the database opens and migrates, the clock is after 1970.\<close>

definition storage_healthy :: "wallet_env \<Rightarrow> bool" where
  "storage_healthy env \<longleftrightarrow> wv_read_ok env \<and> io_read_dir_ok (wv_io env) \<and> 0 \<le> wv_now env \<and> wv_now env div 1000000 \<le> i64_max
     \<and> do_secure_dir_ok (wv_open_db env) \<and> do_copy_ok (wv_open_db env) \<and> do_permissions_ok (wv_open_db env)
     \<and> (\<forall>k c. fst (do_migrate (wv_open_db env) k False c) = Inr ())"

lemma healthy_activate: "storage_healthy env \<Longrightarrow> fst (activate_wallet env a m) = Inr ()"
  by (rule activate_ok[of env "wv_now env div 1000000"]) (simp_all add: storage_healthy_def to_unix_ms_def)

lemma healthy_open: "storage_healthy env \<Longrightarrow> fst (open_wallet_db_with_dek (wv_open_db env) k False f) = Inr ()"
  unfolding storage_healthy_def
  by (cases "do_migrate (wv_open_db env) k False (wf_db f)"; auto simp: open_wallet_db_with_dek_def Let_def split: sum.splits)
    (metis Inl_Inr_False fst_conv)+

lemma set_remember_get:
  "get_wallet db w = Some (wl, dir) \<Longrightarrow> \<not> wi_remember_unlock_enabled wl \<Longrightarrow> get_wallet (set_remember_unlock_enabled w False db) w = Some (wl, dir)"
  by (auto simp: get_wallet_def set_remember_unlock_enabled_def find_map_same wallet_of_row_def sql_bool_def)

lemma unlock_with_password:
  assumes s: "has_secrets env wl pw dek words m" and h: "storage_healthy env" and r: "\<not> wi_remember_unlock_enabled wl"
  obtains m' where "unlock_wallet env (wi_id wl) pw m = (Inr Unlocked, m')" "has_secrets env wl pw dek words m'"
    "wm_active m' = Some (unlocked_wallet env wl dek)" "wm_reauth m' = wm_reauth m"
proof -
  let ?dir = "wallet_dir (wv_root env) (wi_id wl) (wi_network wl)"
  obtain f where f: "open_wallet_db_with_dek (wv_open_db env) dek False (wm_files m ?dir) = (Inr (), f)"
    using healthy_open[OF h, of dek "wm_files m ?dir"] by (metis prod.collapse)
  define m1 where "m1 = m\<lparr>wm_files := (wm_files m)(?dir := f), wm_app_db := set_remember_unlock_enabled (wi_id wl) False (wm_app_db m)\<rparr>"
  obtain m' where m': "activate_wallet env (unlocked_wallet env wl dek) m1 = (Inr (), m')"
    using healthy_activate[OF h] by (metis prod.collapse)
  have u: "unlock_wallet env (wi_id wl) pw m = (Inr Unlocked, m')"
    using s f m' by (simp add: unlock_wallet_def has_secrets_def m1_def unlocked_wallet_def)
  have "has_secrets env wl pw dek words m'"
    using s activate_frame_pair[OF m'] set_remember_get[OF _ r]
    by (simp add: has_secrets_def m1_def unwrap_stored_dek_def get_wallet_encryption_def set_remember_unlock_enabled_def)
  then show ?thesis using that[OF u] activate_frame_pair[OF m'] by (simp add: m1_def)
qed

lemma reauth_with_password:
  assumes "has_secrets env wl pw dek words m" and "pw \<noteq> []"
  shows "reauth_wallet env tok (wi_id wl) pw purpose m = (Inr (tok, wv_now env + secs 120),
     m\<lparr>wm_reauth := (wm_reauth m)(tok \<mapsto> \<lparr>tr_wallet_id = wi_id wl, tr_purpose = purpose, tr_expires_at = wv_now env + secs 120, tr_used = False\<rparr>)\<rparr>)"
  using assms by (simp add: reauth_wallet_def has_secrets_def reauth_issue_def guard_or_def Let_def)

lemma view_seed_ok:
  assumes "has_secrets env wl pw dek words m" and "wm_active m = Some (unlocked_wallet env wl dek)" and "wi_wallet_type wl = SoftwareWallet"
    and "wv_read_ok env" and "list_all plain_word words"
    and "fst (validate_and_consume (wv_now env) tok (wi_id wl) ViewSeedPhrase (wm_reauth m)) = Inr ()"
  shows "fst (view_seed_phrase env (wi_id wl) tok m) = Inr words"
proof -
  obtain m1 where m1: "consume_reauth_token env (wi_id wl) tok ViewSeedPhrase m = (Inr (), m1)"
    "wm_active m1 = wm_active m" "wm_mnemonics m1 = wm_mnemonics m"
    using consume_ok_iff[of env "wi_id wl" tok ViewSeedPhrase m "()"] assms(6) consume_frame[of env "wi_id wl" tok ViewSeedPhrase m]
    by (metis prod.collapse)
  have "require_unlocked_wallet_snapshot (wi_id wl) m1 = Inr (wl, dek)"
    using m1(2) assms(2) by (simp add: require_unlocked_wallet_snapshot_def unlocked_wallet_def)
  moreover have "decrypt_mnemonic env (wi_id wl) (wi_network wl) dek m1 = Inr (join_words words)"
    using assms(1,4) m1(3) utf8_ascii[OF join_words_ascii[OF assms(5)]]
    by (auto simp: decrypt_mnemonic_def load_encrypted_mnemonic_def has_secrets_def)
  ultimately show ?thesis
    using m1(1) assms(2,3) split_join_words[OF assms(5)] by (simp add: view_seed_phrase_def active_watch_only_def unlocked_wallet_def)
qed

lemma has_secrets_env:
  "wv_crypto env' = wv_crypto env \<Longrightarrow> wv_root env' = wv_root env \<Longrightarrow> has_secrets env' wl pw dek words m = has_secrets env wl pw dek words m"
  by (simp add: has_secrets_def unwrap_stored_dek_def)

lemma lock_frame:
  "wm_app_db (snd (lock_wallet env w m)) = wm_app_db m" "wm_mnemonics (snd (lock_wallet env w m)) = wm_mnemonics m"
  by (simp_all add: lock_wallet_def split: option.splits)

section \<open>Properties\<close>

text \<open>A new wallet can be opened again and its words read back, and only with re-authentication.  When \<open>create_wallet\<close> has
  returned 24 words, then after the wallet is locked the password given at creation unlocks it, the password obtains a token for
  viewing the phrase, and \<open>view_seed_phrase\<close> with this token returns exactly the words shown at creation.  It is assumed that the
  ciphers decrypt what they encrypted, that the storage works at the later time, and that the words are ASCII without
  white space, as the English BIP-39 words are.\<close>

theorem created_seed_recoverable:
  assumes "create_wallet env ce fr name net pw bh m = (Inr (wl, words, ch), m1)"
    and "crypto_ok (wv_crypto env)" and "length (wr_dek fr) = 32" and "length (wr_mnemonic_nonce fr) = 24"
    and "list_all plain_word words"
    and "wv_crypto env' = wv_crypto env" and "wv_root env' = wv_root env" and "storage_healthy env'"
  shows "\<exists>m3 m4. unlock_wallet env' (wi_id wl) pw (snd (lock_wallet env' (wi_id wl) m1)) = (Inr Unlocked, m3)
     \<and> reauth_wallet env' tok (wi_id wl) pw ViewSeedPhrase m3 = (Inr (tok, wv_now env' + secs 120), m4)
     \<and> fst (view_seed_phrase env' (wi_id wl) tok m4) = Inr words \<and> length words = 24"
proof -
  note c = create_wallet_secrets[OF assms(1-4)]
  have wl: "\<not> wi_remember_unlock_enabled wl" "wi_wallet_type wl = SoftwareWallet" using c(2) by (simp_all add: new_wallet_info_def)
  have "has_secrets env' wl pw (wr_dek fr) words (snd (lock_wallet env' (wi_id wl) m1))"
    using iffD2[OF has_secrets_env[OF assms(6,7)] c(1)] has_secrets_cong[of "snd (lock_wallet env' (wi_id wl) m1)" m1]
    by (simp add: lock_frame)
  then obtain m3 where m3: "unlock_wallet env' (wi_id wl) pw (snd (lock_wallet env' (wi_id wl) m1)) = (Inr Unlocked, m3)"
    "has_secrets env' wl pw (wr_dek fr) words m3" "wm_active m3 = Some (unlocked_wallet env' wl (wr_dek fr))"
    using unlock_with_password[OF _ assms(8) wl(1)] by metis
  define m4 where "m4 = snd (reauth_wallet env' tok (wi_id wl) pw ViewSeedPhrase m3)"
  note r = reauth_with_password[OF m3(2) c(4), of tok ViewSeedPhrase]
  have "has_secrets env' wl pw (wr_dek fr) words m4" "wm_active m4 = Some (unlocked_wallet env' wl (wr_dek fr))"
    using m3(2,3) r has_secrets_cong[of m4 m3] by (simp_all add: m4_def)
  moreover have "fst (validate_and_consume (wv_now env') tok (wi_id wl) ViewSeedPhrase (wm_reauth m4)) = Inr ()"
    using r by (simp add: m4_def validate_ok_iff secs_def)
  ultimately have "fst (view_seed_phrase env' (wi_id wl) tok m4) = Inr words"
    using assms(8) by (intro view_seed_ok[OF _ _ wl(2) _ assms(5)]) (simp_all add: storage_healthy_def)
  then show ?thesis using m3(1) r c(3) by (simp add: m4_def)
qed

definition demo_words :: "string list" where "demo_words = replicate 24 ''abandon''"

definition demo_db_open :: db_open_env where
  "demo_db_open = \<lparr>do_dir_exists = True, do_secure_dir_ok = True, do_copy_ok = True, do_permissions_ok = True,
     do_migrate = (\<lambda>_ _ c. (Inr (), c)), do_restore_ok = True, do_remove_ok = True\<rparr>"

definition demo_wallet_env :: wallet_env where
  "demo_wallet_env = \<lparr>wv_crypto = demo_crypto,
     wv_mnemonics = \<lparr>ml_from_entropy = (\<lambda>_. Inr demo_words), ml_parse = (\<lambda>_. Some demo_words), ml_to_seed = (\<lambda>_. [1]),
       ml_spending_key = (\<lambda>_ _ _. Inr ''usk'')\<rparr>,
     wv_root = ''r'', wv_now = 0, wv_now_ms = 0, wv_io = demo_io, wv_open_db = demo_db_open, wv_store_ok = True, wv_read_ok = True,
     wv_summary = Inr None, wv_url_parser = demo_url_parser, wv_debug = False, wv_env_url = None\<rparr>"

definition demo_create_env :: "unit create_env" where
  "demo_create_env = \<lparr>ce_mkdir_ok = True, ce_sapling_activation = (\<lambda>_. 419200), ce_create_account = (\<lambda>_ _ _. Inr ()),
     ce_update_chain_tip = (\<lambda>_. Inr ()), ce_decode_ufvk = (\<lambda>_ _. Inr ()), ce_hex_decode = (\<lambda>_. Inr []),
     ce_import_ufvk = (\<lambda>_ _ _ _ _. Inr ())\<rparr>"

definition demo_fresh :: wallet_fresh where
  "demo_fresh = \<lparr>wr_id = ''w'', wr_entropy = [], wr_dek = replicate 32 9, wr_salt_b64 = ''s'', wr_nonce_b64 = replicate 24 CHR ''n'',
     wr_mnemonic_nonce = replicate 24 0, wr_challenge_id = ''c'', wr_pool = [1..<25]\<rparr>"

definition demo_empty_db :: app_db where
  "demo_empty_db = \<lparr>db_wallets = [], db_accounts = [], db_wallet_encryption = [], db_backup_status = [], db_servers = [], db_tor = None,
     db_swaps = [], db_rotation = [], db_fiat = None, db_migrations = []\<rparr>"

definition demo_manager :: "(unit, unit) wallet_manager" where
  "demo_manager = wallet_manager_new demo_empty_db tx_service_new Map.empty (\<lambda>_. \<lparr>wf_db = None, wf_snapshot = None\<rparr>) (\<lambda>_. demo_dir) demo_dir"

lemma demo_healthy: "storage_healthy demo_wallet_env"
  by (simp add: storage_healthy_def demo_wallet_env_def demo_io_def demo_db_open_def i64_max_def)

lemma demo_activate: "activate_wallet demo_wallet_env a m = (Inr (), snd (activate_wallet demo_wallet_env a m))"
  using healthy_activate[OF demo_healthy, of a m] by (metis prod.collapse)

lemma demo_wrap: "\<exists>x. wrap_dek demo_crypto ''w'' Mainnet ''pw'' (default_kdf_params ''s'') (default_aead_params (replicate 24 CHR ''n'')) (replicate 32 9) = Inr x"
  by (simp add: wrap_dek_def validate_and_decode_kdf_salt_def validate_and_decode_aead_nonce_def derive_kek_def decode_exact_def
        default_kdf_params_def default_aead_params_def encryption_consts guard_or_def demo_crypto_def u32_max_def)

lemma demo_register:
  "\<exists>m'. register_wallet demo_wallet_env demo_create_env demo_fresh (new_wallet_info demo_wallet_env demo_fresh ''n'' SoftwareWallet Mainnet)
      (set_backup_required ''w'' True) ''pw'' demo_manager = (Inr (), m') \<and> wallet_exists (wm_app_db m') ''w''"
proof -
  obtain x where x: "wrap_dek demo_crypto ''w'' Mainnet ''pw'' (default_kdf_params ''s'') (default_aead_params (replicate 24 CHR ''n'')) (replicate 32 9) = Inr x"
    using demo_wrap by blast
  have f: "wr_id demo_fresh = ''w''" "wr_dek demo_fresh = replicate 32 9" "wr_salt_b64 demo_fresh = ''s''"
    "wr_nonce_b64 demo_fresh = replicate 24 CHR ''n''" "wv_crypto demo_wallet_env = demo_crypto" "ce_mkdir_ok demo_create_env"
    "wm_app_db demo_manager = demo_empty_db"
    by (simp_all add: demo_fresh_def demo_wallet_env_def demo_create_env_def demo_manager_def wallet_manager_new_def)
  show ?thesis
    by (simp add: register_wallet_def Let_def result_step_def guard_or_def sql_step_def new_wallet_info_def f x insert_wallet_def
        wallet_exists_def demo_empty_db_def set_backup_required_def insert_wallet_encryption_def upsert_rows_def)
qed

lemma demo_open: "\<exists>f. open_new_wallet_db demo_wallet_env k dir m = (Inr (), m\<lparr>wm_files := f\<rparr>)"
  by (auto simp: open_new_wallet_db_def open_wallet_db_with_dek_def demo_wallet_env_def demo_db_open_def Let_def)

lemma insert_first_ok:
  "wallet_exists (wm_app_db m) (wi_id wl) \<Longrightarrow>
     \<exists>db. insert_first_account env wl ty m = (Inr (), m\<lparr>wm_app_db := db\<rparr>) \<and> wallet_exists db (wi_id wl)"
  by (auto simp: insert_first_account_def sql_step_def upsert_account_def wallet_exists_def)

lemma issue_challenge_ok:
  "wallet_exists (wm_app_db m) w \<Longrightarrow> \<exists>ch m'. issue_backup_challenge env i pool w m = (Inr ch, m')"
  using find_none_list_ex[of "\<lambda>r. w_id r = w" "db_wallets (wm_app_db m)"]
  by (auto simp: issue_backup_challenge_def get_wallet_def wallet_exists_def Let_def)

lemma demo_create:
  "\<exists>ch m1. create_wallet demo_wallet_env demo_create_env demo_fresh ''n'' Mainnet ''pw'' None demo_manager
     = (Inr (new_wallet_info demo_wallet_env demo_fresh ''n'' SoftwareWallet Mainnet, demo_words, ch), m1)"
proof -
  let ?wl = "new_wallet_info demo_wallet_env demo_fresh ''n'' SoftwareWallet Mainnet"
  have wl: "wi_id ?wl = ''w''" by (simp add: new_wallet_info_def demo_fresh_def)
  obtain m3 where m3: "register_wallet demo_wallet_env demo_create_env demo_fresh ?wl (set_backup_required ''w'' True) ''pw'' demo_manager = (Inr (), m3)"
    "wallet_exists (wm_app_db m3) ''w''" using demo_register by blast
  obtain f where f: "open_new_wallet_db demo_wallet_env (wr_dek demo_fresh) (wallet_dir (wv_root demo_wallet_env) ''w'' Mainnet) m3 = (Inr (), m3\<lparr>wm_files := f\<rparr>)"
    using demo_open by blast
  obtain enc where enc: "encrypt_new_mnemonic demo_wallet_env demo_fresh ?wl demo_words = Inr enc"
    by (simp add: encrypt_new_mnemonic_def encrypt_mnemonic_def demo_wallet_env_def demo_crypto_def)
  define m6 where "m6 = m3\<lparr>wm_files := f, wm_mnemonics := (wm_mnemonics m3)((''w'', Mainnet) \<mapsto> enc)\<rparr>"
  have st: "store_encrypted_mnemonic demo_wallet_env ''w'' Mainnet enc (m3\<lparr>wm_files := f\<rparr>) = (Inr (), m6)"
    by (simp add: store_encrypted_mnemonic_def demo_wallet_env_def m6_def)
  obtain db where db: "insert_first_account demo_wallet_env ?wl SoftwareAccount m6 = (Inr (), m6\<lparr>wm_app_db := db\<rparr>)" "wallet_exists db ''w''"
    using insert_first_ok[of m6 ?wl demo_wallet_env SoftwareAccount] m3(2) wl by (auto simp: m6_def)
  obtain ch m9 where ch: "issue_backup_challenge demo_wallet_env (wr_challenge_id demo_fresh) (wr_pool demo_fresh) ''w'' (m6\<lparr>wm_app_db := db\<rparr>) = (Inr ch, m9)"
    using issue_challenge_ok[of "m6\<lparr>wm_app_db := db\<rparr>" "''w''" demo_wallet_env] db(2) by fastforce
  obtain m10 where act: "activate_wallet demo_wallet_env (unlocked_wallet demo_wallet_env ?wl (wr_dek demo_fresh)) m9 = (Inr (), m10)"
    using demo_activate by blast
  have acc: "create_seed_account demo_create_env n sd h = Inr ()" for n sd h by (simp add: create_seed_account_def demo_create_env_def)
  have lib: "ml_from_entropy (wv_mnemonics demo_wallet_env) e = Inr demo_words" "length demo_words = 24" for e
    by (simp_all add: demo_wallet_env_def demo_words_def)
  have chk: "check_name_and_password ''n'' ''pw'' = Inr ()"
    by (simp add: check_name_and_password_def guard_or_def trim_def trim_start_def trim_end_def is_ws_def)
  have g: "guard_or True e = Inr ()" for e :: engine_error by (simp add: guard_or_def)
  show ?thesis
    unfolding create_wallet_def Let_def wl chk lib g
    by (simp add: result_step_def m3(1) f acc enc st db(1) ch act lib g)
qed

theorem created_seed_recoverable_witness:
  "\<exists>m1 m3 m4. unlock_wallet demo_wallet_env ''w'' ''pw'' (snd (lock_wallet demo_wallet_env ''w'' m1)) = (Inr Unlocked, m3)
     \<and> reauth_wallet demo_wallet_env ''t'' ''w'' ''pw'' ViewSeedPhrase m3 = (Inr (''t'', secs 120), m4)
     \<and> fst (view_seed_phrase demo_wallet_env ''w'' ''t'' m4) = Inr demo_words
     \<and> m1 = snd (create_wallet demo_wallet_env demo_create_env demo_fresh ''n'' Mainnet ''pw'' None demo_manager)"
proof -
  obtain ch m1 where c: "create_wallet demo_wallet_env demo_create_env demo_fresh ''n'' Mainnet ''pw'' None demo_manager
     = (Inr (new_wallet_info demo_wallet_env demo_fresh ''n'' SoftwareWallet Mainnet, demo_words, ch), m1)"
    using demo_create by blast
  have h: "crypto_ok (wv_crypto demo_wallet_env)" "length (wr_dek demo_fresh) = 32" "length (wr_mnemonic_nonce demo_fresh) = 24"
    "list_all plain_word demo_words" "wi_id (new_wallet_info demo_wallet_env demo_fresh ''n'' SoftwareWallet Mainnet) = ''w''"
    "wv_now demo_wallet_env = 0"
    using demo_crypto_ok by (simp_all add: demo_wallet_env_def demo_fresh_def demo_words_def plain_word_def is_ws_def new_wallet_info_def list_all_iff)
  show ?thesis
    using created_seed_recoverable[OF c h(1-4) refl refl demo_healthy, of "''t''"] c h(5,6) by auto
qed

end
