(* ===== verification/Wallet_Tx.thy ===== *)
theory Wallet_Tx
  imports Wallet_Create
begin

text \<open>
  The transaction entry points of \<open>crates/zbag-engine/src/wallet_manager.rs\<close>: preparing sends, hardware signatures, shieldings,
  retries and background jobs under the lock of the manager, and executing a prepared task outside it with a transaction service
  of its own.
\<close>

section \<open>Context of a transaction\<close>

record tx_context =
  tc_wallet_id :: uuid
  tc_network :: network
  tc_dir :: string
  tc_dek :: dek
  tc_grpc_url :: string

text \<open>Opening the two databases outside the manager.\<close>

record task_env =
  tk_open_app_db :: "(engine_error, app_db) result"
  tk_open_wallet_db :: "string \<Rightarrow> dek \<Rightarrow> (engine_error, unit) result"

definition resolve_endpoint :: "wallet_env \<Rightarrow> network \<Rightarrow> ('p, 'q) wallet_manager \<Rightarrow> (engine_error, string) result" where
  "resolve_endpoint env net m =
     map_err (with_context ''failed to resolve active lightwalletd endpoint'')
       (resolve_grpc_url (wv_url_parser env) (wv_debug env) (wm_app_db m) net (wv_env_url env))"

definition get_tx_operation_context :: "wallet_env \<Rightarrow> ('p, 'q) wallet_manager \<Rightarrow> (engine_error, tx_context) result" where
  "get_tx_operation_context env m =
     (case wm_active m of
        None \<Rightarrow> Inl wallet_locked
      | Some a \<Rightarrow>
          if aw_lock a \<noteq> Unlocked then Inl wallet_locked
          else case aw_dek a of
                 None \<Rightarrow> Inl wallet_locked
               | Some k \<Rightarrow> bind_result (resolve_endpoint env (wi_network (aw_wallet a)) m) (\<lambda>url.
                   Inr \<lparr>tc_wallet_id = wi_id (aw_wallet a), tc_network = wi_network (aw_wallet a), tc_dir = aw_dir a, tc_dek = k, tc_grpc_url = url\<rparr>))"

text \<open>A step of the transaction service on the shared state, and one that also writes the queue of the active wallet.\<close>

definition tx_step :: "('p tx_service \<Rightarrow> (engine_error, 'a) result \<times> 'p tx_service) \<Rightarrow> ('p, 'q) wallet_manager
    \<Rightarrow> (engine_error, 'a) result \<times> ('p, 'q) wallet_manager" where
  "tx_step f m = (let (r, s) = f (wm_tx m) in (r, m\<lparr>wm_tx := s\<rparr>))"

definition queue_step :: "string \<Rightarrow> (queue_dir \<times> 'p tx_service \<Rightarrow> (engine_error, 'a) result \<times> queue_dir \<times> 'p tx_service) \<Rightarrow> ('p, 'q) wallet_manager
    \<Rightarrow> (engine_error, 'a) result \<times> ('p, 'q) wallet_manager" where
  "queue_step dir f m = (let (r, d, s) = f (wm_queues m dir, wm_tx m) in (r, m\<lparr>wm_tx := s, wm_queues := (wm_queues m)(dir := d)\<rparr>))"

definition active_or_locked :: "('p, 'q) wallet_manager \<Rightarrow> (engine_error, active_wallet) result" where
  "active_or_locked m = ok_or (wm_active m) wallet_locked"

section \<open>Preparing under the lock\<close>

definition wm_prepare_send :: "wallet_env \<Rightarrow> 'p send_env \<Rightarrow> string \<Rightarrow> send_request \<Rightarrow> ('p, 'q) wallet_manager
    \<Rightarrow> (engine_error, prepare_send_response) result \<times> ('p, 'q) wallet_manager" where
  "wm_prepare_send env se new_id r m =
     bind_se (result_step (require_active_unlocked_wallet_db m) m) (\<lambda>wallet m1.
     tx_step (prepare_send se (wm_app_db m1) new_id (wv_now env) (r\<lparr>sr_wallet_id := wi_id wallet, sr_network := wi_network wallet\<rparr>)) m1)"

definition wm_build_signing_request :: "wallet_env \<Rightarrow> 'p send_env \<Rightarrow> ('p, 'z) pczt_env \<Rightarrow> string \<Rightarrow> send_request \<Rightarrow> ('p, 'q) wallet_manager
    \<Rightarrow> (engine_error, signing_request) result \<times> ('p, 'q) wallet_manager" where
  "wm_build_signing_request env se pe new_id r m =
     bind_se (result_step (require_active_unlocked_wallet_db m) m) (\<lambda>wallet m1.
     tx_step (build_signing_request se pe (wm_app_db m1) new_id (wv_now env) (r\<lparr>sr_wallet_id := wi_id wallet, sr_network := wi_network wallet\<rparr>)) m1)"

definition wm_finalize_signing :: "wallet_env \<Rightarrow> net_env \<Rightarrow> ('p, 'z) pczt_env \<Rightarrow> string \<Rightarrow> string \<Rightarrow> string \<Rightarrow> ('p, 'q) wallet_manager
    \<Rightarrow> (engine_error, string) result \<times> ('p, 'q) wallet_manager" where
  "wm_finalize_signing env ne pe rid signed_payload token m =
     bind_se (result_step (active_or_locked m) m) (\<lambda>a m0.
     bind_se (result_step (unlocked_wallet_dek (wi_id (aw_wallet a)) m0) m0) (\<lambda>k m1.
     bind_se (consume_reauth_token env (wi_id (aw_wallet a)) token Spend m1) (\<lambda>_ m2.
     bind_se (result_step (resolve_endpoint env (wi_network (aw_wallet a)) m2) m2) (\<lambda>url m3.
     bind_se (result_step (require_unlocked_wallet_db (wi_id (aw_wallet a)) m3) m3) (\<lambda>_ m4.
     queue_step (aw_dir a) (finalize_signing ne pe (wm_app_db m4) (wv_now env) (wi_id (aw_wallet a)) k url rid signed_payload) m4)))))"

definition prepare_confirm_send :: "wallet_env \<Rightarrow> string \<Rightarrow> string \<Rightarrow> ('p, 'q) wallet_manager
    \<Rightarrow> (engine_error, tx_context \<times> string) result \<times> ('p, 'q) wallet_manager" where
  "prepare_confirm_send env pid token m =
     bind_se (result_step (active_or_locked m) m) (\<lambda>a m0.
     bind_se (result_step (guard_or (wi_wallet_type (aw_wallet a) \<noteq> WatchOnlyWallet)
       (ipc_err WATCH_ONLY_CANNOT_SPEND ''cannot confirm send for watch-only wallet; use hardware signing flow'')) m0) (\<lambda>_ m1.
     bind_se (tx_step (validate_proposal_for_wallet (wv_now env) pid (wi_id (aw_wallet a))) m1) (\<lambda>aid m2.
     bind_se (result_step (derive_unified_spending_key env (wi_id (aw_wallet a)) aid m2) m2) (\<lambda>usk m3.
     bind_se (consume_reauth_token env (wi_id (aw_wallet a)) token Spend m3) (\<lambda>_ m4.
     bind_se (result_step (get_tx_operation_context env m4) m4) (\<lambda>ctx m5. (Inr (ctx, usk), m5)))))))"

definition prepare_shield_funds :: "wallet_env \<Rightarrow> nat \<Rightarrow> string \<Rightarrow> ('p, 'q) wallet_manager
    \<Rightarrow> (engine_error, tx_context \<times> string) result \<times> ('p, 'q) wallet_manager" where
  "prepare_shield_funds env aid token m =
     bind_se (result_step (active_or_locked m) m) (\<lambda>a m0.
     bind_se (result_step (guard_or (wi_wallet_type (aw_wallet a) \<noteq> WatchOnlyWallet)
       (ipc_err WATCH_ONLY_CANNOT_SHIELD ''shielding not supported for watch-only wallet'')) m0) (\<lambda>_ m1.
     bind_se (consume_reauth_token env (wi_id (aw_wallet a)) token Spend m1) (\<lambda>_ m2.
     bind_se (result_step (derive_unified_spending_key env (wi_id (aw_wallet a)) aid m2) m2) (\<lambda>usk m3.
     bind_se (result_step (get_tx_operation_context env m3) m3) (\<lambda>ctx m4. (Inr (ctx, usk), m4))))))"

section \<open>Tasks\<close>

record 'p confirm_send_task =
  ct_ctx :: tx_context
  ct_proposal_id :: string
  ct_account_id :: nat
  ct_summary :: tx_summary
  ct_proposal_expires_at :: system_time
  ct_proposal :: "'p proposal"
  ct_spending_key :: string

record shield_funds_task =
  sk_ctx :: tx_context
  sk_account_id :: nat
  sk_spending_key :: string

record finalize_signing_task =
  fk_ctx :: tx_context
  fk_signing_request_id :: string
  fk_signed_payload :: string
  fk_pending_pczt :: string
  fk_expires_at :: system_time

definition preflight :: "task_env \<Rightarrow> string \<Rightarrow> tx_context \<Rightarrow> (engine_error, unit) result" where
  "preflight te what ctx =
     bind_result (map_err (with_context (''failed to open app db for '' @ what @ '' preflight'')) (tk_open_app_db te)) (\<lambda>_.
     map_err (with_context (''failed to open wallet db for '' @ what @ '' preflight'')) (tk_open_wallet_db te (tc_dir ctx) (tc_dek ctx)))"

definition prepare_confirm_send_task :: "wallet_env \<Rightarrow> task_env \<Rightarrow> string \<Rightarrow> string \<Rightarrow> ('p, 'q) wallet_manager
    \<Rightarrow> (engine_error, 'p confirm_send_task) result \<times> ('p, 'q) wallet_manager" where
  "prepare_confirm_send_task env te pid token m =
     bind_se (prepare_confirm_send env pid token m) (\<lambda>(ctx, usk) m1.
     bind_se (result_step (preflight te ''confirm send'' ctx) m1) (\<lambda>_ m2.
     bind_se (tx_step (take_proposal_for_execution (wv_now env) pid (tc_wallet_id ctx)) m2) (\<lambda>(aid, summary, expires_at, proposal) m3.
     (Inr \<lparr>ct_ctx = ctx, ct_proposal_id = pid, ct_account_id = aid, ct_summary = summary, ct_proposal_expires_at = expires_at,
           ct_proposal = proposal, ct_spending_key = usk\<rparr>, m3))))"

definition execute_prepared_confirm_send_task :: "net_env \<Rightarrow> task_env \<Rightarrow> (string \<Rightarrow> 'p proposal \<Rightarrow> (string, string list) result) \<Rightarrow> tx_loader
    \<Rightarrow> system_time \<Rightarrow> 'p confirm_send_task \<Rightarrow> queue_dir \<Rightarrow> (engine_error, tx_event) result \<times> queue_dir \<times> 'p tx_service" where
  "execute_prepared_confirm_send_task ne te build load now t d =
     (let ctx = ct_ctx t in
      case tk_open_wallet_db te (tc_dir ctx) (tc_dek ctx) of
        Inl e \<Rightarrow> (Inl e, d, tx_service_new)
      | Inr _ \<Rightarrow>
          confirm_send ne (tk_open_app_db te) (build (ct_spending_key t)) load now (tc_wallet_id ctx) (tc_dek ctx) (tc_grpc_url ctx)
            (ct_proposal_id t)
            (d, import_proposal_for_execution (ct_proposal_id t) (tc_wallet_id ctx) (ct_account_id t) (ct_summary t)
                  (ct_proposal_expires_at t) (ct_proposal t) tx_service_new))"

definition prepare_shield_funds_task :: "wallet_env \<Rightarrow> nat \<Rightarrow> string \<Rightarrow> ('p, 'q) wallet_manager
    \<Rightarrow> (engine_error, shield_funds_task) result \<times> ('p, 'q) wallet_manager" where
  "prepare_shield_funds_task env aid token m =
     bind_se (prepare_shield_funds env aid token m) (\<lambda>(ctx, usk) m1.
     (Inr \<lparr>sk_ctx = ctx, sk_account_id = aid, sk_spending_key = usk\<rparr>, m1))"

definition execute_prepared_shield_funds_task :: "(string \<Rightarrow> 'q shield_env) \<Rightarrow> net_env \<Rightarrow> task_env \<Rightarrow> system_time \<Rightarrow> shield_funds_task \<Rightarrow> queue_dir
    \<Rightarrow> ((engine_error, string \<times> string) result \<times> 'p shield_state) option" where
  "execute_prepared_shield_funds_task she ne te now t d =
     (let ctx = sk_ctx t in
      case tk_open_wallet_db te (tc_dir ctx) (tc_dek ctx) of
        Inl e \<Rightarrow> Some (Inl e, \<lparr>ss_sends = 0, ss_primary = None, ss_errors = Map.empty, ss_events = [], ss_dir = d, ss_service = tx_service_new\<rparr>)
      | Inr _ \<Rightarrow> shield_funds (she (sk_spending_key t)) ne (tk_open_app_db te) now (tc_wallet_id ctx) (tc_dek ctx) (tc_grpc_url ctx)
                   (sk_account_id t) (d, tx_service_new))"

definition prepare_finalize_signing_task :: "wallet_env \<Rightarrow> task_env \<Rightarrow> string \<Rightarrow> string \<Rightarrow> string \<Rightarrow> ('p, 'q) wallet_manager
    \<Rightarrow> (engine_error, finalize_signing_task) result \<times> ('p, 'q) wallet_manager" where
  "prepare_finalize_signing_task env te rid signed_payload token m =
     bind_se (result_step (active_or_locked m) m) (\<lambda>a m0.
     bind_se (consume_reauth_token env (wi_id (aw_wallet a)) token Spend m0) (\<lambda>_ m1.
     bind_se (result_step (get_tx_operation_context env m1) m1) (\<lambda>ctx m2.
     bind_se (result_step (preflight te ''finalize signing'' ctx) m2) (\<lambda>_ m3.
     bind_se (tx_step (take_pending_signing_request_for_execution (wv_now env) rid (wi_id (aw_wallet a))) m3) (\<lambda>(pczt, expires_at) m4.
     (Inr \<lparr>fk_ctx = ctx, fk_signing_request_id = rid, fk_signed_payload = signed_payload, fk_pending_pczt = pczt,
           fk_expires_at = expires_at\<rparr>, m4))))))"

definition execute_prepared_finalize_signing_task :: "net_env \<Rightarrow> task_env \<Rightarrow> ('p, 'z) pczt_env \<Rightarrow> system_time \<Rightarrow> finalize_signing_task \<Rightarrow> queue_dir
    \<Rightarrow> (engine_error, string) result \<times> queue_dir \<times> 'p tx_service" where
  "execute_prepared_finalize_signing_task ne te pe now t d =
     (let ctx = fk_ctx t in
      case bind_result (map_err (with_context ''failed to open app db for finalize signing'') (tk_open_app_db te)) (\<lambda>db.
           bind_result (tk_open_wallet_db te (tc_dir ctx) (tc_dek ctx)) (\<lambda>_. Inr db)) of
        Inl e \<Rightarrow> (Inl e, d, tx_service_new)
      | Inr db \<Rightarrow>
          finalize_signing ne pe db now (tc_wallet_id ctx) (tc_dek ctx) (tc_grpc_url ctx) (fk_signing_request_id t) (fk_signed_payload t)
            (d, import_pending_signing_request_for_execution (fk_signing_request_id t) (tc_wallet_id ctx) (fk_pending_pczt t)
                  (fk_expires_at t) tx_service_new))"

section \<open>Retries\<close>

record retry_task =
  rk_txid :: string
  rk_user_intent_confirmed :: bool
  rk_wallet_id :: uuid
  rk_network :: network
  rk_dir :: string
  rk_dek :: dek
  rk_grpc_url :: string

definition build_retry_broadcast_task :: "wallet_env \<Rightarrow> string \<Rightarrow> bool \<Rightarrow> ('p, 'q) wallet_manager \<Rightarrow> (engine_error, retry_task) result" where
  "build_retry_broadcast_task env txid user_intent_confirmed m =
     bind_result (active_or_locked m) (\<lambda>a.
     bind_result (guard_or (aw_lock a = Unlocked) wallet_locked) (\<lambda>_.
     bind_result (unlocked_wallet_dek (wi_id (aw_wallet a)) m) (\<lambda>k.
     bind_result (resolve_endpoint env (wi_network (aw_wallet a)) m) (\<lambda>url.
     Inr \<lparr>rk_txid = txid, rk_user_intent_confirmed = user_intent_confirmed, rk_wallet_id = wi_id (aw_wallet a),
          rk_network = wi_network (aw_wallet a), rk_dir = aw_dir a, rk_dek = k, rk_grpc_url = url\<rparr>))))"

definition prepare_retry_broadcast_task :: "wallet_env \<Rightarrow> string \<Rightarrow> string \<Rightarrow> ('p, 'q) wallet_manager
    \<Rightarrow> (engine_error, retry_task) result \<times> ('p, 'q) wallet_manager" where
  "prepare_retry_broadcast_task env txid token m =
     bind_se (result_step (active_or_locked m) m) (\<lambda>a m0.
     bind_se (consume_reauth_token env (wi_id (aw_wallet a)) token Spend m0) (\<lambda>_ m1.
     (build_retry_broadcast_task env txid True m1, m1)))"

definition prepare_next_queued_broadcast_retry_task :: "wallet_env \<Rightarrow> ('p, 'q) wallet_manager
    \<Rightarrow> (engine_error, retry_task option) result \<times> ('p, 'q) wallet_manager" where
  "prepare_next_queued_broadcast_retry_task env m =
     (case wm_active m of
        None \<Rightarrow> (Inr None, m)
      | Some a \<Rightarrow>
          if aw_lock a \<noteq> Unlocked then (Inr None, m)
          else
            bind_se (queue_step (aw_dir a) (scan_queued_broadcasts (wv_io env) (wv_now env) (wi_id (aw_wallet a))) m) (\<lambda>_ m1.
            bind_se (queue_step (aw_dir a) (list_due_retry_txids (wv_io env) (wv_now env) (wi_id (aw_wallet a))) m1) (\<lambda>txids m2.
            case txids of
              [] \<Rightarrow> (Inr None, m2)
            | txid # _ \<Rightarrow> (bind_result (build_retry_broadcast_task env txid False m2) (\<lambda>t. Inr (Some t)), m2))))"

definition ensure_retry_task_wallet_state :: "retry_task \<Rightarrow> ('p, 'q) wallet_manager \<Rightarrow> (engine_error, unit) result" where
  "ensure_retry_task_wallet_state t m =
     bind_result (active_or_locked m) (\<lambda>a.
     guard_or (aw_lock a = Unlocked \<and> wi_id (aw_wallet a) = rk_wallet_id t \<and> wi_network (aw_wallet a) = rk_network t
         \<and> aw_dir a = rk_dir t \<and> aw_dek a \<noteq> None \<and> aw_db a) wallet_locked)"

definition ensure_retry_task_user_intent :: "retry_task \<Rightarrow> (engine_error, unit) result" where
  "ensure_retry_task_user_intent t =
     guard_or (rk_user_intent_confirmed t) (ipc_err REAUTH_REQUIRED ''retry broadcast requires explicit reauth'')"

definition validate_retry_broadcast_task :: "retry_task \<Rightarrow> ('p, 'q) wallet_manager \<Rightarrow> (engine_error, unit) result" where
  "validate_retry_broadcast_task t m = bind_result (ensure_retry_task_wallet_state t m) (\<lambda>_. ensure_retry_task_user_intent t)"

text \<open>What the retry needs besides the task: the network, the URL policy, the hexadecimal test and the accounts of transactions.\<close>

record retry_task_env =
  rx_net :: net_env
  rx_valid_url :: "string \<Rightarrow> bool"
  rx_is_hex :: "string \<Rightarrow> bool"
  rx_account_of_tx :: "string \<Rightarrow> int option"
  rx_now :: system_time
  rx_task_env :: task_env

definition execute_retry_broadcast_task_unchecked :: "retry_task_env \<Rightarrow> retry_task \<Rightarrow> queue_dir
    \<Rightarrow> (engine_error, string) result \<times> queue_dir \<times> app_db option" where
  "execute_retry_broadcast_task_unchecked rx t d =
     (case bind_result (map_err (with_context ''failed to open app db for retry broadcast'') (tk_open_app_db (rx_task_env rx))) (\<lambda>db.
           bind_result (map_err (with_context ''failed to open wallet db for retry broadcast'')
             (tk_open_wallet_db (rx_task_env rx) (rk_dir t) (rk_dek t))) (\<lambda>_. Inr db)) of
        Inl e \<Rightarrow> (Inl e, d, None)
      | Inr db \<Rightarrow>
          (case retry_broadcast \<lparr>re_net = rx_net rx, re_valid_url = rx_valid_url rx, re_now = rx_now rx, re_network = rk_network t\<rparr>
                  (rx_is_hex rx) (rx_account_of_tx rx) (rk_wallet_id t) (rk_dek t) (rk_grpc_url t) (rk_txid t)
                  (\<lparr>rs_dir = d, rs_db = db, rs_sends = 0\<rparr>, (tx_service_new :: unit tx_service)) of
             (r, st, _) \<Rightarrow> (r, rs_dir st, Some (rs_db st))))"

definition execute_prepared_retry_broadcast_task :: "retry_task_env \<Rightarrow> retry_task \<Rightarrow> queue_dir
    \<Rightarrow> (engine_error, string) result \<times> queue_dir \<times> app_db option" where
  "execute_prepared_retry_broadcast_task rx t d =
     (case ensure_retry_task_user_intent t of
        Inl e \<Rightarrow> (Inl e, d, None)
      | Inr _ \<Rightarrow> execute_retry_broadcast_task_unchecked rx t d)"

text \<open>\<open>execute_retry_broadcast_task\<close> runs under the manager, so its changes of the server table and the queue are changes of the state.\<close>

definition execute_retry_broadcast_task :: "retry_task_env \<Rightarrow> retry_task \<Rightarrow> ('p, 'q) wallet_manager
    \<Rightarrow> (engine_error, string) result \<times> ('p, 'q) wallet_manager" where
  "execute_retry_broadcast_task rx t m =
     bind_se (result_step (validate_retry_broadcast_task t m) m) (\<lambda>_ m1.
     case execute_prepared_retry_broadcast_task rx t (wm_queues m1 (rk_dir t)) of
       (r, d, db) \<Rightarrow> (r, m1\<lparr>wm_queues := (wm_queues m1)(rk_dir t := d),
                            wm_app_db := (case db of None \<Rightarrow> wm_app_db m1 | Some x \<Rightarrow> x)\<rparr>))"

definition wm_retry_broadcast :: "wallet_env \<Rightarrow> retry_task_env \<Rightarrow> string \<Rightarrow> string \<Rightarrow> ('p, 'q) wallet_manager
    \<Rightarrow> (engine_error, string) result \<times> ('p, 'q) wallet_manager" where
  "wm_retry_broadcast env rx txid token m =
     bind_se (prepare_retry_broadcast_task env txid token m) (\<lambda>t m1. execute_retry_broadcast_task rx t m1)"

definition process_queued_broadcast_retries :: "wallet_env \<Rightarrow> retry_task_env \<Rightarrow> ('p, 'q) wallet_manager
    \<Rightarrow> (engine_error, nat) result \<times> ('p, 'q) wallet_manager" where
  "process_queued_broadcast_retries env rx m =
     bind_se (prepare_next_queued_broadcast_retry_task env m) (\<lambda>next_task m1.
     case next_task of
       None \<Rightarrow> (Inr 0, m1)
     | Some t \<Rightarrow>
         (case execute_retry_broadcast_task rx (t\<lparr>rk_user_intent_confirmed := True\<rparr>) m1 of
            (Inl _, m2) \<Rightarrow> (Inr 0, m2)
          | (Inr _, m2) \<Rightarrow> (Inr 1, m2)))"

section \<open>Jobs\<close>

definition start_send_job :: "wallet_env \<Rightarrow> string \<Rightarrow> string \<Rightarrow> string \<Rightarrow> ('p, 'q) wallet_manager
    \<Rightarrow> (engine_error, string \<times> 'p proposal) result \<times> ('p, 'q) wallet_manager" where
  "start_send_job env new_job pid token m =
     bind_se (result_step (active_or_locked m) m) (\<lambda>a m0.
     bind_se (result_step (guard_or (wi_wallet_type (aw_wallet a) \<noteq> WatchOnlyWallet)
       (ipc_err WATCH_ONLY_CANNOT_SPEND ''cannot send from watch-only wallet; use hardware signing flow'')) m0) (\<lambda>_ m1.
     bind_se (result_step (unlocked_wallet_dek (wi_id (aw_wallet a)) m1) m1) (\<lambda>k m2.
     bind_se (tx_step (validate_proposal_for_wallet (wv_now env) pid (wi_id (aw_wallet a))) m2) (\<lambda>aid m3.
     bind_se (result_step (derive_unified_spending_key env (wi_id (aw_wallet a)) aid m3) m3) (\<lambda>usk m4.
     bind_se (consume_reauth_token env (wi_id (aw_wallet a)) token Spend m4) (\<lambda>_ m5.
     bind_se (result_step (resolve_endpoint env (wi_network (aw_wallet a)) m5) m5) (\<lambda>url m6.
     bind_se (tx_step (\<lambda>s. let (p, s') = take_proposal pid s in (ok_or p (ipc_err PROPOSAL_NOT_FOUND ''proposal not found or expired''), s')) m6) (\<lambda>proposal m7.
     (Inr (new_job, proposal),
      m7\<lparr>wm_jobs := store_job_entry new_job (start_job new_job JobSend (wi_id (aw_wallet a)) (wm_jobs m7))\<rparr>)))))))))"

definition start_shield_job :: "wallet_env \<Rightarrow> string \<Rightarrow> nat \<Rightarrow> string \<Rightarrow> ('p, 'q) wallet_manager
    \<Rightarrow> (engine_error, string) result \<times> ('p, 'q) wallet_manager" where
  "start_shield_job env new_job aid token m =
     bind_se (result_step (active_or_locked m) m) (\<lambda>a m0.
     bind_se (result_step (guard_or (wi_wallet_type (aw_wallet a) \<noteq> WatchOnlyWallet)
       (ipc_err WATCH_ONLY_CANNOT_SHIELD ''shielding not supported for watch-only wallet'')) m0) (\<lambda>_ m1.
     bind_se (result_step (unlocked_wallet_dek (wi_id (aw_wallet a)) m1) m1) (\<lambda>k m2.
     bind_se (consume_reauth_token env (wi_id (aw_wallet a)) token Spend m2) (\<lambda>_ m3.
     bind_se (result_step (derive_unified_spending_key env (wi_id (aw_wallet a)) aid m3) m3) (\<lambda>usk m4.
     bind_se (result_step (resolve_endpoint env (wi_network (aw_wallet a)) m4) m4) (\<lambda>url m5.
     (Inr new_job, maybe_emit_wallet_status env (wi_id (aw_wallet a))
        (m5\<lparr>wm_jobs := store_job_entry new_job (start_job new_job JobShield (wi_id (aw_wallet a)) (wm_jobs m5))\<rparr>))))))))"

definition wm_cancel_job :: "string \<Rightarrow> ('p, 'q) wallet_manager \<Rightarrow> bool \<times> ('p, 'q) wallet_manager" where
  "wm_cancel_job jid m = (let (cancelled, w) = cancel_job jid (wm_jobs m) in (cancelled, m\<lparr>wm_jobs := w\<rparr>))"

definition get_job_status :: "string \<Rightarrow> ('p, 'q) wallet_manager \<Rightarrow> (engine_error, job_progress) result" where
  "get_job_status jid m = ok_or (job_get_progress jid (wm_jobs m)) (ipc_err JOB_NOT_FOUND ''job not found'')"

definition wm_list_jobs :: "string list \<Rightarrow> ('p, 'q) wallet_manager \<Rightarrow> job_progress list" where
  "wm_list_jobs order m = (case wm_active m of None \<Rightarrow> [] | Some a \<Rightarrow> list_jobs (wi_id (aw_wallet a)) order (wm_jobs m))"

section \<open>Detached execution\<close>

text \<open>The abstract service a prepared send stands for: the one in which the proposal is still in the table.\<close>

definition reattach :: "'p confirm_send_task \<Rightarrow> 'p tx_service \<Rightarrow> 'p tx_service" where
  "reattach t s = import_proposal_for_execution (ct_proposal_id t) (tc_wallet_id (ct_ctx t)) (ct_account_id t) (ct_summary t)
     (ct_proposal_expires_at t) (ct_proposal t) s"

lemma scan_cong:
  assumes "scan_queued_broadcasts io now wid (d, s) = (r, d1, s1)"
  obtains s2 where "scan_queued_broadcasts io now wid (d, s') = (r, d1, s2)" "r = Inr u \<Longrightarrow> queued_meta_of wid txid s2 = queued_meta_of wid txid s1"
  using assms by (auto simp: scan_queued_broadcasts_def queued_meta_of_def split: if_splits sum.splits prod.splits)

lemma confirm_build_cong:
  "tx_proposals s pid = tx_proposals s' pid \<Longrightarrow> fst (confirm_build odb build now wid pid s) = fst (confirm_build odb build now wid pid s')"
  by (simp add: confirm_build_def validate_proposal_for_wallet_def split: option.splits sum.splits)

lemma confirm_build_drops:
  "tx_proposals (snd (confirm_build odb build now wid pid s)) pid = None \<or> tx_proposals (snd (confirm_build odb build now wid pid s)) = tx_proposals s"
  by (auto simp: confirm_build_def validate_proposal_for_wallet_def drop_proposal_def split: option.splits sum.splits)

text \<open>A confirmation reads nothing of the service but its proposal.\<close>

lemma confirm_send_cong:
  assumes p: "tx_proposals s pid = tx_proposals s' pid"
  shows "fst (confirm_send ne odb build load now wid k url pid (d, s)) = fst (confirm_send ne odb build load now wid k url pid (d, s'))"
    and "fst (snd (confirm_send ne odb build load now wid k url pid (d, s))) = fst (snd (confirm_send ne odb build load now wid k url pid (d, s')))"
proof -
  obtain r s1 s1' where b: "confirm_build odb build now wid pid s = (r, s1)" "confirm_build odb build now wid pid s' = (r, s1')"
    using confirm_build_cong[OF p] by (metis prod.collapse)
  have "fst (confirm_send ne odb build load now wid k url pid (d, s)) = fst (confirm_send ne odb build load now wid k url pid (d, s'))
      \<and> fst (snd (confirm_send ne odb build load now wid k url pid (d, s))) = fst (snd (confirm_send ne odb build load now wid k url pid (d, s')))"
  proof (cases r)
    case (Inr txids)
    obtain q d1 where q: "broadcast_all ne 0 now wid k url load txids Map.empty d = (q, d1)" by fastforce
    obtain rr d2 s2 where sc: "scan_queued_broadcasts (ne_io ne (length txids)) now wid (d1, s1) = (rr, d2, s2)" by (metis prod.collapse)
    obtain s2' where sc': "scan_queued_broadcasts (ne_io ne (length txids)) now wid (d1, s1') = (rr, d2, s2')"
      "rr = Inr () \<Longrightarrow> queued_meta_of wid (hd txids) s2' = queued_meta_of wid (hd txids) s2"
      using scan_cong[OF sc] by metis
    show ?thesis using sc'(2) by (simp add: confirm_send_def b Inr q sc sc'(1) split: sum.splits)
  qed (simp add: confirm_send_def b)
  then show "fst (confirm_send ne odb build load now wid k url pid (d, s)) = fst (confirm_send ne odb build load now wid k url pid (d, s'))"
    "fst (snd (confirm_send ne odb build load now wid k url pid (d, s))) = fst (snd (confirm_send ne odb build load now wid k url pid (d, s')))"
    by simp_all
qed

lemma tx_step_ok: "tx_step f m = (Inr a, m') \<longleftrightarrow> (\<exists>s. f (wm_tx m) = (Inr a, s) \<and> m' = m\<lparr>wm_tx := s\<rparr>)"
  by (auto simp: tx_step_def split: prod.splits)

lemma validate_ok_same: "validate_proposal_for_wallet now pid wid s = (Inr a, s') \<Longrightarrow> s' = s"
  by (auto simp: validate_proposal_for_wallet_def split: option.splits if_splits)

lemma prepare_confirm_tx: "prepare_confirm_send env pid tok m = (Inr (ctx, usk), m') \<Longrightarrow> wm_tx m' = wm_tx m"
  by (auto simp: prepare_confirm_send_def wallet_steps tx_step_ok dest!: validate_ok_same) (metis consume_frame(4) snd_conv)

lemma take_ok_reattach:
  assumes "take_proposal_for_execution now pid wid s = (Inr (aid, summary, ex, p), s')"
  shows "import_proposal_for_execution pid wid aid summary ex p s' = s" and "tx_proposals s' pid = None"
proof -
  obtain r where r: "tx_proposals s pid = Some r" "p_wallet_id r = wid" "aid = p_account_id r" "summary = p_summary r" "ex = p_expires_at r"
    "p = p_proposal r" "s' = drop_proposal pid s"
    using assms by (auto simp: take_proposal_for_execution_def split: option.splits if_splits)
  have "\<lparr>p_wallet_id = wid, p_account_id = aid, p_expires_at = ex, p_proposal = p, p_summary = summary\<rparr> = r" using r by simp
  then have "(tx_proposals s)(pid \<mapsto> \<lparr>p_wallet_id = wid, p_account_id = aid, p_expires_at = ex, p_proposal = p, p_summary = summary\<rparr>) = tx_proposals s"
    using r(1) by (auto simp: fun_eq_iff)
  then show "import_proposal_for_execution pid wid aid summary ex p s' = s"
    using r(7) by (simp add: import_proposal_for_execution_def drop_proposal_def)
  show "tx_proposals s' pid = None" using r(7) by (simp add: drop_proposal_def)
qed

lemma prepare_task_ok:
  assumes "prepare_confirm_send_task env te pid tok m = (Inr t, m')"
  shows "reattach t (wm_tx m') = wm_tx m" and "tx_proposals (wm_tx m') pid = None" and "ct_proposal_id t = pid"
proof -
  obtain ctx usk m1 aid summary ex p s' where s: "prepare_confirm_send env pid tok m = (Inr (ctx, usk), m1)"
    "take_proposal_for_execution (wv_now env) pid (tc_wallet_id ctx) (wm_tx m1) = (Inr (aid, summary, ex, p), s')" "m' = m1\<lparr>wm_tx := s'\<rparr>"
    "t = \<lparr>ct_ctx = ctx, ct_proposal_id = pid, ct_account_id = aid, ct_summary = summary, ct_proposal_expires_at = ex,
          ct_proposal = p, ct_spending_key = usk\<rparr>"
    using assms by (auto simp: prepare_confirm_send_task_def wallet_steps tx_step_ok)
  show "reattach t (wm_tx m') = wm_tx m" "tx_proposals (wm_tx m') pid = None" "ct_proposal_id t = pid"
    using take_ok_reattach[OF s(2)] prepare_confirm_tx[OF s(1)] s(3,4) by (simp_all add: reattach_def)
qed

section \<open>Properties\<close>

text \<open>C12: Sending outside the lock refines sending inside it.  When \<open>prepare_confirm_send_task\<close> succeeds, the shared service has lost the proposal (so no one
  else can confirm it) and putting the task's proposal back gives exactly the service as it was; and executing the task on a service
  of its own has, for every network behaviour and every later time, the result, the event and the queue directory that
  \<open>confirm_send\<close> on the shared service would have had, provided the wallet database opens.\<close>

theorem detached_send_refines_confirm_send:
  assumes "prepare_confirm_send_task env te pid tok m = (Inr t, m')"
    and "tk_open_wallet_db te' (tc_dir (ct_ctx t)) (tc_dek (ct_ctx t)) = Inr v"
  shows "tx_proposals (wm_tx m') pid = None \<and> reattach t (wm_tx m') = wm_tx m
     \<and> (let direct = confirm_send ne (tk_open_app_db te') (build (ct_spending_key t)) load now (tc_wallet_id (ct_ctx t)) (tc_dek (ct_ctx t))
                        (tc_grpc_url (ct_ctx t)) pid (d, wm_tx m);
            detached = execute_prepared_confirm_send_task ne te' build load now t d
        in fst detached = fst direct \<and> fst (snd detached) = fst (snd direct))"
proof -
  note t = prepare_task_ok[OF assms(1)]
  have "tx_proposals (reattach t tx_service_new) pid = tx_proposals (wm_tx m) pid"
    unfolding t(1)[symmetric] by (simp add: reattach_def import_proposal_for_execution_def t(3))
  from confirm_send_cong[OF this] show ?thesis
    using t assms(2) by (simp add: execute_prepared_confirm_send_task_def reattach_def Let_def)
qed

definition demo_tx_manager :: "(unit, unit) wallet_manager" where
  "demo_tx_manager = (wallet_manager_new demo_db demo_service (\<lambda>_. Some (1 # replicate 24 0 @ as_bytes ''abandon'' @ replicate 16 0))
       (\<lambda>_. \<lparr>wf_db = None, wf_snapshot = None\<rparr>) (\<lambda>_. demo_dir) demo_dir)
     \<lparr>wm_active := Some (unlocked_wallet demo_wallet_env (new_wallet_info demo_wallet_env demo_fresh ''n'' SoftwareWallet Mainnet) (replicate 32 9)),
      wm_reauth := [''t'' \<mapsto> \<lparr>tr_wallet_id = ''w'', tr_purpose = Spend, tr_expires_at = secs 120, tr_used = False\<rparr>]\<rparr>"

definition demo_task_env :: task_env where
  "demo_task_env = \<lparr>tk_open_app_db = Inr demo_spend_db, tk_open_wallet_db = (\<lambda>_ _. Inr ())\<rparr>"

lemma demo_tx_fields:
  "wm_active demo_tx_manager = Some (unlocked_wallet demo_wallet_env (new_wallet_info demo_wallet_env demo_fresh ''n'' SoftwareWallet Mainnet) (replicate 32 9))"
  "wm_tx demo_tx_manager = demo_service" "wm_app_db demo_tx_manager = demo_db"
  "wm_mnemonics demo_tx_manager x = Some (1 # replicate 24 0 @ as_bytes ''abandon'' @ replicate 16 0)"
  "wm_reauth demo_tx_manager = [''t'' \<mapsto> \<lparr>tr_wallet_id = ''w'', tr_purpose = Spend, tr_expires_at = secs 120, tr_used = False\<rparr>]"
  by (simp_all add: demo_tx_manager_def wallet_manager_new_def)

lemma demo_wallet_fields:
  "wi_id (new_wallet_info demo_wallet_env demo_fresh ''n'' SoftwareWallet Mainnet) = ''w''"
  "wi_network (new_wallet_info demo_wallet_env demo_fresh ''n'' SoftwareWallet Mainnet) = Mainnet"
  "wi_wallet_type (new_wallet_info demo_wallet_env demo_fresh ''n'' SoftwareWallet Mainnet) = SoftwareWallet"
  by (simp_all add: new_wallet_info_def demo_fresh_def)

lemma demo_env_fields:
  "wv_crypto demo_wallet_env = demo_crypto" "wv_read_ok demo_wallet_env" "ml_parse (wv_mnemonics demo_wallet_env) t = Some demo_words"
  "ml_spending_key (wv_mnemonics demo_wallet_env) net sd i = Inr ''usk''" "wv_now demo_wallet_env = 0"
  "wv_url_parser demo_wallet_env = demo_url_parser" "\<not> wv_debug demo_wallet_env" "wv_env_url demo_wallet_env = None"
  by (simp_all add: demo_wallet_env_def)

lemma demo_spending_key: "derive_unified_spending_key demo_wallet_env ''w'' 0 demo_tx_manager = Inr ''usk''"
proof -
  have "list_all (\<lambda>c. (of_char c :: nat) < 128) ''abandon''" by simp
  note u = utf8_ascii[OF this]
  have "length (as_bytes ''abandon'') = 7" by (simp add: as_bytes_def)
  then have "decrypt_mnemonic_bytes demo_crypto ''w'' Mainnet (replicate 32 9) (1 # replicate 24 0 @ as_bytes ''abandon'' @ replicate 16 0) = Inr (as_bytes ''abandon'')"
    by (simp add: decrypt_mnemonic_bytes_def demo_crypto_def)
  then show ?thesis using u
    by (simp add: derive_unified_spending_key_def require_unlocked_wallet_snapshot_def demo_tx_fields demo_wallet_fields unlocked_wallet_def
        decrypt_mnemonic_def load_encrypted_mnemonic_def demo_env_fields guard_or_def)
qed

lemma demo_consume: "\<exists>m'. consume_reauth_token demo_wallet_env ''w'' ''t'' Spend demo_tx_manager = (Inr (), m')"
  by (simp add: consume_reauth_token_def demo_tx_fields validate_and_consume_def demo_env_fields secs_def)

lemma demo_proposal_in_service: "\<exists>r. tx_proposals demo_service ''p'' = Some r \<and> p_wallet_id r = ''w'' \<and> p_account_id r = 0 \<and> 0 \<le> p_expires_at r"
  by (simp add: demo_service_def prepare_send_def demo_propose import_proposal_for_execution_def demo_request_fields PROPOSAL_TTL_def secs_def)

lemma demo_prepare: "\<exists>t m'. prepare_confirm_send_task demo_wallet_env demo_task_env ''p'' ''t'' demo_tx_manager = (Inr t, m')"
proof -
  obtain r where r: "tx_proposals demo_service ''p'' = Some r" "p_wallet_id r = ''w''" "p_account_id r = 0" "0 \<le> p_expires_at r"
    using demo_proposal_in_service by blast
  note now = demo_env_fields(5)
  have v: "tx_step (validate_proposal_for_wallet (wv_now demo_wallet_env) ''p'' ''w'') demo_tx_manager = (Inr 0, demo_tx_manager)"
    using r by (simp add: tx_step_def validate_proposal_for_wallet_def demo_tx_fields now)
  obtain m4 where m4: "consume_reauth_token demo_wallet_env ''w'' ''t'' Spend demo_tx_manager = (Inr (), m4)" using demo_consume by blast
  have a: "wm_active m4 = wm_active demo_tx_manager" "wm_app_db m4 = demo_db" "wm_tx m4 = demo_service"
    using consume_frame[of demo_wallet_env "''w''" "''t''" Spend demo_tx_manager] m4 by (simp_all add: demo_tx_fields)
  have url: "resolve_grpc_url demo_url_parser False demo_db Mainnet None = Inr ''https://a''" by code_simp
  obtain ctx where ctx: "get_tx_operation_context demo_wallet_env m4 = Inr ctx" "tc_wallet_id ctx = ''w''"
    using url by (simp add: get_tx_operation_context_def a demo_tx_fields unlocked_wallet_def demo_wallet_fields resolve_endpoint_def demo_env_fields)
  have act: "active_or_locked demo_tx_manager = Inr (unlocked_wallet demo_wallet_env (new_wallet_info demo_wallet_env demo_fresh ''n'' SoftwareWallet Mainnet) (replicate 32 9))"
    by (simp add: active_or_locked_def demo_tx_fields)
  have w: "aw_wallet (unlocked_wallet env wl k) = wl" for env wl k by (simp add: unlocked_wallet_def)
  have p: "prepare_confirm_send demo_wallet_env ''p'' ''t'' demo_tx_manager = (Inr (ctx, ''usk''), m4)"
    by (simp add: prepare_confirm_send_def result_step_def act w demo_wallet_fields guard_or_def v demo_spending_key m4 ctx(1))
  show ?thesis
    using r by (simp add: prepare_confirm_send_task_def p result_step_def preflight_def demo_task_env_def tx_step_def ctx(2) a(3)
        take_proposal_for_execution_def now)
qed

theorem detached_send_refines_confirm_send_witness:
  "\<exists>t m'. prepare_confirm_send_task demo_wallet_env demo_task_env ''p'' ''t'' demo_tx_manager = (Inr t, m')
     \<and> reattach t (wm_tx m') = demo_service"
proof -
  obtain t m' where t: "prepare_confirm_send_task demo_wallet_env demo_task_env ''p'' ''t'' demo_tx_manager = (Inr t, m')"
    using demo_prepare by blast
  have "tk_open_wallet_db demo_task_env (tc_dir (ct_ctx t)) (tc_dek (ct_ctx t)) = Inr ()" by (simp add: demo_task_env_def)
  from detached_send_refines_confirm_send[OF t this] show ?thesis using t by (auto simp: demo_tx_fields)
qed

end
