(* ===== verification/Tor_Manager.thy ===== *)
theory Tor_Manager
  imports Core_Types
begin

text \<open>
  \<open>crates/zbag-tor/src/manager.rs\<close>: the Tor runtime state machine.  The manager's mutex makes
  each locked section atomic; \<open>set_enabled\<close>, the start of a bootstrap task, the recording of its handle
  and every step of a task interleave freely, as an inductive step relation.  A bootstrap task
  is identified with the cancellation channel it watches.  Aborting a task is best effort, so in
  the model an aborted task may still run.  The Tor client is a type variable.
\<close>

section \<open>State\<close>

datatype task_phase = TkPending | TkStarted | TkDirReady | TkFinished

record bootstrap_task =
  tk_cancelled :: bool
  tk_phase :: task_phase

record 'c tor_manager =
  tm_state :: tor_state
  tm_client :: "'c option"
  tm_cancel :: "nat option"
  tm_handle :: "nat option"
  tm_published :: tor_state
  tm_tasks :: "nat \<Rightarrow> bootstrap_task"
  tm_next :: nat

definition tor_manager_new :: "tor_state \<Rightarrow> 'c tor_manager" where
  "tor_manager_new initial =
     (let s1 = (if \<not> ts_enabled initial then initial\<lparr>ts_status := TorOff, ts_last_error := None\<rparr> else initial);
          s2 = (if ts_status s1 = TorOn then s1\<lparr>ts_status := TorOff, ts_last_error := None\<rparr> else s1)
      in \<lparr>tm_state = s2, tm_client = None, tm_cancel = None, tm_handle = None, tm_published = s2,
          tm_tasks = (\<lambda>_. \<lparr>tk_cancelled = False, tk_phase = TkFinished\<rparr>), tm_next = 0\<rparr>)"

definition tor_client :: "'c tor_manager \<Rightarrow> 'c option" where
  "tor_client m = (if ts_enabled (tm_state m) \<and> ts_status (tm_state m) = TorOn then tm_client m else None)"

definition publish_state_locked :: "'c tor_manager \<Rightarrow> 'c tor_manager" where
  "publish_state_locked m = m\<lparr>tm_published := tm_state m\<rparr>"

definition cancel_current :: "'c tor_manager \<Rightarrow> 'c tor_manager" where
  "cancel_current m =
     (case tm_cancel m of
        None \<Rightarrow> m\<lparr>tm_handle := None\<rparr>
      | Some i \<Rightarrow> m\<lparr>tm_tasks := (tm_tasks m)(i := (tm_tasks m i)\<lparr>tk_cancelled := True\<rparr>),
                    tm_cancel := None, tm_handle := None\<rparr>)"

text \<open>The locked section of \<open>set_enabled\<close>; the second component is the channel of the bootstrap to spawn.\<close>

definition set_enabled_locked :: "bool \<Rightarrow> 'c tor_manager \<Rightarrow> 'c tor_manager \<times> nat option" where
  "set_enabled_locked enabled m =
     (let m1 = cancel_current (m\<lparr>tm_state := (tm_state m)\<lparr>ts_enabled := enabled\<rparr>\<rparr>) in
      if \<not> enabled then
        (publish_state_locked (m1\<lparr>tm_state := (tm_state m1)\<lparr>ts_status := TorOff, ts_last_error := None\<rparr>,
                                  tm_client := None\<rparr>), None)
      else if ts_status (tm_state m1) = TorOn \<and> tm_client m1 \<noteq> None then (publish_state_locked m1, None)
      else let m2 = publish_state_locked (m1\<lparr>tm_state := (tm_state m1)\<lparr>ts_status := TorConnecting, ts_last_error := None\<rparr>,
                                             tm_client := None\<rparr>);
               i = tm_next m2
           in (m2\<lparr>tm_cancel := Some i, tm_next := Suc i,
                  tm_tasks := (tm_tasks m2)(i := \<lparr>tk_cancelled = False, tk_phase = TkPending\<rparr>)\<rparr>, Some i))"

definition set_status_if_active :: "nat \<Rightarrow> tor_status \<Rightarrow> string option \<Rightarrow> 'c option \<Rightarrow> 'c tor_manager \<Rightarrow> 'c tor_manager" where
  "set_status_if_active i status last_error client m =
     (if tk_cancelled (tm_tasks m i) \<or> \<not> ts_enabled (tm_state m) then m
      else publish_state_locked (m\<lparr>tm_state := (tm_state m)\<lparr>ts_status := status, ts_last_error := last_error\<rparr>,
                                   tm_client := client\<rparr>))"

definition set_phase :: "nat \<Rightarrow> task_phase \<Rightarrow> 'c tor_manager \<Rightarrow> 'c tor_manager" where
  "set_phase i ph m = m\<lparr>tm_tasks := (tm_tasks m)(i := (tm_tasks m i)\<lparr>tk_phase := ph\<rparr>)\<rparr>"

text \<open>What a bootstrap task meets: the directory could not be made, or it could; the bootstrap
  times out, fails, or yields a client.\<close>

datatype 'c bootstrap_event = DirFailed string | DirMade | BootTimeout | BootError string | BootOk 'c

definition task_step :: "nat \<Rightarrow> 'c bootstrap_event \<Rightarrow> 'c tor_manager \<Rightarrow> 'c tor_manager" where
  "task_step i ev m =
     (let t = tm_tasks m i in
      case tk_phase t of
        TkStarted \<Rightarrow>
          (if tk_cancelled t then set_phase i TkFinished m
           else case ev of
                  DirFailed e \<Rightarrow> set_phase i TkFinished
                    (set_status_if_active i TorError (Some (''failed to create tor directory: '' @ e)) None m)
                | DirMade \<Rightarrow> set_phase i TkDirReady m
                | _ \<Rightarrow> m)
      | TkDirReady \<Rightarrow>
          (if tk_cancelled t then set_phase i TkFinished m
           else case ev of
                  BootTimeout \<Rightarrow> set_phase i TkFinished
                    (set_status_if_active i TorError (Some ''Tor bootstrap timed out'') None m)
                | BootError e \<Rightarrow> set_phase i TkFinished (set_status_if_active i TorError (Some e) None m)
                | BootOk c \<Rightarrow> set_phase i TkFinished (set_status_if_active i TorOn None (Some c) m)
                | _ \<Rightarrow> m)
      | _ \<Rightarrow> m)"

definition start_if_enabled :: "'c tor_manager \<Rightarrow> 'c tor_manager \<times> nat option" where
  "start_if_enabled m = (if ts_enabled (tm_state m) then set_enabled_locked True m else (m, None))"

datatype 'c tor_action = SetEnabled bool | SpawnTask nat | StoreHandle nat | TaskEvent nat "'c bootstrap_event"

fun tor_apply :: "'c tor_action \<Rightarrow> 'c tor_manager \<Rightarrow> 'c tor_manager" where
  "tor_apply (SetEnabled b) m = fst (set_enabled_locked b m)"
| "tor_apply (SpawnTask i) m = (if tk_phase (tm_tasks m i) = TkPending then set_phase i TkStarted m else m)"
| "tor_apply (StoreHandle i) m = m\<lparr>tm_handle := Some i\<rparr>"
| "tor_apply (TaskEvent i ev) m = task_step i ev m"

inductive tor_reachable :: "tor_state \<Rightarrow> 'c tor_manager \<Rightarrow> bool" for initial where
  start: "tor_reachable initial (tor_manager_new initial)"
| step: "tor_reachable initial m \<Longrightarrow> tor_reachable initial (tor_apply act m)"

inductive_cases tor_reachable_cases: "tor_reachable initial m"

section \<open>Invariant\<close>

definition tor_inv :: "'c tor_manager \<Rightarrow> bool" where
  "tor_inv m \<longleftrightarrow>
     (\<not> ts_enabled (tm_state m) \<longrightarrow> ts_status (tm_state m) = TorOff \<and> ts_last_error (tm_state m) = None)
   \<and> (tm_client m \<noteq> None \<longleftrightarrow> ts_status (tm_state m) = TorOn)
   \<and> tm_published m = tm_state m
   \<and> (\<forall>i. tk_phase (tm_tasks m i) \<noteq> TkFinished \<longrightarrow> \<not> tk_cancelled (tm_tasks m i) \<longrightarrow> tm_cancel m = Some i)
   \<and> (\<forall>i \<ge> tm_next m. tk_phase (tm_tasks m i) = TkFinished)
   \<and> (\<not> ts_enabled (tm_state m) \<longrightarrow> tm_cancel m = None)"

lemma tor_inv_new: "tor_inv (tor_manager_new initial)"
  by (auto simp: tor_inv_def tor_manager_new_def Let_def)

lemma tor_inv_set_enabled: "tor_inv m \<Longrightarrow> tor_inv (fst (set_enabled_locked b m))"
  by (auto simp: tor_inv_def set_enabled_locked_def cancel_current_def publish_state_locked_def Let_def
      split: option.splits)

lemma tor_inv_set_phase:
  "tor_inv m \<Longrightarrow> ph = TkFinished \<or> tk_phase (tm_tasks m i) \<noteq> TkFinished \<Longrightarrow> tor_inv (set_phase i ph m)"
  by (fastforce simp: tor_inv_def set_phase_def)

lemma tor_inv_set_status:
  "tor_inv m \<Longrightarrow> (st = TorOn \<longleftrightarrow> c \<noteq> None) \<Longrightarrow> tor_inv (set_status_if_active i st e c m)"
  by (auto simp: tor_inv_def set_status_if_active_def publish_state_locked_def)

lemma set_status_tasks [simp]: "tm_tasks (set_status_if_active i st e c m) = tm_tasks m"
  by (simp add: set_status_if_active_def publish_state_locked_def)

lemma tor_inv_task: "tor_inv m \<Longrightarrow> tor_inv (task_step i ev m)"
  by (auto simp: task_step_def Let_def intro!: tor_inv_set_phase tor_inv_set_status
      split: task_phase.splits bootstrap_event.splits)

lemma tor_inv_apply: "tor_inv m \<Longrightarrow> tor_inv (tor_apply act m)"
proof (cases act)
  case (StoreHandle i)
  assume "tor_inv m"
  then show ?thesis using StoreHandle by (simp add: tor_inv_def)
qed (auto intro: tor_inv_set_enabled tor_inv_set_phase tor_inv_task)

lemma tor_reachable_inv: "tor_reachable initial m \<Longrightarrow> tor_inv m"
  by (induction rule: tor_reachable.induct) (auto intro: tor_inv_new tor_inv_apply)

lemma disabled_stays_off:
  assumes "tor_inv m" and "\<not> ts_enabled (tm_state m)" and "\<forall>b. act \<noteq> SetEnabled b"
  shows "tm_state (tor_apply act m) = tm_state m" "tm_client (tor_apply act m) = tm_client m"
  using assms
  by (cases act; simp add: set_phase_def task_step_def set_status_if_active_def Let_def
      split: task_phase.splits bootstrap_event.splits)+

section \<open>Properties\<close>

text \<open>In every reachable state of the Tor manager, under every interleaving of enabling,
  disabling, task starts and task steps (stale and aborted tasks included), a disabled manager is Off
  with no client and no error, a client is present exactly when the status is On, the last published
  event is the current state, and at most one bootstrap task is neither finished nor cancelled.\<close>

theorem tor_state_machine_invariant:
  assumes "tor_reachable initial m"
  shows "(\<not> ts_enabled (tm_state m) \<longrightarrow> ts_status (tm_state m) = TorOff \<and> ts_last_error (tm_state m) = None \<and> tm_client m = None)
     \<and> (tm_client m \<noteq> None \<longleftrightarrow> ts_status (tm_state m) = TorOn)
     \<and> tm_published m = tm_state m
     \<and> (\<forall>i j. tk_phase (tm_tasks m i) \<noteq> TkFinished \<and> \<not> tk_cancelled (tm_tasks m i)
            \<and> tk_phase (tm_tasks m j) \<noteq> TkFinished \<and> \<not> tk_cancelled (tm_tasks m j) \<longrightarrow> i = j)"
proof -
  have inv: "tor_inv m" by (rule tor_reachable_inv[OF assms])
  have "i = j" if "tk_phase (tm_tasks m i) \<noteq> TkFinished" "\<not> tk_cancelled (tm_tasks m i)"
    "tk_phase (tm_tasks m j) \<noteq> TkFinished" "\<not> tk_cancelled (tm_tasks m j)" for i j
  proof -
    have "tm_cancel m = Some i" "tm_cancel m = Some j" using inv that unfolding tor_inv_def by blast+
    then show ?thesis by simp
  qed
  moreover have "(tm_client m \<noteq> None) = (ts_status (tm_state m) = TorOn)" "tm_published m = tm_state m"
    "\<not> ts_enabled (tm_state m) \<Longrightarrow> ts_status (tm_state m) = TorOff \<and> ts_last_error (tm_state m) = None"
    using inv unfolding tor_inv_def by blast+
  ultimately show ?thesis by auto
qed

theorem tor_state_machine_invariant_witness:
  "let m = tor_apply (TaskEvent 0 (BootOk ''client'')) (tor_apply (TaskEvent 0 DirMade) (tor_apply (SpawnTask 0)
             (tor_apply (SetEnabled True) (tor_manager_new \<lparr>ts_enabled = False, ts_status = TorOff, ts_last_error = None\<rparr>))))
   in ts_status (tm_state m) = TorOn \<and> tm_client m \<noteq> None"
proof -
  let ?i = "\<lparr>ts_enabled = False, ts_status = TorOff, ts_last_error = None\<rparr>"
  let ?m = "tor_apply (TaskEvent 0 (BootOk ''client'')) (tor_apply (TaskEvent 0 DirMade) (tor_apply (SpawnTask 0)
             (tor_apply (SetEnabled True) (tor_manager_new ?i))))"
  have r: "tor_reachable ?i ?m" by (intro tor_reachable.intros)
  have "ts_status (tm_state ?m) = TorOn"
    by (simp add: tor_manager_new_def set_enabled_locked_def cancel_current_def publish_state_locked_def set_phase_def
        task_step_def set_status_if_active_def Let_def)
  then show ?thesis using tor_state_machine_invariant[OF r] by (simp only: Let_def simp_thms)
qed



end
