(* ===== verification/Network_Clients.thy ===== *)
theory Network_Clients
  imports Tor_Manager Broadcast
begin

text \<open>
  \<open>crates/zbag-network/src/transport.rs\<close>, \<open>http_client.rs\<close> and the connections and requests of
  \<open>grpc_client.rs\<close>: every request selects its transport first and fails closed when Tor is enabled
  but not ready.  A selection reads the Tor manager twice (its state, then its client), so it is
  given the two states it observes.  The wire is the list of requests that left the process.
\<close>

section \<open>Transport selection\<close>

datatype 'c selected_transport = Direct | ViaTor 'c

datatype transport_error = TorNotReady tor_status "string option"

text \<open>No Tor manager, or the manager as seen by the two reads.\<close>

type_synonym 'c selector = "('c tor_manager \<times> 'c tor_manager) option"

definition select :: "'c selector \<Rightarrow> (transport_error, 'c selected_transport) result" where
  "select tor =
     (case tor of
        None \<Rightarrow> Inr Direct
      | Some (m1, m2) \<Rightarrow>
          let state = tm_state m1 in
          if \<not> ts_enabled state then Inr Direct
          else if ts_status state \<noteq> TorOn then Inl (TorNotReady (ts_status state) (ts_last_error state))
          else case tor_client m2 of
                 None \<Rightarrow> Inl (TorNotReady (ts_status state) (ts_last_error state))
               | Some client \<Rightarrow> Inr (ViaTor client))"

definition tor_required :: "'c selector \<Rightarrow> bool" where
  "tor_required tor = (case tor of None \<Rightarrow> False | Some (m1, m2) \<Rightarrow> ts_enabled (tm_state m1))"

text \<open>
  The contract the clients rely on: a direct transport is only selected when Tor is not required.
  What a client puts on the wire is determined by the selected transport.
\<close>

datatype wire = WireDirect string | WireTor string

locale fail_closed =
  fixes sel :: "'s \<Rightarrow> ('e, 't) result"
    and is_direct :: "'t \<Rightarrow> bool"
    and required :: "'s \<Rightarrow> bool"
  assumes direct_not_required: "sel s = Inr t \<Longrightarrow> is_direct t \<Longrightarrow> \<not> required s"
begin

lemma required_not_direct: "required s \<Longrightarrow> sel s = Inr t \<Longrightarrow> \<not> is_direct t"
  using direct_not_required by blast

lemma required_wire:
  assumes "required s"
    and "\<And>e. sel s = Inl e \<Longrightarrow> wires = []"
    and "\<And>t. sel s = Inr t \<Longrightarrow> \<not> is_direct t \<Longrightarrow> \<forall>w \<in> set wires. \<exists>u. w = WireTor u"
  shows "\<forall>w \<in> set wires. \<exists>u. w = WireTor u"
  using assms required_not_direct by (cases "sel s") auto

end

interpretation tor: fail_closed select "\<lambda>t. t = Direct" tor_required
  by unfold_locales
    (auto simp: select_def tor_required_def Let_def split: option.splits if_splits)

section \<open>HTTP client\<close>

record 'j json_response =
  jr_status :: nat
  jr_body :: 'j
  jr_retry_after :: "nat option"

datatype http_error = DirectTransport string | FailClosed transport_error | TorTransport string | HttpTimeout
  | InvalidUrl string | InvalidBody string

text \<open>The network as a client sees it; a Tor request is answered, fails, or does not end in time.\<close>

record ('c, 'j) http_env =
  he_direct :: "string \<Rightarrow> (string, nat \<times> 'j \<times> string option) result"
  he_tor :: "'c \<Rightarrow> string \<Rightarrow> (string, nat \<times> 'j \<times> string option) result option"
  he_uri_ok :: "string \<Rightarrow> bool"
  he_encode_ok :: bool

definition parse_retry_after :: "string option \<Rightarrow> nat option" where
  "parse_retry_after header = (case header of None \<Rightarrow> None | Some s \<Rightarrow> parse_u64 s)"

definition json_response :: "nat \<times> 'j \<times> string option \<Rightarrow> 'j json_response" where
  "json_response r = (case r of (status, body, header) \<Rightarrow>
     \<lparr>jr_status = status, jr_body = body, jr_retry_after = parse_retry_after header\<rparr>)"

definition tor_reply :: "(string, nat \<times> 'j \<times> string option) result option \<Rightarrow> (http_error, 'j json_response) result" where
  "tor_reply r = (case r of None \<Rightarrow> Inl HttpTimeout
     | Some res \<Rightarrow> bind_result (map_err TorTransport res) (\<lambda>x. Inr (json_response x)))"

definition get_json :: "('c, 'j) http_env \<Rightarrow> 'c selector \<Rightarrow> string
    \<Rightarrow> (http_error, 'j json_response) result \<times> wire list" where
  "get_json he tor url =
     (case select tor of
        Inl e \<Rightarrow> (Inl (FailClosed e), [])
      | Inr Direct \<Rightarrow>
          (bind_result (map_err DirectTransport (he_direct he url)) (\<lambda>x. Inr (json_response x)), [WireDirect url])
      | Inr (ViaTor client) \<Rightarrow>
          if \<not> he_uri_ok he url then (Inl (InvalidUrl url), [])
          else (tor_reply (he_tor he client url), [WireTor url]))"

definition post_json :: "('c, 'j) http_env \<Rightarrow> 'c selector \<Rightarrow> string
    \<Rightarrow> (http_error, 'j json_response) result \<times> wire list" where
  "post_json he tor url =
     (case select tor of
        Inl e \<Rightarrow> (Inl (FailClosed e), [])
      | Inr Direct \<Rightarrow>
          (bind_result (map_err DirectTransport (he_direct he url)) (\<lambda>x. Inr (json_response x)), [WireDirect url])
      | Inr (ViaTor client) \<Rightarrow>
          if \<not> he_uri_ok he url then (Inl (InvalidUrl url), [])
          else if \<not> he_encode_ok he then (Inl (InvalidBody url), [])
          else (tor_reply (he_tor he client url), [WireTor url]))"

section \<open>gRPC client\<close>

record ('c, 'h) grpc_env =
  ge_connect :: "nat \<Rightarrow> string \<Rightarrow> (string, 'h) result"
  ge_connect_tor :: "nat \<Rightarrow> 'c \<Rightarrow> string \<Rightarrow> (string, 'h) result option"
  ge_uri_ok :: "string \<Rightarrow> bool"
  ge_debug_text :: "engine_error \<Rightarrow> string"

record 'h grpc_client =
  gc_endpoint :: string
  gc_direct_channel :: "'h option"

definition get_direct_channel :: "('c, 'h) grpc_env \<Rightarrow> nat \<Rightarrow> 'h grpc_client
    \<Rightarrow> (engine_error, 'h) result \<times> wire list \<times> 'h grpc_client" where
  "get_direct_channel ge n gc =
     (case gc_direct_channel gc of
        Some ch \<Rightarrow> (Inr ch, [], gc)
      | None \<Rightarrow>
          if \<not> ge_uri_ok ge (gc_endpoint gc) then (Inl (with_context ''invalid gRPC endpoint URL'' (msg_err ''url'')), [], gc)
          else case ge_connect ge n (gc_endpoint gc) of
                 Inr ch \<Rightarrow> (Inr ch, [WireDirect (gc_endpoint gc)], gc\<lparr>gc_direct_channel := Some ch\<rparr>)
               | Inl e \<Rightarrow> (Inl (with_context ''failed to connect'' (msg_err e)), [WireDirect (gc_endpoint gc)], gc))"

definition reset_connection :: "'h grpc_client \<Rightarrow> 'h grpc_client" where
  "reset_connection gc = gc\<lparr>gc_direct_channel := None\<rparr>"

fun tor_not_ready_error :: "transport_error \<Rightarrow> engine_error" where
  "tor_not_ready_error (TorNotReady st le) = msg_err ''tor enabled but not ready''"

definition get_client :: "('c, 'h) grpc_env \<Rightarrow> nat \<Rightarrow> 'c selector \<Rightarrow> 'h grpc_client
    \<Rightarrow> (engine_error, 'h) result \<times> wire list \<times> 'h grpc_client" where
  "get_client ge n tor gc =
     (case select tor of
        Inl e \<Rightarrow> (Inl (tor_not_ready_error e), [], gc)
      | Inr Direct \<Rightarrow> get_direct_channel ge n gc
      | Inr (ViaTor client) \<Rightarrow>
          if \<not> ge_uri_ok ge (gc_endpoint gc) then (Inl (with_context ''invalid gRPC endpoint URL'' (msg_err ''url'')), [], gc)
          else case ge_connect_tor ge n client (gc_endpoint gc) of
                 None \<Rightarrow> (Inl (with_context ''Tor gRPC connection timed out'' (msg_err ''elapsed'')), [WireTor (gc_endpoint gc)], gc)
               | Some (Inl e) \<Rightarrow> (Inl (with_context ''failed to connect through Tor'' (msg_err e)), [WireTor (gc_endpoint gc)], gc)
               | Some (Inr ch) \<Rightarrow> (Inr ch, [WireTor (gc_endpoint gc)], gc))"

definition is_connection_error :: "('c, 'h) grpc_env \<Rightarrow> engine_error \<Rightarrow> bool" where
  "is_connection_error ge err = contains_any (to_lowercase (ge_debug_text ge err))
     [''connection'', ''transport'', ''broken pipe'', ''reset by peer'', ''timed out'', ''refused'', ''hyper'', ''h2'']"

definition get_client_with_retry :: "('c, 'h) grpc_env \<Rightarrow> 'c selector \<Rightarrow> 'c selector \<Rightarrow> 'h grpc_client
    \<Rightarrow> (engine_error, 'h) result \<times> wire list \<times> 'h grpc_client" where
  "get_client_with_retry ge tor1 tor2 gc =
     (case get_client ge 0 tor1 gc of
        (Inr ch, w, gc') \<Rightarrow> (Inr ch, w, gc')
      | (Inl err, w, gc') \<Rightarrow>
          if is_connection_error ge err then
            (case get_client ge 1 tor2 (reset_connection gc') of (r, w', gc'') \<Rightarrow> (r, w @ w', gc''))
          else (Inl err, w, gc'))"

definition show_int :: "int \<Rightarrow> string" where
  "show_int i = (if i < 0 then ''-'' @ show_nat (nat (- i)) else show_nat (nat i))"

text \<open>\<open>rpc\<close> is the unary \<open>SendTransaction\<close> call on a connection: a gRPC status, or the response's code
  and message.\<close>

definition send_transaction :: "('c, 'h) grpc_env \<Rightarrow> ('h \<Rightarrow> (string, int \<times> string) result) \<Rightarrow> 'c selector
    \<Rightarrow> 'h grpc_client \<Rightarrow> (engine_error, unit) result \<times> wire list \<times> 'h grpc_client" where
  "send_transaction ge rpc tor gc =
     (case get_client ge 0 tor gc of
        (Inl e, w, gc') \<Rightarrow> (Inl (with_context ''failed to connect'' e), w, gc')
      | (Inr ch, w, gc') \<Rightarrow>
          (bind_result (map_err (\<lambda>s. with_context ''SendTransaction RPC failed'' (msg_err s)) (rpc ch)) (\<lambda>(code, message).
             if code \<noteq> 0 then Inl (msg_err (''broadcast rejected (code '' @ show_int code @ ''): '' @ message)) else Inr ()),
           w, gc'))"

text \<open>The requests that read the chain have the same beginning.  \<open>rpc\<close> is the call on a connection; a streaming call returns the open stream.  Hashes and raw transactions are bytes of any representation \<open>'b\<close>.\<close>

definition on_client :: "('c, 'h) grpc_env \<Rightarrow> ('h \<Rightarrow> (engine_error, 'a) result) \<Rightarrow> 'c selector \<Rightarrow> 'h grpc_client
    \<Rightarrow> (engine_error, 'a) result \<times> wire list \<times> 'h grpc_client" where
  "on_client ge request tor gc =
     (case get_client ge 0 tor gc of
        (Inl e, w, gc') \<Rightarrow> (Inl (with_context ''failed to connect'' e), w, gc')
      | (Inr ch, w, gc') \<Rightarrow> (request ch, w, gc'))"

definition get_latest_block :: "('c, 'h) grpc_env \<Rightarrow> ('h \<Rightarrow> (string, nat \<times> 'b) result) \<Rightarrow> 'c selector \<Rightarrow> 'h grpc_client
    \<Rightarrow> (engine_error, nat \<times> 'b) result \<times> wire list \<times> 'h grpc_client" where
  "get_latest_block ge rpc =
     on_client ge (\<lambda>ch. bind_result (map_err (\<lambda>s. with_context ''GetLatestBlock RPC failed'' (msg_err s)) (rpc ch)) (\<lambda>(height, hash).
       if u32_max < height then Inl (with_context (''chain tip height '' @ show_nat height @ '' exceeds u32::MAX'') (msg_err ''out of range''))
       else Inr (height, hash)))"

definition get_block_range :: "('c, 'h) grpc_env \<Rightarrow> ('h \<Rightarrow> nat \<times> nat \<Rightarrow> (string, 's) result) \<Rightarrow> nat \<Rightarrow> nat \<Rightarrow> 'c selector \<Rightarrow> 'h grpc_client
    \<Rightarrow> (engine_error, 's) result \<times> wire list \<times> 'h grpc_client" where
  "get_block_range ge rpc start end_incl = on_client ge (\<lambda>ch. map_err msg_err (rpc ch (start, end_incl)))"

definition get_tree_state :: "('c, 'h) grpc_env \<Rightarrow> ('h \<Rightarrow> nat \<Rightarrow> (string, 't) result) \<Rightarrow> nat \<Rightarrow> 'c selector \<Rightarrow> 'h grpc_client
    \<Rightarrow> (engine_error, 't) result \<times> wire list \<times> 'h grpc_client" where
  "get_tree_state ge rpc height = on_client ge (\<lambda>ch. map_err (\<lambda>s. with_context ''GetTreeState RPC failed'' (msg_err s)) (rpc ch height))"

definition get_subtree_roots :: "('c, 'h) grpc_env \<Rightarrow> ('h \<Rightarrow> nat \<times> int \<times> nat \<Rightarrow> (string, 's) result) \<Rightarrow> nat \<Rightarrow> int \<Rightarrow> nat \<Rightarrow> 'c selector \<Rightarrow> 'h grpc_client
    \<Rightarrow> (engine_error, 's) result \<times> wire list \<times> 'h grpc_client" where
  "get_subtree_roots ge rpc start_index shielded_protocol max_entries =
     on_client ge (\<lambda>ch. map_err msg_err (rpc ch (start_index, shielded_protocol, max_entries)))"

definition get_transaction :: "('c, 'h) grpc_env \<Rightarrow> ('h \<Rightarrow> 'b \<Rightarrow> (string, 'b \<times> nat) result) \<Rightarrow> 'b \<Rightarrow> 'c selector \<Rightarrow> 'h grpc_client
    \<Rightarrow> (engine_error, 'b \<times> nat) result \<times> wire list \<times> 'h grpc_client" where
  "get_transaction ge rpc txid = on_client ge (\<lambda>ch. map_err (\<lambda>s. with_context ''GetTransaction RPC failed'' (msg_err s)) (rpc ch txid))"

lemmas read_requests = get_latest_block_def get_block_range_def get_tree_state_def get_subtree_roots_def get_transaction_def

section \<open>Lemmas\<close>

lemma lower_rejected: "to_lowercase ''broadcast rejected (code '' = ''broadcast rejected (code ''"
  by code_simp

lemma classify_rejected:
  assumes "\<not> is_effective_success_broadcast_error (''broadcast rejected (code '' @ r)"
  shows "classify_broadcast_error_message (''broadcast rejected (code '' @ r) = Terminal"
proof -
  have "to_lowercase (''broadcast rejected (code '' @ r) = [] @ ''broadcast rejected'' @ ('' (code '' @ to_lowercase r)"
    unfolding to_lowercase_append lower_rejected by simp
  then have "str_contains (to_lowercase (''broadcast rejected (code '' @ r)) ''broadcast rejected''"
    by (metis str_contains_append)
  then show ?thesis
    using assms by (simp add: classify_broadcast_error_message_def is_effective_success_broadcast_error_def
        is_benign_duplicate_relay_message_def contains_any_def Let_def)
qed

lemma get_direct_channel_wire: "w \<in> set (fst (snd (get_direct_channel ge n gc))) \<Longrightarrow> w = WireDirect (gc_endpoint gc)"
  by (auto simp: get_direct_channel_def split: option.splits if_splits sum.splits)

lemma get_client_tor_wire:
  assumes "tor_required tor"
  shows "\<forall>w \<in> set (fst (snd (get_client ge n tor gc))). \<exists>u. w = WireTor u"
  by (rule tor.required_wire[OF assms])
    (auto simp: get_client_def split: selected_transport.splits option.splits sum.splits if_splits)

lemma get_client_with_retry_wire:
  assumes "tor_required tor" and "tor_required tor2"
  shows "\<forall>w \<in> set (fst (snd (get_client_with_retry ge tor tor2 gc))). \<exists>u. w = WireTor u"
proof -
  obtain r w gc' where g: "get_client ge 0 tor gc = (r, w, gc')" by (metis prod_cases3)
  obtain r' w' gc'' where g': "get_client ge 1 tor2 (reset_connection gc') = (r', w', gc'')" by (metis prod_cases3)
  have "\<forall>x \<in> set w. \<exists>u. x = WireTor u" "\<forall>x \<in> set w'. \<exists>u. x = WireTor u"
    using get_client_tor_wire[OF assms(1), of ge 0 gc] get_client_tor_wire[OF assms(2), of ge 1 "reset_connection gc'"]
    unfolding g g' by simp_all
  then show ?thesis
    by (cases r) (auto simp: get_client_with_retry_def g g' simp del: One_nat_def)
qed

lemma get_json_tor_wire:
  assumes "tor_required tor"
  shows "\<forall>w \<in> set (snd (get_json he tor url)). \<exists>u. w = WireTor u"
  by (rule tor.required_wire[OF assms])
    (auto simp: get_json_def split: selected_transport.splits if_splits)

lemma post_json_tor_wire:
  assumes "tor_required tor"
  shows "\<forall>w \<in> set (snd (post_json he tor url)). \<exists>u. w = WireTor u"
  by (rule tor.required_wire[OF assms])
    (auto simp: post_json_def split: selected_transport.splits if_splits)

lemma send_transaction_wire: "fst (snd (send_transaction ge rpc tor gc)) = fst (snd (get_client ge 0 tor gc))"
  by (simp add: send_transaction_def split: prod.splits sum.splits)

lemma on_client_wire: "fst (snd (on_client ge request tor gc)) = fst (snd (get_client ge 0 tor gc))"
  by (simp add: on_client_def split: prod.splits sum.splits)

text \<open>A client that is refused a transport fails every request that reads the chain; the server is not asked.\<close>

lemma on_client_refused: "select tor = Inl e \<Longrightarrow> on_client ge request tor gc = (Inl (with_context ''failed to connect'' (tor_not_ready_error e)), [], gc)"
  by (simp add: on_client_def get_client_def)

section \<open>Properties\<close>


definition demo_tor :: "string tor_manager" where
  "demo_tor = tor_manager_new \<lparr>ts_enabled = True, ts_status = TorConnecting, ts_last_error = None\<rparr>"

definition demo_grpc :: "(string, unit) grpc_env" where
  "demo_grpc = \<lparr>ge_connect = (\<lambda>_ _. Inr ()), ge_connect_tor = (\<lambda>_ _ _. None), ge_uri_ok = (\<lambda>_. True), ge_debug_text = error_chain_text\<rparr>"


text \<open>A transaction the server rejects is either terminal or already relayed: a response with a
  non-zero code becomes an error whose text is classified Terminal unless it says that the transaction is
  already in the mempool or known, in which case the sender treats it as a success.\<close>

theorem rejection_is_terminal_or_relayed:
  assumes "get_client ge 0 tor gc = (Inr ch, w, gc')" and "rpc ch = Inr (code, message)" and "code \<noteq> 0"
  shows "\<exists>err. fst (send_transaction ge rpc tor gc) = Inl err
     \<and> (classify_broadcast_error_message (error_chain_text err) = Terminal
        \<or> is_effective_success_broadcast_error (error_chain_text err))"
  using assms classify_rejected[of "show_int code @ ''): '' @ message"]
  by (auto simp: send_transaction_def msg_err_def)

theorem rejection_is_terminal_or_relayed_witness:
  "\<exists>err. fst (send_transaction \<lparr>ge_connect = (\<lambda>_ _. Inr ()), ge_connect_tor = (\<lambda>_ (c::unit) _. None), ge_uri_ok = (\<lambda>_. True),
       ge_debug_text = error_chain_text\<rparr> (\<lambda>_. Inr (-26, ''bad'')) None \<lparr>gc_endpoint = ''https://a'', gc_direct_channel = None\<rparr>) = Inl err"
proof -
  let ?ge = "\<lparr>ge_connect = (\<lambda>_ _. Inr ()), ge_connect_tor = (\<lambda>_ (c::unit) _. None), ge_uri_ok = (\<lambda>_. True),
       ge_debug_text = error_chain_text\<rparr>"
  have g: "get_client ?ge 0 None \<lparr>gc_endpoint = ''https://a'', gc_direct_channel = None\<rparr>
     = (Inr (), [WireDirect ''https://a''], \<lparr>gc_endpoint = ''https://a'', gc_direct_channel = Some ()\<rparr>)"
    by (simp add: get_client_def select_def get_direct_channel_def)
  show ?thesis using rejection_is_terminal_or_relayed[OF g, of "\<lambda>_. Inr (-26, ''bad'')" "-26" "''bad''"] by auto
qed

end
