(* ===== verification/Near_Intents.thy ===== *)
theory Near_Intents
  imports Network_Clients
begin

text \<open>
  \<open>crates/zbag-network/src/near_intents.rs\<close>: the client of the 1Click API, over the HTTP client and its fail-closed transport.
  JSON values are a datatype; a floating-point number is kept by its text.  Printing JSON, parsing RFC 3339 dates and building
  URLs belong to other crates and are fields of \<open>near_env\<close>, as are the replies of the network: \<open>nv_quote req\<close> answers the request
  with body \<open>req\<close>, so that the repeated quote request may be answered differently.
\<close>

section \<open>JSON\<close>

datatype json_number = PosInt nat | NegInt int | JFloat string

datatype json = JNull | JBool bool | JNum json_number | JStr string | JArr "json list" | JObj "(string \<times> json) list"

fun json_get :: "string \<Rightarrow> json \<Rightarrow> json option" where
  "json_get k (JObj kvs) = map_of kvs k"
| "json_get k v = None"

fun as_str :: "json \<Rightarrow> string option" where
  "as_str (JStr s) = Some s"
| "as_str v = None"

fun as_u64 :: "json \<Rightarrow> nat option" where
  "as_u64 (JNum (PosInt n)) = Some n"
| "as_u64 v = None"

fun as_number :: "json \<Rightarrow> json_number option" where
  "as_number (JNum n) = Some n"
| "as_number v = None"

fun as_array :: "json \<Rightarrow> json list option" where
  "as_array (JArr vs) = Some vs"
| "as_array v = None"

definition str_field :: "string \<Rightarrow> json \<Rightarrow> string option" where
  "str_field k v = Option.bind (json_get k v) as_str"

definition unwrap_or :: "'a option \<Rightarrow> 'a \<Rightarrow> 'a" where
  "unwrap_or x d = (case x of None \<Rightarrow> d | Some y \<Rightarrow> y)"

definition or_else :: "'a option \<Rightarrow> 'a option \<Rightarrow> 'a option" where
  "or_else x y = (case x of None \<Rightarrow> y | Some _ \<Rightarrow> x)"

section \<open>Requests, responses and errors\<close>

record app_fee =
  fee_recipient :: string
  fee_fee :: nat

record quote_request =
  qr_origin_asset :: string
  qr_destination_asset :: string
  qr_amount :: string
  qr_swap_type :: string
  qr_slippage_tolerance :: nat
  qr_quote_waiting_time_ms :: "nat option"
  qr_referral :: "string option"
  qr_app_fees :: "app_fee list option"
  qr_deposit_type :: string
  qr_refund_to :: string
  qr_refund_type :: string
  qr_recipient :: string
  qr_recipient_type :: string
  qr_deadline :: string
  qr_dry :: bool

record quote_response =
  qs_amount_in :: string
  qs_amount_in_formatted :: string
  qs_amount_in_usd :: string
  qs_min_amount_in :: string
  qs_amount_out :: string
  qs_amount_out_formatted :: string
  qs_amount_out_usd :: string
  qs_min_amount_out :: string
  qs_deadline_iso :: "string option"
  qs_deadline_ms :: "int option"
  qs_time_when_inactive_iso :: "string option"
  qs_time_estimate_secs :: nat
  qs_deposit_address :: "string option"
  qs_deposit_memo :: "string option"
  qs_correlation_id :: string

datatype remote_status = PendingDeposit | KnownDepositTx | IncompleteDeposit | Processing | Success | RsRefunded | RsFailed | Unknown string

record status_response =
  st_status :: remote_status
  st_message :: "string option"

record token_info =
  ti_asset_id :: string
  ti_symbol :: string
  ti_chain :: string
  ti_decimals :: nat
  ti_usd_price :: "json_number option"
  ti_icon :: "string option"

datatype near_error = RateLimited "nat option" | NearTorNotReady | NearTransport string | NearHttp nat string | InvalidResponse string

fun near_error_text :: "near_error \<Rightarrow> string" where
  "near_error_text (RateLimited _) = ''rate limited''"
| "near_error_text NearTorNotReady = ''Tor is enabled but not ready''"
| "near_error_text (NearTransport m) = ''transport error: '' @ m"
| "near_error_text (NearHttp status m) = ''http error: status='' @ show_nat status @ '' '' @ m"
| "near_error_text (InvalidResponse m) = ''invalid response: '' @ m"

fun map_remote_status_to_local_state :: "remote_status \<Rightarrow> swap_state" where
  "map_remote_status_to_local_state PendingDeposit = AwaitingDeposit"
| "map_remote_status_to_local_state KnownDepositTx = SwPending"
| "map_remote_status_to_local_state IncompleteDeposit = SwFailed"
| "map_remote_status_to_local_state Processing = SwPending"
| "map_remote_status_to_local_state Success = Confirming"
| "map_remote_status_to_local_state RsRefunded = Refunded"
| "map_remote_status_to_local_state RsFailed = SwFailed"
| "map_remote_status_to_local_state (Unknown _) = SwPending"

fun map_http_error :: "http_error \<Rightarrow> near_error" where
  "map_http_error (FailClosed _) = NearTorNotReady"
| "map_http_error (DirectTransport e) = NearTransport e"
| "map_http_error (TorTransport m) = NearTransport m"
| "map_http_error HttpTimeout = NearTransport ''timeout''"
| "map_http_error (InvalidUrl m) = InvalidResponse m"
| "map_http_error (InvalidBody m) = InvalidResponse m"

section \<open>Parsing responses\<close>

definition missing :: "string \<Rightarrow> near_error" where
  "missing what = InvalidResponse (''missing '' @ what)"

definition parse_quote_response :: "(string \<Rightarrow> int option) \<Rightarrow> json \<Rightarrow> (near_error, quote_response) result" where
  "parse_quote_response rfc3339_ms body =
     bind_result (ok_or (json_get ''quote'' body) (missing ''quote object'')) (\<lambda>quote.
     bind_result (ok_or (str_field ''correlationId'' body) (missing ''correlationId'')) (\<lambda>correlation_id.
     bind_result (ok_or (str_field ''amountIn'' quote) (missing ''quote.amountIn'')) (\<lambda>amount_in.
     bind_result (ok_or (str_field ''amountInFormatted'' quote) (missing ''quote.amountInFormatted'')) (\<lambda>amount_in_formatted.
     bind_result (ok_or (str_field ''amountOut'' quote) (missing ''quote.amountOut'')) (\<lambda>amount_out.
     bind_result (ok_or (str_field ''amountOutFormatted'' quote) (missing ''quote.amountOutFormatted'')) (\<lambda>amount_out_formatted.
     let deadline_iso = str_field ''deadline'' quote in
     Inr \<lparr>qs_amount_in = amount_in, qs_amount_in_formatted = amount_in_formatted,
          qs_amount_in_usd = unwrap_or (str_field ''amountInUsd'' quote) ''0'',
          qs_min_amount_in = unwrap_or (str_field ''minAmountIn'' quote) amount_in,
          qs_amount_out = amount_out, qs_amount_out_formatted = amount_out_formatted,
          qs_amount_out_usd = unwrap_or (str_field ''amountOutUsd'' quote) ''0'',
          qs_min_amount_out = unwrap_or (str_field ''minAmountOut'' quote) amount_out,
          qs_deadline_iso = deadline_iso, qs_deadline_ms = Option.bind deadline_iso rfc3339_ms,
          qs_time_when_inactive_iso = str_field ''timeWhenInactive'' quote,
          qs_time_estimate_secs = unwrap_or (Option.bind (json_get ''timeEstimate'' quote) as_u64) 120,
          qs_deposit_address = str_field ''depositAddress'' quote, qs_deposit_memo = str_field ''depositMemo'' quote,
          qs_correlation_id = correlation_id\<rparr>))))))"

definition parse_deposit_submit_response :: "json \<Rightarrow> (near_error, bool) result" where
  "parse_deposit_submit_response body = Inr True"

definition remote_status_of_text :: "string \<Rightarrow> remote_status" where
  "remote_status_of_text raw =
     (if raw = ''PENDING_DEPOSIT'' then PendingDeposit
      else if raw = ''KNOWN_DEPOSIT_TX'' then KnownDepositTx
      else if raw = ''INCOMPLETE_DEPOSIT'' then IncompleteDeposit
      else if raw = ''PROCESSING'' then Processing
      else if raw = ''SUCCESS'' then Success
      else if raw = ''REFUNDED'' then RsRefunded
      else if raw = ''FAILED'' then RsFailed
      else Unknown raw)"

definition parse_status_response :: "json \<Rightarrow> (near_error, status_response) result" where
  "parse_status_response body =
     Inr \<lparr>st_status = remote_status_of_text (unwrap_or (str_field ''status'' body) ''UNKNOWN''), st_message = str_field ''message'' body\<rparr>"

definition parse_token :: "json \<Rightarrow> token_info option" where
  "parse_token item =
     (let asset_id = unwrap_or (Option.bind (or_else (json_get ''assetId'' item) (json_get ''defuseAssetId'' item)) as_str) [] in
      if asset_id = [] then None
      else Some \<lparr>ti_asset_id = asset_id, ti_symbol = unwrap_or (str_field ''symbol'' item) [],
             ti_chain = unwrap_or (Option.bind (or_else (json_get ''blockchain'' item) (json_get ''chain'' item)) as_str) [],
             ti_decimals = (case Option.bind (json_get ''decimals'' item) as_u64 of
                              None \<Rightarrow> 0 | Some d \<Rightarrow> if d \<le> 255 then d else 0),
             ti_usd_price = or_else (Option.bind (json_get ''price'' item) as_number) (Option.bind (json_get ''usdPrice'' item) as_number),
             ti_icon = str_field ''icon'' item\<rparr>)"

definition parse_tokens_response :: "json \<Rightarrow> (near_error, token_info list) result" where
  "parse_tokens_response body =
     bind_result (ok_or (as_array body) (InvalidResponse ''expected array'')) (\<lambda>arr. Inr (List.map_filter parse_token arr))"

section \<open>Client\<close>

record 'c near_env =
  nv_base_url :: string
  nv_url_ok :: "string \<Rightarrow> bool"
  nv_json_text :: "json \<Rightarrow> string"
  nv_rfc3339_ms :: "string \<Rightarrow> int option"
  nv_with_query :: "string \<Rightarrow> (string \<times> string) list \<Rightarrow> string"
  nv_quote :: "quote_request \<Rightarrow> ('c, json) http_env"
  nv_submit :: "string \<Rightarrow> string \<Rightarrow> ('c, json) http_env"
  nv_get :: "('c, json) http_env"

definition handle_rate_limit :: "nat \<Rightarrow> nat option \<Rightarrow> (near_error, unit) result" where
  "handle_rate_limit status retry_after = (if status \<noteq> 429 then Inr () else Inl (RateLimited retry_after))"

definition is_success :: "nat \<Rightarrow> bool" where
  "is_success status = (200 \<le> status \<and> status < 300)"

definition endpoint :: "'c near_env \<Rightarrow> string \<Rightarrow> (near_error, string) result" where
  "endpoint nv path =
     (let url = nv_base_url nv @ path in if nv_url_ok nv url then Inr url else Inl (InvalidResponse ''invalid base url''))"

text \<open>What every call does with its reply: transport errors, the rate limit, the status.\<close>

definition received :: "(http_error, json json_response) result \<Rightarrow> (near_error, json json_response) result" where
  "received r = bind_result (map_err map_http_error r) (\<lambda>res.
     bind_result (handle_rate_limit (jr_status res) (jr_retry_after res)) (\<lambda>_. Inr res))"

definition parse_success :: "'c near_env \<Rightarrow> (json \<Rightarrow> (near_error, 'a) result) \<Rightarrow> json json_response \<Rightarrow> (near_error, 'a) result" where
  "parse_success nv parse res =
     (if is_success (jr_status res) then parse (jr_body res)
      else Inl (NearHttp (jr_status res) (nv_json_text nv (jr_body res))))"

definition quote_retryable :: "quote_request \<Rightarrow> json json_response \<Rightarrow> bool" where
  "quote_retryable req res =
     (jr_status res = 400
      \<and> (case str_field ''message'' (jr_body res) of
           None \<Rightarrow> False
         | Some m \<Rightarrow> to_lowercase m = ''failed to get quote'' \<or> to_lowercase m = ''no liquidity available'')
      \<and> unwrap_or (qr_quote_waiting_time_ms req) 0 < 10000)"

text \<open>The two attempts select their transport separately.\<close>

definition get_quote :: "'c near_env \<Rightarrow> 'c selector \<Rightarrow> 'c selector \<Rightarrow> quote_request \<Rightarrow> (near_error, quote_response) result \<times> wire list" where
  "get_quote nv tor1 tor2 req =
     (case endpoint nv ''/v0/quote'' of
        Inl e \<Rightarrow> (Inl e, [])
      | Inr url \<Rightarrow>
          let parse = parse_success nv (parse_quote_response (nv_rfc3339_ms nv));
              (r1, w1) = post_json (nv_quote nv req) tor1 url in
          case received r1 of
            Inl e \<Rightarrow> (Inl e, w1)
          | Inr res \<Rightarrow>
              if \<not> is_success (jr_status res) \<and> quote_retryable req res then
                let (r2, w2) = post_json (nv_quote nv (req\<lparr>qr_quote_waiting_time_ms := Some 10000\<rparr>)) tor2 url
                in (bind_result (received r2) parse, w1 @ w2)
              else (parse res, w1))"

definition submit_deposit :: "'c near_env \<Rightarrow> 'c selector \<Rightarrow> string \<Rightarrow> string \<Rightarrow> (near_error, bool) result \<times> wire list" where
  "submit_deposit nv tor tx_hash deposit_address =
     (case endpoint nv ''/v0/deposit/submit'' of
        Inl e \<Rightarrow> (Inl e, [])
      | Inr url \<Rightarrow>
          let (r, w) = post_json (nv_submit nv tx_hash deposit_address) tor url
          in (bind_result (received r) (parse_success nv parse_deposit_submit_response), w))"

definition get_status :: "'c near_env \<Rightarrow> 'c selector \<Rightarrow> string \<Rightarrow> string option \<Rightarrow> (near_error, status_response) result \<times> wire list" where
  "get_status nv tor deposit_address deposit_memo =
     (case endpoint nv ''/v0/status'' of
        Inl e \<Rightarrow> (Inl e, [])
      | Inr base \<Rightarrow>
          let url = nv_with_query nv base ((''depositAddress'', deposit_address)
                      # (case deposit_memo of None \<Rightarrow> [] | Some m \<Rightarrow> [(''depositMemo'', m)]));
              (r, w) = get_json (nv_get nv) tor url
          in (bind_result (received r) (parse_success nv parse_status_response), w))"

definition get_supported_tokens :: "'c near_env \<Rightarrow> 'c selector \<Rightarrow> (near_error, token_info list) result \<times> wire list" where
  "get_supported_tokens nv tor =
     (case endpoint nv ''/v0/tokens'' of
        Inl e \<Rightarrow> (Inl e, [])
      | Inr url \<Rightarrow>
          let (r, w) = get_json (nv_get nv) tor url
          in (bind_result (received r) (parse_success nv parse_tokens_response), w))"

section \<open>Lemmas\<close>

lemma map_remote_status_terminal:
  "map_remote_status_to_local_state s \<noteq> SwCompleted"
  by (cases s) simp_all

text \<open>No call leaves the process outside Tor while Tor is required; the clients inherit it from the selection.\<close>

lemma get_json_tor: "tor_required tor \<Longrightarrow> w \<in> set (snd (get_json he tor url)) \<Longrightarrow> \<exists>u. w = WireTor u"
  by (rule tor.required_wire[of tor "snd (get_json he tor url)", rule_format]) (auto simp: get_json_def split: selected_transport.splits if_splits)

lemma post_json_tor: "tor_required tor \<Longrightarrow> w \<in> set (snd (post_json he tor url)) \<Longrightarrow> \<exists>u. w = WireTor u"
  by (rule tor.required_wire[of tor "snd (post_json he tor url)", rule_format]) (auto simp: post_json_def split: selected_transport.splits if_splits)

lemmas near_client_defs = get_quote_def submit_deposit_def get_status_def get_supported_tokens_def

lemma near_wires_tor:
  assumes "tor_required tor1" "tor_required tor2"
  shows "w \<in> set (snd (get_quote nv tor1 tor2 req)) \<union> set (snd (submit_deposit nv tor1 tx dep)) \<union> set (snd (get_status nv tor1 dep memo))
      \<union> set (snd (get_supported_tokens nv tor1)) \<Longrightarrow> \<exists>u. w = WireTor u"
  using assms
  by (auto simp: near_client_defs Let_def case_prod_unfold split: sum.splits if_splits dest: get_json_tor post_json_tor)

end
