(* ===== verification/Swap_Amount.thy ===== *)
theory Swap_Amount
  imports Decimal
begin

text \<open>
  The amounts of \<open>crates/zbag-engine/src/swap_service.rs\<close>: \<open>convert_to_smallest_units\<close> from a decimal numeral to the smallest unit of
  an asset, in 128-bit arithmetic that wraps where the release build does not check it, \<open>parse_zatoshis\<close> and the table of
  known assets.
\<close>

section \<open>Model\<close>

fun split_on :: "char \<Rightarrow> string \<Rightarrow> string list" where
  "split_on d [] = [[]]"
| "split_on d (c # s) =
     (if c = d then [] # split_on d s else case split_on d s of [] \<Rightarrow> [[c]] | p # ps \<Rightarrow> (c # p) # ps)"

fun scale_by_tens :: "nat \<Rightarrow> nat \<Rightarrow> nat option" where
  "scale_by_tens 0 result = Some result"
| "scale_by_tens (Suc n) result = (if result * 10 \<le> u128_max then scale_by_tens n (result * 10) else None)"

definition wrap_u128 :: "nat \<Rightarrow> nat" where "wrap_u128 n = n mod 2 ^ 128"

definition fraction_units :: "nat \<Rightarrow> nat \<Rightarrow> string \<Rightarrow> (string, nat) result" where
  "fraction_units decimals scaled frac_str =
     (if frac_str = [] then Inr scaled
      else bind_result (ok_or (parse_u128 (take (min (length frac_str) decimals) frac_str)) ''invalid fractional part'') (\<lambda>frac_val.
           let total = scaled + wrap_u128 (frac_val * wrap_u128 (10 ^ (decimals - min (length frac_str) decimals)))
           in if total \<le> u128_max then Inr total else Inl ''amount overflow''))"

definition convert_to_smallest_units :: "string \<Rightarrow> nat \<Rightarrow> (string, string) result" where
  "convert_to_smallest_units amount0 decimals =
     (let amount = trim amount0; parts = split_on (CHR ''.'') amount in
      if amount = [] then Inl ''empty amount''
      else if length parts > 2 then Inl ''invalid amount format''
      else
        let whole_str = hd parts; frac_str = (if length parts > 1 then parts ! 1 else []) in
        bind_result (guard_or (list_all is_digit whole_str) ''invalid whole part'') (\<lambda>_.
        bind_result (ok_or (parse_u128 whole_str) ''invalid whole part'') (\<lambda>whole.
        bind_result (guard_or (frac_str = [] \<or> list_all is_digit frac_str) ''invalid fractional part'') (\<lambda>_.
        bind_result (ok_or (scale_by_tens decimals whole) ''amount overflow'') (\<lambda>scaled.
        bind_result (fraction_units decimals scaled frac_str) (\<lambda>result.
        if result = 0 then Inl ''amount must be greater than zero'' else Inr (show_nat result)))))))"

definition pad_zeros :: "string \<Rightarrow> string" where
  "pad_zeros frac = frac @ replicate (8 - length frac) (CHR ''0'')"

definition parse_zatoshis :: "string \<Rightarrow> nat option" where
  "parse_zatoshis value0 =
     (let value = trim value0 in
      if value = [] then None
      else case split_once (CHR ''.'') value of
             Some (whole, frac) \<Rightarrow>
               Option.bind (parse_u64 whole) (\<lambda>w.
               if length frac > 8 then None
               else Option.bind (parse_u64 (pad_zeros frac)) (\<lambda>f.
                    Option.bind (checked_mul_u64 w 100000000) (\<lambda>x. checked_add_u64 x f)))
           | None \<Rightarrow> parse_u64 value)"

definition get_static_decimals_for_asset :: "string \<Rightarrow> nat option" where
  "get_static_decimals_for_asset asset_id =
     (if asset_id = ''nep141:zec.omft.near'' then Some 8
      else if asset_id = ''nep141:eth.omft.near'' \<or> asset_id = ''nep141:base.omft.near'' then Some 18
      else if asset_id = ''nep141:sol.omft.near'' then Some 9
      else if asset_id = ''nep141:wrap.near'' then Some 24
      else if list_ex (\<lambda>token. str_contains asset_id token)
          [''0xa0b86991c6218b36c1d19d4a2e9eb0ce3606eb48'', ''0xdac17f958d2ee523a2206206994597c13d831ec7'',
           ''0x833589fcd6edb6e08f4c7c32d4f71b54bda02913'', ''5ce3bf3a31af18be40ba30f721101b4341690186'',
           ''c800a4bd850783ccb82c2b2c7e84175443606352'', ''17208628f84f5d6ad33f0da3bbbeb27ffcb398eac501a31bd6ad2011e36133a1'']
        then Some 6
      else None)"

section \<open>Specification\<close>

text \<open>The numeral \<open>w.f\<close> in units of \<open>10\<^sup>-\<^sup>d\<close>, rounded down.\<close>

definition digits_val :: "string \<Rightarrow> nat" where
  "digits_val s = foldl (\<lambda>acc c. acc * 10 + digit_val c) 0 s"

definition numeral_units :: "string \<Rightarrow> string \<Rightarrow> nat \<Rightarrow> nat" where
  "numeral_units w f d = digits_val (w @ f) * 10 ^ d div 10 ^ length f"

definition amount_numeral :: "string \<Rightarrow> string \<Rightarrow> string \<Rightarrow> bool" where
  "amount_numeral s w f = (w \<noteq> [] \<and> list_all is_digit w \<and> list_all is_digit f \<and> (s = w \<and> f = [] \<or> s = w @ CHR ''.'' # f))"

section \<open>Lemmas\<close>

lemma parse_digits_val: "list_all is_digit s \<Longrightarrow> parse_digits acc s = Some (foldl (\<lambda>a c. a * 10 + digit_val c) acc s)"
  by (induction s arbitrary: acc) auto

lemma parse_digits_fail: "\<not> list_all is_digit s \<Longrightarrow> parse_digits acc s = None"
  by (induction s arbitrary: acc) auto

lemma parse_uint_digits: "list_all is_digit s \<Longrightarrow> parse_uint limit s = (if s = [] then None else if digits_val s \<le> limit then Some (digits_val s) else None)"
  using digit_not_plus by (cases s) (auto simp: parse_uint_def digits_val_def parse_digits_val)

lemma foldl_digits: "foldl (\<lambda>a c. a * 10 + digit_val c) acc s = acc * 10 ^ length s + digits_val s"
proof (induction s rule: rev_induct)
  case (snoc c s)
  then show ?case by (simp add: digits_val_def algebra_simps)
qed (simp add: digits_val_def)

lemma digits_val_append: "digits_val (a @ b) = digits_val a * 10 ^ length b + digits_val b"
  using foldl_digits[of "digits_val a" b] by (simp add: digits_val_def)

lemma digit_val_less: "is_digit c \<Longrightarrow> digit_val c < 10"
  by (auto simp: is_digit_def digit_val_def Let_def)

lemma digits_val_less: "list_all is_digit s \<Longrightarrow> digits_val s < 10 ^ length s"
proof (induction s rule: rev_induct)
  case (snoc c s)
  then have "digits_val s + 1 \<le> 10 ^ length s" "digit_val c < 10" using digit_val_less by auto
  then show ?case by (simp add: digits_val_append) (simp add: digits_val_def)
qed (simp add: digits_val_def)

lemma scale_by_tens_some: "scale_by_tens n r = (if n = 0 \<or> r * 10 ^ n \<le> u128_max then Some (r * 10 ^ n) else None)"
proof (induction n arbitrary: r)
  case (Suc n)
  have "r * 10 \<le> r * (10 * 10 ^ n)" by simp
  then have "r * (10 * 10 ^ n) \<le> u128_max \<Longrightarrow> r * 10 \<le> u128_max" by linarith
  then show ?case using Suc[of "r * 10"] by (auto simp: mult.assoc)
qed simp

lemma split_on_none: "d \<notin> set s \<Longrightarrow> split_on d s = [s]"
  by (induction s) auto

lemma split_on_append: "d \<notin> set a \<Longrightarrow> split_on d (a @ d # b) = a # split_on d b"
  by (induction a) auto

lemma split_on_nonempty: "split_on d s \<noteq> []"
  by (induction s) (auto split: list.splits)

lemma split_on_single: "split_on d s = [w] \<longleftrightarrow> s = w \<and> d \<notin> set w"
proof (cases "d \<in> set s")
  case True
  then obtain u v where "s = u @ d # v" "d \<notin> set u" by (meson split_list_first)
  then show ?thesis using split_on_nonempty[of d v] by (auto simp: split_on_append)
qed (auto simp: split_on_none)

lemma split_on_two: "split_on d s = [a, b] \<longleftrightarrow> s = a @ d # b \<and> d \<notin> set a \<and> d \<notin> set b"
proof (cases "split_once d s")
  case None
  then have "d \<notin> set s" by (simp add: split_once_none)
  then show ?thesis by (auto simp: split_on_none)
next
  case (Some p)
  obtain x y where p: "s = x @ d # y" "d \<notin> set x" using Some split_once_some[of d s] by (cases p) auto
  have "x @ d # y = a @ d # b \<longleftrightarrow> x = a \<and> y = b" if "d \<notin> set a"
    using p(2) that by (auto simp: append_eq_append_conv2 append_eq_Cons_conv Cons_eq_append_conv)
  then show ?thesis using p by (auto simp: split_on_append split_on_single)
qed

lemma digit_not_dot: "list_all is_digit s \<Longrightarrow> CHR ''.'' \<notin> set s"
  by (auto simp: list_all_iff is_digit_def Let_def)

lemma digit_not_ws: "is_digit c \<Longrightarrow> \<not> is_ws c"
  by (auto simp: is_digit_def is_ws_def Let_def)

lemma trim_id: "\<forall>c \<in> set s. \<not> is_ws c \<Longrightarrow> trim s = s"
proof -
  have *: "\<forall>c \<in> set x. \<not> is_ws c \<Longrightarrow> dropWhile is_ws x = x" for x by (cases x) auto
  assume "\<forall>c \<in> set s. \<not> is_ws c"
  then show ?thesis using *[of s] *[of "rev s"] by (simp add: trim_def trim_start_def trim_end_def)
qed

text \<open>The fraction cut to \<open>d\<close> digits and scaled, without wrap-around.\<close>

lemma truncated_fraction:
  assumes "list_all is_digit f"
  shows "digits_val (take (min (length f) d) f) * 10 ^ (d - min (length f) d) = digits_val f * 10 ^ d div 10 ^ length f"
proof (cases "length f \<le> d")
  case True
  then have "(10 :: nat) ^ d = 10 ^ (d - length f) * 10 ^ length f" by (simp flip: power_add)
  then have "digits_val f * 10 ^ d = (digits_val f * 10 ^ (d - length f)) * 10 ^ length f" by (simp only: mult.assoc)
  then have "digits_val f * 10 ^ d div 10 ^ length f = digits_val f * 10 ^ (d - length f)" by (simp only: div_mult_self_is_m zero_less_power zero_less_numeral)
  then show ?thesis using True by (simp add: min_def)
next
  case False
  let ?a = "take d f" and ?b = "drop d f"
  have "digits_val f = digits_val ?a * 10 ^ length ?b + digits_val ?b" by (metis append_take_drop_id digits_val_append)
  moreover have b: "digits_val ?b < 10 ^ length ?b" using assms by (intro digits_val_less) (metis append_take_drop_id list_all_append)
  moreover have "10 ^ length f = (10 ^ d :: nat) * 10 ^ length ?b" using False by (simp flip: power_add)
  ultimately have "digits_val f * 10 ^ d div 10 ^ length f = digits_val f div 10 ^ length ?b" by (simp add: div_mult2_eq mult.commute)
  also have "\<dots> = digits_val ?a" using \<open>digits_val f = _\<close> b by (simp add: div_add1_eq)
  finally show ?thesis using False by (simp add: min_def)
qed

lemma numeral_units_split: "numeral_units w f d = digits_val w * 10 ^ d + digits_val f * 10 ^ d div 10 ^ length f"
proof -
  have "digits_val (w @ f) * 10 ^ d = digits_val f * 10 ^ d + (digits_val w * 10 ^ d) * 10 ^ length f"
    by (simp add: digits_val_append algebra_simps)
  then show ?thesis by (simp add: numeral_units_def)
qed

lemma ten_pow_bound: "d \<le> 38 \<Longrightarrow> (10 :: nat) ^ d < 2 ^ 128"
  using power_increasing[of d 38 "10 :: nat"] by simp

lemma fraction_below:
  assumes "list_all is_digit f" "d \<le> 38"
  shows "digits_val f * 10 ^ d div 10 ^ length f < 2 ^ 128"
proof -
  have "digits_val f * 10 ^ d div 10 ^ length f \<le> 10 ^ length f * 10 ^ d div 10 ^ length f"
    using digits_val_less[OF assms(1)] by (intro div_le_mono mult_le_mono1) simp
  then show ?thesis using ten_pow_bound[of d] assms(2) by simp
qed

lemma fraction_units_ok:
  assumes "list_all is_digit f" "d \<le> 38"
  shows "fraction_units d scaled f = Inr n \<longleftrightarrow> (f = [] \<or> d \<noteq> 0) \<and> n = scaled + digits_val f * 10 ^ d div 10 ^ length f \<and> (f = [] \<or> n \<le> u128_max)"
proof (cases "f = [] \<or> d = 0")
  case True
  then show ?thesis by (auto simp: fraction_units_def digits_val_def parse_u128_def parse_uint_def)
next
  case False
  let ?k = "min (length f) d" and ?x = "digits_val f * 10 ^ d div 10 ^ length f"
  have t: "list_all is_digit (take ?k f)" "take ?k f \<noteq> []" using assms(1) False by (auto simp: list_all_iff dest: in_set_takeD)
  have x: "digits_val (take ?k f) * 10 ^ (d - ?k) = ?x" by (rule truncated_fraction[OF assms(1)])
  have "digits_val (take ?k f) < 2 ^ 128"
    using digits_val_less[OF t(1)] ten_pow_bound[of ?k] assms(2) by (simp add: min_def split: if_splits)
  then have p: "parse_u128 (take ?k f) = Some (digits_val (take ?k f))"
    using t by (simp add: parse_u128_def parse_uint_digits u128_max_def)
  have "10 ^ (d - ?k) < (2 :: nat) ^ 128" using ten_pow_bound[of "d - ?k"] assms(2) by simp
  then have "wrap_u128 (digits_val (take ?k f) * wrap_u128 (10 ^ (d - ?k))) = ?x"
    using fraction_below[OF assms] x by (simp add: wrap_u128_def)
  then show ?thesis using p False by (auto simp: fraction_units_def Let_def)
qed

lemma whole_scaled:
  assumes "list_all is_digit w"
  shows "Option.bind (parse_u128 w) (scale_by_tens d) = Some x \<longleftrightarrow> w \<noteq> [] \<and> digits_val w * 10 ^ d \<le> u128_max \<and> x = digits_val w * 10 ^ d"
proof -
  have "digits_val w * 10 ^ d \<le> u128_max \<Longrightarrow> digits_val w \<le> u128_max"
    by (rule order_trans[of _ "digits_val w * 10 ^ d"]) simp_all
  then show ?thesis using assms by (cases "d = 0") (auto simp: parse_u128_def parse_uint_digits scale_by_tens_some bind_eq_Some_conv split: if_splits)
qed

lemma convert_parts:
  "convert_to_smallest_units s d = Inr r \<longleftrightarrow>
     (\<exists>w f scaled n. (split_on (CHR ''.'') (trim s) = [w] \<and> f = [] \<or> split_on (CHR ''.'') (trim s) = [w, f]) \<and> trim s \<noteq> []
        \<and> list_all is_digit w \<and> list_all is_digit f
        \<and> Option.bind (parse_u128 w) (scale_by_tens d) = Some scaled \<and> fraction_units d scaled f = Inr n \<and> n \<noteq> 0 \<and> r = show_nat n)"
proof -
  consider w where "split_on (CHR ''.'') (trim s) = [w]" | w f where "split_on (CHR ''.'') (trim s) = [w, f]"
    | a b c l where "split_on (CHR ''.'') (trim s) = a # b # c # l"
    by (cases "split_on (CHR ''.'') (trim s)" rule: remdups_adj.cases)
       (use split_on_nonempty in \<open>auto, metis list.exhaust\<close>)
  then show ?thesis
    by cases (auto simp: convert_to_smallest_units_def Let_def bind_result_ok guard_or_ok ok_or_ok bind_eq_Some_conv split: if_splits)
qed

section \<open>Properties\<close>

text \<open>C16: Swap amounts are converted exactly.  For up to 38 decimals, an amount is accepted precisely when it is, up to
  surrounding blanks, a decimal numeral \<open>w\<close> or \<open>w.f\<close> with digits before the point (and none after it when the asset has no decimals), whose value in
  the smallest unit, rounded down, is positive and fits 128 bits; the result is that value printed in decimal.  No rounding up, no
  wrap-around, no silently dropped digit before the point.\<close>

theorem swap_amount_exact:
  assumes "d \<le> 38"
  shows "convert_to_smallest_units s d = Inr r \<longleftrightarrow>
     (\<exists>w f. amount_numeral (trim s) w f \<and> (f = [] \<or> d \<noteq> 0) \<and> 0 < numeral_units w f d \<and> numeral_units w f d \<le> u128_max
        \<and> r = show_nat (numeral_units w f d))"
proof -
  have parts: "(split_on (CHR ''.'') t = [w] \<and> f = [] \<or> split_on (CHR ''.'') t = [w, f]) \<and> t \<noteq> [] \<and> list_all is_digit w \<and> list_all is_digit f
      \<and> Option.bind (parse_u128 w) (scale_by_tens d) = Some scaled \<and> fraction_units d scaled f = Inr n
    \<longleftrightarrow> amount_numeral t w f \<and> scaled = digits_val w * 10 ^ d \<and> (f = [] \<or> d \<noteq> 0) \<and> n = numeral_units w f d \<and> n \<le> u128_max" for t w f scaled n
  proof (cases "list_all is_digit w \<and> list_all is_digit f")
    case True
    then have shape: "(split_on (CHR ''.'') t = [w] \<and> f = [] \<or> split_on (CHR ''.'') t = [w, f]) \<longleftrightarrow> (t = w \<and> f = [] \<or> t = w @ CHR ''.'' # f)"
      using digit_not_dot by (auto simp: split_on_two split_on_single)
    have units: "numeral_units w f d = digits_val w * 10 ^ d + digits_val f * 10 ^ d div 10 ^ length f" by (rule numeral_units_split)
    have nil: "f = [] \<Longrightarrow> digits_val f = 0" by (simp add: digits_val_def)
    show ?thesis
      unfolding shape whole_scaled[OF conjunct1[OF True]] fraction_units_ok[OF conjunct2[OF True] assms] amount_numeral_def units
      using True nil by auto
  qed (auto simp: amount_numeral_def)
  have "convert_to_smallest_units s d = Inr r \<longleftrightarrow> (\<exists>w f scaled n. (amount_numeral (trim s) w f \<and> scaled = digits_val w * 10 ^ d \<and> (f = [] \<or> d \<noteq> 0)
      \<and> n = numeral_units w f d \<and> n \<le> u128_max) \<and> n \<noteq> 0 \<and> r = show_nat n)"
    unfolding convert_parts parts[symmetric] conj_assoc ..
  then show ?thesis by auto
qed


theorem swap_amount_exact_witness:
  "convert_to_smallest_units '' 1.5 '' 8 = Inr (show_nat 150000000)"
proof -
  have d: "(8 :: nat) \<le> 38" by simp
  have t: "trim '' 1.5 '' = ''1.5''" by code_simp
  have "amount_numeral ''1.5'' ''1'' ''5''" by code_simp
  moreover have "numeral_units ''1'' ''5'' 8 = 150000000" by (simp add: numeral_units_def digits_val_def digit_val_def)
  moreover have "150000000 \<le> u128_max" by (simp add: u128_max_def)
  ultimately show ?thesis unfolding swap_amount_exact[OF d] t by (intro exI[of _ "''1''"] exI[of _ "''5''"]) simp
qed

text \<open>\<open>parse_zatoshis\<close> reads a whole number as zatoshis and a number with a decimal point as ZEC: printing \<open>n\<close> gives \<open>n\<close> zatoshis,
  printing \<open>n\<close> with a trailing zero decimal gives \<open>n\<close> ZEC.  The amounts it is given are in ZEC, so the amount of a swap of a whole
  number of ZEC is read a hundred million times too small.\<close>

theorem whole_zec_read_as_zatoshis:
  "n * 100000000 \<le> u64_max \<Longrightarrow> parse_zatoshis (show_nat n) = Some n \<and> parse_zatoshis (show_nat n @ ''.0'') = Some (n * 100000000)"
proof -
  assume n: "n * 100000000 \<le> u64_max"
  have d: "\<forall>c \<in> set (show_nat n). is_digit c" using show_nat_digits by blast
  then have t: "trim (show_nat n) = show_nat n" "trim (show_nat n @ ''.0'') = show_nat n @ ''.0''"
    using digit_not_ws by (auto intro!: trim_id simp: is_ws_def)
  have "CHR ''.'' \<notin> set (show_nat n)" using d digit_not_dot[of "show_nat n"] by (auto simp: list_all_iff)
  then have "split_once (CHR ''.'') (show_nat n) = None" "split_once (CHR ''.'') (show_nat n @ ''.0'') = Some (show_nat n, ''0'')"
    by (simp_all add: split_once_none split_once_some)
  moreover have "pad_zeros ''0'' = ''00000000''" by code_simp
  moreover have "parse_u64 ''00000000'' = Some 0" by (simp add: parse_u64_def parse_uint_def digit_val_def is_digit_def)
  ultimately show ?thesis using n t by (simp add: parse_zatoshis_def checked_mul_u64_def checked_add_u64_def)
qed

theorem whole_zec_read_as_zatoshis_witness: "parse_zatoshis (show_nat 5) = Some 5 \<and> parse_zatoshis (show_nat 5 @ ''.0'') = Some (5 * 100000000)"
  using whole_zec_read_as_zatoshis[of 5] by (simp add: u64_max_def)

end
