(* ===== verification/Swap.thy ===== *)
theory Swap
  imports Wallet_Tx Near_Intents Swap_Amount
begin

text \<open>
  \<open>crates/zbag-engine/src/swap_service.rs\<close>: quotes, starting swaps to and from ZEC, status refreshes and the polling tasks.  The world is
  the service's tables, the wallet manager (whose app database the service opens), the tasks in flight, the events sent to
  the user interface and the deposits reported to the provider.  A refresh and an iteration of a polling task release everything while they wait for the provider,
  so both are split there and their halves interleave with other steps.
\<close>

section \<open>State\<close>

record swap_intent =
  in_swap_type :: swap_type
  in_swap_mode :: swap_mode
  in_input_asset :: string
  in_input_amount :: string
  in_output_asset :: string
  in_output_amount :: "string option"
  in_destination_address :: "string option"
  in_refund_address :: "string option"

record swap_quote =
  sq_input_asset :: string
  sq_input_amount :: string
  sq_input_amount_formatted :: string
  sq_output_asset :: string
  sq_output_amount :: string
  sq_output_amount_formatted :: string
  sq_min_output_amount :: string
  sq_deadline :: int
  sq_time_estimate_secs :: nat
  sq_deposit_address :: "string option"
  sq_deposit_memo :: "string option"
  sq_correlation_id :: string
  sq_app_fee_bps :: "nat option"

record quote_record =
  qq_wallet_id :: uuid
  qq_intent :: swap_intent
  qq_quote :: swap_quote

record swap_service =
  sv_quotes :: "string \<rightharpoonup> quote_record"
  sv_jobs :: "uuid set"
  sv_refresh_inflight :: "uuid set"
  sv_token_decimals :: "string \<rightharpoonup> nat"
  sv_token_decimals_updated_ms :: "int option"

definition swap_service_new :: swap_service where
  "swap_service_new = \<lparr>sv_quotes = Map.empty, sv_jobs = {}, sv_refresh_inflight = {}, sv_token_decimals = Map.empty,
     sv_token_decimals_updated_ms = None\<rparr>"

datatype poll_phase = PollCheck | PollSleep | PollAwait

record poll_task =
  pt_wallet :: uuid
  pt_swap :: swap_info
  pt_backoff :: nat
  pt_notify :: bool
  pt_phase :: poll_phase

record refresh_call =
  rc_wallet :: uuid
  rc_swap :: swap_info
  rc_notify :: bool

record ('p, 'q) swap_world =
  sx_service :: swap_service
  sx_manager :: "('p, 'q) wallet_manager"
  sx_tasks :: "uuid \<rightharpoonup> poll_task"
  sx_refreshes :: "uuid \<rightharpoonup> refresh_call"
  sx_events :: "swap_info list"
  sx_submitted :: "(string \<times> string) list"

text \<open>A mined row of \<open>v_transactions\<close>; \<open>None\<close> is a column that cannot be read, or NULL.\<close>

record mined_row =
  mr_fee_paid :: "int option"
  mr_total_spent :: "int option"
  mr_total_received :: "int option"
  mr_is_shielding :: "bool option"
  mr_sent_note_count :: "int option"
  mr_received_note_count :: "int option"
  mr_block_time :: "int option"

text \<open>One call sees these answers: \<open>sn_now_ms n\<close> is the \<open>n\<close>-th reading of the clock, \<open>sn_mined\<close> the rows of the query for mined transactions, newest first, if
  the wallet database can be opened and queried.\<close>

record ('c, 'p) swap_env =
  sn_near :: "'c near_env"
  sn_tor1 :: "'c selector"
  sn_tor2 :: "'c selector"
  sn_open_db :: "(engine_error, unit) result"
  sn_now_ms :: "nat \<Rightarrow> int"
  sn_new_id :: uuid
  sn_rfc3339 :: "int \<Rightarrow> string"
  sn_status_in_time :: bool
  sn_spawn_ok :: bool
  sn_mined :: "tx_context \<Rightarrow> mined_row list option"
  sn_wallet :: wallet_env
  sn_task :: task_env
  sn_send :: "'p send_env"
  sn_net :: net_env
  sn_build :: "string \<Rightarrow> 'p proposal \<Rightarrow> (string, string list) result"
  sn_load :: tx_loader
  sn_proposal_id :: string

definition swap_db :: "('p, 'q) swap_world \<Rightarrow> app_db" where
  "swap_db w = wm_app_db (sx_manager w)"

definition set_swap_db :: "app_db \<Rightarrow> ('p, 'q) swap_world \<Rightarrow> ('p, 'q) swap_world" where
  "set_swap_db db w = w\<lparr>sx_manager := (sx_manager w)\<lparr>wm_app_db := db\<rparr>\<rparr>"

section \<open>Detection of the deposit or payout on chain\<close>

definition is_none_or :: "'a option \<Rightarrow> ('a \<Rightarrow> bool) \<Rightarrow> bool" where
  "is_none_or x p = (case x of None \<Rightarrow> True | Some a \<Rightarrow> p a)"

definition trunc_div_1000 :: "int \<Rightarrow> int" where
  "trunc_div_1000 a = (if 0 \<le> a then a div 1000 else - ((- a) div 1000))"

definition expected_amount_zat :: "swap_info \<Rightarrow> nat option" where
  "expected_amount_zat sw =
     (case sw_swap_type sw of
        ToZec \<Rightarrow> Option.bind (sw_output_amount sw) Swap_Amount.parse_zatoshis
      | FromZec \<Rightarrow> Swap_Amount.parse_zatoshis (sw_input_amount sw))"

definition row_confirms :: "swap_info \<Rightarrow> mined_row \<Rightarrow> bool" where
  "row_confirms sw row =
     (case (mr_is_shielding row, mr_sent_note_count row, mr_received_note_count row) of
        (Some False, Some sent, Some recv) \<Rightarrow>
          let min_block_time_s = trunc_div_1000 (sat_sub_i64 (sw_created_at sw) (15 * 60 * 1000)) in
          (case mr_block_time row of None \<Rightarrow> True | Some bt \<Rightarrow> min_block_time_s \<le> bt) \<and>
          (case sw_swap_type sw of
             ToZec \<Rightarrow> sent \<le> 0 \<and> 0 < recv \<and>
               (case mr_total_received row of
                  None \<Rightarrow> False
                | Some total_received \<Rightarrow> is_none_or (expected_amount_zat sw) (\<lambda>expected. nat total_received = expected))
           | FromZec \<Rightarrow> 0 < sent \<and>
               (case (mr_total_spent row, mr_total_received row) of
                  (Some total_spent, Some total_received) \<Rightarrow>
                    let fee = (case mr_fee_paid row of None \<Rightarrow> 0 | Some f \<Rightarrow> nat f) in
                    is_none_or (expected_amount_zat sw) (\<lambda>expected. nat total_spent - nat total_received - fee = expected)
                | _ \<Rightarrow> False))
      | _ \<Rightarrow> False)"

definition has_confirmed_zcash_tx :: "('c, 'p) swap_env \<Rightarrow> uuid \<Rightarrow> swap_info \<Rightarrow> ('p, 'q) wallet_manager \<Rightarrow> bool" where
  "has_confirmed_zcash_tx env wid sw m =
     (case wm_active m of
        None \<Rightarrow> False
      | Some a \<Rightarrow>
          wi_id (aw_wallet a) = wid \<and>
          (case get_tx_operation_context (sn_wallet env) m of
             Inl _ \<Rightarrow> False
           | Inr ctx \<Rightarrow>
               (case sn_mined env ctx of
                  None \<Rightarrow> False
                | Some rows \<Rightarrow> list_ex (row_confirms sw) (take 200 rows))))"

definition next_state_from_remote_status :: "('c, 'p) swap_env \<Rightarrow> uuid \<Rightarrow> swap_info \<Rightarrow> remote_status \<Rightarrow> ('p, 'q) wallet_manager \<Rightarrow> swap_state" where
  "next_state_from_remote_status env wid sw remote m =
     (let mapped = map_remote_status_to_local_state remote in
      if mapped = Confirming \<and> has_confirmed_zcash_tx env wid sw m then SwCompleted else mapped)"

definition swap_terminal :: "swap_state \<Rightarrow> bool" where
  "swap_terminal st = (st = SwCompleted \<or> st = Refunded \<or> st = SwFailed)"

section \<open>Quotes\<close>

definition TOKEN_DECIMALS_CACHE_TTL_MS :: int where "TOKEN_DECIMALS_CACHE_TTL_MS = 5 * 60 * 1000"

definition unsupported_asset :: "string \<Rightarrow> engine_error" where
  "unsupported_asset asset_id = ipc_err INVALID_ASSET (''unsupported asset: '' @ asset_id)"

definition near_failure :: "string \<Rightarrow> near_error \<Rightarrow> engine_error" where
  "near_failure what err =
     (case err of
        NearTorNotReady \<Rightarrow> ipc_err TOR_NOT_READY ''Tor is enabled but not ready''
      | _ \<Rightarrow> ipc_err SWAP_FAILED (what @ near_error_text err))"

definition resolve_asset_decimals :: "('c, 'p) swap_env \<Rightarrow> string \<Rightarrow> swap_service \<Rightarrow> (engine_error, nat) result \<times> swap_service" where
  "resolve_asset_decimals env asset_id0 s =
     (let asset_id = trim asset_id0; static = get_static_decimals_for_asset asset_id in
      if asset_id = [] then (Inl (ipc_err INVALID_ASSET ''invalid asset''), s)
      else case static of
        Some d \<Rightarrow> (Inr d, s)
      | None \<Rightarrow>
          let now_ms = sn_now_ms env 0;
              cached = sv_token_decimals s asset_id;
              fresh = (case sv_token_decimals_updated_ms s of None \<Rightarrow> False
                       | Some updated_ms \<Rightarrow> sat_sub_i64 now_ms updated_ms \<le> TOKEN_DECIMALS_CACHE_TTL_MS) in
          if fresh then (ok_or (or_else cached static) (unsupported_asset asset_id), s)
          else case fst (get_supported_tokens (sn_near env) (sn_tor1 env)) of
            Inl err \<Rightarrow> (ok_or (or_else cached static) (near_failure ''failed to fetch supported tokens: '' err), s)
          | Inr tokens \<Rightarrow>
              let refreshed = map_of (rev (map (\<lambda>t. (ti_asset_id t, ti_decimals t)) tokens)) in
              (ok_or (or_else (refreshed asset_id) static) (unsupported_asset asset_id),
               s\<lparr>sv_token_decimals := refreshed, sv_token_decimals_updated_ms := Some now_ms\<rparr>))"

definition nonblank :: "string option \<Rightarrow> string option" where
  "nonblank x = (case x of None \<Rightarrow> None | Some s \<Rightarrow> if trim s = [] then None else Some (trim s))"

definition invalid_request :: "string \<Rightarrow> engine_error" where
  "invalid_request m = ipc_err INVALID_REQUEST m"

text \<open>The amount in smallest units, by the mode of the intent.\<close>

definition quoted_amount :: "('c, 'p) swap_env \<Rightarrow> swap_intent \<Rightarrow> swap_service \<Rightarrow> (engine_error, string \<times> string) result \<times> swap_service" where
  "quoted_amount env i s =
     (let amount_of = (\<lambda>asset text kind.
        bind_se (resolve_asset_decimals env asset s) (\<lambda>d s1.
        (bind_result (map_err (\<lambda>e. invalid_request (''invalid amount: '' @ e)) (convert_to_smallest_units text d)) (\<lambda>a. Inr (a, kind)), s1))) in
      case in_swap_mode i of
        ExactInput \<Rightarrow>
          if trim (in_input_amount i) = [] then (Inl (invalid_request ''missing input_amount for ExactInput mode''), s)
          else amount_of (in_input_asset i) (in_input_amount i) ''EXACT_INPUT''
      | ExactOutput \<Rightarrow>
          (case nonblank (in_output_amount i) of
             None \<Rightarrow> (Inl (invalid_request ''missing output_amount for ExactOutput/CrossPay mode''), s)
           | Some output_amount \<Rightarrow> amount_of (in_output_asset i) output_amount ''EXACT_OUTPUT''))"

definition quote_of_response :: "swap_intent \<Rightarrow> int \<Rightarrow> quote_response \<Rightarrow> swap_quote" where
  "quote_of_response i fallback res =
     \<lparr>sq_input_asset = in_input_asset i, sq_input_amount = qs_amount_in res, sq_input_amount_formatted = qs_amount_in_formatted res,
      sq_output_asset = in_output_asset i, sq_output_amount = qs_amount_out res, sq_output_amount_formatted = qs_amount_out_formatted res,
      sq_min_output_amount = qs_min_amount_out res,
      sq_deadline = (case qs_deadline_ms res of None \<Rightarrow> fallback | Some ms \<Rightarrow> if 0 < ms then ms else fallback),
      sq_time_estimate_secs = qs_time_estimate_secs res, sq_deposit_address = qs_deposit_address res, sq_deposit_memo = qs_deposit_memo res,
      sq_correlation_id = qs_correlation_id res, sq_app_fee_bps = None\<rparr>"

definition store_quote :: "int \<Rightarrow> string \<Rightarrow> quote_record \<Rightarrow> swap_service \<Rightarrow> swap_service" where
  "store_quote now_ms quote_id r s =
     s\<lparr>sv_quotes := (\<lambda>k. case sv_quotes s k of None \<Rightarrow> None
         | Some q \<Rightarrow> if sq_deadline (qq_quote q) = 0 \<or> now_ms < sq_deadline (qq_quote q) then Some q else None)(quote_id \<mapsto> r)\<rparr>"

text \<open>The deadline sent is two hours ahead; application fees are off.\<close>

definition request_swap_quote :: "('c, 'p) swap_env \<Rightarrow> uuid \<Rightarrow> network \<Rightarrow> swap_intent \<Rightarrow> swap_service
    \<Rightarrow> (engine_error, string \<times> swap_quote) result \<times> swap_service" where
  "request_swap_quote env wid net i s =
     (if net = Testnet then (Inl (ipc_err SWAP_UNSUPPORTED_NETWORK ''swaps are not supported on Testnet''), s)
      else if trim (in_input_asset i) = [] \<or> trim (in_output_asset i) = [] then (Inl (ipc_err INVALID_ASSET ''invalid asset''), s)
      else
        bind_se (quoted_amount env i s) (\<lambda>(amount, kind) s1.
        bind_se (ok_or (nonblank (in_destination_address i)) (invalid_request ''destination_address required''), s1) (\<lambda>recipient s2.
        bind_se (ok_or (nonblank (in_refund_address i)) (invalid_request ''refund_address required''), s2) (\<lambda>refund_to s3.
        let deadline_ms = sn_now_ms env 1 + 2 * 60 * 60 * 1000;
            req = \<lparr>qr_origin_asset = in_input_asset i, qr_destination_asset = in_output_asset i, qr_amount = amount, qr_swap_type = kind,
                   qr_slippage_tolerance = 100, qr_quote_waiting_time_ms = Some 3000, qr_referral = Some ''zbag'', qr_app_fees = None,
                   qr_deposit_type = ''ORIGIN_CHAIN'', qr_refund_to = refund_to, qr_refund_type = ''ORIGIN_CHAIN'',
                   qr_recipient = recipient, qr_recipient_type = ''DESTINATION_CHAIN'', qr_deadline = sn_rfc3339 env deadline_ms, qr_dry = False\<rparr>
        in case fst (get_quote (sn_near env) (sn_tor1 env) (sn_tor2 env) req) of
             Inl e \<Rightarrow> (Inl (near_failure ''failed to fetch quote: '' e), s3)
           | Inr res \<Rightarrow>
               let quote = quote_of_response i deadline_ms res; quote_id = qs_correlation_id res in
               (Inr (quote_id, quote),
                store_quote (sn_now_ms env 2) quote_id \<lparr>qq_wallet_id = wid, qq_intent = i, qq_quote = quote\<rparr> s3)))))"

section \<open>Polling\<close>

definition start_polling :: "('c, 'p) swap_env \<Rightarrow> uuid \<Rightarrow> swap_info \<Rightarrow> bool \<Rightarrow> ('p, 'q) swap_world \<Rightarrow> bool \<times> ('p, 'q) swap_world" where
  "start_polling env wid sw notify w =
     (if sw_id sw \<in> sv_jobs (sx_service w) \<or> \<not> sn_spawn_ok env then (False, w)
      else (True, w\<lparr>sx_service := (sx_service w)\<lparr>sv_jobs := insert (sw_id sw) (sv_jobs (sx_service w))\<rparr>,
                    sx_tasks := (sx_tasks w)(sw_id sw \<mapsto>
                      \<lparr>pt_wallet = wid, pt_swap = sw, pt_backoff = 5, pt_notify = notify, pt_phase = PollCheck\<rparr>)\<rparr>))"

definition end_polling :: "uuid \<Rightarrow> ('p, 'q) swap_world \<Rightarrow> ('p, 'q) swap_world" where
  "end_polling sid w = w\<lparr>sx_service := (sx_service w)\<lparr>sv_jobs := sv_jobs (sx_service w) - {sid}\<rparr>,
     sx_tasks := (sx_tasks w)(sid := None)\<rparr>"

definition is_active_wallet :: "uuid \<Rightarrow> ('p, 'q) swap_world \<Rightarrow> bool" where
  "is_active_wallet wid w = is_active_wallet_unlocked wid (sx_manager w)"

definition emit_swap :: "bool \<Rightarrow> swap_info \<Rightarrow> ('p, 'q) swap_world \<Rightarrow> ('p, 'q) swap_world" where
  "emit_swap notify sw w = (if notify then w\<lparr>sx_events := sx_events w @ [sw]\<rparr> else w)"

definition try_persist_and_emit_swap_change :: "('c, 'p) swap_env \<Rightarrow> uuid \<Rightarrow> swap_info \<Rightarrow> bool \<Rightarrow> ('p, 'q) swap_world \<Rightarrow> ('p, 'q) swap_world" where
  "try_persist_and_emit_swap_change env wid sw notify w =
     (let w1 = (case sn_open_db env of
                  Inl _ \<Rightarrow> w
                | Inr _ \<Rightarrow> (case update_swap wid sw (swap_db w) of Inl _ \<Rightarrow> w | Inr db \<Rightarrow> set_swap_db db w))
      in emit_swap (notify \<and> is_active_wallet wid w1) sw w1)"

definition status_reply :: "('c, 'p) swap_env \<Rightarrow> swap_info \<Rightarrow> string \<Rightarrow> (near_error, status_response) result" where
  "status_reply env sw deposit_address =
     (if sn_status_in_time env then fst (get_status (sn_near env) (sn_tor1 env) deposit_address (sw_deposit_memo sw))
      else Inl (NearTransport ''timeout after 15s''))"

text \<open>What a status changes of a swap, \<open>None\<close> if nothing.\<close>

definition swap_with_status :: "('c, 'p) swap_env \<Rightarrow> uuid \<Rightarrow> swap_info \<Rightarrow> status_response \<Rightarrow> ('p, 'q) wallet_manager \<Rightarrow> swap_info option" where
  "swap_with_status env wid sw status m =
     (let next_state = next_state_from_remote_status env wid sw (st_status status) m; next_last_error = st_message status in
      if next_state \<noteq> sw_state sw \<or> next_last_error \<noteq> sw_last_error sw
      then Some (sw\<lparr>sw_state := next_state, sw_updated_at := sn_now_ms env 0, sw_last_error := next_last_error\<rparr>)
      else None)"

definition put_task :: "uuid \<Rightarrow> poll_task \<Rightarrow> ('p, 'q) swap_world \<Rightarrow> ('p, 'q) swap_world" where
  "put_task sid t w = w\<lparr>sx_tasks := (sx_tasks w)(sid \<mapsto> t)\<rparr>"

text \<open>The reply to a poll.\<close>

definition poll_reply :: "('c, 'p) swap_env \<Rightarrow> uuid \<Rightarrow> poll_task \<Rightarrow> (near_error, status_response) result \<Rightarrow> ('p, 'q) swap_world \<Rightarrow> ('p, 'q) swap_world" where
  "poll_reply env sid t reply w =
     (let sw = pt_swap t; again = (\<lambda>sw' backoff. put_task sid (t\<lparr>pt_swap := sw', pt_backoff := backoff, pt_phase := PollCheck\<rparr>)) in
      case reply of
        Inr status \<Rightarrow>
          let change = swap_with_status env (pt_wallet t) sw status (sx_manager w);
              sw' = unwrap_or change sw;
              w1 = (case change of None \<Rightarrow> w | Some s \<Rightarrow> try_persist_and_emit_swap_change env (pt_wallet t) s (pt_notify t) w)
          in if swap_terminal (sw_state sw') then end_polling sid w1 else again sw' 5 w1
      | Inl (RateLimited retry_after) \<Rightarrow> again sw (min (unwrap_or retry_after (pt_backoff t * 2)) 60) w
      | Inl err \<Rightarrow>
          let sw' = sw\<lparr>sw_last_error := Some (near_error_text err), sw_updated_at := sn_now_ms env 0\<rparr>
          in again sw' (min (pt_backoff t * 2) 60) (try_persist_and_emit_swap_change env (pt_wallet t) sw' (pt_notify t) w))"

text \<open>One step of the task of a swap: the check before the sleep, the check after it, the reply.  Nothing ever sends on the cancel channel of a job.\<close>

definition poll_step :: "('c, 'p) swap_env \<Rightarrow> uuid \<Rightarrow> ('p, 'q) swap_world \<Rightarrow> ('p, 'q) swap_world" where
  "poll_step env sid w =
     (case sx_tasks w sid of
        None \<Rightarrow> w
      | Some t \<Rightarrow>
          (case pt_phase t of
             PollCheck \<Rightarrow> if is_active_wallet (pt_wallet t) w then put_task sid (t\<lparr>pt_phase := PollSleep\<rparr>) w else end_polling sid w
           | PollSleep \<Rightarrow>
               if is_active_wallet (pt_wallet t) w \<and> sw_deposit_address (pt_swap t) \<noteq> None
               then put_task sid (t\<lparr>pt_phase := PollAwait\<rparr>) w else end_polling sid w
           | PollAwait \<Rightarrow>
               (case sw_deposit_address (pt_swap t) of
                  None \<Rightarrow> end_polling sid w
                | Some dep \<Rightarrow> poll_reply env sid t (status_reply env (pt_swap t) dep) w)))"

section \<open>Starting a swap\<close>

definition swap_of_quote :: "('c, 'p) swap_env \<Rightarrow> quote_record \<Rightarrow> string \<Rightarrow> swap_state \<Rightarrow> swap_info" where
  "swap_of_quote env r deposit_address st =
     \<lparr>sw_id = sn_new_id env, sw_remote_id = Some (sq_correlation_id (qq_quote r)), sw_swap_type = in_swap_type (qq_intent r),
      sw_input_asset = in_input_asset (qq_intent r), sw_input_amount = sq_input_amount_formatted (qq_quote r),
      sw_output_asset = in_output_asset (qq_intent r), sw_output_amount = Some (sq_output_amount_formatted (qq_quote r)),
      sw_deposit_address = Some deposit_address, sw_deposit_memo = sq_deposit_memo (qq_quote r),
      sw_destination_address = in_destination_address (qq_intent r), sw_refund_address = in_refund_address (qq_intent r), sw_state = st,
      sw_deadline = Some (sq_deadline (qq_quote r)), sw_last_error = None, sw_created_at = sn_now_ms env 1, sw_updated_at = sn_now_ms env 1\<rparr>"

definition db_step :: "string \<Rightarrow> (app_db \<Rightarrow> (sql_error, app_db) result) \<Rightarrow> ('p, 'q) swap_world \<Rightarrow> (engine_error, unit) result \<times> ('p, 'q) swap_world" where
  "db_step context f w =
     (case f (swap_db w) of Inl _ \<Rightarrow> (Inl (with_context context (msg_err ''sql error'')), w) | Inr db \<Rightarrow> (Inr (), set_swap_db db w))"

text \<open>Proposing, confirming and executing the payment to the deposit address, from the active wallet.\<close>

definition send_deposit :: "('c, 'p) swap_env \<Rightarrow> nat \<Rightarrow> string \<Rightarrow> string \<Rightarrow> string option \<Rightarrow> bool \<Rightarrow> string \<Rightarrow> ('p, 'q) wallet_manager
    \<Rightarrow> (engine_error, tx_event) result \<times> ('p, 'q) wallet_manager" where
  "send_deposit env account_id deposit_address amount memo allow token m =
     bind_se (wm_prepare_send (sn_wallet env) (sn_send env) (sn_proposal_id env)
       \<lparr>sr_wallet_id = [], sr_network = Mainnet, sr_account_id = account_id, sr_recipient = deposit_address, sr_amount_zat = amount,
        sr_memo = memo, sr_allow_transparent_recipient = allow\<rparr> m) (\<lambda>proposal m1.
     bind_se (prepare_confirm_send_task (sn_wallet env) (sn_task env) (psr_proposal_id proposal) token m1) (\<lambda>t m2.
     case execute_prepared_confirm_send_task (sn_net env) (sn_task env) (sn_build env) (sn_load env) (wv_now (sn_wallet env)) t
            (wm_queues m2 (tc_dir (ct_ctx t))) of
       (r, d, _) \<Rightarrow> (r, m2\<lparr>wm_queues := (wm_queues m2)(tc_dir (ct_ctx t) := d)\<rparr>)))"

definition spending_account :: "app_db \<Rightarrow> uuid \<Rightarrow> nat option" where
  "spending_account db wid = map_option ai_id (find (\<lambda>a. ai_account_type a = SoftwareAccount) (list_accounts db wid))"

definition open_step :: "('c, 'p) swap_env \<Rightarrow> ('p, 'q) swap_world \<Rightarrow> (engine_error, unit) result \<times> ('p, 'q) swap_world" where
  "open_step env w = (sn_open_db env, w)"

text \<open>What follows the attempt to pay: the record is marked failed, or the transaction is reported to the provider, whatever it answers, and the record becomes pending.\<close>

definition finish_from_zec :: "('c, 'p) swap_env \<Rightarrow> uuid \<Rightarrow> swap_info \<Rightarrow> bool \<Rightarrow> (engine_error, tx_event) result \<Rightarrow> ('p, 'q) swap_world
    \<Rightarrow> (engine_error, swap_info) result \<times> ('p, 'q) swap_world" where
  "finish_from_zec env wid swap notify send_result w =
     (case send_result of
        Inl err \<Rightarrow>
          let failed = swap\<lparr>sw_state := SwFailed, sw_updated_at := sn_now_ms env 2, sw_last_error := Some (error_text err)\<rparr>;
              w1 = (case update_swap wid failed (swap_db w) of Inl _ \<Rightarrow> w | Inr db \<Rightarrow> set_swap_db db w)
          in (Inl err, emit_swap notify failed w1)
      | Inr ev \<Rightarrow>
          let pending = swap\<lparr>sw_state := SwPending, sw_updated_at := sn_now_ms env 2\<rparr> in
          bind_se (db_step ''failed to update swap'' (update_swap wid pending)
            (w\<lparr>sx_submitted := sx_submitted w @ [(te_txid ev, unwrap_or (sw_deposit_address swap) [])]\<rparr>)) (\<lambda>_ w1.
          let (_, w2) = start_polling env wid pending notify (emit_swap notify pending w1) in (Inr pending, w2)))"

definition start_swap_from_zec :: "('c, 'p) swap_env \<Rightarrow> uuid \<Rightarrow> bool \<Rightarrow> string option \<Rightarrow> bool \<Rightarrow> quote_record \<Rightarrow> ('p, 'q) swap_world
    \<Rightarrow> (engine_error, swap_info) result \<times> ('p, 'q) swap_world" where
  "start_swap_from_zec env wid allow token notify r w =
     (case bind_result (guard_or allow (ipc_err PRIVACY_ACK_REQUIRED ''swap-from-ZEC requires transparent interaction acknowledgement'')) (\<lambda>_.
           bind_result (ok_or (if nonblank token = None then None else token) (invalid_request ''reauth_token required'')) (\<lambda>tok.
           bind_result (ok_or (sq_deposit_address (qq_quote r)) (ipc_err SWAP_FAILED ''quote missing deposit address'')) (\<lambda>deposit_address.
           bind_result (sn_open_db env) (\<lambda>_.
           bind_result (ok_or (spending_account (swap_db w) wid)
             (ipc_err WATCH_ONLY_CANNOT_SPEND ''no spend-capable account available'')) (\<lambda>account_id. Inr (tok, deposit_address, account_id)))))) of
        Inl e \<Rightarrow> (Inl e, w)
      | Inr (tok, deposit_address, account_id) \<Rightarrow>
          let swap = swap_of_quote env r deposit_address Draft in
          bind_se (db_step ''failed to insert swap'' (insert_swap wid swap) w) (\<lambda>_ w1.
          let w2 = emit_swap notify swap w1;
              (send_result, m) = send_deposit env account_id deposit_address (sq_input_amount (qq_quote r)) (sw_deposit_memo swap) allow tok (sx_manager w2)
          in finish_from_zec env wid swap notify send_result (w2\<lparr>sx_manager := m\<rparr>)))"

definition start_swap_to_zec :: "('c, 'p) swap_env \<Rightarrow> uuid \<Rightarrow> bool \<Rightarrow> quote_record \<Rightarrow> ('p, 'q) swap_world
    \<Rightarrow> (engine_error, swap_info) result \<times> ('p, 'q) swap_world" where
  "start_swap_to_zec env wid notify r w =
     (case sq_deposit_address (qq_quote r) of
        None \<Rightarrow> (Inl (ipc_err SWAP_FAILED ''quote missing deposit address''), w)
      | Some deposit_address \<Rightarrow>
          let swap = swap_of_quote env r deposit_address AwaitingDeposit in
          bind_se (open_step env w) (\<lambda>_ w0.
          bind_se (db_step ''failed to insert swap'' (insert_swap wid swap) w0) (\<lambda>_ w1.
          let (_, w2) = start_polling env wid swap notify (emit_swap notify swap w1) in (Inr swap, w2))))"

definition start_swap :: "('c, 'p) swap_env \<Rightarrow> uuid \<Rightarrow> network \<Rightarrow> string \<Rightarrow> bool \<Rightarrow> string option \<Rightarrow> bool \<Rightarrow> ('p, 'q) swap_world
    \<Rightarrow> (engine_error, swap_info) result \<times> ('p, 'q) swap_world" where
  "start_swap env wid net quote_id allow token notify w =
     (if net = Testnet then (Inl (ipc_err SWAP_UNSUPPORTED_NETWORK ''swaps are not supported on Testnet''), w)
      else case sv_quotes (sx_service w) quote_id of
        None \<Rightarrow> (Inl (ipc_err QUOTE_EXPIRED ''quote not found''), w)
      | Some r \<Rightarrow>
          if qq_wallet_id r \<noteq> wid then (Inl (ipc_err QUOTE_EXPIRED ''quote not found''), w)
          else if 0 < sq_deadline (qq_quote r) \<and> sq_deadline (qq_quote r) \<le> sn_now_ms env 0
          then (Inl (ipc_err QUOTE_EXPIRED ''quote expired''),
                w\<lparr>sx_service := (sx_service w)\<lparr>sv_quotes := (sv_quotes (sx_service w))(quote_id := None)\<rparr>\<rparr>)
          else if in_swap_type (qq_intent r) = FromZec then start_swap_from_zec env wid allow token notify r w
          else start_swap_to_zec env wid notify r w)"

section \<open>Status\<close>

definition load_owned_swap :: "app_db \<Rightarrow> uuid \<Rightarrow> uuid \<Rightarrow> (engine_error, swap_info) result" where
  "load_owned_swap db wid sid =
     (case get_swap db sid of
        None \<Rightarrow> Inl (ipc_err SWAP_FAILED ''swap not found'')
      | Some (owner, swap) \<Rightarrow> if owner \<noteq> wid then Inl (ipc_err SWAP_FAILED ''swap not found'') else Inr swap)"

definition get_swap_status :: "('c, 'p) swap_env \<Rightarrow> uuid \<Rightarrow> uuid \<Rightarrow> ('p, 'q) swap_world \<Rightarrow> (engine_error, swap_info) result" where
  "get_swap_status env wid sid w = bind_result (sn_open_db env) (\<lambda>_. load_owned_swap (swap_db w) wid sid)"

definition list_swaps :: "('c, 'p) swap_env \<Rightarrow> uuid \<Rightarrow> ('p, 'q) swap_world \<Rightarrow> (engine_error, swap_info list) result" where
  "list_swaps env wid w = bind_result (sn_open_db env) (\<lambda>_. Inr (list_swaps_for_wallet (swap_db w) wid))"

text \<open>Up to the request: either an answer at once, or a refresh in flight that holds the guard.\<close>

definition refresh_begin :: "('c, 'p) swap_env \<Rightarrow> uuid \<Rightarrow> uuid \<Rightarrow> bool \<Rightarrow> ('p, 'q) swap_world \<Rightarrow> (engine_error, swap_info) result option \<times> ('p, 'q) swap_world" where
  "refresh_begin env wid sid notify w =
     (case get_swap_status env wid sid w of
        Inl e \<Rightarrow> (Some (Inl e), w)
      | Inr swap \<Rightarrow>
          if swap_terminal (sw_state swap) \<or> sw_deposit_address swap = None \<or> sid \<in> sv_refresh_inflight (sx_service w) then (Some (Inr swap), w)
          else (None, w\<lparr>sx_service := (sx_service w)\<lparr>sv_refresh_inflight := insert sid (sv_refresh_inflight (sx_service w))\<rparr>,
                        sx_refreshes := (sx_refreshes w)(sid \<mapsto> \<lparr>rc_wallet = wid, rc_swap = swap, rc_notify = notify\<rparr>)\<rparr>))"

definition release_refresh :: "uuid \<Rightarrow> ('p, 'q) swap_world \<Rightarrow> ('p, 'q) swap_world" where
  "release_refresh sid w = w\<lparr>sx_service := (sx_service w)\<lparr>sv_refresh_inflight := sv_refresh_inflight (sx_service w) - {sid}\<rparr>,
     sx_refreshes := (sx_refreshes w)(sid := None)\<rparr>"

definition store_refreshed :: "uuid \<Rightarrow> swap_info \<Rightarrow> bool \<Rightarrow> ('p, 'q) swap_world \<Rightarrow> (engine_error, swap_info) result \<times> ('p, 'q) swap_world" where
  "store_refreshed wid sw notify w =
     bind_se (db_step ''failed to update swap'' (update_swap wid sw) w) (\<lambda>_ w1.
     (Inr sw, emit_swap (notify \<and> is_active_wallet wid w1) sw w1))"

definition refresh_finish :: "('c, 'p) swap_env \<Rightarrow> uuid \<Rightarrow> ('p, 'q) swap_world \<Rightarrow> (engine_error, swap_info) result option \<times> ('p, 'q) swap_world" where
  "refresh_finish env sid w =
     (case sx_refreshes w sid of
        None \<Rightarrow> (None, w)
      | Some c \<Rightarrow>
          let swap = rc_swap c;
              (r, w1) = (case status_reply env swap (unwrap_or (sw_deposit_address swap) []) of
                Inr status \<Rightarrow>
                  (case swap_with_status env (rc_wallet c) swap status (sx_manager w) of
                     None \<Rightarrow> (Inr swap, w)
                   | Some sw \<Rightarrow> store_refreshed (rc_wallet c) sw (rc_notify c) w)
              | Inl e \<Rightarrow> store_refreshed (rc_wallet c)
                  (swap\<lparr>sw_last_error := Some (near_error_text e), sw_updated_at := sn_now_ms env 0\<rparr>) (rc_notify c) w)
          in (Some r, release_refresh sid w1))"

text \<open>The call as a whole, when nothing happens while it waits.\<close>

definition refresh_swap_status :: "('c, 'p) swap_env \<Rightarrow> uuid \<Rightarrow> uuid \<Rightarrow> bool \<Rightarrow> ('p, 'q) swap_world
    \<Rightarrow> (engine_error, swap_info) result option \<times> ('p, 'q) swap_world" where
  "refresh_swap_status env wid sid notify w =
     (case refresh_begin env wid sid notify w of
        (Some r, w1) \<Rightarrow> (Some r, w1)
      | (None, w1) \<Rightarrow> refresh_finish env sid w1)"

definition resume_pending_swaps :: "('c, 'p) swap_env \<Rightarrow> uuid \<Rightarrow> bool \<Rightarrow> ('p, 'q) swap_world \<Rightarrow> (engine_error, nat) result \<times> ('p, 'q) swap_world" where
  "resume_pending_swaps env wid notify w =
     bind_se (open_step env w) (\<lambda>_ w0.
     let (n, w1) = fold (\<lambda>sw (n, x). let (started, x') = start_polling env wid sw notify x in (if started then n + 1 else n, x'))
           (list_pollable_swaps_for_wallet (sn_now_ms env 0) (swap_db w0) wid) (0, w0)
     in (Inr n, w1))"

section \<open>Stored swaps\<close>

text \<open>What no operation may change of a stored swap.\<close>

definition frozen :: "swap_info \<Rightarrow> swap_info" where
  "frozen sw = sw\<lparr>sw_state := Draft, sw_last_error := None, sw_updated_at := 0\<rparr>"

text \<open>The primary key of the table.\<close>

definition distinct_swaps :: "app_db \<Rightarrow> bool" where
  "distinct_swaps db = distinct (map (\<lambda>r. sw_id (x_info r)) (db_swaps db))"

definition keeps_swaps :: "app_db \<Rightarrow> app_db \<Rightarrow> bool" where
  "keeps_swaps db db' \<longleftrightarrow> (distinct_swaps db \<longrightarrow> distinct_swaps db') \<and> (\<forall>sid wid sw. get_swap db sid = Some (wid, sw) \<longrightarrow> (\<exists>sw'. get_swap db' sid = Some (wid, sw') \<and> frozen sw' = frozen sw))"

definition backed :: "app_db \<Rightarrow> uuid \<Rightarrow> uuid \<Rightarrow> swap_info \<Rightarrow> bool" where
  "backed db sid wid sw \<longleftrightarrow> sw_id sw = sid \<and> (\<exists>sw0. get_swap db sid = Some (wid, sw0) \<and> frozen sw0 = frozen sw)"

lemma frozen_updates [simp]:
  "frozen (sw\<lparr>sw_state := x\<rparr>) = frozen sw" "frozen (sw\<lparr>sw_last_error := y\<rparr>) = frozen sw" "frozen (sw\<lparr>sw_updated_at := z\<rparr>) = frozen sw"
  by (simp_all add: frozen_def)

lemma frozen_fields:
  "frozen sw = frozen sw' \<Longrightarrow> sw_id sw = sw_id sw' \<and> sw_created_at sw = sw_created_at sw' \<and> sw_deposit_address sw = sw_deposit_address sw'"
  by (metis (no_types, lifting) frozen_def swap_info.select_convs swap_info.surjective swap_info.update_convs(12,14,16))

lemma keeps_refl [simp, intro]: "keeps_swaps db db"
  by (auto simp: keeps_swaps_def)

lemma keeps_trans: "keeps_swaps a b \<Longrightarrow> keeps_swaps b c \<Longrightarrow> keeps_swaps a c"
  unfolding keeps_swaps_def by metis

lemma backed_keeps: "backed db sid wid sw \<Longrightarrow> keeps_swaps db db' \<Longrightarrow> backed db' sid wid sw"
  unfolding backed_def keeps_swaps_def by metis

lemma backed_cong: "frozen sw = frozen sw' \<Longrightarrow> backed db sid wid sw \<longleftrightarrow> backed db sid wid sw'"
  using frozen_fields[of sw sw'] by (auto simp: backed_def)

lemma get_swap_id: "get_swap db sid = Some (wid, sw) \<Longrightarrow> sw_id sw = sid"
  by (auto simp: get_swap_def swap_of_row_def find_Some_iff)

lemma get_swap_backed: "get_swap db sid = Some (wid, sw) \<Longrightarrow> backed db sid wid sw"
  using get_swap_id by (auto simp: backed_def)

lemma get_swap_insert:
  assumes "insert_swap wid sw db = Inr db'"
  shows "get_swap db' sid = (if sid = sw_id sw then Some (wid, sw) else get_swap db sid)" and "get_swap db (sw_id sw) = None"
proof -
  have new: "\<not> list_ex (\<lambda>r. sw_id (x_info r) = sw_id sw) (db_swaps db)"
    and db': "db' = db\<lparr>db_swaps := db_swaps db @ [\<lparr>x_wallet_id = wid, x_swap_type = swap_type_text (sw_swap_type sw),
          x_state = swap_state_text (sw_state sw), x_info = sw\<rparr>]\<rparr>"
    using assms by (auto simp: insert_swap_def split: if_splits)
  have app: "find P (xs @ [x]) = (case find P xs of None \<Rightarrow> if P x then Some x else None | Some y \<Rightarrow> Some y)" for P :: "swap_row \<Rightarrow> bool" and xs x
    by (induction xs) auto
  have none: "find (\<lambda>r. sw_id (x_info r) = sw_id sw) (db_swaps db) = None"
    using new by (auto simp: find_None_iff list_ex_iff)
  show "get_swap db (sw_id sw) = None" using none by (simp add: get_swap_def)
  show "get_swap db' sid = (if sid = sw_id sw then Some (wid, sw) else get_swap db sid)"
    using none by (auto simp: get_swap_def db' app swap_of_row_def split: option.splits)
qed

lemma find_map_keeps: "(\<And>x. P (f x) = P x) \<Longrightarrow> find P (map f xs) = map_option f (find P xs)"
  by (induction xs) auto

lemma get_swap_update:
  assumes "update_swap wid sw db = Inr db'" "backed db (sw_id sw) wid sw"
  shows "get_swap db' sid = (if sid = sw_id sw then Some (wid, sw) else get_swap db sid)"
proof -
  let ?f = "\<lambda>r. if sw_id (x_info r) = sw_id sw then r\<lparr>x_wallet_id := wid, x_swap_type := swap_type_text (sw_swap_type sw),
      x_state := swap_state_text (sw_state sw), x_info := sw\<lparr>sw_created_at := sw_created_at (x_info r)\<rparr>\<rparr> else r"
  have db': "db_swaps db' = map ?f (db_swaps db)" using assms(1) by (auto simp: update_swap_def split: if_splits)
  obtain r where r: "find (\<lambda>r. sw_id (x_info r) = sw_id sw) (db_swaps db) = Some r" "frozen (swap_of_row r) = frozen sw"
    using assms(2) by (auto simp: backed_def get_swap_def)
  have c: "sw_created_at (x_info r) = sw_created_at sw" using frozen_fields[OF r(2)] by (simp add: swap_of_row_def)
  have id: "sw_id (x_info r) = sw_id sw" using r(1) by (auto simp: find_Some_iff)
  have f: "find (\<lambda>r. sw_id (x_info r) = sid) (map ?f (db_swaps db)) = map_option ?f (find (\<lambda>r. sw_id (x_info r) = sid) (db_swaps db))" for sid
    by (rule find_map_keeps) auto
  show ?thesis
  proof (cases "sid = sw_id sw")
    case True
    then show ?thesis using r(1) c id by (simp add: get_swap_def db' f swap_of_row_def)
  next
    case False
    have "?f r' = r'" if "find (\<lambda>r. sw_id (x_info r) = sid) (db_swaps db) = Some r'" for r'
      using that False by (auto simp: find_Some_iff)
    then show ?thesis using False unfolding get_swap_def db' f by (cases "find (\<lambda>r. sw_id (x_info r) = sid) (db_swaps db)") auto
  qed
qed

lemma distinct_insert: "insert_swap wid sw db = Inr db' \<Longrightarrow> distinct_swaps db \<Longrightarrow> distinct_swaps db'"
  by (fastforce simp: insert_swap_def distinct_swaps_def list_ex_iff split: if_splits)

lemma distinct_update: "update_swap wid sw db = Inr db' \<Longrightarrow> distinct_swaps db \<Longrightarrow> distinct_swaps db'"
  by (auto simp: update_swap_def distinct_swaps_def comp_def if_distrib cong: if_cong split: if_splits)

lemma keeps_insert: "insert_swap wid sw db = Inr db' \<Longrightarrow> keeps_swaps db db'"
  using get_swap_insert[of wid sw db db'] distinct_insert by (auto simp: keeps_swaps_def)

lemma get_swap_row: "distinct_swaps db \<Longrightarrow> r \<in> set (db_swaps db) \<Longrightarrow> get_swap db (sw_id (x_info r)) = Some (x_wallet_id r, swap_of_row r)"
proof -
  have "distinct (map (\<lambda>r. sw_id (x_info r)) rs) \<Longrightarrow> r \<in> set rs \<Longrightarrow> find (\<lambda>q. sw_id (x_info q) = sw_id (x_info r)) rs = Some r" for rs
    by (induction rs) auto
  moreover assume "distinct_swaps db" "r \<in> set (db_swaps db)"
  ultimately show ?thesis by (simp add: get_swap_def distinct_swaps_def)
qed

lemma keeps_update: "update_swap wid sw db = Inr db' \<Longrightarrow> backed db (sw_id sw) wid sw \<Longrightarrow> keeps_swaps db db'"
  using get_swap_update[of wid sw db db'] distinct_update by (auto simp: keeps_swaps_def backed_def)

section \<open>Steps\<close>

text \<open>The steps that interleave: the calls of the user interface, the steps of tasks in flight, and a change of the active wallet or its lock.\<close>

datatype ('c, 'p) swap_op =
    OpQuote "('c, 'p) swap_env" uuid network swap_intent
  | OpStart "('c, 'p) swap_env" uuid network string bool "string option" bool
  | OpRefreshBegin "('c, 'p) swap_env" uuid uuid bool
  | OpRefreshFinish "('c, 'p) swap_env" uuid
  | OpResume "('c, 'p) swap_env" uuid bool
  | OpPoll "('c, 'p) swap_env" uuid
  | OpWallet "active_wallet option"

fun swap_exec :: "('c, 'p) swap_op \<Rightarrow> ('p, 'q) swap_world \<Rightarrow> ('p, 'q) swap_world" where
  "swap_exec (OpQuote env wid net i) w = w\<lparr>sx_service := snd (request_swap_quote env wid net i (sx_service w))\<rparr>"
| "swap_exec (OpStart env wid net quote_id allow token notify) w = snd (start_swap env wid net quote_id allow token notify w)"
| "swap_exec (OpRefreshBegin env wid sid notify) w = snd (refresh_begin env wid sid notify w)"
| "swap_exec (OpRefreshFinish env sid) w = snd (refresh_finish env sid w)"
| "swap_exec (OpResume env wid notify) w = snd (resume_pending_swaps env wid notify w)"
| "swap_exec (OpPoll env sid) w = poll_step env sid w"
| "swap_exec (OpWallet active) w = w\<lparr>sx_manager := (sx_manager w)\<lparr>wm_active := active\<rparr>\<rparr>"

definition swap_started :: "('p, 'q) wallet_manager \<Rightarrow> ('p, 'q) swap_world" where
  "swap_started m = \<lparr>sx_service = swap_service_new, sx_manager = m, sx_tasks = Map.empty, sx_refreshes = Map.empty, sx_events = [], sx_submitted = []\<rparr>"

text \<open>Tasks and refreshes in flight belong to stored swaps of their wallet; their guards are the entries of the tables; delays stay bounded.\<close>

definition swap_inv :: "('p, 'q) swap_world \<Rightarrow> bool" where
  "swap_inv w \<longleftrightarrow>
     (\<forall>sid t. sx_tasks w sid = Some t \<longrightarrow> backed (swap_db w) sid (pt_wallet t) (pt_swap t) \<and> pt_backoff t \<le> 60)
     \<and> (\<forall>sid c. sx_refreshes w sid = Some c \<longrightarrow> backed (swap_db w) sid (rc_wallet c) (rc_swap c))
     \<and> distinct_swaps (swap_db w) \<and> sv_jobs (sx_service w) = dom (sx_tasks w) \<and> sv_refresh_inflight (sx_service w) = dom (sx_refreshes w)"

definition safe_step :: "('p, 'q) swap_world \<Rightarrow> ('p, 'q) swap_world \<Rightarrow> bool" where
  "safe_step w w' \<longleftrightarrow> keeps_swaps (swap_db w) (swap_db w') \<and> swap_inv w'"

text \<open>A step that leaves the tables alone and keeps the stored swaps.\<close>

definition same_tables :: "('p, 'q) swap_world \<Rightarrow> ('p, 'q) swap_world \<Rightarrow> bool" where
  "same_tables w w' \<longleftrightarrow> sx_tasks w' = sx_tasks w \<and> sx_refreshes w' = sx_refreshes w \<and> sv_jobs (sx_service w') = sv_jobs (sx_service w)
     \<and> sv_refresh_inflight (sx_service w') = sv_refresh_inflight (sx_service w) \<and> keeps_swaps (swap_db w) (swap_db w')"

lemma same_tables_refl [simp, intro]: "same_tables w w"
  by (simp add: same_tables_def)

lemma same_tables_trans: "same_tables a b \<Longrightarrow> same_tables b c \<Longrightarrow> same_tables a c"
  by (auto simp: same_tables_def intro: keeps_trans)

lemma same_tables_inv: "swap_inv w \<Longrightarrow> same_tables w w' \<Longrightarrow> safe_step w w'"
  unfolding swap_inv_def same_tables_def safe_step_def using backed_keeps keeps_swaps_def by metis

lemma safe_trans: "safe_step a b \<Longrightarrow> safe_step b c \<Longrightarrow> safe_step a c"
  by (auto simp: safe_step_def intro: keeps_trans)

lemma safe_refl: "swap_inv w \<Longrightarrow> safe_step w w"
  by (simp add: safe_step_def)

lemma task_backed:
  "swap_inv w \<Longrightarrow> sx_tasks w sid = Some t \<Longrightarrow> frozen sw = frozen (pt_swap t) \<Longrightarrow> backed (swap_db w) (sw_id sw) (pt_wallet t) sw"
  using frozen_fields[of sw "pt_swap t"] by (fastforce simp: swap_inv_def backed_def)

lemma refresh_backed:
  "swap_inv w \<Longrightarrow> sx_refreshes w sid = Some c \<Longrightarrow> frozen sw = frozen (rc_swap c) \<Longrightarrow> backed (swap_db w) (sw_id sw) (rc_wallet c) sw"
  using frozen_fields[of sw "rc_swap c"] by (fastforce simp: swap_inv_def backed_def)

lemma safe_inv: "safe_step w w' \<Longrightarrow> swap_inv w'"
  by (simp add: safe_step_def)

lemma swap_db_simps [simp]:
  "swap_db (set_swap_db db w) = db" "swap_db (emit_swap b sw w) = swap_db w" "swap_db (put_task sid t w) = swap_db w"
  "swap_db (end_polling sid w) = swap_db w" "swap_db (release_refresh sid w) = swap_db w" "swap_db (w\<lparr>sx_submitted := x\<rparr>) = swap_db w"
  "swap_db (w\<lparr>sx_service := s\<rparr>) = swap_db w" "swap_db (w\<lparr>sx_manager := m\<rparr>) = wm_app_db m"
  by (simp_all add: swap_db_def set_swap_db_def emit_swap_def put_task_def end_polling_def release_refresh_def)

lemma same_tables_emit [simp]: "same_tables w (emit_swap b sw w') \<longleftrightarrow> same_tables w w'"
  by (auto simp: same_tables_def emit_swap_def swap_db_def)

lemma same_tables_submit [simp]: "same_tables w (w'\<lparr>sx_submitted := x\<rparr>) \<longleftrightarrow> same_tables w w'"
  by (auto simp: same_tables_def)

lemma same_tables_db: "keeps_swaps (swap_db w) db \<Longrightarrow> same_tables w (set_swap_db db w)"
  by (simp add: same_tables_def set_swap_db_def swap_db_def)

lemma same_tables_manager: "wm_app_db m = swap_db w \<Longrightarrow> same_tables w (w\<lparr>sx_manager := m\<rparr>)"
  by (simp add: same_tables_def swap_db_def)

lemma persist_same_tables:
  assumes "backed (swap_db w) (sw_id sw) wid sw"
  shows "same_tables w (try_persist_and_emit_swap_change env wid sw notify w)"
  using keeps_update[OF _ assms]
  by (auto simp: try_persist_and_emit_swap_change_def Let_def intro!: same_tables_db split: sum.splits)

lemma db_step_update:
  assumes "db_step c (update_swap wid sw) w = (r, w')" "backed (swap_db w) (sw_id sw) wid sw"
  shows "same_tables w w'"
  using assms keeps_update by (auto simp: db_step_def intro!: same_tables_db split: sum.splits)

lemma db_step_insert:
  assumes "db_step c (insert_swap wid sw) w = (r, w')"
  shows "same_tables w w'" and "r = Inr u \<Longrightarrow> get_swap (swap_db w') (sw_id sw) = Some (wid, sw)"
  using assms keeps_insert get_swap_insert(1) by (auto simp: db_step_def intro!: same_tables_db split: sum.splits)

lemma safe_put_task:
  assumes "swap_inv w" "sx_tasks w sid = Some t" "pt_wallet t' = pt_wallet t" "frozen (pt_swap t') = frozen (pt_swap t)" "pt_backoff t' \<le> 60"
  shows "safe_step w (put_task sid t' w)"
proof -
  have "backed (swap_db w) sid (pt_wallet t') (pt_swap t')" using assms backed_cong[OF assms(4)] by (auto simp: swap_inv_def)
  then show ?thesis using assms by (auto simp: safe_step_def swap_inv_def put_task_def swap_db_def)
qed

lemma safe_end_polling: "swap_inv w \<Longrightarrow> safe_step w (end_polling sid w)"
  by (auto simp: safe_step_def swap_inv_def end_polling_def swap_db_def)

lemma safe_release: "swap_inv w \<Longrightarrow> safe_step w (release_refresh sid w)"
  by (auto simp: safe_step_def swap_inv_def release_refresh_def swap_db_def)

lemma safe_start_polling: "swap_inv w \<Longrightarrow> backed (swap_db w) (sw_id sw) wid sw \<Longrightarrow> safe_step w (snd (start_polling env wid sw notify w))"
  by (auto simp: safe_step_def swap_inv_def start_polling_def swap_db_def)

lemma bind_se_app_db: "(\<And>a s. wm_app_db (snd (f a s)) = wm_app_db s) \<Longrightarrow> wm_app_db (snd (bind_se x f)) = wm_app_db (snd x)"
  by (simp add: bind_se_def split: prod.splits sum.splits)

lemma app_db_steps [simp]: "wm_app_db (snd (result_step r m)) = wm_app_db m" "wm_app_db (snd (tx_step f m)) = wm_app_db m"
  by (simp_all add: result_step_def tx_step_def split: prod.splits)

lemma prepare_confirm_app_db [simp]: "wm_app_db (snd (prepare_confirm_send env pid tok m)) = wm_app_db m"
  by (simp add: prepare_confirm_send_def bind_se_app_db)

lemma prepare_task_app_db [simp]: "wm_app_db (snd (prepare_confirm_send_task env te pid tok m)) = wm_app_db m"
  by (simp add: prepare_confirm_send_task_def bind_se_app_db case_prod_unfold)

lemma prepare_send_app_db [simp]: "wm_app_db (snd (wm_prepare_send env se nid r m)) = wm_app_db m"
  by (simp add: wm_prepare_send_def bind_se_app_db)

lemma send_deposit_app_db: "wm_app_db (snd (send_deposit env aid dep amount memo allow tok m)) = wm_app_db m"
  by (simp add: send_deposit_def bind_se_app_db case_prod_unfold)

text \<open>Every step is safe.\<close>

lemma swap_with_status_frozen: "swap_with_status env wid sw st m = Some sw' \<Longrightarrow> frozen sw' = frozen sw \<and> sw_id sw' = sw_id sw"
  by (auto simp: swap_with_status_def Let_def split: if_splits)

lemma poll_reply_safe:
  assumes "swap_inv w" "sx_tasks w sid = Some t"
  shows "safe_step w (poll_reply env sid t reply w)"
proof -
  have persist: "safe_step w w1 \<and> sx_tasks w1 sid = Some t" if "frozen sw = frozen (pt_swap t)" "w1 = try_persist_and_emit_swap_change env (pt_wallet t) sw (pt_notify t) w" for sw w1
    using persist_same_tables[OF task_backed[OF assms that(1)], of env "pt_notify t"] assms that(2) same_tables_inv by (auto simp: same_tables_def)
  have again: "safe_step w (put_task sid (t\<lparr>pt_swap := sw, pt_backoff := k, pt_phase := ph\<rparr>) w1)"
    if "safe_step w w1" "sx_tasks w1 sid = Some t" "frozen sw = frozen (pt_swap t)" "k \<le> 60" for sw k w1 ph
    using safe_trans[OF that(1) safe_put_task[OF safe_inv[OF that(1)] that(2)]] that(3,4) by simp
  have here: "safe_step w w" using safe_refl[OF assms(1)] .
  show ?thesis
  proof (cases reply)
    case (Inl e)
    have wait: "safe_step w (put_task sid (t\<lparr>pt_backoff := k, pt_phase := ph\<rparr>) w)" if "k \<le> 60" for k ph
      by (rule safe_put_task[OF assms]) (simp_all add: that)
    let ?sw = "(pt_swap t)\<lparr>sw_last_error := Some (near_error_text e), sw_updated_at := sn_now_ms env 0\<rparr>"
    have f: "frozen ?sw = frozen (pt_swap t)" by simp
    note p = persist[OF f refl]
    from Inl show ?thesis using wait again[OF conjunct1[OF p] conjunct2[OF p] f]
      by (cases e) (simp_all add: poll_reply_def Let_def)
  next
    case (Inr st)
    show ?thesis
    proof (cases "swap_with_status env (pt_wallet t) (pt_swap t) st (sx_manager w)")
      case None
      then show ?thesis using Inr again[OF here assms(2), of "pt_swap t" 5] safe_end_polling[OF assms(1)] by (simp add: poll_reply_def unwrap_or_def Let_def)
    next
      case (Some sw)
      note f = conjunct1[OF swap_with_status_frozen[OF Some]]
      note p = persist[OF f refl]
      show ?thesis using Inr Some again[OF conjunct1[OF p] conjunct2[OF p] f, of 5] safe_trans[OF conjunct1[OF p] safe_end_polling[OF safe_inv[OF conjunct1[OF p]]]]
        by (simp add: poll_reply_def unwrap_or_def Let_def)
    qed
  qed
qed

lemma poll_step_safe: "swap_inv w \<Longrightarrow> safe_step w (poll_step env sid w)"
proof (cases "sx_tasks w sid")
  case None
  assume "swap_inv w"
  then show ?thesis using None by (simp add: poll_step_def safe_refl)
next
  case (Some t)
  assume inv: "swap_inv w"
  have k: "pt_backoff t \<le> 60" using inv Some by (simp add: swap_inv_def)
  have put: "safe_step w (put_task sid (t\<lparr>pt_phase := ph\<rparr>) w)" for ph by (rule safe_put_task[OF inv Some]) (simp_all add: k)
  show ?thesis using put safe_end_polling[OF inv] poll_reply_safe[OF inv Some]
    by (auto simp: poll_step_def Some split: poll_phase.splits option.splits)
qed

lemma store_refreshed_same:
  assumes "backed (swap_db w) (sw_id sw) wid sw"
  shows "same_tables w (snd (store_refreshed wid sw notify w))"
proof -
  obtain r w1 where s: "db_step ''failed to update swap'' (update_swap wid sw) w = (r, w1)" by fastforce
  show ?thesis using db_step_update[OF s assms] by (simp add: store_refreshed_def s bind_se_def split: sum.splits)
qed

lemma refresh_finish_safe: "swap_inv w \<Longrightarrow> safe_step w (snd (refresh_finish env sid w))"
proof (cases "sx_refreshes w sid")
  case None
  assume "swap_inv w"
  then show ?thesis using None by (simp add: refresh_finish_def safe_refl)
next
  case (Some c)
  assume inv: "swap_inv w"
  have store: "same_tables w (snd (store_refreshed (rc_wallet c) sw (rc_notify c) w))" if f: "frozen sw = frozen (rc_swap c)" for sw
    by (rule store_refreshed_same[OF refresh_backed[OF inv Some f]])
  have rel: "safe_step w (release_refresh sid w1)" if "same_tables w w1" for w1
    using same_tables_inv[OF inv that] safe_trans safe_release safe_inv by blast
  show ?thesis
    using Some by (auto simp: refresh_finish_def Let_def case_prod_unfold intro!: rel store dest: swap_with_status_frozen split: sum.splits option.splits)
qed

lemma refresh_begin_safe: "swap_inv w \<Longrightarrow> safe_step w (snd (refresh_begin env wid sid notify w))"
proof (cases "get_swap_status env wid sid w")
  case (Inl e)
  assume "swap_inv w"
  then show ?thesis using Inl by (simp add: refresh_begin_def safe_refl)
next
  case (Inr sw)
  assume inv: "swap_inv w"
  have "backed (swap_db w) sid wid sw"
    using Inr by (auto simp: get_swap_status_def load_owned_swap_def bind_result_ok intro: get_swap_backed split: option.splits if_splits)
  then show ?thesis using Inr inv by (auto simp: refresh_begin_def safe_step_def swap_inv_def swap_db_def)
qed

lemma resume_safe:
  assumes "swap_inv w"
  shows "safe_step w (snd (resume_pending_swaps env wid notify w))"
proof -
  let ?f = "\<lambda>sw (n :: nat, x). let (started, x') = start_polling env wid sw notify x in (if started then n + 1 else n, x')"
  have fold: "\<forall>sw \<in> set sws. backed (swap_db w) (sw_id sw) wid sw \<Longrightarrow> safe_step w x \<Longrightarrow> safe_step w (snd (fold ?f sws (n, x)))" for sws n x
  proof (induction sws arbitrary: n x)
    case (Cons sw sws)
    have "backed (swap_db x) (sw_id sw) wid sw" using Cons.prems backed_keeps by (auto simp: safe_step_def)
    from safe_trans[OF Cons.prems(2) safe_start_polling[OF safe_inv[OF Cons.prems(2)] this, of env notify]]
    show ?case using Cons.IH Cons.prems(1) by (simp add: case_prod_unfold Let_def)
  qed simp
  have "backed (swap_db w) (sw_id sw) wid sw" if "sw \<in> set (list_pollable_swaps_for_wallet now (swap_db w) wid)" for sw now
    using that get_swap_row assms by (auto simp: list_pollable_swaps_for_wallet_def swap_inv_def swap_of_row_def intro!: get_swap_backed)
  then show ?thesis using fold[of "list_pollable_swaps_for_wallet (sn_now_ms env 0) (swap_db w) wid" w 0] safe_refl[OF assms]
    by (simp add: resume_pending_swaps_def open_step_def bind_se_def case_prod_unfold Let_def split: sum.splits)
qed

lemma finish_from_zec_safe:
  assumes "swap_inv w" "backed (swap_db w) (sw_id sw) wid sw"
  shows "safe_step w (snd (finish_from_zec env wid sw notify res w))"
proof (cases res)
  case (Inl e)
  let ?failed = "sw\<lparr>sw_state := SwFailed, sw_updated_at := sn_now_ms env 2, sw_last_error := Some (error_text e)\<rparr>"
  have "backed (swap_db w) (sw_id ?failed) wid ?failed" using assms(2) backed_cong[of ?failed sw] by simp
  from keeps_update[OF _ this] show ?thesis
    using Inl by (auto simp: finish_from_zec_def Let_def intro!: same_tables_inv[OF assms(1)] same_tables_db split: sum.splits)
next
  case (Inr ev)
  let ?pending = "sw\<lparr>sw_state := SwPending, sw_updated_at := sn_now_ms env 2\<rparr>"
  let ?w = "w\<lparr>sx_submitted := sx_submitted w @ [(te_txid ev, unwrap_or (sw_deposit_address sw) [])]\<rparr>"
  obtain r w1 where s: "db_step ''failed to update swap'' (update_swap wid ?pending) ?w = (r, w1)" by fastforce
  have b: "backed (swap_db ?w) (sw_id ?pending) wid ?pending" using assms(2) backed_cong[of ?pending sw] by simp
  have st: "same_tables w w1" using same_tables_trans[OF _ db_step_update[OF s b]] by simp
  have e: "safe_step w (emit_swap notify ?pending w1)" using same_tables_inv[OF assms(1)] st by simp
  have "backed (swap_db (emit_swap notify ?pending w1)) (sw_id ?pending) wid ?pending" using b st backed_keeps by (auto simp: same_tables_def)
  note p = safe_trans[OF e safe_start_polling[OF safe_inv[OF e] this, of env notify]]
  show ?thesis using Inr s p same_tables_inv[OF assms(1) st]
    by (simp add: finish_from_zec_def Let_def bind_se_def case_prod_unfold split: sum.splits)
qed

lemma start_from_zec_safe:
  assumes "swap_inv w"
  shows "safe_step w (snd (start_swap_from_zec env wid allow token notify r w))"
proof -
  have ins: "safe_step w (snd (bind_se (db_step ''failed to insert swap'' (insert_swap wid sw) w) (\<lambda>_ w1.
      let w2 = emit_swap notify sw w1; (res, m) = send_deposit env aid dep amount memo allow tok (sx_manager w2)
      in finish_from_zec env wid sw notify res (w2\<lparr>sx_manager := m\<rparr>))))" for sw aid dep amount memo tok
  proof -
    obtain r1 w1 where s: "db_step ''failed to insert swap'' (insert_swap wid sw) w = (r1, w1)" by fastforce
    note i = db_step_insert[OF s]
    let ?w2 = "emit_swap notify sw w1"
    let ?m = "snd (send_deposit env aid dep amount memo allow tok (sx_manager ?w2))"
    have "wm_app_db ?m = swap_db ?w2" using send_deposit_app_db by (simp add: swap_db_def)
    then have "same_tables w (?w2\<lparr>sx_manager := ?m\<rparr>)" using i(1) by (intro same_tables_trans[OF _ same_tables_manager]) simp_all
    note w3 = same_tables_inv[OF assms this]
    show ?thesis
    proof (cases r1)
      case (Inl e)
      then show ?thesis using s same_tables_inv[OF assms i(1)] by simp
    next
      case (Inr u)
      have "backed (swap_db (?w2\<lparr>sx_manager := ?m\<rparr>)) (sw_id sw) wid sw"
        using get_swap_backed[OF i(2)[OF Inr]] \<open>wm_app_db ?m = _\<close> by simp
      from safe_trans[OF w3 finish_from_zec_safe[OF safe_inv[OF w3] this]]
      show ?thesis using Inr s by (simp add: Let_def case_prod_unfold)
    qed
  qed
  show ?thesis
    unfolding start_swap_from_zec_def using safe_refl[OF assms] by (auto simp: Let_def intro: ins[unfolded Let_def] split: sum.split)
qed

lemma start_to_zec_safe:
  assumes "swap_inv w"
  shows "safe_step w (snd (start_swap_to_zec env wid notify r w))"
proof (cases "sq_deposit_address (qq_quote r)")
  case None
  then show ?thesis using safe_refl[OF assms] by (simp add: start_swap_to_zec_def)
next
  case (Some dep)
  let ?sw = "swap_of_quote env r dep AwaitingDeposit"
  obtain r1 w1 where s: "db_step ''failed to insert swap'' (insert_swap wid ?sw) w = (r1, w1)" by fastforce
  note i = db_step_insert[OF s]
  have e: "safe_step w (emit_swap notify ?sw w1)" using same_tables_inv[OF assms] i(1) by simp
  show ?thesis
  proof (cases r1)
    case (Inl e)
    then show ?thesis using Some s same_tables_inv[OF assms i(1)] safe_refl[OF assms]
      by (simp add: start_swap_to_zec_def open_step_def bind_se_def Let_def split: sum.split)
  next
    case (Inr u)
    have "backed (swap_db (emit_swap notify ?sw w1)) (sw_id ?sw) wid ?sw" using get_swap_backed[OF i(2)[OF Inr]] by simp
    from safe_trans[OF e safe_start_polling[OF safe_inv[OF e] this, of env notify]]
    show ?thesis using Some s Inr safe_refl[OF assms]
      by (simp add: start_swap_to_zec_def open_step_def bind_se_def case_prod_unfold Let_def split: sum.split)
  qed
qed

lemma start_swap_safe:
  assumes "swap_inv w"
  shows "safe_step w (snd (start_swap env wid net quote_id allow token notify w))"
proof -
  have drop: "safe_step w (w\<lparr>sx_service := (sx_service w)\<lparr>sv_quotes := q\<rparr>\<rparr>)" for q
    by (rule same_tables_inv[OF assms]) (simp add: same_tables_def)
  show ?thesis
    unfolding start_swap_def using safe_refl[OF assms] drop start_from_zec_safe[OF assms] start_to_zec_safe[OF assms] by (auto split: option.split)
qed

text \<open>Requesting a quote touches the quotes and the cached decimals only.\<close>

definition service_guards :: "swap_service \<Rightarrow> uuid set \<times> uuid set" where
  "service_guards s = (sv_jobs s, sv_refresh_inflight s)"

lemma resolve_guards [simp]: "service_guards (snd (resolve_asset_decimals env a s)) = service_guards s"
  by (simp add: resolve_asset_decimals_def Let_def service_guards_def split: option.splits sum.splits)

lemma bind_se_guards: "(\<And>a s. service_guards (snd (f a s)) = service_guards s) \<Longrightarrow> service_guards (snd (bind_se x f)) = service_guards (snd x)"
  by (simp add: bind_se_def split: prod.splits sum.splits)

lemma quoted_amount_guards [simp]: "service_guards (snd (quoted_amount env i s)) = service_guards s"
  by (simp add: quoted_amount_def Let_def bind_se_guards split: swap_mode.splits option.splits)

lemma store_quote_guards [simp]: "service_guards (store_quote now k r s) = service_guards s"
  by (simp add: store_quote_def service_guards_def)

lemma request_quote_guards: "service_guards (snd (request_swap_quote env wid net i s)) = service_guards s"
  by (simp add: request_swap_quote_def Let_def bind_se_guards case_prod_unfold split: sum.splits)

lemma swap_exec_safe: "swap_inv w \<Longrightarrow> safe_step w (swap_exec op w)"
proof (cases op)
  case (OpQuote env wid net i)
  assume inv: "swap_inv w"
  show ?thesis using OpQuote request_quote_guards[of env wid net i "sx_service w"]
    by (intro same_tables_inv[OF inv]) (simp add: same_tables_def service_guards_def)
next
  case (OpWallet active)
  assume inv: "swap_inv w"
  show ?thesis using OpWallet by (auto intro!: same_tables_inv[OF inv] same_tables_manager simp: swap_db_def)
qed (auto intro: start_swap_safe refresh_begin_safe refresh_finish_safe resume_safe poll_step_safe)

lemma swap_run_safe: "swap_inv w \<Longrightarrow> safe_step w (run_ops swap_exec ops w)"
proof (induction ops arbitrary: w)
  case (Cons op ops)
  note s = swap_exec_safe[OF Cons.prems, of op]
  show ?case using safe_trans[OF s Cons.IH[OF safe_inv[OF s]]] by simp
qed (simp add: safe_refl)

lemma swap_inv_started: "distinct_swaps (wm_app_db m) \<Longrightarrow> swap_inv (swap_started m)"
  by (simp add: swap_inv_def swap_started_def swap_service_new_def swap_db_def)

section \<open>Properties\<close>

text \<open>Swap records keep their identity.  From the start of the application, whatever calls, polling tasks, refreshes and wallet
  changes are interleaved, and however the database, the network and the provider behave: a stored swap is never lost, never
  changes its wallet, and keeps its type, assets, amounts, addresses, deadline and creation time; only its state, last error and
  update time change.  A polling task or refresh in flight always works on a stored swap of the wallet that
  started it, and no polling delay exceeds a minute.\<close>

theorem swap_records_stable:
  assumes "distinct_swaps (wm_app_db m)" "w = run_ops swap_exec ops (swap_started m)"
    and "get_swap (swap_db w) sid = Some (wid, sw)"
  shows "(\<exists>sw'. get_swap (swap_db (run_ops swap_exec later w)) sid = Some (wid, sw') \<and> frozen sw' = frozen sw)
     \<and> (\<forall>t. sx_tasks (run_ops swap_exec later w) sid = Some t \<longrightarrow> pt_wallet t = wid \<and> frozen (pt_swap t) = frozen sw \<and> pt_backoff t \<le> 60)
     \<and> (\<forall>c. sx_refreshes (run_ops swap_exec later w) sid = Some c \<longrightarrow> rc_wallet c = wid \<and> frozen (rc_swap c) = frozen sw)"
proof -
  have inv: "swap_inv w" using safe_inv[OF swap_run_safe[OF swap_inv_started[OF assms(1)]]] assms(2) by blast
  note s = swap_run_safe[OF inv, of later]
  obtain sw' where sw': "get_swap (swap_db (run_ops swap_exec later w)) sid = Some (wid, sw')" "frozen sw' = frozen sw"
    using s assms(3) unfolding safe_step_def keeps_swaps_def by blast
  have "pt_wallet t = wid \<and> frozen (pt_swap t) = frozen sw \<and> pt_backoff t \<le> 60" if "sx_tasks (run_ops swap_exec later w) sid = Some t" for t
    using safe_inv[OF s] that sw' by (fastforce simp: swap_inv_def backed_def)
  moreover have "rc_wallet c = wid \<and> frozen (rc_swap c) = frozen sw" if "sx_refreshes (run_ops swap_exec later w) sid = Some c" for c
    using safe_inv[OF s] that sw' by (fastforce simp: swap_inv_def backed_def)
  ultimately show ?thesis using sw' by blast
qed

text \<open>The state the payment of a swap can change.\<close>

definition spend_state :: "('p, 'q) wallet_manager \<Rightarrow> reauth_manager \<times> (string \<Rightarrow> queue_dir) \<times> 'p tx_service" where
  "spend_state m = (wm_reauth m, wm_queues m, wm_tx m)"

lemma start_polling_manager [simp]: "sx_manager (snd (start_polling env wid sw notify w)) = sx_manager w"
  by (simp add: start_polling_def)

lemma start_polling_db [simp]: "swap_db (snd (start_polling env wid sw notify w)) = swap_db w"
  by (simp add: swap_db_def)

lemma spend_state_simps [simp]:
  "sx_manager (emit_swap b sw w) = sx_manager w" "spend_state (sx_manager (set_swap_db db w)) = spend_state (sx_manager w)"
  by (simp_all add: emit_swap_def set_swap_db_def spend_state_def)

text \<open>Every path of a start that spends goes through the payment.\<close>

lemma to_zec_spends_nothing:
  "start_swap_to_zec env wid notify r w = (res, w') \<Longrightarrow> spend_state (sx_manager w') = spend_state (sx_manager w)"
  by (auto simp: start_swap_to_zec_def open_step_def db_step_def bind_se_def case_prod_unfold Let_def split: sum.splits option.splits)

lemma start_swap_spends:
  assumes "start_swap env wid net quote_id allow token notify w = (res, w')" "spend_state (sx_manager w') \<noteq> spend_state (sx_manager w)"
  shows "\<exists>r. net = Mainnet \<and> sv_quotes (sx_service w) quote_id = Some r \<and> qq_wallet_id r = wid \<and> in_swap_type (qq_intent r) = FromZec
     \<and> (sq_deadline (qq_quote r) \<le> 0 \<or> sn_now_ms env 0 < sq_deadline (qq_quote r)) \<and> start_swap_from_zec env wid allow token notify r w = (res, w')"
  using assms by (cases net) (auto simp: start_swap_def dest: to_zec_spends_nothing split: option.splits if_splits)

lemma from_zec_spends:
  assumes "start_swap_from_zec env wid allow token notify r w = (res, w')" "spend_state (sx_manager w') \<noteq> spend_state (sx_manager w)"
  shows "\<exists>tok dep aid db m sent. allow \<and> token = Some tok \<and> trim tok \<noteq> [] \<and> sq_deposit_address (qq_quote r) = Some dep
     \<and> spending_account (swap_db w) wid = Some aid \<and> insert_swap wid (swap_of_quote env r dep Draft) (swap_db w) = Inr db \<and> wm_app_db m = db
     \<and> finish_from_zec env wid (swap_of_quote env r dep Draft) notify sent
         ((emit_swap notify (swap_of_quote env r dep Draft) (set_swap_db db w))\<lparr>sx_manager := m\<rparr>) = (res, w')"
proof -
  obtain tok dep aid where g: "allow" "token = Some tok" "trim tok \<noteq> []" "sq_deposit_address (qq_quote r) = Some dep" "spending_account (swap_db w) wid = Some aid"
    "sn_open_db env = Inr ()"
    using assms by (auto simp: start_swap_from_zec_def nonblank_def bind_result_ok split: sum.splits option.splits if_splits)
  obtain db where db: "insert_swap wid (swap_of_quote env r dep Draft) (swap_db w) = Inr db"
    using assms g by (auto simp: start_swap_from_zec_def Let_def nonblank_def guard_or_def db_step_def split: sum.splits)
  let ?sw = "swap_of_quote env r dep Draft"
  let ?w2 = "emit_swap notify ?sw (set_swap_db db w)"
  obtain sent m where sd: "send_deposit env aid dep (sq_input_amount (qq_quote r)) (sw_deposit_memo ?sw) allow tok (sx_manager ?w2) = (sent, m)" by fastforce
  have "wm_app_db m = db" using send_deposit_app_db[of env aid dep _ _ allow tok "sx_manager ?w2"] sd by (metis snd_conv spend_state_simps(1) swap_db_def swap_db_simps(1))
  moreover have "finish_from_zec env wid ?sw notify sent (?w2\<lparr>sx_manager := m\<rparr>) = (res, w')"
    using assms(1) g db sd by (simp add: start_swap_from_zec_def Let_def nonblank_def guard_or_def db_step_def)
  ultimately show ?thesis using g db by blast
qed

lemma insert_swap_wallet: "insert_swap wid sw db = Inr db' \<Longrightarrow> wallet_exists db' wid"
  by (auto simp: insert_swap_def split: if_splits)

lemma update_swap_total: "wallet_exists db wid \<Longrightarrow> \<exists>db'. update_swap wid sw db = Inr db'"
  by (simp add: update_swap_def)

text \<open>The record after the payment, given the draft stored before it.\<close>

lemma finish_recorded:
  assumes "finish_from_zec env wid sw notify sent w = (res, w')" "get_swap (swap_db w) (sw_id sw) = Some (wid, sw)" "wallet_exists (swap_db w) wid"
  shows "\<exists>sw'. get_swap (swap_db w') (sw_id sw) = Some (wid, sw') \<and> frozen sw' = frozen sw
     \<and> (case sent of Inl e \<Rightarrow> res = Inl e \<and> sw_state sw' = SwFailed \<and> sw_last_error sw' = Some (error_text e)
                   | Inr ev \<Rightarrow> res = Inr sw' \<and> sw_state sw' = SwPending)"
proof -
  have upd: "\<exists>db. update_swap wid x (swap_db w) = Inr db \<and> get_swap db (sw_id sw) = Some (wid, x)" if "frozen x = frozen sw" for x
  proof -
    obtain db where db: "update_swap wid x (swap_db w) = Inr db" using update_swap_total[OF assms(3)] by blast
    have "backed (swap_db w) (sw_id x) wid x" "sw_id x = sw_id sw"
      using assms(2) that frozen_fields[OF that] by (simp_all add: backed_def)
    then show ?thesis using get_swap_update[OF db, of "sw_id sw"] db by auto
  qed
  show ?thesis
  proof (cases sent)
    case (Inl e)
    let ?x = "sw\<lparr>sw_state := SwFailed, sw_updated_at := sn_now_ms env 2, sw_last_error := Some (error_text e)\<rparr>"
    obtain db where "update_swap wid ?x (swap_db w) = Inr db" "get_swap db (sw_id sw) = Some (wid, ?x)" using upd[of ?x] by auto
    then show ?thesis using assms(1) Inl by (auto simp: finish_from_zec_def)
  next
    case (Inr ev)
    let ?x = "sw\<lparr>sw_state := SwPending, sw_updated_at := sn_now_ms env 2\<rparr>"
    obtain db where db: "update_swap wid ?x (swap_db w) = Inr db" "get_swap db (sw_id sw) = Some (wid, ?x)" using upd[of ?x] by auto
    then show ?thesis using assms(1) Inr by (auto simp: finish_from_zec_def db_step_def Let_def case_prod_unfold)
  qed
qed


section \<open>Instances\<close>

definition demo_near :: "unit near_env" where
  "demo_near = \<lparr>nv_base_url = ''https://n'', nv_url_ok = (\<lambda>_. True), nv_json_text = (\<lambda>_. ''{}''), nv_rfc3339_ms = (\<lambda>_. None), nv_with_query = (\<lambda>u _. u),
     nv_quote = (\<lambda>_. \<lparr>he_direct = (\<lambda>_. Inl ''offline''), he_tor = (\<lambda>_ _. None), he_uri_ok = (\<lambda>_. True), he_encode_ok = True\<rparr>),
     nv_submit = (\<lambda>_ _. \<lparr>he_direct = (\<lambda>_. Inl ''offline''), he_tor = (\<lambda>_ _. None), he_uri_ok = (\<lambda>_. True), he_encode_ok = True\<rparr>),
     nv_get = \<lparr>he_direct = (\<lambda>_. Inl ''offline''), he_tor = (\<lambda>_ _. None), he_uri_ok = (\<lambda>_. True), he_encode_ok = True\<rparr>\<rparr>"

definition demo_swap_env :: "(unit, unit) swap_env" where
  "demo_swap_env = \<lparr>sn_near = demo_near, sn_tor1 = None, sn_tor2 = None, sn_open_db = Inr (), sn_now_ms = (\<lambda>_. 7), sn_new_id = ''s'', sn_rfc3339 = (\<lambda>_. ''d''),
     sn_status_in_time = True, sn_spawn_ok = True, sn_mined = (\<lambda>_. None), sn_wallet = demo_wallet_env, sn_task = demo_task_env, sn_send = demo_send_env,
     sn_net = demo_net, sn_build = (\<lambda>_. demo_build), sn_load = (\<lambda>_. Inr (Some (Inr [1, 2]))), sn_proposal_id = ''p9''\<rparr>"

definition demo_quote :: quote_record where
  "demo_quote = \<lparr>qq_wallet_id = ''w'',
     qq_intent = \<lparr>in_swap_type = FromZec, in_swap_mode = ExactInput, in_input_asset = ''zec'', in_input_amount = ''0.00005'', in_output_asset = ''eth'',
       in_output_amount = None, in_destination_address = Some ''0x1'', in_refund_address = Some ''u2''\<rparr>,
     qq_quote = \<lparr>sq_input_asset = ''zec'', sq_input_amount = ''5000'', sq_input_amount_formatted = ''0.00005'', sq_output_asset = ''eth'',
       sq_output_amount = ''9'', sq_output_amount_formatted = ''0.9'', sq_min_output_amount = ''8'', sq_deadline = 100, sq_time_estimate_secs = 120,
       sq_deposit_address = Some ''u1'', sq_deposit_memo = None, sq_correlation_id = ''q'', sq_app_fee_bps = None\<rparr>\<rparr>"

definition demo_swap_manager :: "(unit, unit) wallet_manager" where
  "demo_swap_manager = (wallet_manager_new demo_spend_db tx_service_new Map.empty (\<lambda>_. \<lparr>wf_db = None, wf_snapshot = None\<rparr>) (\<lambda>_. demo_dir) demo_dir)
     \<lparr>wm_active := Some (unlocked_wallet demo_wallet_env (new_wallet_info demo_wallet_env demo_fresh ''n'' SoftwareWallet Mainnet) (replicate 32 9))\<rparr>"

definition demo_swap_world :: "(unit, unit) swap_world" where
  "demo_swap_world = (swap_started demo_swap_manager)\<lparr>sx_service := swap_service_new\<lparr>sv_quotes := [''q'' \<mapsto> demo_quote]\<rparr>\<rparr>"

lemma demo_swap_fields:
  "sn_wallet demo_swap_env = demo_wallet_env" "sn_send demo_swap_env = demo_send_env" "sn_proposal_id demo_swap_env = ''p9''"
  "sn_open_db demo_swap_env = Inr ()" "sn_now_ms demo_swap_env n = 7" "sn_new_id demo_swap_env = ''s''"
  by (simp_all add: demo_swap_env_def)

lemma demo_deposit_request:
  "\<exists>x. propose_send demo_send_env demo_spend_db \<lparr>sr_wallet_id = ''w'', sr_network = Mainnet, sr_account_id = 0, sr_recipient = ''u1'',
     sr_amount_zat = ''5000'', sr_memo = None, sr_allow_transparent_recipient = True\<rparr> = Inr x"
  by (simp add: demo_send_simps propose_send_def ensure_spend_allowed_def ensure_backup_complete_def
      get_backup_required_def check_send_request_def Tx_Service.parse_zatoshis_def parse_u64_def parse_uint_def
      trim_def trim_start_def trim_end_def is_ws_def is_digit_def digit_val_def u64_max_def guard_or_def
      parse_recipient_def enforce_privacy_and_memo_rules_def parse_balance_field_def transparent_shortfall_def
      uses_transparent_inputs_def proposal_total_fee_def sat_add_u64_def)

text \<open>The proposal of the deposit is stored; confirming it fails, because the wallet's mnemonic is missing.\<close>

lemma demo_deposit:
  assumes "wm_active m = wm_active demo_swap_manager" "wm_tx m = tx_service_new" "wm_mnemonics m = Map.empty"
    "\<And>r. propose_send demo_send_env (wm_app_db m) r = propose_send demo_send_env demo_spend_db r"
  shows "wm_tx (snd (send_deposit demo_swap_env 0 ''u1'' ''5000'' None True ''t'' m)) \<noteq> tx_service_new"
proof -
  obtain c p f where x: "propose_send demo_send_env demo_spend_db \<lparr>sr_wallet_id = ''w'', sr_network = Mainnet, sr_account_id = 0, sr_recipient = ''u1'',
     sr_amount_zat = ''5000'', sr_memo = None, sr_allow_transparent_recipient = True\<rparr> = Inr (c, p, f)" using demo_deposit_request by (metis prod_cases3)
  let ?a = "unlocked_wallet demo_wallet_env (new_wallet_info demo_wallet_env demo_fresh ''n'' SoftwareWallet Mainnet) (replicate 32 9)"
  have a: "wm_active m = Some ?a" using assms(1) by (simp add: demo_swap_manager_def)
  have w: "aw_wallet ?a = new_wallet_info demo_wallet_env demo_fresh ''n'' SoftwareWallet Mainnet" "aw_lock ?a = Unlocked" "aw_db ?a" "aw_dek ?a = Some (replicate 32 9)"
    by (simp_all add: unlocked_wallet_def)
  have "require_active_unlocked_wallet_db m = Inr (aw_wallet ?a)" by (simp add: require_active_unlocked_wallet_db_def a w)
  then obtain resp s m1 where p: "wm_prepare_send demo_wallet_env demo_send_env ''p9'' \<lparr>sr_wallet_id = [], sr_network = Mainnet, sr_account_id = 0, sr_recipient = ''u1'',
       sr_amount_zat = ''5000'', sr_memo = None, sr_allow_transparent_recipient = True\<rparr> m = (Inr resp, m\<lparr>wm_tx := s\<rparr>)"
    "psr_proposal_id resp = ''p9''" "tx_proposals s ''p9'' = Some \<lparr>p_wallet_id = ''w'', p_account_id = 0, p_expires_at = PROPOSAL_TTL, p_proposal = p,
       p_summary = send_summary \<lparr>sr_wallet_id = ''w'', sr_network = Mainnet, sr_account_id = 0, sr_recipient = ''u1'',
     sr_amount_zat = ''5000'', sr_memo = None, sr_allow_transparent_recipient = True\<rparr> c f\<rparr>"
    using x assms(4) by (simp add: wm_prepare_send_def result_step_def w demo_wallet_fields tx_step_def prepare_send_def demo_env_fields to_unix_ms_def
        PROPOSAL_TTL_def secs_def i64_max_def import_proposal_for_execution_def)
  have v: "validate_proposal_for_wallet 0 ''p9'' ''w'' s = (Inr 0, s)" using p(3) by (simp add: validate_proposal_for_wallet_def PROPOSAL_TTL_def secs_def)
  obtain e where e: "derive_unified_spending_key demo_wallet_env ''w'' 0 (m\<lparr>wm_tx := s\<rparr>) = Inl e"
    by (simp add: derive_unified_spending_key_def require_unlocked_wallet_snapshot_def a w demo_wallet_fields decrypt_mnemonic_def load_encrypted_mnemonic_def
        demo_env_fields assms(3))
  have "prepare_confirm_send demo_wallet_env ''p9'' ''t'' (m\<lparr>wm_tx := s\<rparr>) = (Inl e, m\<lparr>wm_tx := s\<rparr>)"
    by (simp add: prepare_confirm_send_def active_or_locked_def a result_step_def w demo_wallet_fields guard_or_def tx_step_def demo_env_fields v e)
  then have "send_deposit demo_swap_env 0 ''u1'' ''5000'' None True ''t'' m = (Inl e, m\<lparr>wm_tx := s\<rparr>)"
    by (simp add: send_deposit_def demo_swap_fields p(1,2) prepare_confirm_send_task_def)
  then show ?thesis using p(3) by (auto simp: tx_service_new_def)
qed

lemma finish_keeps_tx: "finish_from_zec env wid sw notify sent w = (res, w') \<Longrightarrow> wm_tx (sx_manager w') = wm_tx (sx_manager w)"
  by (auto simp: finish_from_zec_def Let_def db_step_def bind_se_def case_prod_unfold set_swap_db_def split: sum.splits)

lemma propose_send_swaps: "propose_send env (db\<lparr>db_swaps := x\<rparr>) r = propose_send env db r"
  by (simp add: propose_send_def ensure_spend_allowed_def ensure_backup_complete_def get_backup_required_def get_account_def)

lemma demo_world_spends:
  assumes "start_swap demo_swap_env ''w'' Mainnet ''q'' True (Some ''t'') True demo_swap_world = (res, w')"
  shows "wm_tx (sx_manager w') \<noteq> tx_service_new"
proof -
  have q: "sv_quotes (sx_service demo_swap_world) ''q'' = Some demo_quote" "swap_db demo_swap_world = demo_spend_db"
    "sx_manager demo_swap_world = demo_swap_manager"
    by (simp_all add: demo_swap_world_def swap_db_def swap_started_def demo_swap_manager_def wallet_manager_new_def)
  have d: "qq_wallet_id demo_quote = ''w''" "in_swap_type (qq_intent demo_quote) = FromZec" "sq_deadline (qq_quote demo_quote) = 100"
    "sq_deposit_address (qq_quote demo_quote) = Some ''u1''" "sq_input_amount (qq_quote demo_quote) = ''5000''" "sq_deposit_memo (qq_quote demo_quote) = None"
    by (simp_all add: demo_quote_def)
  have t: "nonblank (Some ''t'') \<noteq> None" by (simp add: nonblank_def trim_def trim_start_def trim_end_def is_ws_def)
  have a: "spending_account demo_spend_db ''w'' = Some 0"
    by (simp add: spending_account_def list_accounts_def demo_spend_db_def demo_db_def account_of_row_def parse_account_type_def)
  let ?sw = "swap_of_quote demo_swap_env demo_quote ''u1'' Draft"
  obtain x where db: "insert_swap ''w'' ?sw demo_spend_db = Inr (demo_spend_db\<lparr>db_swaps := x\<rparr>)"
    by (simp add: insert_swap_def demo_spend_db_def demo_db_def wallet_exists_def)
  let ?m = "demo_swap_manager\<lparr>wm_app_db := demo_spend_db\<lparr>db_swaps := x\<rparr>\<rparr>"
  have m: "sx_manager (set_swap_db (demo_spend_db\<lparr>db_swaps := x\<rparr>) demo_swap_world) = ?m" by (simp add: set_swap_db_def q)
  have memo: "sw_deposit_memo ?sw = None" by (simp add: swap_of_quote_def d)
  have "wm_tx (snd (send_deposit demo_swap_env 0 ''u1'' ''5000'' None True ''t'' ?m)) \<noteq> tx_service_new"
    by (rule demo_deposit) (simp_all add: demo_swap_manager_def wallet_manager_new_def propose_send_swaps)
  moreover have "wm_tx (sx_manager w') = wm_tx (snd (send_deposit demo_swap_env 0 ''u1'' ''5000'' None True ''t'' ?m))"
    using assms t by (auto simp: start_swap_def q d demo_swap_fields start_swap_from_zec_def a Let_def db_step_def db m memo case_prod_unfold guard_or_def
        dest!: finish_keeps_tx)
  ultimately show ?thesis by simp
qed


definition demo_swap :: swap_info where
  "demo_swap = swap_of_quote demo_swap_env demo_quote ''u1'' SwPending"

definition demo_polling_manager :: "(unit, unit) wallet_manager" where
  "demo_polling_manager = demo_swap_manager\<lparr>wm_app_db := demo_spend_db\<lparr>db_swaps :=
     [\<lparr>x_wallet_id = ''w'', x_swap_type = ''FromZec'', x_state = ''Pending'', x_info = demo_swap\<rparr>]\<rparr>\<rparr>"

theorem swap_records_stable_witness:
  "\<exists>sw'. get_swap (swap_db (run_ops swap_exec [OpResume demo_swap_env ''w'' True, OpPoll demo_swap_env ''s'', OpPoll demo_swap_env ''s'', OpPoll demo_swap_env ''s'']
     (swap_started demo_polling_manager))) ''s'' = Some (''w'', sw') \<and> frozen sw' = frozen demo_swap"
proof -
  have d: "distinct_swaps (wm_app_db demo_polling_manager)" by (simp add: demo_polling_manager_def distinct_swaps_def)
  have w: "swap_started demo_polling_manager = run_ops swap_exec ([] :: (unit, unit) swap_op list) (swap_started demo_polling_manager)" by simp
  have f: "sw_id demo_swap = ''s''" "sw_swap_type demo_swap = FromZec" "sw_state demo_swap = SwPending"
    by (simp_all add: demo_swap_def swap_of_quote_def demo_swap_fields demo_quote_def)
  then have "demo_swap\<lparr>sw_swap_type := FromZec, sw_state := SwPending\<rparr> = demo_swap" by simp
  then have g: "get_swap (swap_db (swap_started demo_polling_manager)) ''s'' = Some (''w'', demo_swap)"
    by (simp add: swap_db_def swap_started_def demo_polling_manager_def get_swap_def f swap_of_row_def parse_swap_type_def parse_swap_state_def)
  show ?thesis using swap_records_stable[OF d w g] by blast
qed

end
