(* ===== verification/Keystone.thy ===== *)
theory Keystone
  imports Tx_Queue "HOL-Library.Sublist"
begin

text \<open>
  \<open>crates/zbag-keystone/src/payload.rs\<close> and \<open>pczt.rs\<close>: the CBOR envelope in which partially created transactions travel to and from a
  Keystone device as QR codes, and the encodings around it.  A \<open>u64\<close> or \<open>usize\<close> (64 bits) is a natural number with its wrap-around written out; shifting by eight
  and adding a byte are \<open>* 256\<close> and \<open>+\<close>.  A slice whose end lies before its start panics.  Base64 and the \<open>pczt\<close> crate are parameters.
\<close>

section \<open>The CBOR envelope\<close>

datatype cbor_error = UnexpectedEnd | UnsupportedAdditionalInfo | InvalidCbor string

datatype cbor_failure = CborErr cbor_error | CborPanic

record cbor_head =
  ch_major :: nat
  ch_value :: nat
  ch_offset :: nat
  ch_indefinite :: bool

definition wrap_usize :: "nat \<Rightarrow> nat" where "wrap_usize n = n mod 2 ^ 64"

definition byte_of :: "nat \<Rightarrow> 8 word" where "byte_of n = word_of_nat n"

definition encode_cbor_major_len :: "nat \<Rightarrow> nat \<Rightarrow> bytes" where
  "encode_cbor_major_len major len =
     (if len < 24 then [byte_of (major * 32 + len)]
      else if len < 256 then [byte_of (major * 32 + 24), byte_of len]
      else if len < 65536 then [byte_of (major * 32 + 25), byte_of (len div 2 ^ 8), byte_of (len mod 256)]
      else if len < 4294967296 then
        [byte_of (major * 32 + 26), byte_of (len div 2 ^ 24), byte_of (len div 2 ^ 16), byte_of (len div 2 ^ 8), byte_of (len mod 256)]
      else
        [byte_of (major * 32 + 27), byte_of (len div 2 ^ 56), byte_of (len div 2 ^ 48), byte_of (len div 2 ^ 40), byte_of (len div 2 ^ 32),
         byte_of (len div 2 ^ 24), byte_of (len div 2 ^ 16), byte_of (len div 2 ^ 8), byte_of (len mod 256)])"

definition get_byte :: "bytes \<Rightarrow> nat \<Rightarrow> (cbor_error, nat) result" where
  "get_byte bs i = (if i < length bs then Inr (unat (bs ! i)) else Inl UnexpectedEnd)"

text \<open>The loop over the eight bytes of a 64-bit argument: \<open>k\<close> bytes are left, \<open>n\<close> is the value so far.\<close>

primrec read_be :: "bytes \<Rightarrow> nat \<Rightarrow> nat \<Rightarrow> nat \<Rightarrow> (cbor_error, nat) result" where
  "read_be bs i 0 n = Inr n"
| "read_be bs i (Suc k) n = bind_result (get_byte bs i) (\<lambda>b. read_be bs (i + 1) k (wrap_usize (n * 256) + b))"

definition definite_head :: "nat \<Rightarrow> nat \<Rightarrow> nat \<Rightarrow> cbor_head" where
  "definite_head major v next = \<lparr>ch_major = major, ch_value = v, ch_offset = next, ch_indefinite = False\<rparr>"

definition read_head :: "bytes \<Rightarrow> nat \<Rightarrow> (cbor_error, cbor_head) result" where
  "read_head bs offset =
     bind_result (get_byte bs offset) (\<lambda>initial.
     let major = initial div 32; ai = initial mod 32; next = offset + 1 in
     if ai < 24 then Inr (definite_head major ai next)
     else if ai = 24 then bind_result (get_byte bs next) (\<lambda>v. Inr (definite_head major v (next + 1)))
     else if ai = 25 then
       bind_result (get_byte bs next) (\<lambda>b0. bind_result (get_byte bs (next + 1)) (\<lambda>b1.
       Inr (definite_head major (b0 * 256 + b1) (next + 2))))
     else if ai = 26 then
       bind_result (get_byte bs next) (\<lambda>b0. bind_result (get_byte bs (next + 1)) (\<lambda>b1.
       bind_result (get_byte bs (next + 2)) (\<lambda>b2. bind_result (get_byte bs (next + 3)) (\<lambda>b3.
       Inr (definite_head major (b0 * 2 ^ 24 + b1 * 2 ^ 16 + b2 * 2 ^ 8 + b3) (next + 4))))))
     else if ai = 27 then bind_result (read_be bs next 8 0) (\<lambda>v. Inr (definite_head major v (next + 8)))
     else if ai = 31 then Inr \<lparr>ch_major = major, ch_value = 0, ch_offset = next, ch_indefinite = True\<rparr>
     else Inl UnsupportedAdditionalInfo)"

definition encode_zcash_pczt_ur_cbor :: "bytes \<Rightarrow> bytes" where
  "encode_zcash_pczt_ur_cbor pczt = encode_cbor_major_len 5 1 @ encode_cbor_major_len 0 1 @ encode_cbor_major_len 2 (length pczt) @ pczt"

text \<open>\<open>cbor[offset..offset + len]\<close> behind the test \<open>offset + len > cbor.len()\<close>; the sum wraps around.\<close>

definition cbor_slice :: "string \<Rightarrow> bytes \<Rightarrow> nat \<Rightarrow> nat \<Rightarrow> (cbor_failure, bytes \<times> nat) result" where
  "cbor_slice msg cbor offset len =
     (let stop = wrap_usize (offset + len) in
      if length cbor < stop then Inl (CborErr (InvalidCbor msg))
      else if stop < offset then Inl CborPanic
      else Inr (take (stop - offset) (drop offset cbor), stop))"

lemma get_byte_ok: "get_byte bs i = Inr b \<longleftrightarrow> i < length bs \<and> b = unat (bs ! i)"
  by (auto simp: get_byte_def)

lemma read_head_advances: "read_head bs offset = Inr h \<Longrightarrow> offset < ch_offset h \<and> offset < length bs"
  by (auto simp: read_head_def Let_def definite_head_def get_byte_ok result_simps split: if_splits)

lemma cbor_slice_ok:
  "cbor_slice msg cbor offset len = Inr (bs, stop) \<Longrightarrow> offset \<le> stop \<and> stop \<le> length cbor \<and> bs = take (stop - offset) (drop offset cbor)"
  by (auto simp: cbor_slice_def Let_def split: if_splits)

function read_chunks :: "bytes \<Rightarrow> nat \<Rightarrow> (cbor_failure, bytes list \<times> nat) result" where
  "read_chunks cbor offset =
     (if length cbor \<le> offset then Inr ([], offset)
      else if cbor ! offset = 255 then Inr ([], offset + 1)
      else case read_head cbor offset of
        Inl e \<Rightarrow> Inl (CborErr e)
      | Inr chunk \<Rightarrow>
          if ch_major chunk \<noteq> 2 \<or> ch_indefinite chunk then Inl (CborErr (InvalidCbor ''invalid chunk''))
          else case cbor_slice ''truncated chunk'' cbor (ch_offset chunk) (ch_value chunk) of
            Inl f \<Rightarrow> Inl f
          | Inr (bs, stop) \<Rightarrow> bind_result (read_chunks cbor stop) (\<lambda>(rest, fin). Inr (bs # rest, fin)))"
  by pat_completeness auto

termination
  by (relation "measure (\<lambda>(cbor, offset). length cbor - offset)") (auto dest!: read_head_advances cbor_slice_ok)

declare read_chunks.simps [simp del]

definition decode_zcash_pczt_ur_cbor :: "bytes \<Rightarrow> (cbor_failure, bytes) result" where
  "decode_zcash_pczt_ur_cbor cbor =
     bind_result (map_err CborErr (read_head cbor 0)) (\<lambda>map.
     bind_result (guard_or (ch_major map = 5 \<and> \<not> ch_indefinite map \<and> ch_value map = 1) (CborErr (InvalidCbor ''expected map(1)''))) (\<lambda>_.
     bind_result (map_err CborErr (read_head cbor (ch_offset map))) (\<lambda>key.
     bind_result (guard_or (ch_major key = 0 \<and> \<not> ch_indefinite key \<and> ch_value key = 1) (CborErr (InvalidCbor ''expected key 1''))) (\<lambda>_.
     bind_result (map_err CborErr (read_head cbor (ch_offset key))) (\<lambda>val.
     bind_result (guard_or (ch_major val = 2) (CborErr (InvalidCbor ''expected byte string''))) (\<lambda>_.
     if \<not> ch_indefinite val then
       bind_result (cbor_slice ''truncated data'' cbor (ch_offset val) (ch_value val)) (\<lambda>(bs, stop).
       if stop \<noteq> length cbor then Inl (CborErr (InvalidCbor ''trailing bytes'')) else Inr bs)
     else
       bind_result (read_chunks cbor (ch_offset val)) (\<lambda>(chunks, stop).
       if stop \<noteq> length cbor then Inl (CborErr (InvalidCbor ''trailing bytes'')) else Inr (concat chunks))))))))"

section \<open>PCZT payloads\<close>

text \<open>The \<open>base64\<close> and \<open>pczt\<close> crates, with the calls of the redactor the code makes.\<close>

record 'p pczt_lib =
  pz_base64_encode :: "bytes \<Rightarrow> string"
  pz_base64_decode :: "string \<Rightarrow> bytes option"
  pz_serialize :: "'p \<Rightarrow> bytes"
  pz_parse :: "bytes \<Rightarrow> (string, 'p) result"
  pz_redact_global :: "string \<Rightarrow> 'p \<Rightarrow> 'p"
  pz_clear_orchard_witness :: "'p \<Rightarrow> 'p"
  pz_redact_orchard_output :: "string \<Rightarrow> 'p \<Rightarrow> 'p"
  pz_clear_sapling_witness :: "'p \<Rightarrow> 'p"
  pz_redact_sapling_output :: "string \<Rightarrow> 'p \<Rightarrow> 'p"
  pz_redact_transparent_output :: "string \<Rightarrow> 'p \<Rightarrow> 'p"
  pz_combine :: "'p list \<Rightarrow> (string, 'p) result"

datatype pczt_error = InvalidBase64 | InvalidPczt string

definition redact_for_signer :: "'p pczt_lib \<Rightarrow> 'p \<Rightarrow> 'p" where
  "redact_for_signer pz p =
     (let r1 = pz_redact_global pz ''zcash_client_backend:proposal_info'' p;
          r2 = pz_redact_orchard_output pz ''zcash_client_backend:output_info'' (pz_clear_orchard_witness pz r1);
          r3 = pz_redact_sapling_output pz ''zcash_client_backend:output_info'' (pz_clear_sapling_witness pz r2)
      in pz_redact_transparent_output pz ''zcash_client_backend:output_info'' r3)"

definition encode_pczt_for_signer :: "'p pczt_lib \<Rightarrow> 'p \<Rightarrow> string" where
  "encode_pczt_for_signer pz p = pz_base64_encode pz (pz_serialize pz (redact_for_signer pz p))"

definition encode_pczt_full :: "'p pczt_lib \<Rightarrow> 'p \<Rightarrow> string" where
  "encode_pczt_full pz p = pz_base64_encode pz (pz_serialize pz p)"

definition encode_pczt_base64 :: "'p pczt_lib \<Rightarrow> 'p \<Rightarrow> string" where
  "encode_pczt_base64 pz p = encode_pczt_for_signer pz p"

definition decode_pczt_base64 :: "'p pczt_lib \<Rightarrow> string \<Rightarrow> (pczt_error, 'p) result" where
  "decode_pczt_base64 pz payload =
     bind_result (ok_or (pz_base64_decode pz payload) InvalidBase64) (\<lambda>bs. map_err InvalidPczt (pz_parse pz bs))"

definition decode_pczt_full :: "'p pczt_lib \<Rightarrow> string \<Rightarrow> (pczt_error, 'p) result" where
  "decode_pczt_full pz payload =
     bind_result (ok_or (pz_base64_decode pz payload) InvalidBase64) (\<lambda>bs. map_err InvalidPczt (pz_parse pz bs))"

definition combine_pczts :: "'p pczt_lib \<Rightarrow> 'p \<Rightarrow> 'p \<Rightarrow> (pczt_error, 'p) result" where
  "combine_pczts pz proofs sigs = map_err (\<lambda>e. InvalidPczt (''failed to combine PCZTs: '' @ e)) (pz_combine pz [proofs, sigs])"

section \<open>Lemmas\<close>

lemma unat_byte_of [simp]: "unat (byte_of n) = n mod 256"
  by (simp add: byte_of_def unat_of_nat)

text \<open>Reading back the big-endian bytes of a number.\<close>

lemma read_be_bytes:
  "read_be (pre @ map byte_of ds @ rest) (length pre) (length ds) n = Inr (foldl (\<lambda>a d. wrap_usize (a * 256) + d mod 256) n ds)"
proof (induction ds arbitrary: pre n)
  case (Cons d ds)
  have "read_be ((pre @ [byte_of d]) @ map byte_of ds @ rest) (length (pre @ [byte_of d])) (length ds) (wrap_usize (n * 256) + d mod 256)
     = Inr (foldl (\<lambda>a d. wrap_usize (a * 256) + d mod 256) (wrap_usize (n * 256) + d mod 256) ds)"
    by (rule Cons.IH)
  then show ?case by (simp add: get_byte_def)
qed simp

lemma be_step:
  assumes "n < 2 ^ 64"
  shows "wrap_usize (n div 2 ^ (j + 8) * 256) + n div 2 ^ j mod 256 = n div 2 ^ j"
proof -
  have "n div 2 ^ (j + 8) = n div 2 ^ j div 256" by (simp add: power_add div_mult2_eq)
  moreover have "n div 2 ^ j div 256 * 256 \<le> n" using div_times_less_eq_dividend[of "n div 2 ^ j" 256] div_le_dividend[of n "2 ^ j"] by linarith
  ultimately show ?thesis using assms by (simp add: wrap_usize_def)
qed

lemma be_value:
  assumes "n < 2 ^ 64"
  shows "foldl (\<lambda>a d. wrap_usize (a * 256) + d mod 256) 0
     [n div 2 ^ 56, n div 2 ^ 48, n div 2 ^ 40, n div 2 ^ 32, n div 2 ^ 24, n div 2 ^ 16, n div 2 ^ 8, n mod 256] = n"
proof -
  have top: "wrap_usize (0 * 256) + n div 2 ^ 56 mod 256 = n div 2 ^ 56"
    using assms by (simp add: wrap_usize_def less_mult_imp_div_less)
  have low: "wrap_usize (n div 2 ^ 8 * 256) + n mod 256 mod 256 = n" using be_step[OF assms, of 0] by simp
  note step = be_step[OF assms, of 48] be_step[OF assms, of 40] be_step[OF assms, of 32] be_step[OF assms, of 24] be_step[OF assms, of 16] be_step[OF assms, of 8]
  show ?thesis unfolding foldl.simps top step[unfolded add_numeral_left numeral_plus_numeral semiring_norm] low ..
qed

lemma bytes4: "n div 2 ^ 24 mod 256 * 2 ^ 24 + n div 2 ^ 16 mod 256 * 2 ^ 16 + n div 2 ^ 8 mod 256 * 2 ^ 8 + n mod 256 = n"
  if "n < 4294967296" for n :: nat
proof -
  have sum: "c * 2 ^ 24 + r2 * 2 ^ 16 + r1 * 2 ^ 8 + r0 = m" if "m = a * 256 + r0" "a = b * 256 + r1" "b = c * 256 + r2" for a b c m r0 r1 r2 :: nat
    using that by simp
  let ?a = "n div 256" let ?b = "?a div 256" let ?c = "?b div 256"
  have eqs: "n div 2 ^ 8 = ?a" "n div 2 ^ 16 = ?b" "n div 2 ^ 24 = ?c" by (simp_all flip: div_mult2_eq)
  have top: "?c mod 256 = ?c" using that by (simp flip: div_mult2_eq)
  show ?thesis unfolding eqs top by (rule sum) simp_all
qed

lemma read_head_encoded:
  assumes "major < 8" "n < 2 ^ 64"
  shows "read_head (pre @ encode_cbor_major_len major n @ rest) (length pre)
     = Inr (definite_head major n (length pre + length (encode_cbor_major_len major n)))"
proof -
  have init: "(major * 32 + ai) mod 256 div 32 = major" "(major * 32 + ai) mod 256 mod 32 = ai" if "ai < 32" for ai
    using that assms(1) by auto
  consider "n < 24" | "24 \<le> n" "n < 256" | "256 \<le> n" "n < 65536" | "65536 \<le> n" "n < 4294967296" | "4294967296 \<le> n" by linarith
  then show ?thesis
  proof cases
    case 4
    have five: "Suc (Suc (Suc (Suc (Suc m)))) = m + 5" for m by simp
    show ?thesis using 4 init bytes4[of n]
      by (simp add: read_head_def encode_cbor_major_len_def get_byte_def nth_append five add.commute)
  next
    case 5
    let ?ds = "[n div 2 ^ 56, n div 2 ^ 48, n div 2 ^ 40, n div 2 ^ 32, n div 2 ^ 24, n div 2 ^ 16, n div 2 ^ 8, n mod 256]"
    have e: "encode_cbor_major_len major n = byte_of (major * 32 + 27) # map byte_of ?ds" using 5 by (simp add: encode_cbor_major_len_def)
    have "read_be ((pre @ [byte_of (major * 32 + 27)]) @ map byte_of ?ds @ rest) (length (pre @ [byte_of (major * 32 + 27)])) (length ?ds) 0 = Inr n"
      unfolding read_be_bytes be_value[OF assms(2)] ..
    moreover have "length ?ds = 8" "length (pre @ [byte_of (major * 32 + 27)]) = length pre + 1"
      "(pre @ [byte_of (major * 32 + 27)]) @ map byte_of ?ds @ rest = pre @ encode_cbor_major_len major n @ rest" unfolding e by simp_all
    ultimately have "read_be (pre @ encode_cbor_major_len major n @ rest) (length pre + 1) 8 0 = Inr n" by metis
    moreover have "get_byte (pre @ encode_cbor_major_len major n @ rest) (length pre) = Inr ((major * 32 + 27) mod 256)" by (simp add: e get_byte_def)
    moreover have "length (encode_cbor_major_len major n) = 9" by (simp add: e)
    ultimately show ?thesis by (simp add: read_head_def init) (simp add: add.commute)
  qed (use init bytes4[of n] in \<open>simp_all add: read_head_def encode_cbor_major_len_def get_byte_def nth_append\<close>)
qed

lemma encoded_lengths: "length (encode_cbor_major_len major n) \<in> {1, 2, 3, 5, 9}"
  by (simp add: encode_cbor_major_len_def)

lemma decode_encoded:
  assumes "length bs < 2 ^ 63"
  shows "decode_zcash_pczt_ur_cbor (encode_zcash_pczt_ur_cbor bs) = Inr bs"
proof -
  let ?m = "encode_cbor_major_len 5 1" and ?k = "encode_cbor_major_len 0 1" and ?l = "encode_cbor_major_len 2 (length bs)"
  let ?c = "encode_zcash_pczt_ur_cbor bs" and ?h = "length (encode_cbor_major_len 5 1 @ encode_cbor_major_len 0 1 @ encode_cbor_major_len 2 (length bs))"
  have m: "read_head ?c 0 = Inr (definite_head 5 1 (length ?m))"
    using read_head_encoded[of 5 1 "[]" "?k @ ?l @ bs"] by (simp add: encode_zcash_pczt_ur_cbor_def)
  have k: "read_head ?c (length ?m) = Inr (definite_head 0 1 (length (?m @ ?k)))"
    using read_head_encoded[of 0 1 ?m "?l @ bs"] by (simp add: encode_zcash_pczt_ur_cbor_def)
  have l: "read_head ?c (length (?m @ ?k)) = Inr (definite_head 2 (length bs) ?h)"
    using read_head_encoded[of 2 "length bs" "?m @ ?k" bs] assms by (simp add: encode_zcash_pczt_ur_cbor_def add.assoc)
  have "?h + length bs < 2 ^ 64" using assms encoded_lengths[of 5 1] encoded_lengths[of 0 1] encoded_lengths[of 2 "length bs"] by auto
  then have "cbor_slice ''truncated data'' ?c ?h (length bs) = Inr (bs, length ?c)"
    by (simp add: cbor_slice_def encode_zcash_pczt_ur_cbor_def wrap_usize_def)
  then show ?thesis unfolding decode_zcash_pczt_ur_cbor_def using m k l by (simp add: definite_head_def guard_or_def)
qed

text \<open>What was decoded was in the input.\<close>

lemma subseq_slice: "cbor_slice msg cbor offset len = Inr (bs, stop) \<Longrightarrow> bs @ drop stop cbor = drop offset cbor"
proof -
  assume "cbor_slice msg cbor offset len = Inr (bs, stop)"
  then have "offset \<le> stop" "bs = take (stop - offset) (drop offset cbor)" using cbor_slice_ok by blast+
  then show ?thesis using append_take_drop_id[of "stop - offset" "drop offset cbor"] by simp
qed

lemma subseq_drop_later: "i \<le> j \<Longrightarrow> subseq (drop j xs) (drop i xs)"
  by (metis drop_drop le_add_diff_inverse2 suffix_drop suffix_imp_subseq)

lemma read_chunks_subseq:
  "read_chunks cbor offset = Inr (chunks, stop) \<Longrightarrow> offset \<le> stop \<and> subseq (concat chunks) (drop offset cbor)"
proof (induction cbor offset arbitrary: chunks stop rule: read_chunks.induct)
  case (1 cbor offset)
  show ?case
  proof (cases "length cbor \<le> offset \<or> cbor ! offset = 255")
    case True
    then show ?thesis using "1.prems" by (auto simp: read_chunks.simps[of cbor offset] split: if_splits)
  next
    case False
    obtain h bs st rest where h: "read_head cbor offset = Inr h" "ch_major h = 2" "\<not> ch_indefinite h"
      "cbor_slice ''truncated chunk'' cbor (ch_offset h) (ch_value h) = Inr (bs, st)" "read_chunks cbor st = Inr (rest, stop)" "chunks = bs # rest"
      using "1.prems" False by (auto simp: read_chunks.simps[of cbor offset] result_simps split: if_splits sum.splits)
    have ih: "st \<le> stop" "subseq (concat rest) (drop st cbor)" using "1.IH"[OF _ _ h(1) _ h(4) refl h(5)] False h(2,3) by auto
    have "offset < ch_offset h" "ch_offset h \<le> st" using read_head_advances[OF h(1)] cbor_slice_ok[OF h(4)] by auto
    moreover have "subseq (bs @ concat rest) (drop (ch_offset h) cbor)"
      using ih(2) subseq_slice[OF h(4)] by (metis list_emb_append_mono subseq_order.refl)
    ultimately show ?thesis using ih(1) h(6) subseq_drop_later[of offset "ch_offset h" cbor] subseq_order.trans by fastforce
  qed
qed

lemma decode_ok:
  assumes "decode_zcash_pczt_ur_cbor cbor = Inr bs"
  obtains map key v where "read_head cbor 0 = Inr map" "read_head cbor (ch_offset map) = Inr key" "read_head cbor (ch_offset key) = Inr v"
    "ch_major map = 5" "ch_value map = 1" "ch_major key = 0" "ch_value key = 1" "ch_major v = 2"
    "\<not> ch_indefinite v \<and> cbor_slice ''truncated data'' cbor (ch_offset v) (ch_value v) = Inr (bs, length cbor)
     \<or> ch_indefinite v \<and> (\<exists>chunks. read_chunks cbor (ch_offset v) = Inr (chunks, length cbor) \<and> bs = concat chunks)"
proof -
  note d = assms[unfolded decode_zcash_pczt_ur_cbor_def]
  obtain map where m: "read_head cbor 0 = Inr map" using d by (cases "read_head cbor 0") simp_all
  obtain key where k: "read_head cbor (ch_offset map) = Inr key"
    using d m by (cases "read_head cbor (ch_offset map)") (simp_all add: guard_or_def split: if_splits)
  obtain v where v: "read_head cbor (ch_offset key) = Inr v"
    using d m k by (cases "read_head cbor (ch_offset key)") (simp_all add: guard_or_def split: if_splits)
  have heads: "ch_major map = 5" "ch_value map = 1" "ch_major key = 0" "ch_value key = 1" "ch_major v = 2"
    using d m k v by (simp_all add: guard_or_def split: if_splits)
  have "\<not> ch_indefinite v \<and> cbor_slice ''truncated data'' cbor (ch_offset v) (ch_value v) = Inr (bs, length cbor)
     \<or> ch_indefinite v \<and> (\<exists>chunks. read_chunks cbor (ch_offset v) = Inr (chunks, length cbor) \<and> bs = concat chunks)"
  proof (cases "ch_indefinite v")
    case True
    then show ?thesis using d m k v heads
      by (cases "read_chunks cbor (ch_offset v)") (simp_all add: guard_or_def split: if_splits prod.splits)
  next
    case False
    then show ?thesis using d m k v heads
      by (cases "cbor_slice ''truncated data'' cbor (ch_offset v) (ch_value v)") (simp_all add: guard_or_def split: if_splits prod.splits)
  qed
  with m k v heads show ?thesis by (rule that)
qed

lemma decode_subseq:
  assumes "decode_zcash_pczt_ur_cbor cbor = Inr bs"
  shows "subseq bs cbor"
proof -
  obtain v :: cbor_head where v: "\<not> ch_indefinite v \<and> cbor_slice ''truncated data'' cbor (ch_offset v) (ch_value v) = Inr (bs, length cbor)
     \<or> ch_indefinite v \<and> (\<exists>chunks. read_chunks cbor (ch_offset v) = Inr (chunks, length cbor) \<and> bs = concat chunks)"
    by (rule decode_ok[OF assms]) blast
  have "subseq bs (drop (ch_offset v) cbor)"
  proof (cases "ch_indefinite v")
    case True
    then show ?thesis using v read_chunks_subseq by blast
  next
    case False
    then show ?thesis using v subseq_slice by fastforce
  qed
  then show ?thesis using subseq_drop_later[of 0 "ch_offset v" cbor] subseq_order.trans by fastforce
qed

section \<open>Properties\<close>

text \<open>C28: What is shown to the signer arrives.  Every byte string that fits into memory comes back unchanged from the CBOR envelope, in each of its five length encodings;
  so a device that opens the envelope of a redacted transaction parses exactly the redacted transaction, the same that its base64 payload
  decodes to, and the full transaction kept by the wallet is restored from its payload.\<close>

theorem pczt_payload_roundtrip:
  assumes base64: "\<And>bs. pz_base64_decode pz (pz_base64_encode pz bs) = Some bs" and parse: "\<And>q. pz_parse pz (pz_serialize pz q) = Inr q"
    and "length bs < 2 ^ 63" and "length (pz_serialize pz (redact_for_signer pz p)) < 2 ^ 63"
  shows "decode_zcash_pczt_ur_cbor (encode_zcash_pczt_ur_cbor bs) = Inr bs
     \<and> bind_result (decode_zcash_pczt_ur_cbor (encode_zcash_pczt_ur_cbor (pz_serialize pz (redact_for_signer pz p))))
          (\<lambda>received. map_err (\<lambda>e. CborErr (InvalidCbor e)) (pz_parse pz received)) = Inr (redact_for_signer pz p)
     \<and> decode_pczt_base64 pz (encode_pczt_base64 pz p) = Inr (redact_for_signer pz p)
     \<and> decode_pczt_full pz (encode_pczt_full pz p) = Inr p"
  using assms decode_encoded[of bs] decode_encoded[of "pz_serialize pz (redact_for_signer pz p)"]
  by (simp add: decode_pczt_base64_def encode_pczt_base64_def encode_pczt_for_signer_def decode_pczt_full_def encode_pczt_full_def)

text \<open>A library for strings of bytes below 128: base64 is the text itself, a transaction its bytes.\<close>

definition demo_pczt_lib :: "bytes pczt_lib" where
  "demo_pczt_lib = \<lparr>pz_base64_encode = map (char_of \<circ> unat), pz_base64_decode = (\<lambda>s. Some (map (word_of_nat \<circ> of_char) s)), pz_serialize = id, pz_parse = Inr,
     pz_redact_global = (\<lambda>_ p. tl p), pz_clear_orchard_witness = id, pz_redact_orchard_output = (\<lambda>_. id), pz_clear_sapling_witness = id,
     pz_redact_sapling_output = (\<lambda>_. id), pz_redact_transparent_output = (\<lambda>_. id), pz_combine = (\<lambda>ps. Inr (concat ps))\<rparr>"

lemma demo_base64: "pz_base64_decode demo_pczt_lib (pz_base64_encode demo_pczt_lib bs) = Some bs"
proof -
  have "word_of_nat (of_char (char_of (unat b) :: char)) = b" for b :: "8 word"
    using unsigned_less[of b, where 'a = nat] by simp
  then show ?thesis by (simp add: demo_pczt_lib_def comp_def)
qed

theorem pczt_payload_roundtrip_witness:
  "decode_zcash_pczt_ur_cbor (encode_zcash_pczt_ur_cbor (replicate 300 7)) = Inr (replicate 300 7)
   \<and> decode_pczt_base64 demo_pczt_lib (encode_pczt_base64 demo_pczt_lib [1, 2, 3]) = Inr [2, 3]"
proof -
  have parse: "pz_parse demo_pczt_lib (pz_serialize demo_pczt_lib q) = Inr q" for q by (simp add: demo_pczt_lib_def)
  have r: "redact_for_signer demo_pczt_lib [1, 2, 3] = [2, 3]" by (simp add: redact_for_signer_def demo_pczt_lib_def)
  have "length (replicate 300 (7 :: 8 word)) < 2 ^ 63" "length (pz_serialize demo_pczt_lib (redact_for_signer demo_pczt_lib [1, 2, 3])) < 2 ^ 63"
    unfolding r by (simp_all add: demo_pczt_lib_def)
  from pczt_payload_roundtrip[of demo_pczt_lib, OF demo_base64 parse this] show ?thesis unfolding r by blast
qed

lemmas decode_eval = decode_zcash_pczt_ur_cbor_def read_head_def get_byte_def definite_head_def cbor_slice_def wrap_usize_def guard_or_def Let_def

lemma huge_length_panics: "decode_zcash_pczt_ur_cbor ([0xA1, 0x01, 0x5B] @ replicate 8 0xFF) = Inl CborPanic"
proof -
  let ?c = "[0xA1, 0x01, 0x5B] @ replicate 8 (0xFF :: 8 word)" and ?max = "18446744073709551615 :: nat"
  have c: "?c = [0xA1, 0x01, 0x5B] @ map byte_of (replicate 8 255) @ []" by (simp add: byte_of_def)
  have eight: "replicate 8 (255 :: nat) = [255, 255, 255, 255, 255, 255, 255, 255]" by (simp add: numeral_eq_Suc)
  have "foldl (\<lambda>a d. wrap_usize (a * 256) + d mod 256) 0 (replicate 8 255) = ?max"
    unfolding eight by (simp add: wrap_usize_def)
  then have "read_be ?c 3 8 0 = Inr ?max"
    using read_be_bytes[of "[0xA1, 0x01, 0x5B]" "replicate 8 255" "[]" 0] unfolding c by (simp add: numeral_3_eq_3 del: read_be.simps map_replicate)
  moreover have "length ?c = 11" by simp
  ultimately have v: "read_head ?c 2 = Inr (definite_head 2 ?max 11)" by (simp add: read_head_def get_byte_def nth_append del: read_be.simps)
  have m: "read_head ?c 0 = Inr (definite_head 5 1 1)" "read_head ?c 1 = Inr (definite_head 0 1 2)" by (simp_all add: read_head_def get_byte_def) (simp add: numeral_2_eq_2)
  have "cbor_slice ''truncated data'' ?c 11 ?max = Inl CborPanic" by (simp add: cbor_slice_def wrap_usize_def)
  then show ?thesis unfolding decode_zcash_pczt_ur_cbor_def using v m by (simp add: guard_or_def definite_head_def del: append_Cons)
qed

text \<open>Malformed envelopes.  Whatever is decoded, every byte of it stood in the input, in that order.  But an envelope that declares a byte string of
  nearly \<open>2\<^sup>6\<^sup>4\<close> bytes makes the decoder panic, because the end of the slice wraps around; and a byte string of indefinite length is accepted without its closing byte,
  so a truncated transaction is taken for a complete one.\<close>

theorem pczt_ur_malformed:
  "(decode_zcash_pczt_ur_cbor cbor = Inr bs \<longrightarrow> subseq bs cbor)
   \<and> decode_zcash_pczt_ur_cbor ([0xA1, 0x01, 0x5B] @ replicate 8 0xFF) = Inl CborPanic
   \<and> decode_zcash_pczt_ur_cbor [0xA1, 0x01, 0x5F, 0x41, 0x07, 0xFF] = Inr [7]
   \<and> decode_zcash_pczt_ur_cbor [0xA1, 0x01, 0x5F, 0x41, 0x07] = Inr [7]"
proof (intro conjI impI)
  show "decode_zcash_pczt_ur_cbor ([0xA1, 0x01, 0x5B] @ replicate 8 0xFF) = Inl CborPanic" by (rule huge_length_panics)
  show "decode_zcash_pczt_ur_cbor [0xA1, 0x01, 0x5F, 0x41, 0x07, 0xFF] = Inr [7]" by (simp add: decode_eval read_chunks.simps)
  show "decode_zcash_pczt_ur_cbor [0xA1, 0x01, 0x5F, 0x41, 0x07] = Inr [7]" by (simp add: decode_eval read_chunks.simps)
qed (rule decode_subseq)

theorem pczt_ur_malformed_witness: "decode_zcash_pczt_ur_cbor [0xA1, 0x01, 0x41, 0x07] = Inr [7] \<and> subseq [7] [0xA1, 0x01, 0x41, 0x07 :: 8 word]"
proof -
  have d: "decode_zcash_pczt_ur_cbor [0xA1, 0x01, 0x41, 0x07] = Inr [7]" by (simp add: decode_eval read_chunks.simps)
  then show ?thesis using pczt_ur_malformed[of "[0xA1, 0x01, 0x41, 0x07]" "[7]"] by blast
qed

end
