(* ===== verification/Secure_Files.thy ===== *)
theory Secure_Files
  imports Tx_Queue
begin

text \<open>
  \<open>crates/zbag-core/src/permissions.rs\<close> on Unix: directories and files that only their owner can read, and replacing a file in one step.
  A path is the list of its components below the root; a file system maps paths to nodes.  Every system call may fail, as the environment says
  for its number; a failing write may have written a prefix.  The state keeps what the file system was after each call, so that a theorem can speak of a crash in between.
  Links and other processes are not modelled.
\<close>

section \<open>The file system\<close>

type_synonym path = "string list"

datatype who = Owner | Group | Others
datatype access = MayRead | MayWrite | MayExecute

type_synonym mode = "(who \<times> access) set"

definition mode_700 :: mode where "mode_700 = {(Owner, MayRead), (Owner, MayWrite), (Owner, MayExecute)}"
definition mode_600 :: mode where "mode_600 = {(Owner, MayRead), (Owner, MayWrite)}"

datatype fs_node = Dir mode | File mode bytes

type_synonym nodes = "path \<rightharpoonup> fs_node"

datatype io_kind = IoNotFound | IoAlreadyExists | IoNotADirectory | IoInvalidInput | IoOther

record fs =
  fs_nodes :: nodes
  fs_calls :: nat
  fs_history :: "nodes list"

text \<open>\<open>fe_fail n\<close>: call \<open>n\<close> fails for a reason outside the model (no space, no permission); \<open>fe_written n\<close>: the number of bytes a failing write has written.\<close>

record fs_env =
  fe_fail :: "nat \<Rightarrow> bool"
  fe_written :: "nat \<Rightarrow> nat"
  fe_umask :: mode

definition set_nodes :: "nodes \<Rightarrow> fs \<Rightarrow> fs" where
  "set_nodes m w = \<lparr>fs_nodes = m, fs_calls = fs_calls w + 1, fs_history = fs_history w @ [m]\<rparr>"

definition syscall :: "fs_env \<Rightarrow> (nodes \<Rightarrow> (io_kind, 'a \<times> nodes) result) \<Rightarrow> fs \<Rightarrow> (io_kind, 'a) result \<times> fs" where
  "syscall env f w =
     (case (if fe_fail env (fs_calls w) then Inl IoOther else f (fs_nodes w)) of
        Inl k \<Rightarrow> (Inl k, set_nodes (fs_nodes w) w)
      | Inr (a, m) \<Rightarrow> (Inr a, set_nodes m w))"

definition new_node :: "path \<Rightarrow> fs_node \<Rightarrow> nodes \<Rightarrow> (io_kind, unit \<times> nodes) result" where
  "new_node p node m =
     (if m p \<noteq> None then Inl IoAlreadyExists
      else case m (butlast p) of
        None \<Rightarrow> Inl IoNotFound
      | Some (File _ _) \<Rightarrow> Inl IoNotADirectory
      | Some (Dir _) \<Rightarrow> Inr ((), m(p \<mapsto> node)))"

definition chmod_node :: "mode \<Rightarrow> path \<Rightarrow> nodes \<Rightarrow> (io_kind, unit \<times> nodes) result" where
  "chmod_node mo p m =
     (case m p of None \<Rightarrow> Inl IoNotFound
      | Some (Dir _) \<Rightarrow> Inr ((), m(p \<mapsto> Dir mo))
      | Some (File _ c) \<Rightarrow> Inr ((), m(p \<mapsto> File mo c)))"

definition remove_node :: "path \<Rightarrow> nodes \<Rightarrow> (io_kind, unit \<times> nodes) result" where
  "remove_node p m = (case m p of Some (File _ _) \<Rightarrow> Inr ((), m(p := None)) | Some (Dir _) \<Rightarrow> Inl IoOther | None \<Rightarrow> Inl IoNotFound)"

definition rename_node :: "path \<Rightarrow> path \<Rightarrow> nodes \<Rightarrow> (io_kind, unit \<times> nodes) result" where
  "rename_node a b m =
     (case m a of None \<Rightarrow> Inl IoNotFound
      | Some node \<Rightarrow> (case m b of Some (Dir _) \<Rightarrow> Inl IoOther | _ \<Rightarrow> Inr ((), m(a := None, b \<mapsto> node))))"

definition read_node :: "path \<Rightarrow> nodes \<Rightarrow> (io_kind, bytes \<times> nodes) result" where
  "read_node p m = (case m p of Some (File _ c) \<Rightarrow> Inr (c, m) | Some (Dir _) \<Rightarrow> Inl IoOther | None \<Rightarrow> Inl IoNotFound)"

definition is_dir_node :: "path \<Rightarrow> nodes \<Rightarrow> (io_kind, bool \<times> nodes) result" where
  "is_dir_node p m = (case m p of Some (Dir _) \<Rightarrow> Inr (True, m) | Some (File _ _) \<Rightarrow> Inr (False, m) | None \<Rightarrow> Inl IoNotFound)"

text \<open>\<open>write_all\<close> into a file opened by the caller: it appends to what was written so far, here to an empty file.\<close>

definition write_all :: "fs_env \<Rightarrow> path \<Rightarrow> bytes \<Rightarrow> fs \<Rightarrow> (io_kind, unit) result \<times> fs" where
  "write_all env p contents w =
     (case fs_nodes w p of
        Some (File mo _) \<Rightarrow>
          if fe_fail env (fs_calls w)
          then (Inl IoOther, set_nodes ((fs_nodes w)(p \<mapsto> File mo (take (fe_written env (fs_calls w)) contents))) w)
          else (Inr (), set_nodes ((fs_nodes w)(p \<mapsto> File mo contents)) w)
      | _ \<Rightarrow> (Inl IoOther, w))"

section \<open>Permissions\<close>

definition create_dir_secure :: "fs_env \<Rightarrow> path \<Rightarrow> fs \<Rightarrow> (io_kind, unit) result \<times> fs" where
  "create_dir_secure env p = syscall env (new_node p (Dir (mode_700 - fe_umask env)))"

definition set_dir_permissions :: "fs_env \<Rightarrow> path \<Rightarrow> fs \<Rightarrow> (io_kind, unit) result \<times> fs" where
  "set_dir_permissions env p = syscall env (chmod_node mode_700 p)"

definition set_file_permissions :: "fs_env \<Rightarrow> path \<Rightarrow> fs \<Rightarrow> (io_kind, unit) result \<times> fs" where
  "set_file_permissions env p = syscall env (chmod_node mode_600 p)"

text \<open>\<open>Path::is_dir\<close>, false on errors.\<close>

definition path_is_dir :: "fs_env \<Rightarrow> path \<Rightarrow> fs \<Rightarrow> bool \<times> fs" where
  "path_is_dir env p w = (case syscall env (is_dir_node p) w of (Inr b, w1) \<Rightarrow> (b, w1) | (Inl _, w1) \<Rightarrow> (False, w1))"

text \<open>The first loop: up to a directory that exists or can be created; the result lists what remains to be created, from the root to the leaf.\<close>

function climb_dirs :: "fs_env \<Rightarrow> path \<Rightarrow> path \<Rightarrow> path list \<Rightarrow> fs \<Rightarrow> (io_kind, path list) result \<times> fs" where
  "climb_dirs env p current to_create w =
     (case create_dir_secure env current w of
        (Inr _, w1) \<Rightarrow> (Inr to_create, w1)
      | (Inl k, w1) \<Rightarrow>
          if k = IoAlreadyExists then
            (let (d, w2) = path_is_dir env current w1 in
             if d then (Inr to_create, if current = p then snd (set_dir_permissions env current w2) else w2)
             else (Inl IoNotADirectory, w2))
          else if (k = IoNotFound \<or> k = IoNotADirectory) \<and> current \<noteq> [] then climb_dirs env p (butlast current) (current # to_create) w1
          else (Inl k, w1))"
  by pat_completeness auto

termination
  by (relation "measure (\<lambda>(env, p, current, to_create, w). length current)") auto

declare climb_dirs.simps [simp del]

primrec create_dirs :: "fs_env \<Rightarrow> path list \<Rightarrow> fs \<Rightarrow> (io_kind, unit) result \<times> fs" where
  "create_dirs env [] w = (Inr (), w)"
| "create_dirs env (d # ds) w =
     (case create_dir_secure env d w of
        (Inr _, w1) \<Rightarrow> create_dirs env ds w1
      | (Inl k, w1) \<Rightarrow>
          if k = IoAlreadyExists then
            (let (is_dir, w2) = path_is_dir env d w1 in
             if is_dir then create_dirs env ds (snd (set_dir_permissions env d w2)) else (Inl IoNotADirectory, w2))
          else (Inl k, w1))"

definition create_dir_all_secure :: "fs_env \<Rightarrow> path \<Rightarrow> fs \<Rightarrow> (io_kind, unit) result \<times> fs" where
  "create_dir_all_secure env p w =
     (case climb_dirs env p p [] w of (Inl k, w1) \<Rightarrow> (Inl k, w1) | (Inr ds, w1) \<Rightarrow> create_dirs env ds w1)"

text \<open>\<open>create_new\<close> with mode 0600, then \<open>write_all\<close> and \<open>sync_all\<close>; on an error the file is removed again.\<close>

definition write_new :: "fs_env \<Rightarrow> path \<Rightarrow> bytes \<Rightarrow> fs \<Rightarrow> (io_kind, unit) result \<times> fs" where
  "write_new env p contents w =
     (case write_all env p contents w of
        (Inl k, w1) \<Rightarrow> (Inl k, snd (syscall env (remove_node p) w1))
      | (Inr _, w1) \<Rightarrow>
          (case syscall env (\<lambda>m. Inr ((), m)) w1 of
             (Inl k, w2) \<Rightarrow> (Inl k, snd (syscall env (remove_node p) w2))
           | (Inr _, w2) \<Rightarrow> (Inr (), w2)))"

definition tmp_path :: "string \<Rightarrow> path \<Rightarrow> path" where
  "tmp_path uid p = butlast p @ [last p @ ''.tmp-'' @ uid]"

definition write_file_secure :: "fs_env \<Rightarrow> string \<Rightarrow> path \<Rightarrow> bytes \<Rightarrow> fs \<Rightarrow> (io_kind, unit) result \<times> fs" where
  "write_file_secure env uid p contents w =
     (let fresh = File (mode_600 - fe_umask env) [] in
      case syscall env (new_node p fresh) w of
        (Inr _, w1) \<Rightarrow> write_new env p contents w1
      | (Inl k, w1) \<Rightarrow>
          if k \<noteq> IoAlreadyExists then (Inl k, w1)
          else if p = [] then (Inl IoInvalidInput, w1)
          else let tmp = tmp_path uid p in
            (case syscall env (new_node tmp fresh) w1 of
               (Inl k2, w2) \<Rightarrow> (Inl k2, w2)
             | (Inr _, w2) \<Rightarrow>
                 (case write_new env tmp contents w2 of
                    (Inl k3, w3) \<Rightarrow> (Inl k3, w3)
                  | (Inr _, w3) \<Rightarrow>
                      (case syscall env (rename_node tmp p) w3 of
                         (Inl k4, w4) \<Rightarrow> (Inl k4, snd (syscall env (remove_node tmp) w4))
                       | (Inr _, w4) \<Rightarrow> (Inr (), w4)))))"

primrec chmod_all :: "fs_env \<Rightarrow> path list \<Rightarrow> fs \<Rightarrow> fs" where
  "chmod_all env [] w = w"
| "chmod_all env (p # ps) w = chmod_all env ps (snd (set_file_permissions env p w))"

definition set_sqlite_file_permissions :: "fs_env \<Rightarrow> path \<Rightarrow> fs \<Rightarrow> (io_kind, unit) result \<times> fs" where
  "set_sqlite_file_permissions env db w =
     (case set_file_permissions env db w of
        (Inl k, w1) \<Rightarrow> (Inl k, w1)
      | (Inr _, w1) \<Rightarrow> (Inr (), chmod_all env (map (\<lambda>suffix. butlast db @ [last db @ suffix]) [''-wal'', ''-shm'', ''-journal'']) w1))"

section \<open>Lemmas\<close>

text \<open>All states between two points of a run satisfy \<open>P\<close>.\<close>

definition passes :: "(nodes \<Rightarrow> bool) \<Rightarrow> fs \<Rightarrow> fs \<Rightarrow> bool" where
  "passes P w w' \<longleftrightarrow> (\<exists>hs. fs_history w' = fs_history w @ hs \<and> list_all P hs) \<and> (P (fs_nodes w) \<longrightarrow> P (fs_nodes w'))"

lemma passes_refl [simp]: "passes P w w"
  by (simp add: passes_def)

lemma passes_trans [trans]: "passes P w w1 \<Longrightarrow> passes P w1 w2 \<Longrightarrow> passes P w w2"
  by (fastforce simp: passes_def)

lemma passes_mono: "passes P w w' \<Longrightarrow> (\<And>m. P m \<Longrightarrow> Q m) \<Longrightarrow> P (fs_nodes w) \<Longrightarrow> passes Q w w'"
  by (auto simp: passes_def list_all_iff)

lemma set_nodes_simps [simp]: "fs_nodes (set_nodes m w) = m" "fs_history (set_nodes m w) = fs_history w @ [m]"
  by (simp_all add: set_nodes_def)

lemma passes_set: "P m \<Longrightarrow> passes P w (set_nodes m w)"
  by (simp add: passes_def)

lemma syscall_cases:
  assumes "syscall env f w = (r, w')"
  obtains (failed) k where "r = Inl k" "w' = set_nodes (fs_nodes w) w"
  | (done_) a m where "f (fs_nodes w) = Inr (a, m)" "r = Inr a" "w' = set_nodes m w"
  using assms by (auto simp: syscall_def split: if_splits sum.splits)

lemma syscall_passes:
  assumes "syscall env f w = (r, w')" "P (fs_nodes w)" "\<And>a m. f (fs_nodes w) = Inr (a, m) \<Longrightarrow> P m"
  shows "passes P w w'"
  using assms(1) by (cases rule: syscall_cases) (auto intro: passes_set assms(2,3))

lemma node_ops_ok:
  "new_node p node m = Inr (u, m') \<Longrightarrow> m p = None \<and> m' = m(p \<mapsto> node)"
  "chmod_node mo p m = Inr (u, m') \<Longrightarrow> m' = m(p \<mapsto> Dir mo) \<and> (\<exists>d. m p = Some (Dir d)) \<or> (\<exists>c d. m p = Some (File d c) \<and> m' = m(p \<mapsto> File mo c))"
  "remove_node p m = Inr (u, m') \<Longrightarrow> m' = m(p := None)"
  "rename_node a b m = Inr (u, m') \<Longrightarrow> \<exists>node. m a = Some node \<and> m' = m(a := None, b \<mapsto> node)"
  "read_node p m = Inr (c, m') \<Longrightarrow> m' = m \<and> (\<exists>mo. m p = Some (File mo c))"
  "is_dir_node p m = Inr (d, m') \<Longrightarrow> m' = m"
  by (auto simp: new_node_def chmod_node_def remove_node_def rename_node_def read_node_def is_dir_node_def split: if_splits option.splits fs_node.splits)

lemma tmp_path_neq: "p \<noteq> [] \<Longrightarrow> tmp_path uid p \<noteq> p"
  by (metis append_butlast_last_id append_self_conv last_snoc list.distinct(1) append_is_Nil_conv tmp_path_def)

text \<open>Writing a fresh file: only this file changes, it keeps its mode, and after an error it is gone or has a part of the contents.\<close>

abbreviation only_file :: "path \<Rightarrow> mode \<Rightarrow> nodes \<Rightarrow> nodes \<Rightarrow> bool" where
  "only_file p mo m0 m \<equiv> (\<forall>q. q \<noteq> p \<longrightarrow> m q = m0 q) \<and> (m p = None \<or> (\<exists>c. m p = Some (File mo c)))"

lemma write_new_effect:
  assumes "write_new env p bs w = (r, w')" "fs_nodes w p = Some (File mo c)" "\<And>q. q \<noteq> p \<Longrightarrow> fs_nodes w q = m0 q"
  shows "passes (only_file p mo m0) w w'" "r = Inr u \<Longrightarrow> fs_nodes w' = (fs_nodes w)(p \<mapsto> File mo bs)"
proof -
  let ?P = "only_file p mo m0"
  obtain r1 w1 where w1: "write_all env p bs w = (r1, w1)" by fastforce
  obtain d where d: "fs_nodes w1 = (fs_nodes w)(p \<mapsto> File mo d)" "r1 = Inr () \<Longrightarrow> d = bs" "w1 = set_nodes (fs_nodes w1) w"
    using w1 assms(2) by (auto simp: write_all_def split: if_splits)
  have p1: "?P (fs_nodes w1)" using d(1) assms(3) by auto
  have p01: "passes ?P w w1" by (subst d(3)) (rule passes_set[of ?P "fs_nodes w1" w, OF p1])
  have rm: "passes ?P w2 (snd (syscall env (remove_node p) w2))" if "?P (fs_nodes w2)" for w2
  proof -
    obtain r3 w3 where s: "syscall env (remove_node p) w2 = (r3, w3)" by fastforce
    have "?P m" if "remove_node p (fs_nodes w2) = Inr (a, m)" for a m using node_ops_ok(3)[OF that] \<open>?P (fs_nodes w2)\<close> by simp
    from syscall_passes[where P = ?P, OF s that this] show ?thesis using s by simp
  qed
  have "passes ?P w w' \<and> (r = Inr u \<longrightarrow> fs_nodes w' = (fs_nodes w)(p \<mapsto> File mo bs))"
  proof (cases r1)
    case (Inl k)
    then show ?thesis using assms(1) w1 passes_trans[OF p01 rm[OF p1]] by (auto simp: write_new_def)
  next
    case (Inr x)
    obtain r2 w2 where s: "syscall env (\<lambda>m. Inr ((), m)) w1 = (r2, w2)" by fastforce
    then have w2: "w2 = set_nodes (fs_nodes w1) w1" by (cases rule: syscall_cases) auto
    have "passes ?P w w2" using passes_trans[OF p01 passes_set[of ?P "fs_nodes w1" w1, OF p1]] w2 by simp
    then show ?thesis
      using assms(1) w1 Inr s w2 d(1,2) p1 passes_trans[OF _ rm[of w2]] by (cases r2) (auto simp: write_new_def)
  qed
  then show "passes ?P w w'" "r = Inr u \<Longrightarrow> fs_nodes w' = (fs_nodes w)(p \<mapsto> File mo bs)" by blast+
qed

text \<open>Replacing a file: at every moment it has its old or its new contents.\<close>

abbreviation replaced :: "path \<Rightarrow> path \<Rightarrow> fs_node option \<Rightarrow> mode \<Rightarrow> bytes \<Rightarrow> nodes \<Rightarrow> nodes \<Rightarrow> bool" where
  "replaced p tmp n mo bs m0 m \<equiv> (\<forall>q. q \<noteq> p \<and> q \<noteq> tmp \<longrightarrow> m q = m0 q) \<and> (m p = n \<or> m p = Some (File mo bs))
     \<and> (m tmp = m0 tmp \<or> m tmp = None \<or> (\<exists>c. m tmp = Some (File mo c)))"

lemma rename_effect:
  assumes "syscall env (rename_node tmp p) w = (r, w')" "tmp \<noteq> p" "fs_nodes w = m0(tmp \<mapsto> File mo bs)" "m0 p = n"
  shows "passes (replaced p tmp n mo bs m0) w w'" "r = Inr u \<Longrightarrow> fs_nodes w' p = Some (File mo bs)" "r = Inl k \<Longrightarrow> fs_nodes w' = fs_nodes w"
proof -
  have ok: "m = (fs_nodes w)(tmp := None, p \<mapsto> File mo bs)" if "rename_node tmp p (fs_nodes w) = Inr (a, m)" for a m
    using node_ops_ok(4)[OF that] assms(3) by auto
  have "replaced p tmp n mo bs m0 m" if "rename_node tmp p (fs_nodes w) = Inr (a, m)" for a m
    using ok[OF that] assms(2,3) by simp
  moreover have "replaced p tmp n mo bs m0 (fs_nodes w)" using assms(2,3,4) by simp
  ultimately show "passes (replaced p tmp n mo bs m0) w w'" by (intro syscall_passes[OF assms(1)]) blast+
  show "r = Inr u \<Longrightarrow> fs_nodes w' p = Some (File mo bs)" using assms(1) by (cases rule: syscall_cases) (auto dest: ok)
  show "r = Inl k \<Longrightarrow> fs_nodes w' = fs_nodes w" using assms(1) by (cases rule: syscall_cases) auto
qed

lemma remove_effect:
  assumes "fs_nodes w = m0(tmp \<mapsto> File mo bs)" "tmp \<noteq> p" "m0 p = n"
  shows "passes (replaced p tmp n mo bs m0) w (snd (syscall env (remove_node tmp) w)) \<and> fs_nodes (snd (syscall env (remove_node tmp) w)) p = n"
proof -
  obtain r w' where s: "syscall env (remove_node tmp) w = (r, w')" by fastforce
  have m: "m = (fs_nodes w)(tmp := None)" if "remove_node tmp (fs_nodes w) = Inr (a, m)" for a m using node_ops_ok(3)[OF that] .
  have "passes (replaced p tmp n mo bs m0) w w'" by (rule syscall_passes[OF s]) (use assms m in auto)
  moreover have "fs_nodes w' p = n" using s by (cases rule: syscall_cases) (use assms m in auto)
  ultimately show ?thesis using s by simp
qed

lemma write_file_replaces:
  assumes "write_file_secure env uid p bs w = (r, w')" "fs_nodes w p = n" "p \<noteq> []"
    and s1: "syscall env (new_node p (File (mode_600 - fe_umask env) [])) w = (Inl k, w1)"
  defines "mo \<equiv> mode_600 - fe_umask env" and "tmp \<equiv> tmp_path uid p"
  shows "passes (replaced p tmp n mo bs (fs_nodes w)) w w'
     \<and> (if r = Inr () then fs_nodes w' p = Some (File mo bs) else fs_nodes w' p = n)"
proof -
  let ?m0 = "fs_nodes w" and ?P = "replaced p tmp n mo bs (fs_nodes w)"
  have neq: "tmp \<noteq> p" unfolding tmp_def using assms(3) by (rule tmp_path_neq)
  have w1: "fs_nodes w1 = ?m0" "w1 = set_nodes ?m0 w" using s1 by (cases rule: syscall_cases, simp, simp)+
  have P0: "?P ?m0" using assms(2) by simp
  have p1: "passes ?P w w1" unfolding w1(2) by (rule passes_set[of ?P ?m0 w, OF P0])
  obtain r2 w2 where s2: "syscall env (new_node tmp (File mo [])) w1 = (r2, w2)" by fastforce
  have unfold: "(r, w') = (if k \<noteq> IoAlreadyExists then (Inl k, w1) else case r2 of Inl k2 \<Rightarrow> (Inl k2, w2) | Inr _ \<Rightarrow>
      (case write_new env tmp bs w2 of (Inl k3, w3) \<Rightarrow> (Inl k3, w3)
       | (Inr _, w3) \<Rightarrow> (case syscall env (rename_node tmp p) w3 of (Inl k4, w4) \<Rightarrow> (Inl k4, snd (syscall env (remove_node tmp) w4)) | (Inr _, w4) \<Rightarrow> (Inr (), w4))))"
    using assms(3) s1 s2 unfolding assms(1)[symmetric] write_file_secure_def Let_def mo_def tmp_def by (cases r2) simp_all
  show ?thesis
  proof (cases "k \<noteq> IoAlreadyExists \<or> (\<exists>k2. r2 = Inl k2)")
    case True
    have "fs_nodes w2 = ?m0 \<and> passes ?P w w2" if "r2 = Inl k2" for k2
      using s2 by (cases rule: syscall_cases) (use that w1(1) p1 P0 in \<open>auto intro: passes_trans passes_set\<close>)
    then show ?thesis using True unfold p1 w1(1) assms(2) by (auto split: if_splits)
  next
    case False
    then obtain u where r2: "r2 = Inr u" "k = IoAlreadyExists" by (cases r2) auto
    have w2: "fs_nodes w2 = ?m0(tmp \<mapsto> File mo [])" "w2 = set_nodes (?m0(tmp \<mapsto> File mo [])) w1"
      using s2 by (cases rule: syscall_cases, use r2 w1(1) in \<open>auto dest: node_ops_ok(1)\<close>)+
    have p2: "passes ?P w w2" unfolding w2(2) by (rule passes_trans[OF p1 passes_set]) (use neq assms(2) in simp)
    obtain r3 w3 where s3: "write_new env tmp bs w2 = (r3, w3)" by fastforce
    have e3: "passes (only_file tmp mo ?m0) w2 w3" "r3 = Inr () \<Longrightarrow> fs_nodes w3 = ?m0(tmp \<mapsto> File mo bs)"
      using write_new_effect[OF s3, of mo "[]" ?m0] w2(1) by simp_all
    have p3: "passes ?P w w3" by (rule passes_trans[OF p2 passes_mono[OF e3(1)]]) (use neq assms(2) w2(1) in auto)
    have own3: "fs_nodes w3 p = n" using e3(1) w2(1) neq assms(2) by (simp add: passes_def)
    show ?thesis
    proof (cases r3)
      case (Inl k3)
      then show ?thesis using unfold r2 s3 p3 own3 by simp
    next
      case (Inr x)
      obtain r4 w4 where s4: "syscall env (rename_node tmp p) w3 = (r4, w4)" by fastforce
      note e4 = rename_effect[OF s4 neq e3(2) assms(2)]
      have w3: "fs_nodes w3 = ?m0(tmp \<mapsto> File mo bs)" using e3(2) Inr by simp
      show ?thesis
        using unfold r2 s3 Inr s4 e4 passes_trans[OF p3] remove_effect[of w4 ?m0 tmp mo bs p n env] neq assms(2) w3
        by (cases r4) (auto intro: passes_trans)
    qed
  qed
qed

lemma write_file_creates:
  assumes "write_file_secure env uid p bs w = (r, w')" and s1: "syscall env (new_node p (File (mode_600 - fe_umask env) [])) w = (Inr u, w1)"
  defines "mo \<equiv> mode_600 - fe_umask env"
  shows "fs_nodes w p = None \<and> passes (only_file p mo (fs_nodes w)) w w' \<and> (r = Inr () \<longrightarrow> fs_nodes w' p = Some (File mo bs))"
proof -
  have w1: "fs_nodes w p = None" "fs_nodes w1 = (fs_nodes w)(p \<mapsto> File mo [])" "w1 = set_nodes ((fs_nodes w)(p \<mapsto> File mo [])) w"
    using s1 unfolding mo_def by (cases rule: syscall_cases, simp, fastforce dest: node_ops_ok(1))+
  have "write_new env p bs w1 = (r, w')" using assms(1) s1 by (simp add: write_file_secure_def)
  note e = write_new_effect[OF this, of mo "[]" "fs_nodes w"]
  have "passes (only_file p mo (fs_nodes w)) w w1" unfolding w1(3) by (rule passes_set) simp
  then have "passes (only_file p mo (fs_nodes w)) w w'" by (rule passes_trans) (use e(1) w1(2) in simp)
  then show ?thesis using w1(1,2) e(2) by simp
qed

text \<open>Both together.\<close>

abbreviation write_states :: "path \<Rightarrow> path \<Rightarrow> mode \<Rightarrow> bytes \<Rightarrow> nodes \<Rightarrow> nodes \<Rightarrow> bool" where
  "write_states p tmp mo bs m0 m \<equiv> (\<forall>q. q \<noteq> p \<and> q \<noteq> tmp \<longrightarrow> m q = m0 q)
     \<and> (m p = m0 p \<or> m p = Some (File mo bs) \<or> m0 p = None \<and> (\<exists>c. m p = Some (File mo c)))
     \<and> (m tmp = m0 tmp \<or> m tmp = None \<or> (\<exists>c. m tmp = Some (File mo c)))"

lemma write_file_effect:
  assumes "write_file_secure env uid p bs w = (r, w')" "p \<noteq> []"
  defines "mo \<equiv> mode_600 - fe_umask env" and "tmp \<equiv> tmp_path uid p"
  shows "passes (write_states p tmp mo bs (fs_nodes w)) w w'"
    and "r = Inr () \<Longrightarrow> fs_nodes w' p = Some (File mo bs)" and "r = Inl k \<Longrightarrow> fs_nodes w p \<noteq> None \<Longrightarrow> fs_nodes w' p = fs_nodes w p"
proof -
  obtain r1 w1 where s: "syscall env (new_node p (File mo [])) w = (r1, w1)" by fastforce
  have "passes (write_states p tmp mo bs (fs_nodes w)) w w' \<and> (r = Inr () \<longrightarrow> fs_nodes w' p = Some (File mo bs))
     \<and> (r \<noteq> Inr () \<longrightarrow> fs_nodes w p \<noteq> None \<longrightarrow> fs_nodes w' p = fs_nodes w p)"
  proof (cases r1)
    case (Inl k)
    note e = write_file_replaces[OF assms(1) refl assms(2) s[unfolded Inl mo_def], folded mo_def tmp_def]
    have "passes (write_states p tmp mo bs (fs_nodes w)) w w'"
      by (rule passes_mono[where P = "replaced p tmp (fs_nodes w p) mo bs (fs_nodes w)"]) (use e in auto)
    then show ?thesis using e by simp
  next
    case (Inr u)
    note e = write_file_creates[OF assms(1) s[unfolded Inr mo_def], folded mo_def]
    have "tmp \<noteq> p" unfolding tmp_def using assms(2) by (rule tmp_path_neq)
    then have "write_states p tmp mo bs (fs_nodes w) m" if "only_file p mo (fs_nodes w) m" for m using that conjunct1[OF e] by auto
    note mono = this
    have "passes (write_states p tmp mo bs (fs_nodes w)) w w'"
    proof (rule passes_mono[where P = "only_file p mo (fs_nodes w)"])
      show "passes (only_file p mo (fs_nodes w)) w w'" using e by blast
      show "only_file p mo (fs_nodes w) (fs_nodes w)" using e by simp
    qed (rule mono)
    then show ?thesis using e by simp
  qed
  then show "passes (write_states p tmp mo bs (fs_nodes w)) w w'"
    "r = Inr () \<Longrightarrow> fs_nodes w' p = Some (File mo bs)" "r = Inl k \<Longrightarrow> fs_nodes w p \<noteq> None \<Longrightarrow> fs_nodes w' p = fs_nodes w p" by blast+
qed

text \<open>Creating directories keeps every file, and a directory is either as it was or private.\<close>

definition only_dirs :: "nodes \<Rightarrow> nodes \<Rightarrow> bool" where
  "only_dirs m0 m \<longleftrightarrow> (\<forall>q mo c. m q = Some (File mo c) \<longleftrightarrow> m0 q = Some (File mo c))
     \<and> (\<forall>q d. m q = Some (Dir d) \<longrightarrow> m0 q = Some (Dir d) \<or> d \<subseteq> mode_700) \<and> (\<forall>q d. m0 q = Some (Dir d) \<longrightarrow> (\<exists>d'. m q = Some (Dir d')))"

lemma only_dirs_refl [simp]: "only_dirs m m"
  by (simp add: only_dirs_def)

lemma only_dirs_put:
  assumes "only_dirs m0 m" "d \<subseteq> mode_700" "m p = None \<or> (\<exists>d'. m p = Some (Dir d'))"
  shows "only_dirs m0 (m(p \<mapsto> Dir d))"
proof -
  have "m0 p \<noteq> Some (File mo c)" for mo c using assms(1,3) unfolding only_dirs_def by (metis fs_node.distinct(1) option.distinct(1) option.inject)
  then show ?thesis using assms(1,2) unfolding only_dirs_def by (intro conjI allI impI) (simp_all split: if_splits)
qed

lemma dir_call_dirs:
  assumes "syscall env f w = (r, w')" "only_dirs m0 (fs_nodes w)" "\<And>a m. f (fs_nodes w) = Inr (a, m) \<Longrightarrow> only_dirs m0 m"
  shows "passes (only_dirs m0) w w' \<and> only_dirs m0 (fs_nodes w')"
proof -
  have "passes (only_dirs m0) w w'" by (rule syscall_passes[where P = "only_dirs m0", OF assms])
  then show ?thesis using assms(2) by (simp add: passes_def)
qed

lemma create_dir_secure_dirs:
  "create_dir_secure env p w = (r, w') \<Longrightarrow> only_dirs m0 (fs_nodes w) \<Longrightarrow> passes (only_dirs m0) w w' \<and> only_dirs m0 (fs_nodes w')"
  unfolding create_dir_secure_def by (erule dir_call_dirs) (auto dest!: node_ops_ok(1) intro!: only_dirs_put)

lemma path_is_dir_dirs:
  assumes "path_is_dir env p w = (d, w')" "only_dirs m0 (fs_nodes w)"
  shows "passes (only_dirs m0) w w' \<and> only_dirs m0 (fs_nodes w') \<and> (d \<longrightarrow> (\<exists>mo. fs_nodes w' p = Some (Dir mo)))"
proof -
  obtain r where s: "syscall env (is_dir_node p) w = (r, w')" "d \<longrightarrow> r = Inr True" using assms(1) by (auto simp: path_is_dir_def split: prod.splits sum.splits)
  have "passes (only_dirs m0) w w' \<and> only_dirs m0 (fs_nodes w')" using s(1) assms(2) by (rule dir_call_dirs) (use assms(2) node_ops_ok(6) in blast)
  moreover have "\<exists>mo. fs_nodes w' p = Some (Dir mo)" if "d"
    using s(1) by (cases rule: syscall_cases) (use that s(2) in \<open>auto simp: is_dir_node_def split: option.splits fs_node.splits\<close>)
  ultimately show ?thesis by blast
qed

lemma set_dir_permissions_dirs:
  assumes "\<exists>mo. fs_nodes w p = Some (Dir mo)" "only_dirs m0 (fs_nodes w)"
  shows "passes (only_dirs m0) w (snd (set_dir_permissions env p w)) \<and> only_dirs m0 (fs_nodes (snd (set_dir_permissions env p w)))
     \<and> (\<exists>mo. fs_nodes (snd (set_dir_permissions env p w)) p = Some (Dir mo))"
proof -
  obtain r w' where s: "syscall env (chmod_node mode_700 p) w = (r, w')" by fastforce
  have m: "m = (fs_nodes w)(p \<mapsto> Dir mode_700)" if "chmod_node mode_700 p (fs_nodes w) = Inr (a, m)" for a m
    using node_ops_ok(2)[OF that] assms(1) by auto
  have "passes (only_dirs m0) w w' \<and> only_dirs m0 (fs_nodes w')" using s assms(2)
    by (rule dir_call_dirs) (use m only_dirs_put[OF assms(2), of mode_700 p] assms(1) in blast)
  moreover have "\<exists>mo. fs_nodes w' p = Some (Dir mo)" using s by (cases rule: syscall_cases) (use m assms(1) in auto)
  ultimately show ?thesis using s by (simp add: set_dir_permissions_def)
qed

lemma create_dir_secure_ok: "create_dir_secure env p w = (Inr u, w') \<Longrightarrow> \<exists>mo. fs_nodes w' p = Some (Dir mo)"
  unfolding create_dir_secure_def by (erule syscall_cases) (auto dest!: node_ops_ok(1))

lemma existing_dir:
  assumes "path_is_dir env d w1 = (True, w2)" "only_dirs m0 (fs_nodes w1)" "passes (only_dirs m0) w w1"
  shows "passes (only_dirs m0) w w2 \<and> only_dirs m0 (fs_nodes w2) \<and> (\<exists>mo. fs_nodes w2 d = Some (Dir mo))"
    "passes (only_dirs m0) w (snd (set_dir_permissions env d w2)) \<and> only_dirs m0 (fs_nodes (snd (set_dir_permissions env d w2)))
     \<and> (\<exists>mo. fs_nodes (snd (set_dir_permissions env d w2)) d = Some (Dir mo))"
proof -
  have w2: "passes (only_dirs m0) w w2" "only_dirs m0 (fs_nodes w2)" "\<exists>mo. fs_nodes w2 d = Some (Dir mo)"
    using path_is_dir_dirs[OF assms(1,2)] passes_trans[OF assms(3)] by blast+
  then show "passes (only_dirs m0) w w2 \<and> only_dirs m0 (fs_nodes w2) \<and> (\<exists>mo. fs_nodes w2 d = Some (Dir mo))" by blast
  show "passes (only_dirs m0) w (snd (set_dir_permissions env d w2)) \<and> only_dirs m0 (fs_nodes (snd (set_dir_permissions env d w2)))
     \<and> (\<exists>mo. fs_nodes (snd (set_dir_permissions env d w2)) d = Some (Dir mo))"
    using set_dir_permissions_dirs[OF w2(3,2), of env] passes_trans[OF w2(1)] by blast
qed

lemma climb_dirs_dirs:
  "climb_dirs env p current ds w = (r, w') \<Longrightarrow> only_dirs m0 (fs_nodes w) \<Longrightarrow> (if ds = [] then current = p else last ds = p)
   \<Longrightarrow> passes (only_dirs m0) w w' \<and> only_dirs m0 (fs_nodes w')
     \<and> (\<forall>rest. r = Inr rest \<longrightarrow> (if rest = [] then \<exists>mo. fs_nodes w' p = Some (Dir mo) else last rest = p))"
proof (induction env p current ds w arbitrary: r rule: climb_dirs.induct)
  case (1 env p current ds w)
  obtain r1 w1 where c: "create_dir_secure env current w = (r1, w1)" by fastforce
  have w1: "passes (only_dirs m0) w w1" "only_dirs m0 (fs_nodes w1)" using create_dir_secure_dirs[OF c "1.prems"(2)] by blast+
  show ?case
  proof (cases r1)
    case (Inr u)
    then show ?thesis using "1.prems" c w1 create_dir_secure_ok[of env current w u w1] by (auto simp: climb_dirs.simps[of env p current] split: if_splits)
  next
    case (Inl k)
    obtain d w2 where d: "path_is_dir env current w1 = (d, w2)" by fastforce
    consider "k = IoAlreadyExists" | "k \<noteq> IoAlreadyExists" "(k = IoNotFound \<or> k = IoNotADirectory) \<and> current \<noteq> []"
      | "k \<noteq> IoAlreadyExists" "\<not> ((k = IoNotFound \<or> k = IoNotADirectory) \<and> current \<noteq> [])" by blast
    then show ?thesis
    proof cases
      case 1
      then show ?thesis
        using "1.prems" c Inl d path_is_dir_dirs[OF d w1(2)] passes_trans[OF w1(1)] existing_dir[of env current w1 w2 m0 w] w1
        by (cases d) (auto simp: climb_dirs.simps[of env p current] split: if_splits)
    next
      case 2
      have "climb_dirs env p (butlast current) (current # ds) w1 = (r, w')"
        using "1.prems"(1) c Inl 2 by (simp add: climb_dirs.simps[of env p current])
      from "1.IH"[OF c[symmetric] Inl 2 this w1(2)] "1.prems"(3) passes_trans[OF w1(1)] show ?thesis by (auto split: if_splits)
    next
      case 3
      then show ?thesis using "1.prems"(1) c Inl w1 by (auto simp: climb_dirs.simps[of env p current])
    qed
  qed
qed

lemma create_dirs_dirs:
  "create_dirs env ds w = (r, w') \<Longrightarrow> only_dirs m0 (fs_nodes w) \<Longrightarrow>
   passes (only_dirs m0) w w' \<and> only_dirs m0 (fs_nodes w') \<and> (r = Inr u \<longrightarrow> ds \<noteq> [] \<longrightarrow> (\<exists>mo. fs_nodes w' (last ds) = Some (Dir mo)))"
proof (induction ds arbitrary: w)
  case (Cons d ds)
  obtain r1 w1 where c: "create_dir_secure env d w = (r1, w1)" by fastforce
  have w1: "passes (only_dirs m0) w w1" "only_dirs m0 (fs_nodes w1)" using create_dir_secure_dirs[OF c Cons.prems(2)] by blast+
  have go: ?case if "passes (only_dirs m0) w v" "only_dirs m0 (fs_nodes v)" "\<exists>mo. fs_nodes v d = Some (Dir mo)" "create_dirs env ds v = (r, w')" for v
    using Cons.IH[OF that(4,2)] passes_trans[OF that(1)] that(3,4) by (cases ds) auto
  show ?case
  proof (cases r1)
    case (Inr x)
    then show ?thesis using go[OF w1] Cons.prems(1) c create_dir_secure_ok[of env d w x w1] by simp
  next
    case (Inl k)
    obtain b w2 where b: "path_is_dir env d w1 = (b, w2)" by fastforce
    have stop: "passes (only_dirs m0) w w2" "only_dirs m0 (fs_nodes w2)" using path_is_dir_dirs[OF b w1(2)] passes_trans[OF w1(1)] by blast+
    show ?thesis
      using Cons.prems(1) c Inl b w1 stop go existing_dir(2)[OF _ w1(2,1), of env d w2]
      by (cases b) (auto split: if_splits)
  qed
qed simp

lemma create_dir_all_dirs:
  assumes "create_dir_all_secure env p w = (r, w')"
  shows "passes (only_dirs (fs_nodes w)) w w'" "only_dirs (fs_nodes w) (fs_nodes w')" "r = Inr u \<Longrightarrow> \<exists>mo. fs_nodes w' p = Some (Dir mo)"
proof -
  let ?m = "fs_nodes w"
  obtain r1 w1 where c: "climb_dirs env p p [] w = (r1, w1)" by fastforce
  note w1 = climb_dirs_dirs[OF c, of ?m, simplified]
  have "passes (only_dirs ?m) w w' \<and> only_dirs ?m (fs_nodes w') \<and> (r = Inr u \<longrightarrow> (\<exists>mo. fs_nodes w' p = Some (Dir mo)))"
  proof (cases r1)
    case (Inl k)
    then show ?thesis using assms c w1 by (auto simp: create_dir_all_secure_def)
  next
    case (Inr ds)
    then have d: "create_dirs env ds w1 = (r, w')" using assms c by (simp add: create_dir_all_secure_def)
    note w' = create_dirs_dirs[OF d, of ?m u]
    then show ?thesis using w1 Inr d passes_trans[of "only_dirs ?m" w w1 w'] by (cases "ds = []") auto
  qed
  then show "passes (only_dirs (fs_nodes w)) w w'" "only_dirs (fs_nodes w) (fs_nodes w')" "r = Inr u \<Longrightarrow> \<exists>mo. fs_nodes w' p = Some (Dir mo)" by blast+
qed

section \<open>Properties\<close>

text \<open>C24: Secrets are written privately and in one step.  Whichever system calls fail, at every moment of a \<open>write_file_secure\<close> (so also after a crash) a file that existed
  has either all of its old or all of its new contents; a new file and the temporary file are never accessible to anyone but their owner; nothing
  else in the file system changes.  Success means that the file has the new contents with owner-only permissions, an error that an existing file is as it was.\<close>

theorem secure_write_atomic:
  assumes "write_file_secure env uid p bs w = (r, w')" "p \<noteq> []"
  shows "(\<forall>m \<in> set (drop (length (fs_history w)) (fs_history w')).
            (m p = fs_nodes w p \<or> (\<exists>mo c. m p = Some (File mo c) \<and> mo \<subseteq> mode_600 \<and> (fs_nodes w p \<noteq> None \<longrightarrow> c = bs)))
          \<and> (m (tmp_path uid p) = fs_nodes w (tmp_path uid p) \<or> m (tmp_path uid p) = None \<or> (\<exists>mo c. m (tmp_path uid p) = Some (File mo c) \<and> mo \<subseteq> mode_600))
          \<and> (\<forall>q. q \<noteq> p \<and> q \<noteq> tmp_path uid p \<longrightarrow> m q = fs_nodes w q))
     \<and> (r = Inr () \<longrightarrow> fs_nodes w' p = Some (File (mode_600 - fe_umask env) bs))
     \<and> (\<forall>k. r = Inl k \<longrightarrow> fs_nodes w p \<noteq> None \<longrightarrow> fs_nodes w' p = fs_nodes w p)"
proof (intro conjI ballI)
  note e = write_file_effect[OF assms]
  fix m
  assume m: "m \<in> set (drop (length (fs_history w)) (fs_history w'))"
  let ?tmp = "tmp_path uid p" and ?mo = "mode_600 - fe_umask env"
  have s: "write_states p ?tmp ?mo bs (fs_nodes w) m" using e(1) m by (auto simp: passes_def list_all_iff)
  have owned: "?mo \<subseteq> mode_600" by blast
  show "m p = fs_nodes w p \<or> (\<exists>mo c. m p = Some (File mo c) \<and> mo \<subseteq> mode_600 \<and> (fs_nodes w p \<noteq> None \<longrightarrow> c = bs))" using s owned by metis
  show "m ?tmp = fs_nodes w ?tmp \<or> m ?tmp = None \<or> (\<exists>mo c. m ?tmp = Some (File mo c) \<and> mo \<subseteq> mode_600)" using s owned by metis
  show "\<forall>q. q \<noteq> p \<and> q \<noteq> ?tmp \<longrightarrow> m q = fs_nodes w q" using s by blast
qed (use write_file_effect(2,3)[OF assms] in blast)+

definition demo_fs :: fs where
  "demo_fs = \<lparr>fs_nodes = [[] \<mapsto> Dir mode_700, [''a''] \<mapsto> File mode_600 [1]], fs_calls = 0, fs_history = []\<rparr>"

definition demo_fs_env :: "nat \<Rightarrow> fs_env" where
  "demo_fs_env n = \<lparr>fe_fail = (\<lambda>i. i = n), fe_written = (\<lambda>_. 1), fe_umask = {}\<rparr>"

text \<open>The write into the temporary file fails after one byte; the file keeps its contents.\<close>

theorem secure_write_atomic_witness:
  "fst (write_file_secure (demo_fs_env 2) ''u'' [''a''] [2, 3] demo_fs) = Inl IoOther
   \<and> fs_nodes (snd (write_file_secure (demo_fs_env 2) ''u'' [''a''] [2, 3] demo_fs)) [''a''] = Some (File mode_600 [1])"
proof -
  let ?res = "write_file_secure (demo_fs_env 2) ''u'' [''a''] [2, 3] demo_fs"
  have r: "fst ?res = Inl IoOther"
    by (simp add: write_file_secure_def syscall_def new_node_def demo_fs_def demo_fs_env_def set_nodes_def tmp_path_def write_new_def write_all_def
        remove_node_def Let_def split: option.splits)
  have "fs_nodes (snd ?res) [''a''] = fs_nodes demo_fs [''a'']"
    using secure_write_atomic[of "demo_fs_env 2" "''u''" "[''a'']" "[2, 3]" demo_fs "fst ?res" "snd ?res"] r by (simp add: demo_fs_def)
  then show ?thesis using r by (simp add: demo_fs_def)
qed

end
