(* ===== verification/Key_Store.thy ===== *)
theory Key_Store
  imports Secure_Files Wallet_Manager
begin

text \<open>
  The trait \<open>KeyStore\<close> (\<open>crates/zbag-engine/src/key_store.rs\<close>) and its two implementations over the file system: the store of the desktop application
  (\<open>key_store_keychain.rs\<close>) and the one of the command line client (\<open>apps/zbag-cli/src/file_key_store.rs\<close>).  The locale \<open>mnemonic_store\<close> is what the wallet
  manager relies on when it keeps the encrypted mnemonics as a map; both implementations interpret it.  The operating system's keychain, JSON and base64 are parameters.
\<close>

section \<open>The interface\<close>

text \<open>\<open>content\<close> is the map the wallet manager sees.  A store that fails may leave a part of a new entry, but changes no entry that exists.\<close>

locale mnemonic_store =
  fixes put :: "'k \<Rightarrow> bytes \<Rightarrow> 's \<Rightarrow> (engine_error, unit) result \<times> 's"
    and get :: "'k \<Rightarrow> 's \<Rightarrow> (engine_error, bytes option) result \<times> 's"
    and del :: "'k \<Rightarrow> 's \<Rightarrow> (engine_error, unit) result \<times> 's"
    and content :: "'s \<Rightarrow> 'k \<rightharpoonup> bytes"
  assumes put_ok: "put k v s = (Inr u, s') \<Longrightarrow> content s' = (content s)(k \<mapsto> v)"
    and put_err: "put k v s = (Inl e, s') \<Longrightarrow> content s j \<noteq> None \<or> j \<noteq> k \<Longrightarrow> content s' j = content s j"
    and get_keeps: "get k s = (r, s') \<Longrightarrow> content s' = content s"
    and get_ok: "get k s = (Inr x, s') \<Longrightarrow> x = content s k"
    and del_ok: "del k s = (Inr u, s') \<Longrightarrow> content s' = (content s)(k := None)"
    and del_err: "del k s = (Inl e, s') \<Longrightarrow> content s' = content s"

datatype 'k store_op = PutOp 'k bytes | GetOp 'k | DelOp 'k

primrec store_exec :: "('k \<Rightarrow> bytes \<Rightarrow> 's \<Rightarrow> 'a \<times> 's) \<Rightarrow> ('k \<Rightarrow> 's \<Rightarrow> 'b \<times> 's) \<Rightarrow> ('k \<Rightarrow> 's \<Rightarrow> 'c \<times> 's) \<Rightarrow> 'k store_op \<Rightarrow> 's \<Rightarrow> 's" where
  "store_exec put get del (PutOp k v) s = snd (put k v s)"
| "store_exec put get del (GetOp k) s = snd (get k s)"
| "store_exec put get del (DelOp k) s = snd (del k s)"

text \<open>The last value put under a key and not deleted.\<close>

fun writes_key :: "'k \<Rightarrow> 'k store_op \<Rightarrow> bool" where
  "writes_key k (PutOp j v) = (j = k)"
| "writes_key k (GetOp j) = False"
| "writes_key k (DelOp j) = (j = k)"

context mnemonic_store
begin

lemma exec_keeps: "\<not> writes_key k op \<Longrightarrow> content s k \<noteq> None \<Longrightarrow> content (store_exec put get del op s) k = content s k"
proof (cases op)
  case (PutOp j v)
  assume "\<not> writes_key k op" "content s k \<noteq> None"
  then show ?thesis using PutOp put_ok[of j v s] put_err[of j v s] by (cases "put j v s"; cases "fst (put j v s)") auto
next
  case (GetOp j)
  then show ?thesis using get_keeps[of j s] by (cases "get j s") auto
next
  case (DelOp j)
  assume "\<not> writes_key k op" "content s k \<noteq> None"
  then show ?thesis using DelOp del_ok[of j s] del_err[of j s] by (cases "del j s"; cases "fst (del j s)") auto
qed

lemma run_keeps: "list_all (\<lambda>op. \<not> writes_key k op) ops \<Longrightarrow> content s k \<noteq> None \<Longrightarrow> content (run_ops (store_exec put get del) ops s) k = content s k"
  by (induction ops arbitrary: s) (simp_all add: exec_keeps)

lemma stored_until_overwritten:
  assumes "put k v s = (Inr u, s1)" "list_all (\<lambda>op. \<not> writes_key k op) ops" "get k (run_ops (store_exec put get del) ops s1) = (Inr x, s2)"
  shows "x = Some v"
  using run_keeps[OF assms(2), of s1] put_ok[OF assms(1)] get_ok[OF assms(3)] by simp

end

section \<open>Files of the mnemonics\<close>

definition ks_wallet_dir :: "path \<Rightarrow> uuid \<Rightarrow> network \<Rightarrow> path" where
  "ks_wallet_dir base wid net = base @ [network_dir_name net, wid]"

definition mnemonic_path :: "path \<Rightarrow> uuid \<Rightarrow> network \<Rightarrow> path" where
  "mnemonic_path base wid net = ks_wallet_dir base wid net @ [''mnemonic.enc'']"

definition show_path :: "path \<Rightarrow> string" where
  "show_path p = concat (map (\<lambda>c. ''/'' @ c) p)"

definition io_err :: "io_kind \<Rightarrow> engine_error" where
  "io_err k = msg_err (case k of IoNotFound \<Rightarrow> ''not found'' | IoAlreadyExists \<Rightarrow> ''already exists'' | IoNotADirectory \<Rightarrow> ''not a directory''
     | IoInvalidInput \<Rightarrow> ''invalid input'' | IoOther \<Rightarrow> ''io error'')"

text \<open>\<open>KeyStoreKeychain\<close>; \<open>uid\<close> is the random name of the temporary file.\<close>

definition keychain_store_encrypted_mnemonic :: "fs_env \<Rightarrow> string \<Rightarrow> path \<Rightarrow> uuid \<Rightarrow> network \<Rightarrow> bytes \<Rightarrow> fs \<Rightarrow> (engine_error, unit) result \<times> fs" where
  "keychain_store_encrypted_mnemonic env uid base wid net enc w =
     (let p = mnemonic_path base wid net in
      case create_dir_all_secure env (butlast p) w of
        (Inl k, w1) \<Rightarrow> (Inl (with_context (''failed to create key store parent directory: '' @ show_path (butlast p)) (io_err k)), w1)
      | (Inr _, w1) \<Rightarrow>
          (case write_file_secure env uid p enc w1 of
             (Inl k, w2) \<Rightarrow> (Inl (with_context (''failed to write encrypted mnemonic file: '' @ show_path p) (io_err k)), w2)
           | (Inr _, w2) \<Rightarrow> (Inr (), w2)))"

definition keychain_load_encrypted_mnemonic :: "fs_env \<Rightarrow> path \<Rightarrow> uuid \<Rightarrow> network \<Rightarrow> fs \<Rightarrow> (engine_error, bytes option) result \<times> fs" where
  "keychain_load_encrypted_mnemonic env base wid net w =
     (let p = mnemonic_path base wid net in
      case syscall env (read_node p) w of
        (Inr c, w1) \<Rightarrow> (Inr (Some c), w1)
      | (Inl k, w1) \<Rightarrow> (if k = IoNotFound then Inr None else Inl (with_context (''failed to read '' @ show_path p) (io_err k)), w1))"

definition keychain_delete_encrypted_mnemonic :: "fs_env \<Rightarrow> path \<Rightarrow> uuid \<Rightarrow> network \<Rightarrow> fs \<Rightarrow> (engine_error, unit) result \<times> fs" where
  "keychain_delete_encrypted_mnemonic env base wid net w =
     (let p = mnemonic_path base wid net in
      case syscall env (remove_node p) w of
        (Inr _, w1) \<Rightarrow> (Inr (), w1)
      | (Inl k, w1) \<Rightarrow> (if k = IoNotFound then Inr () else Inl (with_context (''failed to delete '' @ show_path p) (io_err k)), w1))"

text \<open>\<open>FileKeyStore\<close>, whose directory of wallets lies below its data directory.\<close>

definition wallets_root :: "path \<Rightarrow> path" where "wallets_root data_dir = data_dir @ [''wallets'']"
definition keystore_path :: "path \<Rightarrow> path" where "keystore_path data_dir = data_dir @ [''keystore.json'']"

definition file_store_encrypted_mnemonic :: "fs_env \<Rightarrow> string \<Rightarrow> path \<Rightarrow> uuid \<Rightarrow> network \<Rightarrow> bytes \<Rightarrow> fs \<Rightarrow> (engine_error, unit) result \<times> fs" where
  "file_store_encrypted_mnemonic env uid data_dir wid net enc w =
     (let p = mnemonic_path (wallets_root data_dir) wid net in
      case create_dir_all_secure env (butlast p) w of
        (Inl k, w1) \<Rightarrow> (Inl (io_err k), w1)
      | (Inr _, w1) \<Rightarrow>
          (case write_file_secure env uid p enc w1 of
             (Inl k, w2) \<Rightarrow> (Inl (with_context (''failed to write encrypted mnemonic file: '' @ show_path p) (io_err k)), w2)
           | (Inr _, w2) \<Rightarrow> (Inr (), w2)))"

definition file_load_encrypted_mnemonic :: "fs_env \<Rightarrow> path \<Rightarrow> uuid \<Rightarrow> network \<Rightarrow> fs \<Rightarrow> (engine_error, bytes option) result \<times> fs" where
  "file_load_encrypted_mnemonic env data_dir wid net w =
     (let p = mnemonic_path (wallets_root data_dir) wid net in
      case syscall env (read_node p) w of
        (Inr c, w1) \<Rightarrow> (Inr (Some c), w1)
      | (Inl k, w1) \<Rightarrow> (if k = IoNotFound then Inr None else Inl (with_context (''failed to read '' @ show_path p) (io_err k)), w1))"

definition file_delete_encrypted_mnemonic :: "fs_env \<Rightarrow> path \<Rightarrow> uuid \<Rightarrow> network \<Rightarrow> fs \<Rightarrow> (engine_error, unit) result \<times> fs" where
  "file_delete_encrypted_mnemonic env data_dir wid net w =
     (let p = mnemonic_path (wallets_root data_dir) wid net in
      case syscall env (remove_node p) w of
        (Inr _, w1) \<Rightarrow> (Inr (), w1)
      | (Inl k, w1) \<Rightarrow> (if k = IoNotFound then Inr () else Inl (with_context (''failed to delete '' @ show_path p) (io_err k)), w1))"

section \<open>Unlock material\<close>

text \<open>The desktop store does not keep any; it only removes entries that older versions left in the keychain, which is the set of its user names.
  \<open>kc_entry_ok\<close> and \<open>kc_delete_ok\<close> say whether the keychain answers.\<close>

record keychain_env =
  kc_entry_ok :: bool
  kc_delete_ok :: bool

definition keychain_user :: "uuid \<Rightarrow> network \<Rightarrow> string" where
  "keychain_user wid net = ''wallet-dek:'' @ wid @ '':'' @ network_dir_name net"

definition keychain_delete_unlock_material :: "keychain_env \<Rightarrow> uuid \<Rightarrow> network \<Rightarrow> string set \<Rightarrow> (engine_error, unit) result \<times> string set" where
  "keychain_delete_unlock_material kc wid net entries =
     (if \<not> kc_entry_ok kc then (Inl (with_context ''failed to construct keychain entry'' (msg_err ''keyring error'')), entries)
      else if keychain_user wid net \<notin> entries then (Inr (), entries)
      else if \<not> kc_delete_ok kc then (Inl (with_context ''failed to delete keychain unlock material'' (msg_err ''keyring error'')), entries)
      else (Inr (), entries - {keychain_user wid net}))"

definition keychain_store_unlock_material :: "uuid \<Rightarrow> network \<Rightarrow> bytes \<Rightarrow> string set \<Rightarrow> (engine_error, unit) result \<times> string set" where
  "keychain_store_unlock_material wid net material entries = (Inr (), entries)"

definition keychain_load_unlock_material :: "keychain_env \<Rightarrow> uuid \<Rightarrow> network \<Rightarrow> string set \<Rightarrow> (engine_error, bytes option) result \<times> string set" where
  "keychain_load_unlock_material kc wid net entries = (Inr None, snd (keychain_delete_unlock_material kc wid net entries))"

text \<open>The store of the command line keeps it in a JSON file.\<close>

record json_env =
  js_print :: "(string \<rightharpoonup> string) \<Rightarrow> bytes"
  js_parse :: "bytes \<Rightarrow> (string \<rightharpoonup> string) option"
  js_encode :: "bytes \<Rightarrow> string"
  js_decode :: "string \<Rightarrow> bytes option"

definition unlock_key :: "uuid \<Rightarrow> network \<Rightarrow> string" where
  "unlock_key wid net = wid @ '':'' @ network_dir_name net"

definition load_keystore :: "fs_env \<Rightarrow> json_env \<Rightarrow> path \<Rightarrow> fs \<Rightarrow> (engine_error, string \<rightharpoonup> string) result \<times> fs" where
  "load_keystore env js data_dir w =
     (case syscall env (read_node (keystore_path data_dir)) w of
        (Inr c, w1) \<Rightarrow> (ok_or (js_parse js c) (with_context ''invalid keystore.json format'' (msg_err ''json error'')), w1)
      | (Inl k, w1) \<Rightarrow> (if k = IoNotFound then Inr Map.empty else Inl (with_context ''failed to read keystore.json'' (io_err k)), w1))"

definition save_keystore :: "fs_env \<Rightarrow> json_env \<Rightarrow> string \<Rightarrow> path \<Rightarrow> (string \<rightharpoonup> string) \<Rightarrow> fs \<Rightarrow> (engine_error, unit) result \<times> fs" where
  "save_keystore env js uid data_dir data w =
     (case create_dir_all_secure env (butlast (keystore_path data_dir)) w of
        (Inl k, w1) \<Rightarrow> (Inl (io_err k), w1)
      | (Inr _, w1) \<Rightarrow>
          (case write_file_secure env uid (keystore_path data_dir) (js_print js data) w1 of
             (Inl k, w2) \<Rightarrow> (Inl (with_context (''failed to write keystore file: '' @ show_path (keystore_path data_dir)) (io_err k)), w2)
           | (Inr _, w2) \<Rightarrow> (Inr (), w2)))"

definition file_store_unlock_material :: "fs_env \<Rightarrow> json_env \<Rightarrow> string \<Rightarrow> path \<Rightarrow> uuid \<Rightarrow> network \<Rightarrow> bytes \<Rightarrow> fs \<Rightarrow> (engine_error, unit) result \<times> fs" where
  "file_store_unlock_material env js uid data_dir wid net material w =
     (case load_keystore env js data_dir w of
        (Inl e, w1) \<Rightarrow> (Inl e, w1)
      | (Inr data, w1) \<Rightarrow> save_keystore env js uid data_dir (data(unlock_key wid net \<mapsto> js_encode js material)) w1)"

definition file_load_unlock_material :: "fs_env \<Rightarrow> json_env \<Rightarrow> path \<Rightarrow> uuid \<Rightarrow> network \<Rightarrow> fs \<Rightarrow> (engine_error, bytes option) result \<times> fs" where
  "file_load_unlock_material env js data_dir wid net w =
     (case load_keystore env js data_dir w of
        (Inl e, w1) \<Rightarrow> (Inl e, w1)
      | (Inr data, w1) \<Rightarrow>
          (case data (unlock_key wid net) of
             None \<Rightarrow> (Inr None, w1)
           | Some text \<Rightarrow> (bind_result (ok_or (js_decode js text) (with_context ''invalid unlock material encoding'' (msg_err ''base64 error'')))
                (\<lambda>d. Inr (Some d)), w1)))"

definition file_delete_unlock_material :: "fs_env \<Rightarrow> json_env \<Rightarrow> string \<Rightarrow> path \<Rightarrow> uuid \<Rightarrow> network \<Rightarrow> fs \<Rightarrow> (engine_error, unit) result \<times> fs" where
  "file_delete_unlock_material env js uid data_dir wid net w =
     (case load_keystore env js data_dir w of
        (Inl e, w1) \<Rightarrow> (Inl e, w1)
      | (Inr data, w1) \<Rightarrow> save_keystore env js uid data_dir (data(unlock_key wid net := None)) w1)"

section \<open>The stores implement the interface\<close>

fun file_content :: "fs_node option \<Rightarrow> bytes option" where
  "file_content (Some (File _ c)) = Some c"
| "file_content _ = None"

lemma file_content_Some: "file_content n = Some c \<longleftrightarrow> (\<exists>mo. n = Some (File mo c))"
  by (cases n rule: file_content.cases) auto

definition mnemonics_in :: "path \<Rightarrow> fs \<Rightarrow> uuid \<times> network \<rightharpoonup> bytes" where
  "mnemonics_in base w = (\<lambda>(wid, net). file_content (fs_nodes w (mnemonic_path base wid net)))"

lemma mnemonic_path_eq: "mnemonic_path base w n = mnemonic_path base w' n' \<longleftrightarrow> w = w' \<and> n = n'"
  by (cases n; cases n') (auto simp: mnemonic_path_def ks_wallet_dir_def)

lemma mnemonic_path_nonempty: "mnemonic_path base w n \<noteq> []"
  by (simp add: mnemonic_path_def)

lemma mnemonic_path_not_tmp: "mnemonic_path base w n \<noteq> tmp_path uid (mnemonic_path base w' n')"
  by (simp add: mnemonic_path_def ks_wallet_dir_def tmp_path_def)

lemma file_content_dirs:
  assumes "only_dirs m0 m"
  shows "file_content (m q) = file_content (m0 q)"
proof -
  have "file_content (m q) = Some c \<longleftrightarrow> file_content (m0 q) = Some c" for c
  proof -
    have "m q = Some (File mo c) \<longleftrightarrow> m0 q = Some (File mo c)" for mo using assms by (simp add: only_dirs_def)
    then show ?thesis by (simp add: file_content_Some)
  qed
  then show ?thesis by (metis not_Some_eq)
qed

lemma mnemonics_in_dirs: "only_dirs (fs_nodes w) (fs_nodes w') \<Longrightarrow> mnemonics_in base w' = mnemonics_in base w"
  by (rule ext) (auto simp: mnemonics_in_def file_content_dirs)

lemma mnemonics_in_write:
  assumes "write_file_secure env uid (mnemonic_path base wid net) enc w = (r, w')"
  shows "r = Inr u \<Longrightarrow> mnemonics_in base w' = (mnemonics_in base w)((wid, net) \<mapsto> enc)"
    and "r = Inl k \<Longrightarrow> mnemonics_in base w j \<noteq> None \<or> j \<noteq> (wid, net) \<Longrightarrow> mnemonics_in base w' j = mnemonics_in base w j"
proof -
  let ?p = "mnemonic_path base wid net"
  note e = write_file_effect[OF assms mnemonic_path_nonempty]
  have other: "fs_nodes w' (mnemonic_path base a b) = fs_nodes w (mnemonic_path base a b)" if "(a, b) \<noteq> (wid, net)" for a b
  proof -
    have "write_states ?p (tmp_path uid ?p) (mode_600 - fe_umask env) enc (fs_nodes w) (fs_nodes w')"
      using e(1) by (simp add: passes_def)
    then show ?thesis using that mnemonic_path_eq[of base a b wid net] mnemonic_path_not_tmp[of base a b uid wid net] by blast
  qed
  show "r = Inr u \<Longrightarrow> mnemonics_in base w' = (mnemonics_in base w)((wid, net) \<mapsto> enc)"
    using e(2) other by (auto simp: mnemonics_in_def)
  assume r: "r = Inl k" and j: "mnemonics_in base w j \<noteq> None \<or> j \<noteq> (wid, net)"
  show "mnemonics_in base w' j = mnemonics_in base w j"
  proof (cases "j = (wid, net)")
    case True
    then have "fs_nodes w ?p \<noteq> None" using j by (auto simp: mnemonics_in_def file_content_Some)
    then show ?thesis using e(3)[OF r] True by (simp add: mnemonics_in_def)
  next
    case False
    then show ?thesis using other by (cases j) (simp add: mnemonics_in_def)
  qed
qed

lemma mnemonics_in_store:
  assumes "create_dir_all_secure env (butlast (mnemonic_path base wid net)) w = (r1, w1)"
    and "r1 = Inr u1 \<Longrightarrow> write_file_secure env uid (mnemonic_path base wid net) enc w1 = (r2, w2)"
  shows "r1 = Inl k \<Longrightarrow> mnemonics_in base w1 = mnemonics_in base w"
    and "r1 = Inr u1 \<Longrightarrow> r2 = Inr u2 \<Longrightarrow> mnemonics_in base w2 = (mnemonics_in base w)((wid, net) \<mapsto> enc)"
    and "r1 = Inr u1 \<Longrightarrow> r2 = Inl k \<Longrightarrow> mnemonics_in base w j \<noteq> None \<or> j \<noteq> (wid, net) \<Longrightarrow> mnemonics_in base w2 j = mnemonics_in base w j"
  using mnemonics_in_dirs[OF create_dir_all_dirs(2)[OF assms(1)], of base] mnemonics_in_write[OF assms(2)] by auto

lemma mnemonics_in_read:
  assumes "syscall env (read_node (mnemonic_path base wid net)) w = (r, w')"
  shows "mnemonics_in base w' = mnemonics_in base w" "r = Inr c \<Longrightarrow> mnemonics_in base w (wid, net) = Some c"
    "r = Inl IoNotFound \<Longrightarrow> mnemonics_in base w (wid, net) = None"
proof -
  have n: "fs_nodes w' = fs_nodes w" using assms by (cases rule: syscall_cases) (auto dest: node_ops_ok(5))
  then show "mnemonics_in base w' = mnemonics_in base w" by (simp add: mnemonics_in_def)
  show "r = Inr c \<Longrightarrow> mnemonics_in base w (wid, net) = Some c"
    using assms by (cases rule: syscall_cases) (auto simp: mnemonics_in_def file_content_Some dest: node_ops_ok(5))
  show "r = Inl IoNotFound \<Longrightarrow> mnemonics_in base w (wid, net) = None"
    using assms by (auto simp: syscall_def read_node_def mnemonics_in_def split: if_splits option.splits fs_node.splits)
qed

lemma mnemonics_in_remove:
  assumes "syscall env (remove_node (mnemonic_path base wid net)) w = (r, w')"
  shows "r = Inr u \<or> r = Inl IoNotFound \<Longrightarrow> mnemonics_in base w' = (mnemonics_in base w)((wid, net) := None)"
    and "r = Inl k \<Longrightarrow> mnemonics_in base w' = mnemonics_in base w"
proof -
  have none: "r = Inl IoNotFound \<Longrightarrow> mnemonics_in base w (wid, net) = None"
    using assms by (auto simp: syscall_def remove_node_def mnemonics_in_def split: if_splits option.splits fs_node.splits)
  show err: "mnemonics_in base w' = mnemonics_in base w" if "r = Inl k" for k
    using assms that by (cases rule: syscall_cases) (simp_all add: mnemonics_in_def)
  show "mnemonics_in base w' = (mnemonics_in base w)((wid, net) := None)" if "r = Inr u \<or> r = Inl IoNotFound"
  proof (cases "r = Inl IoNotFound")
    case True
    then show ?thesis using err[OF True] none by (simp add: fun_upd_idem)
  next
    case False
    have "fs_nodes w' = (fs_nodes w)(mnemonic_path base wid net := None)"
      using assms that False by (cases rule: syscall_cases) (auto dest: node_ops_ok(3))
    then show ?thesis by (auto simp: mnemonics_in_def mnemonic_path_eq)
  qed
qed

interpretation keychain: mnemonic_store "\<lambda>(wid, net). keychain_store_encrypted_mnemonic env uid base wid net"
  "\<lambda>(wid, net). keychain_load_encrypted_mnemonic env base wid net" "\<lambda>(wid, net). keychain_delete_encrypted_mnemonic env base wid net" "mnemonics_in base"
  for env uid base
proof (unfold_locales, goal_cases)
  case (1 k v s u s')
  then show ?case using mnemonics_in_store(2)
    by (auto simp: keychain_store_encrypted_mnemonic_def Let_def split: prod.splits sum.splits)
next
  case (2 k v s e s' j)
  then show ?case using mnemonics_in_store(1,3)
    by (auto simp: keychain_store_encrypted_mnemonic_def Let_def split: prod.splits sum.splits)
next
  case (3 k s r s')
  then show ?case using mnemonics_in_read(1) by (auto simp: keychain_load_encrypted_mnemonic_def Let_def split: prod.splits sum.splits if_splits)
next
  case (4 k s x s')
  then show ?case using mnemonics_in_read(2,3) by (auto simp: keychain_load_encrypted_mnemonic_def Let_def split: prod.splits sum.splits if_splits)
next
  case (5 k s u s')
  then show ?case using mnemonics_in_remove(1) by (auto simp: keychain_delete_encrypted_mnemonic_def Let_def split: prod.splits sum.splits if_splits)
next
  case (6 k s e s')
  then show ?case using mnemonics_in_remove(2) by (auto simp: keychain_delete_encrypted_mnemonic_def Let_def split: prod.splits sum.splits if_splits)
qed

text \<open>The command line store does the same files, with other messages.\<close>

lemma file_store_as_keychain:
  "file_load_encrypted_mnemonic env d wid net = keychain_load_encrypted_mnemonic env (wallets_root d) wid net"
  "file_delete_encrypted_mnemonic env d wid net = keychain_delete_encrypted_mnemonic env (wallets_root d) wid net"
  "snd (file_store_encrypted_mnemonic env uid d wid net enc w) = snd (keychain_store_encrypted_mnemonic env uid (wallets_root d) wid net enc w)"
  "is_ok (fst (file_store_encrypted_mnemonic env uid d wid net enc w)) = is_ok (fst (keychain_store_encrypted_mnemonic env uid (wallets_root d) wid net enc w))"
  by (auto simp: fun_eq_iff file_load_encrypted_mnemonic_def keychain_load_encrypted_mnemonic_def file_delete_encrypted_mnemonic_def
      keychain_delete_encrypted_mnemonic_def file_store_encrypted_mnemonic_def keychain_store_encrypted_mnemonic_def Let_def split: prod.splits sum.splits)

lemma file_store_result:
  assumes "file_store_encrypted_mnemonic env uid d wid net enc w = (r, w')"
  obtains r' where "keychain_store_encrypted_mnemonic env uid (wallets_root d) wid net enc w = (r', w')" "is_ok r' = is_ok r"
  using assms file_store_as_keychain(3,4)[of env uid d wid net enc w] by (metis fst_conv prod.collapse snd_conv)

interpretation file_store: mnemonic_store "\<lambda>(wid, net). file_store_encrypted_mnemonic env uid d wid net"
  "\<lambda>(wid, net). file_load_encrypted_mnemonic env d wid net" "\<lambda>(wid, net). file_delete_encrypted_mnemonic env d wid net" "mnemonics_in (wallets_root d)"
  for env uid d
proof (unfold_locales, unfold file_store_as_keychain(1,2), goal_cases)
  case (1 k v s u s')
  obtain r' where r: "keychain_store_encrypted_mnemonic env uid (wallets_root d) (fst k) (snd k) v s = (r', s')" "is_ok r'"
    using 1 file_store_result[of env uid d "fst k" "snd k" v s "Inr u" s'] by (auto simp: split_beta)
  then obtain u' where "r' = Inr u'" by (cases r') auto
  then show ?case using keychain.put_ok[of env uid "wallets_root d" k v s u' s'] r(1) by (simp add: split_beta)
next
  case (2 k v s e s' j)
  obtain r' where r: "keychain_store_encrypted_mnemonic env uid (wallets_root d) (fst k) (snd k) v s = (r', s')" "\<not> is_ok r'"
    using 2(1) file_store_result[of env uid d "fst k" "snd k" v s "Inl e" s'] by (auto simp: split_beta)
  then obtain e' where "r' = Inl e'" by (cases r') auto
  then show ?case using keychain.put_err[of env uid "wallets_root d" k v s e' s' j] r(1) 2(2) by (simp add: split_beta)
qed (rule keychain.get_keeps keychain.get_ok keychain.del_ok keychain.del_err, assumption)+

section \<open>Properties\<close>

text \<open>C23: The stored phrase stays.  In both key stores, an encrypted mnemonic that was stored successfully is what every later successful load returns, whatever
  other wallets store, load and delete in between and whichever of these operations fail; this is the map the wallet manager works with.  The desktop store never hands out
  unlock material and, when the keychain answers, removes what an older version left.\<close>

theorem stored_mnemonic_stays:
  assumes "list_all (\<lambda>op. \<not> writes_key (wid, net) op) ops"
  shows "(keychain_store_encrypted_mnemonic env uid base wid net enc w = (Inr u, w1) \<longrightarrow>
          keychain_load_encrypted_mnemonic env base wid net
            (run_ops (store_exec (\<lambda>(i, n). keychain_store_encrypted_mnemonic env uid base i n) (\<lambda>(i, n). keychain_load_encrypted_mnemonic env base i n)
               (\<lambda>(i, n). keychain_delete_encrypted_mnemonic env base i n)) ops w1) = (Inr x, w2) \<longrightarrow> x = Some enc)
       \<and> (file_store_encrypted_mnemonic env uid base wid net enc w = (Inr u, w1) \<longrightarrow>
          file_load_encrypted_mnemonic env base wid net
            (run_ops (store_exec (\<lambda>(i, n). file_store_encrypted_mnemonic env uid base i n) (\<lambda>(i, n). file_load_encrypted_mnemonic env base i n)
               (\<lambda>(i, n). file_delete_encrypted_mnemonic env base i n)) ops w1) = (Inr x, w2) \<longrightarrow> x = Some enc)
       \<and> fst (keychain_load_unlock_material kc wid net entries) = Inr None
       \<and> (kc_entry_ok kc \<and> kc_delete_ok kc \<longrightarrow> keychain_user wid net \<notin> snd (keychain_load_unlock_material kc wid net entries))"
proof (intro conjI impI)
  assume "keychain_store_encrypted_mnemonic env uid base wid net enc w = (Inr u, w1)"
    and "keychain_load_encrypted_mnemonic env base wid net
            (run_ops (store_exec (\<lambda>(i, n). keychain_store_encrypted_mnemonic env uid base i n) (\<lambda>(i, n). keychain_load_encrypted_mnemonic env base i n)
               (\<lambda>(i, n). keychain_delete_encrypted_mnemonic env base i n)) ops w1) = (Inr x, w2)"
  then show "x = Some enc" using keychain.stored_until_overwritten[of env uid base "(wid, net)" enc w u w1 ops x w2] assms by simp
next
  assume "file_store_encrypted_mnemonic env uid base wid net enc w = (Inr u, w1)"
    and "file_load_encrypted_mnemonic env base wid net
            (run_ops (store_exec (\<lambda>(i, n). file_store_encrypted_mnemonic env uid base i n) (\<lambda>(i, n). file_load_encrypted_mnemonic env base i n)
               (\<lambda>(i, n). file_delete_encrypted_mnemonic env base i n)) ops w1) = (Inr x, w2)"
  then show "x = Some enc" using file_store.stored_until_overwritten[of env uid base "(wid, net)" enc w u w1 ops x w2] assms by simp
qed (auto simp: keychain_load_unlock_material_def keychain_delete_unlock_material_def)

lemmas store_eval = keychain_store_encrypted_mnemonic_def keychain_load_encrypted_mnemonic_def mnemonic_path_def ks_wallet_dir_def Let_def create_dir_all_secure_def
  climb_dirs.simps create_dir_secure_def syscall_def new_node_def set_nodes_def write_file_secure_def write_new_def write_all_def read_node_def remove_node_def

definition stored_demo :: fs where
  "stored_demo = snd (keychain_store_encrypted_mnemonic (demo_fs_env 100) ''u'' [] ''w'' Mainnet [7] demo_fs)"

theorem stored_mnemonic_stays_witness:
  "fst (keychain_load_encrypted_mnemonic (demo_fs_env 100) [] ''w'' Mainnet
     (run_ops (store_exec (\<lambda>(i, n). keychain_store_encrypted_mnemonic (demo_fs_env 100) ''u'' [] i n) (\<lambda>(i, n). keychain_load_encrypted_mnemonic (demo_fs_env 100) [] i n)
       (\<lambda>(i, n). keychain_delete_encrypted_mnemonic (demo_fs_env 100) [] i n)) [GetOp (''v'', Mainnet)] stored_demo)) = Inr (Some [7])"
proof -
  let ?run = "run_ops (store_exec (\<lambda>(i, n). keychain_store_encrypted_mnemonic (demo_fs_env 100) ''u'' [] i n) (\<lambda>(i, n). keychain_load_encrypted_mnemonic (demo_fs_env 100) [] i n)
       (\<lambda>(i, n). keychain_delete_encrypted_mnemonic (demo_fs_env 100) [] i n)) [GetOp (''v'', Mainnet)] stored_demo"
  let ?load = "keychain_load_encrypted_mnemonic (demo_fs_env 100) [] ''w'' Mainnet ?run"
  have put: "keychain_store_encrypted_mnemonic (demo_fs_env 100) ''u'' [] ''w'' Mainnet [7] demo_fs = (Inr (), stored_demo)"
    unfolding stored_demo_def by (simp add: store_eval demo_fs_def demo_fs_env_def)
  obtain x where load: "fst ?load = Inr x"
    by (simp add: store_eval stored_demo_def demo_fs_def demo_fs_env_def)
  have "list_all (\<lambda>op. \<not> writes_key (''w'', Mainnet) op) [GetOp (''v'', Mainnet)]" by simp
  from stored_mnemonic_stays[OF this, of "demo_fs_env 100" "''u''" "[]" "[7]" demo_fs "()" stored_demo x "snd ?load"] put load
  show ?thesis by (metis prod.collapse)
qed

end
