(* ===== verification/Wallet_Safety.thy ===== *)
theory Wallet_Safety
  imports Wallet_Tx
begin

text \<open>
  All operations of the wallet manager together, as one datatype of operations with a step function: which of them use a key,
  which consume a re-authentication token, and what every sequence of them keeps.  The single-use contract \<open>one_shot\<close> is
  interpreted on the whole manager.
\<close>

section \<open>All operations of the manager\<close>

datatype (plugins only: code) ('p, 'z, 'u) wm_op =
    OpLoad wallet_env uuid
  | OpUnlock wallet_env uuid string
  | OpLock wallet_env uuid
  | OpLogout uuid
  | OpReauth wallet_env string uuid string reauth_purpose
  | OpViewSeed wallet_env uuid string
  | OpChallenge wallet_env string "nat list" uuid
  | OpVerify wallet_env uuid string "nat \<rightharpoonup> string"
  | OpCreate wallet_env "'u create_env" wallet_fresh string network string "nat option"
  | OpRestore wallet_env "'u create_env" wallet_fresh string network string string "int option"
  | OpKeystone wallet_env "'u create_env" wallet_fresh string network string string "nat option" "string option" "nat option"
  | OpImport wallet_env "'u create_env" wallet_accounts uuid string string "string option" "nat option"
  | OpPrepareSend wallet_env "'p send_env" string send_request
  | OpBuildSigning wallet_env "'p send_env" "('p, 'z) pczt_env" string send_request
  | OpFinalize wallet_env net_env "('p, 'z) pczt_env" string string string
  | OpConfirmTask wallet_env task_env string string
  | OpShieldTask wallet_env nat string
  | OpFinalizeTask wallet_env task_env string string string
  | OpRetry wallet_env retry_task_env string string
  | OpRetryTask wallet_env string string
  | OpQueuedRetry wallet_env retry_task_env
  | OpStartSend wallet_env string string string
  | OpStartShield wallet_env string nat string
  | OpCancelJob string
  | OpCancelSend string
  | OpSyncProgress wallet_env uuid sync_progress
  | OpStopRequested uuid
  | OpBalanceChanged wallet_env uuid nat balance

definition flag :: "('e, 'a) result \<times> 's \<Rightarrow> bool \<times> 's" where "flag x = (is_ok (fst x), snd x)"

text \<open>Whether the operation succeeded, and the state it leaves.  A run of the queued retries succeeds when it sent something.\<close>

primrec wm_exec :: "('p, 'z, 'u) wm_op \<Rightarrow> ('p, 'q) wallet_manager \<Rightarrow> bool \<times> ('p, 'q) wallet_manager" where
  "wm_exec (OpLoad env w) m = flag (load_wallet env w m)"
| "wm_exec (OpUnlock env w pw) m = flag (unlock_wallet env w pw m)"
| "wm_exec (OpLock env w) m = (True, snd (lock_wallet env w m))"
| "wm_exec (OpLogout w) m = flag (logout_wallet w m)"
| "wm_exec (OpReauth env tok w pw p) m = flag (reauth_wallet env tok w pw p m)"
| "wm_exec (OpViewSeed env w tok) m = flag (view_seed_phrase env w tok m)"
| "wm_exec (OpChallenge env i pool w) m = flag (get_backup_challenge env i pool w m)"
| "wm_exec (OpVerify env w c ans) m = flag (verify_backup env w c ans m)"
| "wm_exec (OpCreate env ce fr n net pw h) m = flag (create_wallet env ce fr n net pw h m)"
| "wm_exec (OpRestore env ce fr n net pw s d) m = flag (restore_wallet env ce fr n net pw s d m)"
| "wm_exec (OpKeystone env ce fr n net pw u h fp idx) m = flag (create_keystone_wallet env ce fr n net pw u h fp idx m)"
| "wm_exec (OpImport env ce acc w u n fp idx) m = flag (import_ufvk env ce acc w u n fp idx m)"
| "wm_exec (OpPrepareSend env se i r) m = flag (wm_prepare_send env se i r m)"
| "wm_exec (OpBuildSigning env se pe i r) m = flag (wm_build_signing_request env se pe i r m)"
| "wm_exec (OpFinalize env ne pe rid sp tok) m = flag (wm_finalize_signing env ne pe rid sp tok m)"
| "wm_exec (OpConfirmTask env te pid tok) m = flag (prepare_confirm_send_task env te pid tok m)"
| "wm_exec (OpShieldTask env aid tok) m = flag (prepare_shield_funds_task env aid tok m)"
| "wm_exec (OpFinalizeTask env te rid sp tok) m = flag (prepare_finalize_signing_task env te rid sp tok m)"
| "wm_exec (OpRetry env rx txid tok) m = flag (wm_retry_broadcast env rx txid tok m)"
| "wm_exec (OpRetryTask env txid tok) m = flag (prepare_retry_broadcast_task env txid tok m)"
| "wm_exec (OpQueuedRetry env rx) m = (let (r, m') = process_queued_broadcast_retries env rx m in (r = Inr 1, m'))"
| "wm_exec (OpStartSend env j pid tok) m = flag (start_send_job env j pid tok m)"
| "wm_exec (OpStartShield env j aid tok) m = flag (start_shield_job env j aid tok m)"
| "wm_exec (OpCancelJob j) m = wm_cancel_job j m"
| "wm_exec (OpCancelSend pid) m = (let (b, s) = cancel_send pid (wm_tx m) in (b, m\<lparr>wm_tx := s\<rparr>))"
| "wm_exec (OpSyncProgress env w p) m = (True, observe_sync_progress env w p m)"
| "wm_exec (OpStopRequested w) m = (True, observe_sync_stop_requested w m)"
| "wm_exec (OpBalanceChanged env w a b) m = (True, observe_balance_changed env w a b m)"

definition wm_step :: "('p, 'z, 'u) wm_op \<Rightarrow> ('p, 'q) wallet_manager \<Rightarrow> ('p, 'q) wallet_manager" where
  "wm_step op m = snd (wm_exec op m)"

definition wm_ok :: "('p, 'z, 'u) wm_op \<Rightarrow> ('p, 'q) wallet_manager \<Rightarrow> bool" where
  "wm_ok op m = fst (wm_exec op m)"

section \<open>What the operations leave alone\<close>

text \<open>The part of the state the properties are about: the active wallet, the tokens and the challenges.\<close>

definition core :: "('p, 'q) wallet_manager \<Rightarrow> active_wallet option \<times> reauth_manager \<times> (uuid \<rightharpoonup> backup_challenge)" where
  "core m = (wm_active m, wm_reauth m, wm_challenges m)"

lemma core_eqD: "core m = core m' \<Longrightarrow> wm_active m = wm_active m' \<and> wm_reauth m = wm_reauth m' \<and> wm_challenges m = wm_challenges m'"
  by (simp add: core_def)

lemma core_bind:
  assumes "core (snd x) = core m" and "\<And>a s. x = (Inr a, s) \<Longrightarrow> core s = core m \<Longrightarrow> core (snd (f a s)) = core m"
  shows "core (snd (bind_se x f)) = core m"
  using assms by (cases x; cases "fst x") auto

named_theorems core_frame \<open>steps that leave the core of the state alone\<close>

lemma snd_result_step [simp]: "snd (result_step r m) = m" "fst (result_step r m) = r"
  by (simp_all add: result_step_def)

lemma core_steps [simp, core_frame]:
  "core (snd (sql_step f m)) = core m" "core (snd (tx_step h m)) = core m" "core (snd (queue_step dir q m)) = core m"
  "core (snd (open_new_wallet_db env k dir m)) = core m" "core (snd (store_encrypted_mnemonic env w net b m)) = core m"
  "core (maybe_emit_wallet_status env w m) = core m"
  by (simp_all add: core_def sql_step_def tx_step_def queue_step_def open_new_wallet_db_def store_encrypted_mnemonic_def
      split: sum.splits prod.splits)

lemma core_insert_first [simp, core_frame]: "core (snd (insert_first_account env wl ty m)) = core m"
  by (auto simp: insert_first_account_def core_def sql_step_def split: prod.splits sum.splits)

lemma core_register [simp, core_frame]: "core (snd (register_wallet env ce fr wl bk pw m)) = core m"
  unfolding register_wallet_def Let_def by (intro core_bind) simp_all

section \<open>Operations that consume a token\<close>

text \<open>\<open>token_op\<close>: the operation leaves the active wallet and the challenges alone, changes the tokens at most by consuming \<open>tok\<close>,
  and succeeds only when the token was accepted and is now used.\<close>

definition token_op :: "wallet_env \<Rightarrow> string \<Rightarrow> reauth_purpose \<Rightarrow> (engine_error, 'a) result \<times> ('p, 'q) wallet_manager \<Rightarrow> ('p, 'q) wallet_manager \<Rightarrow> bool" where
  "token_op env tok p x m \<longleftrightarrow> (\<exists>w. let v = validate_and_consume (wv_now env) tok w p (wm_reauth m) in
     wm_active (snd x) = wm_active m \<and> wm_challenges (snd x) = wm_challenges m
   \<and> (wm_reauth (snd x) = wm_reauth m \<or> wm_reauth (snd x) = snd v)
   \<and> (is_ok (fst x) \<longrightarrow> fst v = Inr () \<and> wm_reauth (snd x) = snd v))"

lemma token_failed: "core s = core m \<Longrightarrow> token_op env tok p (Inl e, s) m"
  by (simp add: token_op_def core_def Let_def)

lemma token_pre:
  assumes "core (snd x) = core m" and "\<And>a s. x = (Inr a, s) \<Longrightarrow> core s = core m \<Longrightarrow> token_op env tok p (f a s) m"
  shows "token_op env tok p (bind_se x f) m"
proof (cases "fst x")
  case (Inl e)
  then show ?thesis using assms(1) token_failed[of "snd x" m env tok p e] by (simp add: bind_se_pair)
next
  case (Inr a)
  then show ?thesis using assms(1) assms(2)[of a "snd x"] by (simp add: bind_se_pair prod_eq_iff)
qed

lemma token_consume:
  assumes "core m0 = core m" and "\<And>a s. core (snd (f a s)) = core s"
  shows "token_op env tok p (bind_se (consume_reauth_token env w tok p m0) f) m"
proof -
  define v where "v = validate_and_consume (wv_now env) tok w p (wm_reauth m)"
  have r: "wm_reauth m0 = wm_reauth m" "wm_active m0 = wm_active m" "wm_challenges m0 = wm_challenges m"
    using core_eqD[OF assms(1)] by simp_all
  define x where "x = consume_reauth_token env w tok p m0"
  have x: "wm_active (snd x) = wm_active m" "wm_challenges (snd x) = wm_challenges m" "wm_reauth (snd x) = snd v"
    "is_ok (fst x) \<longrightarrow> fst v = Inr ()"
    using r by (auto simp: x_def v_def consume_reauth_state is_ok_iff consume_ok_iff)
  have f: "core (snd (bind_se x f)) = core (snd x)" using assms(2) by (simp add: bind_se_pair split: sum.splits)
  have "is_ok (fst (bind_se x f)) \<longrightarrow> is_ok (fst x)" by (simp add: bind_se_pair split: sum.splits)
  then show ?thesis
    using x core_eqD[OF f] unfolding token_op_def x_def[symmetric] v_def[symmetric] Let_def
    by (intro exI[of _ w]) (simp add: v_def[symmetric])
qed

lemma core_emitD: "core (maybe_emit_wallet_status env w m) = core m" by simp

lemma core_jobs [simp]: "core (m\<lparr>wm_jobs := j\<rparr>) = core m" by (simp add: core_def)

lemma core_retry_exec [simp]: "core (snd (execute_retry_broadcast_task rx t m)) = core m"
  unfolding execute_retry_broadcast_task_def by (intro core_bind) (simp_all add: core_def split: prod.splits)

lemma token_confirm_send: "token_op env tok Spend (prepare_confirm_send env pid tok m) m"
  unfolding prepare_confirm_send_def by (intro token_pre token_consume core_bind) simp_all

lemma token_bind_post:
  assumes "token_op env tok p x m" and "\<And>a s. core (snd (f a s)) = core s"
  shows "token_op env tok p (bind_se x f) m"
proof -
  have c: "core (snd (bind_se x f)) = core (snd x)" using assms(2) by (simp add: bind_se_pair split: sum.splits)
  have "is_ok (fst (bind_se x f)) \<longrightarrow> is_ok (fst x)" by (simp add: bind_se_pair split: sum.splits)
  then show ?thesis using assms(1) core_eqD[OF c] unfolding token_op_def Let_def by fastforce
qed

lemma token_confirm_task: "token_op env tok Spend (prepare_confirm_send_task env te pid tok m) m"
  unfolding prepare_confirm_send_task_def
  by (intro token_bind_post[OF token_confirm_send]) (auto intro!: core_bind split: prod.splits)

lemma token_shield_task: "token_op env tok Spend (prepare_shield_funds_task env aid tok m) m"
  unfolding prepare_shield_funds_task_def prepare_shield_funds_def
  by (intro token_bind_post token_pre token_consume core_bind) (simp_all split: prod.splits)

lemma token_finalize: "token_op env tok Spend (wm_finalize_signing env ne pe rid sp tok m) m"
  unfolding wm_finalize_signing_def by (intro token_pre token_consume core_bind) simp_all

lemma token_finalize_task: "token_op env tok Spend (prepare_finalize_signing_task env te rid sp tok m) m"
  unfolding prepare_finalize_signing_task_def by (intro token_pre token_consume core_bind) (simp_all split: prod.splits)

lemma token_retry_task: "token_op env tok Spend (prepare_retry_broadcast_task env txid tok m) m"
  unfolding prepare_retry_broadcast_task_def by (intro token_pre token_consume) simp_all

lemma token_retry: "token_op env tok Spend (wm_retry_broadcast env rx txid tok m) m"
  unfolding wm_retry_broadcast_def by (intro token_bind_post[OF token_retry_task]) simp

lemma token_start_send: "token_op env tok Spend (start_send_job env j pid tok m) m"
  unfolding start_send_job_def by (intro token_pre token_consume core_bind) simp_all

lemma token_start_shield: "token_op env tok Spend (start_shield_job env j aid tok m) m"
  unfolding start_shield_job_def by (intro token_pre token_consume core_bind) simp_all

lemma token_view_seed: "token_op env tok ViewSeedPhrase (view_seed_phrase env w tok m) m"
proof (cases "active_watch_only w m")
  case True
  then show ?thesis by (simp add: view_seed_phrase_def token_failed)
next
  case False
  let ?f = "\<lambda>_ m1. (bind_result (require_unlocked_wallet_snapshot w m1) (\<lambda>(wallet, dek).
      bind_result (map_err (with_context ''failed to decrypt mnemonic'') (decrypt_mnemonic env (wi_id wallet) (wi_network wallet) dek m1))
        (\<lambda>phrase. Inr (split_whitespace phrase))), m1)"
  have "view_seed_phrase env w tok m = bind_se (consume_reauth_token env w tok ViewSeedPhrase m) ?f"
    using False by (simp add: view_seed_phrase_def bind_se_def)
  then show ?thesis using token_consume[of m m ?f env tok ViewSeedPhrase w] by simp
qed

section \<open>The remaining operations\<close>

lemma reauth_bind:
  assumes "wm_reauth (snd x) = wm_reauth m" and "\<And>a s. x = (Inr a, s) \<Longrightarrow> wm_reauth s = wm_reauth m \<Longrightarrow> wm_reauth (snd (f a s)) = wm_reauth m"
  shows "wm_reauth (snd (bind_se x f)) = wm_reauth m"
  using assms by (cases x; cases "fst x") auto

lemma challenges_bind:
  assumes "wm_challenges (snd x) = wm_challenges m"
    and "\<And>a s. x = (Inr a, s) \<Longrightarrow> wm_challenges s = wm_challenges m \<Longrightarrow> wm_challenges (snd (f a s)) = wm_challenges m"
  shows "wm_challenges (snd (bind_se x f)) = wm_challenges m"
  using assms by (cases x; cases "fst x") auto

lemmas core_frame_fields [simp] =
  core_steps[THEN core_eqD, THEN conjunct2, THEN conjunct1] core_steps[THEN core_eqD, THEN conjunct2, THEN conjunct2]
  core_insert_first[THEN core_eqD, THEN conjunct2, THEN conjunct1] core_insert_first[THEN core_eqD, THEN conjunct2, THEN conjunct2]
  core_register[THEN core_eqD, THEN conjunct2, THEN conjunct1] core_register[THEN core_eqD, THEN conjunct2, THEN conjunct2]
  core_retry_exec[THEN core_eqD, THEN conjunct1] core_retry_exec[THEN core_eqD, THEN conjunct2, THEN conjunct1]
  core_retry_exec[THEN core_eqD, THEN conjunct2, THEN conjunct2]
  core_steps[THEN core_eqD, THEN conjunct1] core_insert_first[THEN core_eqD, THEN conjunct1] core_register[THEN core_eqD, THEN conjunct1]

lemma issue_challenge_reauth [simp]:
  "wm_reauth (snd (issue_backup_challenge env i pool w m)) = wm_reauth m" "wm_active (snd (issue_backup_challenge env i pool w m)) = wm_active m"
  by (simp_all add: issue_backup_challenge_def Let_def split: option.splits)

lemma activate_pair_reauth:
  "activate_wallet env a m = (r, m') \<Longrightarrow> wm_reauth m' = wm_reauth m \<and> wm_challenges m' = wm_challenges m \<and> wm_active m' = Some a"
  using activate_frame[of env a m] by auto

lemma load_wallet_frame [simp]:
  "wm_reauth (snd (load_wallet env w m)) = wm_reauth m" "wm_challenges (snd (load_wallet env w m)) = wm_challenges m"
  by (auto simp: load_wallet_def Let_def split: option.splits sum.splits prod.splits dest: activate_pair_reauth)

lemma unlock_wallet_frame [simp]:
  "wm_reauth (snd (unlock_wallet env w pw m)) = wm_reauth m" "wm_challenges (snd (unlock_wallet env w pw m)) = wm_challenges m"
  by (auto simp: unlock_wallet_def split: option.splits sum.splits prod.splits dest: activate_pair_reauth)

lemma lock_wallet_frame [simp]:
  "wm_reauth (snd (lock_wallet env w m)) = wm_reauth m" "wm_challenges (snd (lock_wallet env w m)) = wm_challenges m"
  by (simp_all add: lock_wallet_def split: option.splits)

lemma logout_reauth [simp]: "wm_reauth (snd (logout_wallet w m)) = wm_reauth m"
  by (simp add: logout_wallet_def split: option.splits)

lemma verify_frame [simp]: "wm_reauth (snd (verify_backup env w c ans m)) = wm_reauth m" "wm_active (snd (verify_backup env w c ans m)) = wm_active m"
  by (simp_all add: verify_backup_def drop_challenge_def Let_def split: option.splits sum.splits bool.splits)

lemma create_reauth [simp]: "wm_reauth (snd (create_wallet env ce fr n net pw h m)) = wm_reauth m"
  unfolding create_wallet_def Let_def by (intro reauth_bind) simp_all

lemma restore_frame [simp]:
  "wm_reauth (snd (restore_wallet env ce fr n net pw s d m)) = wm_reauth m"
  "wm_challenges (snd (restore_wallet env ce fr n net pw s d m)) = wm_challenges m"
  unfolding restore_wallet_def Let_def by (intro reauth_bind challenges_bind; simp)+

lemma keystone_frame [simp]:
  "wm_reauth (snd (create_keystone_wallet env ce fr n net pw u h fp idx m)) = wm_reauth m"
  "wm_challenges (snd (create_keystone_wallet env ce fr n net pw u h fp idx m)) = wm_challenges m"
  unfolding create_keystone_wallet_def Let_def by (intro reauth_bind challenges_bind; simp)+

lemma import_core [simp]: "core (snd (import_ufvk env ce acc w u n fp idx m)) = core m"
  unfolding import_ufvk_def Let_def by (intro core_bind) (simp_all add: core_def sql_step_def split: prod.splits sum.splits)

lemma prepare_core [simp]:
  "core (snd (wm_prepare_send env se i r m)) = core m" "core (snd (wm_build_signing_request env se pe i r m)) = core m"
  unfolding wm_prepare_send_def wm_build_signing_request_def by (intro core_bind; simp)+

lemma queued_task_core [simp]: "core (snd (prepare_next_queued_broadcast_retry_task env m)) = core m"
  unfolding prepare_next_queued_broadcast_retry_task_def
  by (auto intro!: core_bind split: option.splits list.splits)

lemma snd_count_case: "snd (case x of (Inl _, m2) \<Rightarrow> (Inr 0, m2) | (Inr _, m2) \<Rightarrow> (Inr (1 :: nat), m2)) = snd x"
  by (simp split: prod.splits sum.splits)

lemma queued_retry_core [simp]: "core (snd (process_queued_broadcast_retries env rx m)) = core m"
  unfolding process_queued_broadcast_retries_def
  by (intro core_bind) (simp_all add: snd_count_case split: option.splits)

lemma observe_core [simp]:
  "core (observe_sync_progress env w p m) = core m" "core (observe_sync_stop_requested w m) = core m"
  "core (observe_balance_changed env w a b m) = core m" "core (snd (wm_cancel_job j m)) = core m"
  by (simp_all add: observe_sync_progress_def observe_sync_stop_requested_def observe_balance_changed_def wm_cancel_job_def Let_def core_def
      split: prod.splits)

section \<open>Tokens over all operations\<close>

fun op_token :: "('p, 'z, 'u) wm_op \<Rightarrow> string option" where
  "op_token (OpViewSeed env w tok) = Some tok"
| "op_token (OpFinalize env ne pe rid sp tok) = Some tok"
| "op_token (OpConfirmTask env te pid tok) = Some tok"
| "op_token (OpShieldTask env aid tok) = Some tok"
| "op_token (OpFinalizeTask env te rid sp tok) = Some tok"
| "op_token (OpRetry env rx txid tok) = Some tok"
| "op_token (OpRetryTask env txid tok) = Some tok"
| "op_token (OpStartSend env j pid tok) = Some tok"
| "op_token (OpStartShield env j aid tok) = Some tok"
| "op_token _ = None"

fun is_reauth :: "('p, 'z, 'u) wm_op \<Rightarrow> bool" where
  "is_reauth (OpReauth env tok w pw p) = True"
| "is_reauth _ = False"

definition authorised_by :: "string \<Rightarrow> ('p, 'z, 'u) wm_op \<Rightarrow> ('p, 'q) wallet_manager \<Rightarrow> bool" where
  "authorised_by k op m \<longleftrightarrow> op_token op = Some k \<and> wm_ok op m"

definition password_ok :: "wallet_env \<Rightarrow> uuid \<Rightarrow> string \<Rightarrow> ('p, 'q) wallet_manager \<Rightarrow> bool" where
  "password_ok env w pw m \<longleftrightarrow> pw \<noteq> [] \<and>
     (case get_wallet (wm_app_db m) w of None \<Rightarrow> False | Some (wl, _) \<Rightarrow> is_ok (unwrap_stored_dek env wl w pw (wm_app_db m)))"

fun password_confirmed :: "string \<Rightarrow> ('p, 'z, 'u) wm_op \<Rightarrow> ('p, 'q) wallet_manager \<Rightarrow> bool" where
  "password_confirmed k (OpReauth env tok w pw p) m = (tok = k \<and> password_ok env w pw m)"
| "password_confirmed k _ m = False"

definition wm_token_live :: "('p, 'q) wallet_manager \<Rightarrow> string \<Rightarrow> bool" where
  "wm_token_live m k = token_live (wm_reauth m) k"

lemma reauth_wallet_state:
  "wm_reauth (snd (reauth_wallet env tok w pw p m)) =
     (if password_ok env w pw m then snd (reauth_issue tok (wv_now env) w p (wm_reauth m)) else wm_reauth m)"
  by (auto simp: reauth_wallet_def password_ok_def guard_or_def Let_def split: option.splits sum.splits prod.splits)

text \<open>The operations with a token, as one fact about the step.\<close>

lemma flag_simps [simp]: "fst (flag x) = is_ok (fst x)" "snd (flag x) = snd x"
  by (simp_all add: flag_def)

definition token_effect :: "string \<Rightarrow> reauth_manager \<Rightarrow> bool \<Rightarrow> reauth_manager \<Rightarrow> bool" where
  "token_effect tok s ok s' \<longleftrightarrow> (\<exists>now w p. (s' = s \<or> s' = snd (validate_and_consume now tok w p s))
     \<and> (ok \<longrightarrow> fst (validate_and_consume now tok w p s) = Inr () \<and> s' = snd (validate_and_consume now tok w p s)))"

lemma token_op_effect: "token_op env tok p x m \<Longrightarrow> token_effect tok (wm_reauth m) (is_ok (fst x)) (wm_reauth (snd x))"
  unfolding token_op_def token_effect_def Let_def by (elim exE) (rule exI[of _ "wv_now env"], blast)

lemmas token_ops = token_confirm_task token_shield_task token_finalize token_finalize_task token_retry_task token_retry
  token_start_send token_start_shield token_view_seed

lemmas token_effects = token_ops[THEN token_op_effect]

lemmas other_core = import_core prepare_core queued_retry_core observe_core

lemma token_step_effect:
  "op_token op = Some k \<Longrightarrow> token_effect k (wm_reauth m) (wm_ok op m) (wm_reauth (wm_step op m))"
  by (cases op) (simp_all add: wm_ok_def wm_step_def token_effects)

lemma other_step_reauth:
  "op_token op = None \<Longrightarrow> \<not> is_reauth op \<Longrightarrow> wm_reauth (wm_step op m) = wm_reauth m"
  by (cases op) (simp_all add: wm_step_def get_backup_challenge_def split_def Let_def
      other_core[THEN core_eqD, THEN conjunct2, THEN conjunct1])

lemma token_effect_consumed: "token_effect k s True s' \<Longrightarrow> token_live s k \<and> \<not> token_live s' k"
proof -
  assume "token_effect k s True s'"
  then obtain now w p where v: "fst (validate_and_consume now k w p s) = Inr ()" "s' = snd (validate_and_consume now k w p s)"
    by (auto simp: token_effect_def)
  have "s' = s(k \<mapsto> (the (s k))\<lparr>tr_used := True\<rparr>)" using validate_ok_state[OF v(1)] v(2) by simp
  then show ?thesis using v(1) by (auto simp: token_live_def validate_ok_iff)
qed

lemma token_effect_dead: "token_effect tok s ok s' \<Longrightarrow> \<not> token_live s k \<Longrightarrow> \<not> token_live s' k"
  unfolding token_effect_def by (elim exE conjE disjE) (auto simp: validate_and_consume_def token_live_def split: option.splits if_splits)

interpretation wm_tokens: one_shot wm_step authorised_by password_confirmed wm_token_live
proof
  fix k and op :: "('a, 'b, 'c) wm_op" and m :: "('a, 'd) wallet_manager"
  assume a: "authorised_by k op m"
  then have e: "token_effect k (wm_reauth m) True (wm_reauth (wm_step op m))"
    using token_step_effect[of op k m] by (simp add: authorised_by_def)
  show "wm_token_live m k" "\<not> wm_token_live (wm_step op m) k"
    using token_effect_consumed[OF e] by (simp_all add: wm_token_live_def)
  show "\<not> password_confirmed k op m" using a by (cases op) (auto simp: authorised_by_def)
next
  fix k and op :: "('a, 'b, 'c) wm_op" and m :: "('a, 'd) wallet_manager"
  assume d: "\<not> wm_token_live m k" "\<not> password_confirmed k op m"
  consider (tok) t where "op_token op = Some t" | (re) "op_token op = None" "is_reauth op" | (other) "op_token op = None" "\<not> is_reauth op"
    by (cases "op_token op") auto
  then show "\<not> wm_token_live (wm_step op m) k"
  proof cases
    case tok
    then show ?thesis using token_effect_dead[OF token_step_effect[OF tok]] d(1) by (simp add: wm_token_live_def)
  next
    case re
    then show ?thesis using d
      by (cases op) (auto simp: wm_token_live_def wm_step_def reauth_wallet_state reauth_issue_def token_live_def Let_def split: if_splits)
  qed (use d(1) in \<open>simp add: wm_token_live_def other_step_reauth\<close>)
qed

section \<open>Keys in memory\<close>

text \<open>A wallet is unlocked exactly when its data key and its database are in memory.\<close>

definition keys_wf :: "('p, 'q) wallet_manager \<Rightarrow> bool" where
  "keys_wf m \<longleftrightarrow> (case wm_active m of None \<Rightarrow> True
     | Some a \<Rightarrow> (aw_lock a = Unlocked \<longleftrightarrow> aw_dek a \<noteq> None) \<and> (aw_lock a = Unlocked \<longleftrightarrow> aw_db a))"

definition no_key :: "('p, 'q) wallet_manager \<Rightarrow> bool" where
  "no_key m \<longleftrightarrow> (case wm_active m of None \<Rightarrow> True | Some a \<Rightarrow> aw_lock a = Locked \<and> aw_dek a = None \<and> \<not> aw_db a)"

fun introduces_key :: "('p, 'z, 'u) wm_op \<Rightarrow> bool" where
  "introduces_key (OpUnlock env w pw) = True"
| "introduces_key (OpCreate env ce fr n net pw h) = True"
| "introduces_key (OpRestore env ce fr n net pw s d) = True"
| "introduces_key (OpKeystone env ce fr n net pw u h fp idx) = True"
| "introduces_key _ = False"

fun uses_key :: "('p, 'z, 'u) wm_op \<Rightarrow> bool" where
  "uses_key (OpViewSeed env w tok) = True"
| "uses_key (OpVerify env w c ans) = True"
| "uses_key (OpImport env ce acc w u n fp idx) = True"
| "uses_key (OpPrepareSend env se i r) = True"
| "uses_key (OpBuildSigning env se pe i r) = True"
| "uses_key (OpFinalize env ne pe rid sp tok) = True"
| "uses_key (OpConfirmTask env te pid tok) = True"
| "uses_key (OpShieldTask env aid tok) = True"
| "uses_key (OpFinalizeTask env te rid sp tok) = True"
| "uses_key (OpRetry env rx txid tok) = True"
| "uses_key (OpRetryTask env txid tok) = True"
| "uses_key (OpQueuedRetry env rx) = True"
| "uses_key (OpStartSend env j pid tok) = True"
| "uses_key (OpStartShield env j aid tok) = True"
| "uses_key _ = False"

definition unlocked :: "('p, 'q) wallet_manager \<Rightarrow> bool" where
  "unlocked m \<longleftrightarrow> (\<exists>a. wm_active m = Some a \<and> aw_lock a = Unlocked)"

lemma no_key_not_unlocked: "no_key m \<Longrightarrow> \<not> unlocked m"
  by (auto simp: no_key_def unlocked_def)

lemma require_unlocked:
  "require_unlocked_wallet_snapshot w m = Inr x \<Longrightarrow> unlocked m" "require_unlocked_wallet_db w m = Inr y \<Longrightarrow> unlocked m"
  "require_active_unlocked_wallet_db m = Inr y \<Longrightarrow> unlocked m" "unlocked_wallet_dek w m = Inr k \<Longrightarrow> unlocked m"
  "get_tx_operation_context env m = Inr c \<Longrightarrow> unlocked m" "derive_unified_spending_key env w aid m = Inr usk \<Longrightarrow> unlocked m"
  "build_retry_broadcast_task env txid b m = Inr t \<Longrightarrow> unlocked m" "check_backup_words env w ix ans m = Inr r \<Longrightarrow> unlocked m"
  by (auto simp: require_unlocked_wallet_snapshot_def require_unlocked_wallet_db_def require_active_unlocked_wallet_db_def unlocked_wallet_dek_def
      get_tx_operation_context_def derive_unified_spending_key_def build_retry_broadcast_task_def check_backup_words_def unlocked_def
      bind_result_ok active_or_locked_def split: option.splits if_splits prod.splits)

text \<open>\<open>needs_key\<close>: the operation succeeds only with an unlocked wallet.\<close>

definition needs_key :: "('e, 'a) result \<times> ('p, 'q) wallet_manager \<Rightarrow> ('p, 'q) wallet_manager \<Rightarrow> bool" where
  "needs_key x m \<longleftrightarrow> (is_ok (fst x) \<longrightarrow> unlocked m)"

lemma unlocked_cong: "wm_active s = wm_active m \<Longrightarrow> unlocked s = unlocked m"
  by (simp add: unlocked_def)

lemma needs_here:
  assumes "wm_active s = wm_active m" and "\<And>a. r = Inr a \<Longrightarrow> unlocked s"
  shows "needs_key (bind_se (result_step r s) f) m"
  using assms unlocked_cong[OF assms(1)] by (cases r) (auto simp: needs_key_def bind_se_pair)

lemma needs_later:
  assumes "wm_active (snd x) = wm_active m" and "\<And>a s. wm_active s = wm_active m \<Longrightarrow> needs_key (f a s) m"
  shows "needs_key (bind_se x f) m"
  using assms by (cases "fst x") (auto simp: needs_key_def bind_se_pair)

lemma needs_bind: "needs_key x m \<Longrightarrow> needs_key (bind_se x f) m"
  by (cases "fst x") (auto simp: needs_key_def bind_se_pair)

lemma needs_prepare_send: "needs_key (wm_prepare_send env se i r m) m" "needs_key (wm_build_signing_request env se pe i r m) m"
  unfolding wm_prepare_send_def wm_build_signing_request_def by (rule needs_here; auto dest: require_unlocked)+

lemma needs_import: "needs_key (import_ufvk env ce acc w u n fp idx m) m"
  unfolding import_ufvk_def Let_def by (rule needs_later, simp, rule needs_here) (auto dest: require_unlocked)

lemma needs_finalize: "needs_key (wm_finalize_signing env ne pe rid sp tok m) m"
  unfolding wm_finalize_signing_def by (rule needs_later, simp, rule needs_here) (auto dest: require_unlocked)

lemma needs_confirm: "needs_key (prepare_confirm_send env pid tok m) m"
  unfolding prepare_confirm_send_def
  by (rule needs_later, simp, rule needs_later, simp, rule needs_later, simp, rule needs_here) (auto dest: require_unlocked)

lemma needs_confirm_task: "needs_key (prepare_confirm_send_task env te pid tok m) m"
  unfolding prepare_confirm_send_task_def by (rule needs_bind[OF needs_confirm])

lemma needs_shield_task: "needs_key (prepare_shield_funds_task env aid tok m) m"
  unfolding prepare_shield_funds_task_def prepare_shield_funds_def
  by (rule needs_bind, rule needs_later, simp, rule needs_later, simp, rule needs_later, simp, rule needs_here) (auto dest: require_unlocked)

lemma needs_finalize_task: "needs_key (prepare_finalize_signing_task env te rid sp tok m) m"
  unfolding prepare_finalize_signing_task_def
  by (rule needs_later, simp, rule needs_later, simp, rule needs_here) (auto dest: require_unlocked)

lemma needs_retry_task: "needs_key (prepare_retry_broadcast_task env txid tok m) m"
  unfolding prepare_retry_broadcast_task_def
  by (rule needs_later, simp, rule needs_later, simp)
    (auto simp: needs_key_def is_ok_iff unlocked_def dest: require_unlocked(7))

lemma needs_start: "needs_key (start_send_job env j pid tok m) m" "needs_key (start_shield_job env j aid tok m) m"
  unfolding start_send_job_def start_shield_job_def
  by (rule needs_later, simp, rule needs_later, simp, rule needs_here; auto dest: require_unlocked)+

lemma consume_unlocked: "consume_reauth_token env w tok p m = (r, m1) \<Longrightarrow> unlocked m1 = unlocked m"
  using consume_frame(2)[of env w tok p m] by (simp add: unlocked_def)

lemma needs_view_seed: "needs_key (view_seed_phrase env w tok m) m"
  by (auto simp: needs_key_def view_seed_phrase_def is_ok_iff bind_result_ok consume_unlocked split: if_splits prod.splits sum.splits
      dest!: require_unlocked(1))

lemma needs_verify: "needs_key (verify_backup env w c ans m) m"
  by (auto simp: needs_key_def verify_backup_def is_ok_iff Let_def split: if_splits option.splits sum.splits bool.splits dest: require_unlocked(8))

lemma queued_needs_key: "process_queued_broadcast_retries env rx m = (Inr (Suc 0), m') \<Longrightarrow> unlocked m"
  by (auto simp: process_queued_broadcast_retries_def prepare_next_queued_broadcast_retry_task_def unlocked_def split: option.splits if_splits)

lemmas needs_facts = needs_prepare_send needs_import needs_finalize needs_confirm_task needs_shield_task needs_finalize_task needs_retry_task
  needs_bind[OF needs_retry_task] needs_start needs_view_seed needs_verify

lemma uses_key_unlocked: "uses_key op \<Longrightarrow> wm_ok op m \<Longrightarrow> unlocked m"
  by (cases op) (auto simp: wm_ok_def wm_retry_broadcast_def split: prod.splits
      dest: needs_facts[unfolded needs_key_def, rule_format] intro: queued_needs_key)

lemma token_op_active: "token_op env tok p x m \<Longrightarrow> wm_active (snd x) = wm_active m \<and> wm_challenges (snd x) = wm_challenges m"
  by (auto simp: token_op_def Let_def)

lemmas token_op_actives = token_ops[THEN token_op_active, THEN conjunct1]
lemmas token_op_challenges = token_ops[THEN token_op_active, THEN conjunct2]

fun moves_wallet :: "('p, 'z, 'u) wm_op \<Rightarrow> bool" where
  "moves_wallet (OpLoad env w) = True"
| "moves_wallet (OpLock env w) = True"
| "moves_wallet (OpLogout w) = True"
| "moves_wallet op = introduces_key op"

lemma reauth_active [simp]: "wm_active (snd (reauth_wallet env tok w pw p m)) = wm_active m" "wm_challenges (snd (reauth_wallet env tok w pw p m)) = wm_challenges m"
  by (simp_all add: reauth_wallet_def Let_def split: sum.splits prod.splits)

lemma step_active: "\<not> moves_wallet op \<Longrightarrow> wm_active (wm_step op m) = wm_active m"
  by (cases op) (simp_all add: wm_step_def get_backup_challenge_def split_def Let_def token_op_actives other_core[THEN core_eqD, THEN conjunct1])

definition active_wf :: "active_wallet \<Rightarrow> bool" where
  "active_wf a \<longleftrightarrow> (aw_lock a = Unlocked \<longleftrightarrow> aw_dek a \<noteq> None) \<and> (aw_lock a = Unlocked \<longleftrightarrow> aw_db a)"

lemma keys_wf_alt: "keys_wf m \<longleftrightarrow> (\<forall>a. wm_active m = Some a \<longrightarrow> active_wf a)"
  by (simp add: keys_wf_def active_wf_def split: option.splits)

lemma snd_case_map: "snd (case x of (Inl e, m2) \<Rightarrow> (Inl e, m2) | (Inr u, m2) \<Rightarrow> (Inr (h u), m2)) = snd x"
  by (simp split: prod.splits sum.splits)

lemma load_active:
  "wm_active (snd (load_wallet env w m)) = wm_active m
   \<or> (\<exists>a. wm_active (snd (load_wallet env w m)) = Some a \<and> aw_lock a = Locked \<and> aw_dek a = None \<and> \<not> aw_db a)
   \<or> (\<exists>a wl. wm_active m = Some a \<and> wm_active (snd (load_wallet env w m)) = Some (a\<lparr>aw_wallet := wl\<rparr>))"
  unfolding load_wallet_def Let_def by (simp add: snd_case_map split: option.splits) blast

lemma load_keeps_keys: "keys_wf m \<Longrightarrow> keys_wf (snd (load_wallet env w m))"
  using load_active[of env w m] by (auto simp: keys_wf_def split: option.splits)

lemma load_without_key: "no_key m \<Longrightarrow> no_key (snd (load_wallet env w m))"
  using load_active[of env w m] by (auto simp: no_key_def split: option.splits)

text \<open>An operation that opens a wallet leaves the old active wallet or one that is unlocked with its key and database.\<close>

lemma unlock_active: "wm_active (snd (unlock_wallet env w pw m)) = wm_active m \<or> (\<exists>a. wm_active (snd (unlock_wallet env w pw m)) = Some a \<and> active_wf a)"
  by (auto simp: unlock_wallet_def active_wf_def split: option.splits sum.splits prod.splits dest: activate_pair_reauth)

definition opens :: "('p, 'q) wallet_manager \<Rightarrow> ('p, 'q) wallet_manager \<Rightarrow> bool" where
  "opens m m' \<longleftrightarrow> wm_active m' = wm_active m \<or> (\<exists>a. wm_active m' = Some a \<and> active_wf a)"

lemma opens_bind:
  assumes "wm_active (snd x) = wm_active m" and "\<And>a s. wm_active s = wm_active m \<Longrightarrow> opens m (snd (f a s))"
  shows "opens m (snd (bind_se x f))"
  using assms by (cases "fst x") (auto simp: bind_se_pair opens_def)

lemma opens_activate: "opens m (snd (bind_se (activate_wallet env (unlocked_wallet env wl k) s) (\<lambda>_ m'. (Inr r, m'))))"
  by (auto simp: opens_def bind_se_pair unlocked_wallet_def active_wf_def split: sum.splits)

lemma create_opens: "opens m (snd (create_wallet env ce fr n net pw h m))" "opens m (snd (restore_wallet env ce fr n net pw s d m))"
  "opens m (snd (create_keystone_wallet env ce fr n net pw u h fp idx m))"
  unfolding create_wallet_def restore_wallet_def create_keystone_wallet_def Let_def
  by (intro opens_bind opens_activate; simp)+

lemma opens_keys_wf: "opens m m' \<Longrightarrow> keys_wf m \<Longrightarrow> keys_wf m'"
  by (auto simp: opens_def keys_wf_alt)

lemma step_keys_wf: "keys_wf m \<Longrightarrow> keys_wf (wm_step op m)"
proof (cases "moves_wallet op")
  case True
  assume k: "keys_wf m"
  have l: "keys_wf (snd (lock_wallet env w m))" "keys_wf (snd (logout_wallet w m))" for env w
    using k by (auto simp: lock_wallet_def logout_wallet_def keys_wf_def split: option.splits)
  note o = create_opens[THEN opens_keys_wf, OF k] unlock_active[folded opens_def, THEN opens_keys_wf, OF k] load_keeps_keys[OF k]
  show ?thesis using True by (cases op) (simp_all add: wm_step_def l o)
qed (simp add: keys_wf_def step_active)

lemma step_no_key: "no_key m \<Longrightarrow> \<not> introduces_key op \<Longrightarrow> no_key (wm_step op m)"
proof (cases "moves_wallet op")
  case True
  assume k: "no_key m" "\<not> introduces_key op"
  have l: "no_key (snd (lock_wallet env w m))" "no_key (snd (logout_wallet w m))" for env w
    using k(1) by (simp_all add: lock_wallet_def logout_wallet_def no_key_def split: option.splits)
  show ?thesis using True k(2) by (cases op) (simp_all add: wm_step_def l load_without_key[OF k(1)])
qed (simp add: no_key_def step_active)

lemma lock_removes_key: "wm_active m = Some a \<Longrightarrow> no_key (snd (lock_wallet env (wi_id (aw_wallet a)) m))"
  by (simp add: lock_wallet_def no_key_def)

lemma no_key_run:
  "no_key m \<Longrightarrow> list_all (\<lambda>op. \<not> introduces_key op) ops \<Longrightarrow>
     no_key (run_ops wm_step ops m) \<and> count_ops wm_step (\<lambda>op s. uses_key op \<and> wm_ok op s) ops m = 0"
proof (induction ops arbitrary: m)
  case (Cons op ops)
  have "\<not> (uses_key op \<and> wm_ok op m)" using uses_key_unlocked[of op m] no_key_not_unlocked[OF Cons.prems(1)] by blast
  then show ?case using Cons step_no_key[of m op] by simp
qed simp

section \<open>Backup challenges\<close>

text \<open>A wrong guess: the words of a live challenge were compared and did not match.\<close>

fun wrong_guess :: "uuid \<Rightarrow> ('p, 'z, 'u) wm_op \<Rightarrow> ('p, 'q) wallet_manager \<Rightarrow> bool" where
  "wrong_guess w (OpVerify env w' cid ans) m \<longleftrightarrow> w' = w \<and> \<not> active_watch_only w m \<and>
     (case wm_challenges m w of None \<Rightarrow> False
      | Some c \<Rightarrow> bc_id c = cid \<and> wv_now_ms env \<le> bc_expires_at c \<and> bc_failed_attempts c < 5
               \<and> check_backup_words env w (bc_indices c) ans m = Inr False)"
| "wrong_guess w _ m = False"

fun issues_challenge :: "('p, 'z, 'u) wm_op \<Rightarrow> bool" where
  "issues_challenge (OpChallenge env i pool w) = True"
| "issues_challenge (OpCreate env ce fr n net pw h) = True"
| "issues_challenge _ = False"

definition guesses_left :: "uuid \<Rightarrow> ('p, 'q) wallet_manager \<Rightarrow> nat" where
  "guesses_left w m = (case wm_challenges m w of None \<Rightarrow> 0 | Some c \<Rightarrow> 5 - bc_failed_attempts c)"

lemma verify_guesses:
  "guesses_left w (snd (verify_backup env w' cid ans m)) + (if wrong_guess w (OpVerify env w' cid ans) m then 1 else 0) \<le> guesses_left w m"
  by (auto simp: guesses_left_def verify_backup_def drop_challenge_def Let_def min_def split: option.splits sum.splits bool.splits)

lemma step_guesses:
  "\<not> issues_challenge op \<Longrightarrow> guesses_left w (wm_step op m) + (if wrong_guess w op m then 1 else 0) \<le> guesses_left w m"
proof (cases op)
  case (OpLogout w')
  then show ?thesis by (simp add: wm_step_def logout_wallet_def guesses_left_def split: option.splits)
next
  case (OpVerify env w' cid ans)
  show ?thesis using verify_guesses[of w env w' cid ans m] by (simp only: OpVerify wm_step_def wm_exec.simps flag_simps)
qed (simp_all add: wm_step_def guesses_left_def split_def Let_def token_op_challenges other_core[THEN core_eqD, THEN conjunct2, THEN conjunct2])

lemma run_guesses:
  "list_all (\<lambda>op. \<not> issues_challenge op) ops \<Longrightarrow> count_ops wm_step (wrong_guess w) ops m \<le> guesses_left w m"
proof (induction ops arbitrary: m)
  case (Cons op ops)
  then have "count_ops wm_step (wrong_guess w) ops (wm_step op m) \<le> guesses_left w (wm_step op m)" by simp
  then show ?case using step_guesses[of op w m] Cons.prems by (cases "wrong_guess w op m") simp_all
qed simp

section \<open>Properties\<close>

lemma dead_tokens_bounded:
  "\<not> wm_token_live m k \<Longrightarrow> count_ops wm_step (authorised_by k) ops m \<le> count_ops wm_step (password_confirmed k) ops m"
  using wm_tokens.grants_bounded[of k ops m] by simp

text \<open>C8: Money moves, and the seed phrase is shown, only after the password was confirmed, once per confirmation.  In every
  sequence of operations on a fresh wallet manager, the operations that succeed with a re-authentication token k (confirming a send, shielding,
  finalising a hardware signature, retrying a broadcast, starting a send or shield job, viewing the phrase) are at most as many as
  the re-authentications that handed out k, each of which unwrapped the stored key with the given password.\<close>

theorem spending_needs_password:
  "let m = wallet_manager_new db tx mnemonics files queues d in
   count_ops wm_step (authorised_by k) ops m \<le> count_ops wm_step (password_confirmed k) ops m"
  unfolding Let_def by (rule dead_tokens_bounded) (simp add: wm_token_live_def token_live_def wallet_manager_new_def reauth_new_def)

text \<open>C10: A locked wallet is inert.  After any sequence of operations the active wallet is unlocked exactly when its data key and its database
  are in memory; and once it has been locked, no sequence of operations without an unlock or a newly created wallet brings a key back or lets
  any operation succeed that needs one (viewing the phrase, verifying a backup, importing an account, preparing, signing,
  confirming, shielding, retrying, starting jobs).\<close>

theorem locked_wallet_is_inert:
  assumes "m = run_ops wm_step ops (wallet_manager_new db tx mnemonics files queues d)" and "wm_active m = Some a"
    and "list_all (\<lambda>op. \<not> introduces_key op) later"
  shows "keys_wf m \<and> no_key (run_ops wm_step later (snd (lock_wallet env (wi_id (aw_wallet a)) m)))
     \<and> count_ops wm_step (\<lambda>op s. uses_key op \<and> wm_ok op s) later (snd (lock_wallet env (wi_id (aw_wallet a)) m)) = 0"
proof -
  have "keys_wf m" unfolding assms(1) by (rule run_ops_invariant, rule step_keys_wf) (simp_all add: keys_wf_def wallet_manager_new_def)
  then show ?thesis using no_key_run[OF lock_removes_key[OF assms(2)] assms(3)] by simp
qed

definition demo_later :: "(unit, unit, unit) wm_op list" where
  "demo_later = [OpLoad demo_wallet_env ''w'', OpReauth demo_wallet_env ''t'' ''w'' ''pw'' Spend, OpStartShield demo_wallet_env ''j'' 0 ''t'']"

theorem locked_wallet_is_inert_witness:
  "\<exists>m a. wm_active m = Some a \<and> aw_dek a \<noteq> None
     \<and> m = run_ops wm_step [OpCreate demo_wallet_env demo_create_env demo_fresh ''n'' Mainnet ''pw'' None :: (unit, unit, unit) wm_op] demo_manager
     \<and> count_ops wm_step (\<lambda>op s. uses_key op \<and> wm_ok op s) demo_later (snd (lock_wallet demo_wallet_env (wi_id (aw_wallet a)) m)) = 0"
proof -
  let ?op = "OpCreate demo_wallet_env demo_create_env demo_fresh ''n'' Mainnet ''pw'' None :: (unit, unit, unit) wm_op"
  obtain wl ch m where c: "create_wallet demo_wallet_env demo_create_env demo_fresh ''n'' Mainnet ''pw'' None demo_manager = (Inr (wl, demo_words, ch), m)"
    using demo_create by blast
  have h: "crypto_ok (wv_crypto demo_wallet_env)" "length (wr_dek demo_fresh) = 32" "length (wr_mnemonic_nonce demo_fresh) = 24"
    using demo_crypto_ok by (simp_all add: demo_wallet_env_def demo_fresh_def)
  have m: "m = run_ops wm_step [?op] demo_manager" using c by (simp add: wm_step_def)
  have a: "wm_active m = Some (unlocked_wallet demo_wallet_env wl (wr_dek demo_fresh))" using create_wallet_secrets(5)[OF c h] .
  have "list_all (\<lambda>op. \<not> introduces_key op) demo_later" by (simp add: demo_later_def)
  then show ?thesis
    using locked_wallet_is_inert[OF m[unfolded demo_manager_def] a, of demo_later demo_wallet_env] a m by (auto simp: unlocked_wallet_def)
qed

lemma check_words_ok:
  assumes "check_backup_words env w ix ans m = Inr True"
  obtains a k phrase where "wm_active m = Some a" "wi_id (aw_wallet a) = w" "aw_lock a = Unlocked" "aw_dek a = Some k"
    "decrypt_mnemonic env w (wi_network (aw_wallet a)) k m = Inr phrase" "length (split_whitespace phrase) = 24"
    "backup_words_match (split_whitespace phrase) ix ans"
  using assms
  by (auto simp: check_backup_words_def bind_result_ok require_unlocked_wallet_snapshot_def Let_def split: option.splits if_splits)

lemma verify_ok:
  assumes "verify_backup env w cid ans m = (Inr u, m')"
  obtains c db where "wm_challenges m w = Some c" "bc_id c = cid" "wv_now_ms env \<le> bc_expires_at c" "bc_failed_attempts c < 5"
    "check_backup_words env w (bc_indices c) ans m = Inr True" "mark_backup_complete w (wv_now_ms env) ''challenge'' (wm_app_db m) = Inr db"
    "wm_app_db m' = db" "wm_challenges m' w = None"
  using assms by (auto simp: verify_backup_def Let_def drop_challenge_def split: if_splits option.splits sum.splits bool.splits)

lemma mark_backup_get: "mark_backup_complete w t v db = Inr db' \<Longrightarrow> get_backup_required db' w = Some False"
  by (auto simp: mark_backup_complete_def get_backup_required_def find_upsert_same split: if_splits option.splits)

text \<open>C13: A backup counts as verified only when the user has the words.  If \<open>verify_backup\<close> accepts, the challenge was the issued one, not expired
  and with fewer than five failures, the wallet was active and unlocked, its stored phrase has 24 words, and for every position the challenge
  asks, the answer (trimmed, in any case) is the word at that position; the wallet is then recorded as backed up and the challenge is gone.
  And without a new challenge, no sequence of operations of any kind gets more than five wrong guesses.\<close>

theorem backup_confirmed_by_words:
  assumes "verify_backup env w cid ans m = (Inr u, m')" and "list_all (\<lambda>op. \<not> issues_challenge op) ops"
  shows "(\<exists>c a k phrase. wm_challenges m w = Some c \<and> bc_id c = cid \<and> wv_now_ms env \<le> bc_expires_at c \<and> bc_failed_attempts c < 5
       \<and> wm_active m = Some a \<and> wi_id (aw_wallet a) = w \<and> aw_lock a = Unlocked \<and> aw_dek a = Some k
       \<and> decrypt_mnemonic env w (wi_network (aw_wallet a)) k m = Inr phrase \<and> length (split_whitespace phrase) = 24
       \<and> (\<forall>i \<in> set (bc_indices c). 1 \<le> i \<and> i \<le> 24 \<and>
            (\<exists>word. ans i = Some word \<and> to_lowercase (trim word) = to_lowercase (split_whitespace phrase ! (i - 1)))))
     \<and> get_backup_required (wm_app_db m') w = Some False \<and> wm_challenges m' w = None
     \<and> count_ops wm_step (wrong_guess w) ops s \<le> 5"
proof -
  obtain c db where c: "wm_challenges m w = Some c" "bc_id c = cid" "wv_now_ms env \<le> bc_expires_at c" "bc_failed_attempts c < 5"
    "check_backup_words env w (bc_indices c) ans m = Inr True" "mark_backup_complete w (wv_now_ms env) ''challenge'' (wm_app_db m) = Inr db"
    "wm_app_db m' = db" "wm_challenges m' w = None"
    using verify_ok[OF assms(1)] .
  obtain a k phrase where a: "wm_active m = Some a" "wi_id (aw_wallet a) = w" "aw_lock a = Unlocked" "aw_dek a = Some k"
    "decrypt_mnemonic env w (wi_network (aw_wallet a)) k m = Inr phrase" "length (split_whitespace phrase) = 24"
    "backup_words_match (split_whitespace phrase) (bc_indices c) ans"
    using check_words_ok[OF c(5)] .
  have "\<forall>i \<in> set (bc_indices c). 1 \<le> i \<and> i \<le> 24 \<and>
      (\<exists>word. ans i = Some word \<and> to_lowercase (trim word) = to_lowercase (split_whitespace phrase ! (i - 1)))"
    using a(7) unfolding backup_words_match_def list_all_iff a(6) by (fastforce split: option.splits)
  moreover have "count_ops wm_step (wrong_guess w) ops s \<le> 5"
    using run_guesses[OF assms(2), of w s] by (simp add: guesses_left_def split: option.splits)
  ultimately show ?thesis using a c mark_backup_get[OF c(6)] by blast
qed

lemma create_challenge:
  assumes "create_wallet env ce fr n net pw h m = (Inr (wl, words, ch), m')"
  shows "wm_challenges m' (wi_id wl) = Some ch"
    and "ch = \<lparr>bc_id = wr_challenge_id fr, bc_indices = sort (take 4 (wr_pool fr)), bc_expires_at = wv_now_ms env + 10 * 60 * 1000, bc_failed_attempts = 0\<rparr>"
proof -
  obtain m8 m9 where s: "issue_backup_challenge env (wr_challenge_id fr) (wr_pool fr) (wi_id wl) m8 = (Inr ch, m9)"
    "activate_wallet env (unlocked_wallet env wl (wr_dek fr)) m9 = (Inr (), m')"
    using assms by (auto simp: create_wallet_def Let_def wallet_steps)
  show "ch = \<lparr>bc_id = wr_challenge_id fr, bc_indices = sort (take 4 (wr_pool fr)), bc_expires_at = wv_now_ms env + 10 * 60 * 1000, bc_failed_attempts = 0\<rparr>"
    "wm_challenges m' (wi_id wl) = Some ch"
    using s(1) activate_pair_reauth[OF s(2)] by (auto simp: issue_backup_challenge_def Let_def split: option.splits)
qed

lemma check_words_of_secrets:
  assumes "has_secrets env wl pw k words m" and "wm_active m = Some (unlocked_wallet env wl k)" and "wv_read_ok env"
    and "list_all plain_word words" and "length words = 24" and "backup_words_match words ix ans"
  shows "check_backup_words env (wi_id wl) ix ans m = Inr True"
proof -
  have "decrypt_mnemonic env (wi_id wl) (wi_network wl) k m = Inr (join_words words)"
    using assms(1,3) utf8_ascii[OF join_words_ascii[OF assms(4)]]
    by (auto simp: decrypt_mnemonic_def load_encrypted_mnemonic_def has_secrets_def)
  then show ?thesis using assms(2,5,6) split_join_words[OF assms(4)]
    by (simp add: check_backup_words_def require_unlocked_wallet_snapshot_def unlocked_wallet_def)
qed

lemma demo_answers: "backup_words_match demo_words (sort (take 4 [1..<25])) (\<lambda>_. Some ''abandon'')"
proof -
  have t: "take 4 [1..<25] = [1, 2, 3, 4 :: nat]" by (simp add: upt_rec)
  have "trim ''abandon'' = ''abandon''" by (simp add: trim_def trim_start_def trim_end_def is_ws_def)
  then show ?thesis unfolding t by (simp add: backup_words_match_def demo_words_def)
qed

theorem backup_confirmed_by_words_witness:
  "\<exists>m m'. verify_backup demo_wallet_env ''w'' ''c'' (\<lambda>_. Some ''abandon'') m = (Inr (), m')
     \<and> m = snd (create_wallet demo_wallet_env demo_create_env demo_fresh ''n'' Mainnet ''pw'' None demo_manager)
     \<and> get_backup_required (wm_app_db m') ''w'' = Some False \<and> count_ops wm_step (wrong_guess ''w'') demo_later m \<le> 5"
proof -
  obtain ch m where c: "create_wallet demo_wallet_env demo_create_env demo_fresh ''n'' Mainnet ''pw'' None demo_manager
     = (Inr (new_wallet_info demo_wallet_env demo_fresh ''n'' SoftwareWallet Mainnet, demo_words, ch), m)" using demo_create by blast
  have h: "crypto_ok (wv_crypto demo_wallet_env)" "length (wr_dek demo_fresh) = 32" "length (wr_mnemonic_nonce demo_fresh) = 24"
    "wi_id (new_wallet_info demo_wallet_env demo_fresh ''n'' SoftwareWallet Mainnet) = ''w''" "wv_read_ok demo_wallet_env" "wv_now_ms demo_wallet_env = 0"
    "list_all plain_word demo_words" "wr_challenge_id demo_fresh = ''c''" "wr_pool demo_fresh = [1..<25]"
    using demo_crypto_ok by (simp_all add: demo_wallet_env_def demo_fresh_def new_wallet_info_def demo_words_def plain_word_def is_ws_def list_all_iff)
  note s = create_wallet_secrets[OF c h(1-3)]
  have w: "check_backup_words demo_wallet_env ''w'' (bc_indices ch) (\<lambda>_. Some ''abandon'') m = Inr True"
    using check_words_of_secrets[OF s(1,5) h(5,7) s(3)] demo_answers h(4,9) create_challenge(2)[OF c] by simp
  have "wallet_exists (wm_app_db m) ''w''"
    using s(1) h(4) by (auto simp: has_secrets_def get_wallet_def wallet_exists_def list_ex_iff dest!: find_some_in)
  then obtain db where db: "mark_backup_complete ''w'' 0 ''challenge'' (wm_app_db m) = Inr db" by (simp add: mark_backup_complete_def)
  have "\<not> active_watch_only ''w'' m" using s(5) by (simp add: active_watch_only_def unlocked_wallet_def new_wallet_info_def)
  then have "\<exists>m'. verify_backup demo_wallet_env ''w'' ''c'' (\<lambda>_. Some ''abandon'') m = (Inr (), m')"
    using create_challenge[OF c] h(4,6,8) w db by (simp add: verify_backup_def)
  then obtain m' where v: "verify_backup demo_wallet_env ''w'' ''c'' (\<lambda>_. Some ''abandon'') m = (Inr (), m')" by blast
  have "list_all (\<lambda>op. \<not> issues_challenge op) demo_later" by (simp add: demo_later_def)
  then show ?thesis using backup_confirmed_by_words[OF v, of demo_later m] v c by auto
qed

end
