(* ===== verification/Tx_History.thy ===== *)
theory Tx_History
  imports Wallet_Manager "HOL-Library.Multiset"
begin

text \<open>
  The transaction history: \<open>list_transactions\<close> and \<open>fetch_transaction_memos\<close> of \<open>crates/zbag-engine/src/tx_service.rs\<close>, with the wrapper of
  \<open>wallet_manager.rs\<close>.  The rows of the view \<open>v_transactions\<close> and of the note tables are concrete; the text of a transaction id, the parser of memos and the chain height
  come from the Zcash libraries and are fields of \<open>history_env\<close>, as are failing statements.  Listing also cleans up: the files of a queued transaction that has expired
  are removed.  The theorems relate what is shown to the queue that is left, and pages to the whole history.
\<close>

section \<open>Tables\<close>

record tx_row =
  vt_account_uuid :: uuid
  vt_txid :: bytes
  vt_mined_height :: "int option"
  vt_expiry_height :: "int option"
  vt_fee_paid :: "int option"
  vt_total_spent :: int
  vt_total_received :: int
  vt_block_time :: "int option"
  vt_is_shielding :: bool
  vt_sent_note_count :: int
  vt_received_note_count :: int

record note_row =
  nt_transaction_id :: nat
  nt_memo :: "bytes option"

record history_db =
  hd_view :: "tx_row list"
  hd_transactions :: "(nat \<times> bytes) list"
  hd_orchard :: "note_row list"
  hd_sapling :: "note_row list"
  hd_sent :: "note_row list"

datatype parsed_memo = TextMemo string | EmptyMemo | OtherMemo

text \<open>\<open>hx_rank\<close> is the order in which the union of the memo queries returns its rows; \<open>hx_parse_memo\<close> is \<open>None\<close> for bytes that are no memo.\<close>

record history_env =
  hx_txid_text :: "bytes \<Rightarrow> string"
  hx_chain_height :: "nat option"
  hx_parse_memo :: "bytes \<Rightarrow> parsed_memo option"
  hx_rank :: "bytes \<Rightarrow> nat"
  hx_io :: io_env
  hx_now :: system_time
  hx_now_ms :: unix_ms
  hx_accounts :: wallet_accounts
  hx_count_ok :: bool
  hx_query_ok :: bool
  hx_row_ok :: "bytes \<Rightarrow> bool"
  hx_memo_ok :: "bytes \<Rightarrow> bool"

section \<open>Memos\<close>

datatype memo_kind = KText | KBinary | KEmpty

record memo_info =
  mi_kind :: memo_kind
  mi_content :: "string option"
  mi_size_bytes :: nat

definition binary_memo :: "bytes \<Rightarrow> memo_info" where
  "binary_memo b = \<lparr>mi_kind = KBinary, mi_content = Some (''[binary: '' @ show_nat (length b mod 2 ^ 32) @ '' bytes]''), mi_size_bytes = length b mod 2 ^ 32\<rparr>"

definition memo_info_of :: "history_env \<Rightarrow> bytes \<Rightarrow> memo_info" where
  "memo_info_of env b =
     (case hx_parse_memo env b of
        Some (TextMemo t) \<Rightarrow> \<lparr>mi_kind = KText, mi_content = Some t, mi_size_bytes = length b mod 2 ^ 32\<rparr>
      | Some EmptyMemo \<Rightarrow> \<lparr>mi_kind = KEmpty, mi_content = None, mi_size_bytes = 0\<rparr>
      | Some OtherMemo \<Rightarrow> binary_memo b
      | None \<Rightarrow> binary_memo b)"

text \<open>One of the three joined queries.\<close>

definition memos_of_table :: "(nat \<times> bytes) list \<Rightarrow> bytes \<Rightarrow> note_row list \<Rightarrow> bytes list" where
  "memos_of_table txs txid rows =
     List.map_filter (\<lambda>n. if (nt_transaction_id n, txid) \<in> set txs then nt_memo n else None) rows"

definition fetch_transaction_memos :: "history_env \<Rightarrow> history_db \<Rightarrow> bytes \<Rightarrow> (engine_error, memo_info list) result" where
  "fetch_transaction_memos env db txid =
     (if \<not> hx_memo_ok env txid then Inl (msg_err ''sql error'')
      else let q = memos_of_table (hd_transactions db) txid
           in Inr (map (memo_info_of env) (sort_key (hx_rank env) (remdups (q (hd_orchard db) @ q (hd_sapling db) @ q (hd_sent db))))))"

section \<open>One row\<close>

datatype transaction_type = SendTx | ReceiveTx | ShieldTx | ConsolidateTx

record transaction_info =
  ti_txid :: string
  ti_account_id :: nat
  ti_tx_type :: transaction_type
  ti_value :: string
  ti_fee :: string
  ti_memo_count :: nat
  ti_memos :: "memo_info list"
  ti_status :: transaction_status
  ti_last_error :: "string option"
  ti_can_retry_broadcast :: bool
  ti_mined_height :: "nat option"
  ti_created_at :: unix_ms
  ti_confirmed_at :: "unix_ms option"

definition row_type :: "tx_row \<Rightarrow> transaction_type" where
  "row_type r = (if vt_is_shielding r then ShieldTx else if 0 < vt_sent_note_count r then SendTx else if 0 < vt_received_note_count r then ReceiveTx else ConsolidateTx)"

definition row_fee :: "tx_row \<Rightarrow> nat" where
  "row_fee r = (case vt_fee_paid r of None \<Rightarrow> 0 | Some f \<Rightarrow> nat f)"

definition row_value :: "tx_row \<Rightarrow> nat" where
  "row_value r =
     (case row_type r of SendTx \<Rightarrow> nat (vt_total_spent r) - nat (vt_total_received r) - row_fee r | _ \<Rightarrow> nat (vt_total_received r))"

definition height_u32 :: "int option \<Rightarrow> nat option" where
  "height_u32 h = Option.bind h (\<lambda>x. if 0 \<le> x \<and> x \<le> int u32_max then Some (nat x) else None)"

definition row_expired :: "nat option \<Rightarrow> tx_row \<Rightarrow> bool" where
  "row_expired chain_height r \<longleftrightarrow>
     height_u32 (vt_mined_height r) = None
     \<and> (case (height_u32 (vt_expiry_height r), chain_height) of (Some expiry, Some height) \<Rightarrow> expiry < height | _ \<Rightarrow> False)"

definition row_status :: "nat option \<Rightarrow> tx_row \<Rightarrow> transaction_status" where
  "row_status chain_height r =
     (if row_expired chain_height r then TxExpired else if height_u32 (vt_mined_height r) \<noteq> None then TxConfirmed else TxPending)"

fun shown_status :: "transaction_status \<Rightarrow> queued_meta option \<Rightarrow> transaction_status \<times> string option \<times> bool" where
  "shown_status TxConfirmed q = (TxConfirmed, None, False)"
| "shown_status TxExpired q = (TxExpired, None, False)"
| "shown_status TxPending (Some meta) = (TxFailed, queued_broadcast_error_for_display meta, qm_retryable meta)"
| "shown_status TxFailed (Some meta) = (TxFailed, queued_broadcast_error_for_display meta, qm_retryable meta)"
| "shown_status st None = (st, None, False)"

definition list_row :: "history_env \<Rightarrow> history_db \<Rightarrow> queue_entries option \<Rightarrow> nat \<Rightarrow> tx_row \<Rightarrow> queue_dir \<Rightarrow> (engine_error, transaction_info) result \<times> queue_dir" where
  "list_row env db entries aid r d =
     (if length (vt_txid r) \<noteq> 32 then (Inl (ipc_err TRANSACTION_FAILED ''invalid txid encoding''), d)
      else if \<not> hx_row_ok env (vt_txid r) then (Inl (msg_err ''sql error''), d)
      else
        let txid = hx_txid_text env (vt_txid r);
            confirmed_at = map_option (\<lambda>t. clamp_i64 (t * 1000)) (vt_block_time r);
            status = row_status (hx_chain_height env) r;
            d1 = (if status = TxExpired then delete_queued_broadcast (hx_io env) txid d else d);
            (shown, last_error, can_retry) = shown_status status (Option.bind entries (\<lambda>es. map_of es txid))
        in (bind_result (fetch_transaction_memos env db (vt_txid r)) (\<lambda>memos.
              Inr \<lparr>ti_txid = txid, ti_account_id = aid, ti_tx_type = row_type r, ti_value = show_nat (row_value r), ti_fee = show_nat (row_fee r),
                ti_memo_count = length memos mod 2 ^ 32, ti_memos = memos, ti_status = shown, ti_last_error = last_error, ti_can_retry_broadcast = can_retry,
                ti_mined_height = height_u32 (vt_mined_height r), ti_created_at = (case confirmed_at of None \<Rightarrow> hx_now_ms env | Some t \<Rightarrow> t),
                ti_confirmed_at = confirmed_at\<rparr>), d1))"

fun list_rows :: "history_env \<Rightarrow> history_db \<Rightarrow> queue_entries option \<Rightarrow> nat \<Rightarrow> tx_row list \<Rightarrow> queue_dir \<Rightarrow> (engine_error, transaction_info list) result \<times> queue_dir" where
  "list_rows env db entries aid [] d = (Inr [], d)"
| "list_rows env db entries aid (r # rs) d =
     (case list_row env db entries aid r d of
        (Inl e, d1) \<Rightarrow> (Inl e, d1)
      | (Inr i, d1) \<Rightarrow> (case list_rows env db entries aid rs d1 of (Inl e, d2) \<Rightarrow> (Inl e, d2) | (Inr is, d2) \<Rightarrow> (Inr (i # is), d2)))"

section \<open>The history\<close>

text \<open>Newest first; transactions without a block time count as the oldest.\<close>

definition account_history :: "history_db \<Rightarrow> uuid \<Rightarrow> tx_row list" where
  "account_history db account =
     rev (sort_key (\<lambda>r. (case vt_block_time r of None \<Rightarrow> 0 | Some t \<Rightarrow> t, vt_txid r)) (filter (\<lambda>r. vt_account_uuid r = account) (hd_view db)))"

definition list_transactions :: "history_env \<Rightarrow> history_db \<Rightarrow> uuid \<Rightarrow> nat \<Rightarrow> nat \<Rightarrow> nat \<Rightarrow> queue_dir \<times> 'p tx_service
    \<Rightarrow> (engine_error, transaction_info list \<times> nat) result \<times> queue_dir \<times> 'p tx_service" where
  "list_transactions env db wid aid limit offset ds =
     (case scan_queued_broadcasts (hx_io env) (hx_now env) wid ds of
        (Inl e, d, s) \<Rightarrow> (Inl e, d, s)
      | (Inr _, d, s) \<Rightarrow>
          (case map_err (with_context ''failed to resolve wallet account'') (resolve_wallet_account_uuid (hx_accounts env) aid) of
             Inl e \<Rightarrow> (Inl e, d, s)
           | Inr account \<Rightarrow>
               if \<not> hx_count_ok env \<or> \<not> hx_query_ok env then (Inl (msg_err ''sql error''), d, s)
               else
                 let history = account_history db account;
                     (r, d1) = list_rows env db (tx_queued_broadcasts s wid) aid (take limit (drop offset history)) d
                 in (bind_result r (\<lambda>is. Inr (is, length history mod 2 ^ 32)), d1, s)))"

definition wm_list_transactions :: "history_env \<Rightarrow> history_db \<Rightarrow> nat \<Rightarrow> nat \<Rightarrow> nat \<Rightarrow> ('p, 'q) wallet_manager
    \<Rightarrow> (engine_error, transaction_info list \<times> nat) result \<times> ('p, 'q) wallet_manager" where
  "wm_list_transactions env db aid limit offset m =
     (case wm_active m of
        None \<Rightarrow> (Inl wallet_locked, m)
      | Some a \<Rightarrow>
          if aw_lock a \<noteq> Unlocked \<or> \<not> aw_db a then (Inl wallet_locked, m)
          else let (r, d, s) = list_transactions env db (wi_id (aw_wallet a)) aid limit offset (wm_queues m (aw_dir a), wm_tx m)
               in (r, m\<lparr>wm_tx := s, wm_queues := (wm_queues m)(aw_dir a := d)\<rparr>))"

section \<open>Lemmas\<close>

text \<open>What listing a row does to the queue.\<close>

definition cleanup :: "history_env \<Rightarrow> tx_row \<Rightarrow> queue_dir \<Rightarrow> queue_dir" where
  "cleanup env r d = (if row_expired (hx_chain_height env) r then delete_queued_broadcast (hx_io env) (hx_txid_text env (vt_txid r)) d else d)"

definition shows_row :: "history_env \<Rightarrow> queue_entries option \<Rightarrow> tx_row \<Rightarrow> transaction_info \<Rightarrow> bool" where
  "shows_row env entries r i \<longleftrightarrow> length (vt_txid r) = 32 \<and> ti_txid i = hx_txid_text env (vt_txid r) \<and> ti_mined_height i = height_u32 (vt_mined_height r)
     \<and> (ti_status i, ti_last_error i, ti_can_retry_broadcast i) = shown_status (row_status (hx_chain_height env) r) (Option.bind entries (\<lambda>es. map_of es (ti_txid i)))"

lemma row_status_expired: "row_status h r = TxExpired \<longleftrightarrow> row_expired h r"
  by (simp add: row_status_def)

lemma list_row_ok:
  assumes "list_row env db entries aid r d = (Inr i, d')"
  shows "shows_row env entries r i \<and> d' = cleanup env r d"
  using assms by (auto simp: list_row_def Let_def shows_row_def cleanup_def row_status_expired result_simps split: if_splits prod.splits)

lemma list_rows_ok:
  "list_rows env db entries aid rs d = (Inr is, d') \<Longrightarrow> list_all2 (shows_row env entries) rs is \<and> d' = fold (cleanup env) rs d"
proof (induction rs arbitrary: d "is")
  case (Cons r rs)
  obtain x d1 where r: "list_row env db entries aid r d = (x, d1)" by fastforce
  obtain y d2 where rs: "list_rows env db entries aid rs d1 = (y, d2)" by fastforce
  obtain i "is'" where "x = Inr i" "y = Inr is'" "is = i # is'" "d2 = d'"
    using Cons.prems r rs by (cases x; cases y) auto
  then show ?case using list_row_ok [of env db entries aid r d i d1] Cons.IH [of d1 "is'"] r rs by simp
qed simp

lemma delete_queued_maps:
  "map_of (qd_bins (delete_queued_broadcast io t d)) k = (if k = t \<and> io_remove_bin_ok io t then None else map_of (qd_bins d) k)"
  by (simp add: delete_queued_broadcast_def remove_meta_def remove_bin_def delete_conv')

lemma cleanup_kept:
  assumes "\<And>r. r \<in> set rs \<Longrightarrow> row_expired (hx_chain_height env) r \<Longrightarrow> hx_txid_text env (vt_txid r) \<noteq> k"
  shows "map_of (qd_bins (fold (cleanup env) rs d)) k = map_of (qd_bins d) k"
  using assms by (induction rs arbitrary: d) (auto simp: cleanup_def delete_queued_maps)

lemma cleanup_stays: "map_of (qd_bins d) k = None \<Longrightarrow> map_of (qd_bins (fold (cleanup env) rs d)) k = None"
  by (induction rs arbitrary: d) (auto simp: cleanup_def delete_queued_maps)

lemma cleanup_removed:
  assumes "r \<in> set rs" "row_expired (hx_chain_height env) r" "io_remove_bin_ok (hx_io env) (hx_txid_text env (vt_txid r))"
  shows "map_of (qd_bins (fold (cleanup env) rs d)) (hx_txid_text env (vt_txid r)) = None"
  using assms
proof (induction rs arbitrary: d)
  case (Cons q rs)
  show ?case
  proof (cases "q = r")
    case True
    then have "map_of (qd_bins (cleanup env q d)) (hx_txid_text env (vt_txid r)) = None" using Cons.prems by (simp add: cleanup_def delete_queued_maps)
    then show ?thesis by (simp add: cleanup_stays)
  qed (use Cons in simp)
qed simp

lemma list_transactions_ok:
  assumes "list_transactions env db wid aid limit offset (d, s) = (Inr (is, n), d', s')"
  obtains d1 account where "scan_queued_broadcasts (hx_io env) (hx_now env) wid (d, s) = (Inr (), d1, s')"
    "resolve_wallet_account_uuid (hx_accounts env) aid = Inr account"
    "list_all2 (shows_row env (tx_queued_broadcasts s' wid)) (take limit (drop offset (account_history db account))) is"
    "d' = fold (cleanup env) (take limit (drop offset (account_history db account))) d1" "n = length (account_history db account) mod 2 ^ 32"
proof -
  obtain x d1 s1 where x: "scan_queued_broadcasts (hx_io env) (hx_now env) wid (d, s) = (x, d1, s1)" by (metis prod_cases3)
  obtain u where u: "x = Inr u" using assms x by (cases x) (auto simp: list_transactions_def)
  obtain account where a: "resolve_wallet_account_uuid (hx_accounts env) aid = Inr account"
    using assms x u by (cases "resolve_wallet_account_uuid (hx_accounts env) aid") (auto simp: list_transactions_def)
  let ?page = "take limit (drop offset (account_history db account))"
  obtain y d2 where y: "list_rows env db (tx_queued_broadcasts s1 wid) aid ?page d1 = (y, d2)" by fastforce
  have "s1 = s'" "d2 = d'" "y = Inr is" "n = length (account_history db account) mod 2 ^ 32"
    using assms x u a y by (auto simp: list_transactions_def Let_def result_simps split: if_splits)
  then show ?thesis using that [of d1 account] list_rows_ok [of env db _ aid ?page d1 "is" d2] x u a y by simp
qed

lemma scanned_entry:
  assumes "scan_queued_broadcasts io now wid (d, s) = (Inr (), d1, s')" "distinct (map fst (qd_metas d))" "tx_queued_broadcasts s' wid = Some es" "map_of es k = Some meta"
  shows "map_of (qd_bins d1) k = map_of (qd_bins d) k \<and> map_of (qd_bins d) k \<noteq> None"
proof -
  have sc: "qd_exists d" "scan_queue_dir io now d = Inr (d1, es)"
    using assms(1,3) by (auto simp: scan_queued_broadcasts_def split: if_splits sum.splits)
  obtain now_ms where ms: "to_unix_ms now = Inr now_ms" using sc(2) by (auto simp: scan_queue_dir_def result_simps)
  note l = scan_queue_dir_loads [OF sc(2) assms(2) ms, of k]
  show ?thesis using l assms(4) by (auto simp: scan_loads_def split: option.splits meta_file.splits if_splits)
qed

text \<open>A file that the scan does not load may be removed by it; the others are left.\<close>

lemma scan_keeps_unloaded:
  assumes "scan_queued_broadcasts io now wid (d, s) = (Inr (), d1, s')" "map_of (qd_bins d1) k \<noteq> map_of (qd_bins d) k" "distinct (map fst (qd_metas d))"
  shows "Option.bind (tx_queued_broadcasts s' wid) (\<lambda>es. map_of es k) = None"
  using scanned_entry [OF assms(1,3), of _ k] assms(2) by (cases "tx_queued_broadcasts s' wid") (auto simp: not_None_eq intro: ccontr)

lemma shows_row_status:
  assumes "shows_row env entries r i"
  shows "ti_status i = TxConfirmed \<longleftrightarrow> height_u32 (vt_mined_height r) \<noteq> None" "ti_status i = TxExpired \<longleftrightarrow> row_expired (hx_chain_height env) r"
    "ti_can_retry_broadcast i \<Longrightarrow> ti_status i = TxFailed \<and> Option.bind entries (\<lambda>es. map_of es (ti_txid i)) \<noteq> None"
    "height_u32 (vt_mined_height r) = None \<Longrightarrow> \<not> row_expired (hx_chain_height env) r \<Longrightarrow> Option.bind entries (\<lambda>es. map_of es (ti_txid i)) = Some meta
       \<Longrightarrow> ti_status i = TxFailed \<and> ti_last_error i = queued_broadcast_error_for_display meta \<and> ti_can_retry_broadcast i = qm_retryable meta"
proof -
  let ?q = "Option.bind entries (\<lambda>es. map_of es (ti_txid i))"
  have e: "row_expired (hx_chain_height env) r \<Longrightarrow> height_u32 (vt_mined_height r) = None" by (simp add: row_expired_def)
  have s: "(ti_status i, ti_last_error i, ti_can_retry_broadcast i) = shown_status (row_status (hx_chain_height env) r) ?q" using assms by (simp add: shows_row_def)
  show "ti_status i = TxConfirmed \<longleftrightarrow> height_u32 (vt_mined_height r) \<noteq> None" using s e by (cases ?q) (auto simp: row_status_def split: if_splits)
  show "ti_status i = TxExpired \<longleftrightarrow> row_expired (hx_chain_height env) r" using s e by (cases ?q) (auto simp: row_status_def split: if_splits)
  show "ti_status i = TxFailed \<and> ?q \<noteq> None" if "ti_can_retry_broadcast i"
    using s that by (cases ?q) (auto simp: row_status_def split: if_splits)
  show "ti_status i = TxFailed \<and> ti_last_error i = queued_broadcast_error_for_display meta \<and> ti_can_retry_broadcast i = qm_retryable meta"
    if "height_u32 (vt_mined_height r) = None" "\<not> row_expired (hx_chain_height env) r" "?q = Some meta"
    using s that by (auto simp: row_status_def)
qed

lemma list_all2_partner:
  assumes "list_all2 P xs ys"
  shows "y \<in> set ys \<Longrightarrow> \<exists>x \<in> set xs. P x y" "x \<in> set xs \<Longrightarrow> \<exists>y \<in> set ys. P x y"
  using assms by (induction rule: list_all2_induct) auto

text \<open>Two rows of an account whose ids are written alike are the same.\<close>

lemma history_row_unique:
  assumes "inj_on txt {b. length b = 32}" "distinct (map (\<lambda>r. (vt_account_uuid r, vt_txid r)) (hd_view db))" "length (vt_txid q) = 32" "length (vt_txid r) = 32"
    and "q \<in> set (account_history db account)" "r \<in> set (account_history db account)" "txt (vt_txid q) = txt (vt_txid r)"
  shows "q = r"
proof -
  have "vt_txid q = vt_txid r" using inj_onD [OF assms(1,7)] assms(3,4) by simp
  moreover have "q \<in> set (hd_view db)" "r \<in> set (hd_view db)" "vt_account_uuid q = vt_account_uuid r" using assms(5,6) by (simp_all add: account_history_def)
  moreover have "inj_on (\<lambda>r. (vt_account_uuid r, vt_txid r)) (set (hd_view db))" using assms(2) by (simp add: distinct_map)
  ultimately show ?thesis by (auto dest: inj_onD)
qed

lemma listing_kept:
  assumes "list_all2 (shows_row env entries) rs is" "\<And>i. i \<in> set is \<Longrightarrow> ti_txid i = k \<Longrightarrow> ti_status i \<noteq> TxExpired"
  shows "map_of (qd_bins (fold (cleanup env) rs d)) k = map_of (qd_bins d) k"
proof (rule cleanup_kept)
  fix r assume r: "r \<in> set rs" "row_expired (hx_chain_height env) r"
  obtain i where i: "i \<in> set is" "shows_row env entries r i" using list_all2_partner(2) [OF assms(1) r(1)] by blast
  have "ti_status i = TxExpired" using shows_row_status(2) [OF i(2)] r(2) by simp
  then show "hx_txid_text env (vt_txid r) \<noteq> k" using assms(2) [OF i(1)] i(2) by (auto simp: shows_row_def)
qed

lemma same_entry:
  assumes "list_all2 (shows_row env entries) rs is" "inj_on (hx_txid_text env) {b. length b = 32}"
    and "distinct (map (\<lambda>r. (vt_account_uuid r, vt_txid r)) (hd_view db))" "\<And>r. r \<in> set rs \<Longrightarrow> r \<in> set (account_history db account)"
    and "j \<in> set is" "i \<in> set is" "ti_txid j = ti_txid i"
  shows "ti_status j = TxExpired \<longleftrightarrow> ti_status i = TxExpired"
proof -
  obtain q r where q: "q \<in> set rs" "shows_row env entries q j" and r: "r \<in> set rs" "shows_row env entries r i"
    using list_all2_partner(1) [OF assms(1)] assms(5,6) by blast
  have "q = r" using q(2) r(2) assms(7) by (intro history_row_unique [OF assms(2,3) _ _ assms(4) [OF q(1)] assms(4) [OF r(1)]]) (auto simp: shows_row_def)
  then show ?thesis using shows_row_status(2) [OF q(2)] shows_row_status(2) [OF r(2)] by simp
qed

section \<open>Pages\<close>

lemma pages_concat: "concat (map (\<lambda>k. take l (drop (k * l) xs)) [0..<n]) = take (n * l) xs"
  by (induction n) (simp_all add: add.commute flip: take_add)

lemma page_txids:
  assumes "list_all2 (shows_row env entries) rs is"
  shows "map ti_txid is = map (\<lambda>r. hx_txid_text env (vt_txid r)) rs"
  using assms by (induction rule: list_all2_induct) (simp_all add: shows_row_def)

lemma history_pages_ok:
  assumes "fst (list_transactions env db wid aid limit offset ds) = Inr (is, cnt)" "resolve_wallet_account_uuid (hx_accounts env) aid = Inr account"
  shows "map ti_txid is = map (\<lambda>r. hx_txid_text env (vt_txid r)) (take limit (drop offset (account_history db account))) \<and> cnt = length (account_history db account) mod 2 ^ 32"
proof -
  obtain d s where ds: "ds = (d, s)" by fastforce
  obtain d' s' where l: "list_transactions env db wid aid limit offset (d, s) = (Inr (is, cnt), d', s')" using assms(1) ds by (metis prod.collapse)
  show ?thesis using l
  proof (rule list_transactions_ok)
    fix d1 acc
    assume "resolve_wallet_account_uuid (hx_accounts env) aid = Inr acc" "cnt = length (account_history db acc) mod 2 ^ 32"
      "list_all2 (shows_row env (tx_queued_broadcasts s' wid)) (take limit (drop offset (account_history db acc))) is"
    then show ?thesis using assms(2) page_txids by auto
  qed
qed

lemma history_sorted: "sorted_wrt (\<lambda>q r. (case vt_block_time r of None \<Rightarrow> 0 | Some t \<Rightarrow> t) \<le> (case vt_block_time q of None \<Rightarrow> 0 | Some t \<Rightarrow> t)) (account_history db account)"
proof -
  let ?k = "\<lambda>r. (case vt_block_time r of None \<Rightarrow> 0 | Some t \<Rightarrow> t, vt_txid r)"
  have "sorted_wrt (\<lambda>q r. ?k q \<le> ?k r) (sort_key ?k xs)" for xs using sorted_sort_key [of ?k xs] by (simp add: sorted_map)
  then have "sorted_wrt (\<lambda>q r. ?k r \<le> ?k q) (account_history db account)" by (simp add: account_history_def sorted_wrt_rev)
  then show ?thesis by (rule sorted_wrt_mono_rel [rotated]) (auto simp: less_eq_prod_def)
qed

section \<open>Properties\<close>

text \<open>C14: The history agrees with the broadcast queue.  After a successful listing, every entry stands for a row of the account and is confirmed exactly when the row has a block height; an entry
  that is offered for another broadcast is unmined and not expired, its queued transaction was on disk and is still there; an unmined, unexpired transaction that is queued is shown as failed,
  with the error of the queue; and a queued transaction disappears only if the scan of the queue dropped it or it is shown as expired, in which case it is gone when its file could be removed.
  It is assumed that the ids of transactions are written differently and that the view has one row per transaction.\<close>

theorem history_agrees_with_queue:
  assumes "list_transactions env db wid aid limit offset (d, s) = (Inr (is, cnt), d', s')" and "distinct (map fst (qd_metas d))"
    and "inj_on (hx_txid_text env) {b. length b = 32}" and "distinct (map (\<lambda>r. (vt_account_uuid r, vt_txid r)) (hd_view db))"
  shows "(\<forall>i \<in> set is. \<exists>r \<in> set (hd_view db). ti_txid i = hx_txid_text env (vt_txid r)
          \<and> (ti_status i = TxConfirmed \<longleftrightarrow> height_u32 (vt_mined_height r) \<noteq> None)
          \<and> (ti_can_retry_broadcast i \<longrightarrow> ti_status i = TxFailed \<and> \<not> row_expired (hx_chain_height env) r
               \<and> map_of (qd_bins d) (ti_txid i) \<noteq> None \<and> map_of (qd_bins d') (ti_txid i) = map_of (qd_bins d) (ti_txid i))
          \<and> (\<forall>es meta. height_u32 (vt_mined_height r) = None \<longrightarrow> \<not> row_expired (hx_chain_height env) r \<longrightarrow> tx_queued_broadcasts s' wid = Some es
               \<longrightarrow> map_of es (ti_txid i) = Some meta \<longrightarrow> ti_status i = TxFailed \<and> ti_last_error i = queued_broadcast_error_for_display meta
                 \<and> ti_can_retry_broadcast i = qm_retryable meta)
          \<and> (ti_status i = TxExpired \<longrightarrow> io_remove_bin_ok (hx_io env) (ti_txid i) \<longrightarrow> map_of (qd_bins d') (ti_txid i) = None))
     \<and> (\<forall>k. map_of (qd_bins d') k \<noteq> map_of (qd_bins d) k \<longrightarrow>
          Option.bind (tx_queued_broadcasts s' wid) (\<lambda>es. map_of es k) = None \<or> (\<exists>i \<in> set is. ti_txid i = k \<and> ti_status i = TxExpired))"
proof -
  obtain d1 account where h: "scan_queued_broadcasts (hx_io env) (hx_now env) wid (d, s) = (Inr (), d1, s')"
    "list_all2 (shows_row env (tx_queued_broadcasts s' wid)) (take limit (drop offset (account_history db account))) is"
    "d' = fold (cleanup env) (take limit (drop offset (account_history db account))) d1"
    using assms(1) by (rule list_transactions_ok)
  define page where "page = take limit (drop offset (account_history db account))"
  note l = h(2) [folded page_def] and d' = h(3) [folded page_def] and partner = list_all2_partner [OF h(2) [folded page_def]]
  have in_history: "r \<in> set (account_history db account)" if "r \<in> set page" for r
    using that by (auto simp: page_def dest: in_set_takeD in_set_dropD)
  note kept = listing_kept [OF l, of _ d1, folded d']
  show ?thesis
  proof (intro conjI ballI allI impI)
    fix k assume k: "map_of (qd_bins d') k \<noteq> map_of (qd_bins d) k"
    show "Option.bind (tx_queued_broadcasts s' wid) (\<lambda>es. map_of es k) = None \<or> (\<exists>i \<in> set is. ti_txid i = k \<and> ti_status i = TxExpired)"
      using kept [of k] scan_keeps_unloaded [OF h(1) _ assms(2), of k] k by (cases "map_of (qd_bins d1) k = map_of (qd_bins d) k") auto
  next
    fix i assume i: "i \<in> set is"
    obtain r where r: "r \<in> set page" "shows_row env (tx_queued_broadcasts s' wid) r i" using partner(1) [OF i] by blast
    note st = shows_row_status [OF r(2)]
    have view: "r \<in> set (hd_view db)" using in_history [OF r(1)] by (simp add: account_history_def)
    note same = same_entry [OF l assms(3,4) in_history]
    have retry: "ti_status i = TxFailed \<and> \<not> row_expired (hx_chain_height env) r \<and> map_of (qd_bins d) (ti_txid i) \<noteq> None
        \<and> map_of (qd_bins d') (ti_txid i) = map_of (qd_bins d) (ti_txid i)" if c: "ti_can_retry_broadcast i"
    proof -
      have f: "ti_status i = TxFailed" using st(3) [OF c] by blast
      obtain es meta where m: "tx_queued_broadcasts s' wid = Some es" "map_of es (ti_txid i) = Some meta"
        using st(3) [OF c] by (cases "tx_queued_broadcasts s' wid") auto
      show ?thesis using scanned_entry [OF h(1) assms(2) m] kept [of "ti_txid i"] same [OF _ i] f st(2) by auto
    qed
    have gone: "map_of (qd_bins d') (ti_txid i) = None" if "ti_status i = TxExpired" "io_remove_bin_ok (hx_io env) (ti_txid i)"
      using cleanup_removed [OF r(1)] st(2) that r(2) unfolding d' by (simp add: shows_row_def)
    show "\<exists>r \<in> set (hd_view db). ti_txid i = hx_txid_text env (vt_txid r)
          \<and> (ti_status i = TxConfirmed \<longleftrightarrow> height_u32 (vt_mined_height r) \<noteq> None)
          \<and> (ti_can_retry_broadcast i \<longrightarrow> ti_status i = TxFailed \<and> \<not> row_expired (hx_chain_height env) r
               \<and> map_of (qd_bins d) (ti_txid i) \<noteq> None \<and> map_of (qd_bins d') (ti_txid i) = map_of (qd_bins d) (ti_txid i))
          \<and> (\<forall>es meta. height_u32 (vt_mined_height r) = None \<longrightarrow> \<not> row_expired (hx_chain_height env) r \<longrightarrow> tx_queued_broadcasts s' wid = Some es
               \<longrightarrow> map_of es (ti_txid i) = Some meta \<longrightarrow> ti_status i = TxFailed \<and> ti_last_error i = queued_broadcast_error_for_display meta
                 \<and> ti_can_retry_broadcast i = qm_retryable meta)
          \<and> (ti_status i = TxExpired \<longrightarrow> io_remove_bin_ok (hx_io env) (ti_txid i) \<longrightarrow> map_of (qd_bins d') (ti_txid i) = None)"
      using view r(2) st(1,4) retry gone by (intro bexI [of _ r]) (auto simp: shows_row_def)
  qed
qed

definition demo_row :: tx_row where
  "demo_row = \<lparr>vt_account_uuid = ''u'', vt_txid = replicate 32 1, vt_mined_height = None, vt_expiry_height = Some 100, vt_fee_paid = Some 10, vt_total_spent = 1000,
     vt_total_received = 500, vt_block_time = None, vt_is_shielding = False, vt_sent_note_count = 1, vt_received_note_count = 1\<rparr>"

definition demo_history :: history_db where
  "demo_history = \<lparr>hd_view = [demo_row], hd_transactions = [(1, replicate 32 1)], hd_orchard = [], hd_sapling = [], hd_sent = [\<lparr>nt_transaction_id = 1, nt_memo = Some [7]\<rparr>]\<rparr>"

definition demo_txid_text :: "bytes \<Rightarrow> string" where
  "demo_txid_text b = (if b = replicate 32 1 then ''aa'' else map (\<lambda>w. char_of (unat w)) b)"

definition demo_history_env :: history_env where
  "demo_history_env = \<lparr>hx_txid_text = demo_txid_text, hx_chain_height = Some 50, hx_parse_memo = (\<lambda>_. None), hx_rank = (\<lambda>_. 0), hx_io = demo_io, hx_now = 5000000000,
     hx_now_ms = 5000, hx_accounts = Inr [Inr (Some \<lparr>wa_uuid = ''u'', wa_key_source = None, wa_derivation_index = Some 0\<rparr>)], hx_count_ok = True, hx_query_ok = True,
     hx_row_ok = (\<lambda>_. True), hx_memo_ok = (\<lambda>_. True)\<rparr>"

lemma demo_txid_inj: "inj_on demo_txid_text {b. length b = 32}"
proof (rule inj_onI)
  fix b c :: bytes
  assume l: "b \<in> {b. length b = 32}" "c \<in> {b. length b = 32}" and e: "demo_txid_text b = demo_txid_text c"
  have char: "v = w" if "char_of (unat v) = (char_of (unat w) :: char)" for v w :: "8 word"
  proof -
    have "of_char (char_of (unat v) :: char) = (of_char (char_of (unat w) :: char) :: nat)" using that by simp
    moreover have "unat v < 256" "unat w < 256" using unsigned_less [of v, where 'a = nat] unsigned_less [of w, where 'a = nat] by simp_all
    ultimately show ?thesis by (simp add: word_unat_eq_iff)
  qed
  have "length (demo_txid_text b) = (if b = replicate 32 1 then 2 else 32)" "length (demo_txid_text c) = (if c = replicate 32 1 then 2 else 32)"
    using l by (simp_all add: demo_txid_text_def)
  then show "b = c" using e l char by (auto simp: demo_txid_text_def list_eq_iff_nth_eq split: if_splits)
qed

lemma demo_listing:
  "\<exists>i cnt d' s'. list_transactions demo_history_env demo_history ''w'' 0 10 0 (demo_dir, tx_service_new :: unit tx_service) = (Inr ([i], cnt), d', s') \<and> ti_txid i = ''aa'' \<and> ti_can_retry_broadcast i"
  by (simp add: list_transactions_def scan_queued_broadcasts_def scan_queue_dir_def demo_dir_def demo_history_env_def to_unix_ms_def i64_max_def guard_or_def demo_io_def
      scan_entry_def demo_meta_def normalize_queued_broadcast_meta_def Let_def effective_class_def apply_retry_policy_def retention_expired_def millis_def QUEUED_BROADCAST_RETENTION_def secs_def
      resolve_wallet_account_uuid_def account_history_def demo_history_def demo_row_def list_row_def fetch_transaction_memos_def row_status_def row_expired_def height_u32_def u32_max_def
      tx_service_new_def demo_txid_text_def remove_meta_def split: prod.splits)

theorem history_agrees_with_queue_witness:
  "\<exists>i cnt d' s'. list_transactions demo_history_env demo_history ''w'' 0 10 0 (demo_dir, tx_service_new :: unit tx_service) = (Inr ([i], cnt), d', s')
     \<and> ti_status i = TxFailed \<and> ti_can_retry_broadcast i \<and> map_of (qd_bins d') ''aa'' = Some []"
proof -
  obtain i cnt d' s' where l: "list_transactions demo_history_env demo_history ''w'' 0 10 0 (demo_dir, tx_service_new :: unit tx_service) = (Inr ([i], cnt), d', s')"
    "ti_txid i = ''aa''" "ti_can_retry_broadcast i" using demo_listing by blast
  have a: "distinct (map fst (qd_metas demo_dir))" "inj_on (hx_txid_text demo_history_env) {b. length b = 32}"
    "distinct (map (\<lambda>r. (vt_account_uuid r, vt_txid r)) (hd_view demo_history))"
    using demo_txid_inj by (simp_all add: demo_dir_def demo_history_env_def demo_history_def)
  have "ti_status i = TxFailed" "map_of (qd_bins d') ''aa'' = map_of (qd_bins demo_dir) ''aa''"
    using history_agrees_with_queue [OF l(1) a] l(2,3) by auto
  then show ?thesis using l by (intro exI conjI) (simp_all add: demo_dir_def)
qed

text \<open>C29: Paging through the history neither skips nor repeats a transaction.  When the pages of \<open>limit\<close> entries are listed one after the other, each in whatever state of the queue and at whatever time, but over the
  same view, the entries of the pages together are the transactions of the account, newest first, up to the end of the last page; every page reports the total.\<close>

theorem history_pages_complete:
  assumes "\<And>k. k < n \<Longrightarrow> fst (list_transactions (env k) db wid aid limit (k * limit) (ds k)) = Inr (page k, cnt k)"
    and "\<And>k. hx_txid_text (env k) = txt \<and> resolve_wallet_account_uuid (hx_accounts (env k)) aid = Inr account"
  shows "concat (map (\<lambda>k. map ti_txid (page k)) [0..<n]) = map (\<lambda>r. txt (vt_txid r)) (take (n * limit) (account_history db account))
     \<and> mset (account_history db account) = mset (filter (\<lambda>r. vt_account_uuid r = account) (hd_view db))
     \<and> sorted_wrt (\<lambda>q r. (case vt_block_time r of None \<Rightarrow> 0 | Some t \<Rightarrow> t) \<le> (case vt_block_time q of None \<Rightarrow> 0 | Some t \<Rightarrow> t)) (account_history db account)
     \<and> (\<forall>k. k < n \<longrightarrow> cnt k = length (account_history db account) mod 2 ^ 32)"
proof -
  have p: "map ti_txid (page k) = map (\<lambda>r. txt (vt_txid r)) (take limit (drop (k * limit) (account_history db account))) \<and> cnt k = length (account_history db account) mod 2 ^ 32"
    if "k < n" for k
    using history_pages_ok [OF assms(1) [OF that], of account] assms(2) [of k] by simp
  have "concat (map (\<lambda>k. map ti_txid (page k)) [0..<n]) = concat (map (\<lambda>k. map (\<lambda>r. txt (vt_txid r)) (take limit (drop (k * limit) (account_history db account)))) [0..<n])"
    by (rule arg_cong [of _ _ concat], rule map_cong) (use p in auto)
  also have "\<dots> = map (\<lambda>r. txt (vt_txid r)) (take (n * limit) (account_history db account))"
    unfolding pages_concat [symmetric] by (simp add: map_concat comp_def)
  finally show ?thesis using p history_sorted by (simp add: account_history_def)
qed

theorem history_pages_complete_witness:
  "\<exists>page. fst (list_transactions demo_history_env demo_history ''w'' 0 10 0 (demo_dir, tx_service_new :: unit tx_service)) = Inr (page, 1) \<and> map ti_txid page = [''aa'']"
proof -
  obtain i cnt where l: "fst (list_transactions demo_history_env demo_history ''w'' 0 10 0 (demo_dir, tx_service_new :: unit tx_service)) = Inr ([i], cnt)" using demo_listing by fastforce
  have a: "hx_txid_text demo_history_env = demo_txid_text \<and> resolve_wallet_account_uuid (hx_accounts demo_history_env) 0 = Inr ''u''"
    by (simp add: demo_history_env_def resolve_wallet_account_uuid_def)
  have h: "account_history demo_history ''u'' = [demo_row]" by (simp add: account_history_def demo_history_def demo_row_def)
  have "concat (map (\<lambda>k. map ti_txid [i]) [0..<1]) = map (\<lambda>r. demo_txid_text (vt_txid r)) (take (1 * 10) (account_history demo_history ''u''))
      \<and> cnt = length (account_history demo_history ''u'') mod 2 ^ 32"
    using history_pages_complete [of 1 "\<lambda>_. demo_history_env" demo_history "''w''" 0 10 "\<lambda>_. (demo_dir, tx_service_new :: unit tx_service)" "\<lambda>_. [i]" "\<lambda>_. cnt" demo_txid_text "''u''"] l a
    by simp
  then show ?thesis using l by (intro exI [of _ "[i]"]) (simp add: h demo_row_def demo_txid_text_def)
qed

end
