(* ===== verification/Cli.thy ===== *)
theory Cli
  imports Wallet_Safety Tx_History Addresses Network_Clients
begin

text \<open>
  The command line client, \<open>apps/zbag-cli/src\<close>: \<open>cli_app_state.rs\<close>, \<open>password.rs\<close> and the commands \<open>wallet\<close>, \<open>tx\<close>, \<open>seed\<close>, \<open>backup\<close>, \<open>balance\<close> and \<open>address\<close>.
  Every command is a process of its own: it builds a new wallet manager over the files that the previous one left, so a command takes the state a previous process ended with and
  starts with \<open>cli_app_state_new\<close>.  The terminal is the record \<open>console\<close>: what successive reads of passwords and lines return, and what was printed.
\<close>

section \<open>Terminal\<close>

datatype printed =
    PSummary tx_summary
  | PTxSent string
  | PMessage string
  | PSeed string "string list"
  | PChallenge backup_challenge
  | PVerified "(engine_error, unit) result"
  | PWallets "wallet_info list"
  | PWalletDetails wallet_info
  | PCreated wallet_info "string list"
  | PRestored wallet_info nat
  | PTransactions "transaction_info list" nat
  | PBalance balance string
  | PAddress string address_type

text \<open>A failing read is \<open>None\<close>.  At the end of its input a line is empty, and reading a password fails.\<close>

record console =
  co_passwords :: "string option list"
  co_lines :: "string option list"
  co_printed :: "printed list"

record ('p, 'q, 'c) cli_state =
  cs_manager :: "('p, 'q) wallet_manager"
  cs_tor :: "'c tor_manager option"
  cs_console :: console

type_synonym ('p, 'q, 'c, 'a) cli_result = "(engine_error, 'a) result \<times> ('p, 'q, 'c) cli_state"

definition print_out :: "printed \<Rightarrow> ('p, 'q, 'c) cli_state \<Rightarrow> ('p, 'q, 'c) cli_state" where
  "print_out p st = st\<lparr>cs_console := (cs_console st)\<lparr>co_printed := co_printed (cs_console st) @ [p]\<rparr>\<rparr>"

definition read_password :: "('p, 'q, 'c) cli_state \<Rightarrow> string option \<times> ('p, 'q, 'c) cli_state" where
  "read_password st =
     (case co_passwords (cs_console st) of
        [] \<Rightarrow> (None, st)
      | p # ps \<Rightarrow> (p, st\<lparr>cs_console := (cs_console st)\<lparr>co_passwords := ps\<rparr>\<rparr>))"

definition read_line :: "('p, 'q, 'c) cli_state \<Rightarrow> string option \<times> ('p, 'q, 'c) cli_state" where
  "read_line st =
     (case co_lines (cs_console st) of
        [] \<Rightarrow> (Some [], st)
      | l # ls \<Rightarrow> (l, st\<lparr>cs_console := (cs_console st)\<lparr>co_lines := ls\<rparr>\<rparr>))"

definition manager_step :: "(('p, 'q) wallet_manager \<Rightarrow> (engine_error, 'a) result \<times> ('p, 'q) wallet_manager) \<Rightarrow> ('p, 'q, 'c) cli_state
    \<Rightarrow> ('p, 'q, 'c, 'a) cli_result" where
  "manager_step f st = (let (r, m) = f (cs_manager st) in (r, st\<lparr>cs_manager := m\<rparr>))"

section \<open>Passwords and phrases\<close>

definition wrap_password_arg :: "string option \<Rightarrow> (engine_error, string option) result" where
  "wrap_password_arg password = (if password = Some [] then Inl (msg_err ''password cannot be empty'') else Inr password)"

definition get_password :: "string option \<Rightarrow> ('p, 'q, 'c) cli_state \<Rightarrow> ('p, 'q, 'c, string) cli_result" where
  "get_password provided st =
     (case provided of
        Some p \<Rightarrow> (if p = [] then Inl (msg_err ''password cannot be empty'') else Inr p, st)
      | None \<Rightarrow>
          (case read_password st of
             (None, st1) \<Rightarrow> (Inl (msg_err ''failed to read password''), st1)
           | (Some p, st1) \<Rightarrow> (Inr p, st1)))"

definition get_password_with_confirm :: "string option \<Rightarrow> ('p, 'q, 'c) cli_state \<Rightarrow> ('p, 'q, 'c, string) cli_result" where
  "get_password_with_confirm provided st =
     (case provided of
        Some p \<Rightarrow> (if p = [] then Inl (msg_err ''password cannot be empty'') else Inr p, st)
      | None \<Rightarrow>
          (case read_password st of
             (None, st1) \<Rightarrow> (Inl (msg_err ''failed to read password''), st1)
           | (Some p, st1) \<Rightarrow>
               if p = [] then (Inl (msg_err ''password cannot be empty''), st1)
               else (case read_password st1 of
                       (None, st2) \<Rightarrow> (Inl (msg_err ''failed to read confirmation''), st2)
                     | (Some c, st2) \<Rightarrow> (if p \<noteq> c then Inl (msg_err ''passwords do not match'') else Inr p, st2))))"

definition validate_seed_phrase :: "string \<Rightarrow> (engine_error, unit) result" where
  "validate_seed_phrase phrase =
     (let word_count = length (split_whitespace phrase) in
      if word_count \<noteq> 24 then Inl (msg_err (''seed phrase must be 24 words (got '' @ show_nat word_count @ '')'')) else Inr ())"

definition get_seed_phrase :: "string option \<Rightarrow> ('p, 'q, 'c) cli_state \<Rightarrow> ('p, 'q, 'c, string) cli_result" where
  "get_seed_phrase provided st =
     (case provided of
        Some phrase \<Rightarrow> (bind_result (validate_seed_phrase (trim phrase)) (\<lambda>_. Inr (trim phrase)), st)
      | None \<Rightarrow>
          (case read_line st of
             (None, st1) \<Rightarrow> (Inl (msg_err ''io error''), st1)
           | (Some raw, st1) \<Rightarrow> (bind_result (validate_seed_phrase (trim raw)) (\<lambda>_. Inr (trim raw)), st1)))"

definition confirm_action :: "('p, 'q, 'c) cli_state \<Rightarrow> ('p, 'q, 'c, bool) cli_result" where
  "confirm_action st =
     (case read_line st of
        (None, st1) \<Rightarrow> (Inl (msg_err ''io error''), st1)
      | (Some response, st1) \<Rightarrow> (Inr (to_lowercase (trim response) = ''y''), st1))"

section \<open>State of a process\<close>

text \<open>A command runs through these points; each sees its own clock and its own failures.\<close>

datatype cli_point = AtLoad | AtUnlock | AtPrepare | AtReauth | AtUse | AtExecute

record ('p, 'q) cli_env =
  cv_dirs_ok :: bool
  cv_open_app_db :: "(engine_error, unit) result"
  cv_at :: "cli_point \<Rightarrow> wallet_env"
  cv_new_token :: string
  cv_new_proposal :: string
  cv_new_challenge :: string
  cv_pool :: "nat list"
  cv_send :: "'p send_env"
  cv_task :: task_env
  cv_net :: net_env
  cv_build :: "string \<Rightarrow> 'p proposal \<Rightarrow> (string, string list) result"
  cv_load_tx :: tx_loader
  cv_shield :: "string \<Rightarrow> 'q shield_env"
  cv_retry :: retry_task_env
  cv_history :: history_env

definition cli_app_state_new :: "('p, 'q) cli_env \<Rightarrow> bool \<Rightarrow> ('p, 'q, 'c) cli_state \<Rightarrow> ('p, 'q, 'c, unit) cli_result" where
  "cli_app_state_new env enable_tor st =
     (let m = cs_manager st in
      if \<not> cv_dirs_ok env then (Inl (msg_err ''io error''), st)
      else case cv_open_app_db env of
             Inl e \<Rightarrow> (Inl e, st)
           | Inr _ \<Rightarrow>
               (Inr (), st\<lparr>cs_manager := wallet_manager_new (wm_app_db m) tx_service_new (wm_mnemonics m) (wm_files m) (wm_queues m) (jw_dir (wm_jobs m)),
                           cs_tor := (if enable_tor then Some (tor_manager_new (get_tor_state (wm_app_db m))) else None)\<rparr>))"

definition cli_list_wallets :: "('p, 'q, 'c) cli_state \<Rightarrow> wallet_info list" where
  "cli_list_wallets st = list_wallets (wm_app_db (cs_manager st))"

definition cli_load_wallet :: "('p, 'q) cli_env \<Rightarrow> uuid \<Rightarrow> ('p, 'q, 'c) cli_state \<Rightarrow> ('p, 'q, 'c, wallet_info \<times> bool) cli_result" where
  "cli_load_wallet env wid st =
     bind_se (manager_step (load_wallet (cv_at env AtLoad) wid) st) (\<lambda>(info, lock_status) st1. (Inr (info, lock_status = Unlocked), st1))"

definition cli_unlock_wallet :: "('p, 'q) cli_env \<Rightarrow> uuid \<Rightarrow> string \<Rightarrow> ('p, 'q, 'c) cli_state \<Rightarrow> ('p, 'q, 'c, unit) cli_result" where
  "cli_unlock_wallet env wid password st =
     bind_se (manager_step (unlock_wallet (cv_at env AtUnlock) wid password) st) (\<lambda>_ st1. (Inr (), st1))"

definition cli_lock_wallet :: "('p, 'q) cli_env \<Rightarrow> uuid \<Rightarrow> ('p, 'q, 'c) cli_state \<Rightarrow> ('p, 'q, 'c, unit) cli_result" where
  "cli_lock_wallet env wid st = (Inr (), st\<lparr>cs_manager := snd (lock_wallet (cv_at env AtUse) wid (cs_manager st))\<rparr>)"

definition starts_with_id :: "string \<Rightarrow> wallet_info \<Rightarrow> bool" where
  "starts_with_id pfx w = (take (length pfx) (to_lowercase (wi_id w)) = to_lowercase pfx)"

definition find_wallet_by_prefix :: "string \<Rightarrow> ('p, 'q, 'c) cli_state \<Rightarrow> (engine_error, wallet_info option) result" where
  "find_wallet_by_prefix pfx st =
     (case filter (starts_with_id pfx) (cli_list_wallets st) of
        [] \<Rightarrow> Inr None
      | [w] \<Rightarrow> Inr (Some w)
      | ws \<Rightarrow> Inl (msg_err (''ambiguous wallet ID prefix '' @ pfx @ '' matches '' @ show_nat (length ws) @ '' wallets'')))"

definition get_wallet_by_prefix :: "string \<Rightarrow> ('p, 'q, 'c) cli_state \<Rightarrow> (engine_error, wallet_info) result" where
  "get_wallet_by_prefix pfx st =
     bind_result (find_wallet_by_prefix pfx st) (\<lambda>w. ok_or w (msg_err (''wallet not found: '' @ pfx)))"

text \<open>The wallet named on the command line, or the only one there is.\<close>

definition select_wallet :: "string option \<Rightarrow> ('p, 'q, 'c) cli_state \<Rightarrow> (engine_error, wallet_info) result" where
  "select_wallet wallet_prefix st =
     (case wallet_prefix of
        Some pfx \<Rightarrow> get_wallet_by_prefix pfx st
      | None \<Rightarrow>
          (case cli_list_wallets st of
             [] \<Rightarrow> Inl (msg_err ''no wallets found - create one with: zbag wallet create --name <NAME>'')
           | [w] \<Rightarrow> Inr w
           | _ \<Rightarrow> Inl (msg_err ''multiple wallets found - specify one with --wallet <ID>'')))"

section \<open>Transactions\<close>

text \<open>\<open>load_wallet\<close>, \<open>unlock_if_needed\<close> and the re-authentication of \<open>commands/tx.rs\<close>.\<close>

definition tx_load_wallet :: "('p, 'q) cli_env \<Rightarrow> string option \<Rightarrow> ('p, 'q, 'c) cli_state \<Rightarrow> ('p, 'q, 'c, wallet_info \<times> bool) cli_result" where
  "tx_load_wallet env wallet_prefix st =
     bind_se (select_wallet wallet_prefix st, st) (\<lambda>w st0.
     bind_se (cli_load_wallet env (wi_id w) st0) (\<lambda>(_, is_open) st1. (Inr (w, is_open), st1)))"

definition unlock_if_needed :: "('p, 'q) cli_env \<Rightarrow> uuid \<Rightarrow> bool \<Rightarrow> string option \<Rightarrow> ('p, 'q, 'c) cli_state \<Rightarrow> ('p, 'q, 'c, string option) cli_result" where
  "unlock_if_needed env wid is_open provided st =
     (if is_open then (Inr None, st)
      else case provided of
             Some p \<Rightarrow> bind_se (cli_unlock_wallet env wid p st) (\<lambda>_ st1. (Inr None, st1))
           | None \<Rightarrow>
               bind_se (get_password None st) (\<lambda>p st1.
               bind_se (cli_unlock_wallet env wid p st1) (\<lambda>_ st2. (Inr (Some p), st2))))"

definition cli_reauth :: "('p, 'q) cli_env \<Rightarrow> uuid \<Rightarrow> string option \<Rightarrow> string option \<Rightarrow> ('p, 'q, 'c) cli_state \<Rightarrow> ('p, 'q, 'c, string) cli_result" where
  "cli_reauth env wid provided unlock_password st =
     bind_se (case provided of
                Some p \<Rightarrow> (Inr p, st)
              | None \<Rightarrow> (case unlock_password of Some p \<Rightarrow> (Inr p, st) | None \<Rightarrow> get_password None st)) (\<lambda>p st1.
     bind_se (manager_step (reauth_wallet (cv_at env AtReauth) (cv_new_token env) wid p Spend) st1) (\<lambda>(token, _) st2. (Inr token, st2)))"

text \<open>The beginning of every command of \<open>tx.rs\<close>.\<close>

definition tx_begin :: "('p, 'q) cli_env \<Rightarrow> bool \<Rightarrow> string option \<Rightarrow> string option \<Rightarrow> ('p, 'q, 'c) cli_state
    \<Rightarrow> ('p, 'q, 'c, wallet_info \<times> string option) cli_result" where
  "tx_begin env enable_tor wallet password st =
     bind_se (wrap_password_arg password, st) (\<lambda>provided st0.
     bind_se (cli_app_state_new env enable_tor st0) (\<lambda>_ st1.
     bind_se (tx_load_wallet env wallet st1) (\<lambda>(w, is_open) st2.
     bind_se (unlock_if_needed env (wi_id w) is_open provided st2) (\<lambda>unlock_password st3. (Inr (w, unlock_password), st3)))))"

record send_args =
  sa_account_id :: nat
  sa_to :: string
  sa_amount :: string
  sa_memo :: "string option"
  sa_allow_transparent :: bool
  sa_wallet :: "string option"
  sa_password :: "string option"
  sa_yes :: bool

definition send_request_of :: "send_args \<Rightarrow> send_request" where
  "send_request_of a = \<lparr>sr_wallet_id = [], sr_network = Mainnet, sr_account_id = sa_account_id a, sr_recipient = sa_to a, sr_amount_zat = sa_amount a,
     sr_memo = sa_memo a, sr_allow_transparent_recipient = sa_allow_transparent a\<rparr>"

definition ask_to_send :: "bool \<Rightarrow> bool \<Rightarrow> tx_summary \<Rightarrow> ('p, 'q, 'c) cli_state \<Rightarrow> ('p, 'q, 'c, bool) cli_result" where
  "ask_to_send json yes summary st = (if \<not> json \<and> \<not> yes then confirm_action (print_out (PSummary summary) st) else (Inr True, st))"

text \<open>The second phase of \<open>tx send\<close>: build, broadcast, report.\<close>

definition send_now :: "('p, 'q) cli_env \<Rightarrow> string \<Rightarrow> tx_context \<times> string \<Rightarrow> ('p, 'q, 'c) cli_state \<Rightarrow> ('p, 'q, 'c, unit) cli_result" where
  "send_now env pid x st =
     (let (ctx, usk) = x in
      bind_se (tk_open_wallet_db (cv_task env) (tc_dir ctx) (tc_dek ctx), st) (\<lambda>_ st1.
      bind_se (manager_step (queue_step (tc_dir ctx) (confirm_send (cv_net env) (tk_open_app_db (cv_task env)) (cv_build env usk) (cv_load_tx env)
        (wv_now (cv_at env AtExecute)) (tc_wallet_id ctx) (tc_dek ctx) (tc_grpc_url ctx) pid)) st1) (\<lambda>e st2.
      (Inr (), print_out (PTxSent (te_txid e)) st2))))"

text \<open>Everything before it; \<open>None\<close> when the user declines.\<close>

definition send_authorized :: "('p, 'q) cli_env \<Rightarrow> bool \<Rightarrow> bool \<Rightarrow> send_args \<Rightarrow> ('p, 'q, 'c) cli_state \<Rightarrow> ('p, 'q, 'c, (string \<times> tx_context \<times> string) option) cli_result" where
  "send_authorized env enable_tor json a st =
     bind_se (tx_begin env enable_tor (sa_wallet a) (sa_password a) st) (\<lambda>(w, unlock_password) st1.
     bind_se (manager_step (wm_prepare_send (cv_at env AtPrepare) (cv_send env) (cv_new_proposal env) (send_request_of a)) st1) (\<lambda>prepared st2.
     bind_se (ask_to_send json (sa_yes a) (psr_summary prepared) st2) (\<lambda>agreed st3.
     if \<not> agreed then (Inr None, print_out (PMessage ''Transaction cancelled'') st3)
     else
       bind_se (cli_reauth env (wi_id w) (sa_password a) unlock_password st3) (\<lambda>token st4.
       bind_se (manager_step (prepare_confirm_send (cv_at env AtUse) (psr_proposal_id prepared) token) st4) (\<lambda>x st5.
       (Inr (Some (psr_proposal_id prepared, x)), st5))))))"

definition cli_send :: "('p, 'q) cli_env \<Rightarrow> bool \<Rightarrow> bool \<Rightarrow> send_args \<Rightarrow> ('p, 'q, 'c) cli_state \<Rightarrow> ('p, 'q, 'c, unit) cli_result" where
  "cli_send env enable_tor json a st =
     bind_se (send_authorized env enable_tor json a st) (\<lambda>authorized st1.
     case authorized of None \<Rightarrow> (Inr (), st1) | Some (pid, x) \<Rightarrow> send_now env pid x st1)"

text \<open>Shielding may not return, as the selection of its inputs may not.\<close>

definition shield_now :: "('p, 'q) cli_env \<Rightarrow> nat \<Rightarrow> tx_context \<times> string \<Rightarrow> ('p, 'q, 'c) cli_state \<Rightarrow> ('p, 'q, 'c, unit) cli_result option" where
  "shield_now env aid x st =
     (let (ctx, usk) = x; m = cs_manager st in
      case tk_open_wallet_db (cv_task env) (tc_dir ctx) (tc_dek ctx) of
        Inl e \<Rightarrow> Some (Inl e, st)
      | Inr _ \<Rightarrow>
          map_option (\<lambda>(r, ss).
              let st1 = st\<lparr>cs_manager := m\<lparr>wm_tx := ss_service ss, wm_queues := (wm_queues m)(tc_dir ctx := ss_dir ss)\<rparr>\<rparr>
              in case r of Inl e \<Rightarrow> (Inl e, st1) | Inr (txid, _) \<Rightarrow> (Inr (), print_out (PTxSent txid) st1))
            (shield_funds (cv_shield env usk) (cv_net env) (tk_open_app_db (cv_task env)) (wv_now (cv_at env AtExecute)) (tc_wallet_id ctx) (tc_dek ctx)
               (tc_grpc_url ctx) aid (wm_queues m (tc_dir ctx), wm_tx m)))"

definition shield_authorized :: "('p, 'q) cli_env \<Rightarrow> bool \<Rightarrow> nat \<Rightarrow> string option \<Rightarrow> string option \<Rightarrow> ('p, 'q, 'c) cli_state
    \<Rightarrow> ('p, 'q, 'c, tx_context \<times> string) cli_result" where
  "shield_authorized env enable_tor aid wallet password st =
     bind_se (tx_begin env enable_tor wallet password st) (\<lambda>(w, unlock_password) st1.
     bind_se (cli_reauth env (wi_id w) password unlock_password st1) (\<lambda>token st2.
     manager_step (prepare_shield_funds (cv_at env AtUse) aid token) st2))"

definition cli_shield :: "('p, 'q) cli_env \<Rightarrow> bool \<Rightarrow> nat \<Rightarrow> string option \<Rightarrow> string option \<Rightarrow> ('p, 'q, 'c) cli_state
    \<Rightarrow> ('p, 'q, 'c, unit) cli_result option" where
  "cli_shield env enable_tor aid wallet password st =
     (case shield_authorized env enable_tor aid wallet password st of
        (Inl e, st1) \<Rightarrow> Some (Inl e, st1)
      | (Inr x, st1) \<Rightarrow> shield_now env aid x st1)"

definition cli_list_transactions :: "('p, 'q) cli_env \<Rightarrow> history_db \<Rightarrow> nat \<Rightarrow> nat \<Rightarrow> nat \<Rightarrow> string option \<Rightarrow> string option \<Rightarrow> ('p, 'q, 'c) cli_state
    \<Rightarrow> ('p, 'q, 'c, unit) cli_result" where
  "cli_list_transactions env db aid limit offset wallet password st =
     bind_se (tx_begin env False wallet password st) (\<lambda>_ st1.
     bind_se (manager_step (wm_list_transactions (cv_history env) db aid limit offset) st1) (\<lambda>(is, total_count) st2.
     (Inr (), print_out (PTransactions is total_count) st2)))"

definition retry_now :: "('p, 'q) cli_env \<Rightarrow> retry_task \<Rightarrow> ('p, 'q, 'c) cli_state \<Rightarrow> ('p, 'q, 'c, unit) cli_result" where
  "retry_now env t st =
     bind_se (manager_step (\<lambda>m. case execute_prepared_retry_broadcast_task (cv_retry env) t (wm_queues m (rk_dir t)) of
         (r, d, db) \<Rightarrow> (r, m\<lparr>wm_queues := (wm_queues m)(rk_dir t := d), wm_app_db := (case db of None \<Rightarrow> wm_app_db m | Some x \<Rightarrow> x)\<rparr>)) st) (\<lambda>txid st1.
     (Inr (), print_out (PTxSent txid) st1))"

definition retry_authorized :: "('p, 'q) cli_env \<Rightarrow> bool \<Rightarrow> string \<Rightarrow> string option \<Rightarrow> string option \<Rightarrow> ('p, 'q, 'c) cli_state \<Rightarrow> ('p, 'q, 'c, retry_task) cli_result" where
  "retry_authorized env enable_tor txid wallet password st =
     bind_se (tx_begin env enable_tor wallet password st) (\<lambda>(w, unlock_password) st1.
     bind_se (cli_reauth env (wi_id w) password unlock_password st1) (\<lambda>token st2.
     bind_se (manager_step (prepare_retry_broadcast_task (cv_at env AtUse) txid token) st2) (\<lambda>t st3.
     bind_se (validate_retry_broadcast_task t (cs_manager st3), st3) (\<lambda>_ st4. (Inr t, st4)))))"

definition cli_retry :: "('p, 'q) cli_env \<Rightarrow> bool \<Rightarrow> string \<Rightarrow> string option \<Rightarrow> string option \<Rightarrow> ('p, 'q, 'c) cli_state \<Rightarrow> ('p, 'q, 'c, unit) cli_result" where
  "cli_retry env enable_tor txid wallet password st =
     bind_se (retry_authorized env enable_tor txid wallet password st) (\<lambda>t st1. retry_now env t st1)"

section \<open>Seed phrase, backup, balance and addresses\<close>

text \<open>The beginning of the remaining commands: the password given on the command line, or a prompted one, unlocks the wallet.\<close>

definition open_session :: "('p, 'q) cli_env \<Rightarrow> (('p, 'q, 'c) cli_state \<Rightarrow> (engine_error, wallet_info) result) \<Rightarrow> string option \<Rightarrow> ('p, 'q, 'c) cli_state
    \<Rightarrow> ('p, 'q, 'c, wallet_info) cli_result" where
  "open_session env pick password st =
     bind_se (wrap_password_arg password, st) (\<lambda>provided st0.
     bind_se (cli_app_state_new env False st0) (\<lambda>_ st1.
     bind_se (pick st1, st1) (\<lambda>w st2.
     bind_se (cli_load_wallet env (wi_id w) st2) (\<lambda>(_, is_open) st3.
     if is_open then (Inr w, st3)
     else
       bind_se (case provided of Some p \<Rightarrow> (Inr p, st3) | None \<Rightarrow> get_password None st3) (\<lambda>p st4.
       bind_se (cli_unlock_wallet env (wi_id w) p st4) (\<lambda>_ st5. (Inr w, st5)))))))"

definition cli_seed :: "('p, 'q) cli_env \<Rightarrow> string option \<Rightarrow> string option \<Rightarrow> ('p, 'q, 'c) cli_state \<Rightarrow> ('p, 'q, 'c, unit) cli_result" where
  "cli_seed env wallet password st =
     bind_se (wrap_password_arg password, st) (\<lambda>provided st0.
     bind_se (cli_app_state_new env False st0) (\<lambda>_ st1.
     bind_se (select_wallet wallet st1, st1) (\<lambda>w st2.
     bind_se (cli_load_wallet env (wi_id w) st2) (\<lambda>(_, is_open) st3.
     bind_se (if \<not> is_open
              then bind_se (case provided of Some p \<Rightarrow> (Inr p, st3) | None \<Rightarrow> get_password None st3) (\<lambda>p st4.
                   bind_se (cli_unlock_wallet env (wi_id w) p st4) (\<lambda>_ st5. (Inr p, st5)))
              else (case provided of Some p \<Rightarrow> (Inr p, st3) | None \<Rightarrow> get_password None st3)) (\<lambda>reauth_password st4.
     bind_se (manager_step (reauth_wallet (cv_at env AtReauth) (cv_new_token env) (wi_id w) reauth_password ViewSeedPhrase) st4) (\<lambda>(token, _) st5.
     bind_se (manager_step (view_seed_phrase (cv_at env AtUse) (wi_id w) token) st5) (\<lambda>words st6.
     (Inr (), print_out (PSeed (wi_name w) words) st6))))))))"

fun challenge_words :: "string list \<Rightarrow> nat list \<Rightarrow> (nat \<rightharpoonup> string) \<Rightarrow> (engine_error, nat \<rightharpoonup> string) result" where
  "challenge_words words [] word_map = Inr word_map"
| "challenge_words words (i # is) word_map =
     (if length words \<le> i - 1 then Inl (msg_err (''invalid index '' @ show_nat i @ '' for 24-word seed''))
      else challenge_words words is (word_map(i \<mapsto> words ! (i - 1))))"

definition prompt_word :: "('p, 'q, 'c) cli_state \<Rightarrow> ('p, 'q, 'c, string) cli_result" where
  "prompt_word st =
     (case read_line st of
        (None, st1) \<Rightarrow> (Inl (msg_err ''io error''), st1)
      | (Some raw, st1) \<Rightarrow> (if trim raw = [] then Inl (msg_err ''word cannot be empty'') else Inr (trim raw), st1))"

fun prompt_words :: "nat list \<Rightarrow> (nat \<rightharpoonup> string) \<Rightarrow> ('p, 'q, 'c) cli_state \<Rightarrow> ('p, 'q, 'c, nat \<rightharpoonup> string) cli_result" where
  "prompt_words [] word_map st = (Inr word_map, st)"
| "prompt_words (i # is) word_map st = bind_se (prompt_word st) (\<lambda>w st1. prompt_words is (word_map(i \<mapsto> w)) st1)"

definition verify_and_report :: "('p, 'q) cli_env \<Rightarrow> uuid \<Rightarrow> string \<Rightarrow> (nat \<rightharpoonup> string) \<Rightarrow> ('p, 'q, 'c) cli_state \<Rightarrow> ('p, 'q, 'c, unit) cli_result" where
  "verify_and_report env wid cid word_map st =
     (let (r, st1) = manager_step (verify_backup (cv_at env AtUse) wid cid word_map) st in (r, print_out (PVerified r) st1))"

definition run_verify :: "('p, 'q) cli_env \<Rightarrow> bool \<Rightarrow> string \<Rightarrow> string option \<Rightarrow> string option \<Rightarrow> ('p, 'q, 'c) cli_state \<Rightarrow> ('p, 'q, 'c, unit) cli_result" where
  "run_verify env json wallet_prefix password seed st =
     bind_se (open_session env (get_wallet_by_prefix wallet_prefix) password st) (\<lambda>w st1.
     bind_se (manager_step (get_backup_challenge (cv_at env AtPrepare) (cv_new_challenge env) (cv_pool env) (wi_id w)) st1) (\<lambda>c st2.
     case seed of
       Some seed_phrase \<Rightarrow>
         (let words = split_whitespace seed_phrase in
          if length words \<noteq> 24 then (Inl (msg_err (''seed phrase must be 24 words, got '' @ show_nat (length words))), st2)
          else bind_se (challenge_words words (bc_indices c) Map.empty, st2) (\<lambda>word_map st3. verify_and_report env (wi_id w) (bc_id c) word_map st3))
     | None \<Rightarrow>
         if json then (Inr (), print_out (PChallenge c) st2)
         else bind_se (prompt_words (bc_indices c) Map.empty st2) (\<lambda>word_map st3. verify_and_report env (wi_id w) (bc_id c) word_map st3)))"

definition cli_balance :: "('p, 'q) cli_env \<Rightarrow> (string, (uuid \<rightharpoonup> account_balance) option) result \<Rightarrow> nat \<Rightarrow> string option \<Rightarrow> string option \<Rightarrow> ('p, 'q, 'c) cli_state
    \<Rightarrow> ('p, 'q, 'c, unit) cli_result" where
  "cli_balance env summary aid wallet password st =
     bind_se (open_session env (select_wallet wallet) password st) (\<lambda>w st1.
     bind_se (manager_step (\<lambda>m. (bind_result (require_active_unlocked_wallet_db m) (\<lambda>_. get_balance (se_accounts (cv_send env)) summary aid), m)) st1) (\<lambda>b st2.
     (Inr (), print_out (PBalance b (wi_name w)) st2)))"

definition cli_address :: "('p, 'q) cli_env \<Rightarrow> address_env \<Rightarrow> nat \<Rightarrow> address_type \<Rightarrow> string option \<Rightarrow> string option \<Rightarrow> ('p, 'q, 'c) cli_state
    \<Rightarrow> ('p, 'q, 'c, unit) cli_result" where
  "cli_address env ax aid ty wallet password st =
     bind_se (open_session env (select_wallet wallet) password st) (\<lambda>_ st1.
     bind_se (manager_step (wm_get_receive_address ax aid ty) st1) (\<lambda>info st2.
     (Inr (), print_out (PAddress (di_encoded info) (di_address_type info)) st2)))"

section \<open>Wallets\<close>

text \<open>\<open>fetch\<close> asks the server of the given URL for the height at which a new wallet begins, \<open>parse_date\<close> reads a date as milliseconds.\<close>

definition cli_create :: "('p, 'q) cli_env \<Rightarrow> 'u create_env \<Rightarrow> wallet_fresh \<Rightarrow> (string \<Rightarrow> 'c tor_manager option \<Rightarrow> nat option) \<Rightarrow> bool \<Rightarrow> string \<Rightarrow> network
    \<Rightarrow> string option \<Rightarrow> ('p, 'q, 'c) cli_state \<Rightarrow> ('p, 'q, 'c, unit) cli_result" where
  "cli_create env ce fr fetch enable_tor name net password st =
     bind_se (wrap_password_arg password, st) (\<lambda>provided st0.
     bind_se (cli_app_state_new env enable_tor st0) (\<lambda>_ st1.
     let w = cv_at env AtPrepare in
     bind_se (resolve_grpc_url (wv_url_parser w) (wv_debug w) (wm_app_db (cs_manager st1)) net (wv_env_url w), st1) (\<lambda>url st2.
     bind_se (case provided of Some p \<Rightarrow> (Inr p, st2) | None \<Rightarrow> get_password_with_confirm None st2) (\<lambda>p st3.
     bind_se (manager_step (create_wallet (cv_at env AtUse) ce fr name net p (fetch url (cs_tor st1))) st3) (\<lambda>(wallet, words, _) st4.
     (Inr (), print_out (PCreated wallet words) st4))))))"

definition cli_restore :: "('p, 'q) cli_env \<Rightarrow> 'u create_env \<Rightarrow> wallet_fresh \<Rightarrow> (string \<Rightarrow> int option) \<Rightarrow> bool \<Rightarrow> string \<Rightarrow> network \<Rightarrow> string option \<Rightarrow> string option
    \<Rightarrow> string option \<Rightarrow> ('p, 'q, 'c) cli_state \<Rightarrow> ('p, 'q, 'c, unit) cli_result" where
  "cli_restore env ce fr parse_date enable_tor name net password seed birthday st =
     bind_se (wrap_password_arg password, st) (\<lambda>provided st0.
     bind_se (cli_app_state_new env enable_tor st0) (\<lambda>_ st1.
     bind_se (case provided of Some p \<Rightarrow> (Inr p, st1) | None \<Rightarrow> get_password_with_confirm None st1) (\<lambda>p st2.
     bind_se (get_seed_phrase seed st2) (\<lambda>phrase st3.
     bind_se (case birthday of
                None \<Rightarrow> Inr None
              | Some b \<Rightarrow> (case parse_date b of None \<Rightarrow> Inl (msg_err ''invalid date format, expected YYYY-MM-DD'') | Some ms \<Rightarrow> Inr (Some ms)), st3) (\<lambda>birthday_ms st4.
     bind_se (manager_step (restore_wallet (cv_at env AtUse) ce fr name net p phrase birthday_ms) st4) (\<lambda>(wallet, height) st5.
     (Inr (), print_out (PRestored wallet height) st5)))))))"

definition cli_wallet_list :: "('p, 'q) cli_env \<Rightarrow> ('p, 'q, 'c) cli_state \<Rightarrow> ('p, 'q, 'c, unit) cli_result" where
  "cli_wallet_list env st = bind_se (cli_app_state_new env False st) (\<lambda>_ st1. (Inr (), print_out (PWallets (cli_list_wallets st1)) st1))"

definition cli_wallet_show :: "('p, 'q) cli_env \<Rightarrow> string \<Rightarrow> ('p, 'q, 'c) cli_state \<Rightarrow> ('p, 'q, 'c, unit) cli_result" where
  "cli_wallet_show env wallet st =
     bind_se (cli_app_state_new env False st) (\<lambda>_ st1.
     bind_se (get_wallet_by_prefix wallet st1, st1) (\<lambda>w st2. (Inr (), print_out (PWalletDetails w) st2)))"

definition cli_wallet_unlock :: "('p, 'q) cli_env \<Rightarrow> string \<Rightarrow> string option \<Rightarrow> ('p, 'q, 'c) cli_state \<Rightarrow> ('p, 'q, 'c, unit) cli_result" where
  "cli_wallet_unlock env wallet password st =
     bind_se (wrap_password_arg password, st) (\<lambda>provided st0.
     bind_se (cli_app_state_new env False st0) (\<lambda>_ st1.
     bind_se (get_wallet_by_prefix wallet st1, st1) (\<lambda>w st2.
     bind_se (cli_load_wallet env (wi_id w) st2) (\<lambda>(_, already_unlocked) st3.
     if already_unlocked then (Inr (), print_out (PMessage (''Wallet '' @ wi_name w @ '' is already unlocked'')) st3)
     else
       bind_se (case provided of Some p \<Rightarrow> (Inr p, st3) | None \<Rightarrow> get_password None st3) (\<lambda>p st4.
       bind_se (cli_unlock_wallet env (wi_id w) p st4) (\<lambda>_ st5. (Inr (), print_out (PMessage (''Wallet '' @ wi_name w @ '' unlocked'')) st5)))))))"

definition cli_wallet_lock :: "('p, 'q) cli_env \<Rightarrow> string \<Rightarrow> ('p, 'q, 'c) cli_state \<Rightarrow> ('p, 'q, 'c, unit) cli_result" where
  "cli_wallet_lock env wallet st =
     bind_se (cli_app_state_new env False st) (\<lambda>_ st1.
     bind_se (get_wallet_by_prefix wallet st1, st1) (\<lambda>w st2.
     bind_se (cli_lock_wallet env (wi_id w) st2) (\<lambda>_ st3. (Inr (), print_out (PMessage (''Wallet '' @ wi_name w @ '' locked'')) st3))))"

section \<open>Lemmas\<close>

text \<open>Two continuations of the same step can only differ when the step succeeds.\<close>

lemma bind_se_differs:
  assumes "bind_se x f \<noteq> bind_se x g"
  obtains a s where "x = (Inr a, s)" "f a s \<noteq> g a s"
  using assms by (cases x; cases "fst x") auto

lemma manager_step_ok: "manager_step f st = (Inr a, st') \<longleftrightarrow> (\<exists>m. f (cs_manager st) = (Inr a, m) \<and> st' = st\<lparr>cs_manager := m\<rparr>)"
  by (auto simp: manager_step_def split: prod.splits)

lemma new_state_ok:
  assumes "cli_app_state_new env tor st = (Inr u, st')"
  shows "wm_app_db (cs_manager st') = wm_app_db (cs_manager st)" "wm_mnemonics (cs_manager st') = wm_mnemonics (cs_manager st)"
    "cs_console st' = cs_console st" "wm_active (cs_manager st') = None" "wm_challenges (cs_manager st') = Map.empty"
    "cs_tor st' = (if tor then Some (tor_manager_new (get_tor_state (wm_app_db (cs_manager st)))) else None)"
  using assms by (auto simp: cli_app_state_new_def wallet_manager_new_def Let_def split: if_splits sum.splits)

lemma select_wallet_db:
  assumes "wm_app_db (cs_manager st) = wm_app_db (cs_manager st')"
  shows "select_wallet x st = select_wallet x st'"
  unfolding select_wallet_def get_wallet_by_prefix_def find_wallet_by_prefix_def cli_list_wallets_def assms by (rule refl)

lemma find_opened:
  "find (\<lambda>r. w_id r = w) (map (\<lambda>r. if w_id r = v then r\<lparr>w_last_opened_at := x\<rparr> else r) rs)
     = map_option (\<lambda>r. if w_id r = v then r\<lparr>w_last_opened_at := x\<rparr> else r) (find (\<lambda>r. w_id r = w) rs)"
  by (induction rs) auto

lemma get_wallet_opened:
  "get_wallet (update_last_opened_at w t db) w = map_option (\<lambda>(wl, dir). (wl\<lparr>wi_last_opened_at := Some t\<rparr>, dir)) (get_wallet db w)"
proof (cases "find (\<lambda>r. w_id r = w) (db_wallets db)")
  case (Some r)
  then have "w_id r = w" by (auto simp: find_Some_iff)
  with Some show ?thesis by (simp add: get_wallet_def update_last_opened_at_def find_opened wallet_of_row_def)
qed (simp add: get_wallet_def update_last_opened_at_def find_opened)

lemma unwrap_opened:
  assumes "wi_network wl = wi_network wl'"
  shows "unwrap_stored_dek env wl w p (update_last_opened_at v t db) = unwrap_stored_dek env wl' w p db"
  using assms by (simp add: unwrap_stored_dek_def get_wallet_encryption_def update_last_opened_at_def)

text \<open>In a new process the wallet is locked.\<close>

lemma load_fresh:
  assumes "wm_active m = None" and "load_wallet env w m = (Inr (info, status), m')"
  shows "status = Locked \<and> wm_app_db m' = update_last_opened_at w (wv_now_ms env) (wm_app_db m) \<and> wm_mnemonics m' = wm_mnemonics m"
  using assms by (auto simp: load_wallet_def Let_def split: option.splits if_splits prod.splits sum.splits dest!: activate_frame_pair)

lemma load_fresh_cli:
  assumes "wm_active (cs_manager st) = None" and "cli_load_wallet env w st = (Inr (info, is_open), st')"
  shows "\<not> is_open" "cs_console st' = cs_console st"
    "wm_app_db (cs_manager st') = update_last_opened_at w (wv_now_ms (cv_at env AtLoad)) (wm_app_db (cs_manager st))"
    "wm_mnemonics (cs_manager st') = wm_mnemonics (cs_manager st)"
  using assms load_fresh[OF assms(1), of "cv_at env AtLoad" w] by (auto simp: cli_load_wallet_def bind_se_ok manager_step_ok)

lemma unlock_checks_password:
  assumes "unlock_wallet env w p m = (Inr x, m')"
  obtains wl dir dek where "get_wallet (wm_app_db m) w = Some (wl, dir)" "unwrap_stored_dek env wl w p (wm_app_db m) = Inr dek"
  using assms by (auto simp: unlock_wallet_def split: option.splits if_splits sum.splits)

section \<open>Authorisation\<close>

text \<open>The password a command is given: on the command line, or as the first answer to a prompt.\<close>

definition given_password :: "string option \<Rightarrow> ('p, 'q, 'c) cli_state \<Rightarrow> string option" where
  "given_password password st =
     (case password of Some p \<Rightarrow> Some p | None \<Rightarrow> (case co_passwords (cs_console st) of [] \<Rightarrow> None | p # _ \<Rightarrow> p))"

text \<open>The command names one wallet, and the key stored for it unwraps under the password given.\<close>

definition authorised :: "('p, 'q) cli_env \<Rightarrow> string option \<Rightarrow> string option \<Rightarrow> ('p, 'q, 'c) cli_state \<Rightarrow> bool" where
  "authorised env wallet password st \<longleftrightarrow>
     (\<exists>w wl dir p dek. select_wallet wallet st = Inr w \<and> given_password password st = Some p \<and> p \<noteq> []
        \<and> get_wallet (wm_app_db (cs_manager st)) (wi_id w) = Some (wl, dir)
        \<and> unwrap_stored_dek (cv_at env AtUnlock) wl (wi_id w) p (wm_app_db (cs_manager st)) = Inr dek)"

definition consented :: "bool \<Rightarrow> bool \<Rightarrow> ('p, 'q, 'c) cli_state \<Rightarrow> bool" where
  "consented json yes st \<longleftrightarrow> json \<or> yes \<or> (\<exists>l ls. co_lines (cs_console st) = Some l # ls \<and> to_lowercase (trim l) = ''y'')"

lemma get_password_ok:
  "get_password None st = (Inr p, st') \<longleftrightarrow> (\<exists>ps. co_passwords (cs_console st) = Some p # ps \<and> st' = st\<lparr>cs_console := (cs_console st)\<lparr>co_passwords := ps\<rparr>\<rparr>)"
  by (auto simp: get_password_def read_password_def split: list.splits option.splits prod.splits)

text \<open>What holds when a command of \<open>tx.rs\<close> has begun: its password unlocked the wallet it names.\<close>

lemma unlock_if_needed_ok:
  assumes "unlock_if_needed env w False provided st = (Inr up, st')"
  obtains p where "given_password provided st = Some p" "(case provided of Some q \<Rightarrow> q | None \<Rightarrow> the up) = p" "provided = None \<longrightarrow> up = Some p"
    "co_lines (cs_console st') = co_lines (cs_console st)" "\<exists>x m. unlock_wallet (cv_at env AtUnlock) w p (cs_manager st) = (Inr x, m) \<and> cs_manager st' = m"
  using assms
  by (cases provided) (auto simp: unlock_if_needed_def cli_unlock_wallet_def bind_se_ok manager_step_ok get_password_ok given_password_def)

lemma tx_begin_ok:
  assumes "tx_begin env tor wallet password st = (Inr (w, up), st')"
  obtains p where "given_password password st = Some p" "(case password of Some q \<Rightarrow> q | None \<Rightarrow> the up) = p" "password = None \<longrightarrow> up = Some p"
    "co_lines (cs_console st') = co_lines (cs_console st)" "p \<noteq> [] \<longrightarrow> authorised env wallet password st"
proof -
  obtain st1 st2 u info op where s: "wrap_password_arg password = Inr password" "cli_app_state_new env tor st = (Inr u, st1)" "select_wallet wallet st1 = Inr w"
    "cli_load_wallet env (wi_id w) st1 = (Inr (info, op), st2)" "unlock_if_needed env (wi_id w) op password st2 = (Inr up, st')"
    using assms by (fastforce simp: tx_begin_def tx_load_wallet_def bind_se_ok wrap_password_arg_def split: if_splits)
  note n = new_state_ok[OF s(2)]
  note l = load_fresh_cli[OF n(4) s(4)]
  obtain p where p: "given_password password st2 = Some p" "(case password of Some q \<Rightarrow> q | None \<Rightarrow> the up) = p" "password = None \<longrightarrow> up = Some p"
    "co_lines (cs_console st') = co_lines (cs_console st2)" "\<exists>x m. unlock_wallet (cv_at env AtUnlock) (wi_id w) p (cs_manager st2) = (Inr x, m) \<and> cs_manager st' = m"
    using unlock_if_needed_ok[of env "wi_id w" password st2 up st'] s(5) l(1) by auto
  have g: "given_password password st = Some p" using p(1) unfolding given_password_def l(2) n(3) .
  obtain x m where u: "unlock_wallet (cv_at env AtUnlock) (wi_id w) p (cs_manager st2) = (Inr x, m)" using p(5) by blast
  obtain wl dir dek where k: "get_wallet (wm_app_db (cs_manager st2)) (wi_id w) = Some (wl, dir)"
    "unwrap_stored_dek (cv_at env AtUnlock) wl (wi_id w) p (wm_app_db (cs_manager st2)) = Inr dek" by (rule unlock_checks_password[OF u])
  obtain wl0 where wl0: "get_wallet (wm_app_db (cs_manager st)) (wi_id w) = Some (wl0, dir)" "wi_network wl = wi_network wl0"
    using k(1) l(3) n(1) by (auto simp: get_wallet_opened)
  have "unwrap_stored_dek (cv_at env AtUnlock) wl0 (wi_id w) p (wm_app_db (cs_manager st)) = Inr dek"
    using k(2) unwrap_opened[OF wl0(2)] l(3) n(1) by simp
  moreover have "select_wallet wallet st = Inr w" using s(3) select_wallet_db[of st st1 wallet] n(1) by simp
  ultimately have "authorised env wallet password st" if "p \<noteq> []" using that g wl0(1) unfolding authorised_def by blast
  then show ?thesis using that g p(2,3,4) l(2) n(3) by simp
qed

text \<open>An empty password is refused at the latest by the re-authentication.\<close>

lemma cli_reauth_ok:
  assumes "cli_reauth env w password up st = (Inr tok, st')" and "password = None \<longrightarrow> up = Some p" and "(case password of Some q \<Rightarrow> q | None \<Rightarrow> the up) = p"
  shows "p \<noteq> []"
  using assms by (cases password) (auto simp: cli_reauth_def bind_se_ok manager_step_ok reauth_wallet_def guard_or_def split: option.splits sum.splits prod.splits if_splits)

text \<open>The same command with another network, another builder of transactions, another selection of inputs and another retry.\<close>

definition elsewhere :: "net_env \<Rightarrow> (string \<Rightarrow> 'p proposal \<Rightarrow> (string, string list) result) \<Rightarrow> tx_loader \<Rightarrow> (string \<Rightarrow> 'q shield_env) \<Rightarrow> retry_task_env
    \<Rightarrow> ('p, 'q) cli_env \<Rightarrow> ('p, 'q) cli_env" where
  "elsewhere n b l sh rx env = env\<lparr>cv_net := n, cv_build := b, cv_load_tx := l, cv_shield := sh, cv_retry := rx\<rparr>"

lemma elsewhere_simps:
  "cv_at (elsewhere n b l sh rx env) = cv_at env" "cv_new_token (elsewhere n b l sh rx env) = cv_new_token env"
  "cv_new_proposal (elsewhere n b l sh rx env) = cv_new_proposal env" "cv_send (elsewhere n b l sh rx env) = cv_send env"
  "cv_dirs_ok (elsewhere n b l sh rx env) = cv_dirs_ok env" "cv_open_app_db (elsewhere n b l sh rx env) = cv_open_app_db env"
  by (simp_all add: elsewhere_def)

lemma elsewhere_begin:
  "tx_begin (elsewhere n b l sh rx env) = tx_begin env" "cli_reauth (elsewhere n b l sh rx env) = cli_reauth env"
proof -
  have new: "cli_app_state_new (elsewhere n b l sh rx env) = cli_app_state_new env"
    unfolding cli_app_state_new_def elsewhere_simps by (simp add: fun_eq_iff)
  have load: "cli_load_wallet (elsewhere n b l sh rx env) = cli_load_wallet env" "cli_unlock_wallet (elsewhere n b l sh rx env) = cli_unlock_wallet env"
    unfolding cli_load_wallet_def cli_unlock_wallet_def elsewhere_simps by (simp_all add: fun_eq_iff)
  show "tx_begin (elsewhere n b l sh rx env) = tx_begin env"
    unfolding tx_begin_def tx_load_wallet_def unlock_if_needed_def new load by (simp add: fun_eq_iff)
  show "cli_reauth (elsewhere n b l sh rx env) = cli_reauth env"
    unfolding cli_reauth_def elsewhere_simps by (simp add: fun_eq_iff)
qed

lemma confirm_ok:
  assumes "confirm_action st = (Inr True, st')"
  shows "\<exists>l ls. co_lines (cs_console st) = Some l # ls \<and> to_lowercase (trim l) = ''y''"
proof (cases "co_lines (cs_console st)")
  case Nil
  then show ?thesis using assms by (simp add: confirm_action_def read_line_def trim_def trim_start_def trim_end_def to_lowercase_def)
next
  case (Cons l ls)
  then show ?thesis using assms by (cases l) (simp_all add: confirm_action_def read_line_def)
qed

lemma ask_consented:
  assumes "ask_to_send json yes summary st = (Inr True, st')" and "co_lines (cs_console st) = co_lines (cs_console st0)"
  shows "consented json yes st0"
  using assms confirm_ok[of "print_out (PSummary summary) st" st'] by (auto simp: ask_to_send_def consented_def print_out_def split: if_splits)

lemma elsewhere_authorized:
  "send_authorized (elsewhere n b l sh rx env) = send_authorized env" "shield_authorized (elsewhere n b l sh rx env) = shield_authorized env"
  "retry_authorized (elsewhere n b l sh rx env) = retry_authorized env"
  unfolding send_authorized_def shield_authorized_def retry_authorized_def elsewhere_begin elsewhere_simps by (rule refl)+

lemma begin_reauth:
  assumes "tx_begin env tor wallet password st = (Inr (w, up), st1)" and "cli_reauth env v password up st2 = (Inr tok, st3)"
  shows "authorised env wallet password st"
proof -
  obtain p where "given_password password st = Some p" "(case password of Some q \<Rightarrow> q | None \<Rightarrow> the up) = p" "password = None \<longrightarrow> up = Some p"
    "co_lines (cs_console st1) = co_lines (cs_console st)" "p \<noteq> [] \<longrightarrow> authorised env wallet password st"
    by (rule tx_begin_ok[OF assms(1)])
  then show ?thesis using cli_reauth_ok[OF assms(2), of p] by blast
qed

lemma send_authorized_ok:
  assumes "send_authorized env tor json a st = (Inr (Some x), st')"
  shows "authorised env (sa_wallet a) (sa_password a) st \<and> consented json (sa_yes a) st"
proof -
  obtain w up st1 prepared st2 st3 tok st4 where s: "tx_begin env tor (sa_wallet a) (sa_password a) st = (Inr (w, up), st1)"
    "manager_step (wm_prepare_send (cv_at env AtPrepare) (cv_send env) (cv_new_proposal env) (send_request_of a)) st1 = (Inr prepared, st2)"
    "ask_to_send json (sa_yes a) (psr_summary prepared) st2 = (Inr True, st3)" "cli_reauth env (wi_id w) (sa_password a) up st3 = (Inr tok, st4)"
    using assms by (auto simp: send_authorized_def bind_se_ok split: if_splits)
  have "co_lines (cs_console st1) = co_lines (cs_console st)" by (rule tx_begin_ok[OF s(1)])
  then have "co_lines (cs_console st2) = co_lines (cs_console st)" using s(2) by (auto simp: manager_step_ok)
  then show ?thesis using begin_reauth[OF s(1,4)] ask_consented[OF s(3)] by blast
qed

lemma shield_authorized_ok: "shield_authorized env tor aid wallet password st = (Inr x, st') \<Longrightarrow> authorised env wallet password st"
  by (auto simp: shield_authorized_def bind_se_ok dest: begin_reauth)

lemma retry_authorized_ok: "retry_authorized env tor txid wallet password st = (Inr x, st') \<Longrightarrow> authorised env wallet password st"
  by (auto simp: retry_authorized_def bind_se_ok dest: begin_reauth)

text \<open>C9: The command line spends only when it is told to.  Unless the key stored for the wallet that the command names unwraps under the password given on the command line or at the first prompt, \<open>tx send\<close>,
  \<open>tx shield\<close> and \<open>tx retry\<close> neither build, nor sign, nor send anything: result, stored state and output are the same for every network and every builder of transactions.
  For \<open>tx send\<close> this also holds when the user has not agreed, by \<open>y\<close> at the prompt, by \<open>--yes\<close> or by asking for JSON output.\<close>

theorem cli_spends_only_when_told:
  "(\<not> (authorised env (sa_wallet a) (sa_password a) st \<and> consented json (sa_yes a) st)
      \<longrightarrow> cli_send (elsewhere n b l sh rx env) tor json a st = cli_send env tor json a st)
   \<and> (\<not> authorised env wallet password st
      \<longrightarrow> cli_shield (elsewhere n b l sh rx env) tor aid wallet password st = cli_shield env tor aid wallet password st
        \<and> cli_retry (elsewhere n b l sh rx env) tor txid wallet password st = cli_retry env tor txid wallet password st)"
proof (intro conjI impI)
  assume n: "\<not> (authorised env (sa_wallet a) (sa_password a) st \<and> consented json (sa_yes a) st)"
  show "cli_send (elsewhere n b l sh rx env) tor json a st = cli_send env tor json a st"
  proof (rule ccontr)
    assume d: "\<not> ?thesis"
    from d obtain y st1 where "send_authorized env tor json a st = (Inr y, st1)" "y \<noteq> None"
      unfolding cli_send_def elsewhere_authorized by (elim bind_se_differs) (auto split: option.splits)
    then show False using send_authorized_ok n by blast
  qed
next
  assume "\<not> authorised env wallet password st"
  then obtain e st1 where "shield_authorized env tor aid wallet password st = (Inl e, st1)"
    using shield_authorized_ok by (metis old.sum.exhaust surj_pair)
  then show "cli_shield (elsewhere n b l sh rx env) tor aid wallet password st = cli_shield env tor aid wallet password st"
    by (simp add: cli_shield_def elsewhere_authorized)
next
  assume "\<not> authorised env wallet password st"
  then obtain e st1 where "retry_authorized env tor txid wallet password st = (Inl e, st1)"
    using retry_authorized_ok by (metis old.sum.exhaust surj_pair)
  then show "cli_retry (elsewhere n b l sh rx env) tor txid wallet password st = cli_retry env tor txid wallet password st"
    by (simp add: cli_retry_def elsewhere_authorized)
qed

section \<open>A new process\<close>

lemma load_with_secrets:
  assumes "has_secrets env wl pw dek words m" and "storage_healthy env" and "wm_active m = None"
  obtains m' where "load_wallet env (wi_id wl) m = (Inr (wl, Locked), m')" "has_secrets env (wl\<lparr>wi_last_opened_at := Some (wv_now_ms env)\<rparr>) pw dek words m'"
proof -
  let ?dir = "wallet_dir (wv_root env) (wi_id wl) (wi_network wl)"
  define m1 where "m1 = m\<lparr>wm_app_db := update_last_opened_at (wi_id wl) (wv_now_ms env) (wm_app_db m)\<rparr>"
  obtain m' where m': "activate_wallet env \<lparr>aw_wallet = wl, aw_dir = ?dir, aw_lock = Locked, aw_dek = None, aw_db = False\<rparr> m1 = (Inr (), m')"
    using healthy_activate[OF assms(2)] by (metis prod.collapse)
  have "load_wallet env (wi_id wl) m = (Inr (wl, Locked), m')"
    using assms(1,3) m' by (simp add: load_wallet_def has_secrets_def m1_def)
  moreover have "has_secrets env (wl\<lparr>wi_last_opened_at := Some (wv_now_ms env)\<rparr>) pw dek words m'"
    using assms(1) activate_frame_pair[OF m'] unwrap_opened[of "wl\<lparr>wi_last_opened_at := Some (wv_now_ms env)\<rparr>" wl env "wi_id wl" pw]
    by (simp add: has_secrets_def m1_def get_wallet_opened)
  ultimately show ?thesis using that by blast
qed

text \<open>The same keys and files, at a moment at which the storage works.\<close>

definition later :: "wallet_env \<Rightarrow> wallet_env \<Rightarrow> bool" where
  "later env0 env \<longleftrightarrow> wv_crypto env = wv_crypto env0 \<and> wv_root env = wv_root env0 \<and> storage_healthy env"

lemma later_secrets: "later env0 env \<Longrightarrow> has_secrets env x pw dek words y = has_secrets env0 x pw dek words y"
  unfolding later_def using has_secrets_env by blast

text \<open>Loading, unlocking, re-authenticating and showing the phrase in a manager that has just been built.\<close>

lemma seed_steps:
  fixes m :: "('p, 'q) wallet_manager"
  assumes s: "has_secrets env0 wl pw dek words m" and a: "wm_active m = None" and pw: "pw \<noteq> []" and plain: "list_all plain_word words"
    and wl: "\<not> wi_remember_unlock_enabled wl" "wi_wallet_type wl = SoftwareWallet"
    and e: "later env0 ld" "later env0 un" "later env0 re" "later env0 us"
    and t: "wv_now us \<le> wv_now re + secs 120"
  obtains m2 m3 m4 m5 where "load_wallet ld (wi_id wl) m = (Inr (wl, Locked), m2)" "unlock_wallet un (wi_id wl) pw m2 = (Inr Unlocked, m3)"
    "reauth_wallet re tok (wi_id wl) pw ViewSeedPhrase m3 = (Inr (tok, wv_now re + secs 120), m4)" "view_seed_phrase us (wi_id wl) tok m4 = (Inr words, m5)"
proof -
  note env = later_secrets[OF e(1)] later_secrets[OF e(2)] later_secrets[OF e(3)] later_secrets[OF e(4)]
  have h: "storage_healthy ld" "storage_healthy un" "wv_read_ok us" "wv_root us = wv_root un" using e by (simp_all add: later_def storage_healthy_def)
  define wl' where "wl' = wl\<lparr>wi_last_opened_at := Some (wv_now_ms ld)\<rparr>"
  have wl': "\<not> wi_remember_unlock_enabled wl'" "wi_wallet_type wl' = SoftwareWallet" "wi_id wl' = wi_id wl" using wl by (simp_all add: wl'_def)
  obtain m2 where m2: "load_wallet ld (wi_id wl) m = (Inr (wl, Locked), m2)" "has_secrets ld wl' pw dek words m2"
  proof (rule load_with_secrets)
    show "has_secrets ld wl pw dek words m" "storage_healthy ld" using s h(1) unfolding env by auto
  qed (use a in \<open>simp_all add: wl'_def\<close>)
  have m2u: "has_secrets un wl' pw dek words m2" "storage_healthy un" using m2(2) h(2) unfolding env by auto
  obtain m3 where m3: "unlock_wallet un (wi_id wl') pw m2 = (Inr Unlocked, m3)" "has_secrets un wl' pw dek words m3" "wm_active m3 = Some (unlocked_wallet un wl' dek)"
    by (rule unlock_with_password[OF m2u wl'(1)])
  have sec: "has_secrets re wl' pw dek words m3" using m3(2) unfolding env .
  define m4 where "m4 = snd (reauth_wallet re tok (wi_id wl') pw ViewSeedPhrase m3)"
  note r = reauth_with_password[OF sec pw, of tok ViewSeedPhrase]
  have m4: "reauth_wallet re tok (wi_id wl') pw ViewSeedPhrase m3 = (Inr (tok, wv_now re + secs 120), m4)" "wm_active m4 = wm_active m3"
    "has_secrets us wl' pw dek words m4" "fst (validate_and_consume (wv_now us) tok (wi_id wl') ViewSeedPhrase (wm_reauth m4)) = Inr ()"
    using r m3(2)[unfolded env] has_secrets_cong[of m4 m3] t unfolding env by (simp_all add: m4_def validate_ok_iff)
  have "wm_active m4 = Some (unlocked_wallet us wl' dek)" using m4(2) m3(3) h(4) by (simp add: unlocked_wallet_def)
  then have "fst (view_seed_phrase us (wi_id wl') tok m4) = Inr words" using view_seed_ok[OF m4(3) _ wl'(2) h(3) plain m4(4)] by blast
  then obtain m5 where "view_seed_phrase us (wi_id wl') tok m4 = (Inr words, m5)" by (metis prod.collapse)
  then show ?thesis using that m2(1) m3(1) m4(1) wl'(3) by simp
qed

text \<open>C11: The words of a wallet can be shown by a later process.  When a wallet was created, \<open>zbag seed\<close>, given its password on the command line or at the prompt, prints
  exactly the 24 words that were shown at creation, although it starts from the files alone.  It is assumed that the ciphers decrypt what they encrypted, that the storage works, that the
  command names this wallet, and that the words are ASCII without white space.\<close>

theorem seed_shown_by_later_process:
  assumes "create_wallet env0 ce fr name net pw bh m = (Inr (wl, words, ch), cs_manager st)"
    and "crypto_ok (wv_crypto env0)" and "length (wr_dek fr) = 32" and "length (wr_mnemonic_nonce fr) = 24" and "list_all plain_word words"
    and "\<And>pt. wv_crypto (cv_at env pt) = wv_crypto env0 \<and> wv_root (cv_at env pt) = wv_root env0 \<and> storage_healthy (cv_at env pt)"
    and "wv_now (cv_at env AtUse) \<le> wv_now (cv_at env AtReauth) + secs 120" and "cv_dirs_ok env" and "cv_open_app_db env = Inr ()"
    and "select_wallet wallet st = Inr w" and "wi_id w = wi_id wl" and "given_password password st = Some pw"
  shows "\<exists>st'. cli_seed env wallet password st = (Inr (), st') \<and> co_printed (cs_console st') = co_printed (cs_console st) @ [PSeed (wi_name w) words] \<and> length words = 24"
proof -
  note c = create_wallet_secrets[OF assms(1-4)]
  obtain st1 where st1: "cli_app_state_new env False st = (Inr (), st1)" using assms(8,9) by (simp add: cli_app_state_new_def Let_def)
  note n = new_state_ok[OF st1]
  have s: "has_secrets env0 wl pw (wr_dek fr) words (cs_manager st1)" using c(1) has_secrets_cong[of "cs_manager st1" "cs_manager st"] n(1,2) by simp
  have wl: "\<not> wi_remember_unlock_enabled wl" "wi_wallet_type wl = SoftwareWallet" using c(2) by (simp_all add: new_wallet_info_def)
  have e: "later env0 (cv_at env pt)" for pt using assms(6) by (simp add: later_def)
  obtain m2 m3 m4 m5 where "load_wallet (cv_at env AtLoad) (wi_id wl) (cs_manager st1) = (Inr (wl, Locked), m2)" "unlock_wallet (cv_at env AtUnlock) (wi_id wl) pw m2 = (Inr Unlocked, m3)"
    "reauth_wallet (cv_at env AtReauth) (cv_new_token env) (wi_id wl) pw ViewSeedPhrase m3 = (Inr (cv_new_token env, wv_now (cv_at env AtReauth) + secs 120), m4)"
    "view_seed_phrase (cv_at env AtUse) (wi_id wl) (cv_new_token env) m4 = (Inr words, m5)"
    by (rule seed_steps[OF s n(4) c(4) assms(5) wl e e e e assms(7)])
  note k = this[folded assms(11)]
  have sel: "select_wallet wallet st1 = Inr w" using assms(10) select_wallet_db[of st1 st] n(1) by simp
  show ?thesis
  proof (cases password)
    case (Some q)
    then have q: "password = Some pw" "wrap_password_arg password = Inr (Some pw)" using assms(12) c(4) by (simp_all add: given_password_def wrap_password_arg_def)
    show ?thesis
      using q st1 sel k n(3) c(3)
      by (simp add: cli_seed_def cli_load_wallet_def cli_unlock_wallet_def manager_step_def print_out_def)
  next
    case None
    then obtain ps where ps: "co_passwords (cs_console st) = Some pw # ps" using assms(12) by (auto simp: given_password_def split: list.splits)
    show ?thesis
      using None ps st1 sel k n(3) c(3)
      by (simp add: cli_seed_def cli_load_wallet_def cli_unlock_wallet_def manager_step_def print_out_def wrap_password_arg_def get_password_def read_password_def)
  qed
qed

text \<open>What creation adds to the wallet table.\<close>

lemma create_wallet_rows:
  assumes "create_wallet env ce fr name net pw bh m = (Inr (wl, words, ch), m')"
  shows "\<exists>r. db_wallets (wm_app_db m') = db_wallets (wm_app_db m) @ [r] \<and> w_id r = wi_id wl"
proof -
  let ?wl = "new_wallet_info env fr name SoftwareWallet net"
  obtain m3 m4 m6 m7 m8 enc where s: "register_wallet env ce fr ?wl (set_backup_required (wi_id ?wl) True) pw m = (Inr (), m3)"
    "open_new_wallet_db env (wr_dek fr) (wallet_dir (wv_root env) (wi_id ?wl) net) m3 = (Inr (), m4)" "store_encrypted_mnemonic env (wi_id ?wl) net enc m4 = (Inr (), m6)"
    "insert_first_account env ?wl SoftwareAccount m6 = (Inr (), m7)" "issue_backup_challenge env (wr_challenge_id fr) (wr_pool fr) (wi_id ?wl) m7 = (Inr ch, m8)"
    "activate_wallet env (unlocked_wallet env ?wl (wr_dek fr)) m8 = (Inr (), m')" "wl = ?wl"
    using assms by (auto simp: create_wallet_def Let_def wallet_steps)
  have "key_rows (wm_app_db m') = key_rows (wm_app_db m3)"
    using open_new_frame[OF s(2)] store_mnemonic_ok[OF s(3)] insert_first_frame[OF s(4)] issue_challenge_frame[OF s(5)] activate_frame_pair[OF s(6)] by simp
  moreover have "\<exists>r. db_wallets (wm_app_db m3) = db_wallets (wm_app_db m) @ [r] \<and> w_id r = wi_id ?wl"
    using s(1) by (auto simp: register_wallet_def Let_def wallet_steps insert_wallet_def insert_wallet_encryption_def set_backup_required_def split: if_splits)
  ultimately show ?thesis using s(7) by (simp add: key_rows_def)
qed

definition demo_retry_task_env :: retry_task_env where
  "demo_retry_task_env = \<lparr>rx_net = demo_net, rx_valid_url = (\<lambda>_. True), rx_is_hex = (\<lambda>_. True), rx_account_of_tx = (\<lambda>_. Some 0), rx_now = 0, rx_task_env = demo_task_env\<rparr>"

definition demo_cli_env :: "(unit, unit) cli_env" where
  "demo_cli_env = \<lparr>cv_dirs_ok = True, cv_open_app_db = Inr (), cv_at = (\<lambda>_. demo_wallet_env), cv_new_token = ''t'', cv_new_proposal = ''p'', cv_new_challenge = ''c'',
     cv_pool = [1..<25], cv_send = demo_send_env, cv_task = demo_task_env, cv_net = demo_net, cv_build = (\<lambda>_. demo_build), cv_load_tx = (\<lambda>_. Inr (Some (Inr [1, 2]))),
     cv_shield = (\<lambda>_. demo_shield_env), cv_retry = demo_retry_task_env, cv_history = demo_history_env\<rparr>"

definition demo_cli_state :: "(unit, unit) wallet_manager \<Rightarrow> string option list \<Rightarrow> string option list \<Rightarrow> (unit, unit, unit) cli_state" where
  "demo_cli_state m ps ls = \<lparr>cs_manager = m, cs_tor = None, cs_console = \<lparr>co_passwords = ps, co_lines = ls, co_printed = []\<rparr>\<rparr>"

definition demo_send_args :: send_args where
  "demo_send_args = \<lparr>sa_account_id = 0, sa_to = ''addr'', sa_amount = ''5000'', sa_memo = None, sa_allow_transparent = False, sa_wallet = None, sa_password = Some ''pw'', sa_yes = False\<rparr>"

theorem cli_spends_only_when_told_witness:
  "cli_send (elsewhere demo_net (\<lambda>_ _. Inl ''refused'') (\<lambda>_. Inl ''e'') (\<lambda>_. demo_shield_env) demo_retry_task_env demo_cli_env) False False demo_send_args (demo_cli_state demo_manager [] [Some ''n''])
     = cli_send demo_cli_env False False demo_send_args (demo_cli_state demo_manager [] [Some ''n''])
   \<and> cli_retry (elsewhere demo_net (\<lambda>_ _. Inl ''refused'') (\<lambda>_. Inl ''e'') (\<lambda>_. demo_shield_env) demo_retry_task_env demo_cli_env) False ''aa'' None (Some ''pw'') (demo_cli_state demo_manager [] [Some ''n''])
     = cli_retry demo_cli_env False ''aa'' None (Some ''pw'') (demo_cli_state demo_manager [] [Some ''n''])"
proof -
  have "\<not> consented False (sa_yes demo_send_args) (demo_cli_state demo_manager [] [Some ''n''])"
    by (simp add: consented_def demo_send_args_def demo_cli_state_def trim_def trim_start_def trim_end_def is_ws_def to_lowercase_def char_lower_def)
  moreover have "\<not> authorised demo_cli_env None (Some ''pw'') (demo_cli_state demo_manager [] [Some ''n''])"
    by (simp add: authorised_def select_wallet_def cli_list_wallets_def demo_cli_state_def demo_manager_def wallet_manager_new_def list_wallets_def demo_empty_db_def)
  ultimately show ?thesis using cli_spends_only_when_told by blast
qed

lemma demo_cli_created:
  obtains ch m1 where "create_wallet demo_wallet_env demo_create_env demo_fresh ''n'' Mainnet ''pw'' None demo_manager
      = (Inr (new_wallet_info demo_wallet_env demo_fresh ''n'' SoftwareWallet Mainnet, demo_words, ch), m1)"
    "list_wallets (wm_app_db m1) = [new_wallet_info demo_wallet_env demo_fresh ''n'' SoftwareWallet Mainnet]"
    "has_secrets demo_wallet_env (new_wallet_info demo_wallet_env demo_fresh ''n'' SoftwareWallet Mainnet) ''pw'' (wr_dek demo_fresh) demo_words m1"
proof -
  let ?wl = "new_wallet_info demo_wallet_env demo_fresh ''n'' SoftwareWallet Mainnet"
  obtain ch m1 where c: "create_wallet demo_wallet_env demo_create_env demo_fresh ''n'' Mainnet ''pw'' None demo_manager = (Inr (?wl, demo_words, ch), m1)"
    using demo_create by blast
  have h: "crypto_ok (wv_crypto demo_wallet_env)" "length (wr_dek demo_fresh) = 32" "length (wr_mnemonic_nonce demo_fresh) = 24"
    using demo_crypto_ok by (simp_all add: demo_wallet_env_def demo_fresh_def)
  obtain r where r: "db_wallets (wm_app_db m1) = [r]" "w_id r = wi_id ?wl"
    using create_wallet_rows[OF c] by (auto simp: demo_manager_def wallet_manager_new_def demo_empty_db_def)
  note s = create_wallet_secrets(1)[OF c h]
  have "list_wallets (wm_app_db m1) = [?wl]" using s r by (simp add: has_secrets_def list_wallets_def get_wallet_def)
  then show ?thesis using that c s by blast
qed

theorem seed_shown_by_later_process_witness:
  "\<exists>m st'. m = snd (create_wallet demo_wallet_env demo_create_env demo_fresh ''n'' Mainnet ''pw'' None demo_manager)
     \<and> cli_seed demo_cli_env None None (demo_cli_state m [Some ''pw''] []) = (Inr (), st') \<and> co_printed (cs_console st') = [PSeed ''n'' demo_words]"
proof -
  let ?wl = "new_wallet_info demo_wallet_env demo_fresh ''n'' SoftwareWallet Mainnet"
  obtain ch m1 where c: "create_wallet demo_wallet_env demo_create_env demo_fresh ''n'' Mainnet ''pw'' None demo_manager = (Inr (?wl, demo_words, ch), m1)"
    "list_wallets (wm_app_db m1) = [?wl]" by (rule demo_cli_created)
  let ?st = "demo_cli_state m1 [Some ''pw''] []"
  have h: "crypto_ok (wv_crypto demo_wallet_env)" "length (wr_dek demo_fresh) = 32" "length (wr_mnemonic_nonce demo_fresh) = 24" "list_all plain_word demo_words"
    using demo_crypto_ok by (simp_all add: demo_wallet_env_def demo_fresh_def demo_words_def plain_word_def is_ws_def list_all_iff)
  have w: "select_wallet None ?st = Inr ?wl" using c(2) by (simp add: select_wallet_def cli_list_wallets_def demo_cli_state_def)
  have e: "create_wallet demo_wallet_env demo_create_env demo_fresh ''n'' Mainnet ''pw'' None demo_manager = (Inr (?wl, demo_words, ch), cs_manager ?st)"
    using c(1) by (simp add: demo_cli_state_def)
  have "\<exists>st'. cli_seed demo_cli_env None None ?st = (Inr (), st') \<and> co_printed (cs_console st') = co_printed (cs_console ?st) @ [PSeed (wi_name ?wl) demo_words] \<and> length demo_words = 24"
    by (rule seed_shown_by_later_process[OF e h _ _ _ _ w refl])
      (use demo_healthy in \<open>simp_all add: demo_cli_env_def secs_def given_password_def demo_cli_state_def\<close>)
  then show ?thesis using c(1) by (intro exI[of _ m1]) (auto simp: demo_cli_state_def new_wallet_info_def)
qed

text \<open>A Tor manager none of whose tasks runs is not changed by them.\<close>

fun is_task_action :: "'c tor_action \<Rightarrow> bool" where
  "is_task_action (SetEnabled b) = False"
| "is_task_action _ = True"

definition tor_idle :: "'c tor_manager \<Rightarrow> bool" where
  "tor_idle m \<longleftrightarrow> (\<forall>i. tk_phase (tm_tasks m i) = TkFinished)"

lemma idle_action:
  assumes "tor_idle m" and "is_task_action act"
  shows "tor_idle (tor_apply act m) \<and> tm_state (tor_apply act m) = tm_state m \<and> tm_client (tor_apply act m) = tm_client m"
  using assms by (cases act) (simp_all add: tor_idle_def task_step_def)

lemma idle_actions:
  "tor_idle m \<Longrightarrow> list_all is_task_action acts \<Longrightarrow> tm_state (fold tor_apply acts m) = tm_state m \<and> tm_client (fold tor_apply acts m) = tm_client m"
proof (induction acts arbitrary: m)
  case (Cons act acts)
  then show ?case using idle_action[of m act] Cons.IH[of "tor_apply act m"] by simp
qed simp

lemma new_tor_idle: "tor_idle (tor_manager_new t)" "ts_status (tm_state (tor_manager_new t)) \<noteq> TorOn" "ts_enabled (tm_state (tor_manager_new t)) = ts_enabled t"
  by (simp_all add: tor_idle_def tor_manager_new_def Let_def)

text \<open>The transport that a client of the process selects, after any actions of the tasks of its Tor manager.\<close>

definition selected :: "'c tor_action list \<Rightarrow> 'c tor_action list \<Rightarrow> ('p, 'q, 'c) cli_state \<Rightarrow> (transport_error, 'c selected_transport) result" where
  "selected acts acts' st = select (map_option (\<lambda>m. (fold tor_apply acts m, fold tor_apply acts' m)) (cs_tor st))"

text \<open>C37: The flag \<open>--tor\<close> never leads to Tor.  A process builds its Tor manager from the stored setting and never enables it, so whatever the tasks of the manager do, a client that
  selects a transport gets a direct connection when the stored setting is off, although \<open>--tor\<close> was given, and is refused for ever when it is on; without the flag it gets a direct connection even
  when the stored setting is on.\<close>

theorem tor_flag_never_uses_tor:
  fixes st st' :: "('p, 'q, 'c) cli_state"
  assumes "cli_app_state_new env enable_tor st = (Inr (), st')" and "list_all is_task_action acts" and "list_all is_task_action acts'"
  shows "(\<forall>c. selected acts acts' st' \<noteq> Inr (ViaTor c))
     \<and> (if enable_tor \<and> ts_enabled (get_tor_state (wm_app_db (cs_manager st))) then \<exists>status e. selected acts acts' st' = Inl (TorNotReady status e)
        else selected acts acts' st' = Inr Direct)"
proof -
  define t where "t = (tor_manager_new (get_tor_state (wm_app_db (cs_manager st))) :: 'c tor_manager)"
  have t: "ts_status (tm_state t) \<noteq> TorOn" "ts_enabled (tm_state t) = ts_enabled (get_tor_state (wm_app_db (cs_manager st)))" "tor_idle t"
    unfolding t_def by (rule new_tor_idle)+
  have "tm_state (fold tor_apply acts t) = tm_state t" using idle_actions[OF t(3) assms(2)] by blast
  then show ?thesis using new_state_ok(6)[OF assms(1)] t(1,2) by (auto simp: selected_def select_def Let_def t_def[symmetric])
qed

definition demo_tor_db :: app_db where
  "demo_tor_db = demo_empty_db\<lparr>db_tor := Some \<lparr>t_enabled = 1, t_status = ''on'', t_last_error = None, t_updated_at = 0\<rparr>\<rparr>"

theorem tor_flag_never_uses_tor_witness:
  "\<exists>st' e s. cli_app_state_new demo_cli_env True (demo_cli_state (demo_manager\<lparr>wm_app_db := demo_tor_db\<rparr>) [] []) = (Inr (), st')
     \<and> selected [SpawnTask 0, TaskEvent 0 (BootOk ())] [] st' = Inl (TorNotReady s e)"
proof -
  let ?st = "demo_cli_state (demo_manager\<lparr>wm_app_db := demo_tor_db\<rparr>) [] []"
  obtain st' where n: "cli_app_state_new demo_cli_env True ?st = (Inr (), st')" by (simp add: cli_app_state_new_def demo_cli_env_def Let_def)
  have "ts_enabled (get_tor_state (wm_app_db (cs_manager ?st)))" by (simp add: demo_cli_state_def demo_tor_db_def get_tor_state_def)
  then show ?thesis using tor_flag_never_uses_tor[OF n, of "[SpawnTask 0, TaskEvent 0 (BootOk ())]" "[]"] n by auto
qed

text \<open>Unlocking does not outlive its process.  A command starts with a locked wallet, whatever earlier commands did: \<open>wallet unlock\<close>, with or without \<open>--remember\<close>, changes nothing for it,
  so a command without a password fails, \<open>wallet lock\<close> has nothing to lock, and no challenge printed by an earlier \<open>backup verify --json\<close> can be answered.\<close>

theorem unlock_ends_with_process:
  assumes "cli_wallet_unlock env0 wallet pw st0 = (Inr (), st)"
  shows "(given_password (sa_password a) st = None \<longrightarrow> (\<exists>e. fst (cli_send env tor json a st) = Inl e))
     \<and> (\<forall>st'. cli_app_state_new env tor st = (Inr (), st')
          \<longrightarrow> (\<forall>w info is_open st2. cli_load_wallet env w st' = (Inr (info, is_open), st2) \<longrightarrow> \<not> is_open)
            \<and> (\<forall>ve w. lock_wallet ve w (cs_manager st') = (Locked, cs_manager st'))
            \<and> (\<forall>ve w cid answers. \<exists>e. fst (verify_backup ve w cid answers (cs_manager st')) = Inl e))"
proof (intro conjI impI allI)
  assume n: "given_password (sa_password a) st = None"
  have "tx_begin env tor (sa_wallet a) (sa_password a) st \<noteq> (Inr x, st1)" for x st1
    using n by (cases x) (auto elim: tx_begin_ok)
  then obtain e st1 where "tx_begin env tor (sa_wallet a) (sa_password a) st = (Inl e, st1)" by (metis old.sum.exhaust surj_pair)
  then show "\<exists>e. fst (cli_send env tor json a st) = Inl e" by (simp add: cli_send_def send_authorized_def)
next
  fix st' w info is_open st2
  assume "cli_app_state_new env tor st = (Inr (), st')" "cli_load_wallet env w st' = (Inr (info, is_open), st2)"
  then show "\<not> is_open" using new_state_ok(4) load_fresh_cli(1) by blast
next
  fix st' ve w assume n: "cli_app_state_new env tor st = (Inr (), st')"
  show "lock_wallet ve w (cs_manager st') = (Locked, cs_manager st')" using new_state_ok(4)[OF n] by (simp add: lock_wallet_def)
next
  fix st' ve w cid answers assume n: "cli_app_state_new env tor st = (Inr (), st')"
  show "\<exists>e. fst (verify_backup ve w cid answers (cs_manager st')) = Inl e" using new_state_ok(4,5)[OF n] by (simp add: verify_backup_def active_watch_only_def)
qed

theorem unlock_ends_with_process_witness:
  "\<exists>m st e. cli_wallet_unlock demo_cli_env ''w'' (Some ''pw'') (demo_cli_state m [] []) = (Inr (), st)
     \<and> fst (cli_send demo_cli_env False True (demo_send_args\<lparr>sa_password := None\<rparr>) st) = Inl e"
proof -
  let ?wl = "new_wallet_info demo_wallet_env demo_fresh ''n'' SoftwareWallet Mainnet"
  obtain m1 :: "(unit, unit) wallet_manager" where c: "list_wallets (wm_app_db m1) = [?wl]" "has_secrets demo_wallet_env ?wl ''pw'' (wr_dek demo_fresh) demo_words m1" by (rule demo_cli_created)
  let ?st = "demo_cli_state m1 [] []"
  obtain st1 where st1: "cli_app_state_new demo_cli_env False ?st = (Inr (), st1)" by (simp add: cli_app_state_new_def demo_cli_env_def Let_def)
  note n = new_state_ok[OF st1]
  have wl: "wi_id ?wl = ''w''" "\<not> wi_remember_unlock_enabled ?wl" "wi_wallet_type ?wl = SoftwareWallet" by (simp_all add: new_wallet_info_def demo_fresh_def)
  have s: "has_secrets demo_wallet_env ?wl ''pw'' (wr_dek demo_fresh) demo_words (cs_manager st1)"
    using c(2) has_secrets_cong[of "cs_manager st1" m1] n(1,2) by (simp add: demo_cli_state_def)
  have e: "later demo_wallet_env demo_wallet_env" using demo_healthy by (simp add: later_def)
  have p: "''pw'' \<noteq> []" "list_all plain_word demo_words" "wv_now demo_wallet_env \<le> wv_now demo_wallet_env + secs 120"
    by (simp_all add: secs_def demo_words_def plain_word_def is_ws_def list_all_iff)
  obtain m2 m3 where "load_wallet demo_wallet_env (wi_id ?wl) (cs_manager st1) = (Inr (?wl, Locked), m2)" "unlock_wallet demo_wallet_env (wi_id ?wl) ''pw'' m2 = (Inr Unlocked, m3)"
    by (rule seed_steps[OF s n(4) p(1,2) wl(2,3) e e e e p(3)])
  note k = this[unfolded wl(1)]
  have g: "get_wallet_by_prefix ''w'' st1 = Inr ?wl"
    using c(1) n(1) wl(1) by (simp add: get_wallet_by_prefix_def find_wallet_by_prefix_def cli_list_wallets_def starts_with_id_def demo_cli_state_def to_lowercase_def)
  have at: "cv_at demo_cli_env pt = demo_wallet_env" "co_passwords (cs_console ?st) = []" for pt by (simp_all add: demo_cli_env_def demo_cli_state_def)
  have "\<exists>st. cli_wallet_unlock demo_cli_env ''w'' (Some ''pw'') ?st = (Inr (), st) \<and> co_passwords (cs_console st) = []"
    using st1 g k n(3) wl(1) at(2) by (simp add: cli_wallet_unlock_def wrap_password_arg_def cli_load_wallet_def cli_unlock_wallet_def manager_step_def print_out_def at(1))
  then obtain st where u: "cli_wallet_unlock demo_cli_env ''w'' (Some ''pw'') ?st = (Inr (), st)" and "co_passwords (cs_console st) = []" by blast
  then have "given_password (sa_password (demo_send_args\<lparr>sa_password := None\<rparr>)) st = None" by (simp add: given_password_def)
  then obtain e where "fst (cli_send demo_cli_env False True (demo_send_args\<lparr>sa_password := None\<rparr>) st) = Inl e"
    using unlock_ends_with_process[OF u, where a = "demo_send_args\<lparr>sa_password := None\<rparr>" and env = demo_cli_env and tor = False and json = True] by blast
  then show ?thesis using u by blast
qed

end
