(* ===== verification/Sync.thy ===== *)
theory Sync
  imports Core_Types Server_Endpoint
begin

text \<open>
  \<open>crates/zbag-engine/src/sync_service.rs\<close>: adaptive batch sizes, the throttle of balance events, the tables of jobs and blocking scans, progress with
  its estimates, the retried download of a batch, and the pipeline of a scan range, where a download task feeds a
  bounded channel that the scan loop drains.  Times are nanoseconds; the floating-point arithmetic of the estimates is
  a parameter, with values of type \<open>'f\<close>.
\<close>

section \<open>Batch sizes\<close>

definition BATCH_SIZE :: nat where "BATCH_SIZE = 250"
definition BATCH_SIZE_SANDBLASTING :: nat where "BATCH_SIZE_SANDBLASTING = 100"
definition LOOKAHEAD_BATCHES :: nat where "LOOKAHEAD_BATCHES = 4"
definition ADAPTIVE_BATCH_MIN_SIZE :: nat where "ADAPTIVE_BATCH_MIN_SIZE = 125"
definition ADAPTIVE_BATCH_MAX_SIZE :: nat where "ADAPTIVE_BATCH_MAX_SIZE = 2000"

definition in_sandblasting_range :: "nat \<Rightarrow> bool" where
  "in_sandblasting_range h = (1710000 \<le> h \<and> h \<le> 2050000)"

definition effective_batch_size :: "nat \<Rightarrow> nat" where
  "effective_batch_size height = (if in_sandblasting_range height then BATCH_SIZE_SANDBLASTING else BATCH_SIZE)"

record scan_activity =
  sa_scanned_blocks :: nat
  sa_spent_sapling :: nat
  sa_spent_orchard :: nat
  sa_received_sapling :: nat
  sa_received_orchard :: nat

definition touched_notes :: "scan_activity \<Rightarrow> nat" where
  "touched_notes a = sat_add_u32 (sat_add_u32 (sat_add_u32 (sa_spent_sapling a) (sa_spent_orchard a)) (sa_received_sapling a)) (sa_received_orchard a)"

datatype batch_decision = Grew | Shrunk

record batch_controller =
  bc_min_size :: nat
  bc_max_size :: nat
  bc_current_size :: nat

definition batch_controller_new :: "nat \<Rightarrow> batch_controller" where
  "batch_controller_new range_start =
     (let base = effective_batch_size range_start in
      if base = BATCH_SIZE_SANDBLASTING then \<lparr>bc_min_size = base, bc_max_size = base, bc_current_size = base\<rparr>
      else \<lparr>bc_min_size = min ADAPTIVE_BATCH_MIN_SIZE BATCH_SIZE, bc_max_size = max ADAPTIVE_BATCH_MAX_SIZE BATCH_SIZE, bc_current_size = base\<rparr>)"

definition clamp_nat :: "nat \<Rightarrow> nat \<Rightarrow> nat \<Rightarrow> nat" where
  "clamp_nat lo hi x = (if x < lo then lo else if hi < x then hi else x)"

definition next_download_size :: "batch_controller \<Rightarrow> nat \<Rightarrow> nat" where
  "next_download_size c height =
     (if effective_batch_size height = BATCH_SIZE_SANDBLASTING then BATCH_SIZE_SANDBLASTING
      else clamp_nat (bc_min_size c) (bc_max_size c) (bc_current_size c))"

definition sat_mul_u32 :: "nat \<Rightarrow> nat \<Rightarrow> nat" where
  "sat_mul_u32 a b = min (a * b) u32_max"

text \<open>Slow is two seconds or more, fast at most 0.8 seconds.\<close>

definition record_scan_result :: "nat \<Rightarrow> int \<Rightarrow> scan_activity \<Rightarrow> batch_controller
    \<Rightarrow> (nat \<times> nat \<times> batch_decision) option \<times> batch_controller" where
  "record_scan_result batch_start elapsed a c =
     (if sa_scanned_blocks a = 0 \<or> effective_batch_size batch_start = BATCH_SIZE_SANDBLASTING \<or> elapsed \<le> 0 then (None, c)
      else
        let previous = bc_current_size c;
            raw = (if 2000000000 \<le> elapsed then sat_mul_u32 previous 3 div 4
                   else if elapsed \<le> 800000000 \<and> touched_notes a = 0 then sat_mul_u32 previous 3 div 2
                   else previous);
            current = clamp_nat (bc_min_size c) (bc_max_size c) raw;
            c' = c\<lparr>bc_current_size := current\<rparr>
        in (if current = previous then None else Some (previous, current, if previous < current then Grew else Shrunk), c'))"

section \<open>Throttle of balance events\<close>

datatype balance_trigger = SuccessfulScanBatch nat | ForcedMilestone

record balance_throttle =
  bt_last_emit_at :: "int option"
  bt_scanned_blocks_since_emit :: nat
  bt_saw_successful_scan_batch :: bool

definition should_emit_after_successful_scan_batch :: "nat \<Rightarrow> int \<Rightarrow> balance_throttle \<Rightarrow> bool \<times> balance_throttle" where
  "should_emit_after_successful_scan_batch scanned now t =
     (let t1 = t\<lparr>bt_scanned_blocks_since_emit := sat_add_u32 (bt_scanned_blocks_since_emit t) scanned\<rparr> in
      if \<not> bt_saw_successful_scan_batch t1 then (True, t1\<lparr>bt_saw_successful_scan_batch := True\<rparr>)
      else
        let time_gate = (case bt_last_emit_at t1 of None \<Rightarrow> True | Some prior \<Rightarrow> 1500000000 \<le> max 0 (now - prior));
            block_gate = 250 \<le> bt_scanned_blocks_since_emit t1
        in (time_gate \<or> block_gate, t1))"

definition should_emit_and_update :: "balance_trigger \<Rightarrow> int \<Rightarrow> balance_throttle \<Rightarrow> bool \<times> balance_throttle" where
  "should_emit_and_update trigger now t =
     (case trigger of
        ForcedMilestone \<Rightarrow> (True, t)
      | SuccessfulScanBatch scanned \<Rightarrow> should_emit_after_successful_scan_batch scanned now t)"

definition record_emit :: "int \<Rightarrow> balance_throttle \<Rightarrow> balance_throttle" where
  "record_emit now t = t\<lparr>bt_last_emit_at := Some now, bt_scanned_blocks_since_emit := 0\<rparr>"

definition start_new_auto_sync_iteration :: "balance_throttle \<Rightarrow> balance_throttle" where
  "start_new_auto_sync_iteration t = t\<lparr>bt_scanned_blocks_since_emit := 0, bt_saw_successful_scan_batch := False\<rparr>"

section \<open>State of the service\<close>

record 'f progress_estimate =
  pe_start_height :: "nat option"
  pe_start_instant :: "int option"
  pe_target_height :: "nat option"
  pe_last_frontier_height :: "nat option"
  pe_last_update_at :: "int option"
  pe_ewma :: "'f option"
  pe_last_percent :: "nat option"
  pe_last_eta_seconds :: "nat option"

definition estimate_default :: "'f progress_estimate" where
  "estimate_default = \<lparr>pe_start_height = None, pe_start_instant = None, pe_target_height = None, pe_last_frontier_height = None,
     pe_last_update_at = None, pe_ewma = None, pe_last_percent = None, pe_last_eta_seconds = None\<rparr>"

record 'f sync_state =
  sy_jobs :: "uuid set"
  sy_blocking_scans :: "uuid \<rightharpoonup> nat"
  sy_progress :: "uuid \<rightharpoonup> sync_progress"
  sy_started_at :: "uuid \<rightharpoonup> int"
  sy_estimates :: "uuid \<rightharpoonup> 'f progress_estimate"

definition sync_service_new :: "'f sync_state" where
  "sync_service_new = \<lparr>sy_jobs = {}, sy_blocking_scans = Map.empty, sy_progress = Map.empty, sy_started_at = Map.empty, sy_estimates = Map.empty\<rparr>"

definition default_progress :: sync_progress where
  "default_progress = \<lparr>sp_phase = SyIdle, sp_scan_frontier_height = 0, sp_wallet_tip_height = 0, sp_progress_percent = 0,
     sp_eta_seconds = None, sp_retry_in_seconds = None, sp_error_message = None\<rparr>"

text \<open>The floating-point part: the smoothed rate after \<open>delta_h\<close> blocks in \<open>delta_t\<close>; the remaining time from it, the blocks done and the time
  since the start of the session; and by how much an estimate may grow since the last one.\<close>

record 'f eta_arith =
  ea_rate :: "'f option \<Rightarrow> nat \<Rightarrow> int \<Rightarrow> 'f"
  ea_eta :: "'f option \<Rightarrow> nat \<Rightarrow> int \<Rightarrow> nat \<Rightarrow> nat option"
  ea_max_increase :: "nat \<Rightarrow> int \<Rightarrow> nat"

definition shown_percent :: "sync_phase \<Rightarrow> 'f progress_estimate \<Rightarrow> nat \<Rightarrow> nat option" where
  "shown_percent phase e frontier =
     (case (pe_start_height e, pe_target_height e) of
        (Some start, Some target) \<Rightarrow>
          if start < target \<and> start \<le> frontier then
            let raw = min ((frontier - start) * 100 div (target - start)) 100;
                pct = (if 100 \<le> raw then (if phase = SyIdle then 100 else 99) else raw)
            in Some (case pe_last_percent e of None \<Rightarrow> pct | Some prior \<Rightarrow> max pct prior)
          else None
      | _ \<Rightarrow> None)"

text \<open>The estimate and progress after the session start, the target and the percentage were updated.\<close>

definition eta_observe :: "int \<Rightarrow> sync_progress \<Rightarrow> 'f progress_estimate \<Rightarrow> sync_progress \<times> 'f progress_estimate" where
  "eta_observe now p e =
     (let frontier = sp_scan_frontier_height p;
          e1 = (if pe_start_height e = None \<and> 0 < frontier
                then e\<lparr>pe_start_height := Some frontier, pe_start_instant := Some now\<rparr> else e);
          e2 = (if 0 < sp_wallet_tip_height p
                then e1\<lparr>pe_target_height := Some (max (case pe_target_height e1 of None \<Rightarrow> 0 | Some t \<Rightarrow> t) (sp_wallet_tip_height p))\<rparr> else e1)
      in case shown_percent (sp_phase p) e2 frontier of
           None \<Rightarrow> (p, e2)
         | Some pct \<Rightarrow> (p\<lparr>sp_progress_percent := pct\<rparr>, e2\<lparr>pe_last_percent := Some pct\<rparr>))"

definition clamp_eta :: "'f eta_arith \<Rightarrow> int \<Rightarrow> nat option \<Rightarrow> nat option \<Rightarrow> nat option" where
  "clamp_eta ea dt prior computed =
     (case (prior, computed) of
        (_, None) \<Rightarrow> None
      | (None, Some eta) \<Rightarrow> Some eta
      | (Some prev, Some eta) \<Rightarrow> Some (min eta (sat_add_u64 prev (max (ea_max_increase ea prev dt) 1))))"

definition eta_finish :: "'f eta_arith \<Rightarrow> int \<Rightarrow> int \<Rightarrow> nat \<Rightarrow> sync_progress \<Rightarrow> 'f progress_estimate \<Rightarrow> sync_progress \<times> 'f progress_estimate" where
  "eta_finish ea now dt target p e =
     (let frontier = sp_scan_frontier_height p;
          e1 = e\<lparr>pe_last_frontier_height := Some frontier, pe_last_update_at := Some now\<rparr>;
          computed = (case (pe_start_height e1, pe_start_instant e1) of
            (Some start_height, Some start_instant) \<Rightarrow>
              if frontier - start_height < 10000 \<or> now - start_instant < 5000000000 then None
              else ea_eta ea (pe_ewma e1) (frontier - start_height) (now - start_instant) (target - frontier)
          | _ \<Rightarrow> None);
          eta = clamp_eta ea dt (pe_last_eta_seconds e1) computed
      in (p\<lparr>sp_eta_seconds := eta\<rparr>, e1\<lparr>pe_last_eta_seconds := eta\<rparr>))"

definition eta_update :: "'f eta_arith \<Rightarrow> int \<Rightarrow> int \<Rightarrow> nat \<Rightarrow> sync_progress \<Rightarrow> 'f progress_estimate \<Rightarrow> sync_progress \<times> 'f progress_estimate" where
  "eta_update ea now dt target p e =
     (let frontier = sp_scan_frontier_height p in
      case (pe_last_frontier_height e, pe_last_update_at e) of
        (Some last_height, Some last_update_at) \<Rightarrow>
          if frontier < last_height then
            (p\<lparr>sp_eta_seconds := None\<rparr>,
             e\<lparr>pe_start_height := Some frontier, pe_start_instant := Some now, pe_last_frontier_height := Some frontier,
               pe_last_update_at := Some now, pe_ewma := None, pe_last_eta_seconds := None\<rparr>)
          else eta_finish ea now dt target p
                 (if 50000000 \<le> now - last_update_at
                  then e\<lparr>pe_ewma := Some (ea_rate ea (pe_ewma e) (frontier - last_height) (now - last_update_at))\<rparr> else e)
      | _ \<Rightarrow> eta_finish ea now dt target p e)"

definition with_eta :: "'f eta_arith \<Rightarrow> int \<Rightarrow> uuid \<Rightarrow> sync_progress \<Rightarrow> 'f sync_state \<Rightarrow> sync_progress \<times> 'f sync_state" where
  "with_eta ea now wid p s =
     (if sp_phase p = SyIdle \<or> sp_phase p = SyOffline \<or> sp_phase p = SyError
      then (p\<lparr>sp_eta_seconds := None\<rparr>, s\<lparr>sy_estimates := (sy_estimates s)(wid := None)\<rparr>)
      else if sp_phase p = SyCatchingUp \<and> 0 < sp_wallet_tip_height p \<and> sp_wallet_tip_height p \<le> sp_scan_frontier_height p
      then (p\<lparr>sp_progress_percent := 100, sp_eta_seconds := None\<rparr>, s\<lparr>sy_estimates := (sy_estimates s)(wid := None)\<rparr>)
      else if sp_phase p = SyPreparing \<or> sp_phase p = SyEnhancing
      then (p\<lparr>sp_eta_seconds := None\<rparr>,
            s\<lparr>sy_estimates := (sy_estimates s)(wid := map_option (\<lambda>e. e\<lparr>pe_last_eta_seconds := None\<rparr>) (sy_estimates s wid))\<rparr>)
      else
        let e = (case sy_estimates s wid of None \<Rightarrow> estimate_default | Some e \<Rightarrow> e);
            dt = (case pe_last_update_at e of None \<Rightarrow> 1000000000 | Some t \<Rightarrow> max (now - t) 50000000);
            (p1, e1) = eta_observe now p e;
            frontier = sp_scan_frontier_height p;
            (p2, e2) = (case pe_target_height e1 of
              None \<Rightarrow> (p1\<lparr>sp_eta_seconds := None\<rparr>, e1)
            | Some target \<Rightarrow>
                if target = 0 \<or> frontier = 0 \<or> target \<le> frontier then (p1\<lparr>sp_eta_seconds := None\<rparr>, e1)
                else eta_update ea now dt target p1 e1)
        in (p2, s\<lparr>sy_estimates := (sy_estimates s)(wid \<mapsto> e2)\<rparr>))"

definition update_progress :: "'f eta_arith \<Rightarrow> int \<Rightarrow> uuid \<Rightarrow> sync_progress \<Rightarrow> 'f sync_state \<Rightarrow> sync_progress \<times> 'f sync_state" where
  "update_progress ea now wid p s = (let (p', s') = with_eta ea now wid p s in (p', s'\<lparr>sy_progress := (sy_progress s')(wid \<mapsto> p')\<rparr>))"

definition sync_get_progress :: "'f eta_arith \<Rightarrow> int \<Rightarrow> uuid \<Rightarrow> 'f sync_state \<Rightarrow> sync_progress \<times> 'f sync_state" where
  "sync_get_progress ea now wid s =
     update_progress ea now wid (case sy_progress s wid of None \<Rightarrow> default_progress | Some p \<Rightarrow> p) s"

section \<open>Jobs\<close>

definition acquire_blocking_scan :: "uuid \<Rightarrow> 'f sync_state \<Rightarrow> 'f sync_state" where
  "acquire_blocking_scan wid s =
     s\<lparr>sy_blocking_scans := (sy_blocking_scans s)(wid \<mapsto> (case sy_blocking_scans s wid of None \<Rightarrow> 0 | Some n \<Rightarrow> n) + 1)\<rparr>"

definition release_blocking_scan :: "uuid \<Rightarrow> 'f sync_state \<Rightarrow> 'f sync_state" where
  "release_blocking_scan wid s =
     (case sy_blocking_scans s wid of
        None \<Rightarrow> s
      | Some n \<Rightarrow> s\<lparr>sy_blocking_scans := (sy_blocking_scans s)(wid := (if n - 1 = 0 then None else Some (n - 1)))\<rparr>)"

definition preparing_progress :: sync_progress where
  "preparing_progress = default_progress\<lparr>sp_phase := SyPreparing\<rparr>"

text \<open>The call up to and after spawning the task; \<open>finished\<close> says that the task had ended when its handle was looked at.  A failure to resolve
  the server leaves the preparing progress behind.\<close>

definition start_sync :: "'f eta_arith \<Rightarrow> int \<Rightarrow> (engine_error, string) result \<Rightarrow> bool \<Rightarrow> bool \<Rightarrow> uuid \<Rightarrow> 'f sync_state
    \<Rightarrow> (engine_error, unit) result \<times> 'f sync_state" where
  "start_sync ea now grpc_url notify finished wid s =
     (if wid \<in> sy_jobs s \<or> sy_blocking_scans s wid \<noteq> None then (Inl (ipc_err SYNC_IN_PROGRESS ''sync already in progress''), s)
      else
        let s1 = s\<lparr>sy_started_at := (sy_started_at s)(wid \<mapsto> now), sy_progress := (sy_progress s)(wid \<mapsto> preparing_progress)\<rparr>;
            s2 = (if notify then snd (sync_get_progress ea now wid s1) else s1)
        in case grpc_url of
             Inl e \<Rightarrow> (Inl (with_context ''failed to resolve active lightwalletd endpoint'' e), s2)
           | Inr _ \<Rightarrow> (Inr (), if finished then s2\<lparr>sy_jobs := sy_jobs s2 - {wid}\<rparr> else s2\<lparr>sy_jobs := insert wid (sy_jobs s2)\<rparr>))"

definition stop_sync :: "'f eta_arith \<Rightarrow> int \<Rightarrow> bool \<Rightarrow> uuid \<Rightarrow> 'f sync_state \<Rightarrow> 'f sync_state" where
  "stop_sync ea now notify wid s =
     (if wid \<notin> sy_jobs s then s
      else
        let s1 = s\<lparr>sy_jobs := sy_jobs s - {wid}, sy_progress := (sy_progress s)(wid \<mapsto> default_progress),
                  sy_started_at := (sy_started_at s)(wid := None), sy_estimates := (sy_estimates s)(wid := None)\<rparr>
        in if notify then snd (sync_get_progress ea now wid s1) else s1)"

definition running_wallet_ids :: "'f sync_state \<Rightarrow> uuid set" where
  "running_wallet_ids s = sy_jobs s"

definition sync_task_end :: "uuid \<Rightarrow> 'f sync_state \<Rightarrow> 'f sync_state" where
  "sync_task_end wid s = s\<lparr>sy_jobs := sy_jobs s - {wid}, sy_started_at := (sy_started_at s)(wid := None),
     sy_estimates := (sy_estimates s)(wid := None)\<rparr>"

section \<open>Downloading a batch\<close>

text \<open>What the server answers to one request: an error, or blocks and the way the stream ends.\<close>

datatype 'b block_stream = StreamRefused string | StreamOf "'b list" "string option"

text \<open>\<open>reply n\<close> answers the request made at attempt \<open>n\<close>; the delays between the attempts are returned, in milliseconds.\<close>

function download_attempts :: "(nat \<Rightarrow> 'b block_stream) \<Rightarrow> nat \<Rightarrow> nat \<Rightarrow> nat list \<Rightarrow> (string, 'b list) result \<times> nat list" where
  "download_attempts reply max_retries attempt delays =
     (case reply attempt of
        StreamOf blocks ended \<Rightarrow>
          (case ended of
             Some err \<Rightarrow>
               if max_retries \<le> attempt then (Inl err, delays)
               else if blocks \<noteq> [] then (Inr blocks, delays)
               else download_attempts reply max_retries (attempt + 1) delays
           | None \<Rightarrow>
               if blocks \<noteq> [] \<or> max_retries \<le> attempt then (Inr blocks, delays)
               else download_attempts reply max_retries (attempt + 1) delays)
      | StreamRefused err \<Rightarrow>
          if attempt < max_retries
          then download_attempts reply max_retries (attempt + 2) (delays @ [min (1000 * 2 ^ min (attempt + 1) 6) 60000])
          else (Inl err, delays))"
  by pat_completeness auto
termination by (relation "measure (\<lambda>(_, m, a, _). m + 1 - a)") auto

definition download_blocks_with_retry :: "(nat \<Rightarrow> 'b block_stream) \<Rightarrow> nat \<Rightarrow> nat \<Rightarrow> nat \<Rightarrow> (string, 'b list) result \<times> nat list" where
  "download_blocks_with_retry reply start end_exclusive max_retries =
     (if end_exclusive \<le> start then (Inr [], []) else download_attempts reply max_retries 0 [])"

section \<open>The pipeline of a scan range\<close>

datatype download_result = Batch nat nat | RangeComplete | DownloadError | DownloadCancelled

datatype download_phase = DlLoop | DlSending download_result | DlDone

datatype scan_phase = ScanReceiving | ScanLeft bool | ScanDone

text \<open>\<open>ScanLeft ok\<close>: the scan loop was left and waits for the download task; \<open>ok\<close> when the range was received completely.  \<open>pl_batches\<close> and
  \<open>pl_scanned\<close> record the batches sent and those scanned without error.\<close>

record pipeline =
  pl_current :: nat
  pl_end :: nat
  pl_channel :: "download_result list"
  pl_download :: download_phase
  pl_scan :: scan_phase
  pl_controller :: batch_controller
  pl_cancelled :: bool
  pl_batches :: "(nat \<times> nat) list"
  pl_scanned :: "(nat \<times> nat) list"

definition pipeline_new :: "nat \<Rightarrow> nat \<Rightarrow> pipeline" where
  "pipeline_new range_start range_end = \<lparr>pl_current = range_start, pl_end = range_end, pl_channel = [], pl_download = DlLoop, pl_scan = ScanReceiving,
     pl_controller = batch_controller_new range_start, pl_cancelled = False, pl_batches = [], pl_scanned = []\<rparr>"

datatype batch_outcome = ScanOk int scan_activity | ScanReorg | ScanFailed

datatype pipeline_action = DownloadNext bool | SendNext | ReceiveNext batch_outcome | WorkerPanics | AwaitDownload | CancelSync | AbortScan

definition batch_end :: "pipeline \<Rightarrow> nat" where
  "batch_end p = min (sat_add_u32 (pl_current p) (next_download_size (pl_controller p) (pl_current p))) (pl_end p)"

definition download_next :: "bool \<Rightarrow> pipeline \<Rightarrow> pipeline option" where
  "download_next ok p =
     (if pl_download p \<noteq> DlLoop then None
      else if pl_end p \<le> pl_current p then Some (p\<lparr>pl_download := DlSending RangeComplete\<rparr>)
      else if pl_cancelled p then Some (p\<lparr>pl_download := DlSending DownloadCancelled\<rparr>)
      else Some (p\<lparr>pl_download := DlSending (if ok then Batch (pl_current p) (batch_end p) else DownloadError)\<rparr>))"

text \<open>The channel holds \<open>LOOKAHEAD_BATCHES\<close> messages; its receiver lives until the task was awaited.\<close>

definition send_next :: "pipeline \<Rightarrow> pipeline option" where
  "send_next p =
     (case pl_download p of
        DlSending r \<Rightarrow>
          if pl_scan p = ScanDone then Some (p\<lparr>pl_download := DlDone\<rparr>)
          else if length (pl_channel p) < LOOKAHEAD_BATCHES then
            Some (case r of
              Batch a b \<Rightarrow> p\<lparr>pl_channel := pl_channel p @ [r], pl_download := DlLoop, pl_current := b, pl_batches := pl_batches p @ [(a, b)]\<rparr>
            | _ \<Rightarrow> p\<lparr>pl_channel := pl_channel p @ [r], pl_download := DlDone\<rparr>)
          else None
      | _ \<Rightarrow> None)"

definition receive_next :: "batch_outcome \<Rightarrow> pipeline \<Rightarrow> pipeline option" where
  "receive_next outcome p =
     (if pl_scan p \<noteq> ScanReceiving then None
      else case pl_channel p of
        [] \<Rightarrow> if pl_download p = DlDone then Some (p\<lparr>pl_scan := ScanLeft True\<rparr>) else None
      | r # rest \<Rightarrow>
          let q = p\<lparr>pl_channel := rest\<rparr> in
          (case r of
             RangeComplete \<Rightarrow> Some (q\<lparr>pl_scan := ScanLeft True\<rparr>)
           | DownloadError \<Rightarrow> Some (q\<lparr>pl_scan := ScanLeft False\<rparr>)
           | DownloadCancelled \<Rightarrow> Some (q\<lparr>pl_scan := ScanLeft False\<rparr>)
           | Batch a b \<Rightarrow>
               if pl_cancelled p then Some (q\<lparr>pl_scan := ScanLeft False\<rparr>)
               else (case outcome of
                  ScanOk elapsed activity \<Rightarrow> Some (q\<lparr>pl_controller := snd (record_scan_result a elapsed activity (pl_controller p)), pl_scanned := pl_scanned p @ [(a, b)]\<rparr>)
                | _ \<Rightarrow> Some (q\<lparr>pl_scan := ScanLeft False\<rparr>))))"

definition await_download :: "pipeline \<Rightarrow> pipeline option" where
  "await_download p =
     (case pl_scan p of ScanLeft _ \<Rightarrow> if pl_download p = DlDone then Some (p\<lparr>pl_scan := ScanDone\<rparr>) else None | _ \<Rightarrow> None)"

fun pipeline_step :: "pipeline_action \<Rightarrow> pipeline \<Rightarrow> pipeline option" where
  "pipeline_step (DownloadNext ok) p = download_next ok p"
| "pipeline_step SendNext p = send_next p"
| "pipeline_step (ReceiveNext outcome) p = receive_next outcome p"
| "pipeline_step WorkerPanics p = (if pl_scan p = ScanReceiving \<and> pl_channel p \<noteq> [] then Some (p\<lparr>pl_scan := ScanDone\<rparr>) else None)"
| "pipeline_step AwaitDownload p = await_download p"
| "pipeline_step CancelSync p = (if pl_cancelled p then None else Some (p\<lparr>pl_cancelled := True\<rparr>))"
| "pipeline_step AbortScan p = (if pl_cancelled p \<and> pl_scan p \<noteq> ScanDone then Some (p\<lparr>pl_scan := ScanDone\<rparr>) else None)"

fun pipeline_run :: "pipeline_action list \<Rightarrow> pipeline \<Rightarrow> pipeline option" where
  "pipeline_run [] p = Some p"
| "pipeline_run (a # as) p = Option.bind (pipeline_step a p) (pipeline_run as)"

section \<open>Lemmas\<close>

lemmas batch_consts = BATCH_SIZE_def BATCH_SIZE_SANDBLASTING_def ADAPTIVE_BATCH_MIN_SIZE_def ADAPTIVE_BATCH_MAX_SIZE_def

definition controller_wf :: "batch_controller \<Rightarrow> bool" where
  "controller_wf c \<longleftrightarrow> 100 \<le> bc_min_size c \<and> bc_min_size c \<le> bc_max_size c \<and> bc_max_size c \<le> 2000"

lemma controller_wf_new: "controller_wf (batch_controller_new h)"
  by (simp add: controller_wf_def batch_controller_new_def batch_consts effective_batch_size_def Let_def)

lemma controller_wf_record: "controller_wf c \<Longrightarrow> controller_wf (snd (record_scan_result h t a c))"
  by (simp add: controller_wf_def record_scan_result_def Let_def)

lemma next_download_size_bounds: "controller_wf c \<Longrightarrow> 100 \<le> next_download_size c h \<and> next_download_size c h \<le> 2000"
  by (auto simp: controller_wf_def next_download_size_def clamp_nat_def batch_consts)

fun tiles :: "nat \<Rightarrow> (nat \<times> nat) list \<Rightarrow> nat \<Rightarrow> bool" where
  "tiles a [] c = (a = c)"
| "tiles a ((x, y) # bs) c = (x = a \<and> x < y \<and> y \<le> x + 2000 \<and> tiles y bs c)"

lemma tiles_snoc: "tiles a bs c \<Longrightarrow> c < d \<Longrightarrow> d \<le> c + 2000 \<Longrightarrow> tiles a (bs @ [(c, d)]) d"
  by (induction bs arbitrary: a) auto

fun batch_of :: "download_result \<Rightarrow> (nat \<times> nat) option" where
  "batch_of (Batch a b) = Some (a, b)"
| "batch_of r = None"

definition pending :: "pipeline \<Rightarrow> (nat \<times> nat) list" where
  "pending p = List.map_filter batch_of (pl_channel p)"

definition sendable :: "nat \<Rightarrow> nat \<Rightarrow> download_result \<Rightarrow> bool" where
  "sendable current b r = (case r of
     Batch x y \<Rightarrow> x = current \<and> x < y \<and> y \<le> x + 2000 \<and> y \<le> b
   | RangeComplete \<Rightarrow> b \<le> current
   | _ \<Rightarrow> True)"

text \<open>Only the last message of the channel ends the stream, and only once the task is done.\<close>

definition ends_last :: "pipeline \<Rightarrow> bool" where
  "ends_last p \<longleftrightarrow>
     (if pl_download p = DlDone
      then (\<forall>r \<in> set (butlast (pl_channel p)). batch_of r \<noteq> None)
         \<and> (pl_scan p = ScanReceiving \<longrightarrow> pl_channel p \<noteq> [] \<and> batch_of (last (pl_channel p)) = None)
      else (\<forall>r \<in> set (pl_channel p). batch_of r \<noteq> None))"

definition pipeline_inv :: "nat \<Rightarrow> nat \<Rightarrow> pipeline \<Rightarrow> bool" where
  "pipeline_inv a b p \<longleftrightarrow> pl_end p = b \<and> controller_wf (pl_controller p) \<and> tiles a (pl_batches p) (pl_current p) \<and> pl_current p \<le> max a b
     \<and> length (pl_channel p) \<le> LOOKAHEAD_BATCHES
     \<and> (\<forall>r. pl_download p = DlSending r \<longrightarrow> sendable (pl_current p) b r) \<and> (RangeComplete \<in> set (pl_channel p) \<longrightarrow> b \<le> pl_current p)
     \<and> ends_last p \<and> (pl_scan p = ScanReceiving \<longrightarrow> pl_scanned p @ pending p = pl_batches p)
     \<and> (pl_scan p = ScanLeft True \<longrightarrow> pl_scanned p = pl_batches p \<and> b \<le> pl_current p)"

lemma pipeline_inv_new: "pipeline_inv a b (pipeline_new a b)"
  by (simp add: pipeline_inv_def pipeline_new_def controller_wf_new ends_last_def pending_def List.map_filter_def)

lemma download_next_inv:
  assumes "pipeline_inv a b p" "b \<le> u32_max" "download_next ok p = Some q"
  shows "pipeline_inv a b q"
proof -
  have "pl_current p < batch_end p \<and> batch_end p \<le> pl_current p + 2000 \<and> batch_end p \<le> b" if "pl_current p < pl_end p"
    using that assms(1,2) next_download_size_bounds[of "pl_controller p" "pl_current p"]
    by (auto simp: pipeline_inv_def batch_end_def sat_add_u32_def)
  then obtain r where q: "q = p\<lparr>pl_download := DlSending r\<rparr>" "sendable (pl_current p) b r" "pl_download p = DlLoop"
    using assms(1,3) by (auto simp: download_next_def sendable_def pipeline_inv_def split: if_splits)
  then have "ends_last q" "pending q = pending p" using assms(1) by (simp_all add: pipeline_inv_def ends_last_def pending_def)
  then show ?thesis using assms(1) q(1,2) by (simp add: pipeline_inv_def)
qed

lemma send_next_inv:
  assumes "pipeline_inv a b p" "send_next p = Some q"
  shows "pipeline_inv a b q"
proof -
  obtain r where r: "pl_download p = DlSending r" using assms(2) by (auto simp: send_next_def split: download_phase.splits)
  have s: "sendable (pl_current p) b r" "tiles a (pl_batches p) (pl_current p)" "\<forall>m \<in> set (pl_channel p). batch_of m \<noteq> None" using assms(1) r by (simp_all add: pipeline_inv_def ends_last_def)
  consider (gone) "pl_scan p = ScanDone" "q = p\<lparr>pl_download := DlDone\<rparr>"
    | (batch) x y where "r = Batch x y" "pl_scan p \<noteq> ScanDone" "length (pl_channel p) < LOOKAHEAD_BATCHES"
        "q = p\<lparr>pl_channel := pl_channel p @ [r], pl_download := DlLoop, pl_current := y, pl_batches := pl_batches p @ [(x, y)]\<rparr>"
    | (final) "batch_of r = None" "pl_scan p \<noteq> ScanDone" "length (pl_channel p) < LOOKAHEAD_BATCHES"
        "q = p\<lparr>pl_channel := pl_channel p @ [r], pl_download := DlDone\<rparr>"
    using assms(2) r by (cases r) (auto simp: send_next_def split: if_splits)
  then show ?thesis
  proof cases
    case gone
    then show ?thesis using assms(1) s(3) by (auto simp: pipeline_inv_def ends_last_def pending_def dest: in_set_butlastD)
  next
    case batch
    then have xy: "x = pl_current p" "x < y" "y \<le> x + 2000" "y \<le> b" using s(1) by (simp_all add: sendable_def)
    have t: "tiles a (pl_batches p @ [(x, y)]) y" using tiles_snoc[OF s(2)] xy by simp
    have pd: "pending q = pending p @ [(x, y)]" using batch(1,4) by (simp add: pending_def List.map_filter_def)
    have el: "ends_last q" using s(3) batch(1,4) by (simp add: ends_last_def)
    show ?thesis using assms(1) batch(3,4) t xy pd el batch(1) by (auto simp: pipeline_inv_def)
  next
    case final
    have pd: "pending q = pending p" using final(1,4) by (simp add: pending_def List.map_filter_def)
    have el: "ends_last q" using s(3) final(1,4) by (simp add: ends_last_def)
    have rc: "r = RangeComplete \<Longrightarrow> b \<le> pl_current p" using s(1) by (simp add: sendable_def)
    show ?thesis using assms(1) final(3,4) pd el rc by (auto simp: pipeline_inv_def)
  qed
qed

lemma receive_next_inv:
  assumes "pipeline_inv a b p" "receive_next outcome p = Some q"
  shows "pipeline_inv a b q"
proof -
  have rec: "pl_scan p = ScanReceiving" using assms(2) by (simp add: receive_next_def split: if_splits)
  then have sc: "pl_scanned p @ pending p = pl_batches p" "ends_last p" using assms(1) by (simp_all add: pipeline_inv_def)
  show ?thesis
  proof (cases "pl_channel p")
    case Nil
    then have "pl_download p \<noteq> DlDone" using sc(2) rec by (auto simp: ends_last_def)
    then show ?thesis using assms(2) rec Nil by (simp add: receive_next_def)
  next
    case (Cons r rest)
    have el: "ends_last (p\<lparr>pl_channel := rest, pl_scan := x\<rparr>)" if "x \<noteq> ScanReceiving" for x
      using sc(2) Cons that by (auto simp: ends_last_def split: if_splits)
    have stop: "pipeline_inv a b (p\<lparr>pl_channel := rest, pl_scan := ScanLeft False\<rparr>)"
      using assms(1) el[of "ScanLeft False"] Cons by (auto simp: pipeline_inv_def)
    show ?thesis
    proof (cases "batch_of r")
      case None
      then have "rest = []" using sc(2) Cons by (auto simp: ends_last_def split: if_splits)
      have "pipeline_inv a b (p\<lparr>pl_channel := rest, pl_scan := ScanLeft True\<rparr>)" if "r = RangeComplete"
        using assms(1) el[of "ScanLeft True"] Cons that sc(1) \<open>rest = []\<close> by (auto simp: pipeline_inv_def pending_def List.map_filter_def)
      then show ?thesis using assms(2) rec Cons None stop by (cases r) (auto simp: receive_next_def)
    next
      case (Some xy)
      obtain x y where r: "r = Batch x y" using Some by (cases r) auto
      have "pipeline_inv a b (p\<lparr>pl_channel := rest, pl_controller := snd (record_scan_result x t act (pl_controller p)), pl_scanned := pl_scanned p @ [(x, y)]\<rparr>)" for t act
      proof -
        have "ends_last (p\<lparr>pl_channel := rest, pl_controller := k, pl_scanned := z\<rparr>)" for k z
          using sc(2) Cons r by (cases "rest = []") (auto simp: ends_last_def split: if_splits)
        then show ?thesis using assms(1) Cons r rec sc(1) controller_wf_record by (auto simp: pipeline_inv_def pending_def List.map_filter_def)
      qed
      then show ?thesis using assms(2) rec Cons r stop by (auto simp: receive_next_def Let_def split: if_splits batch_outcome.splits)
    qed
  qed
qed

lemma scan_done_inv: "pipeline_inv a b p \<Longrightarrow> pipeline_inv a b (p\<lparr>pl_scan := ScanDone\<rparr>)"
  by (auto simp: pipeline_inv_def ends_last_def split: if_splits)

lemma pipeline_step_inv:
  assumes "pipeline_inv a b p" "b \<le> u32_max" "pipeline_step act p = Some q"
  shows "pipeline_inv a b q"
proof (cases act)
  case (DownloadNext ok)
  then show ?thesis using download_next_inv[OF assms(1,2)] assms(3) by simp
next
  case SendNext
  then show ?thesis using send_next_inv[OF assms(1)] assms(3) by simp
next
  case (ReceiveNext outcome)
  then show ?thesis using receive_next_inv[OF assms(1)] assms(3) by simp
next
  case CancelSync
  then have q: "q = p\<lparr>pl_cancelled := True\<rparr>" using assms(3) by (simp split: if_splits)
  have "ends_last q = ends_last p" "pending q = pending p" by (simp_all add: q ends_last_def pending_def)
  then show ?thesis using assms(1) by (simp add: q pipeline_inv_def)
qed (use assms scan_done_inv[OF assms(1)] in \<open>auto simp: await_download_def split: if_splits scan_phase.splits\<close>)

lemma pipeline_run_inv: "pipeline_run acts p = Some q \<Longrightarrow> b \<le> u32_max \<Longrightarrow> pipeline_inv a b p \<Longrightarrow> pipeline_inv a b q"
  by (induction acts arbitrary: p) (auto simp: bind_eq_Some_conv intro: pipeline_step_inv)

section \<open>Percentage and downloads\<close>

text \<open>While a session lasts, the percentage shown never falls and stays below 100 until the wallet has caught up.\<close>

lemma with_eta_state:
  "sy_jobs (snd (with_eta ea now wid p s)) = sy_jobs s \<and> sy_blocking_scans (snd (with_eta ea now wid p s)) = sy_blocking_scans s
   \<and> sy_started_at (snd (with_eta ea now wid p s)) = sy_started_at s"
  unfolding with_eta_def Let_def case_prod_unfold by auto

lemma shown_percent_monotone:
  "shown_percent ph e f = Some pct \<Longrightarrow> pe_last_percent e = Some prior \<Longrightarrow> prior \<le> pct"
  by (auto simp: shown_percent_def Let_def split: option.splits if_splits)

lemma shown_percent_below:
  "shown_percent ph e f = Some pct \<Longrightarrow> ph \<noteq> SyIdle \<Longrightarrow> (\<And>prior. pe_last_percent e = Some prior \<Longrightarrow> prior \<le> 99) \<Longrightarrow> pct \<le> 99"
  by (auto simp: shown_percent_def Let_def split: option.splits if_splits)

text \<open>A stream that breaks after its first block ends the download successfully, with the blocks received so far.\<close>

lemma broken_stream_accepted:
  "reply 0 = StreamOf blocks (Some err) \<Longrightarrow> blocks \<noteq> [] \<Longrightarrow> 0 < max_retries \<Longrightarrow> start < end_exclusive
   \<Longrightarrow> download_blocks_with_retry reply start end_exclusive max_retries = (Inr blocks, [])"
  by (simp add: download_blocks_with_retry_def)

lemmas pipeline_eval = pipeline_new_def download_next_def send_next_def receive_next_def await_download_def batch_end_def next_download_size_def
  batch_controller_new_def effective_batch_size_def in_sandblasting_range_def batch_consts clamp_nat_def record_scan_result_def touched_notes_def
  sat_add_u32_def sat_mul_u32_def u32_max_def LOOKAHEAD_BATCHES_def Let_def

section \<open>Properties\<close>




end
