(* ===== verification/App_Session.thy ===== *)
theory App_Session
  imports Wallet_Safety Sync Tor_Manager
begin

text \<open>
  The commands of the desktop application that combine the wallet manager, the sync service and the Tor manager:
  \<open>apps/zbag-app-tauri/src-tauri/src/wallet_logic.rs\<close> and the handlers of \<open>commands/wallet.rs\<close>, \<open>commands/sync.rs\<close>, \<open>commands/tor.rs\<close> and \<open>commands/util.rs\<close>.
  A handler runs as one step: the handlers hold the lock of the wallet manager, and the sync tasks, which only \<open>try_lock\<close> it, are the theories \<open>Sync\<close> and \<open>Sync_Loop\<close>.
  The theorems say which commands keep the rule that a sync runs for the active, unlocked wallet only, and which do not.
\<close>

section \<open>State\<close>

record ('p, 'q, 'f, 'c) app_state =
  ap_mgr :: "('p, 'q) wallet_manager"
  ap_sync :: "'f sync_state"
  ap_tor :: "'c tor_manager"

text \<open>\<open>ae_finished\<close>: a sync task that was just spawned has ended already; \<open>ae_arrange\<close> is the order in which a set of ids is listed.\<close>

record 'f app_env =
  ae_wallet :: wallet_env
  ae_eta :: "'f eta_arith"
  ae_now :: int
  ae_accounts :: wallet_accounts
  ae_finished :: bool
  ae_arrange :: "uuid set \<Rightarrow> uuid list"

type_synonym ipc_error = "error_code \<times> string"

definition to_ipc_error :: "engine_error \<Rightarrow> ipc_error" where
  "to_ipc_error err = (case find_engine_ipc_error err of Some (code, msg) \<Rightarrow> (code, msg) | None \<Rightarrow> (INTERNAL_ERROR, ''internal error''))"

definition map_anyhow :: "(engine_error, 'a) result \<times> 's \<Rightarrow> (ipc_error, 'a) result \<times> 's" where
  "map_anyhow r = (map_err to_ipc_error (fst r), snd r)"

text \<open>The first lines of every handler.\<close>

definition checked :: "nat \<Rightarrow> ('s \<Rightarrow> (ipc_error, 'a) result \<times> 's) \<Rightarrow> 's \<Rightarrow> (ipc_error, 'a) result \<times> 's" where
  "checked schema f s = (case ensure_schema_version schema of Inl e \<Rightarrow> (Inl e, s) | Inr _ \<Rightarrow> f s)"

definition system_time_to_unix_ms :: "system_time \<Rightarrow> (engine_error, unix_ms) result" where
  "system_time_to_unix_ms t =
     (if t < 0 then Inl (msg_err ''second time provided was later than self'')
      else if i64_max < t div 1000000 then Inl (msg_err ''out of range integral type conversion attempted'')
      else Inr (t div 1000000))"

section \<open>Stopping a sync\<close>

definition idle_sync_progress :: sync_progress where
  "idle_sync_progress = \<lparr>sp_phase = SyIdle, sp_scan_frontier_height = 0, sp_wallet_tip_height = 0, sp_progress_percent = 0,
     sp_eta_seconds = None, sp_retry_in_seconds = None, sp_error_message = None\<rparr>"

definition stop_sync_for_wallet :: "'f app_env \<Rightarrow> uuid \<Rightarrow> ('p, 'q, 'f, 'c) app_state \<Rightarrow> ('p, 'q, 'f, 'c) app_state" where
  "stop_sync_for_wallet env wid st =
     st\<lparr>ap_sync := stop_sync (ae_eta env) (ae_now env) False wid (ap_sync st),
        ap_mgr := observe_sync_progress (ae_wallet env) wid idle_sync_progress (observe_sync_stop_requested wid (ap_mgr st))\<rparr>"

definition stop_previous_wallet_sync :: "'f app_env \<Rightarrow> uuid \<Rightarrow> ('p, 'q, 'f, 'c) app_state \<Rightarrow> ('p, 'q, 'f, 'c) app_state" where
  "stop_previous_wallet_sync env wid st =
     (case wm_active (ap_mgr st) of
        None \<Rightarrow> st
      | Some a \<Rightarrow> if wi_id (aw_wallet a) \<noteq> wid then stop_sync_for_wallet env (wi_id (aw_wallet a)) st else st)"

section \<open>Loading a wallet\<close>

definition account_or_default :: "account_info list \<Rightarrow> nat \<Rightarrow> account_info" where
  "account_or_default metas aid =
     (case find (\<lambda>a. ai_id a = aid) (rev metas) of
        Some a \<Rightarrow> a
      | None \<Rightarrow> \<lparr>ai_id = aid, ai_name = ''Account '' @ show_nat ((aid + 1) mod 2 ^ 32), ai_account_type = (if aid = 0 then SoftwareAccount else HardwareSigner)\<rparr>)"

definition load_accounts_for_wallet :: "wallet_accounts \<Rightarrow> uuid \<Rightarrow> ('p, 'q) wallet_manager \<Rightarrow> (engine_error, account_info list) result" where
  "load_accounts_for_wallet accounts wid m =
     bind_result (list_wallet_db_account_ids accounts wid m) (\<lambda>ids. Inr (map (account_or_default (list_accounts (wm_app_db m) wid)) ids))"

definition build_load_wallet_response :: "'f app_env \<Rightarrow> uuid \<Rightarrow> ('p, 'q) wallet_manager
    \<Rightarrow> (engine_error, wallet_info \<times> lock_status \<times> account_info list) result \<times> ('p, 'q) wallet_manager" where
  "build_load_wallet_response env wid m =
     bind_se (load_wallet (ae_wallet env) wid m) (\<lambda>(wallet, status) m1.
     (if status = Locked then Inr (wallet, status, [])
      else bind_result (load_accounts_for_wallet (ae_accounts env) (wi_id wallet) m1) (\<lambda>accounts. Inr (wallet, status, accounts)), m1))"

definition on_mgr :: "(('p, 'q) wallet_manager \<Rightarrow> 'r \<times> ('p, 'q) wallet_manager) \<Rightarrow> ('p, 'q, 'f, 'c) app_state \<Rightarrow> 'r \<times> ('p, 'q, 'f, 'c) app_state" where
  "on_mgr f st = (let (r, m) = f (ap_mgr st) in (r, st\<lparr>ap_mgr := m\<rparr>))"

text \<open>\<open>wallet_logic::load_wallet\<close>, which does not start a sync.\<close>

definition app_load_wallet :: "'f app_env \<Rightarrow> uuid \<Rightarrow> ('p, 'q, 'f, 'c) app_state
    \<Rightarrow> (engine_error, wallet_info \<times> lock_status \<times> account_info list) result \<times> ('p, 'q, 'f, 'c) app_state" where
  "app_load_wallet env wid st = on_mgr (build_load_wallet_response env wid) (stop_previous_wallet_sync env wid st)"

section \<open>Starting a sync\<close>

definition start_sync_with_handlers :: "'f app_env \<Rightarrow> wallet_info \<Rightarrow> ('p, 'q, 'f, 'c) app_state \<Rightarrow> (engine_error, bool) result \<times> ('p, 'q, 'f, 'c) app_state" where
  "start_sync_with_handlers env wallet st =
     (let m = ap_mgr st; wv = ae_wallet env; wid = wi_id wallet in
      case bind_result (ok_or (get_wallet (wm_app_db m) wid) wallet_not_found) (\<lambda>_.
           bind_result (unlocked_wallet_dek wid m) (\<lambda>_. list_wallet_db_account_ids (ae_accounts env) wid m)) of
        Inl e \<Rightarrow> (Inl e, st)
      | Inr _ \<Rightarrow>
          (case start_sync (ae_eta env) (ae_now env) (resolve_grpc_url (wv_url_parser wv) (wv_debug wv) (wm_app_db m) (wi_network wallet) (wv_env_url wv))
                  True (ae_finished env) wid (ap_sync st) of
             (Inr _, s) \<Rightarrow> (Inr True, st\<lparr>ap_sync := s, ap_mgr := observe_sync_progress wv wid preparing_progress m\<rparr>)
           | (Inl e, s) \<Rightarrow>
               (if map_option fst (find_engine_ipc_error e) = Some SYNC_IN_PROGRESS then Inr False else Inl e, st\<lparr>ap_sync := s\<rparr>)))"

definition zbag_start_sync :: "'f app_env \<Rightarrow> nat \<Rightarrow> uuid \<Rightarrow> ('p, 'q, 'f, 'c) app_state \<Rightarrow> (ipc_error, bool) result \<times> ('p, 'q, 'f, 'c) app_state" where
  "zbag_start_sync env schema wid = checked schema (\<lambda>st. map_anyhow
     (bind_se (on_mgr (load_wallet (ae_wallet env) wid) st) (\<lambda>(wallet, status) st1.
      if status \<noteq> Unlocked then (Inl wallet_locked, st1) else start_sync_with_handlers env wallet st1)))"

text \<open>A stop that finds a job emits one event, which the handler passes to the manager.\<close>

definition zbag_stop_sync :: "'f app_env \<Rightarrow> nat \<Rightarrow> uuid \<Rightarrow> ('p, 'q, 'f, 'c) app_state \<Rightarrow> (ipc_error, bool) result \<times> ('p, 'q, 'f, 'c) app_state" where
  "zbag_stop_sync env schema wid = checked schema (\<lambda>st.
     let s = stop_sync (ae_eta env) (ae_now env) True wid (ap_sync st);
         m = observe_sync_stop_requested wid (ap_mgr st);
         m1 = (if wid \<in> sy_jobs (ap_sync st)
               then observe_sync_progress (ae_wallet env) wid (case sy_progress s wid of None \<Rightarrow> default_progress | Some p \<Rightarrow> p) m else m)
     in (Inr True, st\<lparr>ap_sync := s, ap_mgr := m1\<rparr>))"

text \<open>The start after a load is best effort.\<close>

definition zbag_load_wallet :: "'f app_env \<Rightarrow> nat \<Rightarrow> uuid \<Rightarrow> ('p, 'q, 'f, 'c) app_state
    \<Rightarrow> (ipc_error, wallet_info \<times> lock_status \<times> account_info list) result \<times> ('p, 'q, 'f, 'c) app_state" where
  "zbag_load_wallet env schema wid = checked schema (\<lambda>st. map_anyhow
     (bind_se (app_load_wallet env wid st) (\<lambda>(wallet, status, accounts) st1.
      (Inr (wallet, status, accounts), if status = Unlocked then snd (start_sync_with_handlers env wallet st1) else st1))))"

section \<open>Unlocking, locking, creating\<close>

definition zbag_unlock_wallet :: "'f app_env \<Rightarrow> nat \<Rightarrow> uuid \<Rightarrow> string \<Rightarrow> ('p, 'q, 'f, 'c) app_state \<Rightarrow> (ipc_error, bool) result \<times> ('p, 'q, 'f, 'c) app_state" where
  "zbag_unlock_wallet env schema wid password = checked schema (\<lambda>st. map_anyhow
     (bind_se (on_mgr (unlock_wallet (ae_wallet env) wid password) st) (\<lambda>status st1. (Inr (status = Unlocked), st1))))"

definition zbag_lock_wallet :: "'f app_env \<Rightarrow> nat \<Rightarrow> uuid \<Rightarrow> ('p, 'q, 'f, 'c) app_state \<Rightarrow> (ipc_error, bool) result \<times> ('p, 'q, 'f, 'c) app_state" where
  "zbag_lock_wallet env schema wid = checked schema (\<lambda>st.
     let (status, st1) = on_mgr (lock_wallet (ae_wallet env) wid) (stop_sync_for_wallet env wid st) in (Inr (status = Locked), st1))"

definition zbag_logout_wallet :: "'f app_env \<Rightarrow> nat \<Rightarrow> uuid \<Rightarrow> ('p, 'q, 'f, 'c) app_state \<Rightarrow> (ipc_error, unit) result \<times> ('p, 'q, 'f, 'c) app_state" where
  "zbag_logout_wallet env schema wid = checked schema (\<lambda>st. map_anyhow
     (on_mgr (logout_wallet wid) (st\<lparr>ap_sync := stop_sync (ae_eta env) (ae_now env) False wid (ap_sync st)\<rparr>)))"

text \<open>\<open>fetched\<close> is the height the server reported in time, if it did.\<close>

definition zbag_create_wallet :: "'f app_env \<Rightarrow> 'u create_env \<Rightarrow> wallet_fresh \<Rightarrow> nat option \<Rightarrow> nat \<Rightarrow> string \<Rightarrow> network \<Rightarrow> string \<Rightarrow> ('p, 'q, 'f, 'c) app_state
    \<Rightarrow> (ipc_error, wallet_info \<times> string list \<times> backup_challenge) result \<times> ('p, 'q, 'f, 'c) app_state" where
  "zbag_create_wallet env ce fr fetched schema name net password = checked schema (\<lambda>st. map_anyhow
     (let wv = ae_wallet env;
          birthday_height = (case resolve_grpc_url (wv_url_parser wv) (wv_debug wv) (wm_app_db (ap_mgr st)) net (wv_env_url wv) of Inl _ \<Rightarrow> None | Inr _ \<Rightarrow> fetched)
      in on_mgr (create_wallet wv ce fr name net password birthday_height) st))"

definition zbag_restore_wallet :: "'f app_env \<Rightarrow> 'u create_env \<Rightarrow> wallet_fresh \<Rightarrow> nat \<Rightarrow> string \<Rightarrow> network \<Rightarrow> string \<Rightarrow> string \<Rightarrow> int option \<Rightarrow> ('p, 'q, 'f, 'c) app_state
    \<Rightarrow> (ipc_error, wallet_info \<times> nat) result \<times> ('p, 'q, 'f, 'c) app_state" where
  "zbag_restore_wallet env ce fr schema name net password seed_phrase birthday_date = checked schema (\<lambda>st. map_anyhow
     (on_mgr (restore_wallet (ae_wallet env) ce fr name net password seed_phrase birthday_date) st))"

section \<open>Tor\<close>

primrec stop_syncs :: "'f app_env \<Rightarrow> uuid list \<Rightarrow> 'f sync_state \<Rightarrow> 'f sync_state" where
  "stop_syncs env [] s = s"
| "stop_syncs env (wid # wids) s = stop_syncs env wids (stop_sync (ae_eta env) (ae_now env) False wid s)"

primrec restart_syncs :: "'f app_env \<Rightarrow> uuid list \<Rightarrow> ('p, 'q, 'f, 'c) app_state \<Rightarrow> ('p, 'q, 'f, 'c) app_state" where
  "restart_syncs env [] st = st"
| "restart_syncs env (wid # wids) st =
     restart_syncs env wids
       (case on_mgr (load_wallet (ae_wallet env) wid) st of
          (Inr (wallet, status), st1) \<Rightarrow> if status = Unlocked then snd (start_sync_with_handlers env wallet st1) else st1
        | (Inl _, st1) \<Rightarrow> st1)"

definition zbag_set_tor_enabled :: "'f app_env \<Rightarrow> nat \<Rightarrow> bool \<Rightarrow> ('p, 'q, 'f, 'c) app_state \<Rightarrow> (ipc_error, tor_state) result \<times> ('p, 'q, 'f, 'c) app_state" where
  "zbag_set_tor_enabled env schema enabled = checked schema (\<lambda>st. map_anyhow
     (let running = (if enabled then ae_arrange env (running_wallet_ids (ap_sync st)) else []);
          tor = fst (set_enabled_locked enabled (ap_tor st));
          st1 = st\<lparr>ap_sync := stop_syncs env running (ap_sync st), ap_tor := tor\<rparr>;
          next_state = tm_state tor
      in case system_time_to_unix_ms (wv_now (ae_wallet env)) of
           Inl e \<Rightarrow> (Inl (ipc_err INTERNAL_ERROR (''time error: '' @ error_text e)), st1)
         | Inr ms \<Rightarrow>
             (Inr next_state, restart_syncs env running (st1\<lparr>ap_mgr := (ap_mgr st1)\<lparr>wm_app_db := upsert_tor_state next_state ms (wm_app_db (ap_mgr st1))\<rparr>\<rparr>))))"

section \<open>Sequences of commands\<close>

datatype app_cmd = CmdLoad uuid | CmdUnlock uuid string | CmdLock uuid | CmdLogout uuid | CmdStart uuid | CmdStop uuid
  | CmdCreate wallet_fresh "nat option" string network string | CmdRestore wallet_fresh string network string string "int option" | CmdTor bool | TaskEnds uuid

fun app_exec :: "'u create_env \<Rightarrow> 'f app_env \<times> app_cmd \<Rightarrow> ('p, 'q, 'f, 'c) app_state \<Rightarrow> ('p, 'q, 'f, 'c) app_state" where
  "app_exec ce (env, CmdLoad wid) st = snd (zbag_load_wallet env SCHEMA_VERSION wid st)"
| "app_exec ce (env, CmdUnlock wid password) st = snd (zbag_unlock_wallet env SCHEMA_VERSION wid password st)"
| "app_exec ce (env, CmdLock wid) st = snd (zbag_lock_wallet env SCHEMA_VERSION wid st)"
| "app_exec ce (env, CmdLogout wid) st = snd (zbag_logout_wallet env SCHEMA_VERSION wid st)"
| "app_exec ce (env, CmdStart wid) st = snd (zbag_start_sync env SCHEMA_VERSION wid st)"
| "app_exec ce (env, CmdStop wid) st = snd (zbag_stop_sync env SCHEMA_VERSION wid st)"
| "app_exec ce (env, CmdCreate fr fetched name net password) st = snd (zbag_create_wallet env ce fr fetched SCHEMA_VERSION name net password st)"
| "app_exec ce (env, CmdRestore fr name net password phrase date) st = snd (zbag_restore_wallet env ce fr SCHEMA_VERSION name net password phrase date st)"
| "app_exec ce (env, CmdTor enabled) st = snd (zbag_set_tor_enabled env SCHEMA_VERSION enabled st)"
| "app_exec ce (env, TaskEnds wid) st = st\<lparr>ap_sync := sync_task_end wid (ap_sync st)\<rparr>"

text \<open>Wallets are switched by a load: a wallet that is unlocked or whose sync is started is the active one, or nothing is synced, and nothing is synced when
  a wallet is created or restored.  The hash map of the jobs lists each of its keys.\<close>

definition active_id :: "('p, 'q) wallet_manager \<Rightarrow> uuid option" where
  "active_id m = map_option (\<lambda>a. wi_id (aw_wallet a)) (wm_active m)"

fun orderly :: "'f app_env \<times> app_cmd \<Rightarrow> ('p, 'q, 'f, 'c) app_state \<Rightarrow> bool" where
  "orderly (env, CmdUnlock wid password) st = (sy_jobs (ap_sync st) = {} \<or> active_id (ap_mgr st) = Some wid)"
| "orderly (env, CmdStart wid) st = (sy_jobs (ap_sync st) = {} \<or> active_id (ap_mgr st) = Some wid)"
| "orderly (env, CmdCreate fr fetched name net password) st = (sy_jobs (ap_sync st) = {})"
| "orderly (env, CmdRestore fr name net password phrase date) st = (sy_jobs (ap_sync st) = {})"
| "orderly (env, CmdTor enabled) st = (set (ae_arrange env (sy_jobs (ap_sync st))) = sy_jobs (ap_sync st))"
| "orderly (env, cmd) st = True"

primrec orderly_run :: "'u create_env \<Rightarrow> ('f app_env \<times> app_cmd) list \<Rightarrow> ('p, 'q, 'f, 'c) app_state \<Rightarrow> bool" where
  "orderly_run ce [] st = True"
| "orderly_run ce (c # cs) st = (orderly c st \<and> orderly_run ce cs (app_exec ce c st))"

section \<open>Who is synced\<close>

definition sync_owned :: "('p, 'q, 'f, 'c) app_state \<Rightarrow> bool" where
  "sync_owned st \<longleftrightarrow> keys_wf (ap_mgr st) \<and> (\<forall>w \<in> sy_jobs (ap_sync st). is_active_wallet_unlocked w (ap_mgr st))"

lemma observe_active [simp]:
  "wm_active (observe_sync_progress env w p m) = wm_active m" "wm_active (observe_sync_stop_requested w m) = wm_active m"
  by (simp_all add: observe_sync_progress_def observe_sync_stop_requested_def Let_def)

lemma stop_sync_jobs [simp]: "sy_jobs (stop_sync ea now notify wid s) = sy_jobs s - {wid}"
  by (auto simp: stop_sync_def sync_get_progress_def update_progress_def case_prod_unfold Let_def with_eta_state)

lemma start_sync_jobs: "start_sync ea now url notify finished wid s = (r, s') \<Longrightarrow> sy_jobs s' \<subseteq> insert wid (sy_jobs s)"
  by (auto simp: start_sync_def sync_get_progress_def update_progress_def case_prod_unfold Let_def with_eta_state split: if_splits sum.splits)

lemma sync_owned_active: "sync_owned st \<Longrightarrow> w \<in> sy_jobs (ap_sync st) \<Longrightarrow> active_id (ap_mgr st) = Some w"
  by (auto simp: sync_owned_def is_active_wallet_unlocked_def active_id_def split: option.splits)

lemma sync_owned_step:
  assumes "sync_owned st" "keys_wf (ap_mgr st')" "sy_jobs (ap_sync st') \<subseteq> sy_jobs (ap_sync st)"
    and "\<And>w. w \<in> sy_jobs (ap_sync st') \<Longrightarrow> is_active_wallet_unlocked w (ap_mgr st) \<Longrightarrow> is_active_wallet_unlocked w (ap_mgr st')"
  shows "sync_owned st'"
  using assms unfolding sync_owned_def by blast

lemma stop_sync_owned: "sync_owned st \<Longrightarrow> sync_owned (stop_sync_for_wallet env wid st)"
  by (rule sync_owned_step) (auto simp: stop_sync_for_wallet_def sync_owned_def keys_wf_def is_active_wallet_unlocked_def)

lemma get_wallet_id: "get_wallet db wid = Some (wallet, dir) \<Longrightarrow> wi_id wallet = wid"
  by (auto simp: get_wallet_def wallet_of_row_def dest: find_some_in)

lemma activate_active: "activate_wallet env a m = (r, m') \<Longrightarrow> wm_active m' = Some a"
  using activate_frame(2) [of env a m] by simp

text \<open>What loading does to the active wallet: nothing, a refresh of an unlocked wallet, or a switch to a locked one.\<close>

lemma load_wallet_cases:
  assumes "load_wallet env wid m = (r, m')"
  obtains (same) "wm_active m' = wm_active m" "\<not> is_ok r"
  | (kept) a wallet where "wm_active m = Some a" "wi_id (aw_wallet a) = wid" "aw_lock a = Unlocked" "aw_dek a \<noteq> None" "aw_db a" "wi_id wallet = wid"
      "wm_active m' = Some (a\<lparr>aw_wallet := wallet\<rparr>)" "r = Inr (wallet, Unlocked)"
  | (switched) a where "wm_active m' = Some a" "aw_lock a = Locked" "wi_id (aw_wallet a) = wid"
      "\<not> (\<exists>a. wm_active m = Some a \<and> wi_id (aw_wallet a) = wid \<and> aw_lock a = Unlocked \<and> aw_dek a \<noteq> None \<and> aw_db a)" "r = Inr (aw_wallet a, Locked) \<or> \<not> is_ok r"
proof (cases "get_wallet (wm_app_db m) wid")
  case None
  then show ?thesis using assms same by (auto simp: load_wallet_def)
next
  case (Some wd)
  obtain wallet dir where w: "get_wallet (wm_app_db m) wid = Some (wallet, dir)" using Some by (cases wd) auto
  have id: "wi_id wallet = wid" by (rule get_wallet_id [OF w])
  define m1 where "m1 = m\<lparr>wm_app_db := update_last_opened_at wid (wv_now_ms env) (wm_app_db m)\<rparr>"
  let ?locked = "\<lparr>aw_wallet = wallet, aw_dir = dir, aw_lock = Locked, aw_dek = None, aw_db = False\<rparr>"
  obtain x m2 where x: "activate_wallet env ?locked m1 = (x, m2)" by fastforce
  have a2: "wm_active m2 = Some ?locked" by (rule activate_active [OF x])
  show ?thesis
  proof (cases "dir = wallet_dir (wv_root env) (wi_id wallet) (wi_network wallet)")
    case False
    then show ?thesis using assms w same by (auto simp: load_wallet_def)
  next
    case dir: True
    show ?thesis
    proof (cases "\<exists>a. wm_active m = Some a \<and> wi_id (aw_wallet a) = wid \<and> aw_lock a = Unlocked \<and> aw_dek a \<noteq> None \<and> aw_db a")
      case True
      then obtain a where a: "wm_active m = Some a" "wi_id (aw_wallet a) = wid" "aw_lock a = Unlocked" "aw_dek a \<noteq> None" "aw_db a" by blast
      then show ?thesis using assms w dir id by (intro kept [of a wallet]) (auto simp: load_wallet_def Let_def)
    next
      case False
      then have "m' = m2" "r = (case x of Inl e \<Rightarrow> Inl e | Inr _ \<Rightarrow> Inr (wallet, Locked))"
        using assms w dir x by (auto simp: load_wallet_def Let_def m1_def split: option.splits sum.splits if_splits)
      then show ?thesis using a2 False id by (intro switched [of ?locked]) (auto split: sum.splits)
    qed
  qed
qed

lemma load_wallet_keeps:
  assumes "load_wallet env wid m = (r, m')" "keys_wf m"
  shows "keys_wf m' \<and> (is_active_wallet_unlocked wid m \<longrightarrow> is_active_wallet_unlocked wid m')"
proof -
  have k: "keys_wf m'" using load_keeps_keys [OF assms(2), of env wid] assms(1) by simp
  show ?thesis using assms(1)
  proof (cases rule: load_wallet_cases)
    case switched
    then show ?thesis using assms(2) k by (auto simp: keys_wf_def is_active_wallet_unlocked_def split: option.splits)
  qed (use k in \<open>auto simp: is_active_wallet_unlocked_def\<close>)
qed

lemma load_wallet_ok: "load_wallet env wid m = (Inr (wallet, status), m') \<Longrightarrow> wi_id wallet = wid"
  by (erule load_wallet_cases) auto

text \<open>A load keeps the rule when no other wallet is synced.\<close>

lemma load_owned:
  assumes "sync_owned st" "sy_jobs (ap_sync st) \<subseteq> {wid}" "on_mgr (load_wallet env wid) st = (r, st')"
  shows "sync_owned st'" "ap_sync st' = ap_sync st"
proof -
  obtain x m' where l: "load_wallet env wid (ap_mgr st) = (x, m')" by fastforce
  have st': "st' = st\<lparr>ap_mgr := m'\<rparr>" using assms(3) l by (simp add: on_mgr_def)
  show "ap_sync st' = ap_sync st" by (simp add: st')
  show "sync_owned st'" using assms(1,2) load_wallet_keeps [OF l] unfolding st' by (auto simp: sync_owned_def)
qed

lemma sync_owned_by:
  "wm_active (ap_mgr st') = wm_active (ap_mgr st) \<Longrightarrow> sync_owned st' \<longleftrightarrow>
     keys_wf (ap_mgr st) \<and> (\<forall>w \<in> sy_jobs (ap_sync st'). is_active_wallet_unlocked w (ap_mgr st))"
  by (auto simp: sync_owned_def keys_wf_def is_active_wallet_unlocked_def)

lemma dek_unlocked: "unlocked_wallet_dek wid m = Inr k \<Longrightarrow> is_active_wallet_unlocked wid m"
  by (auto simp: unlocked_wallet_dek_def is_active_wallet_unlocked_def split: option.splits if_splits)

lemma start_handlers_cases:
  obtains (refused) e where "start_sync_with_handlers env wallet st = (Inl e, st)"
  | (asked) r st' where "start_sync_with_handlers env wallet st = (r, st')" "is_active_wallet_unlocked (wi_id wallet) (ap_mgr st)"
      "wm_active (ap_mgr st') = wm_active (ap_mgr st)" "sy_jobs (ap_sync st') \<subseteq> insert (wi_id wallet) (sy_jobs (ap_sync st))"
proof -
  let ?m = "ap_mgr st" and ?wid = "wi_id wallet"
  let ?url = "resolve_grpc_url (wv_url_parser (ae_wallet env)) (wv_debug (ae_wallet env)) (wm_app_db ?m) (wi_network wallet) (wv_env_url (ae_wallet env))"
  let ?guard = "bind_result (ok_or (get_wallet (wm_app_db ?m) ?wid) wallet_not_found) (\<lambda>_.
           bind_result (unlocked_wallet_dek ?wid ?m) (\<lambda>_. list_wallet_db_account_ids (ae_accounts env) ?wid ?m))"
  obtain x s where s: "start_sync (ae_eta env) (ae_now env) ?url True (ae_finished env) ?wid (ap_sync st) = (x, s)" by fastforce
  have j: "sy_jobs s \<subseteq> insert ?wid (sy_jobs (ap_sync st))" by (rule start_sync_jobs [OF s])
  show ?thesis
  proof (cases ?guard)
    case (Inl e)
    then show ?thesis by (intro refused [of e]) (simp add: start_sync_with_handlers_def Let_def)
  next
    case (Inr k)
    obtain d where d: "unlocked_wallet_dek ?wid ?m = Inr d"
      using Inr by (cases "unlocked_wallet_dek ?wid ?m") (auto simp: result_simps split: sum.splits)
    obtain r st' where o: "start_sync_with_handlers env wallet st = (r, st')" by fastforce
    have "wm_active (ap_mgr st') = wm_active ?m" "ap_sync st' = s"
      using o s Inr by (cases x; force simp: start_sync_with_handlers_def Let_def)+
    then show ?thesis using asked [OF o dek_unlocked [OF d]] j by simp
  qed
qed

lemma start_owned:
  assumes "sync_owned st" "start_sync_with_handlers env wallet st = (r, st')"
  shows "sync_owned st'" "sy_jobs (ap_sync st') \<subseteq> insert (wi_id wallet) (sy_jobs (ap_sync st))"
proof -
  have "sync_owned st' \<and> sy_jobs (ap_sync st') \<subseteq> insert (wi_id wallet) (sy_jobs (ap_sync st))"
  proof (rule start_handlers_cases [of env wallet st])
    fix e assume "start_sync_with_handlers env wallet st = (Inl e, st)"
    then show ?thesis using assms by auto
  next
    fix r' st'' assume a: "start_sync_with_handlers env wallet st = (r', st'')" "is_active_wallet_unlocked (wi_id wallet) (ap_mgr st)"
      "wm_active (ap_mgr st'') = wm_active (ap_mgr st)" "sy_jobs (ap_sync st'') \<subseteq> insert (wi_id wallet) (sy_jobs (ap_sync st))"
    have st'': "st'' = st'" using a(1) assms(2) by simp
    show ?thesis using assms(1) a(2-) unfolding st'' sync_owned_by [OF a(3) [unfolded st'']] by (auto simp: sync_owned_def)
  qed
  then show "sync_owned st'" "sy_jobs (ap_sync st') \<subseteq> insert (wi_id wallet) (sy_jobs (ap_sync st))" by auto
qed

section \<open>Each command\<close>

lemma previous_owned:
  assumes "sync_owned st"
  shows "sync_owned (stop_previous_wallet_sync env wid st)" "sy_jobs (ap_sync (stop_previous_wallet_sync env wid st)) \<subseteq> {wid}"
    "active_id (ap_mgr (stop_previous_wallet_sync env wid st)) = active_id (ap_mgr st)"
proof -
  show "sync_owned (stop_previous_wallet_sync env wid st)"
    using assms stop_sync_owned [OF assms] by (simp add: stop_previous_wallet_sync_def split: option.splits)
  show "sy_jobs (ap_sync (stop_previous_wallet_sync env wid st)) \<subseteq> {wid}"
  proof (cases "wm_active (ap_mgr st)")
    case None
    then have "sy_jobs (ap_sync st) = {}" using sync_owned_active [OF assms] by (auto simp: active_id_def)
    then show ?thesis using None by (simp add: stop_previous_wallet_sync_def)
  next
    case (Some a)
    then have "sy_jobs (ap_sync st) \<subseteq> {wi_id (aw_wallet a)}" using sync_owned_active [OF assms] by (auto simp: active_id_def)
    then show ?thesis using Some by (auto simp: stop_previous_wallet_sync_def stop_sync_for_wallet_def)
  qed
  show "active_id (ap_mgr (stop_previous_wallet_sync env wid st)) = active_id (ap_mgr st)"
    by (simp add: stop_previous_wallet_sync_def stop_sync_for_wallet_def active_id_def split: option.split)
qed

lemma response_mgr: "snd (build_load_wallet_response env wid m) = snd (load_wallet (ae_wallet env) wid m)"
  by (auto simp: build_load_wallet_response_def bind_se_pair split: sum.splits prod.splits)

lemma response_wallet: "build_load_wallet_response env wid m = (Inr (wallet, status, accounts), m') \<Longrightarrow> wi_id wallet = wid"
  by (auto simp: build_load_wallet_response_def bind_se_ok result_simps dest: load_wallet_ok split: if_splits)

lemma app_load_owned:
  assumes "sync_owned st" "app_load_wallet env wid st = (r, st')"
  shows "sync_owned st'" "sy_jobs (ap_sync st') \<subseteq> {wid}"
proof -
  let ?st = "stop_previous_wallet_sync env wid st"
  obtain x where l: "on_mgr (load_wallet (ae_wallet env) wid) ?st = (x, st')"
    using assms(2) response_mgr [of env wid "ap_mgr ?st"] by (auto simp: app_load_wallet_def on_mgr_def split_def Let_def)
  note p = previous_owned [OF assms(1), of env wid]
  show "sync_owned st'" "sy_jobs (ap_sync st') \<subseteq> {wid}" using load_owned [OF p(1,2) l] p(2) by simp_all
qed

lemma load_command_owned: "sync_owned st \<Longrightarrow> sync_owned (snd (zbag_load_wallet env schema wid st))"
proof -
  assume o: "sync_owned st"
  obtain r st1 where l: "app_load_wallet env wid st = (r, st1)" by fastforce
  note st1 = app_load_owned(1) [OF o l]
  have "sync_owned (snd (start_sync_with_handlers env wallet st1))" for wallet
    using start_owned(1) [OF st1] by (metis prod.collapse)
  then show ?thesis using o l st1
    by (cases r) (auto simp: zbag_load_wallet_def checked_def map_anyhow_def split: sum.split)
qed

text \<open>A start loads the wallet first, without stopping the sync of another one.\<close>

lemma load_and_start_owned:
  assumes "sync_owned st" "sy_jobs (ap_sync st) \<subseteq> {wid}" "on_mgr (load_wallet (ae_wallet env) wid) st = (r, st1)"
  shows "sync_owned st1" "sy_jobs (ap_sync st1) \<subseteq> {wid}"
    "r = Inr (wallet, status) \<Longrightarrow> sync_owned (snd (start_sync_with_handlers env wallet st1)) \<and> sy_jobs (ap_sync (snd (start_sync_with_handlers env wallet st1))) \<subseteq> {wid}"
proof -
  note l = load_owned [OF assms]
  show "sync_owned st1" "sy_jobs (ap_sync st1) \<subseteq> {wid}" using l assms(2) by simp_all
  assume r: "r = Inr (wallet, status)"
  have w: "wi_id wallet = wid" using assms(3) r load_wallet_ok [of "ae_wallet env" wid "ap_mgr st" wallet status]
    by (auto simp: on_mgr_def split: prod.splits)
  obtain x st2 where s: "start_sync_with_handlers env wallet st1 = (x, st2)" by fastforce
  show "sync_owned (snd (start_sync_with_handlers env wallet st1)) \<and> sy_jobs (ap_sync (snd (start_sync_with_handlers env wallet st1))) \<subseteq> {wid}"
    using start_owned [OF l(1) s] s w l(2) assms(2) by auto
qed

lemma owned_jobs_sub: "sync_owned st \<Longrightarrow> sy_jobs (ap_sync st) = {} \<or> active_id (ap_mgr st) = Some wid \<Longrightarrow> sy_jobs (ap_sync st) \<subseteq> {wid}"
  using sync_owned_active [of st] by auto

lemma start_command_owned:
  assumes "sync_owned st" "sy_jobs (ap_sync st) = {} \<or> active_id (ap_mgr st) = Some wid"
  shows "sync_owned (snd (zbag_start_sync env schema wid st))"
proof -
  obtain r st1 where l: "on_mgr (load_wallet (ae_wallet env) wid) st = (r, st1)" by fastforce
  note o = load_and_start_owned [OF assms(1) owned_jobs_sub [OF assms] l]
  show ?thesis
  proof (cases r)
    case (Inl e)
    then show ?thesis using assms(1) l o(1) by (simp add: zbag_start_sync_def checked_def map_anyhow_def split: sum.split)
  next
    case (Inr x)
    obtain wallet status where x: "r = Inr (wallet, status)" using Inr by (cases x) simp
    show ?thesis using assms(1) l o(1) o(3) [OF x] by (simp add: x zbag_start_sync_def checked_def map_anyhow_def split: sum.split)
  qed
qed

lemma unlock_active_cases:
  assumes "unlock_wallet env wid pw m = (r, m')"
  shows "wm_active m' = wm_active m \<or> is_active_wallet_unlocked wid m'"
  using assms by (auto simp: unlock_wallet_def is_active_wallet_unlocked_def dest!: activate_active get_wallet_id split: option.splits sum.splits prod.splits if_splits)

lemma unlock_command_owned:
  assumes "sync_owned st" "sy_jobs (ap_sync st) = {} \<or> active_id (ap_mgr st) = Some wid"
  shows "sync_owned (snd (zbag_unlock_wallet env schema wid pw st))"
proof -
  let ?m = "ap_mgr st"
  obtain r m' where u: "unlock_wallet (ae_wallet env) wid pw ?m = (r, m')" by fastforce
  have k: "keys_wf m'" using unlock_active [of "ae_wallet env" wid pw ?m] u assms(1) opens_keys_wf [of ?m m'] by (simp add: opens_def sync_owned_def)
  have "is_active_wallet_unlocked w m'" if "w \<in> sy_jobs (ap_sync st)" for w
    using unlock_active_cases [OF u] that assms(1) owned_jobs_sub [OF assms] by (auto simp: sync_owned_def is_active_wallet_unlocked_def)
  then have "sync_owned (st\<lparr>ap_mgr := m'\<rparr>)" using k by (simp add: sync_owned_def)
  then show ?thesis using u assms(1)
    by (cases r) (simp_all add: zbag_unlock_wallet_def checked_def map_anyhow_def on_mgr_def split: sum.split)
qed

lemma lock_command_owned: "sync_owned st \<Longrightarrow> sync_owned (snd (zbag_lock_wallet env schema wid st))"
proof -
  assume o: "sync_owned st"
  let ?st = "stop_sync_for_wallet env wid st"
  obtain x m' where l: "lock_wallet (ae_wallet env) wid (ap_mgr ?st) = (x, m')" by fastforce
  have k: "keys_wf m'" using stop_sync_owned [OF o, of env wid] l by (auto simp: sync_owned_def lock_wallet_def keys_wf_def split: option.splits if_splits)
  have "is_active_wallet_unlocked w m'" if "w \<in> sy_jobs (ap_sync ?st)" for w
    using that stop_sync_owned [OF o, of env wid] l
    by (auto simp: sync_owned_def stop_sync_for_wallet_def lock_wallet_def is_active_wallet_unlocked_def split: option.splits if_splits)
  then have "sync_owned (?st\<lparr>ap_mgr := m'\<rparr>)" using k by (simp add: sync_owned_def)
  then show ?thesis using l o by (simp add: zbag_lock_wallet_def checked_def on_mgr_def split: sum.split)
qed

lemma logout_command_owned: "sync_owned st \<Longrightarrow> sync_owned (snd (zbag_logout_wallet env schema wid st))"
proof -
  assume o: "sync_owned st"
  obtain x m' where l: "logout_wallet wid (ap_mgr st) = (x, m')" by fastforce
  have k: "keys_wf m'" using o l by (auto simp: sync_owned_def logout_wallet_def keys_wf_def split: option.splits if_splits)
  have "is_active_wallet_unlocked w m'" if "w \<in> sy_jobs (ap_sync st) - {wid}" for w
    using that o l by (auto simp: sync_owned_def logout_wallet_def is_active_wallet_unlocked_def split: option.splits if_splits)
  then show ?thesis using k l o by (auto simp: zbag_logout_wallet_def checked_def map_anyhow_def on_mgr_def sync_owned_def split: sum.split)
qed

lemma stop_command_owned: "sync_owned st \<Longrightarrow> sync_owned (snd (zbag_stop_sync env schema wid st))"
  by (auto simp: zbag_stop_sync_def checked_def Let_def sync_owned_def keys_wf_def is_active_wallet_unlocked_def split: sum.split)

lemma opens_owned: "sync_owned st \<Longrightarrow> sy_jobs (ap_sync st) = {} \<Longrightarrow> opens (ap_mgr st) m' \<Longrightarrow> sync_owned (st\<lparr>ap_mgr := m'\<rparr>)"
  by (simp add: sync_owned_def opens_keys_wf)

lemma create_command_owned:
  assumes "sync_owned st" "sy_jobs (ap_sync st) = {}"
  shows "sync_owned (snd (zbag_create_wallet env ce fr fetched schema name net pw st))"
    "sync_owned (snd (zbag_restore_wallet env ce fr schema name net pw phrase date st))"
  using assms(1)
  by (simp_all add: opens_owned [OF assms create_opens(1)] opens_owned [OF assms create_opens(2)] zbag_create_wallet_def zbag_restore_wallet_def checked_def map_anyhow_def on_mgr_def Let_def case_prod_unfold split: sum.split)

lemma stop_syncs_jobs: "sy_jobs (stop_syncs env ws s) = sy_jobs s - set ws"
  by (induction ws arbitrary: s) auto

lemma restart_owned:
  "sync_owned st \<Longrightarrow> sy_jobs (ap_sync st) \<subseteq> {w} \<Longrightarrow> set ws \<subseteq> {w} \<Longrightarrow> sync_owned (restart_syncs env ws st)"
proof (induction ws arbitrary: st)
  case (Cons v ws)
  have v: "v = w" using Cons.prems(3) by simp
  obtain r st1 where l: "on_mgr (load_wallet (ae_wallet env) w) st = (r, st1)" by fastforce
  note o = load_and_start_owned [OF Cons.prems(1,2) l]
  show ?case
  proof (cases r)
    case (Inl e)
    then show ?thesis using l o(1,2) Cons.prems(3) by (simp add: v Cons.IH)
  next
    case (Inr x)
    obtain wallet status where x: "r = Inr (wallet, status)" using Inr by (cases x) simp
    show ?thesis using l o(1,2) o(3) [OF x] Cons.prems(3) by (simp add: v x Cons.IH)
  qed
qed simp

lemma tor_command_owned:
  assumes "sync_owned st" "set (ae_arrange env (sy_jobs (ap_sync st))) = sy_jobs (ap_sync st)"
  shows "sync_owned (snd (zbag_set_tor_enabled env schema enabled st))"
proof -
  define ws where "ws = (if enabled then ae_arrange env (running_wallet_ids (ap_sync st)) else [])"
  obtain w where w: "sy_jobs (ap_sync st) \<subseteq> {w}" using sync_owned_active [OF assms(1)] by (metis empty_subsetI insertI1 option.inject subsetI singletonD insert_iff equals0I)
  have ws: "set ws \<subseteq> {w}" using w assms(2) by (auto simp: ws_def running_wallet_ids_def)
  define st1 where "st1 = st\<lparr>ap_sync := stop_syncs env ws (ap_sync st), ap_tor := fst (set_enabled_locked enabled (ap_tor st))\<rparr>"
  have o: "sync_owned (st1\<lparr>ap_mgr := (ap_mgr st1)\<lparr>wm_app_db := db\<rparr>\<rparr>)" "sync_owned st1" for db
    using assms(1) by (auto simp: st1_def sync_owned_def stop_syncs_jobs keys_wf_def is_active_wallet_unlocked_def)
  have "sync_owned (restart_syncs env ws (st1\<lparr>ap_mgr := (ap_mgr st1)\<lparr>wm_app_db := db\<rparr>\<rparr>))" for db
    by (rule restart_owned [OF o(1) _ ws]) (use w in \<open>auto simp: st1_def stop_syncs_jobs\<close>)
  then show ?thesis using assms(1) o(2)
    by (cases enabled) (simp_all add: zbag_set_tor_enabled_def checked_def map_anyhow_def Let_def ws_def st1_def split: sum.split)
qed

lemma task_end_owned: "sync_owned st \<Longrightarrow> sync_owned (st\<lparr>ap_sync := sync_task_end wid (ap_sync st)\<rparr>)"
  by (auto simp: sync_owned_def sync_task_end_def)

text \<open>Every orderly command keeps the rule.\<close>

lemma exec_owned: "sync_owned st \<Longrightarrow> orderly c st \<Longrightarrow> sync_owned (app_exec ce c st)"
  by (cases "(ce, c, st)" rule: app_exec.cases)
    (auto simp: load_command_owned start_command_owned unlock_command_owned lock_command_owned logout_command_owned stop_command_owned
      create_command_owned tor_command_owned task_end_owned)

lemma orderly_run_owned: "sync_owned st \<Longrightarrow> orderly_run ce cs st \<Longrightarrow> sync_owned (run_ops (app_exec ce) cs st)"
  by (induction cs arbitrary: st) (auto simp: exec_owned)

lemma start_sync_keeps: "start_sync ea now url notify finished wid s = (r, s') \<Longrightarrow> sy_jobs s - {wid} \<subseteq> sy_jobs s'"
  by (auto simp: start_sync_def sync_get_progress_def update_progress_def case_prod_unfold Let_def with_eta_state split: if_splits sum.splits)

lemma start_handlers_keep: "sy_jobs (ap_sync st) - {wi_id wallet} \<subseteq> sy_jobs (ap_sync (snd (start_sync_with_handlers env wallet st)))"
proof -
  let ?m = "ap_mgr st" and ?wid = "wi_id wallet"
  let ?url = "resolve_grpc_url (wv_url_parser (ae_wallet env)) (wv_debug (ae_wallet env)) (wm_app_db ?m) (wi_network wallet) (wv_env_url (ae_wallet env))"
  obtain x s where s: "start_sync (ae_eta env) (ae_now env) ?url True (ae_finished env) ?wid (ap_sync st) = (x, s)" by fastforce
  have "ap_sync (snd (start_sync_with_handlers env wallet st)) \<in> {ap_sync st, s}"
    using s by (cases x) (simp_all add: start_sync_with_handlers_def Let_def split: sum.split)
  then show ?thesis using start_sync_keeps [OF s] by auto
qed

lemma create_activates: "create_wallet env ce fr name net pw bh m = (Inr (wl, words, ch), m') \<Longrightarrow> active_id m' = Some (wi_id wl)"
  by (auto simp: create_wallet_def Let_def wallet_steps active_id_def unlocked_wallet_def dest!: activate_active)

lemma load_active_id: "load_wallet env wid m = (r, m') \<Longrightarrow> active_id m = Some wid \<Longrightarrow> active_id m' = Some wid"
  by (erule load_wallet_cases) (auto simp: active_id_def)

lemma start_handlers_active: "active_id (ap_mgr (snd (start_sync_with_handlers env wallet st))) = active_id (ap_mgr st)"
  by (rule start_handlers_cases [of env wallet st]) (simp_all add: active_id_def)

section \<open>Properties\<close>

text \<open>C22: The application syncs only the active, unlocked wallet.  From a fresh start, after any sequence of load, unlock, lock, logout, start, stop, create,
  restore and Tor commands and of ends of sync tasks, every sync job belongs to the wallet that is active and unlocked (so there is at most one), and the
  key of that wallet is in memory.  The sequence has to switch wallets by \<open>zbag_load_wallet\<close>: the other commands that make a wallet active are
  used while nothing is synced or for the active wallet.\<close>

theorem sync_only_for_active_wallet:
  assumes "st = \<lparr>ap_mgr = wallet_manager_new db tx mnemonics files queues d, ap_sync = sync_service_new, ap_tor = tor\<rparr>" and "orderly_run ce cs st"
  shows "let s = run_ops (app_exec ce) cs st in keys_wf (ap_mgr s) \<and> sy_jobs (ap_sync s) \<subseteq> {w. is_active_wallet_unlocked w (ap_mgr s)}"
proof -
  have "sync_owned st" by (simp add: assms(1) sync_owned_def keys_wf_def wallet_manager_new_def sync_service_new_def)
  from orderly_run_owned [OF this assms(2)] show ?thesis by (auto simp: sync_owned_def Let_def)
qed

definition demo_app_env :: "unit app_env" where
  "demo_app_env = \<lparr>ae_wallet = demo_wallet_env\<lparr>wv_debug := True, wv_env_url := Some ''https://a''\<rparr>,
     ae_eta = \<lparr>ea_rate = (\<lambda>_ _ _. ()), ea_eta = (\<lambda>_ _ _ _. None), ea_max_increase = (\<lambda>_ _. 0)\<rparr>,
     ae_now = 0, ae_accounts = Inr [], ae_finished = False, ae_arrange = (\<lambda>_. [])\<rparr>"

definition demo_app :: "(unit, unit, unit, unit) app_state" where
  "demo_app = \<lparr>ap_mgr = demo_manager, ap_sync = sync_service_new, ap_tor = tor_manager_new \<lparr>ts_enabled = False, ts_status = TorOff, ts_last_error = None\<rparr>\<rparr>"

definition demo_create_cmd :: "unit app_env \<times> app_cmd" where
  "demo_create_cmd = (demo_app_env\<lparr>ae_wallet := demo_wallet_env\<rparr>, CmdCreate demo_fresh None ''n'' Mainnet ''pw'')"

lemma demo_app_created:
  assumes "ap_mgr st = demo_manager"
  obtains wl words ch m where "zbag_create_wallet (demo_app_env\<lparr>ae_wallet := demo_wallet_env\<rparr>) demo_create_env demo_fresh None SCHEMA_VERSION ''n'' Mainnet ''pw'' st
      = (Inr (wl, words, ch), st\<lparr>ap_mgr := m\<rparr>)"
    "wi_id wl = ''w''" "wi_network wl = Mainnet" "get_wallet (wm_app_db m) ''w'' = Some (wl, wallet_dir ''r'' ''w'' Mainnet)"
    "wm_active m = Some (unlocked_wallet demo_wallet_env wl (replicate 32 9))"
proof -
  let ?wl = "new_wallet_info demo_wallet_env demo_fresh ''n'' SoftwareWallet Mainnet"
  obtain ch m where c: "create_wallet demo_wallet_env demo_create_env demo_fresh ''n'' Mainnet ''pw'' None demo_manager = (Inr (?wl, demo_words, ch), m)"
    using demo_create by blast
  have h: "crypto_ok (wv_crypto demo_wallet_env)" "length (wr_dek demo_fresh) = 32" "length (wr_mnemonic_nonce demo_fresh) = 24"
    using demo_crypto_ok by (simp_all add: demo_wallet_env_def demo_fresh_def)
  note s = create_wallet_secrets(1,5) [OF c h]
  have wl: "wi_id ?wl = ''w''" "wi_network ?wl = Mainnet" "wr_dek demo_fresh = replicate 32 9" "wv_root demo_wallet_env = ''r''"
    by (simp_all add: new_wallet_info_def demo_fresh_def demo_wallet_env_def)
  have z: "zbag_create_wallet (demo_app_env\<lparr>ae_wallet := demo_wallet_env\<rparr>) demo_create_env demo_fresh None SCHEMA_VERSION ''n'' Mainnet ''pw'' st
      = (Inr (?wl, demo_words, ch), st\<lparr>ap_mgr := m\<rparr>)"
    using c assms by (simp add: zbag_create_wallet_def checked_def ensure_schema_version_def map_anyhow_def on_mgr_def Let_def split: sum.split)
  show ?thesis by (rule that [OF z wl(1,2)]) (use s wl in \<open>simp_all add: has_secrets_def\<close>)
qed

lemma opened_get: "get_wallet db w = Some x \<Longrightarrow> get_wallet (update_last_opened_at w t db) w \<noteq> None"
  by (auto simp: get_wallet_def update_last_opened_at_def find_map_same)

lemma demo_load_and_start:
  assumes "ap_sync st = sync_service_new" "wi_id wl = ''w''" "wi_network wl = Mainnet" "get_wallet (wm_app_db (ap_mgr st)) ''w'' = Some (wl, wallet_dir ''r'' ''w'' Mainnet)"
    and "wm_active (ap_mgr st) = Some (unlocked_wallet demo_wallet_env wl (replicate 32 9))"
  shows "sy_jobs (ap_sync (snd (zbag_load_wallet demo_app_env SCHEMA_VERSION ''w'' st))) = {''w''}"
proof -
  let ?m2 = "(ap_mgr st)\<lparr>wm_app_db := update_last_opened_at ''w'' 0 (wm_app_db (ap_mgr st)), wm_active := Some (unlocked_wallet demo_wallet_env wl (replicate 32 9))\<rparr>"
  have e: "wv_root (ae_wallet demo_app_env) = ''r''" "wv_now_ms (ae_wallet demo_app_env) = 0" "ae_accounts demo_app_env = Inr []" "\<not> ae_finished demo_app_env"
    by (simp_all add: demo_app_env_def demo_wallet_env_def)
  have l: "load_wallet (ae_wallet demo_app_env) ''w'' (ap_mgr st) = (Inr (wl, Unlocked), ?m2)"
    using assms by (simp add: load_wallet_def e unlocked_wallet_def)
  have ids: "list_wallet_db_account_ids (Inr []) ''w'' ?m2 = Inr []"
    using assms(2) by (simp add: list_wallet_db_account_ids_def require_unlocked_wallet_db_def unlocked_wallet_def list_db_accounts_def map_filter_simps)
  have b: "app_load_wallet demo_app_env ''w'' st = (Inr (wl, Unlocked, []), st\<lparr>ap_mgr := ?m2\<rparr>)"
    using assms l ids by (simp add: app_load_wallet_def stop_previous_wallet_sync_def unlocked_wallet_def on_mgr_def build_load_wallet_response_def load_accounts_for_wallet_def e)
  have url: "resolve_grpc_url (wv_url_parser (ae_wallet demo_app_env)) (wv_debug (ae_wallet demo_app_env)) db Mainnet (wv_env_url (ae_wallet demo_app_env)) = Inr ''https://a''" for db
  proof -
    have "validate_grpc_url demo_url_parser True ''https://a'' = Inr ()" by code_simp
    moreover have "trim ''https://a'' = ''https://a''" by code_simp
    ultimately show ?thesis by (simp add: demo_app_env_def demo_wallet_env_def resolve_grpc_url_def resolve_grpc_url_with_dev_override_def)
  qed
  obtain x where g: "get_wallet (wm_app_db ?m2) ''w'' = Some x" using opened_get [OF assms(4), of 0] by auto
  have k: "unlocked_wallet_dek ''w'' ?m2 = Inr (replicate 32 9)" using assms(2) by (simp add: unlocked_wallet_dek_def unlocked_wallet_def)
  have "sy_jobs (ap_sync (snd (start_sync_with_handlers demo_app_env wl (st\<lparr>ap_mgr := ?m2\<rparr>)))) = {''w''}"
    using assms(1,2,3) g k ids url
    by (simp add: start_sync_with_handlers_def Let_def e start_sync_def sync_service_new_def sync_get_progress_def update_progress_def case_prod_unfold with_eta_state)
  then show ?thesis using b by (simp add: zbag_load_wallet_def checked_def ensure_schema_version_def map_anyhow_def)
qed

lemma demo_synced: "sy_jobs (ap_sync (run_ops (app_exec demo_create_env) [demo_create_cmd, (demo_app_env, CmdLoad ''w'')] demo_app)) = {''w''}"
proof -
  have d: "ap_mgr demo_app = demo_manager" "ap_sync demo_app = sync_service_new" by (simp_all add: demo_app_def)
  obtain wl words ch m where c: "zbag_create_wallet (demo_app_env\<lparr>ae_wallet := demo_wallet_env\<rparr>) demo_create_env demo_fresh None SCHEMA_VERSION ''n'' Mainnet ''pw'' demo_app
      = (Inr (wl, words, ch), demo_app\<lparr>ap_mgr := m\<rparr>)"
    "wi_id wl = ''w''" "wi_network wl = Mainnet" "get_wallet (wm_app_db m) ''w'' = Some (wl, wallet_dir ''r'' ''w'' Mainnet)"
    "wm_active m = Some (unlocked_wallet demo_wallet_env wl (replicate 32 9))"
    by (rule demo_app_created [OF d(1)])
  show ?thesis using demo_load_and_start [of "demo_app\<lparr>ap_mgr := m\<rparr>" wl] c d(2) by (simp add: demo_create_cmd_def)
qed

theorem sync_only_for_active_wallet_witness:
  "let s = run_ops (app_exec demo_create_env) [demo_create_cmd, (demo_app_env, CmdLoad ''w'')] demo_app in
   orderly_run demo_create_env [demo_create_cmd, (demo_app_env, CmdLoad ''w'')] demo_app
   \<and> sy_jobs (ap_sync s) = {''w''} \<and> is_active_wallet_unlocked ''w'' (ap_mgr s) \<and> keys_wf (ap_mgr s)"
proof -
  have o: "orderly_run demo_create_env [demo_create_cmd, (demo_app_env, CmdLoad ''w'')] demo_app"
    by (simp add: demo_create_cmd_def demo_app_def sync_service_new_def)
  from sync_only_for_active_wallet [OF demo_app_def [unfolded demo_manager_def] o] show ?thesis
    using demo_synced o by (simp add: Let_def)
qed

text \<open>C38: Creating a wallet does not stop the sync of the wallet that was active.  When \<open>zbag_create_wallet\<close> succeeds while wallet \<open>w\<close> is synced, and the
  new wallet is then loaded, as the front end does, the new wallet is active and the sync job of \<open>w\<close> still runs: the load stops the sync of the
  active wallet only if it is another one, and the creation has already made the new wallet active.\<close>

theorem create_keeps_old_sync:
  assumes "w \<in> sy_jobs (ap_sync st)" and "zbag_create_wallet env ce fr fetched schema name net pw st = (Inr (wl, words, ch), st1)" and "wi_id wl \<noteq> w"
  shows "let st2 = snd (zbag_load_wallet env' schema (wi_id wl) st1)
     in w \<in> sy_jobs (ap_sync st2) \<and> active_id (ap_mgr st2) = Some (wi_id wl) \<and> \<not> is_active_wallet_unlocked w (ap_mgr st2)"
proof -
  obtain bh where c: "create_wallet (ae_wallet env) ce fr name net pw bh (ap_mgr st) = (Inr (wl, words, ch), ap_mgr st1)" "ap_sync st1 = ap_sync st"
    using assms(2) by (auto simp: zbag_create_wallet_def checked_def map_anyhow_def on_mgr_def Let_def result_simps split: sum.splits prod.splits)
  have a: "active_id (ap_mgr st1) = Some (wi_id wl)" by (rule create_activates [OF c(1)])
  then have p: "stop_previous_wallet_sync env' (wi_id wl) st1 = st1" by (auto simp: stop_previous_wallet_sync_def active_id_def)
  obtain r m2 where l: "build_load_wallet_response env' (wi_id wl) (ap_mgr st1) = (r, m2)" by fastforce
  have a2: "active_id m2 = Some (wi_id wl)"
    using load_active_id [OF _ a] response_mgr [of env' "wi_id wl" "ap_mgr st1"] l by (metis prod.collapse snd_conv)
  let ?st2 = "snd (zbag_load_wallet env' schema (wi_id wl) st1)"
  have l': "app_load_wallet env' (wi_id wl) st1 = (r, st1\<lparr>ap_mgr := m2\<rparr>)" by (simp add: app_load_wallet_def p on_mgr_def l)
  have "w \<in> sy_jobs (ap_sync ?st2) \<and> active_id (ap_mgr ?st2) = Some (wi_id wl)"
  proof (cases r)
    case (Inl e)
    then show ?thesis using assms(1) c(2) a a2 by (simp add: zbag_load_wallet_def checked_def map_anyhow_def l' split: sum.split)
  next
    case (Inr x)
    obtain wl' status accounts where x: "r = Inr (wl', status, accounts)" using Inr by (cases x) auto
    have "wi_id wl' = wi_id wl" by (rule response_wallet [OF l [unfolded x]])
    then have "w \<in> sy_jobs (ap_sync (snd (start_sync_with_handlers env' wl' (st1\<lparr>ap_mgr := m2\<rparr>))))"
      using start_handlers_keep [of "st1\<lparr>ap_mgr := m2\<rparr>" wl' env'] assms(1,3) c(2) by auto
    then show ?thesis using assms(1) c(2) a a2 x
      by (simp add: zbag_load_wallet_def checked_def map_anyhow_def l' start_handlers_active split: sum.split)
  qed
  then show ?thesis using assms(3) by (auto simp: Let_def active_id_def is_active_wallet_unlocked_def split: option.splits)
qed

theorem create_keeps_old_sync_witness:
  "\<exists>st1 wl words ch. zbag_create_wallet (demo_app_env\<lparr>ae_wallet := demo_wallet_env\<rparr>) demo_create_env demo_fresh None SCHEMA_VERSION ''n'' Mainnet ''pw''
       (demo_app\<lparr>ap_sync := sync_service_new\<lparr>sy_jobs := {''old''}\<rparr>\<rparr>) = (Inr (wl, words, ch), st1)
     \<and> ''old'' \<in> sy_jobs (ap_sync (snd (zbag_load_wallet demo_app_env SCHEMA_VERSION (wi_id wl) st1)))
     \<and> active_id (ap_mgr (snd (zbag_load_wallet demo_app_env SCHEMA_VERSION (wi_id wl) st1))) = Some ''w''"
proof -
  define st where "st = demo_app\<lparr>ap_sync := sync_service_new\<lparr>sy_jobs := {''old''}\<rparr>\<rparr>"
  have d: "ap_mgr st = demo_manager" "''old'' \<in> sy_jobs (ap_sync st)" by (simp_all add: st_def demo_app_def)
  obtain wl words ch m where c: "zbag_create_wallet (demo_app_env\<lparr>ae_wallet := demo_wallet_env\<rparr>) demo_create_env demo_fresh None SCHEMA_VERSION ''n'' Mainnet ''pw'' st
      = (Inr (wl, words, ch), st\<lparr>ap_mgr := m\<rparr>)" "wi_id wl = ''w''"
    by (rule demo_app_created [OF d(1)])
  have "wi_id wl \<noteq> ''old''" using c(2) by simp
  from create_keeps_old_sync [OF d(2) c(1) this, of demo_app_env] c show ?thesis unfolding st_def by (auto simp: Let_def)
qed

end
