(* ===== verification/Exchange_Rate.thy ===== *)
theory Exchange_Rate
  imports Network_Clients App_Db
begin

text \<open>
  \<open>crates/zbag-network/src/exchange_rate.rs\<close>: the cached exchange rates with their rate limit.  A fetch is split where it waits for the network: up to
  there it checks the cooldown, stamps the time and selects its transport in one step; several fetches can be waiting.
  Times are nanoseconds of the monotonic clock, prices are of a type \<open>'f\<close>, and the decoding of the response is a parameter.
\<close>

section \<open>Model\<close>

definition RATE_LIMIT_SECS :: nat where "RATE_LIMIT_SECS = 120"
definition STALE_THRESHOLD_SECS :: nat where "STALE_THRESHOLD_SECS = 15 * 60"

record 'f exchange_rate =
  xr_currency :: fiat_currency
  xr_price :: 'f
  xr_fetched_at_ms :: int

record 'f cached_rate =
  cr_rates :: "'f exchange_rate list"
  cr_fetched_at :: int

record 'f rate_service =
  rs_cache :: "'f cached_rate option"
  rs_last_fetch :: "int option"

definition rate_service_new :: "'f rate_service" where
  "rate_service_new = \<lparr>rs_cache = None, rs_last_fetch = None\<rparr>"

datatype rate_error = RateHttp http_error | RateParse string | RateLimitedFor nat | NotAvailable

definition get_cached_rate :: "fiat_currency \<Rightarrow> 'f rate_service \<Rightarrow> 'f exchange_rate option" where
  "get_cached_rate c s = Option.bind (rs_cache s) (\<lambda>k. find (\<lambda>r. xr_currency r = c) (cr_rates k))"

definition is_cache_stale :: "int \<Rightarrow> 'f rate_service \<Rightarrow> bool" where
  "is_cache_stale now s = (case rs_cache s of None \<Rightarrow> True | Some k \<Rightarrow> secs STALE_THRESHOLD_SECS < max 0 (now - cr_fetched_at k))"

definition refresh_cooldown_secs :: "int \<Rightarrow> 'f rate_service \<Rightarrow> nat" where
  "refresh_cooldown_secs now s =
     (case rs_last_fetch s of None \<Rightarrow> 0 | Some t \<Rightarrow> RATE_LIMIT_SECS - nat (max 0 (now - t) div 1000000000))"

definition rate_url :: string where
  "rate_url = ''https://api.coingecko.com/api/v3/simple/price?ids=zcash&vs_currencies=usd,eur,gbp,chf,cad,aud,jpy''"

text \<open>A fetch that waits for its reply.\<close>

record 'j rate_flight =
  fl_attempted :: "int option"
  fl_prev :: "int option"
  fl_reply :: "(http_error, 'j json_response) result"

definition fetch_begin :: "('c, 'j) http_env \<Rightarrow> 'c selector \<Rightarrow> int \<Rightarrow> bool \<Rightarrow> 'f rate_service
    \<Rightarrow> (rate_error, 'f exchange_rate list) result + 'j rate_flight \<times> wire list \<times> 'f rate_service" where
  "fetch_begin he tor now force s =
     (let cooldown = refresh_cooldown_secs now s in
      if 0 < cooldown \<and> \<not> force then
        Inl (case rs_cache s of Some k \<Rightarrow> Inr (cr_rates k) | None \<Rightarrow> Inl (RateLimitedFor cooldown))
      else
        let (reply, wires) = get_json he tor rate_url in
        if force then Inr (\<lparr>fl_attempted = None, fl_prev = None, fl_reply = reply\<rparr>, wires, s)
        else Inr (\<lparr>fl_attempted = Some now, fl_prev = rs_last_fetch s, fl_reply = reply\<rparr>, wires, s\<lparr>rs_last_fetch := Some now\<rparr>))"

fun is_fail_closed :: "(http_error, 'a) result \<Rightarrow> bool" where
  "is_fail_closed (Inl (FailClosed e)) = True"
| "is_fail_closed r = False"

text \<open>What the decoder finds: an error, no entry for Zcash, or the prices by currency.\<close>

type_synonym ('j, 'f) rate_decoder = "'j \<Rightarrow> (string, (fiat_currency \<rightharpoonup> 'f) option) result"

definition rates_of_prices :: "int \<Rightarrow> (fiat_currency \<rightharpoonup> 'f) \<Rightarrow> 'f exchange_rate list" where
  "rates_of_prices now_ms prices =
     List.map_filter (\<lambda>c. map_option (\<lambda>p. \<lparr>xr_currency = c, xr_price = p, xr_fetched_at_ms = now_ms\<rparr>) (prices c)) [USD, EUR, GBP, CHF, CAD, AUD, JPY]"

definition fetch_end :: "('j, 'f) rate_decoder \<Rightarrow> int \<Rightarrow> int \<Rightarrow> 'j rate_flight \<Rightarrow> 'f rate_service
    \<Rightarrow> (rate_error, 'f exchange_rate list) result \<times> 'f rate_service" where
  "fetch_end decode now now_ms fl s =
     (case fl_reply fl of
        Inl err \<Rightarrow>
          (Inl (RateHttp err),
           if fl_attempted fl \<noteq> None \<and> is_fail_closed (fl_reply fl) \<and> rs_last_fetch s = fl_attempted fl
           then s\<lparr>rs_last_fetch := fl_prev fl\<rparr> else s)
      | Inr response \<Rightarrow>
          if jr_status response = 429 then (Inl (RateLimitedFor (case jr_retry_after response of None \<Rightarrow> 60 | Some n \<Rightarrow> n)), s)
          else if jr_status response \<noteq> 200 then (Inl (RateParse (''API returned status '' @ show_nat (jr_status response))), s)
          else (case decode (jr_body response) of
             Inl e \<Rightarrow> (Inl (RateParse e), s)
           | Inr None \<Rightarrow> (Inl NotAvailable, s)
           | Inr (Some prices) \<Rightarrow>
               let rates = rates_of_prices now_ms prices
               in (Inr rates, s\<lparr>rs_cache := Some \<lparr>cr_rates = rates, cr_fetched_at = now\<rparr>\<rparr>)))"

text \<open>The whole call, when nothing happens while it waits.\<close>

definition fetch_rates :: "('c, 'j) http_env \<Rightarrow> 'c selector \<Rightarrow> ('j, 'f) rate_decoder \<Rightarrow> int \<Rightarrow> int \<Rightarrow> int \<Rightarrow> bool \<Rightarrow> 'f rate_service
    \<Rightarrow> (rate_error, 'f exchange_rate list) result \<times> 'f rate_service" where
  "fetch_rates he tor decode now later now_ms force s =
     (case fetch_begin he tor now force s of
        Inl r \<Rightarrow> (r, s)
      | Inr (fl, _, s1) \<Rightarrow> fetch_end decode later now_ms fl s1)"

definition get_rate :: "('c, 'j) http_env \<Rightarrow> 'c selector \<Rightarrow> ('j, 'f) rate_decoder \<Rightarrow> int \<Rightarrow> int \<Rightarrow> int \<Rightarrow> fiat_currency \<Rightarrow> bool \<Rightarrow> 'f rate_service
    \<Rightarrow> (rate_error, 'f exchange_rate) result \<times> 'f rate_service" where
  "get_rate he tor decode now later now_ms c force s =
     (case (if \<not> force \<and> \<not> is_cache_stale now s then get_cached_rate c s else None) of
        Some rate \<Rightarrow> (Inr rate, s)
      | None \<Rightarrow>
          (case fetch_rates he tor decode now later now_ms force s of
             (Inl e, s1) \<Rightarrow> (Inl e, s1)
           | (Inr rates, s1) \<Rightarrow> (ok_or (find (\<lambda>r. xr_currency r = c) rates) NotAvailable, s1)))"

section \<open>Interleaved fetches\<close>

text \<open>\<open>rw_sent\<close>: the times at which requests that are not forced went out.\<close>

record ('j, 'f) rate_world =
  rw_service :: "'f rate_service"
  rw_flights :: "'j rate_flight list"
  rw_sent :: "int list"

definition rate_world_new :: "('j, 'f) rate_world" where
  "rate_world_new = \<lparr>rw_service = rate_service_new, rw_flights = [], rw_sent = []\<rparr>"

datatype ('c, 'j, 'f) rate_op = FetchBegin "('c, 'j) http_env" "'c selector" int bool | FetchEnd "('j, 'f) rate_decoder" int int nat

fun rate_exec :: "('c, 'j, 'f) rate_op \<Rightarrow> ('j, 'f) rate_world \<Rightarrow> ('j, 'f) rate_world" where
  "rate_exec (FetchBegin he tor now force) w =
     (case fetch_begin he tor now force (rw_service w) of
        Inl _ \<Rightarrow> w
      | Inr (fl, wires, s) \<Rightarrow>
          \<lparr>rw_service = s, rw_flights = rw_flights w @ [fl],
           rw_sent = (if \<not> force \<and> wires \<noteq> [] then rw_sent w @ [now] else rw_sent w)\<rparr>)"
| "rate_exec (FetchEnd decode now now_ms i) w =
     (if length (rw_flights w) \<le> i then w
      else w\<lparr>rw_service := snd (fetch_end decode now now_ms (rw_flights w ! i) (rw_service w)),
             rw_flights := take i (rw_flights w) @ drop (Suc i) (rw_flights w)\<rparr>)"

section \<open>Lemmas\<close>

text \<open>The waiting fetches that may take their stamp back, with the stamp before theirs.\<close>

definition revocable :: "'j rate_flight list \<Rightarrow> (int \<times> int option) list" where
  "revocable fls = List.map_filter (\<lambda>f. if is_fail_closed (fl_reply f) then map_option (\<lambda>a. (a, fl_prev f)) (fl_attempted f) else None) fls"

definition not_after :: "int \<Rightarrow> int option \<Rightarrow> bool" where
  "not_after t x \<longleftrightarrow> (\<exists>l. x = Some l \<and> t \<le> l)"

abbreviation rate_gap :: int where "rate_gap \<equiv> secs RATE_LIMIT_SECS"

text \<open>No stamp lies after the last fetch; what came before a revocable stamp is known to its predecessor; requests went out with the required gap.\<close>

definition stamp_inv :: "int option \<Rightarrow> (int \<times> int option) list \<Rightarrow> int list \<Rightarrow> bool" where
  "stamp_inv latest rv sent \<longleftrightarrow>
     (\<forall>t \<in> set sent \<union> fst ` set rv. not_after t latest)
     \<and> (\<forall>(a, prev) \<in> set rv. a \<notin> set sent \<and> (\<forall>t \<in> set sent \<union> fst ` set rv. t \<noteq> a \<longrightarrow> not_after t prev \<or> a < t))
     \<and> distinct (map fst rv) \<and> sorted_wrt (\<lambda>x y. x + rate_gap \<le> y) sent"

definition rate_inv :: "('j, 'f) rate_world \<Rightarrow> bool" where
  "rate_inv w = stamp_inv (rs_last_fetch (rw_service w)) (revocable (rw_flights w)) (rw_sent w)"

lemma stamp_invI:
  assumes "\<And>t. t \<in> set sent \<union> fst ` set rv \<Longrightarrow> not_after t latest"
    and "\<And>a prev. (a, prev) \<in> set rv \<Longrightarrow> a \<notin> set sent"
    and "\<And>a prev t. (a, prev) \<in> set rv \<Longrightarrow> t \<in> set sent \<union> fst ` set rv \<Longrightarrow> t \<noteq> a \<Longrightarrow> not_after t prev \<or> a < t"
    and "distinct (map fst rv)" "sorted_wrt (\<lambda>x y. x + rate_gap \<le> y) sent"
  shows "stamp_inv latest rv sent"
  unfolding stamp_inv_def using assms by (intro conjI ballI) (simp_all add: split_beta, metis prod.collapse)

lemma stamp_invD:
  assumes "stamp_inv latest rv sent"
  shows "t \<in> set sent \<union> fst ` set rv \<Longrightarrow> not_after t latest"
    and "(a, prev) \<in> set rv \<Longrightarrow> a \<notin> set sent"
    and "(a, prev) \<in> set rv \<Longrightarrow> t \<in> set sent \<union> fst ` set rv \<Longrightarrow> t \<noteq> a \<Longrightarrow> not_after t prev \<or> a < t"
    and "distinct (map fst rv)" "sorted_wrt (\<lambda>x y. x + rate_gap \<le> y) sent"
  using assms unfolding stamp_inv_def by blast+

lemma rate_gap_pos: "0 < rate_gap"
  by (simp add: RATE_LIMIT_SECS_def secs_def)

lemma stamps_before:
  assumes "stamp_inv latest rv sent" "\<forall>l. latest = Some l \<longrightarrow> l + rate_gap \<le> now" "t \<in> set sent \<union> fst ` set rv"
  shows "t + rate_gap \<le> now" "t < now"
proof -
  obtain l where l: "latest = Some l" "t \<le> l" using stamp_invD(1)[OF assms(1,3)] unfolding not_after_def by blast
  have "l + rate_gap \<le> now" using assms(2) l(1) by blast
  then show "t + rate_gap \<le> now" "t < now" using l(2) rate_gap_pos by linarith+
qed

lemma not_after_now: "t < now \<Longrightarrow> not_after t (Some now)"
  by (simp add: not_after_def)

lemma revocable_stamp: "(a, prev) \<in> set rv \<Longrightarrow> a \<in> set sent \<union> fst ` set rv"
  by force

lemma stamp_inv_sent:
  assumes "stamp_inv latest rv sent" "\<forall>l. latest = Some l \<longrightarrow> l + rate_gap \<le> now"
  shows "stamp_inv (Some now) rv (sent @ [now])"
proof (rule stamp_invI)
  note b = stamps_before[OF assms] and d = stamp_invD[OF assms(1)]
  show "not_after t (Some now)" if "t \<in> set (sent @ [now]) \<union> fst ` set rv" for t
    using that b(2)[of t] by (cases "t = now") (simp_all add: not_after_def)
  show "a \<notin> set (sent @ [now])" if "(a, prev) \<in> set rv" for a prev
    using d(2)[OF that] b(2)[OF revocable_stamp[OF that]] by simp
  show "not_after t prev \<or> a < t" if "(a, prev) \<in> set rv" "t \<in> set (sent @ [now]) \<union> fst ` set rv" "t \<noteq> a" for a prev t
  proof (cases "t \<in> set sent \<union> fst ` set rv")
    case True
    then show ?thesis using d(3)[OF that(1) _ that(3)] by blast
  next
    case False
    then show ?thesis using that(2) b(2)[OF revocable_stamp[OF that(1)]] by simp
  qed
  show "distinct (map fst rv)" by (rule d(4))
  show "sorted_wrt (\<lambda>x y. x + rate_gap \<le> y) (sent @ [now])" using d(5) b(1) by (simp add: sorted_wrt_append)
qed

lemma stamp_inv_revocable:
  assumes "stamp_inv latest rv sent" "\<forall>l. latest = Some l \<longrightarrow> l + rate_gap \<le> now"
  shows "stamp_inv (Some now) (rv @ [(now, latest)]) sent"
proof (rule stamp_invI)
  note b = stamps_before[OF assms] and d = stamp_invD[OF assms(1)]
  show "not_after t (Some now)" if "t \<in> set sent \<union> fst ` set (rv @ [(now, latest)])" for t
    using that b(2)[of t] by (cases "t = now") (simp_all add: not_after_def)
  show "a \<notin> set sent" if "(a, prev) \<in> set (rv @ [(now, latest)])" for a prev
    using that d(2)[of a prev] b(2)[of now] by auto
  show "not_after t prev \<or> a < t" if "(a, prev) \<in> set (rv @ [(now, latest)])" "t \<in> set sent \<union> fst ` set (rv @ [(now, latest)])" "t \<noteq> a" for a prev t
  proof (cases "(a, prev) \<in> set rv")
    case True
    then show ?thesis using that(2,3) d(3)[OF True, of t] b(2)[OF revocable_stamp[OF True]] by (cases "t = now") simp_all
  next
    case False
    then show ?thesis using that d(1)[of t] by simp
  qed
  show "distinct (map fst (rv @ [(now, latest)]))" using d(4) b(2)[of now] by auto
  show "sorted_wrt (\<lambda>x y. x + rate_gap \<le> y) sent" by (rule d(5))
qed

lemma stamp_inv_quiet:
  assumes "stamp_inv latest rv sent" "\<forall>l. latest = Some l \<longrightarrow> l + rate_gap \<le> now"
  shows "stamp_inv (Some now) rv sent"
  using not_after_now[OF stamps_before(2)[OF assms]] stamp_invD(2-5)[OF assms(1)] by (rule stamp_invI)

lemma stamp_inv_drop:
  assumes "stamp_inv latest (r1 @ x # r2) sent"
  shows "stamp_inv latest (r1 @ r2) sent"
proof (rule stamp_invI)
  note d = stamp_invD[OF assms]
  show "not_after t latest" if "t \<in> set sent \<union> fst ` set (r1 @ r2)" for t using that by (intro d(1)) auto
  show "a \<notin> set sent" if "(a, prev) \<in> set (r1 @ r2)" for a prev using that by (intro d(2)[of _ prev]) auto
  show "not_after t prev \<or> a < t" if "(a, prev) \<in> set (r1 @ r2)" "t \<in> set sent \<union> fst ` set (r1 @ r2)" "t \<noteq> a" for a prev t
    using that by (intro d(3)) auto
  show "distinct (map fst (r1 @ r2))" using d(4) by auto
  show "sorted_wrt (\<lambda>x y. x + rate_gap \<le> y) sent" by (rule d(5))
qed

lemma stamp_inv_restore:
  assumes "stamp_inv (Some a) (r1 @ (a, prev) # r2) sent"
  shows "stamp_inv prev (r1 @ r2) sent"
proof (rule stamp_invI)
  note d = stamp_invD[OF assms] and k = stamp_invD[OF stamp_inv_drop[OF assms]]
  have own: "(a, prev) \<in> set (r1 @ (a, prev) # r2)" by simp
  show "not_after t prev" if t: "t \<in> set sent \<union> fst ` set (r1 @ r2)" for t
  proof -
    have mem: "t \<in> set sent \<union> fst ` set (r1 @ (a, prev) # r2)" using t by auto
    have "t \<noteq> a" using t d(2)[OF own] d(4) by auto
    moreover have "\<not> a < t" using d(1)[OF mem] by (simp add: not_after_def)
    ultimately show ?thesis using d(3)[OF own mem] by blast
  qed
qed (use stamp_invD[OF stamp_inv_drop[OF assms]] in blast)+

lemma whole_seconds: "120 \<le> x div 1000000000 \<longleftrightarrow> 120 * 1000000000 \<le> x" for x :: int
proof
  assume "120 \<le> x div 1000000000"
  then show "120 * 1000000000 \<le> x" using div_mult_mod_eq[of x 1000000000] pos_mod_sign[of 1000000000 x] by linarith
next
  assume "120 * 1000000000 \<le> x"
  then show "120 \<le> x div 1000000000" using zdiv_mono1[of "120 * 1000000000" x 1000000000] by simp
qed

lemma cooldown_over: "refresh_cooldown_secs now s = 0 \<longleftrightarrow> (\<forall>t. rs_last_fetch s = Some t \<longrightarrow> t + secs RATE_LIMIT_SECS \<le> now)"
proof (cases "rs_last_fetch s")
  case (Some t)
  let ?d = "max 0 (now - t)"
  have "refresh_cooldown_secs now s = 0 \<longleftrightarrow> 120 \<le> ?d div 1000000000"
    unfolding refresh_cooldown_secs_def RATE_LIMIT_SECS_def Some option.case diff_is_0_eq by (rule le_nat_iff[THEN trans]) simp_all
  also have "\<dots> \<longleftrightarrow> 120 * 1000000000 \<le> ?d" by (rule whole_seconds)
  also have "\<dots> \<longleftrightarrow> t + secs RATE_LIMIT_SECS \<le> now" unfolding secs_def RATE_LIMIT_SECS_def by (simp add: max_def) linarith
  finally show ?thesis using Some by simp
qed (simp add: refresh_cooldown_secs_def)

lemma fail_closed_unsent:
  assumes "is_fail_closed (fst (get_json he tor url))"
  shows "snd (get_json he tor url) = []"
proof (cases "select tor")
  case (Inr t)
  have direct: "\<not> is_fail_closed (bind_result (map_err DirectTransport r) (\<lambda>x. Inr (g x)))" for r g by (cases r) auto
  have tor: "\<not> is_fail_closed (tor_reply r)" for r
  proof (cases r)
    case (Some x)
    then show ?thesis by (cases x) (simp_all add: tor_reply_def)
  qed (simp add: tor_reply_def)
  show ?thesis using Inr assms direct tor by (cases t) (auto simp: get_json_def split: if_splits)
qed (simp add: get_json_def)

lemma revocable_append: "revocable (a @ b) = revocable a @ revocable b"
  by (simp add: revocable_def List.map_filter_def)

lemma revocable_one: "revocable [f] = (if is_fail_closed (fl_reply f) then (case fl_attempted f of None \<Rightarrow> [] | Some a \<Rightarrow> [(a, fl_prev f)]) else [])"
  by (simp add: revocable_def List.map_filter_def split: option.splits)

lemma rate_begin_inv:
  assumes "rate_inv w"
  shows "rate_inv (rate_exec (FetchBegin he tor now force) w)"
proof (cases "fetch_begin he tor now force (rw_service w)")
  case (Inr x)
  let ?s = "rw_service w" and ?rv = "revocable (rw_flights w)"
  obtain reply wires where g: "get_json he tor rate_url = (reply, wires)" by fastforce
  have unsent: "is_fail_closed reply \<Longrightarrow> wires = []" using fail_closed_unsent[of he tor rate_url] g by simp
  have inv: "stamp_inv (rs_last_fetch ?s) ?rv (rw_sent w)" using assms by (simp add: rate_inv_def)
  show ?thesis
  proof (cases force)
    case True
    then have "x = (\<lparr>fl_attempted = None, fl_prev = None, fl_reply = reply\<rparr>, wires, ?s)" using Inr g by (simp add: fetch_begin_def)
    then show ?thesis using Inr True inv by (simp add: rate_inv_def revocable_append revocable_one)
  next
    case False
    have e: "x = (\<lparr>fl_attempted = Some now, fl_prev = rs_last_fetch ?s, fl_reply = reply\<rparr>, wires, ?s\<lparr>rs_last_fetch := Some now\<rparr>)"
      and over: "\<forall>l. rs_last_fetch ?s = Some l \<longrightarrow> l + rate_gap \<le> now"
      using Inr False g cooldown_over[of now ?s] by (simp_all add: fetch_begin_def Let_def split: if_splits)
    note kept = stamp_inv_sent[OF inv over] stamp_inv_revocable[OF inv over] stamp_inv_quiet[OF inv over]
    show ?thesis
      using Inr False e unsent kept by (cases "is_fail_closed reply") (simp_all add: rate_inv_def revocable_append revocable_one)
  qed
qed (use assms in simp)

lemma fetch_end_stamp:
  "rs_last_fetch (snd (fetch_end decode now now_ms f s)) =
     (if is_fail_closed (fl_reply f) \<and> fl_attempted f \<noteq> None \<and> rs_last_fetch s = fl_attempted f then fl_prev f else rs_last_fetch s)"
  by (cases "fl_reply f"; cases "fl_attempted f") (simp_all add: fetch_end_def Let_def split: sum.splits option.splits)

lemma rate_end_inv:
  assumes "rate_inv w"
  shows "rate_inv (rate_exec (FetchEnd decode now now_ms i) w)"
proof (cases "i < length (rw_flights w)")
  case True
  let ?f = "rw_flights w ! i" and ?r1 = "revocable (take i (rw_flights w))" and ?r2 = "revocable (drop (Suc i) (rw_flights w))"
  let ?latest = "rs_last_fetch (rw_service w)"
  have "revocable (rw_flights w) = revocable (take i (rw_flights w) @ [?f] @ drop (Suc i) (rw_flights w))"
    using True by (simp add: Cons_nth_drop_Suc)
  also have "\<dots> = ?r1 @ revocable [?f] @ ?r2" by (simp only: revocable_append)
  finally have inv: "stamp_inv ?latest (?r1 @ revocable [?f] @ ?r2) (rw_sent w)" using assms by (simp add: rate_inv_def)
  let ?latest' = "rs_last_fetch (snd (fetch_end decode now now_ms ?f (rw_service w)))"
  have "stamp_inv ?latest' (?r1 @ ?r2) (rw_sent w)"
  proof (cases "is_fail_closed (fl_reply ?f) \<and> fl_attempted ?f \<noteq> None")
    case revocable: True
    then obtain a where a: "fl_attempted ?f = Some a" by blast
    then have one: "revocable [?f] = [(a, fl_prev ?f)]" using revocable by (simp add: revocable_one)
    show ?thesis
      using inv stamp_inv_drop[of ?latest ?r1 "(a, fl_prev ?f)" ?r2] stamp_inv_restore[of a ?r1 "fl_prev ?f" ?r2] revocable a one
      by (cases "?latest = Some a") (simp_all add: fetch_end_stamp)
  next
    case False
    then have "revocable [?f] = []" by (auto simp: revocable_one)
    then show ?thesis using inv False by (auto simp: fetch_end_stamp)
  qed
  then show ?thesis using True by (simp add: rate_inv_def revocable_append)
qed (use assms in simp)

lemma rate_exec_inv: "rate_inv w \<Longrightarrow> rate_inv (rate_exec c w)"
  by (cases c) (simp_all only: rate_begin_inv rate_end_inv)

lemma rate_inv_new: "rate_inv rate_world_new"
  by (simp add: rate_inv_def rate_world_new_def rate_service_new_def revocable_def stamp_inv_def List.map_filter_def)

lemma fetch_rates_fail_closed:
  assumes "select tor = Inl e"
  shows "rs_last_fetch (snd (fetch_rates he tor decode now later now_ms force s)) = rs_last_fetch s"
  using assms by (auto simp: fetch_rates_def fetch_begin_def Let_def get_json_def fetch_end_def split: if_splits)

section \<open>Properties\<close>


definition demo_rate_http :: "(string, unit) http_env" where
  "demo_rate_http = \<lparr>he_direct = (\<lambda>_. Inl ''down''), he_tor = (\<lambda>_ _. None), he_uri_ok = (\<lambda>_. True), he_encode_ok = True\<rparr>"


end
