(* ===== verification/App_Settings.thy ===== *)
theory App_Settings
  imports App_Session Exchange_Rate
begin

text \<open>
  The settings commands of the desktop application: \<open>apps/zbag-app-tauri/src-tauri/src/server_logic.rs\<close> (adding, choosing, listing and testing servers),
  \<open>exchange_logic.rs\<close> (fiat display and exchange rates), and the probe of \<open>crates/zbag-network/src/grpc_client.rs\<close>.
  The theorems: the server commands keep every network that has a usable default server usable, and no exchange-rate request is sent before the user has
  acknowledged the privacy notice.
\<close>

section \<open>Probing a server\<close>

text \<open>What the server answers to the opening of the mempool stream.\<close>

datatype mempool_reply = StreamOpened | Unimplemented | DeadlineExceeded | Cancelled | OtherStatus string

text \<open>The network during a probe: connections, the Tor manager at the two selections, the two replies (of the first, the name of the chain), and after how many
  connections the time limit struck, if it did.\<close>

record ('c, 'h) probe_env =
  pb_grpc :: "('c, 'h) grpc_env"
  pb_tor_info :: "'c selector"
  pb_tor_mempool :: "'c selector"
  pb_info :: "'h \<Rightarrow> (string, string) result"
  pb_mempool :: "'h \<Rightarrow> mempool_reply"
  pb_timeout :: "nat option"

definition get_lightd_info :: "('c, 'h) probe_env \<Rightarrow> 'h grpc_client \<Rightarrow> (engine_error, string) result \<times> wire list \<times> 'h grpc_client" where
  "get_lightd_info pb gc =
     (case get_client (pb_grpc pb) 0 (pb_tor_info pb) gc of
        (Inl e, w, gc') \<Rightarrow> (Inl (with_context ''failed to connect'' e), w, gc')
      | (Inr ch, w, gc') \<Rightarrow> (map_err (\<lambda>s. with_context ''GetLightdInfo RPC failed'' (msg_err s)) (pb_info pb ch), w, gc'))"

fun mempool_result :: "mempool_reply \<Rightarrow> (engine_error, unit) result" where
  "mempool_result StreamOpened = Inr ()"
| "mempool_result Unimplemented = Inl (msg_err ''server missing GetMempoolStream capability'')"
| "mempool_result DeadlineExceeded = Inr ()"
| "mempool_result Cancelled = Inr ()"
| "mempool_result (OtherStatus s) = Inl (with_context ''mempool probe failed'' (msg_err s))"

definition probe_mempool_support :: "('c, 'h) probe_env \<Rightarrow> 'h grpc_client \<Rightarrow> (engine_error, unit) result \<times> wire list \<times> 'h grpc_client" where
  "probe_mempool_support pb gc =
     (case get_client (pb_grpc pb) 1 (pb_tor_mempool pb) gc of
        (Inl e, w, gc') \<Rightarrow> (Inl (with_context ''failed to connect'' e), w, gc')
      | (Inr ch, w, gc') \<Rightarrow> (mempool_result (pb_mempool pb ch), w, gc'))"

definition probe_server :: "('c, 'h) probe_env \<Rightarrow> 'h grpc_client \<Rightarrow> (engine_error, string) result \<times> wire list" where
  "probe_server pb gc =
     (case get_lightd_info pb gc of
        (Inl e, w, _) \<Rightarrow> (Inl e, w)
      | (Inr chain, w, gc') \<Rightarrow> (case probe_mempool_support pb gc' of (r, w', _) \<Rightarrow> (bind_result r (\<lambda>_. Inr chain), w @ w')))"

definition probe_chain_name_with_timeout :: "('c, 'h) probe_env \<Rightarrow> string \<Rightarrow> (engine_error, string) result \<times> wire list" where
  "probe_chain_name_with_timeout pb url =
     (let (r, w) = probe_server pb \<lparr>gc_endpoint = url, gc_direct_channel = None\<rparr> in
      case pb_timeout pb of None \<Rightarrow> (r, w) | Some k \<Rightarrow> (Inl (msg_err ''connection timed out''), take k w))"

definition parse_chain_network :: "string \<Rightarrow> (engine_error, network) result" where
  "parse_chain_network chain_name =
     (let name = to_lowercase (trim chain_name) in
      if name = ''main'' \<or> name = ''mainnet'' then Inr Mainnet
      else if name = ''test'' \<or> name = ''testnet'' then Inr Testnet
      else Inl (ipc_err INVALID_REQUEST (''unsupported chain_name: '' @ name)))"

section \<open>Servers\<close>

definition url_ok :: "wallet_env \<Rightarrow> string \<Rightarrow> (engine_error, unit) result" where
  "url_ok env = validate_grpc_url (wv_url_parser env) (wv_debug env)"

definition add_server :: "wallet_env \<Rightarrow> ('c, 'h) probe_env \<Rightarrow> uuid \<Rightarrow> string \<Rightarrow> string \<Rightarrow> ('p, 'q) wallet_manager
    \<Rightarrow> (engine_error, server_info) result \<times> ('p, 'q) wallet_manager" where
  "add_server env pb sid raw_name raw_url m =
     (let name = trim raw_name; url = trim raw_url in
      bind_se (result_step (guard_or (name \<noteq> []) (ipc_err INVALID_REQUEST ''server name required'')) m) (\<lambda>_ m0.
      bind_se (result_step (guard_or (url \<noteq> []) (ipc_err INVALID_REQUEST ''grpc_url required'')) m0) (\<lambda>_ m1.
      bind_se (result_step (url_ok env url) m1) (\<lambda>_ m2.
      bind_se (result_step (map_err (\<lambda>e. ipc_err SERVER_UNAVAILABLE (''server probe failed: '' @ error_text e)) (fst (probe_chain_name_with_timeout pb url))) m2) (\<lambda>chain m3.
      bind_se (result_step (parse_chain_network chain) m3) (\<lambda>net m4.
      bind_se (result_step (system_time_to_unix_ms (wv_now env)) m4) (\<lambda>now_ms m5.
      let server = \<lparr>si_id = sid, si_name = name, si_grpc_url = url, si_network = net, si_is_default = False, si_last_success_at = Some now_ms,
                    si_validation_error = None\<rparr>
      in bind_se (sql_step (insert_server server now_ms) m5) (\<lambda>_ m6. (Inr server, m6)))))))))"

definition app_set_default_server :: "wallet_env \<Rightarrow> uuid \<Rightarrow> ('p, 'q) wallet_manager \<Rightarrow> (engine_error, unit) result \<times> ('p, 'q) wallet_manager" where
  "app_set_default_server env sid m =
     bind_se (result_step (ok_or (get_server (wm_app_db m) sid) (ipc_err INVALID_REQUEST ''server not found'')) m) (\<lambda>server m0.
     bind_se (result_step (url_ok env (si_grpc_url server)) m0) (\<lambda>_ m1.
     bind_se (result_step (ensure_server_network_matches_active_wallet (si_network server) m1) m1) (\<lambda>_ m2.
     sql_step (set_default_server sid) m2)))"

definition validation_message :: "engine_error \<Rightarrow> string" where
  "validation_message err = (case find_engine_ipc_error err of Some (code, msg) \<Rightarrow> msg | None \<Rightarrow> error_text err)"

definition app_list_servers :: "wallet_env \<Rightarrow> ('p, 'q) wallet_manager \<Rightarrow> server_info list" where
  "app_list_servers env m =
     map (\<lambda>s. case url_ok env (si_grpc_url s) of Inl err \<Rightarrow> s\<lparr>si_validation_error := Some (validation_message err)\<rparr> | Inr _ \<Rightarrow> s) (list_servers (wm_app_db m))"

record test_response =
  te_success :: bool
  te_latency_ms :: "nat option"
  te_error :: "string option"

text \<open>\<open>elapsed\<close> is the duration of the probe in milliseconds.\<close>

definition test_server :: "wallet_env \<Rightarrow> ('c, 'h) probe_env \<Rightarrow> nat \<Rightarrow> uuid \<Rightarrow> ('p, 'q) wallet_manager
    \<Rightarrow> (engine_error, test_response) result \<times> ('p, 'q) wallet_manager" where
  "test_server env pb elapsed sid m =
     bind_se (result_step (ok_or (get_server (wm_app_db m) sid) (ipc_err INVALID_REQUEST ''server not found'')) m) (\<lambda>server m0.
     case url_ok env (si_grpc_url server) of
       Inl err \<Rightarrow>
         (Inr \<lparr>te_success = False, te_latency_ms = None, te_error = Some (''stored server configuration is invalid: '' @ validation_message err)\<rparr>, m0)
     | Inr _ \<Rightarrow>
         let latency = (if elapsed \<le> u64_max then Some elapsed else None) in
         (case fst (probe_chain_name_with_timeout pb (si_grpc_url server)) of
            Inl err \<Rightarrow> (Inr \<lparr>te_success = False, te_latency_ms = latency, te_error = Some (error_text err)\<rparr>, m0)
          | Inr chain \<Rightarrow>
              bind_se (result_step (parse_chain_network chain) m0) (\<lambda>net m1.
              if net \<noteq> si_network server
              then (Inr \<lparr>te_success = False, te_latency_ms = latency, te_error = Some ''server network mismatch''\<rparr>, m1)
              else bind_se (result_step (system_time_to_unix_ms (wv_now env)) m1) (\<lambda>now_ms m2.
                (Inr \<lparr>te_success = True, te_latency_ms = latency, te_error = None\<rparr>,
                 m2\<lparr>wm_app_db := update_last_success_at (si_id server) now_ms (wm_app_db m2)\<rparr>)))))"

datatype ('c, 'h) server_cmd = CmdAddServer "('c, 'h) probe_env" uuid string string | CmdSetDefault uuid | CmdTestServer "('c, 'h) probe_env" nat uuid

fun server_exec :: "wallet_env \<Rightarrow> ('c, 'h) server_cmd \<Rightarrow> ('p, 'q) wallet_manager \<Rightarrow> ('p, 'q) wallet_manager" where
  "server_exec env (CmdAddServer pb sid name url) m = snd (add_server env pb sid name url m)"
| "server_exec env (CmdSetDefault sid) m = snd (app_set_default_server env sid m)"
| "server_exec env (CmdTestServer pb elapsed sid) m = snd (test_server env pb elapsed sid m)"

section \<open>Exchange rates\<close>

record fiat_request =
  fq_enabled :: bool
  fq_currency :: fiat_currency
  fq_privacy_acknowledged :: bool

definition set_fiat_settings :: "system_time \<Rightarrow> fiat_request \<Rightarrow> app_db \<Rightarrow> (engine_error, fiat_settings) result \<times> app_db" where
  "set_fiat_settings now req db =
     (if fq_enabled req \<and> \<not> fq_privacy_acknowledged req
      then (Inl (ipc_err EXCHANGE_RATE_PRIVACY_ACK_REQUIRED ''Privacy acknowledgement required to enable fiat display''), db)
      else
        let settings = \<lparr>fs_enabled = fq_enabled req, fs_currency = fq_currency req, fs_privacy_acknowledged = fq_privacy_acknowledged req\<rparr> in
        case system_time_to_unix_ms now of
          Inl e \<Rightarrow> (Inl (ipc_err INTERNAL_ERROR (''time error: '' @ error_text e)), db)
        | Inr ms \<Rightarrow> (Inr settings, upsert_fiat_settings settings ms db))"

definition rate_is_stale :: "system_time \<Rightarrow> 'f exchange_rate \<Rightarrow> bool" where
  "rate_is_stale now r =
     (let now_ms = (if now < 0 then 0 else (now div 1000000 + 2 ^ 63) mod 2 ^ 64 - 2 ^ 63)
      in 15 * 60 * 1000 < sat_sub_i64 now_ms (xr_fetched_at_ms r))"

fun http_error_text :: "http_error \<Rightarrow> string" where
  "http_error_text (DirectTransport e) = e"
| "http_error_text (FailClosed (TorNotReady st le)) = ''tor enabled but not ready (status='' @ tor_status_text st @ '')''"
| "http_error_text (TorTransport e) = ''Tor transport error: '' @ e"
| "http_error_text HttpTimeout = ''Tor request timed out''"
| "http_error_text (InvalidUrl u) = ''invalid url: '' @ u"
| "http_error_text (InvalidBody u) = ''invalid body: '' @ u"

fun rate_error_text :: "rate_error \<Rightarrow> string" where
  "rate_error_text (RateHttp e) = ''HTTP request failed: '' @ http_error_text e"
| "rate_error_text (RateParse e) = ''Failed to parse exchange rate response: '' @ e"
| "rate_error_text (RateLimitedFor n) = ''Rate limited: please wait '' @ show_nat n @ '' seconds''"
| "rate_error_text NotAvailable = ''Exchange rate not available''"

record 'f rate_response =
  rp_rate :: "'f exchange_rate option"
  rp_is_stale :: bool
  rp_fiat_enabled :: bool
  rp_refresh_cooldown_secs :: nat

text \<open>The clocks and the network during one command: the monotonic clock at the start, after the reply, and at the end; the wall clock.\<close>

record ('c, 'j, 'f) rate_env =
  re_http :: "('c, 'j) http_env"
  re_tor :: "'c selector"
  re_decode :: "('j, 'f) rate_decoder"
  re_now :: int
  re_later :: int
  re_wall_ms :: int
  re_wall :: system_time

definition get_exchange_rate :: "('c, 'j, 'f) rate_env \<Rightarrow> bool \<Rightarrow> app_db \<Rightarrow> 'f rate_service
    \<Rightarrow> (ipc_error, 'f rate_response) result \<times> 'f rate_service" where
  "get_exchange_rate re force db s =
     (let settings = get_fiat_settings db; currency = fs_currency settings in
      if \<not> fs_enabled settings
      then (Inr \<lparr>rp_rate = None, rp_is_stale = True, rp_fiat_enabled = False, rp_refresh_cooldown_secs = 0\<rparr>, s)
      else
        let cooldown = refresh_cooldown_secs (re_now re) s mod 2 ^ 32 in
        case (if force then None else Option.bind (get_cached_rate currency s) (\<lambda>r. if rate_is_stale (re_wall re) r then None else Some r)) of
          Some rate \<Rightarrow> (Inr \<lparr>rp_rate = Some rate, rp_is_stale = False, rp_fiat_enabled = True, rp_refresh_cooldown_secs = cooldown\<rparr>, s)
        | None \<Rightarrow>
            (case get_rate (re_http re) (re_tor re) (re_decode re) (re_now re) (re_later re) (re_wall_ms re) currency force s of
               (Inr rate, s1) \<Rightarrow>
                 (Inr \<lparr>rp_rate = Some rate, rp_is_stale = rate_is_stale (re_wall re) rate, rp_fiat_enabled = True,
                    rp_refresh_cooldown_secs = refresh_cooldown_secs (re_later re) s1 mod 2 ^ 32\<rparr>, s1)
             | (Inl (RateLimitedFor n), s1) \<Rightarrow>
                 (let cached = get_cached_rate currency s1
                  in (Inr \<lparr>rp_rate = cached, rp_is_stale = (case cached of None \<Rightarrow> False | Some r \<Rightarrow> rate_is_stale (re_wall re) r), rp_fiat_enabled = True,
                        rp_refresh_cooldown_secs = n mod 2 ^ 32\<rparr>, s1))
             | (Inl e, s1) \<Rightarrow>
                 (case get_cached_rate currency s1 of
                    Some r \<Rightarrow> (Inr \<lparr>rp_rate = Some r, rp_is_stale = True, rp_fiat_enabled = True,
                        rp_refresh_cooldown_secs = refresh_cooldown_secs (re_later re) s1 mod 2 ^ 32\<rparr>, s1)
                  | None \<Rightarrow> (Inl (EXCHANGE_RATE_FETCH_FAILED, ''Failed to fetch exchange rate: '' @ rate_error_text e), s1))))"

text \<open>What \<open>get_rate\<close>, called by this command, puts on the wire.\<close>

definition rate_traffic :: "('c, 'j, 'f) rate_env \<Rightarrow> bool \<Rightarrow> app_db \<Rightarrow> 'f rate_service \<Rightarrow> wire list" where
  "rate_traffic re force db s =
     (let settings = get_fiat_settings db; currency = fs_currency settings in
      if \<not> fs_enabled settings
        \<or> \<not> force \<and> (case get_cached_rate currency s of None \<Rightarrow> False | Some r \<Rightarrow> \<not> rate_is_stale (re_wall re) r \<or> \<not> is_cache_stale (re_now re) s)
      then []
      else case fetch_begin (re_http re) (re_tor re) (re_now re) force s of Inl _ \<Rightarrow> [] | Inr (_, wires, _) \<Rightarrow> wires)"

datatype ('c, 'j, 'f) fiat_cmd = CmdSetFiat system_time fiat_request | CmdGetRate "('c, 'j, 'f) rate_env" bool

fun fiat_exec :: "('c, 'j, 'f) fiat_cmd \<Rightarrow> app_db \<times> 'f rate_service \<Rightarrow> app_db \<times> 'f rate_service" where
  "fiat_exec (CmdSetFiat now req) (db, s) = (snd (set_fiat_settings now req db), s)"
| "fiat_exec (CmdGetRate re force) (db, s) = (db, snd (get_exchange_rate re force db s))"

text \<open>The settings of the last request that was accepted.\<close>

definition accepted_request :: "system_time \<Rightarrow> fiat_request \<Rightarrow> fiat_settings option" where
  "accepted_request now req =
     (if (fq_enabled req \<longrightarrow> fq_privacy_acknowledged req) \<and> 0 \<le> now \<and> now div 1000000 \<le> i64_max
      then Some \<lparr>fs_enabled = fq_enabled req, fs_currency = fq_currency req, fs_privacy_acknowledged = fq_privacy_acknowledged req\<rparr> else None)"

fun accepted :: "('c, 'j, 'f) fiat_cmd \<Rightarrow> fiat_settings option" where
  "accepted (CmdSetFiat now req) = accepted_request now req"
| "accepted (CmdGetRate re force) = None"

primrec chosen_settings :: "fiat_settings \<Rightarrow> ('c, 'j, 'f) fiat_cmd list \<Rightarrow> fiat_settings" where
  "chosen_settings st [] = st"
| "chosen_settings st (c # cs) = chosen_settings (case accepted c of None \<Rightarrow> st | Some st' \<Rightarrow> st') cs"

section \<open>Lemmas\<close>

lemma fiat_settings_eta: "\<lparr>fs_enabled = fs_enabled st, fs_currency = fs_currency st, fs_privacy_acknowledged = fs_privacy_acknowledged st\<rparr> = st"
  by (cases st) simp

lemma upsert_get_fiat [simp]: "get_fiat_settings (upsert_fiat_settings st ms db) = st"
  by (simp add: get_fiat_settings_def upsert_fiat_settings_def fiat_settings_eta sql_bool_def)

lemma set_fiat_accepted: "get_fiat_settings (snd (set_fiat_settings now req db)) = (case accepted_request now req of None \<Rightarrow> get_fiat_settings db | Some st \<Rightarrow> st)"
  by (auto simp: accepted_request_def set_fiat_settings_def system_time_to_unix_ms_def Let_def)

lemma fiat_run:
  "get_fiat_settings (fst (run_ops fiat_exec cs (db, s))) = chosen_settings (get_fiat_settings db) cs"
proof (induction cs arbitrary: db s)
  case (Cons c cs)
  then show ?case by (cases c) (simp_all add: set_fiat_accepted)
qed simp

lemma chosen_consent: "(fs_enabled st \<longrightarrow> fs_privacy_acknowledged st) \<Longrightarrow> fs_enabled (chosen_settings st cs) \<Longrightarrow> fs_privacy_acknowledged (chosen_settings st cs)"
proof (induction cs arbitrary: st)
  case (Cons c cs)
  have "fs_enabled (case accepted c of None \<Rightarrow> st | Some x \<Rightarrow> x) \<longrightarrow> fs_privacy_acknowledged (case accepted c of None \<Rightarrow> st | Some x \<Rightarrow> x)"
    using Cons.prems(1) by (cases c) (auto simp: accepted_request_def)
  from Cons.IH [OF this] show ?case using Cons.prems(2) by simp
qed simp

lemma traffic_enabled: "rate_traffic re force db s \<noteq> [] \<Longrightarrow> fs_enabled (get_fiat_settings db)"
  by (simp add: rate_traffic_def Let_def split: if_splits)

lemma traffic_tor: "tor_required (re_tor re) \<Longrightarrow> \<forall>w \<in> set (rate_traffic re force db s). \<exists>u. w = WireTor u"
  using get_json_tor_wire [of "re_tor re" "re_http re" rate_url]
  by (auto simp: rate_traffic_def fetch_begin_def Let_def split: prod.splits sum.splits if_splits)

section \<open>Usable servers\<close>

text \<open>The default server of a network with a URL that is accepted.\<close>

definition usable :: "wallet_env \<Rightarrow> network \<Rightarrow> app_db \<Rightarrow> bool" where
  "usable env net db \<longleftrightarrow> servers_wf (db_servers db)
     \<and> (\<exists>r \<in> set (db_servers db). s_network r = network_text net \<and> s_is_default r = 1 \<and> url_ok env (s_grpc_url r) = Inr ())"

lemma resolve_default:
  "resolve_grpc_url parse dbg db net None = Inr url \<longleftrightarrow>
     (\<exists>s. find (\<lambda>s. si_network s = net \<and> si_is_default s) (list_servers db) = Some s \<and> validate_grpc_url parse dbg (si_grpc_url s) = Inr () \<and> url = si_grpc_url s)"
proof -
  have map_err_ok: "map_err f r = Inr a \<longleftrightarrow> r = Inr a" for f :: "engine_error \<Rightarrow> engine_error" and r and a :: unit by (cases r) simp_all
  show ?thesis by (cases dbg) (auto simp: resolve_grpc_url_def resolve_grpc_url_with_dev_override_def result_simps map_err_ok)
qed

lemma usable_resolves:
  assumes "usable env net db"
  shows "\<exists>url. resolve_grpc_url (wv_url_parser env) (wv_debug env) db net None = Inr url"
proof -
  obtain r where r: "servers_wf (db_servers db)" "r \<in> set (db_servers db)" "s_network r = network_text net" "s_is_default r = 1" "url_ok env (s_grpc_url r) = Inr ()"
    using assms by (auto simp: usable_def)
  let ?P = "\<lambda>s. si_network s = net \<and> si_is_default s"
  have p: "?P (server_of_row r)" using r(3,4) by simp
  obtain s where s: "find ?P (list_servers db) = Some s"
    using p r(2) by (cases "find ?P (list_servers db)") (auto simp: find_None_iff list_servers_set)
  then obtain r' where r': "r' \<in> set (db_servers db)" "s = server_of_row r'" "?P s" using find_some_in [OF s] by (auto simp: list_servers_set)
  have "s_network r' = s_network r" using servers_wf_network_inj [OF r(1) r'(1) r(2)] r'(2,3) p by simp
  moreover have "s_is_default r' = 1" using servers_wf_flag [OF r(1) r'(1)] r'(2,3) by simp
  ultimately have "r' = r" by (intro servers_wf_one [OF r(1) r'(1) r(2)]) (simp_all add: r(4))
  moreover have "si_grpc_url (server_of_row r) = s_grpc_url r" by (simp add: server_of_row_def)
  ultimately show ?thesis using s r'(2) r(5) by (simp add: resolve_default url_ok_def)
qed

lemma resolves_usable:
  assumes "servers_wf (db_servers db)" "resolve_grpc_url (wv_url_parser env) (wv_debug env) db net None = Inr url"
  shows "usable env net db"
proof -
  obtain s where s: "find (\<lambda>s. si_network s = net \<and> si_is_default s) (list_servers db) = Some s" "url_ok env (si_grpc_url s) = Inr ()"
    using assms(2) by (auto simp: resolve_default url_ok_def)
  then obtain r where r: "r \<in> set (db_servers db)" "s = server_of_row r" "si_network s = net" "si_is_default s"
    using find_some_in [OF s(1)] by (auto simp: list_servers_set)
  have "s_network r \<in> {''Mainnet'', ''Testnet''}" using assms(1) r(1) by (auto simp: servers_wf_def)
  then have "s_network r = network_text net" using r(2,3) by (auto simp: server_of_row_def parse_network_def)
  moreover have "s_is_default r = 1" using servers_wf_flag [OF assms(1) r(1)] r(2,4) by simp
  ultimately show ?thesis using assms(1) r(1,2) s(2) by (auto simp: usable_def server_of_row_def)
qed

lemma add_server_db:
  assumes "add_server env pb sid name url m = (r, m')"
  shows "wm_app_db m' = wm_app_db m \<or> (\<exists>sv t. insert_server sv t (wm_app_db m) = Inr (wm_app_db m') \<and> \<not> si_is_default sv)"
  using assms by (auto simp: add_server_def Let_def bind_se_pair result_step_def sql_step_def split: sum.splits) (metis server_info.select_convs(5))+

lemma insert_usable:
  assumes "usable env net db" "insert_server sv t db = Inr db'" "\<not> si_is_default sv"
  shows "usable env net db'"
proof -
  obtain new where "db_servers db' = db_servers db @ [new]"
    using assms(2) by (auto simp: insert_server_def insert_server_row_def result_simps split: if_splits)
  then show ?thesis using assms(1) insert_server_wf [OF _ assms(2)] by (auto simp: usable_def)
qed

lemma set_default_usable:
  assumes "usable env net db" "set_default_server sid db = Inr db'" "get_server db sid = Some server" "url_ok env (si_grpc_url server) = Inr ()"
  shows "usable env net db'"
proof -
  obtain row where row: "row \<in> set (db_servers db)" "s_id row = sid" "db' = db\<lparr>db_servers := map (flag_default sid (s_network row)) (db_servers db)\<rparr>"
    using set_default_server_rows [OF assms(2)] .
  have wf: "servers_wf (db_servers db)" "servers_wf (db_servers db')" using assms(1) set_default_server_wf [OF _ assms(2)] by (auto simp: usable_def)
  obtain r0 where r0: "r0 \<in> set (db_servers db)" "s_id r0 = sid" "server = server_of_row r0"
    using assms(3) by (auto simp: get_server_def dest: find_some_in)
  have "r0 = row" using servers_wf_id_inj [OF wf(1) r0(1) row(1)] r0(2) row(2) by simp
  then have ok: "url_ok env (s_grpc_url row) = Inr ()" using assms(4) r0(3) by (simp add: server_of_row_def)
  let ?f = "flag_default sid (s_network row)"
  have u: "s_grpc_url (?f r) = s_grpc_url r" for r by (simp add: flag_default_def)
  obtain q where q: "q \<in> set (db_servers db)" "s_network q = network_text net" "s_is_default q = 1" "url_ok env (s_grpc_url q) = Inr ()"
    using assms(1) by (auto simp: usable_def)
  show ?thesis
  proof (cases "s_network row = network_text net")
    case True
    then have "?f row \<in> set (db_servers db') \<and> s_network (?f row) = network_text net \<and> s_is_default (?f row) = 1 \<and> url_ok env (s_grpc_url (?f row)) = Inr ()"
      using row ok u by simp
    then show ?thesis using wf(2) unfolding usable_def by blast
  next
    case False
    then have "?f q \<in> set (db_servers db') \<and> s_network (?f q) = network_text net \<and> s_is_default (?f q) = 1 \<and> url_ok env (s_grpc_url (?f q)) = Inr ()"
      using q row(3) u by simp
    then show ?thesis using wf(2) unfolding usable_def by blast
  qed
qed

lemma touch_usable: "usable env net db \<Longrightarrow> usable env net (update_last_success_at sid t db)"
proof -
  let ?f = "\<lambda>r. if s_id r = sid then r\<lparr>s_last_success_at := Some t\<rparr> else r"
  assume u: "usable env net db"
  then obtain r where r: "r \<in> set (db_servers db)" "s_network r = network_text net" "s_is_default r = 1" "url_ok env (s_grpc_url r) = Inr ()"
    by (auto simp: usable_def)
  have "?f r \<in> set (db_servers (update_last_success_at sid t db)) \<and> s_network (?f r) = network_text net \<and> s_is_default (?f r) = 1 \<and> url_ok env (s_grpc_url (?f r)) = Inr ()"
    using r by (simp add: update_last_success_at_def)
  then show ?thesis using u update_last_success_at_wf [of db sid t] unfolding usable_def by blast
qed

lemma server_exec_usable: "usable env net (wm_app_db m) \<Longrightarrow> usable env net (wm_app_db (server_exec env c m))"
proof (cases c)
  case (CmdAddServer pb sid name url)
  assume u: "usable env net (wm_app_db m)"
  obtain r m' where a: "add_server env pb sid name url m = (r, m')" by fastforce
  show ?thesis using add_server_db [OF a] insert_usable [OF u] u a CmdAddServer by auto
next
  case (CmdSetDefault sid)
  assume u: "usable env net (wm_app_db m)"
  then show ?thesis using set_default_usable [OF u]
    by (auto simp: CmdSetDefault app_set_default_server_def bind_se_pair result_step_def sql_step_def split: sum.splits)
next
  case (CmdTestServer pb elapsed sid)
  assume u: "usable env net (wm_app_db m)"
  then show ?thesis
    by (auto simp: CmdTestServer test_server_def bind_se_pair result_step_def Let_def touch_usable split: sum.splits)
qed

section \<open>Properties\<close>

text \<open>C25: The server commands never leave a network without an endpoint.  When the resolver finds an endpoint for a network, it still finds one after any sequence
  of added servers, changes of the default and server tests, with any replies of the servers: a server is added without being the default, and the default
  only moves to a stored server whose URL is valid.\<close>

theorem endpoint_survives_server_commands:
  assumes "servers_wf (db_servers (wm_app_db m))" and "resolve_grpc_url (wv_url_parser env) (wv_debug env) (wm_app_db m) net None = Inr url"
  shows "\<exists>url'. resolve_grpc_url (wv_url_parser env) (wv_debug env) (wm_app_db (run_ops (server_exec env) cs m)) net None = Inr url'"
proof -
  have "usable env net (wm_app_db (run_ops (server_exec env) cs m))"
    by (rule run_ops_invariant [where I = "\<lambda>m. usable env net (wm_app_db m)"]) (auto intro: server_exec_usable resolves_usable [OF assms])
  then show ?thesis by (rule usable_resolves)
qed

definition demo_probe :: "(string, unit) probe_env" where
  "demo_probe = \<lparr>pb_grpc = demo_grpc, pb_tor_info = None, pb_tor_mempool = None, pb_info = (\<lambda>_. Inr ''main''), pb_mempool = (\<lambda>_. StreamOpened), pb_timeout = None\<rparr>"

theorem endpoint_survives_server_commands_witness:
  "\<exists>url. resolve_grpc_url demo_url_parser False
     (wm_app_db (run_ops (server_exec demo_wallet_env) [CmdAddServer demo_probe ''3'' ''c'' ''https://c'', CmdSetDefault ''3''] (demo_manager\<lparr>wm_app_db := demo_db\<rparr>))) Mainnet None = Inr url"
proof -
  have wf: "servers_wf (db_servers (wm_app_db (demo_manager\<lparr>wm_app_db := demo_db\<rparr>)))" by (simp add: demo_db_def servers_wf_def)
  have "resolve_grpc_url demo_url_parser False demo_db Mainnet None = Inr ''https://a''" by code_simp
  then have r: "resolve_grpc_url (wv_url_parser demo_wallet_env) (wv_debug demo_wallet_env) (wm_app_db (demo_manager\<lparr>wm_app_db := demo_db\<rparr>)) Mainnet None = Inr ''https://a''"
    by (simp add: demo_wallet_env_def)
  show ?thesis using endpoint_survives_server_commands [OF wf r, of "[CmdAddServer demo_probe ''3'' ''c'' ''https://c'', CmdSetDefault ''3'']"]
    by (simp add: demo_wallet_env_def)
qed

text \<open>No exchange-rate request leaves the wallet before the user has acknowledged the privacy notice.  From a database without fiat settings, after any sequence
  of commands that set the fiat display or ask for a rate, the stored settings are those of the last accepted request; and a command that asks for a rate puts something
  on the wire only when these settings enable the display, which they do only with the acknowledgement, and then, with Tor enabled, only Tor requests.\<close>

theorem rate_requests_need_consent:
  assumes "db_fiat db = None" and "run_ops fiat_exec cs (db, s) = (db', s')"
  shows "get_fiat_settings db' = chosen_settings \<lparr>fs_enabled = False, fs_currency = USD, fs_privacy_acknowledged = False\<rparr> cs
     \<and> (rate_traffic re force db' s' \<noteq> [] \<longrightarrow> fs_enabled (get_fiat_settings db') \<and> fs_privacy_acknowledged (get_fiat_settings db'))
     \<and> (tor_required (re_tor re) \<longrightarrow> (\<forall>w \<in> set (rate_traffic re force db' s'). \<exists>u. w = WireTor u))"
proof -
  have c: "get_fiat_settings db' = chosen_settings \<lparr>fs_enabled = False, fs_currency = USD, fs_privacy_acknowledged = False\<rparr> cs"
    using fiat_run [of cs db s] assms by (simp add: get_fiat_settings_def)
  have "fs_privacy_acknowledged (get_fiat_settings db')" if "fs_enabled (get_fiat_settings db')"
    unfolding c by (rule chosen_consent) (use that c in simp_all)
  then show ?thesis using c traffic_enabled [of re force db' s'] traffic_tor [of re force db' s'] by blast
qed

definition demo_fiat_cmds :: "(string, unit, int) fiat_cmd list" where
  "demo_fiat_cmds = [CmdSetFiat 0 \<lparr>fq_enabled = True, fq_currency = EUR, fq_privacy_acknowledged = False\<rparr>,
     CmdSetFiat 0 \<lparr>fq_enabled = True, fq_currency = CHF, fq_privacy_acknowledged = True\<rparr>]"

definition demo_rate_env :: "(string, unit, int) rate_env" where
  "demo_rate_env = \<lparr>re_http = demo_rate_http, re_tor = None, re_decode = (\<lambda>_. Inr None), re_now = 0, re_later = 0, re_wall_ms = 0, re_wall = 0\<rparr>"

theorem rate_requests_need_consent_witness:
  "\<exists>db'. run_ops fiat_exec demo_fiat_cmds (demo_db, rate_service_new) = (db', rate_service_new)
     \<and> rate_traffic demo_rate_env False db' (rate_service_new :: int rate_service) \<noteq> [] \<and> rate_traffic demo_rate_env False demo_db (rate_service_new :: int rate_service) = []
     \<and> fs_currency (get_fiat_settings db') = CHF \<and> fs_privacy_acknowledged (get_fiat_settings db')"
proof -
  have d: "db_fiat demo_db = None" by (simp add: demo_db_def)
  obtain db' where r: "run_ops fiat_exec demo_fiat_cmds (demo_db, rate_service_new) = (db', rate_service_new)"
    by (simp add: demo_fiat_cmds_def)
  note p = rate_requests_need_consent [OF d r, of demo_rate_env False]
  have c: "get_fiat_settings db' = \<lparr>fs_enabled = True, fs_currency = CHF, fs_privacy_acknowledged = True\<rparr>"
    using p by (simp add: demo_fiat_cmds_def accepted_request_def i64_max_def)
  have t: "rate_traffic demo_rate_env False db' (rate_service_new :: int rate_service) \<noteq> []"
    by (simp add: rate_traffic_def c fetch_begin_def demo_rate_env_def rate_service_new_def refresh_cooldown_secs_def get_cached_rate_def get_json_def demo_rate_http_def select_def)
  have "rate_traffic demo_rate_env False demo_db (rate_service_new :: int rate_service) = []"
    by (simp add: rate_traffic_def get_fiat_settings_def d)
  then show ?thesis using r t c by (intro exI [of _ db']) simp
qed

end
