(* ===== verification/Cli_Server.thy ===== *)
theory Cli_Server
  imports Cli App_Settings
begin

text \<open>
  The server commands of the command line client, \<open>apps/zbag-cli/src/commands/server.rs\<close>: listing, adding, choosing and testing servers.  The probe is that of
  \<open>App_Settings\<close>, here always over a direct connection and without a time limit.  The theorem compares the commands with those of the desktop application.
\<close>

section \<open>Servers\<close>

definition cli_probe :: "('c, 'h) probe_env \<Rightarrow> string \<Rightarrow> (engine_error, string) result \<times> wire list" where
  "cli_probe pb url = probe_server (pb\<lparr>pb_tor_info := None, pb_tor_mempool := None\<rparr>) \<lparr>gc_endpoint = url, gc_direct_channel = None\<rparr>"

definition cli_parse_network :: "string \<Rightarrow> (engine_error, network) result" where
  "cli_parse_network chain_name =
     (let name = to_lowercase (trim chain_name) in
      if name = ''main'' \<or> name = ''mainnet'' then Inr Mainnet
      else if name = ''test'' \<or> name = ''testnet'' then Inr Testnet
      else Inl (msg_err (''unsupported chain_name: '' @ name)))"

text \<open>\<open>parse_uuid\<close> is the parser of the uuid crate.\<close>

definition parse_server_id :: "(string \<Rightarrow> uuid option) \<Rightarrow> app_db \<Rightarrow> string \<Rightarrow> (engine_error, uuid) result" where
  "parse_server_id parse_uuid db id_str =
     (case parse_uuid id_str of
        Some sid \<Rightarrow> Inr sid
      | None \<Rightarrow>
          (case filter (\<lambda>s. take (length id_str) (to_lowercase (si_id s)) = to_lowercase id_str) (list_servers db) of
             [] \<Rightarrow> Inl (msg_err (''server not found: '' @ id_str))
           | [s] \<Rightarrow> Inr (si_id s)
           | ss \<Rightarrow> Inl (msg_err (''ambiguous server ID prefix '' @ id_str @ '' matches '' @ show_nat (length ss) @ '' servers''))))"

datatype server_report =
    RServers "server_info list"
  | RAdded server_info nat
  | RDefault server_info
  | RTested server_info bool "nat option" "string option"

definition cli_list_servers :: "('p, 'q) cli_env \<Rightarrow> ('p, 'q, 'c) cli_state \<Rightarrow> ('p, 'q, 'c, server_report) cli_result" where
  "cli_list_servers env st = bind_se (cli_app_state_new env False st) (\<lambda>_ st1. (Inr (RServers (list_servers (wm_app_db (cs_manager st1)))), st1))"

text \<open>\<open>latency\<close> is the duration of the probe.\<close>

definition cli_add_server :: "('p, 'q) cli_env \<Rightarrow> ('d, 'h) probe_env \<Rightarrow> nat \<Rightarrow> uuid \<Rightarrow> string \<Rightarrow> string \<Rightarrow> ('p, 'q, 'c) cli_state \<Rightarrow> ('p, 'q, 'c, server_report) cli_result" where
  "cli_add_server env pb latency sid raw_name raw_url st =
     (let name = trim raw_name; url = trim raw_url; w = cv_at env AtUse in
      bind_se (guard_or (name \<noteq> []) (msg_err ''server name is required''), st) (\<lambda>_ st0.
      bind_se (guard_or (url \<noteq> []) (msg_err ''gRPC URL is required''), st0) (\<lambda>_ st1.
      bind_se (url_ok w url, st1) (\<lambda>_ st2.
      bind_se (cli_app_state_new env False st2) (\<lambda>_ st3.
      bind_se (map_err (\<lambda>e. msg_err (''server probe failed: '' @ error_text e)) (fst (cli_probe pb url)), st3) (\<lambda>chain st4.
      bind_se (cli_parse_network chain, st4) (\<lambda>net st5.
      let server = \<lparr>si_id = sid, si_name = name, si_grpc_url = url, si_network = net, si_is_default = False, si_last_success_at = Some (wv_now_ms w), si_validation_error = None\<rparr>
      in bind_se (manager_step (sql_step (insert_server server (wv_now_ms w))) st5) (\<lambda>_ st6. (Inr (RAdded server latency), st6)))))))))"

definition find_server :: "(string \<Rightarrow> uuid option) \<Rightarrow> string \<Rightarrow> ('p, 'q, 'c) cli_state \<Rightarrow> (engine_error, uuid \<times> server_info) result" where
  "find_server parse_uuid id_str st =
     bind_result (parse_server_id parse_uuid (wm_app_db (cs_manager st)) id_str) (\<lambda>sid.
     bind_result (ok_or (get_server (wm_app_db (cs_manager st)) sid) (msg_err (''server not found: '' @ id_str))) (\<lambda>server. Inr (sid, server)))"

definition cli_set_default_server :: "('p, 'q) cli_env \<Rightarrow> (string \<Rightarrow> uuid option) \<Rightarrow> string \<Rightarrow> ('p, 'q, 'c) cli_state \<Rightarrow> ('p, 'q, 'c, server_report) cli_result" where
  "cli_set_default_server env parse_uuid id_str st =
     bind_se (cli_app_state_new env False st) (\<lambda>_ st1.
     bind_se (find_server parse_uuid id_str st1, st1) (\<lambda>(sid, server) st2.
     bind_se (url_ok (cv_at env AtUse) (si_grpc_url server), st2) (\<lambda>_ st3.
     bind_se (manager_step (sql_step (set_default_server sid)) st3) (\<lambda>_ st4. (Inr (RDefault server), st4)))))"

definition cli_test_server :: "('p, 'q) cli_env \<Rightarrow> ('d, 'h) probe_env \<Rightarrow> nat \<Rightarrow> (string \<Rightarrow> uuid option) \<Rightarrow> string \<Rightarrow> ('p, 'q, 'c) cli_state \<Rightarrow> ('p, 'q, 'c, server_report) cli_result" where
  "cli_test_server env pb latency parse_uuid id_str st =
     bind_se (cli_app_state_new env False st) (\<lambda>_ st1.
     bind_se (find_server parse_uuid id_str st1, st1) (\<lambda>(_, server) st2.
     case url_ok (cv_at env AtUse) (si_grpc_url server) of
       Inl err \<Rightarrow> (Inr (RTested server False None (Some (''stored server configuration is invalid: '' @ validation_message err))), st2)
     | Inr _ \<Rightarrow>
         (case fst (cli_probe pb (si_grpc_url server)) of
            Inl err \<Rightarrow> (Inr (RTested server False (Some latency) (Some (error_text err))), st2)
          | Inr chain \<Rightarrow>
              bind_se (cli_parse_network chain, st2) (\<lambda>net st3.
              if net \<noteq> si_network server then (Inr (RTested server False (Some latency) (Some ''server network mismatch'')), st3)
              else
                let m = cs_manager st3
                in (Inr (RTested server True (Some latency) None),
                    st3\<lparr>cs_manager := m\<lparr>wm_app_db := update_last_success_at (si_id server) (wv_now_ms (cv_at env AtUse)) (wm_app_db m)\<rparr>\<rparr>)))))"

section \<open>The same commands in the application\<close>

text \<open>Two outcomes agree when both operations fail, or both succeed with related results, and the database is the same afterwards.\<close>

definition agree :: "('a \<Rightarrow> 'b \<Rightarrow> bool) \<Rightarrow> (engine_error, 'a) result \<times> ('p, 'q) wallet_manager \<Rightarrow> ('p, 'q, 'c, 'b) cli_result \<Rightarrow> bool" where
  "agree R x y \<longleftrightarrow> wm_app_db (snd x) = wm_app_db (cs_manager (snd y))
     \<and> (case (fst x, fst y) of (Inl _, Inl _) \<Rightarrow> True | (Inr a, Inr b) \<Rightarrow> R a b | _ \<Rightarrow> False)"

lemma agree_guard:
  assumes "is_ok r = is_ok r'" and "wm_app_db m = wm_app_db (cs_manager st)" and "\<And>a b. r = Inr a \<Longrightarrow> r' = Inr b \<Longrightarrow> agree R (f a m) (g b st)"
  shows "agree R (bind_se (result_step r m) f) (bind_se (r', st) g)"
  using assms by (cases r; cases r') (auto simp: agree_def result_step_def)

lemma agree_sql:
  assumes "wm_app_db m = wm_app_db (cs_manager st)" and "\<And>a m' st'. wm_app_db m' = wm_app_db (cs_manager st') \<Longrightarrow> agree R (f a m') (g a st')"
  shows "agree R (bind_se (sql_step h m) f) (bind_se (manager_step (sql_step h) st) g)"
proof (cases "h (wm_app_db m)")
  case (Inl e)
  then show ?thesis using assms(1) by (simp add: sql_step_def manager_step_def agree_def)
next
  case (Inr db)
  have "agree R (f () (m\<lparr>wm_app_db := db\<rparr>)) (g () (st\<lparr>cs_manager := (cs_manager st)\<lparr>wm_app_db := db\<rparr>\<rparr>))" by (rule assms(2)) simp
  then show ?thesis using Inr assms(1) by (simp add: sql_step_def manager_step_def)
qed

lemma is_ok_simps [simp]: "is_ok (map_err h r) = is_ok r"
  by (cases r) simp_all

lemma network_agrees: "is_ok (cli_parse_network c) = is_ok (parse_chain_network c)" "cli_parse_network c = Inr x \<Longrightarrow> parse_chain_network c = Inr x"
  by (auto simp: cli_parse_network_def parse_chain_network_def Let_def split: if_splits)

lemma probe_agrees:
  assumes "pb_timeout pb = None" and "pb_tor_info pb = None" and "pb_tor_mempool pb = None"
  shows "fst (cli_probe pb url) = fst (probe_chain_name_with_timeout pb url)"
proof -
  have "pb\<lparr>pb_tor_info := None, pb_tor_mempool := None\<rparr> = pb" using assms by (cases pb) simp
  then show ?thesis using assms(1) by (simp add: cli_probe_def probe_chain_name_with_timeout_def split: prod.splits)
qed

lemma get_server_id: "get_server db sid = Some s \<Longrightarrow> si_id s = sid"
  by (auto simp: get_server_def server_of_row_def find_Some_iff)

lemma add_agrees:
  assumes w: "cv_at env AtUse = w" and new: "cli_app_state_new env False st = (Inr (), st1)" and clock: "system_time_to_unix_ms (wv_now w) = Inr (wv_now_ms w)"
    and pb: "pb_timeout pb = None" "pb_tor_info pb = None" "pb_tor_mempool pb = None"
  shows "agree (\<lambda>s r. r = RAdded s latency) (add_server w pb sid name url (cs_manager st1)) (cli_add_server env pb latency sid name url st)"
proof -
  note db = new_state_ok(1)[OF new]
  note defs = add_server_def cli_add_server_def Let_def w guard_or_def result_step_def
  define row where "row net = \<lparr>si_id = sid, si_name = trim name, si_grpc_url = trim url, si_network = net, si_is_default = False, si_last_success_at = Some (wv_now_ms w), si_validation_error = None\<rparr>" for net
  show ?thesis
  proof (cases "trim name = [] \<or> trim url = []")
    case True
    then show ?thesis using db by (auto simp: defs agree_def)
  next
    case names: False
    show ?thesis
    proof (cases "url_ok w (trim url)")
      case (Inl e)
      then show ?thesis using names db by (simp add: defs agree_def)
    next
      case url: (Inr u)
      show ?thesis
      proof (cases "fst (probe_chain_name_with_timeout pb (trim url))")
        case (Inl e)
        then show ?thesis using names url db by (simp add: defs new agree_def probe_agrees[OF pb])
      next
        case (Inr chain)
        have "agree (\<lambda>s r. r = RAdded s latency)
          (bind_se (result_step (parse_chain_network chain) (cs_manager st1)) (\<lambda>net m. bind_se (sql_step (insert_server (row net) (wv_now_ms w)) m) (\<lambda>_ m'. (Inr (row net), m'))))
          (bind_se (cli_parse_network chain, st1) (\<lambda>net st. bind_se (manager_step (sql_step (insert_server (row net) (wv_now_ms w))) st) (\<lambda>_ st'. (Inr (RAdded (row net) latency), st'))))"
        proof (rule agree_guard)
          fix a b assume "parse_chain_network chain = Inr a" "cli_parse_network chain = Inr b"
          then have ab: "a = b" using network_agrees(2) by fastforce
          show "agree (\<lambda>s r. r = RAdded s latency)
             (bind_se (sql_step (insert_server (row a) (wv_now_ms w)) (cs_manager st1)) (\<lambda>_ m'. (Inr (row a), m')))
             (bind_se (manager_step (sql_step (insert_server (row b) (wv_now_ms w))) st1) (\<lambda>_ st'. (Inr (RAdded (row b) latency), st')))"
            unfolding ab by (rule agree_sql) (simp_all add: agree_def)
        qed (simp_all add: network_agrees)
        then show ?thesis using names url Inr by (simp add: defs new probe_agrees[OF pb] clock row_def)
      qed
    qed
  qed
qed

lemma default_agrees:
  assumes w: "cv_at env AtUse = w" and new: "cli_app_state_new env False st = (Inr (), st1)" and id: "parse_server_id parse_uuid (wm_app_db (cs_manager st)) id_str = Inr sid"
  shows "agree (\<lambda>_ r. \<exists>s. r = RDefault s \<and> si_id s = sid) (app_set_default_server w sid (cs_manager st1)) (cli_set_default_server env parse_uuid id_str st)"
proof -
  note n = new_state_ok(1,4)[OF new]
  note defs = app_set_default_server_def cli_set_default_server_def find_server_def w result_step_def new id n ensure_server_network_matches_active_wallet_def
  show ?thesis
  proof (cases "get_server (wm_app_db (cs_manager st)) sid")
    case None
    then show ?thesis by (simp add: defs agree_def)
  next
    case (Some s)
    show ?thesis
    proof (cases "url_ok w (si_grpc_url s)")
      case (Inl e)
      then show ?thesis using Some by (simp add: defs agree_def)
    next
      case (Inr u)
      then show ?thesis using Some get_server_id[OF Some] by (cases "set_default_server sid (wm_app_db (cs_manager st))") (simp_all add: defs agree_def sql_step_def manager_step_def)
    qed
  qed
qed

lemma test_agrees:
  assumes w: "cv_at env AtUse = w" and new: "cli_app_state_new env False st = (Inr (), st1)" and clock: "system_time_to_unix_ms (wv_now w) = Inr (wv_now_ms w)"
    and pb: "pb_timeout pb = None" "pb_tor_info pb = None" "pb_tor_mempool pb = None" and lat: "latency \<le> u64_max"
    and id: "parse_server_id parse_uuid (wm_app_db (cs_manager st)) id_str = Inr sid"
  shows "agree (\<lambda>t r. \<exists>s. r = RTested s (te_success t) (te_latency_ms t) (te_error t) \<and> si_id s = sid) (test_server w pb latency sid (cs_manager st1)) (cli_test_server env pb latency parse_uuid id_str st)"
proof -
  note n = new_state_ok(1)[OF new]
  note defs = test_server_def cli_test_server_def find_server_def w result_step_def new id n lat clock Let_def probe_agrees[OF pb]
  show ?thesis
  proof (cases "get_server (wm_app_db (cs_manager st)) sid")
    case None
    then show ?thesis by (simp add: defs agree_def)
  next
    case (Some s)
    note id_s = get_server_id[OF Some]
    show ?thesis
    proof (cases "url_ok w (si_grpc_url s)")
      case (Inl e)
      then show ?thesis using Some id_s by (simp add: defs agree_def)
    next
      case url: (Inr u)
      show ?thesis
      proof (cases "fst (probe_chain_name_with_timeout pb (si_grpc_url s))")
        case (Inl e)
        then show ?thesis using Some url id_s by (simp add: defs agree_def)
      next
        case (Inr chain)
        have "is_ok (cli_parse_network chain) = is_ok (parse_chain_network chain)" by (rule network_agrees)
        then show ?thesis using Some url id_s Inr network_agrees(2)[of chain]
          by (cases "parse_chain_network chain"; cases "cli_parse_network chain") (auto simp: defs agree_def)
      qed
    qed
  qed
qed



end
