(* ===== verification/Cli_Bench.thy ===== *)
theory Cli_Bench
  imports Server_Endpoint
begin

text \<open>
  The benchmark of the command line client, \<open>benchmark_fetch\<close> of \<open>apps/zbag-cli/src/commands/server.rs\<close>: it downloads a range of blocks in batches of several
  sizes and degrees of parallelism and reports the fastest combination.  The order in which concurrent downloads end, the answers of the server and the floating-point
  rates are parameters.  The theorem: a run ends, and requests every block of its range exactly once, with no more downloads at a time than allowed.
\<close>

section \<open>Downloading a batch\<close>

record batch_fetch_result =
  bf_requested_blocks :: nat
  bf_returned_blocks :: nat
  bf_bytes :: nat
  bf_retries_used :: nat

text \<open>An attempt ends with the sizes of the blocks received, with an error, or at the time limit.\<close>

datatype attempt = Received "nat list" | AttemptError engine_error | AttemptTimeout

definition fetch_batch_once :: "nat list \<Rightarrow> nat \<Rightarrow> nat \<Rightarrow> batch_fetch_result" where
  "fetch_batch_once sizes start end_excl =
     \<lparr>bf_requested_blocks = end_excl - start, bf_returned_blocks = fold (\<lambda>_ n. sat_add_u64 n 1) sizes 0,
      bf_bytes = fold (\<lambda>s b. sat_add_u64 b s) sizes 0, bf_retries_used = 0\<rparr>"

definition retry_backoff_ms :: "nat \<Rightarrow> nat" where
  "retry_backoff_ms attempt = min (250 * 2 ^ min attempt 6) 4000"

text \<open>The attempts from number \<open>attempt\<close> on, \<open>left\<close> of them retries, with the delays between them.\<close>

fun fetch_attempts :: "(nat \<Rightarrow> attempt) \<Rightarrow> nat \<Rightarrow> nat \<Rightarrow> nat \<Rightarrow> nat \<Rightarrow> (engine_error, batch_fetch_result) result \<times> nat list" where
  "fetch_attempts net start end_excl attempt 0 =
     (case net attempt of
        Received sizes \<Rightarrow> (Inr ((fetch_batch_once sizes start end_excl)\<lparr>bf_retries_used := attempt\<rparr>), [])
      | AttemptError e \<Rightarrow> (Inl (with_context (''batch '' @ show_nat start @ ''..'' @ show_nat end_excl @ '' failed after '' @ show_nat (attempt + 1) @ '' attempts'') e), [])
      | AttemptTimeout \<Rightarrow> (Inl (msg_err (''batch '' @ show_nat start @ ''..'' @ show_nat end_excl @ '' timed out after '' @ show_nat (attempt + 1) @ '' attempts'')), []))"
| "fetch_attempts net start end_excl attempt (Suc left) =
     (case net attempt of
        Received sizes \<Rightarrow> (Inr ((fetch_batch_once sizes start end_excl)\<lparr>bf_retries_used := attempt\<rparr>), [])
      | _ \<Rightarrow> (let (r, delays) = fetch_attempts net start end_excl (attempt + 1) left in (r, retry_backoff_ms (attempt + 1) # delays)))"

definition fetch_batch_with_retry :: "(nat \<Rightarrow> attempt) \<Rightarrow> nat \<Rightarrow> nat \<Rightarrow> nat \<Rightarrow> (engine_error, batch_fetch_result) result \<times> nat list" where
  "fetch_batch_with_retry net start end_excl max_retries =
     (if end_excl \<le> start then (Inr \<lparr>bf_requested_blocks = 0, bf_returned_blocks = 0, bf_bytes = 0, bf_retries_used = 0\<rparr>, [])
      else fetch_attempts net start end_excl 0 max_retries)"

section \<open>A run of the benchmark\<close>

record profile_params =
  fp_start :: nat
  fp_end_excl :: nat
  fp_batch_size :: nat
  fp_parallelism :: nat
  fp_retries :: nat
  fp_run :: nat

text \<open>\<open>fs_flight\<close>: the batches in the join set; \<open>fs_ranges\<close> and \<open>fs_peak\<close> record what was requested and how many downloads ran at once.\<close>

record fetch_state =
  fs_next_height :: nat
  fs_flight :: "(nat \<times> nat) list"
  fs_batches :: nat
  fs_requested_blocks :: nat
  fs_returned_blocks :: nat
  fs_bytes :: nat
  fs_retries_used :: nat
  fs_ranges :: "(nat \<times> nat) list"
  fs_peak :: nat

definition spawn_batch :: "profile_params \<Rightarrow> fetch_state \<Rightarrow> fetch_state" where
  "spawn_batch p s =
     (let batch_start = fs_next_height s;
          batch_end = min (sat_add_u32 batch_start (fp_batch_size p)) (fp_end_excl p)
      in s\<lparr>fs_next_height := batch_end, fs_batches := sat_add_u32 (fs_batches s) 1, fs_flight := fs_flight s @ [(batch_start, batch_end)],
           fs_ranges := fs_ranges s @ [(batch_start, batch_end)], fs_peak := max (fs_peak s) (length (fs_flight s) + 1)\<rparr>)"

text \<open>The inner loop, with room for \<open>n\<close> more downloads.\<close>

fun spawn_batches :: "profile_params \<Rightarrow> nat \<Rightarrow> fetch_state \<Rightarrow> fetch_state" where
  "spawn_batches p 0 s = s"
| "spawn_batches p (Suc n) s = (if fs_next_height s < fp_end_excl p then spawn_batches p n (spawn_batch p s) else s)"

definition add_batch :: "batch_fetch_result \<Rightarrow> fetch_state \<Rightarrow> fetch_state" where
  "add_batch b s = s\<lparr>fs_requested_blocks := sat_add_u64 (fs_requested_blocks s) (bf_requested_blocks b), fs_returned_blocks := sat_add_u64 (fs_returned_blocks s) (bf_returned_blocks b),
     fs_bytes := sat_add_u64 (fs_bytes s) (bf_bytes b), fs_retries_used := sat_add_u32 (fs_retries_used s) (bf_retries_used b)\<rparr>"

text \<open>\<open>pick\<close> chooses the download that ends next; \<open>net\<close> gives the attempts of each batch.\<close>

partial_function (option) fetch_loop :: "((nat \<times> nat) list \<Rightarrow> nat) \<Rightarrow> (nat \<times> nat \<Rightarrow> nat \<Rightarrow> attempt) \<Rightarrow> profile_params \<Rightarrow> fetch_state \<Rightarrow> ((engine_error, fetch_state) result) option" where
  "fetch_loop pick net p s =
     (if fs_next_height s < fp_end_excl p \<or> fs_flight s \<noteq> [] then
        (let s1 = spawn_batches p (fp_parallelism p - length (fs_flight s)) s in
         if fs_flight s1 = [] then Some (Inr s1)
         else
           let i = pick (fs_flight s1) mod length (fs_flight s1); (b_start, b_end) = fs_flight s1 ! i;
               s2 = s1\<lparr>fs_flight := take i (fs_flight s1) @ drop (Suc i) (fs_flight s1)\<rparr>
           in case fst (fetch_batch_with_retry (net (b_start, b_end)) b_start b_end (fp_retries p)) of
                Inl e \<Rightarrow> Some (Inl e)
              | Inr b \<Rightarrow> fetch_loop pick net p (add_batch b s2))
      else Some (Inr s))"

definition run_fetch_profile :: "((nat \<times> nat) list \<Rightarrow> nat) \<Rightarrow> (nat \<times> nat \<Rightarrow> nat \<Rightarrow> attempt) \<Rightarrow> profile_params \<Rightarrow> ((engine_error, fetch_state) result) option" where
  "run_fetch_profile pick net p =
     fetch_loop pick net p \<lparr>fs_next_height = fp_start p, fs_flight = [], fs_batches = 0, fs_requested_blocks = 0, fs_returned_blocks = 0, fs_bytes = 0, fs_retries_used = 0,
       fs_ranges = [], fs_peak = 0\<rparr>"

section \<open>The benchmark\<close>

definition normalize_candidates :: "string \<Rightarrow> nat list \<Rightarrow> (engine_error, nat list) result" where
  "normalize_candidates field values =
     (if 0 \<in> set values then Inl (msg_err (field @ '' entries must be > 0''))
      else if values = [] then Inl (msg_err (field @ '' must contain at least one value''))
      else Inr (sort (remdups values)))"

record fetch_bench_config =
  fc_url :: string
  fc_start_height :: "nat option"
  fc_end_height :: "nat option"
  fc_sample_blocks :: nat
  fc_batch_sizes :: "nat list"
  fc_parallelism :: "nat list"
  fc_repeats :: nat
  fc_retries :: nat
  fc_timeout_secs :: nat

text \<open>\<open>be_rate\<close> is the number of blocks per second of a run, \<open>be_average\<close> the mean, \<open>be_less\<close> the total order of floating-point numbers.\<close>

record 'f bench_env =
  be_url_parser :: url_parser
  be_debug :: bool
  be_tip :: "(engine_error, nat) result"
  be_pick :: "nat \<times> nat \<times> nat \<Rightarrow> (nat \<times> nat) list \<Rightarrow> nat"
  be_net :: "nat \<times> nat \<times> nat \<Rightarrow> nat \<times> nat \<Rightarrow> nat \<Rightarrow> attempt"
  be_rate :: "nat \<times> nat \<times> nat \<Rightarrow> fetch_state \<Rightarrow> 'f"
  be_average :: "'f list \<Rightarrow> 'f"
  be_less :: "'f \<Rightarrow> 'f \<Rightarrow> bool"

record 'f profile_result =
  pr_batch_size :: nat
  pr_parallelism :: nat
  pr_successful_runs :: nat
  pr_failed_runs :: nat
  pr_avg_blocks_per_sec :: 'f
  pr_runs :: "fetch_state list"
  pr_last_error :: "engine_error option"

definition bench_range :: "fetch_bench_config \<Rightarrow> nat \<Rightarrow> (engine_error, nat \<times> nat) result" where
  "bench_range c tip =
     (let tip_plus_one = sat_add_u32 tip 1;
          end_excl = min (case fc_end_height c of None \<Rightarrow> tip_plus_one | Some e \<Rightarrow> e) tip_plus_one;
          start = (case fc_start_height c of None \<Rightarrow> end_excl - fc_sample_blocks c | Some s \<Rightarrow> s)
      in if end_excl \<le> start
         then Inl (msg_err (''invalid range: start_height ('' @ show_nat start @ '') must be less than end_height ('' @ show_nat end_excl @ '')''))
         else Inr (start, end_excl))"

text \<open>The runs of one profile; a run that does not end makes the benchmark not end.\<close>

fun bench_runs :: "'f bench_env \<Rightarrow> profile_params \<Rightarrow> nat list \<Rightarrow> ((engine_error, fetch_state) result list) option" where
  "bench_runs env p [] = Some []"
| "bench_runs env p (k # ks) =
     (let pt = (fp_batch_size p, fp_parallelism p, k) in
      case run_fetch_profile (be_pick env pt) (be_net env pt) (p\<lparr>fp_run := k\<rparr>) of
        None \<Rightarrow> None
      | Some r \<Rightarrow> map_option (\<lambda>rs. r # rs) (bench_runs env p ks))"

definition profile_of_runs :: "'f bench_env \<Rightarrow> profile_params \<Rightarrow> (engine_error, fetch_state) result list \<Rightarrow> 'f profile_result" where
  "profile_of_runs env p rs =
     (let numbered = zip [1..<Suc (length rs)] rs;
          oks = [(k, s). (k, Inr s) \<leftarrow> numbered]; errs = [e. Inl e \<leftarrow> rs]
      in \<lparr>pr_batch_size = fp_batch_size p, pr_parallelism = fp_parallelism p, pr_successful_runs = length oks mod 2 ^ 32, pr_failed_runs = min u32_max (length errs),
          pr_avg_blocks_per_sec = be_average env (map (\<lambda>(k, s). be_rate env (fp_batch_size p, fp_parallelism p, k) s) oks),
          pr_runs = map snd oks, pr_last_error = (if errs = [] then None else Some (last errs))\<rparr>)"

fun bench_profiles :: "'f bench_env \<Rightarrow> profile_params \<Rightarrow> nat \<Rightarrow> (nat \<times> nat) list \<Rightarrow> ('f profile_result list) option" where
  "bench_profiles env p repeats [] = Some []"
| "bench_profiles env p repeats ((batch_size, parallel) # cs) =
     (let q = p\<lparr>fp_batch_size := batch_size, fp_parallelism := parallel\<rparr> in
      case bench_runs env q [1..<Suc repeats] of
        None \<Rightarrow> None
      | Some rs \<Rightarrow> map_option (\<lambda>ps. profile_of_runs env q rs # ps) (bench_profiles env p repeats cs))"

text \<open>\<open>max_by\<close> keeps the last of several greatest elements: the other profile replaces the best so far unless it is smaller.\<close>

definition profile_less :: "'f bench_env \<Rightarrow> 'f profile_result \<Rightarrow> 'f profile_result \<Rightarrow> bool" where
  "profile_less env a b \<longleftrightarrow> be_less env (pr_avg_blocks_per_sec a) (pr_avg_blocks_per_sec b)
     \<or> (\<not> be_less env (pr_avg_blocks_per_sec b) (pr_avg_blocks_per_sec a) \<and> pr_failed_runs b < pr_failed_runs a)"

definition best_profile :: "'f bench_env \<Rightarrow> 'f profile_result list \<Rightarrow> 'f profile_result option" where
  "best_profile env ps = fold (\<lambda>p best. case best of None \<Rightarrow> Some p | Some b \<Rightarrow> if profile_less env p b then Some b else Some p)
     (filter (\<lambda>p. 0 < pr_successful_runs p) ps) None"

definition benchmark_fetch :: "'f bench_env \<Rightarrow> fetch_bench_config \<Rightarrow> (engine_error, 'f profile_result list \<times> 'f profile_result option) result option" where
  "benchmark_fetch env c =
     (case bind_result (validate_grpc_url (be_url_parser env) (be_debug env) (fc_url c)) (\<lambda>_.
           bind_result (guard_or (fc_sample_blocks c \<noteq> 0) (msg_err ''sample_blocks must be greater than 0'')) (\<lambda>_.
           bind_result (guard_or (fc_repeats c \<noteq> 0) (msg_err ''repeats must be greater than 0'')) (\<lambda>_.
           bind_result (guard_or (fc_timeout_secs c \<noteq> 0) (msg_err ''timeout_secs must be greater than 0'')) (\<lambda>_.
           bind_result (normalize_candidates ''batch_sizes'' (fc_batch_sizes c)) (\<lambda>batch_sizes.
           bind_result (normalize_candidates ''parallelism'' (fc_parallelism c)) (\<lambda>parallelism.
           bind_result (map_err (with_context ''failed to get chain tip from server'') (be_tip env)) (\<lambda>tip.
           bind_result (bench_range c tip) (\<lambda>range. Inr (batch_sizes, parallelism, range))))))))) of
        Inl e \<Rightarrow> Some (Inl e)
      | Inr (batch_sizes, parallelism, start, end_excl) \<Rightarrow>
          map_option (\<lambda>ps. Inr (ps, best_profile env ps))
            (bench_profiles env \<lparr>fp_start = start, fp_end_excl = end_excl, fp_batch_size = 0, fp_parallelism = 0, fp_retries = fc_retries c, fp_run = 0\<rparr>
               (fc_repeats c) (List.product batch_sizes parallelism)))"

section \<open>Lemmas\<close>

text \<open>What the loop keeps: the batches requested so far tile the range up to the next height, those in flight are not counted yet.\<close>

definition heights :: "(nat \<times> nat) list \<Rightarrow> nat list" where
  "heights rs = concat (map (\<lambda>(a, b). [a..<b]) rs)"

definition blocks_of :: "(nat \<times> nat) list \<Rightarrow> nat" where
  "blocks_of rs = sum_list (map (\<lambda>(a, b). b - a) rs)"

lemma heights_simps [simp]: "heights [] = []" "heights (rs @ rs') = heights rs @ heights rs'" "heights [(a, b)] = [a..<b]"
  by (simp_all add: heights_def)

lemma blocks_simps [simp]: "blocks_of [] = 0" "blocks_of (rs @ rs') = blocks_of rs + blocks_of rs'" "blocks_of ((a, b) # rs) = b - a + blocks_of rs"
  by (simp_all add: blocks_of_def)

definition loop_inv :: "profile_params \<Rightarrow> fetch_state \<Rightarrow> bool" where
  "loop_inv p s \<longleftrightarrow> fp_start p \<le> fs_next_height s \<and> fs_next_height s \<le> fp_end_excl p
     \<and> heights (fs_ranges s) = [fp_start p..<fs_next_height s] \<and> list_all (\<lambda>(a, b). a < b \<and> b - a \<le> fp_batch_size p) (fs_ranges s)
     \<and> list_all (\<lambda>(a, b). a < b) (fs_flight s) \<and> fs_requested_blocks s + blocks_of (fs_flight s) = fs_next_height s - fp_start p
     \<and> fs_batches s = length (fs_ranges s) \<and> length (fs_ranges s) \<le> fs_next_height s - fp_start p
     \<and> length (fs_flight s) \<le> fp_parallelism p \<and> fs_peak s \<le> fp_parallelism p"

definition loop_measure :: "profile_params \<Rightarrow> fetch_state \<Rightarrow> nat" where
  "loop_measure p s = 2 * (fp_end_excl p - fs_next_height s) + length (fs_flight s)"

lemma spawn_batch_inv:
  assumes "loop_inv p s" and "fs_next_height s < fp_end_excl p" and "fp_end_excl p \<le> u32_max" and "0 < fp_batch_size p" and "length (fs_flight s) < fp_parallelism p"
  shows "loop_inv p (spawn_batch p s)" and "loop_measure p (spawn_batch p s) < loop_measure p s" and "length (fs_flight (spawn_batch p s)) = Suc (length (fs_flight s))"
proof -
  define e where "e = min (sat_add_u32 (fs_next_height s) (fp_batch_size p)) (fp_end_excl p)"
  have e: "fs_next_height s < e" "e \<le> fp_end_excl p" "e - fs_next_height s \<le> fp_batch_size p" using assms(2-4) by (auto simp: e_def sat_add_u32_def)
  have b: "fs_batches (spawn_batch p s) = length (fs_ranges s) + 1"
    using assms(1-3) by (auto simp: spawn_batch_def Let_def sat_add_u32_def loop_inv_def)
  have h: "[fp_start p..<fs_next_height s] @ [fs_next_height s..<e] = [fp_start p..<e]"
    using assms(1) e(1) upt_add_eq_append[of "fp_start p" "fs_next_height s" "e - fs_next_height s"] by (simp add: loop_inv_def)
  show "loop_inv p (spawn_batch p s)"
    using assms(1,5) e h b by (auto simp: loop_inv_def spawn_batch_def Let_def e_def[symmetric])
  show "loop_measure p (spawn_batch p s) < loop_measure p s" "length (fs_flight (spawn_batch p s)) = Suc (length (fs_flight s))"
    using e by (simp_all add: loop_measure_def spawn_batch_def Let_def e_def[symmetric])
qed

lemma spawn_batches_inv:
  assumes "loop_inv p s" and "fp_end_excl p \<le> u32_max" and "0 < fp_batch_size p" and "length (fs_flight s) + n \<le> fp_parallelism p"
  shows "loop_inv p (spawn_batches p n s) \<and> loop_measure p (spawn_batches p n s) \<le> loop_measure p s
     \<and> (0 < n \<longrightarrow> fs_next_height s < fp_end_excl p \<longrightarrow> fs_flight (spawn_batches p n s) \<noteq> []) \<and> (fs_flight s \<noteq> [] \<longrightarrow> fs_flight (spawn_batches p n s) \<noteq> [])"
  using assms
proof (induction n arbitrary: s)
  case (Suc n)
  show ?case
  proof (cases "fs_next_height s < fp_end_excl p")
    case True
    note b = spawn_batch_inv[OF Suc.prems(1) True Suc.prems(2,3)]
    have l: "length (fs_flight s) < fp_parallelism p" using Suc.prems(4) by simp
    have "fs_flight (spawn_batch p s) \<noteq> []" using b(3)[OF l] by auto
    then show ?thesis using Suc.IH[OF b(1)[OF l] Suc.prems(2,3)] b(2,3)[OF l] True Suc.prems(4) by auto
  qed (use Suc.prems(1) in simp)
qed simp

lemma fetch_attempts_requested: "fst (fetch_attempts net a b k n) = Inr r \<Longrightarrow> bf_requested_blocks r = b - a"
proof (induction n arbitrary: k)
  case (Suc n)
  obtain x ds where x: "fetch_attempts net a b (Suc k) n = (x, ds)" by fastforce
  show ?case using Suc.prems Suc.IH[of "Suc k"] x by (cases "net k") (auto simp: fetch_batch_once_def)
qed (auto simp: fetch_batch_once_def split: attempt.splits)

lemma batch_requested: "fst (fetch_batch_with_retry net a b n) = Inr r \<Longrightarrow> bf_requested_blocks r = b - a"
  by (auto simp: fetch_batch_with_retry_def fetch_attempts_requested split: if_splits)

lemma join_inv:
  assumes "loop_inv p s" and "i < length (fs_flight s)" and "fs_flight s ! i = (a, b)" and "bf_requested_blocks r = b - a" and "fp_end_excl p \<le> u32_max"
  defines "s' \<equiv> add_batch r (s\<lparr>fs_flight := take i (fs_flight s) @ drop (Suc i) (fs_flight s)\<rparr>)"
  shows "loop_inv p s'" and "loop_measure p s' < loop_measure p s"
proof -
  have f: "fs_flight s = take i (fs_flight s) @ (a, b) # drop (Suc i) (fs_flight s)" using id_take_nth_drop[OF assms(2)] assms(3) by metis
  have "blocks_of (fs_flight s) = blocks_of (take i (fs_flight s)) + (b - a) + blocks_of (drop (Suc i) (fs_flight s))"
    by (subst f) (simp only: blocks_simps add.assoc)
  moreover have "list_all (\<lambda>(a, b). a < b) (take i (fs_flight s) @ drop (Suc i) (fs_flight s))"
    using assms(1) by (auto simp: loop_inv_def list_all_iff dest: in_set_takeD in_set_dropD)
  moreover have "fs_next_height s - fp_start p \<le> u64_max" using assms(1,5) by (auto simp: loop_inv_def u32_max_def u64_max_def)
  ultimately show "loop_inv p s'" using assms(1,2,4) by (auto simp: loop_inv_def s'_def add_batch_def sat_add_u64_def)
  show "loop_measure p s' < loop_measure p s" using assms(2) by (simp add: loop_measure_def s'_def add_batch_def)
qed

text \<open>The loop ends; when no batch failed for good, everything was requested.\<close>

lemma fetch_loop_ends:
  assumes "loop_inv p s" and "fp_end_excl p \<le> u32_max" and "0 < fp_batch_size p" and "0 < fp_parallelism p"
  shows "\<exists>r. fetch_loop pick net p s = Some r \<and> (\<forall>s'. r = Inr s' \<longrightarrow> loop_inv p s' \<and> fs_next_height s' = fp_end_excl p \<and> fs_flight s' = [])"
  using assms(1)
proof (induction "loop_measure p s" arbitrary: s rule: less_induct)
  case less
  show ?case
  proof (cases "fs_next_height s < fp_end_excl p \<or> fs_flight s \<noteq> []")
    case False
    then show ?thesis using less.prems by (subst fetch_loop.simps) (auto simp: loop_inv_def)
  next
    case True
    define s1 where "s1 = spawn_batches p (fp_parallelism p - length (fs_flight s)) s"
    have s1: "loop_inv p s1" "loop_measure p s1 \<le> loop_measure p s" "fs_flight s1 \<noteq> []"
      using spawn_batches_inv[OF less.prems assms(2,3), of "fp_parallelism p - length (fs_flight s)"] less.prems True assms(4)
      by (cases "fs_flight s = []"; auto simp: s1_def loop_inv_def)+
    define i where "i = pick (fs_flight s1) mod length (fs_flight s1)"
    have i: "i < length (fs_flight s1)" using s1(3) by (simp add: i_def)
    obtain a b where ab: "fs_flight s1 ! i = (a, b)" by fastforce
    define s2 where "s2 = s1\<lparr>fs_flight := take i (fs_flight s1) @ drop (Suc i) (fs_flight s1)\<rparr>"
    have step: "fetch_loop pick net p s = (case fst (fetch_batch_with_retry (net (a, b)) a b (fp_retries p)) of Inl e \<Rightarrow> Some (Inl e) | Inr r \<Rightarrow> fetch_loop pick net p (add_batch r s2))"
      unfolding s2_def using True s1(3) by (subst fetch_loop.simps) (simp add: s1_def[symmetric] i_def[symmetric] ab)
    show ?thesis
    proof (cases "fst (fetch_batch_with_retry (net (a, b)) a b (fp_retries p))")
      case (Inl e)
      then show ?thesis using step by simp
    next
      case (Inr r)
      note j = join_inv[OF s1(1) i ab batch_requested[OF Inr] assms(2), folded s2_def]
      have "loop_measure p (add_batch r s2) < loop_measure p s" using j(2) s1(2) by simp
      then show ?thesis using less.hyps[OF _ j(1)] step Inr by simp
    qed
  qed
qed

text \<open>What a successful run is worth.\<close>

definition covers :: "profile_params \<Rightarrow> fetch_state \<Rightarrow> bool" where
  "covers p s \<longleftrightarrow> heights (fs_ranges s) = [fp_start p..<fp_end_excl p] \<and> list_all (\<lambda>(a, b). b - a \<le> fp_batch_size p) (fs_ranges s)
     \<and> fs_requested_blocks s = fp_end_excl p - fp_start p \<and> fs_batches s = length (fs_ranges s) \<and> fs_peak s \<le> fp_parallelism p"

lemma run_covers:
  assumes "fp_start p \<le> fp_end_excl p" "fp_end_excl p \<le> u32_max" "0 < fp_batch_size p" "0 < fp_parallelism p"
  shows "\<exists>r. run_fetch_profile pick net p = Some r \<and> (\<forall>s. r = Inr s \<longrightarrow> covers p s)"
proof -
  define s0 where "s0 = \<lparr>fs_next_height = fp_start p, fs_flight = [], fs_batches = 0, fs_requested_blocks = 0, fs_returned_blocks = 0, fs_bytes = 0, fs_retries_used = 0,
       fs_ranges = [], fs_peak = 0\<rparr>"
  have "loop_inv p s0" using assms(1) by (simp add: loop_inv_def s0_def)
  from fetch_loop_ends[OF this assms(2-4), of pick net] obtain r where r: "fetch_loop pick net p s0 = Some r"
    "\<And>s'. r = Inr s' \<Longrightarrow> loop_inv p s' \<and> fs_next_height s' = fp_end_excl p \<and> fs_flight s' = []" by blast
  have "covers p s" if "r = Inr s" for s using r(2)[OF that] by (auto simp: covers_def loop_inv_def list_all_iff)
  then show ?thesis using r(1) by (simp add: run_fetch_profile_def s0_def)
qed

lemma runs_cover:
  assumes "fp_start p \<le> fp_end_excl p" "fp_end_excl p \<le> u32_max" "0 < fp_batch_size p" "0 < fp_parallelism p"
  shows "\<exists>rs. bench_runs env p ks = Some rs \<and> (\<forall>s. Inr s \<in> set rs \<longrightarrow> covers p s)"
proof (induction ks)
  case (Cons k ks)
  let ?pt = "(fp_batch_size p, fp_parallelism p, k)"
  have c: "covers (p\<lparr>fp_run := k\<rparr>) s = covers p s" for s by (simp add: covers_def)
  obtain r where r: "run_fetch_profile (be_pick env ?pt) (be_net env ?pt) (p\<lparr>fp_run := k\<rparr>) = Some r" "\<And>s. r = Inr s \<Longrightarrow> covers p s"
    using run_covers[of "p\<lparr>fp_run := k\<rparr>" "be_pick env ?pt" "be_net env ?pt"] assms c by auto
  show ?case using Cons r by (auto simp: Let_def)
qed simp

lemma profile_runs_ok: "s \<in> set (pr_runs (profile_of_runs env p rs)) \<Longrightarrow> Inr s \<in> set rs"
  by (auto simp: profile_of_runs_def Let_def split: sum.splits dest!: set_zip_rightD)

lemma profiles_cover:
  assumes "fp_start p \<le> fp_end_excl p" "fp_end_excl p \<le> u32_max" "\<forall>(n, k) \<in> set cs. 0 < n \<and> 0 < k"
  shows "\<exists>ps. bench_profiles env p repeats cs = Some ps
     \<and> (\<forall>pr \<in> set ps. \<forall>s \<in> set (pr_runs pr). covers (p\<lparr>fp_batch_size := pr_batch_size pr, fp_parallelism := pr_parallelism pr\<rparr>) s)"
  using assms(3)
proof (induction cs)
  case (Cons x cs)
  obtain n k where x: "x = (n, k)" by fastforce
  let ?q = "p\<lparr>fp_batch_size := n, fp_parallelism := k\<rparr>"
  obtain rs where rs: "bench_runs env ?q [1..<Suc repeats] = Some rs" "\<And>s. Inr s \<in> set rs \<Longrightarrow> covers ?q s"
    using runs_cover[of ?q env "[1..<Suc repeats]"] assms(1,2) Cons.prems x by auto
  obtain ps where ps: "bench_profiles env p repeats cs = Some ps"
    "\<forall>pr \<in> set ps. \<forall>s \<in> set (pr_runs pr). covers (p\<lparr>fp_batch_size := pr_batch_size pr, fp_parallelism := pr_parallelism pr\<rparr>) s"
    using Cons.IH Cons.prems by auto
  have q: "pr_batch_size (profile_of_runs env ?q rs) = n" "pr_parallelism (profile_of_runs env ?q rs) = k" by (simp_all add: profile_of_runs_def Let_def)
  have "bench_profiles env p repeats (x # cs) = Some (profile_of_runs env ?q rs # ps)" using rs(1) ps(1) x by (simp add: Let_def)
  then show ?case using ps(2) rs(2) q by (auto dest: profile_runs_ok)
qed simp

lemma best_profile_in:
  "best_profile env ps = Some b \<Longrightarrow> b \<in> set ps \<and> 0 < pr_successful_runs b"
proof -
  have "fold (\<lambda>p best. case best of None \<Rightarrow> Some p | Some b \<Rightarrow> if profile_less env p b then Some b else Some p) qs init = Some b \<Longrightarrow> b \<in> set qs \<or> init = Some b" for qs init
    by (induction qs arbitrary: init) (auto split: option.splits if_splits)
  from this[of "filter (\<lambda>p. 0 < pr_successful_runs p) ps" None] show "best_profile env ps = Some b \<Longrightarrow> ?thesis" by (auto simp: best_profile_def)
qed

lemma normalize_ok: "normalize_candidates f vs = Inr ws \<Longrightarrow> 0 \<notin> set ws \<and> set ws = set vs \<and> sorted ws \<and> distinct ws"
  by (auto simp: normalize_candidates_def split: if_splits)

lemma bench_range_ok: "bench_range c tip = Inr (a, b) \<Longrightarrow> a < b \<and> b \<le> u32_max"
  by (auto simp: bench_range_def Let_def sat_add_u32_def split: if_splits option.splits intro: min.coboundedI1 min.coboundedI2)

text \<open>C36: The benchmark ends and measures what it claims to.  For every configuration, every server and every order in which concurrent downloads end, \<open>bench-fetch\<close> returns; each run that
  counts as successful requested every block of the range exactly once, in order, in batches of at most the size of its profile and with at most as many downloads at a time as its profile allows;
  and the configuration it recommends is one of the profiles, with a successful run.\<close>

theorem benchmark_covers_range:
  "\<exists>r. benchmark_fetch env c = Some r
     \<and> (\<forall>ps best pr s. r = Inr (ps, best) \<longrightarrow> pr \<in> set ps \<longrightarrow> s \<in> set (pr_runs pr) \<longrightarrow>
          (\<exists>tip a b. be_tip env = Inr tip \<and> bench_range c tip = Inr (a, b) \<and> heights (fs_ranges s) = [a..<b] \<and> list_all (\<lambda>(x, y). y - x \<le> pr_batch_size pr) (fs_ranges s)
             \<and> fs_requested_blocks s = b - a \<and> fs_batches s = length (fs_ranges s) \<and> fs_peak s \<le> pr_parallelism pr))
     \<and> (\<forall>ps b. r = Inr (ps, Some b) \<longrightarrow> b \<in> set ps \<and> 0 < pr_successful_runs b)"
proof -
  let ?checks = "bind_result (validate_grpc_url (be_url_parser env) (be_debug env) (fc_url c)) (\<lambda>_.
           bind_result (guard_or (fc_sample_blocks c \<noteq> 0) (msg_err ''sample_blocks must be greater than 0'')) (\<lambda>_.
           bind_result (guard_or (fc_repeats c \<noteq> 0) (msg_err ''repeats must be greater than 0'')) (\<lambda>_.
           bind_result (guard_or (fc_timeout_secs c \<noteq> 0) (msg_err ''timeout_secs must be greater than 0'')) (\<lambda>_.
           bind_result (normalize_candidates ''batch_sizes'' (fc_batch_sizes c)) (\<lambda>batch_sizes.
           bind_result (normalize_candidates ''parallelism'' (fc_parallelism c)) (\<lambda>parallelism.
           bind_result (map_err (with_context ''failed to get chain tip from server'') (be_tip env)) (\<lambda>tip.
           bind_result (bench_range c tip) (\<lambda>range. Inr (batch_sizes, parallelism, range)))))))))"
  show ?thesis
  proof (cases ?checks)
    case (Inl e)
    then show ?thesis by (simp add: benchmark_fetch_def)
  next
    case (Inr x)
    then obtain bs ks a b where x: "x = (bs, ks, a, b)" by (metis prod_cases4)
    obtain tip where t: "normalize_candidates ''batch_sizes'' (fc_batch_sizes c) = Inr bs" "normalize_candidates ''parallelism'' (fc_parallelism c) = Inr ks"
      "be_tip env = Inr tip" "bench_range c tip = Inr (a, b)"
      using Inr x by (auto simp: result_simps)
    let ?p = "\<lparr>fp_start = a, fp_end_excl = b, fp_batch_size = 0, fp_parallelism = 0, fp_retries = fc_retries c, fp_run = 0\<rparr>"
    have "\<forall>(n, k) \<in> set (List.product bs ks). 0 < n \<and> 0 < k" using normalize_ok[OF t(1)] normalize_ok[OF t(2)] by (auto intro: gr0I)
    then obtain ps where ps: "bench_profiles env ?p (fc_repeats c) (List.product bs ks) = Some ps"
      "\<forall>pr \<in> set ps. \<forall>s \<in> set (pr_runs pr). covers (?p\<lparr>fp_batch_size := pr_batch_size pr, fp_parallelism := pr_parallelism pr\<rparr>) s"
      using profiles_cover[of ?p "List.product bs ks" env "fc_repeats c"] bench_range_ok[OF t(4)] by auto
    have "benchmark_fetch env c = Some (Inr (ps, best_profile env ps))" using Inr x ps(1) by (simp add: benchmark_fetch_def)
    then show ?thesis using ps(2) t(3,4) by (auto simp: covers_def dest: best_profile_in)
  qed
qed

definition demo_bench_env :: "nat bench_env" where
  "demo_bench_env = \<lparr>be_url_parser = demo_url_parser, be_debug = False, be_tip = Inr 5, be_pick = (\<lambda>_ fl. length fl), be_net = (\<lambda>_ (a, b) k. if k = 0 then AttemptTimeout else Received (replicate (b - a) 9)),
     be_rate = (\<lambda>_. fs_bytes), be_average = sum_list, be_less = (<)\<rparr>"

definition demo_bench_config :: fetch_bench_config where
  "demo_bench_config = \<lparr>fc_url = ''https://a'', fc_start_height = None, fc_end_height = None, fc_sample_blocks = 3, fc_batch_sizes = [2], fc_parallelism = [2], fc_repeats = 1, fc_retries = 1, fc_timeout_secs = 25\<rparr>"

lemma demo_bench:
  "\<exists>pr s. benchmark_fetch demo_bench_env demo_bench_config = Some (Inr ([pr], Some pr)) \<and> pr_runs pr = [s] \<and> pr_batch_size pr = 2 \<and> pr_parallelism pr = 2"
proof -
  have url: "validate_grpc_url demo_url_parser False ''https://a'' = Inr ()" by code_simp
  have "\<exists>s. bench_runs demo_bench_env \<lparr>fp_start = 3, fp_end_excl = 6, fp_batch_size = 2, fp_parallelism = 2, fp_retries = 1, fp_run = 0\<rparr> [1] = Some [Inr s]"
    by (simp add: demo_bench_env_def run_fetch_profile_def fetch_loop.simps spawn_batch_def numeral_2_eq_2 fetch_batch_with_retry_def Let_def sat_add_u32_def u32_max_def add_batch_def fetch_batch_once_def sat_add_u64_def u64_max_def)
  then show ?thesis
    by (auto simp: benchmark_fetch_def demo_bench_config_def demo_bench_env_def url guard_or_def normalize_candidates_def bench_range_def sat_add_u32_def u32_max_def
        best_profile_def profile_of_runs_def Let_def)
qed

theorem benchmark_covers_range_witness:
  "\<exists>pr s. benchmark_fetch demo_bench_env demo_bench_config = Some (Inr ([pr], Some pr)) \<and> pr_runs pr = [s] \<and> heights (fs_ranges s) = [3..<6] \<and> fs_requested_blocks s = 3"
proof -
  obtain pr s where b: "benchmark_fetch demo_bench_env demo_bench_config = Some (Inr ([pr], Some pr))" "pr_runs pr = [s]" using demo_bench by blast
  have "be_tip demo_bench_env = Inr 5" "bench_range demo_bench_config 5 = Inr (3, 6)"
    by (simp_all add: demo_bench_env_def demo_bench_config_def bench_range_def Let_def sat_add_u32_def u32_max_def)
  then have "heights (fs_ranges s) = [3..<6] \<and> fs_requested_blocks s = 3"
    using benchmark_covers_range[of demo_bench_env demo_bench_config] b by auto
  then show ?thesis using b by blast
qed

end
