(* ===== verification/Sync_Memo.thy ===== *)
theory Sync_Memo
  imports Tx_Queue
begin

text \<open>
  The memo enhancement of \<open>crates/zbag-engine/src/sync_service.rs\<close>: after a complete pass the sync task reads, page by page, the transactions whose
  received notes have no memo, fetches them again and stores the decrypted memos, with at most four tasks at a time.  The tables the queries read are concrete;
  the server, the viewing keys and the decryption are fields of \<open>memo_env\<close>, as are the moments at which tasks end and the order in which
  a query returns its rows.  The theorems show that the loop ends and that memos are only ever added, each from an output of its own transaction.
\<close>

section \<open>Tables and queries\<close>

record received_note =
  rn_transaction_id :: nat
  rn_index :: nat
  rn_memo :: "bytes option"

record memo_db =
  md_transactions :: "(nat \<times> bytes) list"
  md_sapling :: "received_note list"
  md_orchard :: "received_note list"

record raw_transaction =
  raw_height :: nat
  raw_data :: bytes

record decrypted_outputs =
  do_sapling :: "(nat \<times> bytes) list"
  do_orchard :: "(nat \<times> bytes) list"

text \<open>\<open>me_decrypt height data\<close> parses the transaction for the branch of the height and decrypts it with the viewing keys of the wallet.
  \<open>me_finish\<close> tasks end before an observation; \<open>me_next\<close> chooses among the running ones.\<close>

record memo_env =
  me_cancelled :: "nat \<Rightarrow> bool"
  me_query_ok :: "nat \<Rightarrow> bool"
  me_rank :: "nat \<Rightarrow> bytes \<Rightarrow> nat"
  me_transaction :: "nat \<Rightarrow> bytes \<Rightarrow> (string, raw_transaction) result"
  me_decrypt :: "nat \<Rightarrow> bytes \<Rightarrow> (string, decrypted_outputs) result"
  me_commit_ok :: "nat \<Rightarrow> bool"
  me_finish :: "nat \<Rightarrow> nat"
  me_next :: "nat \<Rightarrow> nat"

definition ENHANCEMENT_BATCH_SIZE :: nat where "ENHANCEMENT_BATCH_SIZE = 100"
definition ENHANCEMENT_CONCURRENCY :: nat where "ENHANCEMENT_CONCURRENCY = 4"

definition lacks_memo :: "received_note list \<Rightarrow> nat \<times> bytes \<Rightarrow> bool" where
  "lacks_memo notes t = list_ex (\<lambda>n. rn_transaction_id n = fst t \<and> rn_memo n = None) notes"

definition txids_needing_memo :: "memo_db \<Rightarrow> bytes list" where
  "txids_needing_memo db = remdups (map snd (filter (\<lambda>t. lacks_memo (md_sapling db) t \<or> lacks_memo (md_orchard db) t) (md_transactions db)))"

definition count_txids_needing_memo_enhancement :: "memo_env \<Rightarrow> nat \<Rightarrow> memo_db \<Rightarrow> (string, nat) result" where
  "count_txids_needing_memo_enhancement env n db = (if me_query_ok env n then Inr (length (txids_needing_memo db)) else Inl ''query'')"

text \<open>The order of the rows may differ from query to query; malformed ids are left out after the page was cut.\<close>

definition get_txids_needing_memo_enhancement_batch :: "memo_env \<Rightarrow> nat \<Rightarrow> nat \<Rightarrow> nat \<Rightarrow> memo_db \<Rightarrow> (string, bytes list) result" where
  "get_txids_needing_memo_enhancement_batch env n offset limit db =
     (if me_query_ok env n
      then Inr (filter (\<lambda>t. length t = 32) (take limit (drop offset (sort_key (me_rank env n) (txids_needing_memo db)))))
      else Inl ''query'')"

section \<open>One transaction\<close>

definition set_memo :: "nat option \<Rightarrow> nat \<times> bytes \<Rightarrow> received_note list \<Rightarrow> received_note list" where
  "set_memo tid out notes =
     map (\<lambda>n. if Some (rn_transaction_id n) = tid \<and> rn_index n = fst out \<and> rn_memo n = None then n\<lparr>rn_memo := Some (snd out)\<rparr> else n) notes"

definition id_of_txid :: "memo_db \<Rightarrow> bytes \<Rightarrow> nat option" where
  "id_of_txid db txid = map_option fst (find (\<lambda>t. snd t = txid) (md_transactions db))"

definition enhance_transaction_memo_blocking :: "memo_env \<Rightarrow> nat \<Rightarrow> bytes \<Rightarrow> raw_transaction \<Rightarrow> memo_db \<Rightarrow> (string, memo_db) result" where
  "enhance_transaction_memo_blocking env n txid raw db =
     (if raw_height raw = 0 then Inl ''cannot enhance mempool transaction (not yet mined)''
      else if raw_height raw = u64_max then Inl ''transaction is on a fork''
      else if u32_max < raw_height raw then Inl ''block height exceeds u32::MAX''
      else bind_result (me_decrypt env (raw_height raw) (raw_data raw)) (\<lambda>outs.
        if me_commit_ok env n then
          let tid = id_of_txid db txid
          in Inr (db\<lparr>md_sapling := fold (set_memo tid) (do_sapling outs) (md_sapling db),
                     md_orchard := fold (set_memo tid) (do_orchard outs) (md_orchard db)\<rparr>)
        else Inl ''database''))"

definition enhance_transaction_memo :: "memo_env \<Rightarrow> nat \<Rightarrow> bytes \<Rightarrow> memo_db \<Rightarrow> (string, memo_db) result" where
  "enhance_transaction_memo env n txid db =
     bind_result (me_transaction env n txid) (\<lambda>raw. enhance_transaction_memo_blocking env n txid raw db)"

section \<open>The tasks\<close>

record memo_world =
  mw_tick :: nat
  mw_db :: memo_db
  mw_running :: "bytes list"
  mw_ended :: nat
  mw_enhanced :: nat
  mw_percents :: "nat list"

text \<open>A task ends, whether or not it succeeded; it stays in the join set until it is joined.\<close>

definition end_task :: "memo_env \<Rightarrow> memo_world \<Rightarrow> memo_world" where
  "end_task env w =
     (if mw_running w = [] then w
      else
        let i = me_next env (mw_tick w) mod length (mw_running w);
            db = (case enhance_transaction_memo env (mw_tick w) (mw_running w ! i) (mw_db w) of Inl _ \<Rightarrow> mw_db w | Inr db' \<Rightarrow> db')
        in w\<lparr>mw_tick := mw_tick w + 1, mw_db := db, mw_running := take i (mw_running w) @ drop (Suc i) (mw_running w), mw_ended := mw_ended w + 1\<rparr>)"

definition observe :: "memo_env \<Rightarrow> memo_world \<Rightarrow> memo_world" where
  "observe env w = (let w1 = (end_task env ^^ me_finish env (mw_tick w)) w in w1\<lparr>mw_tick := mw_tick w1 + 1\<rparr>)"

definition join_set_len :: "memo_world \<Rightarrow> nat" where
  "join_set_len w = length (mw_running w) + mw_ended w"

definition join_next :: "memo_env \<Rightarrow> memo_world \<Rightarrow> memo_world" where
  "join_next env w = (let w1 = (if mw_ended w = 0 then end_task env w else w) in w1\<lparr>mw_ended := mw_ended w1 - 1, mw_enhanced := mw_enhanced w1 + 1\<rparr>)"

text \<open>Joins until fewer than \<open>k\<close> tasks are left: every join takes one.\<close>

definition join_below :: "memo_env \<Rightarrow> nat \<Rightarrow> memo_world \<Rightarrow> memo_world" where
  "join_below env k w = (join_next env ^^ (Suc (join_set_len w) - k)) w"

definition spawn :: "bytes \<Rightarrow> memo_world \<Rightarrow> memo_world" where
  "spawn txid w = w\<lparr>mw_running := mw_running w @ [txid]\<rparr>"

definition enhancement_progress :: "nat \<Rightarrow> nat \<Rightarrow> nat" where
  "enhancement_progress enhanced to_do = (if to_do = 0 then 100 else if to_do \<le> enhanced then 100 else 99)"

text \<open>The transactions of a page; the result says that the sync was cancelled.\<close>

primrec enhance_page :: "memo_env \<Rightarrow> bytes list \<Rightarrow> memo_world \<Rightarrow> bool \<times> memo_world" where
  "enhance_page env [] w = (False, w)"
| "enhance_page env (txid # txids) w =
     (let w1 = observe env w in
      if me_cancelled env (mw_tick w1) then (True, w1)
      else enhance_page env txids (spawn txid (join_below env ENHANCEMENT_CONCURRENCY w1)))"

section \<open>Memos are only added\<close>

text \<open>\<open>memo_origin\<close>: some answer of the server for a transaction with this row id decrypts to the memo at the output.\<close>

definition memo_origin :: "memo_env \<Rightarrow> memo_db \<Rightarrow> (decrypted_outputs \<Rightarrow> (nat \<times> bytes) list) \<Rightarrow> nat \<Rightarrow> nat \<times> bytes \<Rightarrow> bool" where
  "memo_origin env db pool tid out \<longleftrightarrow>
     (\<exists>n txid raw outs. (tid, txid) \<in> set (md_transactions db) \<and> me_transaction env n txid = Inr raw \<and> 0 < raw_height raw \<and> raw_height raw \<le> u32_max
        \<and> me_decrypt env (raw_height raw) (raw_data raw) = Inr outs \<and> out \<in> set (pool outs))"

definition note_ext :: "(nat \<Rightarrow> nat \<times> bytes \<Rightarrow> bool) \<Rightarrow> received_note \<Rightarrow> received_note \<Rightarrow> bool" where
  "note_ext P n n' \<longleftrightarrow> n' = n \<or> rn_memo n = None \<and> (\<exists>m. n' = n\<lparr>rn_memo := Some m\<rparr> \<and> P (rn_transaction_id n) (rn_index n, m))"

definition memo_ext :: "memo_env \<Rightarrow> memo_db \<Rightarrow> memo_db \<Rightarrow> bool" where
  "memo_ext env db db' \<longleftrightarrow> md_transactions db' = md_transactions db
     \<and> list_all2 (note_ext (memo_origin env db do_sapling)) (md_sapling db) (md_sapling db')
     \<and> list_all2 (note_ext (memo_origin env db do_orchard)) (md_orchard db) (md_orchard db')"

lemma note_ext_refl [simp]: "note_ext P n n"
  by (simp add: note_ext_def)

lemma note_ext_trans: "note_ext P a b \<Longrightarrow> note_ext P b c \<Longrightarrow> note_ext P a c"
  unfolding note_ext_def by auto

lemma notes_ext_refl [simp]: "list_all2 (note_ext P) xs xs"
  by (simp add: list.rel_refl)

lemma notes_ext_trans: "list_all2 (note_ext P) xs ys \<Longrightarrow> list_all2 (note_ext P) ys zs \<Longrightarrow> list_all2 (note_ext P) xs zs"
  by (erule (1) list_all2_trans [rotated]) (rule note_ext_trans)

lemma memo_origin_cong: "md_transactions db' = md_transactions db \<Longrightarrow> memo_origin env db' = memo_origin env db"
  by (simp add: memo_origin_def fun_eq_iff)

lemma memo_ext_refl [simp]: "memo_ext env db db"
  by (simp add: memo_ext_def)

lemma memo_ext_trans: "memo_ext env a b \<Longrightarrow> memo_ext env b c \<Longrightarrow> memo_ext env a c"
  unfolding memo_ext_def using memo_origin_cong [of b a env] by (auto intro: notes_ext_trans)

lemma set_memo_ext:
  assumes "\<And>i. tid = Some i \<Longrightarrow> P i out"
  shows "list_all2 (note_ext P) notes (set_memo tid out notes)"
  unfolding set_memo_def list_all2_map2 using assms
  by (intro list.rel_refl_strong) (auto simp: note_ext_def intro!: exI [of _ "snd out"])

lemma set_memos_ext:
  assumes "\<And>i out. tid = Some i \<Longrightarrow> out \<in> set outs \<Longrightarrow> P i out"
  shows "list_all2 (note_ext P) ns (fold (set_memo tid) outs ns)"
  using assms
proof (induction outs arbitrary: ns)
  case (Cons out outs ns)
  have "list_all2 (note_ext P) ns (set_memo tid out ns)" by (rule set_memo_ext) (simp add: Cons.prems)
  then show ?case using Cons.IH [of "set_memo tid out ns"] Cons.prems by (auto intro: notes_ext_trans)
qed simp

lemma id_of_txid_in: "id_of_txid db txid = Some i \<Longrightarrow> (i, txid) \<in> set (md_transactions db)"
  unfolding id_of_txid_def by (auto dest: find_some_in)

lemma enhance_ext:
  assumes "enhance_transaction_memo env n txid db = Inr db'"
  shows "memo_ext env db db'"
proof -
  obtain raw outs where r: "me_transaction env n txid = Inr raw" "0 < raw_height raw" "raw_height raw \<le> u32_max"
      "me_decrypt env (raw_height raw) (raw_data raw) = Inr outs"
    and db': "db' = db\<lparr>md_sapling := fold (set_memo (id_of_txid db txid)) (do_sapling outs) (md_sapling db),
       md_orchard := fold (set_memo (id_of_txid db txid)) (do_orchard outs) (md_orchard db)\<rparr>"
    using assms unfolding enhance_transaction_memo_def enhance_transaction_memo_blocking_def
    by (fastforce simp: result_simps Let_def split: if_splits)
  have "memo_origin env db pool i out" if "id_of_txid db txid = Some i" "out \<in> set (pool outs)" for pool i out
    using id_of_txid_in [OF that(1)] r that(2) unfolding memo_origin_def by blast
  then show ?thesis unfolding memo_ext_def db' by (simp add: set_memos_ext)
qed

text \<open>Every step of the loop only extends the tables, and time goes on.\<close>

definition extends :: "memo_env \<Rightarrow> memo_world \<Rightarrow> memo_world \<Rightarrow> bool" where
  "extends env w w' \<longleftrightarrow> memo_ext env (mw_db w) (mw_db w') \<and> mw_tick w \<le> mw_tick w'"

lemma extends_refl [simp]: "extends env w w"
  by (simp add: extends_def)

lemma extends_trans [trans]: "extends env a b \<Longrightarrow> extends env b c \<Longrightarrow> extends env a c"
  unfolding extends_def by (auto intro: memo_ext_trans)

lemma end_task_extends: "extends env w (end_task env w)"
  by (auto simp: extends_def end_task_def Let_def enhance_ext split: sum.splits)

lemma extends_funpow: "(\<And>v. extends env v (f v)) \<Longrightarrow> extends env w ((f ^^ n) w)"
  by (induction n) (auto intro: extends_trans)

lemma observe_extends: "extends env w (observe env w)"
  using extends_funpow [of env "end_task env" w "me_finish env (mw_tick w)", OF end_task_extends] by (simp add: observe_def extends_def Let_def)

lemma join_next_extends: "extends env w (join_next env w)"
  using end_task_extends [of env w] by (simp add: join_next_def extends_def Let_def)

lemma join_below_extends: "extends env w (join_below env k w)"
  unfolding join_below_def by (rule extends_funpow) (rule join_next_extends)

lemma spawn_extends [simp]: "extends env w (spawn t v) \<longleftrightarrow> extends env w v"
  by (simp add: extends_def spawn_def)

lemma enhance_page_extends: "extends env w (snd (enhance_page env txids w))"
proof (induction txids arbitrary: w)
  case (Cons t ts)
  have "extends env w (spawn t (join_below env k (observe env w)))" for k
    using extends_trans [OF observe_extends join_below_extends] by simp
  then have "extends env w (snd (enhance_page env ts (spawn t (join_below env k (observe env w)))))" for k
    using Cons.IH by (rule extends_trans)
  then show ?case using observe_extends [of env w] by (simp add: Let_def)
qed simp

text \<open>Extending the tables leaves no more transactions without memo.\<close>

lemma notes_ext_lacks:
  assumes "list_all2 (note_ext P) xs ys" "lacks_memo ys t"
  shows "lacks_memo xs t"
  using assms by (induction rule: list_all2_induct) (auto simp: lacks_memo_def note_ext_def)

lemma memo_ext_needing: "memo_ext env db db' \<Longrightarrow> length (txids_needing_memo db') \<le> length (txids_needing_memo db)"
  unfolding memo_ext_def txids_needing_memo_def
  by (auto simp: length_remdups_card_conv intro!: card_mono dest: notes_ext_lacks)

section \<open>The loop\<close>

function enhance_loop :: "memo_env \<Rightarrow> nat \<Rightarrow> nat \<Rightarrow> memo_world \<Rightarrow> memo_world" where
  "enhance_loop env to_do offset w =
     (let w1 = observe env w in
      if me_cancelled env (mw_tick w1) then w1
      else case get_txids_needing_memo_enhancement_batch env (mw_tick w1) offset ENHANCEMENT_BATCH_SIZE (mw_db w1) of
        Inl _ \<Rightarrow> w1
      | Inr txids \<Rightarrow>
          if txids = [] then w1
          else
            let r = enhance_page env txids (w1\<lparr>mw_percents := mw_percents w1 @ [enhancement_progress (mw_enhanced w1) to_do]\<rparr>)
            in if fst r then snd r else enhance_loop env to_do (offset + length txids) (snd r))"
  by pat_completeness auto

lemma batch_nonempty:
  assumes "get_txids_needing_memo_enhancement_batch env n offset limit db = Inr txids" "txids \<noteq> []"
  shows "offset < length (txids_needing_memo db)"
proof (rule ccontr)
  assume "\<not> offset < length (txids_needing_memo db)"
  then show False using assms by (simp add: get_txids_needing_memo_enhancement_batch_def split: if_splits)
qed

lemma enhance_loop_decreases:
  assumes "get_txids_needing_memo_enhancement_batch env n offset limit (mw_db (observe env w)) = Inr txids" "txids \<noteq> []"
    and v: "mw_db v = mw_db (observe env w)"
  shows "length (txids_needing_memo (mw_db (snd (enhance_page env txids v)))) - (offset + length txids) < length (txids_needing_memo (mw_db w)) - offset"
proof -
  have "length (txids_needing_memo (mw_db (snd (enhance_page env txids v)))) \<le> length (txids_needing_memo (mw_db (observe env w)))"
    using enhance_page_extends [of env v txids] v by (auto simp: extends_def dest: memo_ext_needing)
  moreover have "length (txids_needing_memo (mw_db (observe env w))) \<le> length (txids_needing_memo (mw_db w))"
    using observe_extends [of env w] by (auto simp: extends_def dest: memo_ext_needing)
  ultimately show ?thesis using batch_nonempty [OF assms(1,2)] assms(2) by (cases txids) auto
qed

termination enhance_loop by (relation "measure (\<lambda>(env, to_do, offset, w). length (txids_needing_memo (mw_db w)) - offset)") (simp_all add: enhance_loop_decreases)

declare enhance_loop.simps [simp del]

text \<open>The enhancing phase after its first progress event, with the tasks still in the join set awaited at its end.\<close>

definition enhance_memos :: "memo_env \<Rightarrow> nat \<Rightarrow> nat \<Rightarrow> memo_db \<Rightarrow> memo_world" where
  "enhance_memos env n to_do db =
     join_below env 1 (enhance_loop env to_do 0 \<lparr>mw_tick = n, mw_db = db, mw_running = [], mw_ended = 0, mw_enhanced = 0, mw_percents = []\<rparr>)"

section \<open>The result of the phase\<close>

lemma enhance_loop_extends: "extends env w (enhance_loop env to_do offset w)"
proof (induction env to_do offset w rule: enhance_loop.induct)
  case (1 env to_do offset w)
  let ?w1 = "observe env w"
  let ?w2 = "?w1\<lparr>mw_percents := mw_percents ?w1 @ [enhancement_progress (mw_enhanced ?w1) to_do]\<rparr>"
  have o: "extends env w ?w1" by (rule observe_extends)
  have p: "extends env w (snd (enhance_page env txids ?w2))" for txids
    using o enhance_page_extends [of env ?w2 txids] by (auto simp: extends_def intro: memo_ext_trans)
  show ?case
  proof (cases "get_txids_needing_memo_enhancement_batch env (mw_tick ?w1) offset ENHANCEMENT_BATCH_SIZE (mw_db ?w1)")
    case (Inl e)
    then show ?thesis using o by (subst enhance_loop.simps) (simp add: Let_def)
  next
    case (Inr txids)
    then show ?thesis using o p [of txids] 1 [OF refl _ Inr _ refl]
      by (subst enhance_loop.simps) (auto simp: Let_def intro: extends_trans)
  qed
qed

lemma end_task_len: "join_set_len (end_task env w) = join_set_len w"
proof (cases "mw_running w = []")
  case False
  then have "me_next env (mw_tick w) mod length (mw_running w) < length (mw_running w)" by simp
  then show ?thesis using False unfolding join_set_len_def end_task_def by (simp add: Let_def del: mod_less_divisor)
qed (simp add: end_task_def)

lemma join_next_len: "0 < join_set_len w \<Longrightarrow> Suc (join_set_len (join_next env w)) = join_set_len w"
proof (cases "mw_ended w = 0")
  case True
  assume "0 < join_set_len w"
  then have "mw_running w \<noteq> []" using True by (auto simp: join_set_len_def)
  then have "0 < mw_ended (end_task env w)" by (simp add: end_task_def Let_def)
  then show ?thesis using True end_task_len [of env w] by (auto simp: join_next_def join_set_len_def Let_def)
qed (auto simp: join_set_len_def join_next_def)

lemma join_times_len: "n \<le> join_set_len w \<Longrightarrow> join_set_len ((join_next env ^^ n) w) = join_set_len w - n"
proof (induction n)
  case (Suc n)
  then show ?case using join_next_len [of "(join_next env ^^ n) w" env] by simp
qed simp

lemma join_below_len: "0 < k \<Longrightarrow> join_set_len (join_below env k w) < k"
  unfolding join_below_def by (subst join_times_len) auto

lemma enhance_memos_extends: "memo_ext env db (mw_db (enhance_memos env n to_do db)) \<and> n \<le> mw_tick (enhance_memos env n to_do db)"
proof -
  have "extends env w (join_below env 1 (enhance_loop env to_do 0 w))" for w
    by (rule extends_trans [OF enhance_loop_extends join_below_extends])
  from this [of "\<lparr>mw_tick = n, mw_db = db, mw_running = [], mw_ended = 0, mw_enhanced = 0, mw_percents = []\<rparr>"]
  show ?thesis unfolding enhance_memos_def extends_def by simp
qed

text \<open>C27: The memo enhancement ends and adds memos only: after it, in every interleaving of the tasks, the rows of both note tables are the old
  ones in their order; a note that had a memo keeps it, and a note that got one got it from an output with its index, in its pool, of an answer of the
  server for its own transaction, mined at a height of 32 bits.  No task is left running.\<close>

theorem enhancement_only_adds:
  "let w = enhance_memos env n to_do db in memo_ext env db (mw_db w) \<and> mw_running w = []"
proof -
  have "join_set_len (enhance_memos env n to_do db) = 0" using join_below_len [of 1] by (auto simp: enhance_memos_def)
  then show ?thesis using enhance_memos_extends [of env db n to_do] by (simp add: join_set_len_def Let_def)
qed

end
