(* ===== verification/Sync_Loop.thy ===== *)
theory Sync_Loop
  imports Sync Sync_Memo Tx_Service
begin

text \<open>
  The sync task of \<open>crates/zbag-engine/src/sync_service.rs\<close>: waiting for Tor, preparing, and the persistent loop over chain tip, scan ranges, batches and poll delays,
  with its block cache, progress and balance events.  The wallet database (\<open>'w\<close>), the metadata of the block cache (\<open>'d\<close>) and tree states (\<open>'c\<close>) belong to other crates; their
  operations, the network, the clock and the cancellation flag are fields of \<open>sync_env\<close>.  The world counts its observations, and an observation is made at the
  current count, so that two readings may differ.  The messages that reach the scan loop of a range are given by the environment; \<open>Sync\<close> describes the
  task that sends them.
\<close>

section \<open>State and environment\<close>

record compact_block =
  cb_height :: nat
  cb_hash :: bytes
  cb_time :: nat
  cb_outputs :: "nat list"
  cb_actions :: "nat list"

record block_meta =
  bm_height :: nat
  bm_hash :: bytes
  bm_time :: nat
  bm_outputs :: nat
  bm_actions :: nat

record scan_range =
  sg_start :: nat
  sg_end :: nat
  sg_ignored :: bool

record wallet_summary =
  ws_scan :: "nat \<times> nat"
  ws_recovery :: "(nat \<times> nat) option"
  ws_fully_scanned :: nat

datatype download_msg = MsgBatch nat nat "compact_block list" | MsgComplete | MsgError | MsgCancelled

datatype scan_reply = ScanFine nat nat nat nat | ContinuityError nat | ScanErr string

datatype sync_call = CallSuggest "(string, scan_range list) result" | CallScan nat nat | CallTruncate nat

record ('w, 'd, 'f) sync_world =
  sl_tick :: nat
  sl_state :: "'f sync_state"
  sl_wallet :: 'w
  sl_meta :: 'd
  sl_files :: "(nat \<times> bytes) list"
  sl_throttle :: balance_throttle
  sl_balance_db :: bool
  sl_balances :: "nat \<rightharpoonup> balance"
  sl_balance_events :: "(nat \<times> balance) list"
  sl_progress_events :: "sync_progress list"
  sl_sleeps :: "nat list"
  sl_backoff :: nat
  sl_calls :: "sync_call list"

text \<open>\<open>se_join_ok\<close>: a blocking worker did not panic.  \<open>se_percent n d\<close>: the floating-point percentage of \<open>n / d\<close>, before it is clamped.
  \<open>se_scan start state limit meta files\<close> reads the cached blocks and changes the wallet.  \<open>se_download_ends\<close>: the download task of a range, which the scan
  loop awaits after it stopped receiving, ends; by \<open>Sync.sync_pipeline_can_hang\<close> it may not.\<close>

record ('w, 'd, 'c, 'f) sync_env =
  se_wallet_id :: uuid
  se_eta :: "'f eta_arith"
  se_now :: "nat \<Rightarrow> int"
  se_cancelled :: "nat \<Rightarrow> bool"
  se_join_ok :: "nat \<Rightarrow> bool"
  se_tor :: "(nat \<Rightarrow> tor_state) option"
  se_open_ok :: "nat \<Rightarrow> bool"
  se_cache_dir_ok :: bool
  se_fsblock_ok :: bool
  se_latest_block :: "nat \<Rightarrow> (string, nat) result"
  se_tree_state :: "nat \<Rightarrow> nat \<Rightarrow> (string, 'c) result"
  se_empty_state :: "nat \<Rightarrow> 'c"
  se_messages :: "nat \<Rightarrow> nat \<Rightarrow> nat \<Rightarrow> download_msg list"
  se_update_tip :: "nat \<Rightarrow> 'w \<Rightarrow> (string, unit) result \<times> 'w"
  se_suggest :: "'w \<Rightarrow> (string, scan_range list) result"
  se_summary :: "'w \<Rightarrow> wallet_summary option"
  se_percent :: "nat \<Rightarrow> nat \<Rightarrow> nat"
  se_chain_height :: "'w \<Rightarrow> nat option"
  se_scan :: "nat \<Rightarrow> 'c \<Rightarrow> nat \<Rightarrow> 'd \<Rightarrow> (nat \<times> bytes) list \<Rightarrow> 'w \<Rightarrow> scan_reply \<times> 'w"
  se_truncate :: "nat \<Rightarrow> 'w \<Rightarrow> (string, unit) result \<times> 'w"
  se_write_meta :: "block_meta list \<Rightarrow> 'd \<Rightarrow> 'd"
  se_truncate_meta :: "nat \<Rightarrow> 'd \<Rightarrow> 'd"
  se_create_ok :: "nat \<Rightarrow> nat \<Rightarrow> bool"
  se_write_ok :: "nat \<Rightarrow> nat \<Rightarrow> bool"
  se_delete_ok :: "nat \<times> bytes \<Rightarrow> bool"
  se_on_balance :: bool
  se_accounts :: "nat list"
  se_balance :: "nat \<Rightarrow> nat \<Rightarrow> (engine_error, balance) result"
  se_birthdays :: "'w \<Rightarrow> (string, nat list) result"
  se_tree_sizes :: "'c \<Rightarrow> nat \<times> nat"
  se_set_birthday :: "nat \<Rightarrow> nat \<times> nat \<Rightarrow> 'w \<Rightarrow> (string, unit) result \<times> 'w"
  se_download_ends :: "nat \<Rightarrow> bool"
  se_remove_cache_ok :: bool
  se_memo :: memo_env
  se_memo_db :: "'w \<Rightarrow> memo_db"
  se_put_memo_db :: "memo_db \<Rightarrow> 'w \<Rightarrow> 'w"

definition POLL_INTERVAL :: nat where "POLL_INTERVAL = 20"
definition MAX_POLL_BACKOFF :: nat where "MAX_POLL_BACKOFF = 5 * 60"

definition bump :: "('w, 'd, 'f) sync_world \<Rightarrow> ('w, 'd, 'f) sync_world" where
  "bump w = w\<lparr>sl_tick := sl_tick w + 1\<rparr>"

definition is_cancelled :: "('w, 'd, 'c, 'f) sync_env \<Rightarrow> ('w, 'd, 'f) sync_world \<Rightarrow> bool" where
  "is_cancelled env w = se_cancelled env (sl_tick w)"

definition mk_progress :: "sync_phase \<Rightarrow> nat \<Rightarrow> nat \<Rightarrow> nat \<Rightarrow> nat option \<Rightarrow> string option \<Rightarrow> sync_progress" where
  "mk_progress phase frontier tip pct retry msg = \<lparr>sp_phase = phase, sp_scan_frontier_height = frontier, sp_wallet_tip_height = tip, sp_progress_percent = pct,
     sp_eta_seconds = None, sp_retry_in_seconds = retry, sp_error_message = msg\<rparr>"

text \<open>The closures \<open>update\<close> and \<open>emit\<close> of the task.\<close>

definition sl_update :: "('w, 'd, 'c, 'f) sync_env \<Rightarrow> sync_progress \<Rightarrow> ('w, 'd, 'f) sync_world \<Rightarrow> ('w, 'd, 'f) sync_world" where
  "sl_update env p w =
     (let (p', s') = update_progress (se_eta env) (se_now env (sl_tick w)) (se_wallet_id env) p (sl_state w)
      in bump (w\<lparr>sl_state := s', sl_progress_events := sl_progress_events w @ [p']\<rparr>))"

section \<open>Balance events\<close>

definition record_balance :: "nat \<Rightarrow> balance \<Rightarrow> (nat \<rightharpoonup> balance) \<Rightarrow> bool \<times> (nat \<rightharpoonup> balance)" where
  "record_balance aid b bs = (if bs aid = Some b then (False, bs) else (True, bs(aid \<mapsto> b)))"

primrec emit_balance_events :: "(nat \<times> balance) list \<Rightarrow> ('w, 'd, 'f) sync_world \<Rightarrow> ('w, 'd, 'f) sync_world" where
  "emit_balance_events [] w = w"
| "emit_balance_events (x # xs) w =
     (let (new, bs) = record_balance (fst x) (snd x) (sl_balances w)
      in emit_balance_events xs (w\<lparr>sl_balances := bs, sl_balance_events := sl_balance_events w @ (if new then [x] else [])\<rparr>))"

definition fetch_balances :: "('w, 'd, 'c, 'f) sync_env \<Rightarrow> nat \<Rightarrow> (nat \<times> balance) list" where
  "fetch_balances env n = List.map_filter (\<lambda>aid. case se_balance env n aid of Inl _ \<Rightarrow> None | Inr b \<Rightarrow> Some (aid, b)) (se_accounts env)"

definition maybe_emit :: "('w, 'd, 'c, 'f) sync_env \<Rightarrow> balance_trigger \<Rightarrow> ('w, 'd, 'f) sync_world \<Rightarrow> ('w, 'd, 'f) sync_world" where
  "maybe_emit env trigger w =
     (if \<not> se_on_balance env then w
      else
        let (go, t) = should_emit_and_update trigger (se_now env (sl_tick w)) (sl_throttle w);
            w1 = bump (w\<lparr>sl_throttle := t\<rparr>) in
        if \<not> go \<or> \<not> sl_balance_db w1 \<and> \<not> se_open_ok env (sl_tick w1) then bump w1
        else
          let w2 = bump (w1\<lparr>sl_balance_db := False\<rparr>) in
          if se_join_ok env (sl_tick w2) then
            let w3 = bump (emit_balance_events (fetch_balances env (sl_tick w2)) (w2\<lparr>sl_balance_db := True\<rparr>))
            in w3\<lparr>sl_throttle := record_emit (se_now env (sl_tick w3)) (sl_throttle w3)\<rparr>
          else let w3 = bump w2 in bump (w3\<lparr>sl_balance_db := se_open_ok env (sl_tick w3)\<rparr>))"

section \<open>Wallet progress\<close>

definition calculate_progress_and_height :: "('w, 'd, 'c, 'f) sync_env \<Rightarrow> 'w \<Rightarrow> nat \<times> nat" where
  "calculate_progress_and_height env wal =
     (case se_summary env wal of
        None \<Rightarrow> (0, 0)
      | Some s \<Rightarrow>
          let numerator = fst (ws_scan s) + (case ws_recovery s of None \<Rightarrow> 0 | Some r \<Rightarrow> fst r);
              denominator = snd (ws_scan s) + (case ws_recovery s of None \<Rightarrow> 0 | Some r \<Rightarrow> snd r)
          in (if denominator = 0 then 100 else min 100 (se_percent env numerator denominator), ws_fully_scanned s))"

text \<open>\<open>get_progress_blocking\<close>: percentage, fully scanned height and chain height, or \<open>None\<close> when the worker panicked.\<close>

definition get_progress_blocking :: "('w, 'd, 'c, 'f) sync_env \<Rightarrow> ('w, 'd, 'f) sync_world \<Rightarrow> (nat \<times> nat \<times> nat option) option \<times> ('w, 'd, 'f) sync_world" where
  "get_progress_blocking env w =
     (if se_join_ok env (sl_tick w)
      then let (pct, fully) = calculate_progress_and_height env (sl_wallet w) in (Some (pct, fully, se_chain_height env (sl_wallet w)), bump w)
      else (None, bump w))"

definition worker_failed :: "('w, 'd, 'c, 'f) sync_env \<Rightarrow> nat \<Rightarrow> ('w, 'd, 'f) sync_world \<Rightarrow> ('w, 'd, 'f) sync_world" where
  "worker_failed env tip w = sl_update env (mk_progress SyError 0 tip 0 None (Some ''Sync worker failed'')) w"

section \<open>Batches\<close>

definition fetch_chain_state :: "('w, 'd, 'c, 'f) sync_env \<Rightarrow> nat \<Rightarrow> ('w, 'd, 'f) sync_world \<Rightarrow> (string, 'c) result \<times> ('w, 'd, 'f) sync_world" where
  "fetch_chain_state env height w =
     (if height = 0 then Inr (se_empty_state env 0) else se_tree_state env (sl_tick w) height, bump w)"

definition block_hash_of :: "bytes \<Rightarrow> bytes" where
  "block_hash_of h = (if length h = 32 then h else replicate 32 0)"

definition write_block_to_cache :: "('w, 'd, 'c, 'f) sync_env \<Rightarrow> nat \<Rightarrow> compact_block \<Rightarrow> (nat \<times> bytes) list \<Rightarrow> block_meta option \<times> (nat \<times> bytes) list" where
  "write_block_to_cache env n b files =
     (if u32_max < cb_height b \<or> \<not> se_create_ok env n (cb_height b) then (None, files)
      else
        let meta = \<lparr>bm_height = cb_height b, bm_hash = block_hash_of (cb_hash b), bm_time = cb_time b, bm_outputs = sum_list (cb_outputs b),
              bm_actions = sum_list (cb_actions b)\<rparr>
        in (if se_write_ok env n (cb_height b) then Some meta else None, List.insert (bm_height meta, bm_hash meta) files))"

primrec write_blocks :: "('w, 'd, 'c, 'f) sync_env \<Rightarrow> nat \<Rightarrow> compact_block list \<Rightarrow> (nat \<times> bytes) list \<Rightarrow> block_meta list \<times> (nat \<times> bytes) list" where
  "write_blocks env n [] files = ([], files)"
| "write_blocks env n (b # bs) files =
     (let (meta, files1) = write_block_to_cache env n b files; (metas, files2) = write_blocks env n bs files1
      in ((case meta of None \<Rightarrow> [] | Some m \<Rightarrow> [m]) @ metas, files2))"

definition write_blocks_to_cache :: "('w, 'd, 'c, 'f) sync_env \<Rightarrow> compact_block list \<Rightarrow> ('w, 'd, 'f) sync_world \<Rightarrow> block_meta list option \<times> ('w, 'd, 'f) sync_world" where
  "write_blocks_to_cache env blocks w =
     (if \<not> se_join_ok env (sl_tick w) then (None, bump w)
      else
        let (metas, files) = write_blocks env (sl_tick w) blocks (sl_files w)
        in (Some metas, bump (w\<lparr>sl_files := files, sl_meta := (if metas = [] then sl_meta w else se_write_meta env metas (sl_meta w))\<rparr>)))"

definition delete_cached_block_files_for_batch :: "('w, 'd, 'c, 'f) sync_env \<Rightarrow> block_meta list \<Rightarrow> (nat \<times> bytes) list \<Rightarrow> (nat \<times> bytes) list" where
  "delete_cached_block_files_for_batch env metas files =
     filter (\<lambda>f. f \<notin> (\<lambda>m. (bm_height m, bm_hash m)) ` set metas \<or> \<not> se_delete_ok env f) files"

definition delete_cached_block_files :: "('w, 'd, 'c, 'f) sync_env \<Rightarrow> nat \<Rightarrow> nat \<Rightarrow> (nat \<times> bytes) list \<Rightarrow> (nat \<times> bytes) list" where
  "delete_cached_block_files env start stop files = filter (\<lambda>f. \<not> (start \<le> fst f \<and> fst f < stop) \<or> \<not> se_delete_ok env f) files"

datatype scan_outcome = OutSuccess | OutReorg nat | OutError string

definition clamp_count :: "nat \<Rightarrow> nat" where "clamp_count n = min n u32_max"

definition rewind_wallet :: "('w, 'd, 'c, 'f) sync_env \<Rightarrow> nat \<Rightarrow> nat \<Rightarrow> ('w, 'd, 'f) sync_world \<Rightarrow> scan_outcome \<times> ('w, 'd, 'f) sync_world" where
  "rewind_wallet env at_height stop w =
     (let rewind = at_height - 10; (r, wal) = se_truncate env rewind (sl_wallet w);
          w1 = w\<lparr>sl_wallet := wal, sl_calls := sl_calls w @ [CallTruncate rewind]\<rparr>
      in case r of
           Inl e \<Rightarrow> (OutError (''truncate failed: '' @ e), w1)
         | Inr _ \<Rightarrow> (OutReorg rewind, w1\<lparr>sl_meta := se_truncate_meta env rewind (sl_meta w1),
             sl_files := delete_cached_block_files env (sat_add_u32 rewind 1) stop (sl_files w1)\<rparr>))"

definition scan_blocks :: "('w, 'd, 'c, 'f) sync_env \<Rightarrow> nat \<Rightarrow> 'c \<Rightarrow> nat \<Rightarrow> nat \<Rightarrow> ('w, 'd, 'f) sync_world
    \<Rightarrow> scan_outcome \<times> scan_activity \<times> ('w, 'd, 'f) sync_world" where
  "scan_blocks env start cst limit stop w =
     (let idle = \<lparr>sa_scanned_blocks = clamp_count limit, sa_spent_sapling = 0, sa_spent_orchard = 0, sa_received_sapling = 0, sa_received_orchard = 0\<rparr> in
      if limit = 0 then (OutSuccess, idle, w)
      else
        let (reply, wal) = se_scan env start cst limit (sl_meta w) (sl_files w) (sl_wallet w);
            w1 = w\<lparr>sl_wallet := wal, sl_calls := sl_calls w @ [CallScan start stop]\<rparr>
        in case reply of
             ScanFine a b c d \<Rightarrow>
               (OutSuccess, \<lparr>sa_scanned_blocks = clamp_count limit, sa_spent_sapling = clamp_count a, sa_spent_orchard = clamp_count b,
                  sa_received_sapling = clamp_count c, sa_received_orchard = clamp_count d\<rparr>, w1)
           | ContinuityError at_height \<Rightarrow> (let (out, w2) = rewind_wallet env at_height stop w1 in (out, idle, w2))
           | ScanErr e \<Rightarrow> (OutError e, idle, w1))"

text \<open>The closure of \<open>scan_batch_blocking\<close>, with the guard of the blocking scan around it.\<close>

definition scan_batch_blocking :: "('w, 'd, 'c, 'f) sync_env \<Rightarrow> nat \<Rightarrow> 'c \<Rightarrow> block_meta list \<Rightarrow> nat \<Rightarrow> ('w, 'd, 'f) sync_world
    \<Rightarrow> (scan_outcome \<times> scan_activity \<times> nat \<times> nat) option \<times> ('w, 'd, 'f) sync_world" where
  "scan_batch_blocking env start cst metas stop w0 =
     (let w = w0\<lparr>sl_state := acquire_blocking_scan (se_wallet_id env) (sl_state w0)\<rparr>;
          release = (\<lambda>v. bump (v\<lparr>sl_state := release_blocking_scan (se_wallet_id env) (sl_state v)\<rparr>)) in
      if \<not> se_join_ok env (sl_tick w) then (None, release w)
      else
        let (out, act, w1) = scan_blocks env start cst (length metas) stop w;
            w2 = (if out = OutSuccess \<and> metas \<noteq> []
                  then w1\<lparr>sl_meta := se_truncate_meta env (start - 1) (sl_meta w1), sl_files := delete_cached_block_files_for_batch env metas (sl_files w1)\<rparr> else w1);
            (pct, fully) = calculate_progress_and_height env (sl_wallet w2)
        in (Some (out, act, pct, fully), release w2))"

section \<open>Scan ranges\<close>

text \<open>How the scan loop of a range is left, and how a pass over the ranges ends.  After a reorganisation the loop is left like after a complete range.\<close>

datatype range_exit = RangeDone | RangeReorg nat | RangeFailed string | RangeCancelled | RangeWorkerFailed

datatype pass_exit = PassComplete | PassError string | PassStopped

definition process_batch :: "('w, 'd, 'c, 'f) sync_env \<Rightarrow> nat \<Rightarrow> nat \<Rightarrow> 'c option \<Rightarrow> nat \<Rightarrow> nat \<Rightarrow> compact_block list \<Rightarrow> ('w, 'd, 'f) sync_world
    \<Rightarrow> range_exit option \<times> ('w, 'd, 'f) sync_world" where
  "process_batch env tip wallet_tip prefetched a b blocks w =
     (case write_blocks_to_cache env blocks w of
        (None, w1) \<Rightarrow> (Some RangeWorkerFailed, worker_failed env tip w1)
      | (Some metas, w1) \<Rightarrow>
          (case (case prefetched of Some c \<Rightarrow> (Inr c, w1) | None \<Rightarrow> fetch_chain_state env (a - 1) w1) of
             (Inl e, w2) \<Rightarrow> (Some (RangeFailed ''Failed to fetch chain state''), w2)
           | (Inr cst, w2) \<Rightarrow>
               (case scan_batch_blocking env a cst metas b w2 of
                  (None, w3) \<Rightarrow> (Some RangeWorkerFailed, worker_failed env tip w3)
                | (Some (out, act, pct, fully), w3) \<Rightarrow>
                    (case out of
                       OutSuccess \<Rightarrow>
                         (None, maybe_emit env (SuccessfulScanBatch (sa_scanned_blocks act)) (sl_update env (mk_progress SyScanning fully wallet_tip pct None None) w3))
                     | OutReorg rewind \<Rightarrow> (Some (RangeReorg rewind), w3)
                     | OutError e \<Rightarrow> (Some (RangeFailed (''Failed to scan blocks: '' @ e)), w3)))))"

fun scan_loop :: "('w, 'd, 'c, 'f) sync_env \<Rightarrow> nat \<Rightarrow> nat \<Rightarrow> 'c option \<Rightarrow> download_msg list \<Rightarrow> ('w, 'd, 'f) sync_world
    \<Rightarrow> range_exit \<times> ('w, 'd, 'f) sync_world" where
  "scan_loop env tip wallet_tip prefetched [] w = (RangeDone, w)"
| "scan_loop env tip wallet_tip prefetched (MsgComplete # ms) w = (RangeDone, w)"
| "scan_loop env tip wallet_tip prefetched (MsgError # ms) w = (RangeFailed ''Failed to download blocks'', w)"
| "scan_loop env tip wallet_tip prefetched (MsgCancelled # ms) w = (RangeCancelled, w)"
| "scan_loop env tip wallet_tip prefetched (MsgBatch a b blocks # ms) w =
     (if is_cancelled env w then (RangeCancelled, bump w)
      else case process_batch env tip wallet_tip prefetched a b blocks (bump w) of
        (Some exit, w1) \<Rightarrow> (exit, w1)
      | (None, w1) \<Rightarrow> scan_loop env tip wallet_tip None ms w1)"

definition stop_cancelled :: "('w, 'd, 'c, 'f) sync_env \<Rightarrow> ('w, 'd, 'f) sync_world \<Rightarrow> ('w, 'd, 'f) sync_world" where
  "stop_cancelled env w = sl_update env default_progress (maybe_emit env ForcedMilestone w)"

text \<open>After the scan loop of a range.\<close>

definition finish_range :: "('w, 'd, 'c, 'f) sync_env \<Rightarrow> nat \<Rightarrow> nat \<Rightarrow> range_exit \<Rightarrow> ('w, 'd, 'f) sync_world \<Rightarrow> pass_exit option \<times> ('w, 'd, 'f) sync_world" where
  "finish_range env tip wallet_tip exit w =
     (case exit of
        RangeCancelled \<Rightarrow> (Some PassStopped, stop_cancelled env w)
      | RangeFailed msg \<Rightarrow> (Some (PassError msg), w)
      | _ \<Rightarrow>
          (case get_progress_blocking env w of
             (None, w1) \<Rightarrow> (Some PassStopped, worker_failed env tip w1)
           | (Some (pct, fully, _), w1) \<Rightarrow> (None, sl_update env (mk_progress SyScanning fully wallet_tip pct None None) w1)))"

text \<open>One iteration of the loop over the suggested ranges; \<open>Some (None, w)\<close> goes on with the next range, \<open>None\<close> waits for the download task for ever.\<close>

definition sync_range :: "('w, 'd, 'c, 'f) sync_env \<Rightarrow> nat \<Rightarrow> scan_range \<Rightarrow> ('w, 'd, 'f) sync_world \<Rightarrow> (pass_exit option \<times> ('w, 'd, 'f) sync_world) option" where
  "sync_range env tip r w =
     (if is_cancelled env w then Some (Some PassStopped, stop_cancelled env (bump w))
      else if sg_ignored r then Some (None, bump w)
      else case get_progress_blocking env (bump w) of
        (None, w1) \<Rightarrow> Some (Some PassStopped, worker_failed env tip w1)
      | (Some (_, _, chain_height), w1) \<Rightarrow>
          let wallet_tip = (case chain_height of None \<Rightarrow> sg_start r | Some h \<Rightarrow> h) in
          (case get_progress_blocking env w1 of
             (None, w2) \<Rightarrow> Some (Some PassStopped, worker_failed env tip w2)
           | (Some (pct, fully, _), w2) \<Rightarrow>
               let w3 = sl_update env (mk_progress SyDownloading (max fully (sg_start r - 1)) wallet_tip pct None None) w2 in
               (case fetch_chain_state env (sg_start r - 1) w3 of
                  (Inl e, w4) \<Rightarrow> Some (Some (PassError ''Failed to fetch chain state''), w4)
                | (Inr cst, w4) \<Rightarrow>
                    (case scan_loop env tip wallet_tip (Some cst) (se_messages env (sl_tick w4) (sg_start r) (sg_end r)) (bump w4) of
                       (RangeWorkerFailed, w5) \<Rightarrow> Some (Some PassStopped, w5)
                     | (exit, w5) \<Rightarrow>
                         if \<not> se_download_ends env (sl_tick w5) then None
                         else Some (finish_range env tip wallet_tip exit (bump w5))))))"

primrec sync_ranges :: "('w, 'd, 'c, 'f) sync_env \<Rightarrow> nat \<Rightarrow> scan_range list \<Rightarrow> ('w, 'd, 'f) sync_world \<Rightarrow> (pass_exit option \<times> ('w, 'd, 'f) sync_world) option" where
  "sync_ranges env tip [] w = Some (None, w)"
| "sync_ranges env tip (r # rs) w =
     Option.bind (sync_range env tip r w) (\<lambda>(exit, w1). if exit \<noteq> None then Some (exit, w1) else sync_ranges env tip rs w1)"

text \<open>The loop over passes ends when nothing is left to scan, on an error or when stopped; it may go on for ever.\<close>

partial_function (option) sync_pass :: "('w, 'd, 'c, 'f) sync_env \<Rightarrow> nat \<Rightarrow> ('w, 'd, 'f) sync_world \<Rightarrow> (pass_exit \<times> ('w, 'd, 'f) sync_world) option" where
  "sync_pass env tip w =
     (if is_cancelled env w then Some (PassStopped, stop_cancelled env (bump w))
      else if \<not> se_join_ok env (sl_tick w) then Some (PassStopped, worker_failed env tip (bump w))
      else
        let w1 = bump (w\<lparr>sl_calls := sl_calls w @ [CallSuggest (se_suggest env (sl_wallet w))]\<rparr>) in
        (case se_suggest env (sl_wallet w) of
           Inl e \<Rightarrow> Some (PassError ''Failed to determine scan ranges'', w1)
         | Inr ranges \<Rightarrow>
             if ranges = [] then Some (PassComplete, w1)
             else Option.bind (sync_ranges env tip ranges w1) (\<lambda>(exit, w2).
               case exit of Some e \<Rightarrow> Some (e, w2) | None \<Rightarrow> sync_pass env tip w2)))"

section \<open>The persistent loop\<close>

definition sleep_for :: "nat \<Rightarrow> ('w, 'd, 'f) sync_world \<Rightarrow> ('w, 'd, 'f) sync_world" where
  "sleep_for n w = w\<lparr>sl_sleeps := sl_sleeps w @ [n]\<rparr>"

definition sleep_backoff :: "('w, 'd, 'f) sync_world \<Rightarrow> ('w, 'd, 'f) sync_world" where
  "sleep_backoff w = (sleep_for (sl_backoff w) w)\<lparr>sl_backoff := min (sl_backoff w * 2) MAX_POLL_BACKOFF\<rparr>"

text \<open>The end of a complete pass.  The progress events of the memo pages are emitted in their order.\<close>

primrec emit_enhancing :: "('w, 'd, 'c, 'f) sync_env \<Rightarrow> nat \<Rightarrow> nat list \<Rightarrow> ('w, 'd, 'f) sync_world \<Rightarrow> ('w, 'd, 'f) sync_world" where
  "emit_enhancing env tip [] w = w"
| "emit_enhancing env tip (p # ps) w = emit_enhancing env tip ps (sl_update env (mk_progress SyEnhancing tip tip p None None) w)"

definition enhance_wallet :: "('w, 'd, 'c, 'f) sync_env \<Rightarrow> nat \<Rightarrow> nat \<Rightarrow> ('w, 'd, 'f) sync_world \<Rightarrow> ('w, 'd, 'f) sync_world" where
  "enhance_wallet env tip to_do w =
     (let m = enhance_memos ((se_memo env)\<lparr>me_cancelled := se_cancelled env\<rparr>) (sl_tick w) to_do (se_memo_db env (sl_wallet w))
      in emit_enhancing env tip (mw_percents m) (w\<lparr>sl_tick := mw_tick m, sl_wallet := se_put_memo_db env (mw_db m) (sl_wallet w)\<rparr>))"

definition finish_pass :: "('w, 'd, 'c, 'f) sync_env \<Rightarrow> nat \<Rightarrow> ('w, 'd, 'f) sync_world \<Rightarrow> ('w, 'd, 'f) sync_world" where
  "finish_pass env tip w =
     (let to_do = (case count_txids_needing_memo_enhancement (se_memo env) (sl_tick w) (se_memo_db env (sl_wallet w)) of Inl _ \<Rightarrow> 0 | Inr n \<Rightarrow> n);
          w1 = sl_update env (mk_progress SyEnhancing tip tip (enhancement_progress 0 to_do) None None) (maybe_emit env ForcedMilestone (bump w));
          w2 = (if 0 < to_do then enhance_wallet env tip to_do w1 else w1)
      in maybe_emit env ForcedMilestone (sl_update env (mk_progress SyCatchingUp tip tip 100 None None) w2))"

text \<open>An iteration of the persistent loop; the result says whether the loop goes on.\<close>

definition report_error :: "('w, 'd, 'c, 'f) sync_env \<Rightarrow> nat \<Rightarrow> string \<Rightarrow> bool \<Rightarrow> ('w, 'd, 'f) sync_world \<Rightarrow> bool \<times> ('w, 'd, 'f) sync_world" where
  "report_error env tip msg notify w =
     (case get_progress_blocking env w of
        (None, w1) \<Rightarrow> (False, worker_failed env tip w1)
      | (Some (pct, fully, _), w1) \<Rightarrow>
          let w2 = sl_update env (mk_progress SyError fully tip pct (Some (sl_backoff w1)) (Some msg)) w1
          in (True, sleep_backoff (if notify then maybe_emit env ForcedMilestone w2 else w2)))"

definition auto_sync_step :: "('w, 'd, 'c, 'f) sync_env \<Rightarrow> ('w, 'd, 'f) sync_world \<Rightarrow> (bool \<times> ('w, 'd, 'f) sync_world) option" where
  "auto_sync_step env w0 =
     (let w = w0\<lparr>sl_throttle := start_new_auto_sync_iteration (sl_throttle w0)\<rparr> in
      if is_cancelled env w then Some (False, stop_cancelled env (bump w))
      else case se_latest_block env (sl_tick w) of
        Inl _ \<Rightarrow>
          (case get_progress_blocking env (bump w) of
             (None, w1) \<Rightarrow> Some (False, worker_failed env 0 w1)
           | (Some (pct, fully, chain_height), w1) \<Rightarrow>
               Some (True, sleep_backoff (sl_update env (mk_progress SyOffline fully (case chain_height of None \<Rightarrow> 0 | Some h \<Rightarrow> h) pct
                 (Some (sl_backoff w1)) None) w1)))
      | Inr tip \<Rightarrow>
          let w1 = bump (w\<lparr>sl_backoff := POLL_INTERVAL\<rparr>) in
          if \<not> se_join_ok env (sl_tick w1) then Some (False, worker_failed env tip (bump w1))
          else
            let (r, wal) = se_update_tip env tip (sl_wallet w1); w2 = bump (w1\<lparr>sl_wallet := wal\<rparr>) in
            (case r of
               Inl _ \<Rightarrow> Some (report_error env tip ''Failed to update wallet chain tip'' False w2)
             | Inr _ \<Rightarrow>
                 Option.bind (sync_pass env tip w2) (\<lambda>(exit, w3).
                 case exit of
                   PassStopped \<Rightarrow> Some (False, w3)
                 | PassError msg \<Rightarrow> Some (report_error env tip msg True w3)
                 | PassComplete \<Rightarrow> Some (True, sleep_for POLL_INTERVAL (finish_pass env tip w3)))))"

text \<open>At most \<open>n\<close> iterations.\<close>

primrec auto_sync :: "nat \<Rightarrow> ('w, 'd, 'c, 'f) sync_env \<Rightarrow> ('w, 'd, 'f) sync_world \<Rightarrow> (bool \<times> ('w, 'd, 'f) sync_world) option" where
  "auto_sync 0 env w = Some (True, w)"
| "auto_sync (Suc n) env w = Option.bind (auto_sync_step env w) (\<lambda>(again, w1). if again then auto_sync n env w1 else Some (False, w1))"

section \<open>The task\<close>

partial_function (option) wait_for_tor :: "('w, 'd, 'c, 'f) sync_env \<Rightarrow> (nat \<Rightarrow> tor_state) \<Rightarrow> ('w, 'd, 'f) sync_world
    \<Rightarrow> (bool \<times> ('w, 'd, 'f) sync_world) option" where
  "wait_for_tor env tor w =
     (if is_cancelled env w then Some (False, maybe_emit env ForcedMilestone (bump w))
      else
        let ts = tor (sl_tick w) in
        if \<not> ts_enabled ts \<or> ts_status ts = TorOn \<or> ts_status ts = TorError then Some (True, bump w)
        else wait_for_tor env tor (sleep_for 1 (bump w)))"

primrec backfill_heights :: "('w, 'd, 'c, 'f) sync_env \<Rightarrow> nat list \<Rightarrow> ('w, 'd, 'f) sync_world \<Rightarrow> bool \<times> ('w, 'd, 'f) sync_world" where
  "backfill_heights env [] w = (True, w)"
| "backfill_heights env (h # hs) w =
     (case fetch_chain_state env (h - 1) w of
        (Inl _, w1) \<Rightarrow> (True, w1)
      | (Inr cst, w1) \<Rightarrow>
          if \<not> se_join_ok env (sl_tick w1) then (False, bump w1)
          else let (r, wal) = se_set_birthday env h (se_tree_sizes env cst) (sl_wallet w1); w2 = bump (w1\<lparr>sl_wallet := wal\<rparr>)
               in case r of Inl _ \<Rightarrow> (True, w2) | Inr _ \<Rightarrow> backfill_heights env hs w2)"

text \<open>\<open>False\<close> when a worker panicked; other failures are only logged.\<close>

definition backfill_birthday_tree_sizes :: "('w, 'd, 'c, 'f) sync_env \<Rightarrow> ('w, 'd, 'f) sync_world \<Rightarrow> bool \<times> ('w, 'd, 'f) sync_world" where
  "backfill_birthday_tree_sizes env w =
     (if \<not> se_join_ok env (sl_tick w) then (False, bump w)
      else case se_birthdays env (sl_wallet w) of Inl _ \<Rightarrow> (True, bump w) | Inr hs \<Rightarrow> backfill_heights env hs (bump w))"

definition clear_job :: "uuid \<Rightarrow> ('w, 'd, 'f) sync_world \<Rightarrow> ('w, 'd, 'f) sync_world" where
  "clear_job wid w = (let s = sl_state w in w\<lparr>sl_state := s\<lparr>sy_jobs := sy_jobs s - {wid}, sy_started_at := (sy_started_at s)(wid := None)\<rparr>\<rparr>)"

text \<open>The task up to \<open>n\<close> iterations of its loop; the result says that it has ended.  \<open>prepared_task\<close> is the part after the wait for Tor.\<close>

definition prepared_task :: "nat \<Rightarrow> ('w, 'd, 'c, 'f) sync_env \<Rightarrow> ('w, 'd, 'f) sync_world \<Rightarrow> (bool \<times> ('w, 'd, 'f) sync_world) option" where
  "prepared_task n env w =
     (let wid = se_wallet_id env; w1 = sl_update env preparing_progress w in
      if is_cancelled env w1 \<or> \<not> se_cache_dir_ok env \<or> \<not> se_fsblock_ok env \<or> \<not> se_open_ok env (sl_tick w1)
      then Some (True, clear_job wid (stop_cancelled env (bump w1)))
      else
        (case backfill_birthday_tree_sizes env (bump w1) of
           (False, w2) \<Rightarrow> Some (True, clear_job wid (maybe_emit env ForcedMilestone (worker_failed env 0 w2)))
         | (True, w2) \<Rightarrow>
             Option.bind (auto_sync n env (w2\<lparr>sl_backoff := POLL_INTERVAL\<rparr>)) (\<lambda>(again, w3).
             if again then Some (False, w3)
             else Some (True, w3\<lparr>sl_files := (if se_remove_cache_ok env then [] else sl_files w3), sl_state := sync_task_end wid (sl_state w3)\<rparr>))))"

definition sync_task :: "nat \<Rightarrow> ('w, 'd, 'c, 'f) sync_env \<Rightarrow> ('w, 'd, 'f) sync_world \<Rightarrow> (bool \<times> ('w, 'd, 'f) sync_world) option" where
  "sync_task n env w0 =
     (let w = bump (w0\<lparr>sl_balance_db := se_on_balance env \<and> se_open_ok env (sl_tick w0)\<rparr>) in
      Option.bind (case se_tor env of None \<Rightarrow> Some (True, w) | Some tor \<Rightarrow> wait_for_tor env tor w) (\<lambda>(ready, w1).
      if \<not> ready then Some (True, w1\<lparr>sl_state := (sl_state w1)\<lparr>sy_jobs := sy_jobs (sl_state w1) - {se_wallet_id env}\<rparr>\<rparr>)
      else prepared_task n env w1))"

end
