(* ===== verification/Sync_Task.thy ===== *)
theory Sync_Task
  imports Sync_Loop
begin

text \<open>
  Properties of the sync task of \<open>Sync_Loop\<close>.  The relation \<open>evolves\<close> collects what every operation between two delays keeps: time goes
  on, no delay is made, the job table and the blocking scans are as before, progress events have one of the given phases, and balance events report changes
  only.  The theorems use it: a wallet is reported as caught up only when the backend has nothing left to scan, the delays between polls are
  bounded, the task ends once it is cancelled, and it then leaves no trace of a running sync.
\<close>

section \<open>Balance events\<close>

definition latest :: "nat \<Rightarrow> (nat \<times> balance) list \<Rightarrow> balance option" where
  "latest aid evs = (case filter (\<lambda>e. fst e = aid) evs of [] \<Rightarrow> None | e # es \<Rightarrow> Some (snd (last (e # es))))"

definition changes_only :: "(nat \<times> balance) list \<Rightarrow> bool" where
  "changes_only evs \<longleftrightarrow> (\<forall>i < length evs. latest (fst (evs ! i)) (take i evs) \<noteq> Some (snd (evs ! i)))"

definition balance_inv :: "('w, 'd, 'f) sync_world \<Rightarrow> bool" where
  "balance_inv w \<longleftrightarrow> (\<forall>aid. sl_balances w aid = latest aid (sl_balance_events w)) \<and> changes_only (sl_balance_events w)"

lemma latest_snoc: "latest aid (evs @ [e]) = (if fst e = aid then Some (snd e) else latest aid evs)"
  by (cases "filter (\<lambda>e. fst e = aid) evs") (auto simp: latest_def)

lemma changes_only_snoc: "changes_only (evs @ [e]) \<longleftrightarrow> changes_only evs \<and> latest (fst e) evs \<noteq> Some (snd e)"
  by (auto simp: changes_only_def nth_append less_Suc_eq)

lemma emit_balance_inv: "balance_inv w \<Longrightarrow> balance_inv (emit_balance_events xs w)"
proof (induction xs arbitrary: w)
  case (Cons x xs)
  have "balance_inv (w\<lparr>sl_balances := snd (record_balance (fst x) (snd x) (sl_balances w)),
      sl_balance_events := sl_balance_events w @ (if fst (record_balance (fst x) (snd x) (sl_balances w)) then [x] else [])\<rparr>)"
    using Cons.prems by (auto simp: balance_inv_def record_balance_def latest_snoc changes_only_snoc)
  then show ?case using Cons.IH by (simp add: Let_def case_prod_unfold)
qed simp

lemma emit_balance_keeps:
  "sl_tick (emit_balance_events xs w) = sl_tick w \<and> sl_sleeps (emit_balance_events xs w) = sl_sleeps w \<and> sl_backoff (emit_balance_events xs w) = sl_backoff w
   \<and> sl_state (emit_balance_events xs w) = sl_state w \<and> sl_progress_events (emit_balance_events xs w) = sl_progress_events w
   \<and> sl_wallet (emit_balance_events xs w) = sl_wallet w \<and> sl_calls (emit_balance_events xs w) = sl_calls w"
  by (induction xs arbitrary: w) (simp_all add: Let_def case_prod_unfold)

section \<open>What operations keep\<close>

text \<open>The phase \<open>Idle\<close> is reported with the default progress only.\<close>

definition idle_is_zero :: "sync_progress \<Rightarrow> bool" where
  "idle_is_zero p \<longleftrightarrow> sp_phase p = SyIdle \<longrightarrow> sp_progress_percent p = 0"

definition evolves :: "uuid \<Rightarrow> (sync_phase \<Rightarrow> bool) \<Rightarrow> ('w, 'd, 'f) sync_world \<Rightarrow> ('w, 'd, 'f) sync_world \<Rightarrow> bool" where
  "evolves wid Q w w' \<longleftrightarrow>
     sl_tick w \<le> sl_tick w' \<and> sl_sleeps w' = sl_sleeps w \<and> sl_backoff w' = sl_backoff w
     \<and> sy_jobs (sl_state w') = sy_jobs (sl_state w)
     \<and> (sy_blocking_scans (sl_state w) wid \<noteq> Some 0 \<longrightarrow> sy_blocking_scans (sl_state w') = sy_blocking_scans (sl_state w))
     \<and> (\<exists>es. sl_progress_events w' = sl_progress_events w @ es \<and> list_all (\<lambda>p. Q (sp_phase p) \<and> idle_is_zero p) es)
     \<and> (\<exists>cs. sl_calls w' = sl_calls w @ cs) \<and> (balance_inv w \<longrightarrow> balance_inv w')"

lemma evolves_refl [simp, intro]: "evolves wid Q w w"
  by (simp add: evolves_def)

lemma evolves_trans [trans]: "evolves wid Q a b \<Longrightarrow> evolves wid Q b c \<Longrightarrow> evolves wid Q a c"
  unfolding evolves_def by force

lemma balance_inv_other [simp]:
  "balance_inv (w\<lparr>sl_tick := t\<rparr>) = balance_inv w" "balance_inv (w\<lparr>sl_state := s\<rparr>) = balance_inv w" "balance_inv (w\<lparr>sl_wallet := x\<rparr>) = balance_inv w"
  "balance_inv (w\<lparr>sl_meta := d\<rparr>) = balance_inv w" "balance_inv (w\<lparr>sl_files := f\<rparr>) = balance_inv w" "balance_inv (w\<lparr>sl_throttle := th\<rparr>) = balance_inv w"
  "balance_inv (w\<lparr>sl_balance_db := b\<rparr>) = balance_inv w" "balance_inv (w\<lparr>sl_calls := c\<rparr>) = balance_inv w" "balance_inv (w\<lparr>sl_sleeps := sl\<rparr>) = balance_inv w"
  "balance_inv (w\<lparr>sl_backoff := k\<rparr>) = balance_inv w" "balance_inv (w\<lparr>sl_progress_events := ev\<rparr>) = balance_inv w"
  by (simp_all add: balance_inv_def)

lemma evolves_other [simp]:
  "evolves wid Q w (v\<lparr>sl_wallet := x\<rparr>) = evolves wid Q w v" "evolves wid Q w (v\<lparr>sl_meta := d\<rparr>) = evolves wid Q w v"
  "evolves wid Q w (v\<lparr>sl_files := f\<rparr>) = evolves wid Q w v" "evolves wid Q w (v\<lparr>sl_throttle := th\<rparr>) = evolves wid Q w v"
  "evolves wid Q w (v\<lparr>sl_balance_db := b\<rparr>) = evolves wid Q w v"
  by (simp_all add: evolves_def)

lemma call_evolves: "evolves wid Q w v \<Longrightarrow> evolves wid Q w (v\<lparr>sl_calls := sl_calls v @ cs\<rparr>)"
  unfolding evolves_def by auto

lemma bump_evolves [intro]: "evolves wid Q w v \<Longrightarrow> evolves wid Q w (bump v)"
  by (auto simp: evolves_def bump_def)

lemma bump_tick [simp]: "sl_tick (bump w) = sl_tick w + 1"
  by (simp add: bump_def)

lemma evolves_tick: "evolves wid Q w v \<Longrightarrow> sl_tick w \<le> sl_tick v"
  by (simp add: evolves_def)

lemma after_bump: "evolves wid Q (bump w) v \<Longrightarrow> evolves wid Q w v \<and> sl_tick w < sl_tick v"
  using evolves_trans [OF bump_evolves [OF evolves_refl], of wid Q w v] evolves_tick [of wid Q "bump w" v] by simp

lemma emit_balance_evolves: "evolves wid Q w v \<Longrightarrow> evolves wid Q w (emit_balance_events xs v)"
  using emit_balance_inv [of v xs] emit_balance_keeps [of xs v] by (simp add: evolves_def)

lemma maybe_emit_evolves [intro]: "evolves wid Q w v \<Longrightarrow> evolves wid Q w (maybe_emit env trigger v)"
  by (simp add: maybe_emit_def Let_def case_prod_unfold bump_evolves emit_balance_evolves)

lemma maybe_emit_keeps [simp]: "sl_state (maybe_emit env trigger v) = sl_state v" "sl_calls (maybe_emit env trigger v) = sl_calls v"
  "sl_progress_events (maybe_emit env trigger v) = sl_progress_events v"
  by (simp_all add: maybe_emit_def Let_def case_prod_unfold bump_def emit_balance_keeps)

section \<open>Progress\<close>

text \<open>The estimate changes the percentage and the remaining time of a progress only.\<close>

definition same_place :: "sync_progress \<Rightarrow> sync_progress \<Rightarrow> bool" where
  "same_place p q \<longleftrightarrow> sp_phase q = sp_phase p \<and> sp_scan_frontier_height q = sp_scan_frontier_height p
     \<and> sp_wallet_tip_height q = sp_wallet_tip_height p \<and> sp_retry_in_seconds q = sp_retry_in_seconds p"

lemma same_place_refl [simp]: "same_place p p"
  by (simp add: same_place_def)

lemma same_place_upd [simp]:
  "same_place p (q\<lparr>sp_eta_seconds := e\<rparr>) = same_place p q" "same_place p (q\<lparr>sp_progress_percent := n\<rparr>) = same_place p q"
  by (simp_all add: same_place_def)

lemma same_place_trans: "same_place p q \<Longrightarrow> same_place q r \<Longrightarrow> same_place p r"
  by (simp add: same_place_def)

lemma eta_observe_place: "same_place p (fst (eta_observe now p e))"
  unfolding eta_observe_def Let_def by (auto split: option.split)

lemma eta_finish_place: "same_place p (fst (eta_finish ea now dt target p e))"
  unfolding eta_finish_def Let_def by simp

lemma eta_update_place: "same_place p (fst (eta_update ea now dt target p e))"
  unfolding eta_update_def Let_def by (auto split: option.split simp: eta_finish_place)

lemma with_eta_keeps: "same_place p (fst (with_eta ea now wid p s))"
proof -
  have "same_place p (fst (eta_update ea now dt target (fst (eta_observe now p e)) e'))" for dt target e e'
    by (rule same_place_trans [OF eta_observe_place eta_update_place])
  then show ?thesis unfolding with_eta_def Let_def case_prod_unfold using eta_observe_place
    by (auto split: option.split)
qed

lemma with_eta_idle: "idle_is_zero p \<Longrightarrow> idle_is_zero (fst (with_eta ea now wid p s))"
  using with_eta_keeps [of p ea now wid s] unfolding idle_is_zero_def same_place_def by (simp add: with_eta_def)

lemma sl_update_keeps:
  "sy_jobs (sl_state (sl_update env p w)) = sy_jobs (sl_state w)" "sy_blocking_scans (sl_state (sl_update env p w)) = sy_blocking_scans (sl_state w)"
  "sl_tick (sl_update env p w) = sl_tick w + 1" "sl_sleeps (sl_update env p w) = sl_sleeps w" "sl_backoff (sl_update env p w) = sl_backoff w"
  "sl_wallet (sl_update env p w) = sl_wallet w" "sl_balances (sl_update env p w) = sl_balances w" "sl_balance_events (sl_update env p w) = sl_balance_events w"
  "sl_calls (sl_update env p w) = sl_calls w"
  using with_eta_state [of "se_eta env" "se_now env (sl_tick w)" "se_wallet_id env" p "sl_state w"]
  by (simp_all add: sl_update_def update_progress_def case_prod_unfold Let_def bump_def)

lemma sl_update_emits:
  "\<exists>p'. sl_progress_events (sl_update env p w) = sl_progress_events w @ [p'] \<and> sy_progress (sl_state (sl_update env p w)) (se_wallet_id env) = Some p'
     \<and> same_place p p' \<and> (idle_is_zero p \<longrightarrow> idle_is_zero p')"
  using with_eta_keeps [of p "se_eta env" "se_now env (sl_tick w)" "se_wallet_id env" "sl_state w"]
    with_eta_idle [of p "se_eta env" "se_now env (sl_tick w)" "se_wallet_id env" "sl_state w"]
  by (simp add: sl_update_def update_progress_def case_prod_unfold Let_def bump_def)

lemma sl_update_evolves [intro]:
  assumes "evolves wid Q w v" "Q (sp_phase p)" "idle_is_zero p"
  shows "evolves wid Q w (sl_update env p v)"
proof -
  have "evolves wid Q v (sl_update env p v)"
    using sl_update_emits [of env p v] assms(2,3) by (auto simp: evolves_def sl_update_keeps balance_inv_def same_place_def)
  with assms(1) show ?thesis by (rule evolves_trans)
qed

lemma mk_progress_sel [simp]:
  "sp_phase (mk_progress ph fr tp pct retry msg) = ph" "sp_scan_frontier_height (mk_progress ph fr tp pct retry msg) = fr"
  "sp_wallet_tip_height (mk_progress ph fr tp pct retry msg) = tp" "sp_retry_in_seconds (mk_progress ph fr tp pct retry msg) = retry"
  by (simp_all add: mk_progress_def)

lemma idle_mk_progress [simp]: "ph \<noteq> SyIdle \<Longrightarrow> idle_is_zero (mk_progress ph fr tp pct retry msg)"
  by (simp add: idle_is_zero_def)

lemma idle_defaults [simp]: "idle_is_zero default_progress" "idle_is_zero preparing_progress"
  by (simp_all add: idle_is_zero_def default_progress_def preparing_progress_def)

lemma worker_failed_evolves [intro]: "evolves wid Q w v \<Longrightarrow> Q SyError \<Longrightarrow> evolves wid Q w (worker_failed env tip v)"
  unfolding worker_failed_def by (rule sl_update_evolves) simp_all

lemma stop_cancelled_evolves [intro]: "evolves wid Q w v \<Longrightarrow> Q SyIdle \<Longrightarrow> evolves wid Q w (stop_cancelled env v)"
  unfolding stop_cancelled_def by (intro sl_update_evolves maybe_emit_evolves) (simp_all, simp add: default_progress_def)

lemma get_progress_evolves: "get_progress_blocking env v = (r, v') \<Longrightarrow> evolves wid Q w v \<Longrightarrow> evolves wid Q w v' \<and> sl_tick v' = sl_tick v + 1"
  by (auto simp: get_progress_blocking_def case_prod_unfold Let_def split: if_splits)

lemma fetch_chain_evolves: "fetch_chain_state env h v = (r, v') \<Longrightarrow> evolves wid Q w v \<Longrightarrow> evolves wid Q w v'"
  by (auto simp: fetch_chain_state_def)

section \<open>Batches\<close>

lemma write_cache_evolves: "write_blocks_to_cache env blocks v = (r, v') \<Longrightarrow> evolves wid Q w v \<Longrightarrow> evolves wid Q w v'"
  by (auto simp: write_blocks_to_cache_def case_prod_unfold Let_def split: if_splits)

text \<open>A scan touches the wallet, the block cache and the log of calls only.\<close>

definition same_control :: "('w, 'd, 'f) sync_world \<Rightarrow> ('w, 'd, 'f) sync_world \<Rightarrow> bool" where
  "same_control w v \<longleftrightarrow> (\<exists>cs. sl_calls v = sl_calls w @ cs) \<and> sl_tick v = sl_tick w \<and> sl_state v = sl_state w \<and> sl_sleeps v = sl_sleeps w \<and> sl_backoff v = sl_backoff w
     \<and> sl_progress_events v = sl_progress_events w \<and> sl_balances v = sl_balances w \<and> sl_balance_events v = sl_balance_events w"

lemma scan_blocks_control: "same_control w (snd (snd (scan_blocks env start cst limit stop w)))"
  by (auto simp: scan_blocks_def rewind_wallet_def same_control_def Let_def case_prod_unfold split: scan_reply.splits sum.splits)

lemma release_acquire:
  assumes "sy_blocking_scans s wid \<noteq> Some 0"
  shows "sy_blocking_scans (release_blocking_scan wid (acquire_blocking_scan wid s)) = sy_blocking_scans s"
  using assms by (auto simp: release_blocking_scan_def acquire_blocking_scan_def fun_eq_iff split: option.splits)

lemma scan_guard_jobs [simp]:
  "sy_jobs (release_blocking_scan wid s) = sy_jobs s" "sy_jobs (acquire_blocking_scan wid s) = sy_jobs s"
  by (simp_all add: release_blocking_scan_def acquire_blocking_scan_def split: option.split)

lemma scan_batch_evolves:
  assumes "scan_batch_blocking env start cst metas stop v = (r, v')" "evolves (se_wallet_id env) Q w v"
  shows "evolves (se_wallet_id env) Q w v'"
proof -
  let ?a = "v\<lparr>sl_state := acquire_blocking_scan (se_wallet_id env) (sl_state v)\<rparr>"
  have "evolves (se_wallet_id env) Q v v'"
    using assms(1) scan_blocks_control [of ?a env start cst "length metas" stop]
    by (auto simp: scan_batch_blocking_def evolves_def bump_def same_control_def release_acquire balance_inv_def Let_def case_prod_unfold split: if_splits)
  with assms(2) show ?thesis by (rule evolves_trans)
qed

section \<open>Ranges and passes\<close>

definition pass_phase :: "sync_phase \<Rightarrow> bool" where
  "pass_phase ph \<longleftrightarrow> ph \<in> {SyIdle, SyDownloading, SyScanning, SyError}"

abbreviation pass_evolves :: "('w, 'd, 'c, 'f) sync_env \<Rightarrow> ('w, 'd, 'f) sync_world \<Rightarrow> ('w, 'd, 'f) sync_world \<Rightarrow> bool" where
  "pass_evolves env \<equiv> evolves (se_wallet_id env) pass_phase"

lemma pass_phases [simp]: "pass_phase SyIdle" "pass_phase SyDownloading" "pass_phase SyScanning" "pass_phase SyError" "\<not> pass_phase SyCatchingUp"
  by (simp_all add: pass_phase_def)

lemma process_batch_evolves:
  assumes "process_batch env tip wallet_tip prefetched a b blocks v = (r, v')"
  shows "pass_evolves env v v'"
proof -
  obtain x1 v1 where 1: "write_blocks_to_cache env blocks v = (x1, v1)" by fastforce
  obtain x2 v2 where 2: "(case prefetched of Some c \<Rightarrow> (Inr c, v1) | None \<Rightarrow> fetch_chain_state env (a - 1) v1) = (x2, v2)" by fastforce
  have e1: "pass_evolves env v v1" by (rule write_cache_evolves [OF 1]) simp
  have e2: "pass_evolves env v v2" using 2 e1 by (auto split: option.splits intro: fetch_chain_evolves)
  show ?thesis
  proof (cases x1)
    case None
    then show ?thesis using assms 1 e1 by (auto simp: process_batch_def)
  next
    case (Some metas)
    show ?thesis
    proof (cases x2)
      case (Inl e)
      then show ?thesis using assms 1 2 Some e2 by (auto simp: process_batch_def)
    next
      case (Inr cst)
      obtain x3 v3 where 3: "scan_batch_blocking env a cst metas b v2 = (x3, v3)" by fastforce
      have e3: "pass_evolves env v v3" by (rule scan_batch_evolves [OF 3 e2])
      then show ?thesis using assms 1 2 3 Some Inr
        by (auto simp: process_batch_def split: option.splits scan_outcome.splits intro!: maybe_emit_evolves sl_update_evolves)
    qed
  qed
qed

lemma scan_loop_evolves:
  assumes "scan_loop env tip wallet_tip prefetched ms v = (r, v')"
  shows "pass_evolves env v v'"
  using assms
proof (induction env tip wallet_tip prefetched ms v rule: scan_loop.induct)
  case (5 env tip wallet_tip prefetched a b blocks ms w)
  obtain x w1 where p: "process_batch env tip wallet_tip prefetched a b blocks (bump w) = (x, w1)" by fastforce
  have e: "pass_evolves env w w1" using evolves_trans [OF bump_evolves process_batch_evolves [OF p]] by blast
  show ?case
  proof (cases "is_cancelled env w")
    case False
    then show ?thesis
    proof (cases x)
      case None
      with False 5 p have "pass_evolves env w1 v'" by simp
      with e show ?thesis by (rule evolves_trans)
    qed (use 5 p e False in auto)
  qed (use 5 in auto)
qed auto

lemma finish_range_evolves:
  assumes "finish_range env tip wallet_tip exit v = (r, v')" "pass_evolves env w v"
  shows "pass_evolves env w v'"
proof -
  obtain x v1 where g: "get_progress_blocking env v = (x, v1)" by fastforce
  have e: "pass_evolves env w v1" using get_progress_evolves [OF g assms(2)] by simp
  show ?thesis using assms g e
    by (cases x) (auto simp: finish_range_def split: range_exit.splits intro!: sl_update_evolves worker_failed_evolves stop_cancelled_evolves)
qed

lemma sync_range_evolves:
  assumes "sync_range env tip r w = Some (x, w')"
  shows "pass_evolves env w w' \<and> sl_tick w < sl_tick w'"
proof -
  obtain x1 w1 where 1: "get_progress_blocking env (bump w) = (x1, w1)" by fastforce
  obtain x2 w2 where 2: "get_progress_blocking env w1 = (x2, w2)" by fastforce
  have e1: "pass_evolves env (bump w) w1" using get_progress_evolves [OF 1] by blast
  have e2: "pass_evolves env (bump w) w2" using get_progress_evolves [OF 2 e1] by blast
  consider (cancelled) "w' = stop_cancelled env (bump w)" | (ignored) "w' = bump w" | (failed1) "w' = worker_failed env tip w1" | (failed2) "w' = worker_failed env tip w2"
    | (going) pct fully h wallet_tip x4 w4 where "x2 = Some (pct, fully, h)"
      "fetch_chain_state env (sg_start r - 1) (sl_update env (mk_progress SyDownloading (max fully (sg_start r - 1)) wallet_tip pct None None) w2) = (x4, w4)"
      "w' = w4 \<or> (\<exists>cst ms exit w5. x4 = Inr cst \<and> scan_loop env tip wallet_tip (Some cst) ms (bump w4) = (exit, w5)
         \<and> (w' = w5 \<or> finish_range env tip wallet_tip exit (bump w5) = (x, w')))"
  proof (cases "is_cancelled env w \<or> sg_ignored r \<or> x1 = None \<or> x2 = None")
    case True
    then show ?thesis using assms 1 2 that(1-4) by (auto simp: sync_range_def Let_def split: if_splits option.splits)
  next
    case False
    then obtain y pct fully h where x: "x1 = Some y" "x2 = Some (pct, fully, h)" by (metis prod_cases3 option.exhaust)
    define wallet_tip where "wallet_tip = (case snd (snd y) of None \<Rightarrow> sg_start r | Some h \<Rightarrow> h)"
    obtain x4 w4 where 4: "fetch_chain_state env (sg_start r - 1) (sl_update env (mk_progress SyDownloading (max fully (sg_start r - 1)) wallet_tip pct None None) w2) = (x4, w4)"
      by fastforce
    obtain exit w5 where 5: "scan_loop env tip wallet_tip (Some (projr x4)) (se_messages env (sl_tick w4) (sg_start r) (sg_end r)) (bump w4) = (exit, w5)" by fastforce
    have "w' = w4 \<or> (\<exists>cst. x4 = Inr cst \<and> (w' = w5 \<or> finish_range env tip wallet_tip exit (bump w5) = (x, w')))"
      using assms 1 2 4 5 False x
      by (cases x4; cases exit) (simp_all add: sync_range_def Let_def wallet_tip_def case_prod_unfold split: if_splits)
    then show ?thesis using that(5) [OF x(2) 4] 5 by (metis sum.sel(2))
  qed
  then show ?thesis
  proof cases
    case going
    have "pass_evolves env (bump w) (sl_update env (mk_progress SyDownloading (max fully (sg_start r - 1)) wallet_tip pct None None) w2)"
      by (rule sl_update_evolves [OF e2]) simp_all
    then have e4: "pass_evolves env (bump w) w4" by (rule fetch_chain_evolves [OF going(2)])
    have "pass_evolves env (bump w) w'" if "scan_loop env tip wallet_tip (Some cst) ms (bump w4) = (exit, w5)"
      "w' = w5 \<or> finish_range env tip wallet_tip exit (bump w5) = (x, w')" for cst ms exit w5
    proof -
      have "pass_evolves env (bump w) w5" by (rule evolves_trans [OF bump_evolves [OF e4] scan_loop_evolves [OF that(1)]])
      then show ?thesis using that(2) finish_range_evolves [of env tip wallet_tip exit "bump w5" x w' "bump w"] by blast
    qed
    then have "pass_evolves env (bump w) w'" using going(3) e4 by blast
    then show ?thesis by (rule after_bump)
  qed (use e1 e2 in \<open>auto intro!: after_bump [of "se_wallet_id env" pass_phase]\<close>)
qed

lemma sync_ranges_evolves:
  assumes "sync_ranges env tip rs w = Some (x, w')"
  shows "pass_evolves env w w'"
  using assms
proof (induction rs arbitrary: w)
  case (Cons r rs)
  then obtain y w1 where 1: "sync_range env tip r w = Some (y, w1)" "if y \<noteq> None then (y, w1) = (x, w') else sync_ranges env tip rs w1 = Some (x, w')"
    by (auto simp: Option.bind_eq_Some_conv split: if_splits)
  have e: "pass_evolves env w w1" using sync_range_evolves [OF 1(1)] by simp
  show ?case using 1(2) Cons.IH [of w1] e by (auto split: if_splits intro: evolves_trans)
qed auto

lemma finish_range_exit: "finish_range env tip wallet_tip exit w \<noteq> (Some PassComplete, w')"
  by (simp add: finish_range_def split: range_exit.split prod.split option.split)

lemma sync_range_exit: "sync_range env tip r w \<noteq> Some (Some PassComplete, w')"
  by (simp add: sync_range_def Let_def finish_range_exit split: prod.split option.split sum.split range_exit.split)

lemma sync_ranges_exit: "sync_ranges env tip rs w \<noteq> Some (Some PassComplete, w')"
  by (induction rs arbitrary: w) (auto simp: Option.bind_eq_Some_conv sync_range_exit split: if_splits)

text \<open>How a task reports its end: idle, or an error without retry.\<close>

definition reported_end :: "uuid \<Rightarrow> ('w, 'd, 'f) sync_world \<Rightarrow> bool" where
  "reported_end wid w \<longleftrightarrow> (\<exists>p. sl_progress_events w \<noteq> [] \<and> last (sl_progress_events w) = p \<and> sy_progress (sl_state w) wid = Some p
     \<and> sp_phase p \<in> {SyIdle, SyError} \<and> sp_retry_in_seconds p = None)"

lemma reported_end_update: "sp_phase p \<in> {SyIdle, SyError} \<Longrightarrow> sp_retry_in_seconds p = None \<Longrightarrow> reported_end (se_wallet_id env) (sl_update env p w)"
  using sl_update_emits [of env p w] by (auto simp: reported_end_def same_place_def)

lemma reported_end_simps [simp]:
  "reported_end (se_wallet_id env) (worker_failed env tip w)" "reported_end (se_wallet_id env) (stop_cancelled env w)"
  by (simp_all add: worker_failed_def stop_cancelled_def reported_end_update default_progress_def)

lemma process_batch_worker:
  assumes "process_batch env tip wallet_tip prefetched a b blocks v = (Some RangeWorkerFailed, v')"
  shows "reported_end (se_wallet_id env) v'"
  using assms by (auto simp: process_batch_def split: prod.splits option.splits sum.splits scan_outcome.splits)

lemma scan_loop_worker: "scan_loop env tip wallet_tip prefetched ms v = (RangeWorkerFailed, v') \<Longrightarrow> reported_end (se_wallet_id env) v'"
  by (induction env tip wallet_tip prefetched ms v rule: scan_loop.induct) (auto split: if_splits prod.splits option.splits dest: process_batch_worker)

lemma finish_range_stopped: "finish_range env tip wallet_tip exit w = (Some PassStopped, w') \<Longrightarrow> reported_end (se_wallet_id env) w'"
  by (auto simp: finish_range_def split: range_exit.splits prod.splits option.splits)

lemma sync_range_stopped: "sync_range env tip r w = Some (Some PassStopped, w') \<Longrightarrow> reported_end (se_wallet_id env) w'"
  by (auto simp: sync_range_def Let_def split: if_splits prod.splits option.splits sum.splits range_exit.splits dest: scan_loop_worker finish_range_stopped)

lemma sync_ranges_stopped: "sync_ranges env tip rs w = Some (Some PassStopped, w') \<Longrightarrow> reported_end (se_wallet_id env) w'"
  by (induction rs arbitrary: w) (auto simp: Option.bind_eq_Some_conv dest: sync_range_stopped split: if_splits)

text \<open>The last call since \<open>w\<close> was answered with no range.\<close>

definition nothing_left :: "('w, 'd, 'f) sync_world \<Rightarrow> ('w, 'd, 'f) sync_world \<Rightarrow> bool" where
  "nothing_left w w' \<longleftrightarrow> (\<exists>cs. sl_calls w' = sl_calls w @ cs @ [CallSuggest (Inr [])])"

lemma nothing_left_trans: "evolves wid Q a b \<Longrightarrow> nothing_left b c \<Longrightarrow> nothing_left a c"
  by (auto simp: nothing_left_def evolves_def)

text \<open>A pass that completes has made as its last call one that said that nothing is left; one that stops has reported the end.\<close>

lemma sync_pass_evolves:
  assumes "sync_pass env tip w = Some y"
  shows "pass_evolves env w (snd y) \<and> sl_tick w < sl_tick (snd y) \<and> (fst y = PassComplete \<longrightarrow> nothing_left w (snd y))
    \<and> (fst y = PassStopped \<longrightarrow> reported_end (se_wallet_id env) (snd y))"
proof (induction rule: sync_pass.raw_induct [OF _ assms, of "\<lambda>env tip w y.
    pass_evolves env w (snd y) \<and> sl_tick w < sl_tick (snd y) \<and> (fst y = PassComplete \<longrightarrow> nothing_left w (snd y))
    \<and> (fst y = PassStopped \<longrightarrow> reported_end (se_wallet_id env) (snd y))"])
  case (1 pass env tip w y)
  let ?w1 = "bump (w\<lparr>sl_calls := sl_calls w @ [CallSuggest (se_suggest env (sl_wallet w))]\<rparr>)"
  have e0: "pass_evolves env w (bump w) \<and> sl_tick w < sl_tick (bump w)" by (rule after_bump) simp
  have e1: "pass_evolves env w ?w1 \<and> sl_tick w < sl_tick ?w1" by (auto intro: bump_evolves call_evolves)
  show ?case
  proof (cases "is_cancelled env w \<or> \<not> se_join_ok env (sl_tick w)")
    case True
    have "pass_evolves env (bump w) (stop_cancelled env (bump w))" "pass_evolves env (bump w) (worker_failed env tip (bump w))" by auto
    then show ?thesis using 1(2) True by (auto split: if_splits dest: after_bump)
  next
    case False
    show ?thesis
    proof (cases "se_suggest env (sl_wallet w)")
      case (Inl e)
      then show ?thesis using 1(2) False e1 by (auto simp: Let_def)
    next
      case (Inr ranges)
      show ?thesis
      proof (cases "ranges = []")
        case True
        then show ?thesis using 1(2) False e1 Inr by (auto simp: Let_def bump_def nothing_left_def)
      next
        case ranges: False
        then obtain x w2 where 2: "sync_ranges env tip ranges ?w1 = Some (x, w2)" "(case x of Some e \<Rightarrow> Some (e, w2) | None \<Rightarrow> pass env tip w2) = Some y"
          using 1(2) False Inr by (auto simp: Let_def Option.bind_eq_Some_conv)
        have e2: "pass_evolves env ?w1 w2" by (rule sync_ranges_evolves [OF 2(1)])
        have "pass_evolves env w w2 \<and> sl_tick w < sl_tick w2" using evolves_trans [OF conjunct1 [OF e1] e2] e1 evolves_tick [OF e2] by simp
        then show ?thesis using 2 1(1) [of env tip w2 y] sync_ranges_exit [of env tip ranges ?w1 w2] sync_ranges_stopped [of env tip ranges ?w1 w2] by (auto split: option.splits intro: evolves_trans nothing_left_trans)
      qed
    qed
  qed
qed

section \<open>An iteration\<close>

definition enhancing :: "sync_phase \<Rightarrow> bool" where
  "enhancing ph \<longleftrightarrow> ph = SyEnhancing"

lemma enhancing_phases [simp]: "enhancing SyEnhancing" "\<not> enhancing SyCatchingUp"
  by (simp_all add: enhancing_def)

lemma emit_enhancing_evolves: "evolves wid enhancing w v \<Longrightarrow> evolves wid enhancing w (emit_enhancing env tip ps v)"
proof (induction ps arbitrary: v)
  case (Cons p ps)
  have "evolves wid enhancing w (sl_update env (mk_progress SyEnhancing tip tip p None None) v)" by (rule sl_update_evolves [OF Cons.prems]) simp_all
  then show ?case using Cons.IH by simp
qed simp

lemma enhance_wallet_evolves:
  assumes "evolves wid enhancing w v"
  shows "evolves wid enhancing w (enhance_wallet env tip to_do v)"
proof -
  let ?m = "enhance_memos ((se_memo env)\<lparr>me_cancelled := se_cancelled env\<rparr>) (sl_tick v) to_do (se_memo_db env (sl_wallet v))"
  have "evolves wid enhancing v (v\<lparr>sl_tick := mw_tick ?m, sl_wallet := se_put_memo_db env (mw_db ?m) (sl_wallet v)\<rparr>)"
    using enhance_memos_extends [of "(se_memo env)\<lparr>me_cancelled := se_cancelled env\<rparr>" "se_memo_db env (sl_wallet v)" "sl_tick v" to_do]
    by (simp add: evolves_def)
  then show ?thesis unfolding enhance_wallet_def Let_def by (intro emit_enhancing_evolves) (rule evolves_trans [OF assms])
qed

text \<open>The last event of a complete pass is the only one that says caught up.\<close>

lemma finish_pass_events:
  obtains v where "evolves wid enhancing w v" "finish_pass env tip w = maybe_emit env ForcedMilestone (sl_update env (mk_progress SyCatchingUp tip tip 100 None None) v)"
proof -
  define to_do where "to_do = (case count_txids_needing_memo_enhancement (se_memo env) (sl_tick w) (se_memo_db env (sl_wallet w)) of Inl _ \<Rightarrow> 0 | Inr n \<Rightarrow> n)"
  define w1 where "w1 = sl_update env (mk_progress SyEnhancing tip tip (enhancement_progress 0 to_do) None None) (maybe_emit env ForcedMilestone (bump w))"
  have "evolves wid enhancing w w1" unfolding w1_def by (intro sl_update_evolves maybe_emit_evolves bump_evolves evolves_refl) simp_all
  then have "evolves wid enhancing w (if 0 < to_do then enhance_wallet env tip to_do w1 else w1)" by (simp add: enhance_wallet_evolves)
  then show ?thesis by (rule that) (simp add: finish_pass_def to_do_def w1_def Let_def)
qed

text \<open>The phases of the events before a pass completes.\<close>

definition loop_phase :: "sync_phase \<Rightarrow> bool" where
  "loop_phase ph \<longleftrightarrow> ph \<notin> {SyCatchingUp, SyEnhancing}"

lemma loop_phases [simp]: "loop_phase SyIdle" "loop_phase SyOffline" "loop_phase SyError" "\<not> loop_phase SyCatchingUp" "pass_phase ph \<Longrightarrow> loop_phase ph"
  by (auto simp: loop_phase_def pass_phase_def)

lemma evolves_weaken: "evolves wid Q w v \<Longrightarrow> (\<And>ph. Q ph \<Longrightarrow> Q' ph) \<Longrightarrow> evolves wid Q' w v"
  unfolding evolves_def by (metis (no_types, lifting) list_all_iff)

abbreviation loop_evolves :: "('w, 'd, 'c, 'f) sync_env \<Rightarrow> ('w, 'd, 'f) sync_world \<Rightarrow> ('w, 'd, 'f) sync_world \<Rightarrow> bool" where
  "loop_evolves env \<equiv> evolves (se_wallet_id env) loop_phase"

lemma report_error_result:
  assumes "report_error env tip msg notify w = (again, w')"
  shows "\<exists>v. loop_evolves env w v \<and> (if again then w' = sleep_backoff v else w' = v \<and> reported_end (se_wallet_id env) w')"
proof -
  obtain x w1 where g: "get_progress_blocking env w = (x, w1)" by fastforce
  have e: "loop_evolves env w w1" using get_progress_evolves [OF g] by blast
  show ?thesis
  proof (cases x)
    case None
    then show ?thesis using assms g e by (auto simp: report_error_def intro!: worker_failed_evolves)
  next
    case (Some t)
    obtain pct fully h where t: "t = (pct, fully, h)" by (rule prod_cases3)
    let ?v = "sl_update env (mk_progress SyError fully tip pct (Some (sl_backoff w1)) (Some msg)) w1"
    have "loop_evolves env w ?v" by (rule sl_update_evolves [OF e]) simp_all
    then have "loop_evolves env w (if notify then maybe_emit env ForcedMilestone ?v else ?v)" by (simp add: maybe_emit_evolves)
    then show ?thesis using assms g Some t by (auto simp: report_error_def Let_def)
  qed
qed

text \<open>What an iteration without a complete pass does from \<open>s\<close>: it reports the end, or sleeps for the current delay.\<close>

definition ends_or_sleeps :: "('w, 'd, 'c, 'f) sync_env \<Rightarrow> ('w, 'd, 'f) sync_world \<Rightarrow> bool \<Rightarrow> ('w, 'd, 'f) sync_world \<Rightarrow> bool" where
  "ends_or_sleeps env s again w' \<longleftrightarrow>
     (\<exists>v. loop_evolves env s v \<and> sl_tick s < sl_tick v \<and> (if again then w' = sleep_backoff v else w' = v \<and> reported_end (se_wallet_id env) v))"

lemma report_error_ends:
  assumes "loop_evolves env s v" "sl_tick s < sl_tick v" "report_error env tip msg notify v = (again, w')"
  shows "ends_or_sleeps env s again w'"
proof -
  obtain v' where v': "loop_evolves env v v'" "if again then w' = sleep_backoff v' else w' = v' \<and> reported_end (se_wallet_id env) w'"
    using report_error_result [OF assms(3)] by blast
  then show ?thesis using assms evolves_trans [OF assms(1) v'(1)] evolves_tick [OF v'(1)]
    unfolding ends_or_sleeps_def by (intro exI [of _ v']) (auto split: if_splits)
qed

lemma stop_ends:
  assumes "loop_evolves env s v" "sl_tick s < sl_tick v"
  shows "ends_or_sleeps env s False (stop_cancelled env v)" "ends_or_sleeps env s False (worker_failed env tip v)"
proof -
  have e: "loop_evolves env v (stop_cancelled env v)" "loop_evolves env v (worker_failed env tip v)" by auto
  then have "sl_tick s < sl_tick (stop_cancelled env v)" "sl_tick s < sl_tick (worker_failed env tip v)"
    using assms(2) evolves_tick order_less_le_trans by blast+
  then show "ends_or_sleeps env s False (stop_cancelled env v)" "ends_or_sleeps env s False (worker_failed env tip v)"
    unfolding ends_or_sleeps_def using evolves_trans [OF assms(1)] e by auto
qed

text \<open>An iteration before the chain tip is known.\<close>

lemma offline_step:
  assumes "auto_sync_step env w = Some (again, w')" "is_cancelled env w \<or> se_latest_block env (sl_tick w) = Inl e"
  shows "ends_or_sleeps env w again w'"
proof -
  define u where "u = w\<lparr>sl_throttle := start_new_auto_sync_iteration (sl_throttle w)\<rparr>"
  have u: "loop_evolves env w (bump u)" "sl_tick w < sl_tick (bump u)" "is_cancelled env u = is_cancelled env w" "sl_tick u = sl_tick w"
    by (auto simp: u_def is_cancelled_def intro: bump_evolves)
  obtain x w1 where g: "get_progress_blocking env (bump u) = (x, w1)" by fastforce
  have e1: "loop_evolves env w w1" "sl_tick w < sl_tick w1" using get_progress_evolves [OF g u(1)] u(2) by auto
  consider "\<not> again" "w' = stop_cancelled env (bump u)" | "\<not> again" "w' = worker_failed env 0 w1"
    | pct fully h where again "w' = sleep_backoff (sl_update env (mk_progress SyOffline fully (case h of None \<Rightarrow> 0 | Some h \<Rightarrow> h) pct (Some (sl_backoff w1)) None) w1)"
    using assms g u(3,4) by (auto simp: auto_sync_step_def u_def [symmetric] Let_def split: if_splits option.splits)
  then show ?thesis
  proof cases
    case 3
    let ?v = "sl_update env (mk_progress SyOffline fully (case h of None \<Rightarrow> 0 | Some h \<Rightarrow> h) pct (Some (sl_backoff w1)) None) w1"
    have "loop_evolves env w ?v" by (rule sl_update_evolves [OF e1(1)]) simp_all
    then show ?thesis using e1(2) 3 unfolding ends_or_sleeps_def by (intro exI [of _ ?v]) (simp add: sl_update_keeps)
  qed (use stop_ends [OF u(1,2)] stop_ends [OF e1] in auto)
qed

text \<open>An iteration with a chain tip; its pass may complete.\<close>

definition completes :: "('w, 'd, 'c, 'f) sync_env \<Rightarrow> nat \<Rightarrow> ('w, 'd, 'f) sync_world \<Rightarrow> bool \<Rightarrow> ('w, 'd, 'f) sync_world \<Rightarrow> bool" where
  "completes env tip s again w' \<longleftrightarrow> again \<and> (\<exists>v. loop_evolves env s v \<and> sl_tick s < sl_tick v \<and> nothing_left s v
     \<and> w' = sleep_for POLL_INTERVAL (finish_pass env tip v))"

lemma pass_ends:
  assumes "loop_evolves env s v" "sync_pass env tip v = Some (exit, v')"
    and "(case exit of PassStopped \<Rightarrow> Some (False, v') | PassError msg \<Rightarrow> Some (report_error env tip msg True v')
       | PassComplete \<Rightarrow> Some (True, sleep_for POLL_INTERVAL (finish_pass env tip v'))) = Some (again, w')"
  shows "ends_or_sleeps env s again w' \<or> completes env tip s again w'"
proof -
  note p = sync_pass_evolves [OF assms(2), simplified]
  have "loop_evolves env v v'" using p evolves_weaken [of "se_wallet_id env" pass_phase v v' loop_phase] by simp
  then have e: "loop_evolves env s v'" "sl_tick s < sl_tick v'" using p evolves_trans [OF assms(1)] evolves_tick [OF assms(1)] by auto
  show ?thesis
  proof (cases exit)
    case (PassError msg)
    then show ?thesis using assms(3) report_error_ends [OF e, of tip msg True again w'] by simp
  next
    case PassStopped
    then show ?thesis using assms(3) p e by (auto simp: ends_or_sleeps_def)
  next
    case PassComplete
    then show ?thesis using assms(1,3) p e by (auto simp: completes_def intro: nothing_left_trans)
  qed
qed

lemma online_step:
  assumes "auto_sync_step env w = Some (again, w')" "\<not> is_cancelled env w" "se_latest_block env (sl_tick w) = Inr tip"
  shows "ends_or_sleeps env (w\<lparr>sl_backoff := POLL_INTERVAL\<rparr>) again w' \<or> completes env tip (w\<lparr>sl_backoff := POLL_INTERVAL\<rparr>) again w'"
proof -
  let ?s = "w\<lparr>sl_backoff := POLL_INTERVAL\<rparr>"
  define w1 where "w1 = bump (w\<lparr>sl_throttle := start_new_auto_sync_iteration (sl_throttle w), sl_backoff := POLL_INTERVAL\<rparr>)"
  have e1: "loop_evolves env ?s w1" "sl_tick ?s < sl_tick w1" by (auto simp: w1_def evolves_def bump_def balance_inv_def)
  obtain r wal where ut: "se_update_tip env tip (sl_wallet w1) = (r, wal)" by fastforce
  define w2 where "w2 = bump (w1\<lparr>sl_wallet := wal\<rparr>)"
  have e2: "loop_evolves env ?s w2" "sl_tick ?s < sl_tick w2" using e1 by (auto simp: w2_def intro: bump_evolves)
  have step: "(if \<not> se_join_ok env (sl_tick w1) then Some (False, worker_failed env tip (bump w1))
      else case r of Inl _ \<Rightarrow> Some (report_error env tip ''Failed to update wallet chain tip'' False w2)
        | Inr _ \<Rightarrow> Option.bind (sync_pass env tip w2) (\<lambda>(exit, w3). case exit of PassStopped \<Rightarrow> Some (False, w3)
            | PassError msg \<Rightarrow> Some (report_error env tip msg True w3)
            | PassComplete \<Rightarrow> Some (True, sleep_for POLL_INTERVAL (finish_pass env tip w3)))) = Some (again, w')"
    using assms ut unfolding w2_def by (simp add: auto_sync_step_def is_cancelled_def Let_def w1_def [symmetric] split: if_splits)
  show ?thesis
  proof (cases "se_join_ok env (sl_tick w1)")
    case False
    have "loop_evolves env ?s (bump w1)" "sl_tick ?s < sl_tick (bump w1)" using e1 by auto
    then show ?thesis using stop_ends(2) [of env ?s "bump w1" tip] step False by auto
  next
    case True
    show ?thesis
    proof (cases r)
      case (Inl e)
      then show ?thesis using step True report_error_ends [OF e2] by auto
    next
      case (Inr x)
      then obtain exit w3 where "sync_pass env tip w2 = Some (exit, w3)" using step True by (auto simp: Option.bind_eq_Some_conv)
      then show ?thesis using pass_ends [OF e2(1)] step True Inr by auto
    qed
  qed
qed

lemma auto_sync_step_cases:
  assumes "auto_sync_step env w = Some (again, w')"
  obtains (offline) "again \<longrightarrow> \<not> is_ok (se_latest_block env (sl_tick w))" "ends_or_sleeps env w again w'"
  | (failed) tip where "se_latest_block env (sl_tick w) = Inr tip" "ends_or_sleeps env (w\<lparr>sl_backoff := POLL_INTERVAL\<rparr>) again w'"
  | (complete) tip where "se_latest_block env (sl_tick w) = Inr tip" "completes env tip (w\<lparr>sl_backoff := POLL_INTERVAL\<rparr>) again w'"
proof (cases "is_cancelled env w \<or> (\<exists>e. se_latest_block env (sl_tick w) = Inl e)")
  case True
  then obtain e where e: "is_cancelled env w \<or> se_latest_block env (sl_tick w) = Inl e" by blast
  have "again \<longrightarrow> \<not> is_cancelled env w" using assms by (auto simp: auto_sync_step_def is_cancelled_def Let_def)
  then show ?thesis by (intro offline offline_step [OF assms e]) (use e in auto)
next
  case False
  then obtain tip where "se_latest_block env (sl_tick w) = Inr tip" by (cases "se_latest_block env (sl_tick w)") auto
  then show ?thesis using online_step [OF assms] False failed complete by blast
qed

section \<open>Across delays\<close>

text \<open>What also the delays keep.\<close>

definition persists :: "uuid \<Rightarrow> ('w, 'd, 'f) sync_world \<Rightarrow> ('w, 'd, 'f) sync_world \<Rightarrow> bool" where
  "persists wid w w' \<longleftrightarrow> sl_tick w \<le> sl_tick w' \<and> sy_jobs (sl_state w') = sy_jobs (sl_state w)
     \<and> (sy_blocking_scans (sl_state w) wid \<noteq> Some 0 \<longrightarrow> sy_blocking_scans (sl_state w') = sy_blocking_scans (sl_state w))
     \<and> (\<exists>es. sl_progress_events w' = sl_progress_events w @ es \<and> list_all idle_is_zero es) \<and> (balance_inv w \<longrightarrow> balance_inv w')"

lemma evolves_persists: "evolves wid Q w v \<Longrightarrow> persists wid w v"
  unfolding evolves_def persists_def list_all_iff by blast

lemma persists_refl [simp]: "persists wid w w"
  by (simp add: persists_def)

lemma persists_trans [trans]: "persists wid a b \<Longrightarrow> persists wid b c \<Longrightarrow> persists wid a c"
  by (force simp: persists_def)

lemma persists_other [simp]:
  "persists wid w (sleep_for n v) = persists wid w v" "persists wid w (sleep_backoff v) = persists wid w v"
  "persists wid (w\<lparr>sl_backoff := b\<rparr>) v = persists wid w v" "persists wid w (v\<lparr>sl_backoff := b\<rparr>) = persists wid w v"
  "persists wid w (v\<lparr>sl_files := f\<rparr>) = persists wid w v" "persists wid w (v\<lparr>sl_balance_db := d\<rparr>) = persists wid w v"
  by (simp_all add: persists_def sleep_for_def sleep_backoff_def)

lemma sleep_sel [simp]:
  "sl_tick (sleep_for n v) = sl_tick v" "sl_tick (sleep_backoff v) = sl_tick v" "sl_sleeps (sleep_for n v) = sl_sleeps v @ [n]"
  "sl_sleeps (sleep_backoff v) = sl_sleeps v @ [sl_backoff v]" "sl_backoff (sleep_for n v) = sl_backoff v"
  "sl_backoff (sleep_backoff v) = min (sl_backoff v * 2) MAX_POLL_BACKOFF" "sl_progress_events (sleep_for n v) = sl_progress_events v"
  "sl_progress_events (sleep_backoff v) = sl_progress_events v" "sl_calls (sleep_for n v) = sl_calls v"
  by (simp_all add: sleep_for_def sleep_backoff_def)

lemma emit_enhancing_calls: "sl_calls (emit_enhancing env tip ps w) = sl_calls w"
  by (induction ps arbitrary: w) (simp_all add: sl_update_keeps)

lemma finish_pass_calls: "sl_calls (finish_pass env tip w) = sl_calls w"
  by (simp add: finish_pass_def Let_def enhance_wallet_def emit_enhancing_calls sl_update_keeps bump_def)

lemma finish_pass_evolves: "evolves wid (\<lambda>_. True) w (finish_pass env tip w)"
proof -
  obtain v where v: "evolves wid enhancing w v" "finish_pass env tip w = maybe_emit env ForcedMilestone (sl_update env (mk_progress SyCatchingUp tip tip 100 None None) v)"
    by (rule finish_pass_events)
  have "evolves wid (\<lambda>_. True) w v" using v(1) by (rule evolves_weaken) simp
  then show ?thesis unfolding v(2) by (intro maybe_emit_evolves sl_update_evolves) simp_all
qed

lemma auto_sync_step_persists:
  assumes "auto_sync_step env w = Some (again, w')"
  shows "persists (se_wallet_id env) w w' \<and> sl_tick w < sl_tick w' \<and> (again \<or> reported_end (se_wallet_id env) w')"
proof -
  have ends: "persists (se_wallet_id env) s w' \<and> sl_tick s < sl_tick w' \<and> (again \<or> reported_end (se_wallet_id env) w')" if "ends_or_sleeps env s again w'" for s
    using that evolves_persists unfolding ends_or_sleeps_def by (auto split: if_splits)
  from assms show ?thesis
  proof (cases rule: auto_sync_step_cases)
    case (complete tip)
    then obtain v where v: again "loop_evolves env (w\<lparr>sl_backoff := POLL_INTERVAL\<rparr>) v" "sl_tick w < sl_tick v" "w' = sleep_for POLL_INTERVAL (finish_pass env tip v)"
      unfolding completes_def by auto
    have f: "evolves (se_wallet_id env) (\<lambda>_. True) v (finish_pass env tip v)" by (rule finish_pass_evolves)
    have "persists (se_wallet_id env) w v" using evolves_persists [OF v(2)] by simp
    then show ?thesis using persists_trans [OF _ evolves_persists [OF f]] evolves_tick [OF f] v by auto
  qed (use ends [of w] ends [of "w\<lparr>sl_backoff := POLL_INTERVAL\<rparr>"] in auto)
qed

lemma auto_sync_persists:
  "auto_sync n env w = Some (again, w') \<Longrightarrow> persists (se_wallet_id env) w w' \<and> (again \<or> reported_end (se_wallet_id env) w')"
proof (induction n arbitrary: w)
  case (Suc n)
  then obtain a w1 where 1: "auto_sync_step env w = Some (a, w1)" "if a then auto_sync n env w1 = Some (again, w') else (again, w') = (False, w1)"
    by (auto simp: Option.bind_eq_Some_conv split: if_splits)
  show ?case using auto_sync_step_persists [OF 1(1)] 1(2) Suc.IH [of w1] by (auto split: if_splits intro: persists_trans)
qed simp

lemma auto_sync_step_sleep:
  assumes "auto_sync_step env w = Some (again, w')"
  shows "if again then \<exists>d. sl_sleeps w' = sl_sleeps w @ [d] \<and> d = (if is_ok (se_latest_block env (sl_tick w)) then POLL_INTERVAL else sl_backoff w)
             \<and> sl_backoff w' \<in> {d, min (d * 2) MAX_POLL_BACKOFF}
         else sl_sleeps w' = sl_sleeps w"
proof -
  have ends: "if again then sl_sleeps w' = sl_sleeps s @ [sl_backoff s] \<and> sl_backoff w' = min (sl_backoff s * 2) MAX_POLL_BACKOFF else sl_sleeps w' = sl_sleeps s"
    if "ends_or_sleeps env s again w'" for s
    using that by (auto simp: ends_or_sleeps_def evolves_def split: if_splits)
  from assms show ?thesis
  proof (cases rule: auto_sync_step_cases)
    case (complete tip)
    then obtain v where v: again "loop_evolves env (w\<lparr>sl_backoff := POLL_INTERVAL\<rparr>) v" "w' = sleep_for POLL_INTERVAL (finish_pass env tip v)"
      unfolding completes_def by auto
    then show ?thesis using finish_pass_evolves [of "se_wallet_id env" v env tip] complete(1) by (simp add: evolves_def)
  qed (use ends [of w] ends [of "w\<lparr>sl_backoff := POLL_INTERVAL\<rparr>"] in \<open>auto split: if_splits\<close>)
qed

lemma poll_delay_range: "POLL_INTERVAL \<le> d \<Longrightarrow> d \<le> MAX_POLL_BACKOFF \<Longrightarrow> b \<in> {d, min (d * 2) MAX_POLL_BACKOFF} \<Longrightarrow> POLL_INTERVAL \<le> b \<and> b \<le> MAX_POLL_BACKOFF"
  by (auto simp: POLL_INTERVAL_def MAX_POLL_BACKOFF_def)

lemma auto_sync_delays:
  assumes "auto_sync n env w = Some (again, w')" "POLL_INTERVAL \<le> sl_backoff w" "sl_backoff w \<le> MAX_POLL_BACKOFF"
  shows "\<exists>ds. sl_sleeps w' = sl_sleeps w @ ds \<and> list_all (\<lambda>d. POLL_INTERVAL \<le> d \<and> d \<le> MAX_POLL_BACKOFF) ds \<and> (again \<longrightarrow> length ds = n)
     \<and> (list_all (\<lambda>d. d = POLL_INTERVAL) ds \<or> (\<exists>k. \<not> is_ok (se_latest_block env k)))"
  using assms
proof (induction n arbitrary: w)
  case (Suc n)
  then obtain a w1 where 1: "auto_sync_step env w = Some (a, w1)" "if a then auto_sync n env w1 = Some (again, w') else (again, w') = (False, w1)"
    by (auto simp: Option.bind_eq_Some_conv split: if_splits)
  show ?case
  proof (cases a)
    case True
    then obtain d where d: "sl_sleeps w1 = sl_sleeps w @ [d]" "d = (if is_ok (se_latest_block env (sl_tick w)) then POLL_INTERVAL else sl_backoff w)"
      "sl_backoff w1 \<in> {d, min (d * 2) MAX_POLL_BACKOFF}" using auto_sync_step_sleep [OF 1(1)] by auto
    have "POLL_INTERVAL \<le> MAX_POLL_BACKOFF" by (simp add: POLL_INTERVAL_def MAX_POLL_BACKOFF_def)
    then have b: "POLL_INTERVAL \<le> d \<and> d \<le> MAX_POLL_BACKOFF" "POLL_INTERVAL \<le> sl_backoff w1 \<and> sl_backoff w1 \<le> MAX_POLL_BACKOFF"
      using d(2,3) Suc.prems(2,3) poll_delay_range [of d "sl_backoff w1"] by auto
    obtain ds where "sl_sleeps w' = sl_sleeps w1 @ ds" "list_all (\<lambda>d. POLL_INTERVAL \<le> d \<and> d \<le> MAX_POLL_BACKOFF) ds" "again \<longrightarrow> length ds = n"
      "list_all (\<lambda>d. d = POLL_INTERVAL) ds \<or> (\<exists>k. \<not> is_ok (se_latest_block env k))"
      using Suc.IH [of w1] 1(2) True b(2) by auto
    then show ?thesis using d b by (intro exI [of _ "d # ds"]) auto
  qed (use 1 auto_sync_step_sleep [OF 1(1)] in auto)
qed simp

section \<open>The task\<close>

lemma wait_for_tor_persists:
  assumes "wait_for_tor env tor w = Some y"
  shows "persists (se_wallet_id env) w (snd y) \<and> sl_progress_events (snd y) = sl_progress_events w"
proof (induction rule: wait_for_tor.raw_induct [OF _ assms, of "\<lambda>env tor w y. persists (se_wallet_id env) w (snd y) \<and> sl_progress_events (snd y) = sl_progress_events w"])
  case (1 wait env tor w y)
  have b: "persists (se_wallet_id env) w (bump w)" "persists (se_wallet_id env) w (maybe_emit env ForcedMilestone (bump w))"
    by (auto intro!: evolves_persists)
  have "sl_progress_events (bump w) = sl_progress_events w" by (simp add: bump_def)
  then show ?case using 1(2) b 1(1) [of env tor "sleep_for 1 (bump w)" y] persists_trans [of "se_wallet_id env" w "sleep_for 1 (bump w)" "snd y"]
    by (auto simp: Let_def split: if_splits)
qed

lemma backfill_evolves: "backfill_heights env hs w = (ok, w') \<Longrightarrow> evolves wid Q w w'"
proof (induction hs arbitrary: w)
  case (Cons h hs)
  obtain x w1 where f: "fetch_chain_state env (h - 1) w = (x, w1)" by fastforce
  have e: "evolves wid Q w w1" by (rule fetch_chain_evolves [OF f]) simp
  show ?case
  proof (cases x)
    case (Inr cst)
    let ?set = "se_set_birthday env h (se_tree_sizes env cst) (sl_wallet w1)"
    have "evolves wid Q w (bump (w1\<lparr>sl_wallet := snd ?set\<rparr>))" using e by auto
    then show ?thesis using Cons f Inr e evolves_trans
      by (auto simp: Let_def case_prod_unfold split: if_splits sum.splits intro: evolves_trans)
  qed (use Cons.prems f e in auto)
qed simp

lemma backfill_birthday_evolves: "backfill_birthday_tree_sizes env w = (ok, w') \<Longrightarrow> evolves wid Q w w'"
  by (auto simp: backfill_birthday_tree_sizes_def split: if_splits sum.splits dest: backfill_evolves [of _ _ "bump w" _ _ wid Q] intro: evolves_trans [of wid Q w "bump w"])

lemma reported_end_other [simp]:
  "reported_end wid (clear_job wid' w) = reported_end wid w" "reported_end wid (w\<lparr>sl_files := f, sl_state := sync_task_end wid' (sl_state w)\<rparr>) = reported_end wid w"
  "reported_end wid (maybe_emit env trigger w) = reported_end wid w"
  by (simp_all add: reported_end_def clear_job_def sync_task_end_def Let_def)

text \<open>What the end of the task removes from the state, in its three ways.\<close>

definition task_removed :: "uuid \<Rightarrow> ('w, 'd, 'f) sync_world \<Rightarrow> ('w, 'd, 'f) sync_world \<Rightarrow> bool" where
  "task_removed wid v w' \<longleftrightarrow> w' = v\<lparr>sl_state := (sl_state v)\<lparr>sy_jobs := sy_jobs (sl_state v) - {wid}\<rparr>\<rparr> \<or> w' = clear_job wid v
     \<or> (\<exists>f. w' = v\<lparr>sl_files := f, sl_state := sync_task_end wid (sl_state v)\<rparr>)"

lemma task_removed_end: "task_removed wid v (v\<lparr>sl_files := f, sl_state := sync_task_end wid (sl_state v)\<rparr>)"
  by (auto simp: task_removed_def)

lemma prepared_task_result:
  assumes "prepared_task n env w = Some (fin, w')"
  shows "\<exists>v. persists (se_wallet_id env) w v \<and> (if fin then reported_end (se_wallet_id env) v \<and> task_removed (se_wallet_id env) v w' else w' = v)"
proof -
  let ?wid = "se_wallet_id env"
  define w1 where "w1 = sl_update env preparing_progress w"
  have e1: "evolves ?wid (\<lambda>_. True) w (bump w1)" unfolding w1_def by (intro bump_evolves sl_update_evolves evolves_refl) simp_all
  obtain ok w2 where 2: "backfill_birthday_tree_sizes env (bump w1) = (ok, w2)" by fastforce
  have e2: "evolves ?wid (\<lambda>_. True) w w2" by (rule evolves_trans [OF e1 backfill_birthday_evolves [OF 2]])
  let ?s = "stop_cancelled env (bump w1)" and ?f = "maybe_emit env ForcedMilestone (worker_failed env 0 w2)"
  have p: "persists ?wid w ?s" "persists ?wid w ?f"
    by (rule evolves_persists [of ?wid "\<lambda>_. True"], use e1 e2 in auto)+
  consider (stop) fin "w' = clear_job ?wid ?s" | (worker) fin "w' = clear_job ?wid ?f"
    | (loop) again w3 where "auto_sync n env (w2\<lparr>sl_backoff := POLL_INTERVAL\<rparr>) = Some (again, w3)" "again \<longrightarrow> \<not> fin \<and> w' = w3" "\<not> again \<longrightarrow> fin \<and> task_removed ?wid w3 w'"
  proof (cases "is_cancelled env w1 \<or> \<not> se_cache_dir_ok env \<or> \<not> se_fsblock_ok env \<or> \<not> se_open_ok env (sl_tick w1) \<or> \<not> ok")
    case True
    then show ?thesis using assms 2 stop worker by (auto simp: prepared_task_def w1_def [symmetric] Let_def split: if_splits)
  next
    case False
    then obtain again w3 where 3: "auto_sync n env (w2\<lparr>sl_backoff := POLL_INTERVAL\<rparr>) = Some (again, w3)"
      using assms 2 by (auto simp: prepared_task_def w1_def [symmetric] Let_def Option.bind_eq_Some_conv)
    then show ?thesis using loop [OF 3] assms 2 False task_removed_end by (cases again) (auto simp: prepared_task_def w1_def [symmetric] Let_def)
  qed
  then show ?thesis
  proof cases
    case loop
    have "persists ?wid w w3" using persists_trans [OF evolves_persists [OF e2]] auto_sync_persists [OF loop(1)] by simp
    then show ?thesis using loop auto_sync_persists [OF loop(1)] by (intro exI [of _ w3]) (cases again, auto)
  next
    case stop
    then show ?thesis using p(1) by (intro exI [of _ ?s]) (simp add: task_removed_def)
  next
    case worker
    then show ?thesis using p(2) by (intro exI [of _ ?f]) (simp add: task_removed_def)
  qed
qed

lemma sync_task_result:
  assumes "sync_task n env w = Some (fin, w')"
  obtains v where "persists (se_wallet_id env) w v" "fin \<longrightarrow> sl_progress_events v = sl_progress_events w \<or> reported_end (se_wallet_id env) v"
    "if fin then task_removed (se_wallet_id env) v w' else w' = v"
proof -
  let ?wid = "se_wallet_id env"
  define w0 where "w0 = bump (w\<lparr>sl_balance_db := se_on_balance env \<and> se_open_ok env (sl_tick w)\<rparr>)"
  have p0: "persists ?wid w w0" "sl_progress_events w0 = sl_progress_events w" by (simp_all add: w0_def bump_def persists_def balance_inv_def)
  obtain ready w1 where 1: "(case se_tor env of None \<Rightarrow> Some (True, w0) | Some tor \<Rightarrow> wait_for_tor env tor w0) = Some (ready, w1)"
    and step: "(if \<not> ready then Some (True, w1\<lparr>sl_state := (sl_state w1)\<lparr>sy_jobs := sy_jobs (sl_state w1) - {?wid}\<rparr>\<rparr>) else prepared_task n env w1) = Some (fin, w')"
    using assms [unfolded sync_task_def Let_def w0_def [symmetric] Option.bind_eq_Some_conv split_paired_Ex case_prod_conv] by blast
  have p1: "persists ?wid w w1" "sl_progress_events w1 = sl_progress_events w"
    using 1 p0 wait_for_tor_persists [of env _ w0 "(ready, w1)"] persists_trans [OF p0(1), of w1] by (cases "se_tor env"; force)+
  show ?thesis
  proof (cases ready)
    case True
    then obtain v where "persists ?wid w1 v" "if fin then reported_end ?wid v \<and> task_removed ?wid v w' else w' = v"
      using step prepared_task_result [of n env w1 fin w'] by auto
    then show ?thesis using that [of v] persists_trans [OF p1(1)] by auto
  qed (use that [of w1] step p1 in \<open>auto simp: task_removed_def\<close>)
qed

section \<open>The task returns\<close>

lemma sync_range_returns: "(\<And>n. se_download_ends env n) \<Longrightarrow> sync_range env tip r w \<noteq> None"
  by (simp add: sync_range_def Let_def split: prod.split option.split sum.split range_exit.split)

lemma sync_ranges_returns:
  assumes "\<And>n. se_download_ends env n"
  shows "sync_ranges env tip rs w \<noteq> None"
proof (induction rs arbitrary: w)
  case (Cons r rs)
  obtain x w1 where "sync_range env tip r w = Some (x, w1)" using sync_range_returns [of env tip r w, OF assms] by fastforce
  then show ?case using Cons.IH [of w1] by simp
qed simp

lemma sync_pass_returns:
  assumes "\<And>n. se_download_ends env n" "\<And>n. stop \<le> n \<Longrightarrow> se_cancelled env n"
  shows "sync_pass env tip w \<noteq> None"
proof (induction "stop - sl_tick w" arbitrary: w rule: less_induct)
  case less
  show ?case
  proof (cases "is_cancelled env w \<or> \<not> se_join_ok env (sl_tick w) \<or> se_suggest env (sl_wallet w) = Inr [] \<or> \<not> is_ok (se_suggest env (sl_wallet w))")
    case True
    then show ?thesis by (subst sync_pass.simps) (auto simp: Let_def split: sum.split)
  next
    case False
    then obtain ranges where rs: "se_suggest env (sl_wallet w) = Inr ranges" by (auto simp: is_ok_iff)
    let ?w1 = "bump (w\<lparr>sl_calls := sl_calls w @ [CallSuggest (Inr ranges)]\<rparr>)"
    obtain x w2 where 2: "sync_ranges env tip ranges ?w1 = Some (x, w2)" using sync_ranges_returns [OF assms(1), of tip ranges ?w1] by auto
    have "sl_tick w < stop" using False assms(2) [of "sl_tick w"] by (auto simp: is_cancelled_def not_le [symmetric])
    then have "sync_pass env tip w2 \<noteq> None" using evolves_tick [OF sync_ranges_evolves [OF 2]] by (intro less) simp
    then show ?thesis using False rs 2 by (subst sync_pass.simps) (auto simp: Let_def split: option.split)
  qed
qed

lemma wait_for_tor_returns:
  assumes "\<And>n. stop \<le> n \<Longrightarrow> se_cancelled env n"
  shows "wait_for_tor env tor w \<noteq> None"
proof (induction "stop - sl_tick w" arbitrary: w rule: less_induct)
  case less
  show ?case
  proof (cases "is_cancelled env w")
    case False
    then have "sl_tick w < stop" using assms [of "sl_tick w"] by (auto simp: is_cancelled_def not_le [symmetric])
    then have "wait_for_tor env tor (sleep_for 1 (bump w)) \<noteq> None" by (intro less) simp
    then show ?thesis using False by (subst wait_for_tor.simps) (auto simp: Let_def)
  qed (simp add: wait_for_tor.simps)
qed

lemma auto_sync_step_returns:
  assumes "\<And>n. se_download_ends env n" "\<And>n. stop \<le> n \<Longrightarrow> se_cancelled env n"
  shows "auto_sync_step env w \<noteq> None"
proof -
  have "Option.bind (sync_pass env tip v) (\<lambda>(exit, w3). case exit of PassComplete \<Rightarrow> Some (True, sleep_for POLL_INTERVAL (finish_pass env tip w3))
      | PassError msg \<Rightarrow> Some (report_error env tip msg True w3) | PassStopped \<Rightarrow> Some (False, w3)) \<noteq> None" for tip v
    using sync_pass_returns [OF assms, where tip = tip and w = v] by (cases "sync_pass env tip v") (auto split: pass_exit.split)
  then show ?thesis unfolding auto_sync_step_def Let_def by (simp del: not_None_eq split: sum.split prod.split option.split)
qed

lemma auto_sync_returns:
  assumes "\<And>n. se_download_ends env n" "\<And>n. stop \<le> n \<Longrightarrow> se_cancelled env n"
  shows "\<exists>k w'. auto_sync k env w = Some (False, w')"
proof (induction "stop - sl_tick w" arbitrary: w rule: less_induct)
  case less
  obtain again w1 where 1: "auto_sync_step env w = Some (again, w1)" using auto_sync_step_returns [of env stop w, OF assms] by auto
  show ?case
  proof (cases again)
    case False
    then have "auto_sync (Suc 0) env w = Some (False, w1)" using 1 by simp
    then show ?thesis by blast
  next
    case True
    then have "\<not> is_cancelled env w" using 1 by (auto simp: auto_sync_step_def is_cancelled_def Let_def)
    then have "sl_tick w < stop" using assms(2) [of "sl_tick w"] by (auto simp: is_cancelled_def not_le [symmetric])
    then have "stop - sl_tick w1 < stop - sl_tick w" using auto_sync_step_persists [OF 1] by (intro diff_less_mono2) simp_all
    then obtain k w' where "auto_sync k env w1 = Some (False, w')" using less by blast
    then have "auto_sync (Suc k) env w = Some (False, w')" using 1 True by simp
    then show ?thesis by blast
  qed
qed

lemma sync_task_returns:
  assumes "\<And>n. se_download_ends env n" "\<And>n. stop \<le> n \<Longrightarrow> se_cancelled env n"
  shows "\<exists>k w'. sync_task k env w = Some (True, w')"
proof -
  have prepared: "\<exists>k w'. prepared_task k env v = Some (True, w')" for v
  proof -
    let ?w1 = "sl_update env preparing_progress v"
    obtain ok w2 where 2: "backfill_birthday_tree_sizes env (bump ?w1) = (ok, w2)" by fastforce
    obtain k w3 where "auto_sync k env (w2\<lparr>sl_backoff := POLL_INTERVAL\<rparr>) = Some (False, w3)" using auto_sync_returns [OF assms] by blast
    then show ?thesis using 2 by (intro exI [of _ k]) (cases ok; simp add: prepared_task_def Let_def)
  qed
  let ?w = "bump (w\<lparr>sl_balance_db := se_on_balance env \<and> se_open_ok env (sl_tick w)\<rparr>)"
  have "(case se_tor env of None \<Rightarrow> Some (True, ?w) | Some tor \<Rightarrow> wait_for_tor env tor ?w) \<noteq> None"
    using wait_for_tor_returns [OF assms(2)] by (auto split: option.split)
  then obtain ready w1 where "(case se_tor env of None \<Rightarrow> Some (True, ?w) | Some tor \<Rightarrow> wait_for_tor env tor ?w) = Some (ready, w1)" by auto
  then show ?thesis using prepared [of w1] by (cases ready) (simp_all add: sync_task_def Let_def)
qed

section \<open>Properties\<close>

text \<open>A wallet with one range that is scanned at once, a reachable server, and a stop request after a while.\<close>

definition small_env :: "(nat, unit, unit, unit) sync_env" where
  "small_env = \<lparr>se_wallet_id = ''w'', se_eta = \<lparr>ea_rate = \<lambda>_ _ _. (), ea_eta = \<lambda>_ _ _ _. None, ea_max_increase = \<lambda>_ _. 0\<rparr>, se_now = int, se_cancelled = \<lambda>n. 90 \<le> n,
     se_join_ok = \<lambda>_. True, se_tor = None, se_open_ok = \<lambda>_. True, se_cache_dir_ok = True, se_fsblock_ok = True, se_latest_block = \<lambda>_. Inr 7,
     se_tree_state = \<lambda>_ _. Inr (), se_empty_state = \<lambda>_. (), se_messages = \<lambda>_ a b. [MsgBatch a b [], MsgComplete], se_update_tip = \<lambda>_ w. (Inr (), w),
     se_suggest = \<lambda>w. Inr (if w = 0 then [] else [\<lparr>sg_start = 3, sg_end = 7, sg_ignored = False\<rparr>]), se_summary = \<lambda>_. None, se_percent = \<lambda>_ _. 0,
     se_chain_height = \<lambda>_. Some 7, se_scan = \<lambda>_ _ _ _ _ w. (ScanFine 0 0 0 0, 0), se_truncate = \<lambda>_ w. (Inr (), w), se_write_meta = \<lambda>_ _. (),
     se_truncate_meta = \<lambda>_ _. (), se_create_ok = \<lambda>_ _. True, se_write_ok = \<lambda>_ _. True, se_delete_ok = \<lambda>_. True, se_on_balance = False, se_accounts = [], se_balance = \<lambda>_ _. Inl [],
     se_birthdays = \<lambda>_. Inr [], se_tree_sizes = \<lambda>_. (0, 0), se_set_birthday = \<lambda>_ _ w. (Inr (), w), se_download_ends = \<lambda>_. True, se_remove_cache_ok = True,
     se_memo = \<lparr>me_cancelled = \<lambda>_. False, me_query_ok = \<lambda>_. True, me_rank = \<lambda>_ _. 0, me_transaction = \<lambda>_ _. Inl [], me_decrypt = \<lambda>_ _. Inl [],
       me_commit_ok = \<lambda>_. True, me_finish = \<lambda>_. 0, me_next = \<lambda>_. 0\<rparr>,
     se_memo_db = \<lambda>_. \<lparr>md_transactions = [], md_sapling = [], md_orchard = []\<rparr>, se_put_memo_db = \<lambda>_ w. w\<rparr>"

definition small_world :: "nat \<Rightarrow> (nat, unit, unit) sync_world" where
  "small_world n = \<lparr>sl_tick = 0, sl_state = sync_service_new\<lparr>sy_jobs := {''w''}\<rparr>, sl_wallet = n, sl_meta = (), sl_files = [],
     sl_throttle = \<lparr>bt_last_emit_at = None, bt_scanned_blocks_since_emit = 0, bt_saw_successful_scan_batch = False\<rparr>, sl_balance_db = False,
     sl_balances = Map.empty, sl_balance_events = [], sl_progress_events = [], sl_sleeps = [], sl_backoff = 20, sl_calls = []\<rparr>"

text \<open>C19: A wallet is reported as caught up only when it is scanned: if an iteration of the sync loop emits a progress event with phase
  CatchingUp, it had fetched the chain tip, the event has this tip as frontier and as wallet tip, and the last call the iteration made to scan the wallet was a request
  for scan ranges that was answered with none.\<close>

theorem caught_up_means_scanned:
  assumes "auto_sync_step env w = Some (again, w')"
  shows "\<exists>es. sl_progress_events w' = sl_progress_events w @ es
    \<and> (\<forall>p \<in> set es. sp_phase p = SyCatchingUp \<longrightarrow> (\<exists>tip cs. se_latest_block env (sl_tick w) = Inr tip \<and> sp_scan_frontier_height p = tip
         \<and> sp_wallet_tip_height p = tip \<and> sl_calls w' = sl_calls w @ cs @ [CallSuggest (Inr [])]))"
proof -
  have quiet: "\<exists>es. sl_progress_events v = sl_progress_events s @ es \<and> (\<forall>p \<in> set es. sp_phase p \<noteq> SyCatchingUp)" if "evolves wid Q s v" "\<not> Q SyCatchingUp" for wid Q s v
    using that unfolding evolves_def list_all_iff by metis
  have ends: "\<exists>es. sl_progress_events w' = sl_progress_events s @ es \<and> (\<forall>p \<in> set es. sp_phase p \<noteq> SyCatchingUp)" if "ends_or_sleeps env s again w'" for s
    using that quiet [of "se_wallet_id env" loop_phase s] by (auto simp: ends_or_sleeps_def split: if_splits)
  from assms show ?thesis
  proof (cases rule: auto_sync_step_cases)
    case (complete tip)
    then obtain v where v: "loop_evolves env (w\<lparr>sl_backoff := POLL_INTERVAL\<rparr>) v" "nothing_left w v" "w' = sleep_for POLL_INTERVAL (finish_pass env tip v)"
      unfolding completes_def nothing_left_def by auto
    obtain v' where v': "evolves (se_wallet_id env) enhancing v v'"
      "finish_pass env tip v = maybe_emit env ForcedMilestone (sl_update env (mk_progress SyCatchingUp tip tip 100 None None) v')" by (rule finish_pass_events)
    obtain p where p: "sl_progress_events w' = sl_progress_events v' @ [p]" "same_place (mk_progress SyCatchingUp tip tip 100 None None) p"
      using sl_update_emits [of env "mk_progress SyCatchingUp tip tip 100 None None" v'] v(3) v'(2) by auto
    have "sl_calls w' = sl_calls v" unfolding v(3) by (simp add: finish_pass_calls)
    then show ?thesis using p quiet [OF v(1)] quiet [OF v'(1)] v(2) complete(1) by (auto simp: same_place_def nothing_left_def)
  next
    case offline
    show ?thesis using ends [OF offline(2)] by fastforce
  next
    case failed
    show ?thesis using ends [OF failed(2)] by fastforce
  qed
qed

lemma small_sel:
  "se_wallet_id small_env = ''w''" "se_cancelled small_env n \<longleftrightarrow> 90 \<le> n" "se_join_ok small_env n" "se_latest_block small_env n = Inr 7"
  "se_update_tip small_env tip x = (Inr (), x)" "se_suggest small_env 0 = Inr []" "\<not> se_on_balance small_env"
  "count_txids_needing_memo_enhancement (se_memo small_env) n (se_memo_db small_env x) = Inr 0"
  by (simp_all add: small_env_def count_txids_needing_memo_enhancement_def txids_needing_memo_def)

lemma small_pass: "sl_wallet w = 0 \<Longrightarrow> sl_tick w < 90 \<Longrightarrow> sync_pass small_env tip w = Some (PassComplete, bump (w\<lparr>sl_calls := sl_calls w @ [CallSuggest (Inr [])]\<rparr>))"
  by (subst sync_pass.simps) (simp add: small_sel is_cancelled_def Let_def)

lemma small_world_sel: "sl_wallet (small_world n) = n" "sl_tick (small_world n) = 0" "sl_progress_events (small_world n) = []" "sl_calls (small_world n) = []"
  "sl_backoff (small_world n) = 20" "sl_sleeps (small_world n) = []"
  by (simp_all add: small_world_def)

lemma small_update: "map sp_phase (sl_progress_events (sl_update small_env p w)) = map sp_phase (sl_progress_events w) @ [sp_phase p]"
  using sl_update_emits [of small_env p w] by (auto simp: same_place_def)

lemma small_finish: "map sp_phase (sl_progress_events (finish_pass small_env tip w)) = map sp_phase (sl_progress_events w) @ [SyEnhancing, SyCatchingUp]"
  unfolding finish_pass_def small_sel by (simp add: small_update) (simp add: bump_def)

lemma small_step:
  "\<exists>w'. auto_sync_step small_env (small_world 0) = Some (True, w') \<and> map sp_phase (sl_progress_events w') = [SyEnhancing, SyCatchingUp]"
proof -
  define v where "v = bump (bump ((small_world 0)\<lparr>sl_throttle := start_new_auto_sync_iteration (sl_throttle (small_world 0)), sl_backoff := POLL_INTERVAL, sl_wallet := 0\<rparr>))"
  have v: "sl_wallet v = 0" "sl_tick v < 90" "sl_progress_events v = []" by (simp_all add: v_def bump_def small_world_sel)
  have "auto_sync_step small_env (small_world 0) = Option.bind (sync_pass small_env 7 v) (\<lambda>(exit, w3). case exit of PassStopped \<Rightarrow> Some (False, w3)
      | PassError msg \<Rightarrow> Some (report_error small_env 7 msg True w3) | PassComplete \<Rightarrow> Some (True, sleep_for POLL_INTERVAL (finish_pass small_env 7 w3)))"
    unfolding auto_sync_step_def Let_def v_def by (simp add: small_sel small_world_sel is_cancelled_def bump_def)
  then show ?thesis using v by (simp add: small_pass small_finish) (simp add: bump_def)
qed

theorem caught_up_means_scanned_witness:
  "\<exists>w' p tip cs. auto_sync_step small_env (small_world 0) = Some (True, w') \<and> p \<in> set (sl_progress_events w') \<and> sp_phase p = SyCatchingUp
     \<and> sp_wallet_tip_height p = tip \<and> sl_calls w' = cs @ [CallSuggest (Inr [])]"
proof -
  obtain w' where w': "auto_sync_step small_env (small_world 0) = Some (True, w')" "map sp_phase (sl_progress_events w') = [SyEnhancing, SyCatchingUp]"
    using small_step by (elim exE conjE) (rule that)
  have "SyCatchingUp \<in> set (map sp_phase (sl_progress_events w'))" unfolding w'(2) by simp
  then obtain p where p: "p \<in> set (sl_progress_events w')" "sp_phase p = SyCatchingUp" by auto
  obtain tip cs where "sp_wallet_tip_height p = tip" "sl_calls w' = cs @ [CallSuggest (Inr [])]"
    using caught_up_means_scanned [OF w'(1)] p by (auto simp: small_world_sel)
  then show ?thesis using w'(1) p by blast
qed

text \<open>Polling is bounded from both sides.  From a delay between the poll interval and its maximum, every continuing iteration of the loop sleeps exactly
  once, between 20 and 300 seconds; and unless a request for the chain tip fails, every delay is the 20 seconds of the poll interval, whatever else
  fails in the iterations: the delay grows with failed polls only.\<close>

theorem poll_delays_bounded:
  assumes "auto_sync n env w = Some (again, w')" "20 \<le> sl_backoff w" "sl_backoff w \<le> 300"
  shows "\<exists>ds. sl_sleeps w' = sl_sleeps w @ ds \<and> list_all (\<lambda>d. 20 \<le> d \<and> d \<le> 300) ds \<and> (again \<longrightarrow> length ds = n)
     \<and> (list_all (\<lambda>d. d = 20) ds \<or> (\<exists>k. \<not> is_ok (se_latest_block env k)))"
  using auto_sync_delays [OF assms(1)] assms(2,3) by (simp add: POLL_INTERVAL_def MAX_POLL_BACKOFF_def)

theorem poll_delays_bounded_witness:
  "\<exists>w'. auto_sync 1 small_env (small_world 0) = Some (True, w') \<and> sl_sleeps w' = [20]"
proof -
  obtain w' where "auto_sync_step small_env (small_world 0) = Some (True, w')" using small_step by (elim exE conjE) (rule that)
  then have w': "auto_sync 1 small_env (small_world 0) = Some (True, w')" by simp
  obtain ds where ds: "sl_sleeps w' = ds" "length ds = 1" "list_all (\<lambda>d. d = 20) ds"
    using poll_delays_bounded [OF w'] by (auto simp: small_world_sel small_sel)
  then show ?thesis using w' by (cases ds) auto
qed

text \<open>C20: Once it is cancelled, the sync task ends: when the cancellation flag is set from some moment on and every download task that is awaited
  ends, a number of iterations of the loop exists after which the task has returned, from every state, whether it waits for Tor, scans or polls.\<close>

theorem cancelled_task_ends:
  assumes "\<forall>n. se_download_ends env n" "\<forall>n. stop \<le> n \<longrightarrow> se_cancelled env n"
  shows "\<exists>k w'. sync_task k env w = Some (True, w')"
  using sync_task_returns assms by blast

theorem cancelled_task_ends_witness: "\<exists>k w'. sync_task k small_env (small_world 1) = Some (True, w')"
  by (rule cancelled_task_ends [of _ 90]) (simp_all add: small_env_def)

text \<open>C21: A task that has ended leaves no trace of a running sync: its wallet has no job entry, the count of blocking scans is as before the
  task, and unless it was cancelled while it waited for Tor (and emitted nothing) the progress of the wallet is its last event, which is idle or an error without
  a retry.\<close>

theorem ended_task_is_clean:
  assumes "sync_task n env w = Some (True, w')" "sy_blocking_scans (sl_state w) (se_wallet_id env) \<noteq> Some 0"
  shows "se_wallet_id env \<notin> sy_jobs (sl_state w') \<and> sy_blocking_scans (sl_state w') = sy_blocking_scans (sl_state w)
    \<and> (sl_progress_events w' = sl_progress_events w \<or>
       (\<exists>p. last (sl_progress_events w') = p \<and> sy_progress (sl_state w') (se_wallet_id env) = Some p \<and> sp_phase p \<in> {SyIdle, SyError} \<and> sp_retry_in_seconds p = None))"
proof -
  obtain v where v: "persists (se_wallet_id env) w v" "sl_progress_events v = sl_progress_events w \<or> reported_end (se_wallet_id env) v" "task_removed (se_wallet_id env) v w'"
    using sync_task_result [OF assms(1)] by auto
  have "se_wallet_id env \<notin> sy_jobs (sl_state w')" "sy_blocking_scans (sl_state w') = sy_blocking_scans (sl_state v)"
    "sl_progress_events w' = sl_progress_events v" "sy_progress (sl_state w') = sy_progress (sl_state v)"
    using v(3) by (auto simp: task_removed_def clear_job_def sync_task_end_def Let_def)
  then show ?thesis using v(1,2) assms(2) by (auto simp: persists_def reported_end_def)
qed

theorem ended_task_is_clean_witness:
  "\<exists>k w'. sync_task k small_env (small_world 1) = Some (True, w') \<and> ''w'' \<notin> sy_jobs (sl_state w') \<and> sy_blocking_scans (sl_state w') = Map.empty"
proof -
  obtain k w' where "sync_task k small_env (small_world 1) = Some (True, w')"
    using sync_task_returns [of small_env 90 "small_world 1"] by (auto simp: small_env_def)
  then show ?thesis using ended_task_is_clean [of k small_env "small_world 1" w'] by (auto simp: small_env_def small_world_def sync_service_new_def)
qed

text \<open>Balance events report changes only: if no balance was recorded before the task, no event it emits repeats the balance of the latest
  event for the same account, over all passes, milestones and throttled batches, and whatever part of them the task has run.\<close>

theorem balance_events_are_changes:
  assumes "sync_task n env w = Some (fin, w')" "sl_balances w = Map.empty" "sl_balance_events w = []"
  shows "changes_only (sl_balance_events w')"
proof -
  have "balance_inv w" using assms(2,3) by (simp add: balance_inv_def latest_def changes_only_def)
  moreover obtain v where "persists (se_wallet_id env) w v" "if fin then task_removed (se_wallet_id env) v w' else w' = v"
    using sync_task_result [OF assms(1)] by auto
  ultimately have "balance_inv v" "sl_balance_events w' = sl_balance_events v"
    by (auto simp: persists_def task_removed_def clear_job_def Let_def split: if_splits)
  then show ?thesis by (simp add: balance_inv_def)
qed

theorem balance_events_are_changes_witness:
  "\<exists>k w'. sync_task k small_env (small_world 1) = Some (True, w') \<and> changes_only (sl_balance_events w')"
proof -
  obtain k w' where "sync_task k small_env (small_world 1) = Some (True, w')"
    using sync_task_returns [of small_env 90 "small_world 1"] by (auto simp: small_env_def)
  then show ?thesis using balance_events_are_changes [of k small_env "small_world 1" True w'] by (auto simp: small_world_def)
qed

end
