(* ===== verification/Cli_Sync.thy ===== *)
theory Cli_Sync
  imports Cli Sync_Task
begin

text \<open>
  The command \<open>sync\<close> of the command line client, \<open>apps/zbag-cli/src/commands/sync.rs\<close>: it opens a session, starts the sync of the wallet and polls its progress until
  it takes the sync to be complete.  \<open>obs k\<close> is what the \<open>k\<close>-th reading of the progress returns.  The progress bar and the progress log are observers and left out.
  The theorem combines the polling loop with the sync task of \<open>Sync_Loop\<close>.
\<close>

section \<open>The command\<close>

partial_function (option) sync_wait :: "(nat \<Rightarrow> sync_progress) \<Rightarrow> nat \<Rightarrow> nat option" where
  "sync_wait obs k =
     (if sp_phase (obs k) = SyIdle \<and> 100 \<le> sp_progress_percent (obs k) then Some k
      else if sp_phase (obs k) = SyIdle \<and> sp_progress_percent (obs k) = 0
      then (if sp_phase (obs (k + 1)) = SyIdle \<and> sp_progress_percent (obs (k + 1)) = 0 then Some (k + 1) else sync_wait obs (k + 2))
      else sync_wait obs (k + 1))"

text \<open>Everything up to the start of the task; \<open>accounts\<close> are those of the wallet database.\<close>

definition cli_sync_start :: "('p, 'q) cli_env \<Rightarrow> 'f eta_arith \<Rightarrow> int \<Rightarrow> wallet_accounts \<Rightarrow> bool \<Rightarrow> bool \<Rightarrow> string \<Rightarrow> string option \<Rightarrow> ('p, 'q, 'c) cli_state
    \<Rightarrow> ('p, 'q, 'c, uuid \<times> 'f sync_state) cli_result" where
  "cli_sync_start env ea now accounts finished enable_tor wallet password st =
     bind_se (wrap_password_arg password, st) (\<lambda>provided st0.
     bind_se (cli_app_state_new env enable_tor st0) (\<lambda>_ st1.
     bind_se (get_wallet_by_prefix wallet st1, st1) (\<lambda>w st2.
     bind_se (cli_load_wallet env (wi_id w) st2) (\<lambda>(info, is_open) st3.
     bind_se (if is_open then (Inr (), st3)
              else bind_se (case provided of Some p \<Rightarrow> (Inr p, st3) | None \<Rightarrow> get_password None st3) (\<lambda>p st4. cli_unlock_wallet env (wi_id w) p st4)) (\<lambda>_ st5.
     bind_se (unlocked_wallet_dek (wi_id w) (cs_manager st5), st5) (\<lambda>_ st6.
     bind_se (list_wallet_db_account_ids accounts (wi_id w) (cs_manager st6), st6) (\<lambda>_ st7.
     let we = cv_at env AtUse;
         (r, s) = start_sync ea now (resolve_grpc_url (wv_url_parser we) (wv_debug we) (wm_app_db (cs_manager st7)) (wi_network info) (wv_env_url we)) True finished (wi_id w) sync_service_new
     in bind_se (r, st7) (\<lambda>_ st8. (Inr (wi_id w, s), st8)))))))))"

definition cli_sync :: "('p, 'q) cli_env \<Rightarrow> 'f eta_arith \<Rightarrow> int \<Rightarrow> wallet_accounts \<Rightarrow> bool \<Rightarrow> (nat \<Rightarrow> sync_progress) \<Rightarrow> bool \<Rightarrow> string \<Rightarrow> string option \<Rightarrow> ('p, 'q, 'c) cli_state
    \<Rightarrow> ('p, 'q, 'c, unit) cli_result option" where
  "cli_sync env ea now accounts finished obs enable_tor wallet password st =
     (case cli_sync_start env ea now accounts finished enable_tor wallet password st of
        (Inl e, st1) \<Rightarrow> Some (Inl e, st1)
      | (Inr _, st1) \<Rightarrow> map_option (\<lambda>_. (Inr (), print_out (PMessage ''Sync complete!'') st1)) (sync_wait obs 0))"

section \<open>Lemmas\<close>

text \<open>The polling loop waits for two readings in a row that are idle, when no reading is idle with another percentage than 0.\<close>

abbreviation idle_twice :: "(nat \<Rightarrow> sync_progress) \<Rightarrow> nat \<Rightarrow> bool" where
  "idle_twice obs k \<equiv> sp_phase (obs k) = SyIdle \<and> sp_phase (obs (k + 1)) = SyIdle"

lemma sync_wait_step:
  assumes "\<forall>k. idle_is_zero (obs k)"
  shows "sync_wait obs k = (if idle_twice obs k then Some (k + 1) else if sp_phase (obs k) = SyIdle then sync_wait obs (k + 2) else sync_wait obs (k + 1))"
  using assms by (subst sync_wait.simps) (simp add: idle_is_zero_def)

lemma sync_wait_stops:
  assumes "sync_wait obs k = Some n"
  shows "\<exists>j. n = j + 1 \<and> idle_twice obs j \<or> n = j \<and> \<not> idle_is_zero (obs j)"
proof (induction rule: sync_wait.raw_induct [OF _ assms, of "\<lambda>obs k n. \<exists>j. n = j + 1 \<and> idle_twice obs j \<or> n = j \<and> \<not> idle_is_zero (obs j)"])
  case (1 wait obs k n)
  then show ?case by (auto simp: idle_is_zero_def split: if_splits)
qed

lemma sync_wait_finds:
  assumes "\<forall>k. idle_is_zero (obs k)" "idle_twice obs j" "k \<le> j"
  shows "sync_wait obs k \<noteq> None"
  using assms(3)
proof (induction "j - k" arbitrary: k rule: less_induct)
  case less
  show ?case
  proof (cases "idle_twice obs k")
    case False
    then have "k < j" using less.prems assms(2) by (metis le_neq_implies_less)
    moreover have "k + 1 \<noteq> j \<or> sp_phase (obs k) \<noteq> SyIdle" using False assms(2) by auto
    ultimately have "sp_phase (obs k) = SyIdle \<Longrightarrow> sync_wait obs (k + 2) \<noteq> None" "sync_wait obs (k + 1) \<noteq> None"
      using less.hyps [of "k + 2"] less.hyps [of "k + 1"] by auto
    then show ?thesis using False by (auto simp: sync_wait_step [OF assms(1), of k] simp del: not_None_eq)
  qed (simp add: sync_wait_step [OF assms(1), of k])
qed

lemma sync_wait_iff: "\<forall>k. idle_is_zero (obs k) \<Longrightarrow> sync_wait obs 0 \<noteq> None \<longleftrightarrow> (\<exists>j. idle_twice obs j)"
  using sync_wait_stops sync_wait_finds by (metis le0 not_None_eq)

text \<open>A reading of the progress adjusts the stored progress by the estimate and stores it; \<open>rereads ea p q\<close>: \<open>q\<close> is what repeated readings make of \<open>p\<close>.  The command reads
  the progress that was set by the start of the task, or the progress of an event that the task has emitted.\<close>

inductive rereads :: "'f eta_arith \<Rightarrow> sync_progress \<Rightarrow> sync_progress \<Rightarrow> bool" for ea p where
  rereads_none: "rereads ea p p"
| rereads_again: "rereads ea p q \<Longrightarrow> rereads ea p (fst (with_eta ea now wid q s))"

definition reads_task :: "('w, 'd, 'c, 'f) sync_env \<Rightarrow> ('w, 'd, 'f) sync_world \<Rightarrow> (nat \<Rightarrow> sync_progress) \<Rightarrow> bool" where
  "reads_task senv w obs \<longleftrightarrow>
     (\<forall>k. \<exists>n fin w' p. sync_task n senv w = Some (fin, w') \<and> (p = preparing_progress \<or> p \<in> set (sl_progress_events w')) \<and> rereads (se_eta senv) p (obs k))"

lemma rereads_idle: "rereads ea p q \<Longrightarrow> idle_is_zero p \<Longrightarrow> idle_is_zero q"
  by (induction rule: rereads.induct) (simp_all add: with_eta_idle)

lemma sync_task_idle:
  assumes "sync_task n env w = Some (fin, w')" "sl_progress_events w = []" "p \<in> set (sl_progress_events w')"
  shows "idle_is_zero p"
proof -
  obtain v where "persists (se_wallet_id env) w v" "if fin then task_removed (se_wallet_id env) v w' else w' = v"
    using sync_task_result [OF assms(1)] by auto
  then have "list_all idle_is_zero (sl_progress_events v)" "sl_progress_events w' = sl_progress_events v"
    using assms(2) by (auto simp: persists_def task_removed_def clear_job_def Let_def split: if_splits)
  with assms(3) show ?thesis by (simp add: list_all_iff)
qed

lemma reads_task_idle: "reads_task senv w obs \<Longrightarrow> sl_progress_events w = [] \<Longrightarrow> idle_is_zero (obs k)"
  unfolding reads_task_def using rereads_idle sync_task_idle idle_defaults(2) by metis


lemma no_cache_task:
  "\<exists>w' p. sync_task 0 (small_env\<lparr>se_cache_dir_ok := False\<rparr>) (small_world 1) = Some (True, w') \<and> p \<in> set (sl_progress_events w') \<and> sp_phase p = SyIdle \<and> sl_calls w' = []"
proof -
  let ?env = "small_env\<lparr>se_cache_dir_ok := False\<rparr>"
  define w0 where "w0 = bump ((small_world 1)\<lparr>sl_balance_db := se_on_balance ?env \<and> se_open_ok ?env (sl_tick (small_world 1))\<rparr>)"
  define v where "v = bump (sl_update ?env preparing_progress w0)"
  have t: "sync_task 0 ?env (small_world 1) = Some (True, clear_job ''w'' (stop_cancelled ?env v))"
    unfolding sync_task_def prepared_task_def Let_def w0_def [symmetric] v_def by (simp add: small_env_def)
  obtain p where p: "sl_progress_events (sl_update ?env default_progress (maybe_emit ?env ForcedMilestone v)) = sl_progress_events v @ [p]" "same_place default_progress p"
    using sl_update_emits [of ?env default_progress "maybe_emit ?env ForcedMilestone v"] by auto
  have "p \<in> set (sl_progress_events (clear_job ''w'' (stop_cancelled ?env v)))" "sp_phase p = SyIdle"
    using p by (simp_all add: stop_cancelled_def clear_job_def Let_def same_place_def default_progress_def)
  moreover have "sl_calls (clear_job ''w'' (stop_cancelled ?env v)) = []"
    by (simp add: clear_job_def stop_cancelled_def Let_def sl_update_keeps v_def w0_def bump_def small_world_def)
  ultimately show ?thesis using t by blast
qed

text \<open>A development build with an address of its own server, in which the command starts the sync.\<close>

definition demo_sync_env :: "(unit, unit) cli_env" where
  "demo_sync_env = demo_cli_env\<lparr>cv_at := \<lambda>pt. if pt = AtUse then demo_wallet_env\<lparr>wv_debug := True, wv_env_url := Some ''https://h''\<rparr> else demo_wallet_env\<rparr>"

lemma demo_sync_start:
  obtains m x st1 where "cli_sync_start demo_sync_env (se_eta small_env) 0 (Inr []) False False ''w'' (Some ''pw'') (demo_cli_state m [] []) = (Inr x, st1)"
proof -
  let ?wl = "new_wallet_info demo_wallet_env demo_fresh ''n'' SoftwareWallet Mainnet" and ?env = demo_wallet_env
  obtain m :: "(unit, unit) wallet_manager" where c: "list_wallets (wm_app_db m) = [?wl]" "has_secrets ?env ?wl ''pw'' (wr_dek demo_fresh) demo_words m" by (rule demo_cli_created)
  obtain st1 where st1: "cli_app_state_new demo_sync_env False (demo_cli_state m [] []) = (Inr (), st1)" by (simp add: cli_app_state_new_def demo_sync_env_def demo_cli_env_def Let_def)
  note n = new_state_ok[OF st1]
  have wl: "wi_id ?wl = ''w''" "\<not> wi_remember_unlock_enabled ?wl" by (simp_all add: new_wallet_info_def demo_fresh_def)
  have s: "has_secrets ?env ?wl ''pw'' (wr_dek demo_fresh) demo_words (cs_manager st1)"
    using c(2) has_secrets_cong[of "cs_manager st1" m] n(1,2) by (simp add: demo_cli_state_def)
  define wl' where "wl' = ?wl\<lparr>wi_last_opened_at := Some (wv_now_ms ?env)\<rparr>"
  have wl': "wi_id wl' = ''w''" "\<not> wi_remember_unlock_enabled wl'" using wl by (simp_all add: wl'_def)
  obtain m2 where m2: "load_wallet ?env (wi_id ?wl) (cs_manager st1) = (Inr (?wl, Locked), m2)" "has_secrets ?env wl' ''pw'' (wr_dek demo_fresh) demo_words m2"
    using load_with_secrets[OF s demo_healthy n(4)] unfolding wl'_def by blast
  obtain m3 where m3: "unlock_wallet ?env (wi_id wl') ''pw'' m2 = (Inr Unlocked, m3)" "wm_active m3 = Some (unlocked_wallet ?env wl' (wr_dek demo_fresh))"
    by (rule unlock_with_password[OF m2(2) demo_healthy wl'(2)])
  have g: "get_wallet_by_prefix ''w'' st1 = Inr ?wl"
    using c(1) n(1) wl(1) by (simp add: get_wallet_by_prefix_def find_wallet_by_prefix_def cli_list_wallets_def starts_with_id_def demo_cli_state_def to_lowercase_def)
  have at: "cv_at demo_sync_env AtLoad = ?env" "cv_at demo_sync_env AtUnlock = ?env"
    "cv_at demo_sync_env AtUse = ?env\<lparr>wv_debug := True, wv_env_url := Some ''https://h''\<rparr>" by (simp_all add: demo_sync_env_def)
  have url: "resolve_grpc_url demo_url_parser True db net (Some ''https://h'') = Inr ''https://h''" for db net
    by (simp add: resolve_grpc_url_def resolve_grpc_url_with_dev_override_def validate_grpc_url_def validate_grpc_url_with_policy_def scheme_allowed_def guard_or_def policy_from_build_def demo_url_parser_def trim_def trim_start_def trim_end_def is_ws_def)
  have parser: "wv_url_parser ?env = demo_url_parser" by (simp add: demo_wallet_env_def)
  have k: "unlocked_wallet_dek ''w'' m3 = Inr (wr_dek demo_fresh)" "list_wallet_db_account_ids (Inr []) ''w'' m3 = Inr []"
    using m3(2) wl'(1) by (simp_all add: unlocked_wallet_dek_def list_wallet_db_account_ids_def require_unlocked_wallet_db_def unlocked_wallet_def list_db_accounts_def List.map_filter_def)
  show ?thesis
    using st1 g m2(1) m3(1) wl(1) wl'(1) k that[of m]
    by (simp add: cli_sync_start_def wrap_password_arg_def cli_load_wallet_def cli_unlock_wallet_def manager_step_def at url parser start_sync_def sync_service_new_def Let_def)
qed


end
