(* ===== verification/App_Shell.thy ===== *)
theory App_Shell
  imports Near_Intents "HOL-Library.AList"
begin

text \<open>
  The browser of the desktop application, \<open>apps/zbag-app-tauri/src-tauri/src/lib.rs\<close>: before the window is opened, caches that earlier instances left behind are
  removed and the preferences of the browser are overwritten with a policy; after the window is closed the cache is removed.  Files are the map \<open>cw_files\<close> from paths to contents.  The
  directory listing, process table and clock, and whether a call fails, are fields of \<open>cef_env\<close>; removing a directory may leave some of its files behind (\<open>ce_keeps\<close>).
\<close>

section \<open>Paths and directories\<close>

definition path_join :: "string \<Rightarrow> string \<Rightarrow> string" where
  "path_join a b = (if a = [] then b else if last a = CHR ''/'' then a @ b else a @ ''/'' @ b)"

record dir_entry =
  de_name :: "string option"
  de_modified :: "int option"

datatype write_reply = WriteOk | WriteFailed "string option"

record cef_env =
  ce_temp_dir :: string
  ce_var :: "string \<Rightarrow> string option"
  ce_exists :: "string \<Rightarrow> bool"
  ce_keeps :: "string \<Rightarrow> string \<Rightarrow> bool"
  ce_entries :: "dir_entry list option"
  ce_now :: int
  ce_alive :: "nat \<Rightarrow> bool"
  ce_mkdir_ok :: bool
  ce_read_ok :: bool
  ce_write :: write_reply
  ce_parse :: "string \<Rightarrow> json option"
  ce_print :: "json \<Rightarrow> string option"

record cef_world =
  cw_files :: "string \<rightharpoonup> string"

definition below :: "string \<Rightarrow> string \<Rightarrow> bool" where
  "below p q \<longleftrightarrow> q = p \<or> take (length p + 1) q = p @ ''/''"

definition remove_dir_all :: "cef_env \<Rightarrow> string \<Rightarrow> cef_world \<Rightarrow> cef_world" where
  "remove_dir_all env p w = w\<lparr>cw_files := \<lambda>q. if below p q \<and> \<not> ce_keeps env p q then None else cw_files w q\<rparr>"

section \<open>Caches\<close>

text \<open>The path on Linux.\<close>

definition default_cef_cache_path :: "cef_env \<Rightarrow> string \<Rightarrow> string option" where
  "default_cef_cache_path env bundle =
     map_option (\<lambda>base. path_join (path_join base bundle) ''cef'')
       (case ce_var env ''XDG_CACHE_HOME'' of
          Some d \<Rightarrow> Some d
        | None \<Rightarrow> map_option (\<lambda>home. path_join home ''.cache'') (ce_var env ''HOME''))"

definition temp_cef_root :: "cef_env \<Rightarrow> string" where
  "temp_cef_root env = path_join (ce_temp_dir env) ''zbag-cef''"

definition cache_name :: "string \<Rightarrow> nat \<Rightarrow> nat \<Rightarrow> string" where
  "cache_name bundle pid stamp = bundle @ ''-'' @ show_nat pid @ ''-'' @ show_nat stamp"

definition cef_runtime_cache_path :: "cef_env \<Rightarrow> string \<Rightarrow> nat \<Rightarrow> nat \<Rightarrow> string" where
  "cef_runtime_cache_path env bundle pid stamp = path_join (temp_cef_root env) (cache_name bundle pid stamp)"

definition purge_legacy_cef_cache :: "cef_env \<Rightarrow> string \<Rightarrow> string \<Rightarrow> cef_world \<Rightarrow> cef_world" where
  "purge_legacy_cef_cache env bundle runtime_cache_path w =
     (case default_cef_cache_path env bundle of
        None \<Rightarrow> w
      | Some d \<Rightarrow> if d = runtime_cache_path \<or> \<not> ce_exists env d then w else remove_dir_all env d w)"

definition pid_alive :: "cef_env \<Rightarrow> string \<Rightarrow> bool" where
  "pid_alive env remainder =
     (case split_once (CHR ''-'') remainder of
        None \<Rightarrow> False
      | Some (pid_str, _) \<Rightarrow> (case parse_uint u32_max pid_str of None \<Rightarrow> False | Some pid \<Rightarrow> ce_alive env pid))"

definition purge_entry :: "cef_env \<Rightarrow> string \<Rightarrow> string \<Rightarrow> dir_entry \<Rightarrow> cef_world \<Rightarrow> cef_world" where
  "purge_entry env bundle runtime_cache_path e w =
     (case de_name e of
        None \<Rightarrow> w
      | Some name \<Rightarrow>
          let path = path_join (temp_cef_root env) name; pfx = bundle @ ''-'' in
          if path = runtime_cache_path \<or> take (length pfx) name \<noteq> pfx \<or> pid_alive env (drop (length pfx) name) then w
          else case de_modified e of
                 None \<Rightarrow> w
               | Some modified \<Rightarrow>
                   if ce_now env < modified \<or> ce_now env - modified < 60 * 10 ^ 9 then w else remove_dir_all env path w)"

definition purge_stale_temp_cef_caches :: "cef_env \<Rightarrow> string \<Rightarrow> string \<Rightarrow> cef_world \<Rightarrow> cef_world" where
  "purge_stale_temp_cef_caches env bundle runtime_cache_path w =
     (case ce_entries env of None \<Rightarrow> w | Some es \<Rightarrow> fold (purge_entry env bundle runtime_cache_path) es w)"

section \<open>The policy\<close>

type_synonym json_object = "(string \<times> json) list"

definition object_entry :: "json_object \<Rightarrow> string \<Rightarrow> json_object" where
  "object_entry obj k = (case map_of obj k of Some (JObj inner) \<Rightarrow> inner | _ \<Rightarrow> [])"

text \<open>\<open>object_entry(\<dots>(object_entry(root, k1), \<dots>), kn).insert(k, v)\<close>, with the changed objects put back.\<close>

fun put :: "string list \<Rightarrow> json \<Rightarrow> json_object \<Rightarrow> json_object" where
  "put [] v obj = obj"
| "put [k] v obj = AList.update k v obj"
| "put (k # ks) v obj = AList.update k (JObj (put ks v (object_entry obj k))) obj"

definition stale_keys :: "string list" where
  "stale_keys = [''account_tracker_service_last_update'', ''commerce_daily_metrics_last_update_time'', ''domain_diversity'', ''enterprise_profile_guid'', ''gaia_cookie'',
     ''gcm'', ''google'', ''invalidation'', ''media_router'', ''optimization_guide'', ''segmentation_platform'', ''webauthn'']"

definition policy :: "(string list \<times> json) list" where
  "policy = [([''credentials_enable_service''], JBool False), ([''enable_do_not_track''], JBool True), ([''default_apps_install_state''], JNum (PosInt 3)),
     ([''alternate_error_pages'', ''enabled''], JBool False),
     ([''autofill'', ''enabled''], JBool False), ([''autofill'', ''profile_enabled''], JBool False), ([''autofill'', ''credit_card_enabled''], JBool False),
     ([''browser'', ''enable_spellchecking''], JBool False),
     ([''dns_over_https'', ''mode''], JStr ''off''), ([''dns_over_https'', ''templates''], JStr []), ([''dns_over_https'', ''automatic_mode_fallback_to_doh''], JBool False),
     ([''net'', ''network_prediction_options''], JNum (PosInt 2)),
     ([''privacy_sandbox'', ''first_party_sets_enabled''], JBool False), ([''privacy_sandbox'', ''m1'', ''topics_enabled''], JBool False),
     ([''privacy_sandbox'', ''m1'', ''fledge_enabled''], JBool False), ([''privacy_sandbox'', ''m1'', ''ad_measurement_enabled''], JBool False),
     ([''profile'', ''password_manager_enabled''], JBool False), ([''profile'', ''password_manager_leak_detection''], JBool False),
     ([''profile'', ''network_prediction_options''], JNum (PosInt 2)),
     ([''safebrowsing'', ''enabled''], JBool False), ([''safebrowsing'', ''enhanced''], JBool False), ([''safebrowsing'', ''scout_reporting_enabled''], JBool False),
     ([''safebrowsing'', ''scout_reporting_enabled_when_deprecated''], JBool False), ([''safebrowsing'', ''deep_scanning_enabled''], JBool False),
     ([''safebrowsing'', ''surveys_enabled''], JBool False),
     ([''search'', ''suggest_enabled''], JBool False), ([''signin'', ''allowed''], JBool False),
     ([''spellcheck'', ''dictionaries''], JArr []), ([''spellcheck'', ''use_spelling_service''], JBool False),
     ([''sync'', ''requested''], JBool False), ([''translate'', ''enabled''], JBool False),
     ([''webrtc'', ''ip_handling_policy''], JStr ''disable_non_proxied_udp''), ([''webrtc'', ''multiple_routes_enabled''], JBool False),
     ([''webrtc'', ''nonproxied_udp_enabled''], JBool False)]"

definition harden :: "json_object \<Rightarrow> json_object" where
  "harden obj = fold (\<lambda>(path, v). put path v) policy (fold AList.delete stale_keys obj)"

definition preferences_path :: "string \<Rightarrow> string" where
  "preferences_path cache_path = path_join (path_join cache_path ''Default'') ''Preferences''"

definition read_preferences :: "cef_env \<Rightarrow> string option \<Rightarrow> json_object" where
  "read_preferences env content =
     (case content of
        None \<Rightarrow> []
      | Some raw \<Rightarrow> if \<not> ce_read_ok env then [] else (case ce_parse env raw of Some (JObj obj) \<Rightarrow> obj | _ \<Rightarrow> []))"

definition enforce_cef_browser_policy :: "cef_env \<Rightarrow> string \<Rightarrow> cef_world \<Rightarrow> cef_world" where
  "enforce_cef_browser_policy env cache_path w =
     (let p = preferences_path cache_path in
      if \<not> ce_mkdir_ok env then w
      else case ce_print env (JObj (harden (read_preferences env (cw_files w p)))) of
             None \<Rightarrow> w
           | Some serialized \<Rightarrow>
               (case ce_write env of
                  WriteOk \<Rightarrow> w\<lparr>cw_files := (cw_files w)(p \<mapsto> serialized)\<rparr>
                | WriteFailed None \<Rightarrow> w
                | WriteFailed (Some partial) \<Rightarrow> w\<lparr>cw_files := (cw_files w)(p \<mapsto> partial)\<rparr>))"

text \<open>What \<open>run_with_invoke_handler\<close> does before it opens the window, and after it was closed.\<close>

definition cef_start :: "cef_env \<Rightarrow> string \<Rightarrow> nat \<Rightarrow> nat \<Rightarrow> cef_world \<Rightarrow> cef_world" where
  "cef_start env bundle pid stamp w =
     (let cache = cef_runtime_cache_path env bundle pid stamp in
      enforce_cef_browser_policy env cache (purge_stale_temp_cef_caches env bundle cache (purge_legacy_cef_cache env bundle cache w)))"

definition cef_stop :: "cef_env \<Rightarrow> string \<Rightarrow> nat \<Rightarrow> nat \<Rightarrow> cef_world \<Rightarrow> cef_world" where
  "cef_stop env bundle pid stamp w = remove_dir_all env (cef_runtime_cache_path env bundle pid stamp) w"

section \<open>Settings\<close>

fun setting :: "string list \<Rightarrow> json_object \<Rightarrow> json option" where
  "setting [] obj = None"
| "setting [k] obj = map_of obj k"
| "setting (k # ks) obj = setting ks (object_entry obj k)"

text \<open>Paths of which neither leads to the other.\<close>

fun apart :: "string list \<Rightarrow> string list \<Rightarrow> bool" where
  "apart [] q = False"
| "apart p [] = False"
| "apart (a # p) (b # q) = (a \<noteq> b \<or> apart p q)"

lemma map_of_update: "map_of (AList.update k v al) j = (if j = k then Some v else map_of al j)"
  by (simp add: AList.update_conv)

lemma object_entry_update: "object_entry (AList.update k v obj) j = (if j = k then (case v of JObj o' \<Rightarrow> o' | _ \<Rightarrow> []) else object_entry obj j)"
  by (simp add: object_entry_def map_of_update split: json.split)

lemma setting_put: "p \<noteq> [] \<Longrightarrow> setting p (put p v obj) = Some v"
  by (induction p v obj rule: put.induct) (simp_all add: map_of_update object_entry_update)

lemma setting_put_apart: "apart p q \<Longrightarrow> setting p (put q v obj) = setting p obj"
proof (induction p q arbitrary: obj rule: apart.induct)
  case (3 a p b q)
  show ?case
  proof (cases "a = b")
    case True
    then have "p \<noteq> []" "q \<noteq> []" using 3(2) by (cases p; cases q; simp)+
    then show ?thesis using 3 True by (cases p; cases q) (simp_all add: object_entry_update)
  next
    case False
    then show ?thesis by (cases p; cases q) (simp_all add: object_entry_update map_of_update)
  qed
qed simp_all

fun all_apart :: "string list list \<Rightarrow> bool" where
  "all_apart [] = True"
| "all_apart (p # ps) = (p \<noteq> [] \<and> list_all (\<lambda>q. apart p q) ps \<and> all_apart ps)"

lemma setting_fold_apart: "list_all (\<lambda>q. apart p q) (map fst xs) \<Longrightarrow> setting p (fold (\<lambda>(path, v). put path v) xs obj) = setting p obj"
  by (induction xs arbitrary: obj) (auto simp: setting_put_apart)

lemma setting_fold: "all_apart (map fst xs) \<Longrightarrow> (p, v) \<in> set xs \<Longrightarrow> setting p (fold (\<lambda>(path, v). put path v) xs obj) = Some v"
proof (induction xs arbitrary: obj)
  case (Cons x xs)
  obtain q u where x: "x = (q, u)" by fastforce
  show ?case
  proof (cases "(p, v) = x")
    case True
    then show ?thesis using Cons.prems x by (simp add: setting_fold_apart setting_put)
  next
    case False
    then show ?thesis using Cons x by auto
  qed
qed simp

lemma all_apart_nonempty: "all_apart ps \<Longrightarrow> p \<in> set ps \<Longrightarrow> p \<noteq> []"
  by (induction ps) auto

lemma policy_apart: "all_apart (map fst policy)"
  by (simp add: policy_def)

lemma put_other: "p \<noteq> [] \<Longrightarrow> hd p \<noteq> k \<Longrightarrow> map_of (put p v obj) k = map_of obj k"
  by (induction p v obj rule: put.induct) (simp_all add: map_of_update)

lemma fold_put_other:
  "list_all (\<lambda>p. p \<noteq> [] \<and> hd p \<noteq> k) (map fst xs) \<Longrightarrow> map_of (fold (\<lambda>(path, v). put path v) xs obj) k = map_of obj k"
  by (induction xs arbitrary: obj) (auto simp: put_other)

lemma fold_delete: "map_of (fold AList.delete ks obj) k = (if k \<in> set ks then None else map_of obj k)"
  by (induction ks arbitrary: obj) (auto simp: AList.delete_conv)

lemma policy_keeps_stale: "k \<in> set stale_keys \<Longrightarrow> list_all (\<lambda>p. p \<noteq> [] \<and> hd p \<noteq> k) (map fst policy)"
  by (auto simp: stale_keys_def policy_def)

text \<open>An object that has a setting is not changed by putting it again.\<close>

lemma update_same: "map_of obj k = Some v \<Longrightarrow> AList.update k v obj = obj"
  by (induction obj) (auto split: if_splits)

lemma put_same: "setting p obj = Some v \<Longrightarrow> put p v obj = obj"
proof (induction p v obj rule: put.induct)
  case (3 k k' ks v obj)
  then have "map_of obj k = Some (JObj (object_entry obj k))"
    by (cases "map_of obj k") (auto simp: object_entry_def split: json.splits elim: setting.elims)
  moreover have "put (k' # ks) v (object_entry obj k) = object_entry obj k" using 3 by simp
  ultimately show ?case by (simp add: update_same)
qed (simp_all add: update_same)

lemma fold_put_same: "\<forall>(p, v) \<in> set xs. setting p obj = Some v \<Longrightarrow> fold (\<lambda>(path, v). put path v) xs obj = obj"
  by (induction xs) (auto simp: put_same)

lemma delete_same: "map_of obj k = None \<Longrightarrow> AList.delete k obj = obj"
  by (induction obj) (auto split: if_splits)

lemma fold_delete_same: "\<forall>k \<in> set ks. map_of obj k = None \<Longrightarrow> fold AList.delete ks obj = obj"
proof (induction ks)
  case (Cons k ks)
  then have "AList.delete k obj = obj" by (simp add: delete_same)
  then show ?case using Cons by simp
qed simp

lemma harden_sets: "(p, v) \<in> set policy \<Longrightarrow> setting p (harden obj) = Some v"
  unfolding harden_def by (rule setting_fold [OF policy_apart])

lemma harden_drops: "k \<in> set stale_keys \<Longrightarrow> map_of (harden obj) k = None"
  unfolding harden_def using fold_put_other [OF policy_keeps_stale] by (simp add: fold_delete)

lemma harden_keeps: "k \<notin> set stale_keys \<Longrightarrow> k \<notin> hd ` fst ` set policy \<Longrightarrow> map_of (harden obj) k = map_of obj k"
proof -
  assume k: "k \<notin> set stale_keys" "k \<notin> hd ` fst ` set policy"
  have "list_all (\<lambda>p. p \<noteq> [] \<and> hd p \<noteq> k) (map fst policy)"
    using k(2) all_apart_nonempty [OF policy_apart] by (auto simp: list_all_iff image_iff)
  from fold_put_other [OF this] k(1) show ?thesis by (simp add: harden_def fold_delete)
qed

lemma harden_idem: "harden (harden obj) = harden obj"
proof -
  have "fold AList.delete stale_keys (harden obj) = harden obj" by (rule fold_delete_same) (simp add: harden_drops)
  moreover have "fold (\<lambda>(path, v). put path v) policy (harden obj) = harden obj" by (rule fold_put_same) (auto simp: harden_sets)
  ultimately show ?thesis unfolding harden_def [of "harden obj"] by simp
qed

section \<open>Files\<close>

lemma below_iff: "below p q \<longleftrightarrow> q = p \<or> (\<exists>s. q = p @ ''/'' @ s)"
proof -
  have "\<exists>s. q = p @ ''/'' @ s" if "take (length p + 1) q = p @ ''/''"
    using that append_take_drop_id [of "length p + 1" q] by (metis append.assoc)
  then show ?thesis by (auto simp: below_def)
qed

lemma below_trans: "below a b \<Longrightarrow> below b c \<Longrightarrow> below a c"
  by (auto simp: below_iff)

text \<open>Below a directory of the cache root, the path determines the name of the directory.\<close>

lemma join_root: "\<exists>r. \<forall>b. b \<noteq> [] \<longrightarrow> path_join (temp_cef_root env) b = r @ b"
  by (auto simp: path_join_def temp_cef_root_def intro: exI [of _ "path_join (ce_temp_dir env) ''zbag-cef'' @ ''/''"])

lemma below_same_name:
  assumes "below (r @ a) q" "below (r @ b) q" "CHR ''/'' \<notin> set a" "CHR ''/'' \<notin> set b"
  shows "a = b"
proof -
  have "takeWhile (\<lambda>c. c \<noteq> CHR ''/'') (drop (length r) q) = a" if "below (r @ a) q" "CHR ''/'' \<notin> set a" for a
    using that by (auto simp: below_iff takeWhile_append)
  then show ?thesis using assms by metis
qed

lemma remove_files: "cw_files (remove_dir_all env p w) q = (if below p q \<and> \<not> ce_keeps env p q then None else cw_files w q)"
  by (simp add: remove_dir_all_def)

text \<open>Whether the purge removes an entry.\<close>

definition stale_entry :: "cef_env \<Rightarrow> string \<Rightarrow> string \<Rightarrow> dir_entry \<Rightarrow> string \<Rightarrow> bool" where
  "stale_entry env bundle runtime_cache_path e name \<longleftrightarrow>
     de_name e = Some name \<and> path_join (temp_cef_root env) name \<noteq> runtime_cache_path \<and> take (length bundle + 1) name = bundle @ ''-''
     \<and> \<not> pid_alive env (drop (length bundle + 1) name) \<and> (\<exists>t. de_modified e = Some t \<and> 60 * 10 ^ 9 \<le> ce_now env - t)"

lemma purge_entry_files:
  "cw_files (purge_entry env bundle cache e w) q =
     (if \<exists>name. stale_entry env bundle cache e name \<and> below (path_join (temp_cef_root env) name) q \<and> \<not> ce_keeps env (path_join (temp_cef_root env) name) q
      then None else cw_files w q)"
  by (auto simp: purge_entry_def stale_entry_def Let_def remove_files split: option.split)

lemma purge_entries_files:
  "cw_files (fold (purge_entry env bundle cache) es w) q =
     (if \<exists>e \<in> set es. \<exists>name. stale_entry env bundle cache e name \<and> below (path_join (temp_cef_root env) name) q \<and> \<not> ce_keeps env (path_join (temp_cef_root env) name) q
      then None else cw_files w q)"
  by (induction es arbitrary: w) (auto simp: purge_entry_files)

lemma own_alive: "pid \<le> u32_max \<Longrightarrow> ce_alive env pid \<Longrightarrow> pid_alive env (drop (length bundle + 1) (cache_name bundle pid stamp))"
proof -
  assume p: "pid \<le> u32_max" "ce_alive env pid"
  have "CHR ''-'' \<notin> set (show_nat pid)" using show_nat_digits [of "CHR ''-''" pid] by (auto simp: is_digit_def)
  then have "split_once (CHR ''-'') (show_nat pid @ ''-'' @ show_nat stamp) = Some (show_nat pid, show_nat stamp)" by (simp add: split_once_some)
  then show ?thesis using p by (simp add: pid_alive_def cache_name_def parse_uint_show)
qed

lemma cache_name_plain: "CHR ''/'' \<notin> set bundle \<Longrightarrow> CHR ''/'' \<notin> set (cache_name bundle pid stamp) \<and> cache_name bundle pid stamp \<noteq> []"
  using show_nat_digits [of "CHR ''/''"] by (auto simp: cache_name_def is_digit_def)

lemma preferences_below: "below p (preferences_path p)" if "p \<noteq> []" "last p \<noteq> CHR ''/''"
  using that by (simp add: below_iff preferences_path_def path_join_def)

lemma cache_name_inj: "cache_name bundle p s = cache_name bundle p' s' \<Longrightarrow> p = p' \<and> s = s'"
proof -
  assume e: "cache_name bundle p s = cache_name bundle p' s'"
  have d: "CHR ''-'' \<notin> set (show_nat n)" for n using show_nat_digits [of "CHR ''-''" n] by (auto simp: is_digit_def)
  have "split_once (CHR ''-'') (show_nat n @ CHR ''-'' # b) = Some (show_nat n, b)" for n b using d by (simp add: split_once_some)
  moreover have "show_nat p @ CHR ''-'' # show_nat s = show_nat p' @ CHR ''-'' # show_nat s'" using e by (simp add: cache_name_def)
  ultimately have "(show_nat p, show_nat s) = (show_nat p', show_nat s')" by (metis option.inject)
  then show ?thesis using show_nat_inj by blast
qed

lemma enforce_other: "q \<noteq> preferences_path cache \<Longrightarrow> cw_files (enforce_cef_browser_policy env cache w) q = cw_files w q"
  by (auto simp: enforce_cef_browser_policy_def Let_def split: option.split write_reply.split)

text \<open>Start-up changes a file under the directory of another name only by the purges.\<close>

lemma start_other:
  assumes "CHR ''/'' \<notin> set bundle" "name \<noteq> []" "CHR ''/'' \<notin> set name" "name \<noteq> cache_name bundle pid stamp" "below (path_join (temp_cef_root env) name) q"
  shows "cw_files (cef_start env bundle pid stamp w) q =
     cw_files (purge_stale_temp_cef_caches env bundle (cef_runtime_cache_path env bundle pid stamp) (purge_legacy_cef_cache env bundle (cef_runtime_cache_path env bundle pid stamp) w)) q"
proof -
  obtain r where r: "\<forall>b. b \<noteq> [] \<longrightarrow> path_join (temp_cef_root env) b = r @ b" using join_root by blast
  note own = cache_name_plain [OF assms(1), of pid stamp]
  have c: "cef_runtime_cache_path env bundle pid stamp = r @ cache_name bundle pid stamp" using r own by (simp add: cef_runtime_cache_path_def)
  have "last (cache_name bundle pid stamp) \<in> set (cache_name bundle pid stamp)" using own by simp
  then have "last (r @ cache_name bundle pid stamp) \<noteq> CHR ''/''" using own by (metis last_appendR)
  then have "below (r @ cache_name bundle pid stamp) (preferences_path (r @ cache_name bundle pid stamp))" using own by (intro preferences_below) simp_all
  moreover have "below (r @ name) q" using assms(2,5) r by simp
  ultimately have "q \<noteq> preferences_path (r @ cache_name bundle pid stamp)" using below_same_name [of r name q "cache_name bundle pid stamp"] own assms(3,4) by blast
  then show ?thesis by (simp add: cef_start_def Let_def c enforce_other)
qed

lemma running_cache_kept:
  assumes "CHR ''/'' \<notin> set bundle" "\<forall>es e n. ce_entries env = Some es \<longrightarrow> e \<in> set es \<longrightarrow> de_name e = Some n \<longrightarrow> n \<noteq> [] \<and> CHR ''/'' \<notin> set n"
    "ce_alive env pid'" "pid' \<le> u32_max" "(pid', stamp') \<noteq> (pid, stamp)" "below (cef_runtime_cache_path env bundle pid' stamp') q"
    "\<forall>d. default_cef_cache_path env bundle = Some d \<longrightarrow> \<not> below d q"
  shows "cw_files (cef_start env bundle pid stamp w) q = cw_files w q"
proof -
  obtain r where r: "\<forall>b. b \<noteq> [] \<longrightarrow> path_join (temp_cef_root env) b = r @ b" using join_root by blast
  let ?n = "cache_name bundle pid' stamp'" and ?c = "cef_runtime_cache_path env bundle pid stamp"
  note n = cache_name_plain [OF assms(1), of pid' stamp']
  have q: "below (r @ ?n) q" using assms(6) r n by (simp add: cef_runtime_cache_path_def)
  have legacy: "cw_files (purge_legacy_cef_cache env bundle ?c w) q = cw_files w q"
    using assms(7) by (auto simp: purge_legacy_cef_cache_def remove_files split: option.split)
  have "\<not> below (path_join (temp_cef_root env) name) q" if "ce_entries env = Some es" "e \<in> set es" "stale_entry env bundle ?c e name" for es e name
  proof
    assume b: "below (path_join (temp_cef_root env) name) q"
    have plain: "name \<noteq> []" "CHR ''/'' \<notin> set name" using assms(2) that by (auto simp: stale_entry_def)
    then have "name = ?n" using below_same_name [OF _ q, of name] b r n by simp
    moreover have "pid_alive env (drop (length bundle + 1) ?n)" using own_alive assms(3) assms(4) by blast
    ultimately show False using that(3) by (simp add: stale_entry_def)
  qed
  then have "cw_files (purge_stale_temp_cef_caches env bundle ?c (purge_legacy_cef_cache env bundle ?c w)) q = cw_files w q"
    unfolding purge_stale_temp_cef_caches_def by (cases "ce_entries env") (auto simp: legacy purge_entries_files)
  moreover have "?n \<noteq> cache_name bundle pid stamp" using cache_name_inj assms(5) by blast
  ultimately show ?thesis using start_other [OF assms(1), of ?n] n assms(6) by (simp add: cef_runtime_cache_path_def)
qed

lemma stale_cache_removed:
  assumes "CHR ''/'' \<notin> set bundle" "ce_entries env = Some es" "e \<in> set es" "stale_entry env bundle (cef_runtime_cache_path env bundle pid stamp) e name"
    "name \<noteq> []" "CHR ''/'' \<notin> set name" "below (path_join (temp_cef_root env) name) q" "\<not> ce_keeps env (path_join (temp_cef_root env) name) q"
  shows "cw_files (cef_start env bundle pid stamp w) q = None"
proof -
  have "name \<noteq> cache_name bundle pid stamp" using assms(4) by (auto simp: stale_entry_def cef_runtime_cache_path_def)
  then show ?thesis using assms start_other [OF assms(1,5,6)] by (auto simp: purge_stale_temp_cef_caches_def purge_entries_files)
qed

section \<open>Properties\<close>


text \<open>Preferences that a former version left, with predictions enabled, beside the cache of a running instance.\<close>

definition demo_cef_env :: cef_env where
  "demo_cef_env = \<lparr>ce_temp_dir = ''/tmp'', ce_var = \<lambda>_. None, ce_exists = \<lambda>_. False, ce_keeps = \<lambda>_ _. False,
     ce_entries = Some [\<lparr>de_name = Some ''z-7-1'', de_modified = Some 0\<rparr>], ce_now = 10 ^ 12, ce_alive = \<lambda>n. n = 7, ce_mkdir_ok = True, ce_read_ok = True, ce_write = WriteOk,
     ce_parse = \<lambda>_. Some (JObj [(''net'', JNull), (''gcm'', JNull), (''kept'', JBool True)]), ce_print = \<lambda>v. Some (if v = JNull then ''null'' else ''{}'')\<rparr>"

definition demo_cef_world :: cef_world where
  "demo_cef_world = \<lparr>cw_files = [''/tmp/zbag-cef/z-7-1/Default/Preferences'' \<mapsto> ''a'', ''/tmp/zbag-cef/z-9-2/Default/Preferences'' \<mapsto> ''b'']\<rparr>"


end
