(* ===== verification/Spec2Isabelle.thy ===== *)
theory Spec2Isabelle
  imports Migrations Addresses Swap Keystone Key_Store Cli_Server Cli_Bench Cli_Sync App_Shell
begin

text \<open>
  Verification development for the zbag desktop wallet, a Zcash wallet written in Rust.

  \<^bold>\<open>The program.\<close>  A Tauri application and a command line client call the engine (\<open>crates/zbag-engine\<close>).  The wallet manager
  holds the active wallet: its lock state, the data key that decrypts its database and its phrase, the
  re-authentication tokens and the backup challenges.  It calls the transaction service (proposals, sends, hardware signatures, shielding, the queue of
  transactions that could not be broadcast), the job service (sends and shieldings in the background), the sync service, the swap service and the app metadata
  database.  All traffic goes through the clients of \<open>crates/zbag-network\<close>, which ask the Tor manager of \<open>crates/zbag-tor\<close>
  for a transport and send nothing when Tor is enabled and not ready.  Shared types and error codes are in \<open>crates/zbag-core\<close>.

  \<^bold>\<open>Theories and sources\<close> (paths under \<open>crates\<close> where no other is given), from the bottom up.

  \<^item> \<open>Prelude\<close>, \<open>Decimal\<close>: results, saturating and checked machine arithmetic, ASCII strings, printing and parsing of numbers; runs of operations
    (\<open>run_ops\<close>, \<open>count_ops\<close>) and the interfaces \<open>one_shot\<close> (a store of single-use handles) and \<open>kv_table\<close> (a table with one row per key).
  \<^item> \<open>Core_Types\<close>: \<open>zbag-core/src/domain\<close>, \<open>errors.rs\<close>, \<open>zbag-engine/src/error.rs\<close>.
  \<^item> \<open>Broadcast\<close>, \<open>Reauth\<close>, \<open>Birthday\<close>, \<open>Server_Endpoint\<close>: \<open>broadcast.rs\<close>, \<open>reauth.rs\<close>, \<open>birthday.rs\<close>, and \<open>grpc_url.rs\<close> with \<open>server_resolver.rs\<close>
    and \<open>account_key_source.rs\<close>, of the engine.
  \<^item> \<open>App_Db\<close>, \<open>Migrations\<close>: \<open>zbag-engine/src/db\<close>; a table is the list of its rows, a statement keeps its keys, foreign keys and errors.
  \<^item> \<open>Tx_Queue\<close>, \<open>Tx_Service\<close>, \<open>Tx_Retry\<close>, \<open>Tx_Shield\<close>, \<open>Tx_History\<close>: \<open>tx_service.rs\<close>; the proposals and signing requests are the record \<open>tx_service\<close>,
    the files of queued transactions the record \<open>queue_dir\<close>, the tables read by the history the record \<open>history_db\<close>.
  \<^item> \<open>Job_Service\<close>: \<open>job_service.rs\<close>; a task is a program counter, a step is one access to the shared state.
  \<^item> \<open>Key_Encryption\<close>, \<open>Wallet_Manager\<close>, \<open>Wallet_Create\<close>, \<open>Wallet_Tx\<close>: \<open>encryption.rs\<close> and \<open>wallet_manager.rs\<close>; the state is the record \<open>wallet_manager\<close>,
    an operation returns its result and the state it leaves, also when it fails half-way.  \<open>Wallet_Safety\<close> puts all operations into one
    datatype \<open>wm_op\<close> with the step function \<open>wm_step\<close>.
  \<^item> \<open>Addresses\<close>: \<open>address_service.rs\<close>, \<open>balance.rs\<close>.
  \<^item> \<open>Tor_Manager\<close>: \<open>zbag-tor/src/manager.rs\<close>, a step relation over the manager and its bootstrap tasks.
  \<^item> \<open>Network_Clients\<close>, \<open>Near_Intents\<close>, \<open>Exchange_Rate\<close>: \<open>transport.rs\<close>, \<open>http_client.rs\<close>, \<open>grpc_client.rs\<close>, \<open>near_intents.rs\<close>, \<open>exchange_rate.rs\<close>
    of \<open>zbag-network\<close>; the interface \<open>fail_closed\<close> is what a client may rely on when it selects a transport.
  \<^item> \<open>Swap_Amount\<close>, \<open>Swap\<close>: \<open>swap_service.rs\<close>; refreshes and polls are split where they wait for the provider, and their halves interleave.
  \<^item> \<open>Sync\<close>, \<open>Sync_Memo\<close>, \<open>Sync_Loop\<close>, \<open>Sync_Task\<close>: \<open>sync_service.rs\<close>.  \<open>Sync\<close> has the jobs, the progress shown and the pipeline of one range, in which the download task
    and the scan loop share a bounded channel; \<open>Sync_Memo\<close> the memo enhancement with its concurrent tasks over the tables it reads and writes; \<open>Sync_Loop\<close> the
    task of a wallet from its start to its end (waiting for Tor, ranges, block cache, polling), with the answers of the server and of the wallet backend as
    parameters; \<open>Sync_Task\<close> the theorems about it.
  \<^item> \<open>Keystone\<close>: \<open>zbag-keystone/src/payload.rs\<close>, \<open>pczt.rs\<close>; the CBOR envelope byte by byte.
  \<^item> \<open>Secure_Files\<close>, \<open>Key_Store\<close>: \<open>zbag-core/src/permissions.rs\<close> over a file system in which every call may fail; the two stores of encrypted phrases,
    \<open>zbag-engine/src/key_store_keychain.rs\<close> and \<open>apps/zbag-cli/src/file_key_store.rs\<close>.
  \<^item> \<open>App_Session\<close>, \<open>App_Settings\<close>: the handlers of \<open>apps/zbag-app-tauri/src-tauri/src\<close> that combine components: \<open>wallet_logic.rs\<close> and \<open>commands\<close> (sessions, syncs, Tor) over
    the wallet manager, the sync service and the Tor manager; \<open>server_logic.rs\<close> and \<open>exchange_logic.rs\<close> over the database and the network clients.
  \<^item> \<open>App_Shell\<close>: the part of \<open>lib.rs\<close> there that prepares the embedded browser, over a map from paths to contents.
  \<^item> \<open>Cli\<close>, \<open>Cli_Server\<close>, \<open>Cli_Bench\<close>, \<open>Cli_Sync\<close>: the command line client, \<open>apps/zbag-cli/src\<close>.  A command is a function on the record \<open>cli_state\<close> (what is stored, the Tor manager of the process,
    the answers typed at the terminal and what was printed); it starts with \<open>cli_app_state_new\<close>, which keeps the stored part only.

  \<^bold>\<open>What is shown.\<close>

  \<^item> Spending.  Operations that move money or show the phrase succeed at most once per confirmed password (\<open>one_shot\<close>, interpreted on the token table, on the
    proposals and signing requests and on the whole manager); a locked wallet lets nothing succeed that needs its key; sending is guarded by backup,
    account type, balance and privacy checks.
  \<^item> No transaction is lost.  A built transaction is broadcast or queued; a queued one survives a restart and decrypts to what was queued; the retry loop ends
    and records its attempts; shielding spends every input at most once; a cancelled job does not broadcast; a job run outside the lock of the manager
    agrees with the operation inside it.  The history offers a retry exactly for what is in the queue, and its pages neither skip nor repeat a transaction.
  \<^item> Secrets.  The phrase of a created wallet can be viewed again with the password; parameters of the stored key are bounded before use; a backup is confirmed
    only by the words asked for, with at most five wrong guesses; an encrypted phrase stays stored until it is deleted, in both stores; a file is replaced as a whole
    or not at all, and is private at every moment.
  \<^item> Privacy.  With Tor enabled nothing leaves the process outside Tor, and disabling Tor is final; endpoints of a release build use https; rates are requested
    only after the privacy notice was acknowledged; the embedded browser starts with its privacy policy and without the caches of ended instances.
  \<^item> Addresses and swaps.  Receive addresses never repeat; amounts of swaps are exact; a payment for a swap is always accompanied by its
    stored record; stored swaps keep their identity under interleaved refreshes and polls.
  \<^item> Synchronisation and rates.  A range that is left as complete was scanned without gaps; a wallet is reported as caught up only when no range is left to scan; the task
    polls every 20 to 300 seconds, ends once it is cancelled and leaves no trace of its job; memos are only added; balance events report changes; automatic
    requests for rates are spaced.
  \<^item> Application.  When wallets are switched by loading them, only the active, unlocked wallet is synced; the server commands keep every network usable that was.
  \<^item> Command line.  A command spends nothing without the password of the wallet and the consent of the user; the phrase shown at creation is shown again by a later process that starts
    from the files; the server commands have the results of those of the application (\<open>agree\<close>); the benchmark returns, and each of its runs requests every block of the range once.
  \<^item> Storage.  One default server per network; failed migrations restore the database; payloads for the Keystone device read back as they were written.
  \<^item> Deviations.  Some theorems exhibit behaviour the code does not intend: races of \<open>cancel_job\<close>, \<open>clear_finished_jobs\<close> over all wallets, birthdays beyond
    checkpoints, whole amounts of ZEC read as zatoshis, a sync that hangs after a reorganisation, a delay that successful requests reset, a Keystone payload
    that makes the decoder panic, the sync of the old wallet that goes on after a wallet is created, a flag \<open>--tor\<close> that never leads to Tor, an unlock that is
    forgotten by the next command, and a \<open>sync\<close> command that does not return after a successful sync.

  \<^bold>\<open>Parameters.\<close>  Third-party code is an argument: the Zcash libraries (keys, proving, note selection, the wallet database), Argon2id and XChaCha20-Poly1305, SQLite failures,
  the file system, the URL and JSON crates, Arti, the network, the clock and the random generator.  A theorem that needs something of them says so in its hypotheses
  (decryption inverts encryption under the same key and associated data, for instance), and its witness gives an instance.

  \<^bold>\<open>Bounds and termination.\<close>  Loops are structural or have a measure: the retry loop the remaining budget of seven attempts, address candidates the 1000 of the source,
  block downloads the remaining retries.  No fuel is added to a loop of the source: the removal of dust inputs, which asks a third-party strategy, is a partial function
  whose not returning is \<open>None\<close>, and it is shown to return for every strategy that names inputs it was given.  The waiting for Tor and the pass
  over the ranges are partial functions too, and the polling loop of the sync task is cut after a number of iterations; the task is shown to return within some number once it is
  cancelled, if its downloads end.  The loop of the benchmark is a partial function that is shown to return always; the waiting loop of the \<open>sync\<close> command is one for which it is shown when it returns.
  Machine integers are naturals and integers with saturation, clamping or wrap-around written out; batches of shielding inputs have 200 elements and the channel of the
  sync pipeline four, as in the source.  Floating-point arithmetic is exact (jitter) or a parameter (estimates, prices).

  \<^bold>\<open>Not modelled.\<close>  SQLCipher and the zeroisation of secrets; the handlers of the application that only pass a call on, its windows, menus, switches of the browser and test bridge, which call the
  Tauri runtime; the parsing of arguments, the layout of printed tables and the progress bars of the command line client; the developer tools.  Log output and the handlers of events are left out, except
  that the theories keep the events a theorem speaks of.  The cooldown of the exchange rates is checked and stamped in one step, where the source takes its lock twice, and
  a handler of the application is one step, since it holds the lock of the wallet manager.
\<close>

end
